(* ===== verification/Prelude.thy ===== *)
theory Prelude
  imports Main "HOL-Library.Word"
begin

text \<open>
  What the component theories share: the names of the machine integer types, the
  collections of simplification rules, the textual formats the program prints and parses
  through the C++ standard library (two-digit hexadecimal, decimal, \<open>std::stoull\<close> and its
  kin), the little-endian byte images of integers, and generic facts about lists and about
  association lists, which model the program's hash maps (the order of the list is the
  iteration order, which the standard leaves open).
\<close>

unbundle bit_operations_syntax

named_theorems text_simps \<open>evaluation of printed text\<close>
named_theorems assoc_simps \<open>association lists used as hash maps\<close>

type_synonym u8 = "8 word"
type_synonym u16 = "16 word"
type_synonym u32 = "32 word"
type_synonym u64 = "64 word"
type_synonym bytes = "u8 list"

lemma word_of_nat_unat: "(word_of_nat (unat w) :: 'a::len word) = w"
  by simp

lemma unat_u64_of_nat: "n < 2 ^ 64 \<Longrightarrow> unat (word_of_nat n :: u64) = n"
  by (simp add: unat_of_nat)

lemma u64_of_nat_inj: "m < 2 ^ 64 \<Longrightarrow> n < 2 ^ 64 \<Longrightarrow> (word_of_nat m :: u64) = word_of_nat n \<longleftrightarrow> m = n"
  by (metis unat_u64_of_nat)

lemma unat_u64_less: "unat (w :: u64) < 2 ^ 64"
  using unsigned_less [of w] by simp

section \<open>Hexadecimal digits\<close>

definition hex_digit :: "nat \<Rightarrow> char" where
  "hex_digit n = char_of (if n < 10 then 48 + n else 87 + n)"

definition hex_val :: "char \<Rightarrow> nat option" where
  "hex_val c =
     (let n = of_char c :: nat
      in if 48 \<le> n \<and> n \<le> 57 then Some (n - 48)
         else if 97 \<le> n \<and> n \<le> 102 then Some (n - 87)
         else if 65 \<le> n \<and> n \<le> 70 then Some (n - 55)
         else None)"

definition isxdigit :: "char \<Rightarrow> bool" where
  "isxdigit c \<longleftrightarrow> hex_val c \<noteq> None"

lemma of_char_hex_digit: "n < 16 \<Longrightarrow> (of_char (hex_digit n) :: nat) = (if n < 10 then 48 + n else 87 + n)"
  by (simp add: hex_digit_def)

lemma hex_val_hex_digit [simp]: "n < 16 \<Longrightarrow> hex_val (hex_digit n) = Some n"
  by (auto simp: hex_val_def of_char_hex_digit Let_def)

lemma isxdigit_hex_digit [simp]: "n < 16 \<Longrightarrow> isxdigit (hex_digit n)"
  by (simp add: isxdigit_def)

lemma hex_val_less: "hex_val c = Some v \<Longrightarrow> v < 16"
  by (auto simp: hex_val_def Let_def split: if_splits)

text \<open>\<open>oss << std::hex << std::setw(2) << std::setfill('0') << int(b)\<close>.\<close>

definition hex2 :: "u8 \<Rightarrow> string" where
  "hex2 b = [hex_digit (unat b div 16), hex_digit (unat b mod 16)]"

definition hex_string :: "bytes \<Rightarrow> string" where
  "hex_string bs = concat (map hex2 bs)"

lemma unat_u8_less: "unat (b :: u8) < 256"
  using unsigned_less [of b] by simp

lemma u8_nibbles [simp]: "unat (b :: u8) div 16 < 16" "unat (b :: u8) mod 16 < 16"
  using unat_u8_less [of b] by auto

lemma length_hex2 [simp]: "length (hex2 b) = 2"
  by (simp add: hex2_def)

lemma length_hex_string [simp]: "length (hex_string bs) = 2 * length bs"
  by (induction bs) (simp_all add: hex_string_def)

lemma hex_string_append [simp]: "hex_string (xs @ ys) = hex_string xs @ hex_string ys"
  by (simp add: hex_string_def)

lemma hex_string_Nil [simp]: "hex_string [] = []"
  and hex_string_Cons: "hex_string (b # bs) = hex2 b @ hex_string bs"
  by (simp_all add: hex_string_def)

lemma set_hex2: "c \<in> set (hex2 b) \<Longrightarrow> isxdigit c"
  by (auto simp: hex2_def)

lemma set_hex_string: "c \<in> set (hex_string bs) \<Longrightarrow> isxdigit c"
  by (induction bs) (auto simp: hex_string_Cons dest: set_hex2)

lemma inj_hex2: "hex2 a = hex2 b \<Longrightarrow> a = b"
proof -
  assume eq: "hex2 a = hex2 b"
  then have "hex_val (hex_digit (unat a div 16)) = hex_val (hex_digit (unat b div 16))"
    and "hex_val (hex_digit (unat a mod 16)) = hex_val (hex_digit (unat b mod 16))"
    by (simp_all add: hex2_def)
  then have "unat a div 16 = unat b div 16" and "unat a mod 16 = unat b mod 16"
    by simp_all
  then have "unat a = unat b"
    by (metis div_mult_mod_eq)
  then show ?thesis by (simp add: word_unat_eq_iff)
qed

section \<open>Decimal printing\<close>

text \<open>\<open>oss << n\<close> and \<open>std::to_string(n)\<close> of an unsigned integer, and of a signed one.\<close>

fun dec_digits :: "nat \<Rightarrow> string" where
  "dec_digits n =
     (if n < 10 then [char_of (48 + n)] else dec_digits (n div 10) @ [char_of (48 + n mod 10)])"

declare dec_digits.simps [simp del]

definition dec_int :: "int \<Rightarrow> string" where
  "dec_int i = (if i < 0 then CHR ''-'' # dec_digits (nat (- i)) else dec_digits (nat i))"

definition is_digit :: "char \<Rightarrow> bool" where
  "is_digit c \<longleftrightarrow> 48 \<le> (of_char c :: nat) \<and> (of_char c :: nat) \<le> 57"

lemma dec_digits_nonempty [simp]: "dec_digits n \<noteq> []"
  by (subst dec_digits.simps) simp

lemma is_digit_dec_digits: "c \<in> set (dec_digits n) \<Longrightarrow> is_digit c"
proof (induction n rule: dec_digits.induct)
  case (1 n)
  show ?case
  proof (cases "n < 10")
    case True
    with 1 show ?thesis by (subst (asm) dec_digits.simps) (simp add: is_digit_def)
  next
    case False
    have "c \<in> set (dec_digits (n div 10)) \<or> c = char_of (48 + n mod 10)"
      using "1.prems" False by (subst (asm) dec_digits.simps) auto
    then show ?thesis
      using "1.IH" False by (auto simp: is_digit_def)
  qed
qed

section \<open>Decimal and hexadecimal parsing\<close>

text \<open>
  \<open>strto\<close> is the common core of \<open>strtoull\<close>, \<open>strtoul\<close>, \<open>strtoll\<close> and \<open>strtol\<close>: skip white
  space, an optional sign, for base 16 an optional \<open>0x\<close> that is followed by a digit, then the
  longest run of digits. \<open>None\<close> is "no conversion", on which the \<open>std::sto*\<close> functions throw
  \<open>invalid_argument\<close>; the result carries the sign and the magnitude, and each caller applies
  its own range check (\<open>out_of_range\<close>).
\<close>

definition is_space :: "char \<Rightarrow> bool" where
  "is_space c \<longleftrightarrow> (of_char c :: nat) \<in> {9, 10, 11, 12, 13, 32}"

definition digit_val :: "nat \<Rightarrow> char \<Rightarrow> nat option" where
  "digit_val base c = (case hex_val c of None \<Rightarrow> None | Some v \<Rightarrow> if v < base then Some v else None)"

fun take_digits :: "nat \<Rightarrow> nat \<Rightarrow> string \<Rightarrow> nat" where
  "take_digits base acc [] = acc"
| "take_digits base acc (c # cs) =
     (case digit_val base c of None \<Rightarrow> acc | Some v \<Rightarrow> take_digits base (acc * base + v) cs)"

fun skip_0x :: "nat \<Rightarrow> string \<Rightarrow> string" where
  "skip_0x base (c0 # c1 # c2 # cs) =
     (if base = 16 \<and> c0 = CHR ''0'' \<and> c1 \<in> {CHR ''x'', CHR ''X''} \<and> digit_val base c2 \<noteq> None
      then c2 # cs else c0 # c1 # c2 # cs)"
| "skip_0x base s = s"

definition strto_unsigned :: "nat \<Rightarrow> string \<Rightarrow> nat option" where
  "strto_unsigned base s =
     (case skip_0x base s of [] \<Rightarrow> None
         | c # cs \<Rightarrow> (case digit_val base c of None \<Rightarrow> None | Some v \<Rightarrow> Some (take_digits base v cs)))"

definition strto :: "nat \<Rightarrow> string \<Rightarrow> (bool \<times> nat) option" where
  "strto base s =
     (case dropWhile is_space s of
        [] \<Rightarrow> None
      | c # cs \<Rightarrow>
          if c = CHR ''-'' then map_option (Pair True) (strto_unsigned base cs)
          else if c = CHR ''+'' then map_option (Pair False) (strto_unsigned base cs)
          else map_option (Pair False) (strto_unsigned base (c # cs)))"

text \<open>\<open>std::stoull\<close> and \<open>std::stoul\<close> (64-bit \<open>unsigned long\<close>): a minus sign negates modulo 2^64.\<close>

definition stoull :: "nat \<Rightarrow> string \<Rightarrow> nat option" where
  "stoull base s =
     (case strto base s of None \<Rightarrow> None
      | Some (neg, m) \<Rightarrow>
          if 2 ^ 64 \<le> m then None else Some (if neg then (2 ^ 64 - m) mod 2 ^ 64 else m))"

text \<open>\<open>std::stoll\<close> (64-bit) and \<open>std::stoi\<close> (32-bit).\<close>

definition sto_signed :: "nat \<Rightarrow> nat \<Rightarrow> string \<Rightarrow> int option" where
  "sto_signed bits base s =
     (case strto base s of None \<Rightarrow> None
      | Some (neg, m) \<Rightarrow>
          (let v = (if neg then - int m else int m)
           in if - (2 ^ (bits - 1)) \<le> v \<and> v < 2 ^ (bits - 1) then Some v else None))"

lemma digit_val_dec [simp]: "d < 10 \<Longrightarrow> digit_val 10 (char_of (48 + d)) = Some d"
  by (simp add: digit_val_def hex_val_def Let_def)

lemma take_digits_append:
  "(\<And>c. c \<in> set xs \<Longrightarrow> digit_val base c \<noteq> None) \<Longrightarrow>
   take_digits base acc (xs @ ys) = take_digits base (take_digits base acc xs) ys"
  by (induction xs arbitrary: acc) (fastforce split: option.splits)+

lemma skip_0x_10 [simp]: "skip_0x 10 s = s"
  by (cases "(10 :: nat, s)" rule: skip_0x.cases) auto

lemma is_digit_digit_val: "is_digit c \<Longrightarrow> digit_val 10 c = Some (of_char c - 48)"
  by (auto simp: is_digit_def digit_val_def hex_val_def Let_def)

lemma take_digits_dec: "take_digits 10 0 (dec_digits n) = n"
proof (induction n rule: dec_digits.induct)
  case (1 n)
  show ?case
  proof (cases "n < 10")
    case True
    then show ?thesis by (subst dec_digits.simps) simp
  next
    case False
    then have "take_digits 10 0 (dec_digits (n div 10)) = n div 10"
      using 1 by simp
    moreover have "digit_val 10 (char_of (48 + n mod 10)) = Some (n mod 10)"
      by simp
    ultimately show ?thesis
      using False
      by (subst dec_digits.simps)
         (simp add: take_digits_append is_digit_digit_val is_digit_dec_digits)
  qed
qed

lemma take_digits_stop:
  "(\<And>c. c \<in> set xs \<Longrightarrow> is_digit c) \<Longrightarrow> (case ys of [] \<Rightarrow> True | y # _ \<Rightarrow> digit_val 10 y = None) \<Longrightarrow>
   take_digits 10 acc (xs @ ys) = take_digits 10 acc xs"
  by (cases ys) (auto simp: take_digits_append is_digit_digit_val)

lemma is_digit_facts: "is_digit c \<Longrightarrow> \<not> is_space c \<and> c \<noteq> CHR ''-'' \<and> c \<noteq> CHR ''+''"
  by (auto simp: is_digit_def is_space_def)

lemma strto_unsigned_dec: "strto_unsigned 10 (dec_digits n) = Some n"
proof -
  obtain c cs where cs: "dec_digits n = c # cs"
    by (cases "dec_digits n") auto
  then have "is_digit c"
    by (auto intro: is_digit_dec_digits [of c n])
  moreover have "take_digits 10 0 (c # cs) = n"
    using take_digits_dec [of n] cs by simp
  ultimately show ?thesis
    using cs by (simp add: strto_unsigned_def is_digit_digit_val)
qed

lemma strto_dec: "strto 10 (dec_digits n) = Some (False, n)"
proof -
  obtain c cs where cs: "dec_digits n = c # cs"
    by (cases "dec_digits n") auto
  then have "is_digit c"
    by (auto intro: is_digit_dec_digits [of c n])
  then show ?thesis
    using cs strto_unsigned_dec [of n] by (auto simp: strto_def dest: is_digit_facts)
qed

lemma strto_dec_neg: "strto 10 (CHR ''-'' # dec_digits n) = Some (True, n)"
  by (simp add: strto_def is_space_def strto_unsigned_dec)

lemma stoull_dec [simp]: "n < 2 ^ 64 \<Longrightarrow> stoull 10 (dec_digits n) = Some n"
  by (simp add: stoull_def strto_dec)

lemma stoull_Nil [simp]: "stoull base [] = None"
  by (simp add: stoull_def strto_def)

lemma sto_signed_dec [simp]:
  "- (2 ^ (bits - 1)) \<le> i \<Longrightarrow> i < 2 ^ (bits - 1) \<Longrightarrow> sto_signed bits 10 (dec_int i) = Some i"
  by (auto simp: sto_signed_def dec_int_def strto_dec strto_dec_neg Let_def)

section \<open>Searching\<close>

text \<open>\<open>std::string::find\<close>: the rest of the text from the first match on.\<close>

fun find_sub :: "string \<Rightarrow> string \<Rightarrow> string option" where
  "find_sub pat [] = (if pat = [] then Some [] else None)"
| "find_sub pat (c # s) =
     (if take (length pat) (c # s) = pat then Some (c # s) else find_sub pat s)"

definition contains_text :: "string \<Rightarrow> string \<Rightarrow> bool" where
  "contains_text pat s \<longleftrightarrow> find_sub pat s \<noteq> None"

lemma find_sub_iff: "find_sub pat s \<noteq> None \<longleftrightarrow> (\<exists>pre post. s = pre @ pat @ post)"
proof (induction s)
  case Nil
  then show ?case by simp
next
  case (Cons c s)
  show ?case
  proof (cases "take (length pat) (c # s) = pat")
    case True
    then have "c # s = [] @ pat @ drop (length pat) (c # s)"
      by (metis append_Nil append_take_drop_id)
    then show ?thesis using True by (auto simp del: append_Nil)
  next
    case False
    then have "(\<exists>pre post. c # s = pre @ pat @ post) \<longleftrightarrow> (\<exists>pre post. s = pre @ pat @ post)"
      by (auto simp: Cons_eq_append_conv intro: exI [of _ "_ # _"])
    then show ?thesis using False Cons.IH by simp
  qed
qed

section \<open>Division towards zero\<close>

text \<open>Signed integer division and \<open>duration_cast\<close>, for a positive divisor.\<close>

definition trunc_div :: "int \<Rightarrow> int \<Rightarrow> int" where
  "trunc_div a b = sgn a * (\<bar>a\<bar> div b)"

section \<open>Little-endian byte images\<close>

fun nat_to_le :: "nat \<Rightarrow> nat \<Rightarrow> bytes" where
  "nat_to_le 0 k = []"
| "nat_to_le (Suc n) k = word_of_nat (k mod 256) # nat_to_le n (k div 256)"

fun le_to_nat :: "bytes \<Rightarrow> nat" where
  "le_to_nat [] = 0"
| "le_to_nat (b # bs) = unat b + 256 * le_to_nat bs"

lemma length_nat_to_le [simp]: "length (nat_to_le n k) = n"
  by (induction n arbitrary: k) auto

lemma le_to_nat_to_le: "le_to_nat (nat_to_le n k) = k mod 256 ^ n"
proof (induction n arbitrary: k)
  case 0
  then show ?case by simp
next
  case (Suc n)
  have "k mod 256 ^ Suc n = k mod 256 + 256 * (k div 256 mod 256 ^ n)"
    by (simp add: mod_mult2_eq mult.commute add.commute)
  moreover have "unat (word_of_nat (k mod 256) :: u8) = k mod 256"
    by (simp add: unat_of_nat)
  ultimately show ?case
    using Suc by simp
qed

text \<open>Files hold bytes, \<open>std::string\<close> holds characters: the two are the same octets.\<close>

definition text_bytes :: "string \<Rightarrow> bytes" where
  "text_bytes s = map (\<lambda>c. word_of_nat (of_char c)) s"

definition bytes_text :: "bytes \<Rightarrow> string" where
  "bytes_text bs = map (\<lambda>b. char_of (unat b)) bs"

lemma bytes_text_bytes [simp]: "bytes_text (text_bytes s) = s"
proof -
  have "unat (word_of_nat (of_char c) :: u8) = of_char c" for c
    by (simp add: unat_of_nat)
  then show ?thesis
    by (simp add: bytes_text_def text_bytes_def comp_def)
qed

lemma length_text_bytes [simp]: "length (text_bytes s) = length s"
  by (simp add: text_bytes_def)

section \<open>Association lists as hash maps\<close>

fun al_find :: "('k \<times> 'v) list \<Rightarrow> 'k \<Rightarrow> 'v option" where
  "al_find [] k = None"
| "al_find ((k', v) # m) k = (if k' = k then Some v else al_find m k)"

fun al_update :: "'k \<Rightarrow> 'v \<Rightarrow> ('k \<times> 'v) list \<Rightarrow> ('k \<times> 'v) list" where
  "al_update k v [] = [(k, v)]"
| "al_update k v ((k', v') # m) = (if k' = k then (k, v) # m else (k', v') # al_update k v m)"

definition al_erase :: "'k \<Rightarrow> ('k \<times> 'v) list \<Rightarrow> ('k \<times> 'v) list" where
  "al_erase k m = filter (\<lambda>p. fst p \<noteq> k) m"

definition al_keys :: "('k \<times> 'v) list \<Rightarrow> 'k set" where
  "al_keys m = fst ` set m"

definition al_distinct :: "('k \<times> 'v) list \<Rightarrow> bool" where
  "al_distinct m \<longleftrightarrow> distinct (map fst m)"

lemma al_find_update [assoc_simps]:
  "al_find (al_update k v m) k' = (if k' = k then Some v else al_find m k')"
  by (induction k v m rule: al_update.induct) auto

lemma al_find_erase [assoc_simps]:
  "al_find (al_erase k m) k' = (if k' = k then None else al_find m k')"
  by (induction m) (auto simp: al_erase_def)

lemma al_find_None_iff [assoc_simps]: "al_find m k = None \<longleftrightarrow> k \<notin> al_keys m"
  by (induction m k rule: al_find.induct) (auto simp: al_keys_def)

lemma al_find_Some_in: "al_find m k = Some v \<Longrightarrow> (k, v) \<in> set m"
  by (induction m k rule: al_find.induct) (auto split: if_splits)

lemma al_keys_simps [simp]:
  "al_keys [] = {}" "al_keys ((k, v) # m) = insert k (al_keys m)"
  by (auto simp: al_keys_def)

lemma al_keys_update [assoc_simps]: "al_keys (al_update k v m) = insert k (al_keys m)"
  by (induction k v m rule: al_update.induct) auto

lemma al_keys_erase [assoc_simps]: "al_keys (al_erase k m) = al_keys m - {k}"
  by (auto simp: al_keys_def al_erase_def)

lemma al_distinct_simps [simp]:
  "al_distinct []" "al_distinct ((k, v) # m) \<longleftrightarrow> k \<notin> al_keys m \<and> al_distinct m"
  by (auto simp: al_distinct_def al_keys_def)

lemma set_al_update: "x \<in> set (al_update k v m) \<Longrightarrow> x = (k, v) \<or> x \<in> set m"
  by (induction k v m rule: al_update.induct) (auto split: if_splits)

lemma al_update_again [simp]: "al_update k v (al_update k w m) = al_update k v m"
  by (induction k w m rule: al_update.induct) auto

lemma al_distinct_update [assoc_simps]: "al_distinct m \<Longrightarrow> al_distinct (al_update k v m)"
  by (induction k v m rule: al_update.induct) (auto simp: al_keys_update)

lemma al_distinct_filter [assoc_simps]: "al_distinct m \<Longrightarrow> al_distinct (filter P m)"
  by (simp add: al_distinct_def distinct_map_filter)

lemma al_distinct_erase [assoc_simps]: "al_distinct m \<Longrightarrow> al_distinct (al_erase k m)"
  by (simp add: al_erase_def al_distinct_filter)

lemma al_find_in_distinct: "al_distinct m \<Longrightarrow> (k, v) \<in> set m \<Longrightarrow> al_find m k = Some v"
  by (induction m k rule: al_find.induct) (force simp: al_keys_def)+

lemma al_find_filter:
  "al_distinct m \<Longrightarrow>
   al_find (filter P m) k = (case al_find m k of None \<Rightarrow> None | Some v \<Rightarrow> if P (k, v) then Some v else None)"
  by (induction m k rule: al_find.induct)
     (auto simp: al_find_None_iff al_keys_def split: option.splits dest: al_find_Some_in)

lemma length_al_update: "length (al_update k v m) = (if k \<in> al_keys m then length m else Suc (length m))"
  by (induction k v m rule: al_update.induct) auto

lemma length_al_erase_le: "length (al_erase k m) \<le> length m"
  by (simp add: al_erase_def)

lemma length_al_erase_less: "k \<in> al_keys m \<Longrightarrow> length (al_erase k m) < length m"
  by (auto simp: al_keys_def al_erase_def intro!: length_filter_less)

section \<open>Lists\<close>

lemma filter_count_True: "length (filter id bs) = count_list bs True"
  by (induction bs) auto

lemma count_list_True_le: "count_list bs True \<le> length bs"
  by (induction bs) auto

lemma count_list_True_eq_length: "count_list bs True = length bs \<longleftrightarrow> (\<forall>i < length bs. bs ! i)"
proof (induction bs)
  case Nil
  then show ?case by simp
next
  case (Cons b bs)
  have "(\<forall>i < length (b # bs). (b # bs) ! i) \<longleftrightarrow> b \<and> (\<forall>i < length bs. bs ! i)"
    by (auto simp: nth_Cons split: nat.splits)
  then show ?case
    using Cons count_list_True_le [of bs] by (cases b) auto
qed

lemma count_list_True_update:
  "i < length bs \<Longrightarrow> \<not> bs ! i \<Longrightarrow> count_list (bs[i := True]) True = Suc (count_list bs True)"
  by (induction bs arbitrary: i) (auto simp: nth_Cons split: nat.splits)

end
