(* ===== verification/Transfer_Id.thy ===== *)
theory Transfer_Id
  imports Prelude "HOL-Library.List_Lexorder"
begin

text \<open>
  \<open>transfer_id\<close> (core/chunk_types.h, core/transfer_id.cpp): a 16-byte UUID, its generation
  from two 64-bit random numbers, its textual form and the parser of that form. The
  \<open>std::array<uint8_t, 16>\<close> is a byte list of length 16 (\<open>wf_id\<close>). The random engine is not
  modelled: its two draws are arguments of \<open>generate\<close>.
\<close>

datatype transfer_id = Transfer_Id (id_bytes: bytes)

definition wf_id :: "transfer_id \<Rightarrow> bool" where
  "wf_id i \<longleftrightarrow> length (id_bytes i) = 16"

definition null_id :: transfer_id where
  "null_id = Transfer_Id (replicate 16 0)"

definition is_null :: "transfer_id \<Rightarrow> bool" where
  "is_null i \<longleftrightarrow> (\<forall>b \<in> set (id_bytes i). b = 0)"

text \<open>\<open>operator<\<close> compares the arrays, which is lexicographic.\<close>

instantiation transfer_id :: linorder
begin

definition less_eq_transfer_id :: "transfer_id \<Rightarrow> transfer_id \<Rightarrow> bool" where
  "a \<le> b \<longleftrightarrow> id_bytes a \<le> id_bytes b"

definition less_transfer_id :: "transfer_id \<Rightarrow> transfer_id \<Rightarrow> bool" where
  "a < b \<longleftrightarrow> id_bytes a < id_bytes b"

instance
  by intro_classes
     (auto simp: less_eq_transfer_id_def less_transfer_id_def transfer_id.expand)

end

section \<open>Generation\<close>

text \<open>The byte fill of the loop, then the version and variant bits of RFC 4122.\<close>

definition fill_bytes :: "u64 \<Rightarrow> u64 \<Rightarrow> bytes" where
  "fill_bytes part1 part2 =
     map (\<lambda>i. ucast (drop_bit (i * 8) part1 AND 255)) [0..<8] @
     map (\<lambda>i. ucast (drop_bit (i * 8) part2 AND 255)) [0..<8]"

definition generate :: "u64 \<Rightarrow> u64 \<Rightarrow> transfer_id" where
  "generate part1 part2 =
     (let bs = fill_bytes part1 part2;
          bs = bs[6 := (bs ! 6 AND 15) OR 64];
          bs = bs[8 := (bs ! 8 AND 63) OR 128]
      in Transfer_Id bs)"

lemma length_fill_bytes [simp]: "length (fill_bytes p q) = 16"
  by (simp add: fill_bytes_def)

lemma wf_generate [simp]: "wf_id (generate p q)"
  by (simp add: generate_def wf_id_def Let_def)

lemma version_nibble: "drop_bit 4 (((b :: u8) AND 15) OR 64) = 4"
proof (rule bit_word_eqI)
  fix n :: nat
  assume "n < LENGTH(8)"
  then have "n \<in> {0, 1, 2, 3, 4, 5, 6, 7}" by auto
  then show "bit (drop_bit 4 ((b AND 15) OR 64)) n \<longleftrightarrow> bit (4 :: u8) n"
    by (auto simp: bit_simps bit_numeral_rec)
qed

lemma variant_bits: "drop_bit 6 (((b :: u8) AND 63) OR 128) = 2"
proof (rule bit_word_eqI)
  fix n :: nat
  assume "n < LENGTH(8)"
  then have "n \<in> {0, 1, 2, 3, 4, 5, 6, 7}" by auto
  then show "bit (drop_bit 6 ((b AND 63) OR 128)) n \<longleftrightarrow> bit (2 :: u8) n"
    by (auto simp: bit_simps bit_numeral_rec)
qed

section \<open>Printing\<close>

definition sub_bytes :: "nat \<Rightarrow> nat \<Rightarrow> 'a list \<Rightarrow> 'a list" where
  "sub_bytes i j bs = take (j - i) (drop i bs)"

definition id_to_string :: "transfer_id \<Rightarrow> string" where
  "id_to_string i =
     hex_string (sub_bytes 0 4 (id_bytes i)) @ ''-'' @
     hex_string (sub_bytes 4 6 (id_bytes i)) @ ''-'' @
     hex_string (sub_bytes 6 8 (id_bytes i)) @ ''-'' @
     hex_string (sub_bytes 8 10 (id_bytes i)) @ ''-'' @
     hex_string (sub_bytes 10 16 (id_bytes i))"

section \<open>Parsing\<close>

text \<open>The first loop: drop dashes, refuse what is no hexadecimal digit.\<close>

fun strip_dashes :: "string \<Rightarrow> string option" where
  "strip_dashes [] = Some []"
| "strip_dashes (c # cs) =
     (if c = CHR ''-'' then strip_dashes cs
      else if \<not> isxdigit c then None
      else map_option (Cons c) (strip_dashes cs))"

text \<open>
  The second loop: \<open>std::stoul(hex_str.substr(i * 2, 2), nullptr, 16)\<close>, which cannot throw
  on two hexadecimal digits.
\<close>

fun parse_hex_pairs :: "string \<Rightarrow> bytes" where
  "parse_hex_pairs (a # b # cs) =
     word_of_nat (case stoull 16 [a, b] of None \<Rightarrow> 0 | Some v \<Rightarrow> v) # parse_hex_pairs cs"
| "parse_hex_pairs cs = []"

definition id_from_string :: "string \<Rightarrow> transfer_id option" where
  "id_from_string str =
     (case strip_dashes str of
        None \<Rightarrow> None
      | Some hex \<Rightarrow> if length hex \<noteq> 32 then None else Some (Transfer_Id (parse_hex_pairs hex)))"

lemma dash_not_hex [simp]: "\<not> isxdigit (CHR ''-'')"
  by (simp add: isxdigit_def hex_val_def)

lemma strip_dashes_append:
  "strip_dashes (xs @ ys) =
     (case strip_dashes xs of None \<Rightarrow> None | Some u \<Rightarrow> map_option (append u) (strip_dashes ys))"
  by (cases "strip_dashes ys"; induction xs) (auto split: option.splits)

lemma strip_dashes_hex: "\<forall>c \<in> set xs. isxdigit c \<Longrightarrow> strip_dashes xs = Some xs"
  by (induction xs) auto

lemma strip_dashes_hex_string [simp]: "strip_dashes (hex_string bs) = Some (hex_string bs)"
  by (rule strip_dashes_hex) (simp add: set_hex_string)

lemma sub_bytes_append: "i \<le> j \<Longrightarrow> j \<le> k \<Longrightarrow> sub_bytes i j xs @ sub_bytes j k xs = sub_bytes i k xs"
  using take_add [of "j - i" "k - j" "drop i xs"] by (simp add: sub_bytes_def)

lemma sub_bytes_join:
  "length bs = 16 \<Longrightarrow>
   sub_bytes 0 4 bs @ sub_bytes 4 6 bs @ sub_bytes 6 8 bs @ sub_bytes 8 10 bs @ sub_bytes 10 16 bs = bs"
  by (simp add: sub_bytes_append) (simp add: sub_bytes_def)

lemma xdigit_facts: "isxdigit c \<Longrightarrow> \<not> is_space c \<and> c \<noteq> CHR ''-'' \<and> c \<noteq> CHR ''+''"
  by (auto simp: is_space_def isxdigit_def hex_val_def)

lemma stoull_hex2: "stoull 16 (hex2 b) = Some (unat b)"
proof -
  have "unat b div 16 * 16 + unat b mod 16 < 2 ^ 64"
    using unat_u8_less [of b] by simp
  moreover have "\<not> is_space (hex_digit (unat b div 16))"
    and "hex_digit (unat b div 16) \<noteq> CHR ''-''" and "hex_digit (unat b div 16) \<noteq> CHR ''+''"
    using xdigit_facts [OF isxdigit_hex_digit [OF u8_nibbles(1) [of b]]] by simp_all
  ultimately show ?thesis
    by (simp add: stoull_def strto_def strto_unsigned_def hex2_def digit_val_def)
qed

lemma parse_hex_pairs_hex_string [simp]: "parse_hex_pairs (hex_string bs) = bs"
proof (induction bs)
  case Nil
  then show ?case by simp
next
  case (Cons b bs)
  then show ?case
    using stoull_hex2 [of b] by (simp add: hex_string_Cons hex2_def)
qed

lemma strip_dashes_to_string:
  "wf_id i \<Longrightarrow> strip_dashes (id_to_string i) = Some (hex_string (id_bytes i))"
  using sub_bytes_join [of "id_bytes i"]
  by (simp add: id_to_string_def strip_dashes_append wf_id_def flip: hex_string_append)

lemma id_from_to_string [simp]: "wf_id i \<Longrightarrow> id_from_string (id_to_string i) = Some i"
  by (cases i) (simp add: id_from_string_def strip_dashes_to_string wf_id_def)

lemma length_id_to_string: "wf_id i \<Longrightarrow> length (id_to_string i) = 36"
  by (simp add: id_to_string_def wf_id_def sub_bytes_def)

lemma length_parse_hex_pairs: "length (parse_hex_pairs cs) = length cs div 2"
  by (induction cs rule: parse_hex_pairs.induct) auto

lemma id_from_string_wf: "id_from_string s = Some i \<Longrightarrow> wf_id i"
  by (auto simp: id_from_string_def wf_id_def length_parse_hex_pairs split: option.splits if_splits)

lemma id_to_string_inj: "wf_id i \<Longrightarrow> wf_id j \<Longrightarrow> id_to_string i = id_to_string j \<Longrightarrow> i = j"
  by (metis id_from_to_string option.inject)

text \<open>No character of the printed form is a quote or a backslash.\<close>

lemma set_id_to_string: "c \<in> set (id_to_string i) \<Longrightarrow> isxdigit c \<or> c = CHR ''-''"
  by (auto simp: id_to_string_def dest: set_hex_string)

section \<open>Hashing\<close>

text \<open>
  \<open>std::hash<transfer_id>\<close>, 64-bit \<open>size_t\<close>: the hash is what \<open>unordered_map\<close> buckets by; the
  maps of the model do not use it.
\<close>

definition hash_block :: "bytes \<Rightarrow> u64" where
  "hash_block bs = foldl (\<lambda>acc (j, b). acc OR push_bit (j * 8) (ucast b)) 0 (enumerate 0 bs)"

definition hash_id :: "transfer_id \<Rightarrow> u64" where
  "hash_id i =
     foldl (\<lambda>r k. let block = hash_block (sub_bytes k (k + 8) (id_bytes i))
                  in r XOR (block + 0x9e3779b9 + push_bit 6 r + drop_bit 2 r)) 0 [0, 8]"

section \<open>Properties\<close>

text \<open>A generated identifier is 16 bytes long, carries the version and variant bits of a
  random UUID, and its textual form is 36 characters that parse back to it.\<close>

theorem generated_id_roundtrip:
  "wf_id (generate p q) \<and>
   drop_bit 4 (id_bytes (generate p q) ! 6) = 4 \<and>
   drop_bit 6 (id_bytes (generate p q) ! 8) = 2 \<and>
   length (id_to_string (generate p q)) = 36 \<and>
   id_from_string (id_to_string (generate p q)) = Some (generate p q)"
  using wf_generate [of p q]
  by (simp add: id_from_to_string length_id_to_string)
     (simp add: generate_def Let_def version_nibble variant_bits nth_list_update)

end
