(* ===== verification/Error_Codes.thy ===== *)
theory Error_Codes
  imports Prelude
begin

text \<open>
  The two families of error codes (core/types.h, core/error_codes.h) and the result type
  of every fallible operation. Error messages are log text that no code path inspects, so a
  failing result carries its code only: \<open>result<T>\<close> is \<open>error_code + 'a\<close>, with
  \<open>unexpected\<close> as \<open>Inl\<close>.
\<close>

section \<open>The error codes of core/types.h\<close>

datatype error_code =
    Success
  | File_not_found
  | File_access_denied
  | File_already_exists
  | File_too_large
  | Invalid_file_path
  | File_read_error
  | File_write_error
  | Chunk_checksum_error
  | Chunk_sequence_error
  | Chunk_size_error
  | File_hash_mismatch
  | Invalid_chunk_index
  | Missing_chunks
  | Invalid_chunk_size
  | Invalid_configuration
  | Connection_failed
  | Connection_timeout
  | Connection_refused
  | Connection_lost
  | Server_not_running
  | Quota_exceeded
  | Storage_full
  | Internal_error
  | Not_initialized
  | Already_initialized
  | Invalid_state_transition
  | Transfer_not_found
  | Transfer_already_completed
  | Transfer_timeout

type_synonym 'a result = "error_code + 'a"

definition has_value :: "'a result \<Rightarrow> bool" where
  "has_value r \<longleftrightarrow> (case r of Inl _ \<Rightarrow> False | Inr _ \<Rightarrow> True)"

lemma has_value_simps [simp]: "\<not> has_value (Inl e)" "has_value (Inr v)"
  by (simp_all add: has_value_def)

fun error_code_value :: "error_code \<Rightarrow> int" where
  "error_code_value Success = 0"
| "error_code_value File_not_found = - 100"
| "error_code_value File_access_denied = - 101"
| "error_code_value File_already_exists = - 102"
| "error_code_value File_too_large = - 103"
| "error_code_value Invalid_file_path = - 104"
| "error_code_value File_read_error = - 105"
| "error_code_value File_write_error = - 106"
| "error_code_value Chunk_checksum_error = - 120"
| "error_code_value Chunk_sequence_error = - 121"
| "error_code_value Chunk_size_error = - 122"
| "error_code_value File_hash_mismatch = - 123"
| "error_code_value Invalid_chunk_index = - 124"
| "error_code_value Missing_chunks = - 125"
| "error_code_value Invalid_chunk_size = - 140"
| "error_code_value Invalid_configuration = - 141"
| "error_code_value Connection_failed = - 160"
| "error_code_value Connection_timeout = - 161"
| "error_code_value Connection_refused = - 162"
| "error_code_value Connection_lost = - 163"
| "error_code_value Server_not_running = - 164"
| "error_code_value Quota_exceeded = - 180"
| "error_code_value Storage_full = - 181"
| "error_code_value Internal_error = - 200"
| "error_code_value Not_initialized = - 201"
| "error_code_value Already_initialized = - 202"
| "error_code_value Invalid_state_transition = - 220"
| "error_code_value Transfer_not_found = - 221"
| "error_code_value Transfer_already_completed = - 222"
| "error_code_value Transfer_timeout = - 223"

fun error_code_to_string :: "error_code \<Rightarrow> string" where
  "error_code_to_string Success = ''success''"
| "error_code_to_string File_not_found = ''file not found''"
| "error_code_to_string File_access_denied = ''file access denied''"
| "error_code_to_string File_already_exists = ''file already exists''"
| "error_code_to_string File_too_large = ''file too large''"
| "error_code_to_string Invalid_file_path = ''invalid file path''"
| "error_code_to_string File_read_error = ''file read error''"
| "error_code_to_string File_write_error = ''file write error''"
| "error_code_to_string Chunk_checksum_error = ''chunk checksum error''"
| "error_code_to_string Chunk_sequence_error = ''chunk sequence error''"
| "error_code_to_string Chunk_size_error = ''chunk size error''"
| "error_code_to_string File_hash_mismatch = ''file hash mismatch''"
| "error_code_to_string Invalid_chunk_index = ''invalid chunk index''"
| "error_code_to_string Missing_chunks = ''missing chunks''"
| "error_code_to_string Invalid_chunk_size = ''invalid chunk size''"
| "error_code_to_string Invalid_configuration = ''invalid configuration''"
| "error_code_to_string Connection_failed = ''connection failed''"
| "error_code_to_string Connection_timeout = ''connection timeout''"
| "error_code_to_string Connection_refused = ''connection refused''"
| "error_code_to_string Connection_lost = ''connection lost''"
| "error_code_to_string Server_not_running = ''server not running''"
| "error_code_to_string Quota_exceeded = ''quota exceeded''"
| "error_code_to_string Storage_full = ''storage full''"
| "error_code_to_string Internal_error = ''internal error''"
| "error_code_to_string Not_initialized = ''not initialized''"
| "error_code_to_string Already_initialized = ''already initialized''"
| "error_code_to_string Invalid_state_transition = ''invalid state transition''"
| "error_code_to_string Transfer_not_found = ''transfer not found''"
| "error_code_to_string Transfer_already_completed = ''transfer already completed''"
| "error_code_to_string Transfer_timeout = ''transfer timeout''"

lemma error_code_value_inj: "error_code_value a = error_code_value b \<Longrightarrow> a = b"
  by (cases a; cases b) simp_all

section \<open>The error codes of core/error_codes.h\<close>

datatype (plugins only: code size) transfer_error_code =
    Te_success
  | Te_connection_failed
  | Te_connection_timeout
  | Te_connection_refused
  | Te_connection_lost
  | Te_reconnect_failed
  | Te_session_expired
  | Te_server_busy
  | Te_protocol_mismatch
  | Te_transfer_init_failed
  | Te_transfer_cancelled
  | Te_transfer_timeout
  | Te_upload_rejected
  | Te_download_rejected
  | Te_transfer_already_exists
  | Te_transfer_not_found
  | Te_transfer_in_progress
  | Te_chunk_checksum_error
  | Te_chunk_sequence_error
  | Te_chunk_size_error
  | Te_file_hash_mismatch
  | Te_chunk_timeout
  | Te_chunk_duplicate
  | Te_storage_error
  | Te_storage_unavailable
  | Te_storage_quota_exceeded
  | Te_max_file_size_exceeded
  | Te_file_already_exists
  | Te_storage_full
  | Te_file_not_found_on_server
  | Te_access_denied
  | Te_invalid_filename
  | Te_client_quota_exceeded
  | Te_file_read_error
  | Te_file_write_error
  | Te_file_permission_error
  | Te_file_not_found
  | Te_disk_full
  | Te_directory_not_found
  | Te_file_locked
  | Te_resume_state_invalid
  | Te_resume_file_changed
  | Te_resume_state_corrupted
  | Te_resume_not_supported
  | Te_resume_transfer_not_found
  | Te_resume_session_mismatch
  | Te_compression_failed
  | Te_decompression_failed
  | Te_compression_buffer_error
  | Te_invalid_compression_data
  | Te_config_invalid
  | Te_config_chunk_size_error
  | Te_config_transport_error
  | Te_config_storage_path_error
  | Te_config_quota_error
  | Te_config_reconnect_error

fun te_value :: "transfer_error_code \<Rightarrow> int" where
  "te_value Te_success = 0"
| "te_value Te_connection_failed = - 700"
| "te_value Te_connection_timeout = - 701"
| "te_value Te_connection_refused = - 702"
| "te_value Te_connection_lost = - 703"
| "te_value Te_reconnect_failed = - 704"
| "te_value Te_session_expired = - 705"
| "te_value Te_server_busy = - 706"
| "te_value Te_protocol_mismatch = - 707"
| "te_value Te_transfer_init_failed = - 710"
| "te_value Te_transfer_cancelled = - 711"
| "te_value Te_transfer_timeout = - 712"
| "te_value Te_upload_rejected = - 713"
| "te_value Te_download_rejected = - 714"
| "te_value Te_transfer_already_exists = - 715"
| "te_value Te_transfer_not_found = - 716"
| "te_value Te_transfer_in_progress = - 717"
| "te_value Te_chunk_checksum_error = - 720"
| "te_value Te_chunk_sequence_error = - 721"
| "te_value Te_chunk_size_error = - 722"
| "te_value Te_file_hash_mismatch = - 723"
| "te_value Te_chunk_timeout = - 724"
| "te_value Te_chunk_duplicate = - 725"
| "te_value Te_storage_error = - 740"
| "te_value Te_storage_unavailable = - 741"
| "te_value Te_storage_quota_exceeded = - 742"
| "te_value Te_max_file_size_exceeded = - 743"
| "te_value Te_file_already_exists = - 744"
| "te_value Te_storage_full = - 745"
| "te_value Te_file_not_found_on_server = - 746"
| "te_value Te_access_denied = - 747"
| "te_value Te_invalid_filename = - 748"
| "te_value Te_client_quota_exceeded = - 749"
| "te_value Te_file_read_error = - 750"
| "te_value Te_file_write_error = - 751"
| "te_value Te_file_permission_error = - 752"
| "te_value Te_file_not_found = - 753"
| "te_value Te_disk_full = - 754"
| "te_value Te_directory_not_found = - 755"
| "te_value Te_file_locked = - 756"
| "te_value Te_resume_state_invalid = - 760"
| "te_value Te_resume_file_changed = - 761"
| "te_value Te_resume_state_corrupted = - 762"
| "te_value Te_resume_not_supported = - 763"
| "te_value Te_resume_transfer_not_found = - 764"
| "te_value Te_resume_session_mismatch = - 765"
| "te_value Te_compression_failed = - 780"
| "te_value Te_decompression_failed = - 781"
| "te_value Te_compression_buffer_error = - 782"
| "te_value Te_invalid_compression_data = - 783"
| "te_value Te_config_invalid = - 790"
| "te_value Te_config_chunk_size_error = - 791"
| "te_value Te_config_transport_error = - 792"
| "te_value Te_config_storage_path_error = - 793"
| "te_value Te_config_quota_error = - 794"
| "te_value Te_config_reconnect_error = - 795"

fun te_to_string :: "transfer_error_code \<Rightarrow> string" where
  "te_to_string Te_success = ''success''"
| "te_to_string Te_connection_failed = ''connection failed''"
| "te_to_string Te_connection_timeout = ''connection timeout''"
| "te_to_string Te_connection_refused = ''connection refused''"
| "te_to_string Te_connection_lost = ''connection lost''"
| "te_to_string Te_reconnect_failed = ''reconnect failed after max attempts''"
| "te_to_string Te_session_expired = ''session expired''"
| "te_to_string Te_server_busy = ''server at maximum connections''"
| "te_to_string Te_protocol_mismatch = ''protocol version incompatible''"
| "te_to_string Te_transfer_init_failed = ''transfer initialization failed''"
| "te_to_string Te_transfer_cancelled = ''transfer cancelled by user''"
| "te_to_string Te_transfer_timeout = ''transfer timeout''"
| "te_to_string Te_upload_rejected = ''upload rejected by server''"
| "te_to_string Te_download_rejected = ''download rejected by server''"
| "te_to_string Te_transfer_already_exists = ''transfer ID already in use''"
| "te_to_string Te_transfer_not_found = ''transfer ID not found''"
| "te_to_string Te_transfer_in_progress = ''transfer already in progress''"
| "te_to_string Te_chunk_checksum_error = ''chunk CRC32 verification failed''"
| "te_to_string Te_chunk_sequence_error = ''chunk sequence error''"
| "te_to_string Te_chunk_size_error = ''chunk size exceeds maximum''"
| "te_to_string Te_file_hash_mismatch = ''SHA-256 verification failed''"
| "te_to_string Te_chunk_timeout = ''chunk acknowledgment timeout''"
| "te_to_string Te_chunk_duplicate = ''duplicate chunk received''"
| "te_to_string Te_storage_error = ''storage error''"
| "te_to_string Te_storage_unavailable = ''storage temporarily unavailable''"
| "te_to_string Te_storage_quota_exceeded = ''storage quota exceeded''"
| "te_to_string Te_max_file_size_exceeded = ''file exceeds maximum allowed size''"
| "te_to_string Te_file_already_exists = ''file already exists on server''"
| "te_to_string Te_storage_full = ''server storage full''"
| "te_to_string Te_file_not_found_on_server = ''file not found on server''"
| "te_to_string Te_access_denied = ''access denied''"
| "te_to_string Te_invalid_filename = ''invalid filename''"
| "te_to_string Te_client_quota_exceeded = ''per-client quota exceeded''"
| "te_to_string Te_file_read_error = ''file read error''"
| "te_to_string Te_file_write_error = ''file write error''"
| "te_to_string Te_file_permission_error = ''file permission error''"
| "te_to_string Te_file_not_found = ''local file not found''"
| "te_to_string Te_disk_full = ''local disk full''"
| "te_to_string Te_directory_not_found = ''directory not found''"
| "te_to_string Te_file_locked = ''file locked by another process''"
| "te_to_string Te_resume_state_invalid = ''resume state invalid''"
| "te_to_string Te_resume_file_changed = ''source file changed since last checkpoint''"
| "te_to_string Te_resume_state_corrupted = ''resume state corrupted''"
| "te_to_string Te_resume_not_supported = ''resume not supported for this transfer''"
| "te_to_string Te_resume_transfer_not_found = ''transfer ID not found for resume''"
| "te_to_string Te_resume_session_mismatch = ''resume session mismatch''"
| "te_to_string Te_compression_failed = ''compression failed''"
| "te_to_string Te_decompression_failed = ''decompression failed''"
| "te_to_string Te_compression_buffer_error = ''compression buffer error''"
| "te_to_string Te_invalid_compression_data = ''invalid compression data''"
| "te_to_string Te_config_invalid = ''invalid configuration''"
| "te_to_string Te_config_chunk_size_error = ''chunk size out of valid range''"
| "te_to_string Te_config_transport_error = ''transport configuration error''"
| "te_to_string Te_config_storage_path_error = ''invalid storage directory''"
| "te_to_string Te_config_quota_error = ''invalid quota configuration''"
| "te_to_string Te_config_reconnect_error = ''invalid reconnect policy''"

definition all_te :: "transfer_error_code list" where
  "all_te = [Te_success, Te_connection_failed, Te_connection_timeout, Te_connection_refused, Te_connection_lost, Te_reconnect_failed, Te_session_expired, Te_server_busy, Te_protocol_mismatch, Te_transfer_init_failed, Te_transfer_cancelled, Te_transfer_timeout, Te_upload_rejected, Te_download_rejected, Te_transfer_already_exists, Te_transfer_not_found, Te_transfer_in_progress, Te_chunk_checksum_error, Te_chunk_sequence_error, Te_chunk_size_error, Te_file_hash_mismatch, Te_chunk_timeout, Te_chunk_duplicate, Te_storage_error, Te_storage_unavailable, Te_storage_quota_exceeded, Te_max_file_size_exceeded, Te_file_already_exists, Te_storage_full, Te_file_not_found_on_server, Te_access_denied, Te_invalid_filename, Te_client_quota_exceeded, Te_file_read_error, Te_file_write_error, Te_file_permission_error, Te_file_not_found, Te_disk_full, Te_directory_not_found, Te_file_locked, Te_resume_state_invalid, Te_resume_file_changed, Te_resume_state_corrupted, Te_resume_not_supported, Te_resume_transfer_not_found, Te_resume_session_mismatch, Te_compression_failed, Te_decompression_failed, Te_compression_buffer_error, Te_invalid_compression_data, Te_config_invalid, Te_config_chunk_size_error, Te_config_transport_error, Te_config_storage_path_error, Te_config_quota_error, Te_config_reconnect_error]"

text \<open>
  \<open>static_cast<transfer_error_code>(code)\<close>: \<open>None\<close> for an integer that is no enumerator, on
  which the \<open>switch\<close>es take their \<open>default\<close>.
\<close>

definition te_of_code :: "int \<Rightarrow> transfer_error_code option" where
  "te_of_code code = find (\<lambda>e. te_value e = code) all_te"

definition error_message :: "int \<Rightarrow> string" where
  "error_message code =
     (case te_of_code code of None \<Rightarrow> ''unknown error'' | Some e \<Rightarrow> te_to_string e)"

definition is_connection_error :: "int \<Rightarrow> bool" where
  "is_connection_error code \<longleftrightarrow> code \<le> - 700 \<and> code \<ge> - 709"

definition is_transfer_error :: "int \<Rightarrow> bool" where
  "is_transfer_error code \<longleftrightarrow> code \<le> - 710 \<and> code \<ge> - 719"

definition is_chunk_error :: "int \<Rightarrow> bool" where
  "is_chunk_error code \<longleftrightarrow> code \<le> - 720 \<and> code \<ge> - 739"

definition is_storage_error :: "int \<Rightarrow> bool" where
  "is_storage_error code \<longleftrightarrow> code \<le> - 740 \<and> code \<ge> - 749"

definition is_io_error :: "int \<Rightarrow> bool" where
  "is_io_error code \<longleftrightarrow> code \<le> - 750 \<and> code \<ge> - 759"

definition is_resume_error :: "int \<Rightarrow> bool" where
  "is_resume_error code \<longleftrightarrow> code \<le> - 760 \<and> code \<ge> - 779"

definition is_compression_error :: "int \<Rightarrow> bool" where
  "is_compression_error code \<longleftrightarrow> code \<le> - 780 \<and> code \<ge> - 789"

definition is_config_error :: "int \<Rightarrow> bool" where
  "is_config_error code \<longleftrightarrow> code \<le> - 790 \<and> code \<ge> - 799"

definition is_retryable :: "int \<Rightarrow> bool" where
  "is_retryable code =
     (case te_of_code code of None \<Rightarrow> False
      | Some e \<Rightarrow> e \<in> {Te_connection_failed, Te_connection_timeout, Te_connection_refused, Te_connection_lost, Te_transfer_init_failed, Te_transfer_timeout, Te_chunk_checksum_error, Te_chunk_timeout, Te_file_hash_mismatch, Te_compression_failed, Te_decompression_failed})"

definition is_client_error :: "int \<Rightarrow> bool" where
  "is_client_error code \<longleftrightarrow> is_io_error code \<or> is_config_error code"

definition is_server_error :: "int \<Rightarrow> bool" where
  "is_server_error code \<longleftrightarrow> is_storage_error code"

lemmas te_category_defs =
  is_connection_error_def is_transfer_error_def is_chunk_error_def is_storage_error_def
  is_io_error_def is_resume_error_def is_compression_error_def is_config_error_def

text \<open>The category predicates, in the order the header declares them.\<close>

definition te_categories :: "int \<Rightarrow> bool list" where
  "te_categories c =
     [is_connection_error c, is_transfer_error c, is_chunk_error c, is_storage_error c,
      is_io_error c, is_resume_error c, is_compression_error c, is_config_error c]"

lemma in_all_te: "e \<in> set all_te"
  by (cases e) (simp_all add: all_te_def)

lemma distinct_te_values: "distinct (map te_value all_te)"
  by (simp add: all_te_def)

lemma te_value_inj: "te_value a = te_value b \<Longrightarrow> a = b"
  using distinct_te_values in_all_te [of a] in_all_te [of b]
  by (auto simp: distinct_map inj_on_def)

lemma te_of_code_value [simp]: "te_of_code (te_value e) = Some e"
proof -
  obtain f where f: "find (\<lambda>x. te_value x = te_value e) all_te = Some f"
    using in_all_te [of e] by (cases "find (\<lambda>x. te_value x = te_value e) all_te") (auto simp: find_None_iff)
  then have "te_value f = te_value e"
    by (auto simp: find_Some_iff)
  then show ?thesis
    using f by (simp add: te_of_code_def te_value_inj)
qed

lemma te_of_code_Some: "te_of_code c = Some e \<Longrightarrow> te_value e = c"
  by (auto simp: te_of_code_def find_Some_iff)

lemma error_message_value: "error_message (te_value e) = te_to_string e"
  by (simp add: error_message_def)

lemma one_category: "e \<noteq> Te_success \<Longrightarrow> length (filter id (te_categories (te_value e))) = 1"
  by (cases e) (simp_all add: te_categories_def te_category_defs)

section \<open>Properties\<close>

text \<open>Every error code that a transfer can report, success apart, lies in the range of
  exactly one of the eight categories, and its message is the one of its enumerator.\<close>

theorem error_category_unique:
  assumes "e \<noteq> Te_success"
  shows "length (filter id (te_categories (te_value e))) = 1 \<and>
         error_message (te_value e) = te_to_string e"
  using assms by (simp add: one_category error_message_value)

theorem error_category_unique_witness:
  "length (filter id (te_categories (te_value Te_disk_full))) = 1 \<and>
   error_message (te_value Te_disk_full) = te_to_string Te_disk_full"
  by (rule error_category_unique) simp

end
