(* ===== verification/Checksum.thy ===== *)
theory Checksum
  imports Error_Codes
begin

text \<open>
  core/checksum.cpp: the table-driven CRC-32 and the two SHA-256 implementations (one over a
  buffer, one streaming over a file). Files are their contents: an input stream that cannot be
  opened is \<open>None\<close>. The lemmas relate the table-driven CRC to the bit-at-a-time one and both
  SHA-256 implementations to the padding of FIPS 180-4.
\<close>

section \<open>CRC-32\<close>

definition crc32_polynomial :: u32 where
  "crc32_polynomial = 0xEDB88320"

definition crc_bit_step :: "u32 \<Rightarrow> u32" where
  "crc_bit_step crc =
     (if crc AND 1 \<noteq> 0 then drop_bit 1 crc XOR crc32_polynomial else drop_bit 1 crc)"

definition generate_crc32_table :: "u32 list" where
  "generate_crc32_table = map (\<lambda>i. (crc_bit_step ^^ 8) (word_of_nat i)) [0..<256]"

definition crc32_update :: "u32 \<Rightarrow> u8 \<Rightarrow> u32" where
  "crc32_update crc b =
     (let index = ucast (crc XOR ucast b) :: u8
      in generate_crc32_table ! unat index XOR drop_bit 8 crc)"

definition crc32 :: "bytes \<Rightarrow> u32" where
  "crc32 data = foldl crc32_update 0xFFFFFFFF data XOR 0xFFFFFFFF"

definition verify_crc32 :: "bytes \<Rightarrow> u32 \<Rightarrow> bool" where
  "verify_crc32 data expected \<longleftrightarrow> crc32 data = expected"

text \<open>The bit-at-a-time CRC: exclusive-or the byte in, then eight shift steps.\<close>

definition crc32_bitwise :: "bytes \<Rightarrow> u32" where
  "crc32_bitwise data =
     foldl (\<lambda>crc b. (crc_bit_step ^^ 8) (crc XOR ucast b)) 0xFFFFFFFF data XOR 0xFFFFFFFF"

lemma and_1_xor: "(a XOR b) AND 1 = (a AND 1 :: u32) XOR (b AND 1)"
  by (simp add: bit.conj_xor_distrib2)

lemma and_1_cases: "(a :: u32) AND 1 = 0 \<or> a AND 1 = 1"
  by (simp add: and_one_eq mod2_eq_if)

lemma crc_bit_step_xor: "crc_bit_step (a XOR b) = crc_bit_step a XOR crc_bit_step b"
  using and_1_cases [of a] and_1_cases [of b]
  by (auto simp: crc_bit_step_def and_1_xor drop_bit_xor xor.assoc xor.left_commute xor.commute)

lemma crc_bit_step_pow_xor:
  "(crc_bit_step ^^ n) (a XOR b) = (crc_bit_step ^^ n) a XOR (crc_bit_step ^^ n) b"
  by (induction n arbitrary: a b) (simp_all add: crc_bit_step_xor)

lemma crc_bit_step_0 [simp]: "crc_bit_step 0 = 0"
  by (simp add: crc_bit_step_def)

lemma crc_bit_step_eq_0: "crc_bit_step a = 0 \<Longrightarrow> a = 0"
proof -
  assume z: "crc_bit_step a = 0"
  have b31: "bit crc32_polynomial 31"
    by (simp add: crc32_polynomial_def bit_numeral_rec)
  have "a AND 1 = 0"
  proof (rule ccontr)
    assume "a AND 1 \<noteq> 0"
    with z have "drop_bit 1 a XOR crc32_polynomial = 0"
      by (simp add: crc_bit_step_def)
    then have "bit (drop_bit 1 a XOR crc32_polynomial) 31 \<longleftrightarrow> bit (0 :: u32) 31"
      by simp
    moreover have "\<not> bit (drop_bit 1 a) 31"
      using bit_imp_le_length [of a 32] by (auto simp: bit_drop_bit_eq)
    ultimately show False
      using b31 by (simp add: bit_xor_iff)
  qed
  then have even: "\<not> bit a 0" and "drop_bit 1 a = 0"
    using z by (auto simp: crc_bit_step_def and_one_eq bit_0 mod2_eq_if split: if_splits)
  show "a = 0"
  proof (rule bit_word_eqI)
    fix n :: nat
    assume "n < LENGTH(32)"
    show "bit a n \<longleftrightarrow> bit (0 :: u32) n"
    proof (cases n)
      case 0
      with even show ?thesis by simp
    next
      case (Suc m)
      have "bit (drop_bit 1 a) m \<longleftrightarrow> bit (0 :: u32) m"
        using \<open>drop_bit 1 a = 0\<close> by simp
      with Suc show ?thesis by (simp add: bit_drop_bit_eq)
    qed
  qed
qed

lemma xor_right_inj: "(a XOR m :: u32) = b XOR m \<Longrightarrow> a = b"
proof -
  assume "a XOR m = b XOR m"
  then have "(a XOR m) XOR m = (b XOR m) XOR m" by simp
  then show "a = b" by (simp add: xor.assoc)
qed

lemma crc_bit_step_inj: "crc_bit_step a = crc_bit_step b \<Longrightarrow> a = b"
proof -
  assume "crc_bit_step a = crc_bit_step b"
  then have "crc_bit_step (a XOR b) = 0"
    by (simp add: crc_bit_step_xor)
  then have "a XOR b = b XOR b"
    by (simp add: crc_bit_step_eq_0)
  then show "a = b"
    by (rule xor_right_inj)
qed

lemma crc_bit_step_pow_inj: "(crc_bit_step ^^ n) a = (crc_bit_step ^^ n) b \<Longrightarrow> a = b"
  by (induction n) (auto dest: crc_bit_step_inj)

text \<open>A word whose low bits are clear is only shifted.\<close>

lemma crc_bit_step_pow_shift:
  "(\<And>i. i < n \<Longrightarrow> \<not> bit a i) \<Longrightarrow> (crc_bit_step ^^ n) a = drop_bit n a"
proof (induction n)
  case 0
  then show ?case by simp
next
  case (Suc n)
  then have IH: "(crc_bit_step ^^ n) a = drop_bit n a" and "\<not> bit a n"
    by auto
  then have "drop_bit n a AND 1 = 0"
    by (simp add: and_one_eq bit_iff_odd_drop_bit mod2_eq_if)
  then have "crc_bit_step (drop_bit n a) = drop_bit (Suc n) a"
    by (simp add: crc_bit_step_def)
  then show ?case
    using IH by simp
qed

lemma crc32_table_nth: "generate_crc32_table ! unat (i :: u8) = (crc_bit_step ^^ 8) (ucast i)"
  using unat_u8_less [of i]
  by (simp add: generate_crc32_table_def)

text \<open>The low byte goes through the table, the rest is shifted: eight steps at once.\<close>

lemma crc32_update_bitwise: "crc32_update crc b = (crc_bit_step ^^ 8) (crc XOR ucast b)"
proof -
  define x where "x = crc XOR ucast b"
  define lo :: u32 where "lo = ucast (ucast x :: u8)"
  have split: "x = lo XOR (x XOR lo)"
    by (simp add: xor.left_commute [of lo x lo])
  have "\<not> bit (x XOR lo) i" if "i < 8" for i
    using that by (simp add: lo_def bit_simps)
  then have hi: "(crc_bit_step ^^ 8) (x XOR lo) = drop_bit 8 (x XOR lo)"
    by (rule crc_bit_step_pow_shift)
  have "drop_bit 8 (x XOR lo) = drop_bit 8 crc"
    by (rule bit_word_eqI) (auto simp: x_def lo_def bit_simps dest: bit_imp_le_length)
  with hi have "(crc_bit_step ^^ 8) x = (crc_bit_step ^^ 8) lo XOR drop_bit 8 crc"
    by (subst split) (simp only: crc_bit_step_pow_xor)
  then show ?thesis
    by (simp add: crc32_update_def crc32_table_nth x_def lo_def Let_def)
qed

lemma crc32_update_inj:
  "crc32_update c b = crc32_update c' b' \<Longrightarrow> c XOR ucast b = c' XOR ucast b'"
  unfolding crc32_update_bitwise by (rule crc_bit_step_pow_inj)

lemma crc32_update_inj_crc: "crc32_update c b = crc32_update c' b \<Longrightarrow> c = c'"
  by (drule crc32_update_inj) (rule xor_right_inj)

lemma crc32_update_inj_byte: "crc32_update c b = crc32_update c b' \<Longrightarrow> b = b'"
proof -
  assume "crc32_update c b = crc32_update c b'"
  then have "ucast b XOR c = ucast b' XOR c"
    by (subst (1 2) xor.commute) (rule crc32_update_inj)
  then have "(ucast b :: u32) = ucast b'"
    by (rule xor_right_inj)
  then have "unat (ucast b :: u32) = unat (ucast b' :: u32)"
    by simp
  moreover have "unat (ucast x :: u32) = unat x" for x :: u8
    using unat_u8_less [of x] by (simp add: unsigned_ucast_eq take_bit_nat_eq_self)
  ultimately show "b = b'"
    by (simp add: word_unat_eq_iff)
qed

lemma foldl_crc32_inj: "foldl crc32_update c xs = foldl crc32_update c' xs \<Longrightarrow> c = c'"
  by (induction xs arbitrary: c c') (auto dest: crc32_update_inj_crc)

lemma crc32_eq_bitwise: "crc32 data = crc32_bitwise data"
  by (simp add: crc32_def crc32_bitwise_def crc32_update_bitwise fun_eq_iff cong: foldl_cong)

lemma crc32_single_byte:
  "b \<noteq> b' \<Longrightarrow> crc32 (xs @ b # ys) \<noteq> crc32 (xs @ b' # ys)"
  by (auto simp: crc32_def dest!: xor_right_inj foldl_crc32_inj crc32_update_inj_byte)

section \<open>SHA-256: the compression function\<close>

definition sha256_k :: "u32 list" where
  "sha256_k =
     [0x428a2f98, 0x71374491, 0xb5c0fbcf, 0xe9b5dba5, 0x3956c25b, 0x59f111f1] @
     [0x923f82a4, 0xab1c5ed5, 0xd807aa98, 0x12835b01, 0x243185be, 0x550c7dc3] @
     [0x72be5d74, 0x80deb1fe, 0x9bdc06a7, 0xc19bf174, 0xe49b69c1, 0xefbe4786] @
     [0x0fc19dc6, 0x240ca1cc, 0x2de92c6f, 0x4a7484aa, 0x5cb0a9dc, 0x76f988da] @
     [0x983e5152, 0xa831c66d, 0xb00327c8, 0xbf597fc7, 0xc6e00bf3, 0xd5a79147] @
     [0x06ca6351, 0x14292967, 0x27b70a85, 0x2e1b2138, 0x4d2c6dfc, 0x53380d13] @
     [0x650a7354, 0x766a0abb, 0x81c2c92e, 0x92722c85, 0xa2bfe8a1, 0xa81a664b] @
     [0xc24b8b70, 0xc76c51a3, 0xd192e819, 0xd6990624, 0xf40e3585, 0x106aa070] @
     [0x19a4c116, 0x1e376c08, 0x2748774c, 0x34b0bcb5, 0x391c0cb3, 0x4ed8aa4a] @
     [0x5b9cca4f, 0x682e6ff3, 0x748f82ee, 0x78a5636f, 0x84c87814, 0x8cc70208] @
     [0x90befffa, 0xa4506ceb, 0xbef9a3f7, 0xc67178f2]"

definition sha256_h0 :: "u32 list" where
  "sha256_h0 = [0x6a09e667, 0xbb67ae85, 0x3c6ef372, 0xa54ff53a,
                0x510e527f, 0x9b05688c, 0x1f83d9ab, 0x5be0cd19]"

definition rotr :: "u32 \<Rightarrow> nat \<Rightarrow> u32" where
  "rotr x n = drop_bit n x OR push_bit (32 - n) x"

definition load_word :: "bytes \<Rightarrow> nat \<Rightarrow> u32" where
  "load_word block i =
     push_bit 24 (ucast (block ! (i * 4))) OR push_bit 16 (ucast (block ! (i * 4 + 1))) OR
     push_bit 8 (ucast (block ! (i * 4 + 2))) OR ucast (block ! (i * 4 + 3))"

definition schedule_step :: "u32 list \<Rightarrow> nat \<Rightarrow> u32 list" where
  "schedule_step w i =
     (let s0 = rotr (w ! (i - 15)) 7 XOR rotr (w ! (i - 15)) 18 XOR drop_bit 3 (w ! (i - 15));
          s1 = rotr (w ! (i - 2)) 17 XOR rotr (w ! (i - 2)) 19 XOR drop_bit 10 (w ! (i - 2))
      in w[i := w ! (i - 16) + s0 + w ! (i - 7) + s1])"

definition message_schedule :: "bytes \<Rightarrow> u32 list" where
  "message_schedule block =
     foldl schedule_step
       (foldl (\<lambda>w i. w[i := load_word block i]) (replicate 64 0) [0..<16]) [16..<64]"

type_synonym sha_vars = "u32 \<times> u32 \<times> u32 \<times> u32 \<times> u32 \<times> u32 \<times> u32 \<times> u32"

definition sha_round :: "u32 list \<Rightarrow> sha_vars \<Rightarrow> nat \<Rightarrow> sha_vars" where
  "sha_round w = (\<lambda>(a, b, c, d, e, f, g, h) i.
     let s1 = rotr e 6 XOR rotr e 11 XOR rotr e 25;
         ch = (e AND f) XOR (NOT e AND g);
         temp1 = h + s1 + ch + sha256_k ! i + w ! i;
         s0 = rotr a 2 XOR rotr a 13 XOR rotr a 22;
         maj = (a AND b) XOR (a AND c) XOR (b AND c);
         temp2 = s0 + maj
     in (temp1 + temp2, a, b, c, d + temp1, e, f, g))"

definition sha256_transform :: "u32 list \<Rightarrow> bytes \<Rightarrow> u32 list" where
  "sha256_transform state block =
     (let w = message_schedule block;
          (a, b, c, d, e, f, g, h) =
            foldl (sha_round w)
              (state ! 0, state ! 1, state ! 2, state ! 3, state ! 4, state ! 5, state ! 6, state ! 7)
              [0..<64]
      in [state ! 0 + a, state ! 1 + b, state ! 2 + c, state ! 3 + d,
          state ! 4 + e, state ! 5 + f, state ! 6 + g, state ! 7 + h])"

lemma length_sha256_transform [simp]: "length (sha256_transform state block) = 8"
  by (simp add: sha256_transform_def Let_def split: prod.splits)

section \<open>SHA-256: the two drivers\<close>

text \<open>
  The mutable locals of the drivers: the hash words, the 64-byte block buffer and the write
  position in it. The buffer keeps the bytes of the previous block beyond the position, as the
  array of the code does.
\<close>

record sha_ctx =
  sha_state :: "u32 list"
  sha_block :: bytes
  block_pos :: nat

definition put_byte :: "u8 \<Rightarrow> sha_ctx \<Rightarrow> sha_ctx" where
  "put_byte b ctx = ctx\<lparr>sha_block := (sha_block ctx)[block_pos ctx := b], block_pos := Suc (block_pos ctx)\<rparr>"

definition flush_block :: "sha_ctx \<Rightarrow> sha_ctx" where
  "flush_block ctx = ctx\<lparr>sha_state := sha256_transform (sha_state ctx) (sha_block ctx), block_pos := 0\<rparr>"

definition absorb_byte :: "sha_ctx \<Rightarrow> u8 \<Rightarrow> sha_ctx" where
  "absorb_byte ctx b =
     (let ctx = put_byte b ctx in if block_pos ctx = 64 then flush_block ctx else ctx)"

text \<open>\<open>while (block_pos < n) block[block_pos++] = 0;\<close>\<close>

function zero_fill :: "nat \<Rightarrow> sha_ctx \<Rightarrow> sha_ctx" where
  "zero_fill n ctx = (if block_pos ctx < n then zero_fill n (put_byte 0 ctx) else ctx)"
  by pat_completeness auto
termination
  by (relation "measure (\<lambda>(n, ctx). n - block_pos ctx)") (auto simp: put_byte_def)

declare zero_fill.simps [simp del]

definition length_bytes :: "u64 \<Rightarrow> bytes" where
  "length_bytes bit_length = map (\<lambda>i. ucast (drop_bit (i * 8) bit_length)) [7, 6, 5, 4, 3, 2, 1, 0]"

definition state_bytes :: "u32 list \<Rightarrow> bytes" where
  "state_bytes state =
     concat (map (\<lambda>i. [ucast (drop_bit 24 (state ! i)), ucast (drop_bit 16 (state ! i)),
                       ucast (drop_bit 8 (state ! i)), ucast (state ! i)]) [0..<8])"

text \<open>The padding of \<open>compute_sha256\<close>.\<close>

definition sha256_finish :: "u64 \<Rightarrow> sha_ctx \<Rightarrow> u32 list" where
  "sha256_finish bit_length ctx =
     (let ctx = put_byte 0x80 ctx;
          ctx = (if block_pos ctx > 56 then flush_block (zero_fill 64 ctx) else ctx);
          ctx = zero_fill 56 ctx;
          ctx = fold put_byte (length_bytes bit_length) ctx
      in sha256_transform (sha_state ctx) (sha_block ctx))"

definition compute_sha256 :: "bytes \<Rightarrow> bytes" where
  "compute_sha256 data =
     (let ctx = foldl absorb_byte \<lparr>sha_state = sha256_h0, sha_block = replicate 64 0, block_pos = 0\<rparr> data
      in state_bytes (sha256_finish (word_of_nat (length data) * 8) ctx))"

text \<open>
  The last iteration of \<open>sha256_file\<close>: the same padding, but for the \<open>block.fill(0)\<close> after
  the extra block.
\<close>

definition sha256_file_finish :: "u64 \<Rightarrow> sha_ctx \<Rightarrow> u32 list" where
  "sha256_file_finish bit_length ctx =
     (let ctx = put_byte 0x80 ctx;
          ctx = (if block_pos ctx > 56
                 then (flush_block (zero_fill 64 ctx))\<lparr>sha_block := replicate 64 0\<rparr> else ctx);
          ctx = zero_fill 56 ctx;
          ctx = fold put_byte (length_bytes bit_length) ctx
      in sha256_transform (sha_state ctx) (sha_block ctx))"

text \<open>
  The read loop: \<open>read\<close> overwrites the front of the block with what is left of the file, at
  most 64 bytes; a short read is the last one.
\<close>

function sha256_file_loop :: "u32 list \<Rightarrow> u64 \<Rightarrow> bytes \<Rightarrow> bytes \<Rightarrow> u32 list" where
  "sha256_file_loop state sz block content =
     (let chunk = take 64 content; bytes_read = length chunk;
          block = chunk @ drop bytes_read block;
          sz = sz + word_of_nat bytes_read
      in if bytes_read = 64
         then sha256_file_loop (sha256_transform state block) sz block (drop 64 content)
         else sha256_file_finish (sz * 8)
                \<lparr>sha_state = state, sha_block = block, block_pos = bytes_read\<rparr>)"
  by pat_completeness auto
termination
  by (relation "measure (\<lambda>(state, sz, block, content). length content)") auto

declare sha256_file_loop.simps [simp del]

text \<open>\<open>hash_to_hex\<close> prints the 32 bytes; \<open>None\<close> is a file that cannot be opened.\<close>

definition sha256_file :: "bytes option \<Rightarrow> string result" where
  "sha256_file file =
     (case file of
        None \<Rightarrow> Inl File_not_found
      | Some content \<Rightarrow>
          Inr (hex_string (state_bytes (sha256_file_loop sha256_h0 0 (replicate 64 0) content))))"

definition verify_sha256 :: "bytes option \<Rightarrow> string \<Rightarrow> bool" where
  "verify_sha256 file expected =
     (case sha256_file file of Inl _ \<Rightarrow> False | Inr h \<Rightarrow> h = expected)"

definition sha256 :: "bytes \<Rightarrow> string" where
  "sha256 data = hex_string (compute_sha256 data)"

section \<open>SHA-256: both drivers hash the padded message\<close>

text \<open>
  The reference: append 0x80, zeros up to 56 modulo 64 and the bit length, cut into blocks of
  64 bytes, compress one after the other.
\<close>

definition sha_pad :: "nat \<Rightarrow> u64 \<Rightarrow> bytes" where
  "sha_pad n bit_length =
     0x80 # replicate (if n mod 64 < 56 then 55 - n mod 64 else 119 - n mod 64) 0 @ length_bytes bit_length"

function sha_blocks :: "u32 list \<Rightarrow> bytes \<Rightarrow> u32 list" where
  "sha_blocks state msg =
     (if length msg < 64 then state else sha_blocks (sha256_transform state (take 64 msg)) (drop 64 msg))"
  by pat_completeness auto
termination
  by (relation "measure (\<lambda>(state, msg). length msg)") auto

declare sha_blocks.simps [simp del]

definition sha256_reference :: "bytes \<Rightarrow> string" where
  "sha256_reference msg =
     hex_string (state_bytes (sha_blocks sha256_h0 (msg @ sha_pad (length msg) (word_of_nat (length msg) * 8))))"

text \<open>The buffered bytes.\<close>

definition pending :: "sha_ctx \<Rightarrow> bytes" where
  "pending ctx = take (block_pos ctx) (sha_block ctx)"

lemma length_length_bytes [simp]: "length (length_bytes b) = 8"
  by (simp add: length_bytes_def)

lemma put_byte_simps [simp]:
  "sha_state (put_byte b ctx) = sha_state ctx"
  "block_pos (put_byte b ctx) = Suc (block_pos ctx)"
  "length (sha_block (put_byte b ctx)) = length (sha_block ctx)"
  by (simp_all add: put_byte_def)

lemma pending_put_byte:
  "block_pos ctx < length (sha_block ctx) \<Longrightarrow> pending (put_byte b ctx) = pending ctx @ [b]"
  by (simp add: pending_def put_byte_def take_Suc_conv_app_nth)

lemma fold_put_byte:
  "block_pos ctx + length bs \<le> length (sha_block ctx) \<Longrightarrow>
   pending (fold put_byte bs ctx) = pending ctx @ bs \<and>
   block_pos (fold put_byte bs ctx) = block_pos ctx + length bs \<and>
   sha_state (fold put_byte bs ctx) = sha_state ctx \<and>
   length (sha_block (fold put_byte bs ctx)) = length (sha_block ctx)"
  by (induction bs arbitrary: ctx) (auto simp: pending_put_byte)

lemma zero_fill_fold: "zero_fill n ctx = fold put_byte (replicate (n - block_pos ctx) 0) ctx"
proof (induction n ctx rule: zero_fill.induct)
  case (1 n ctx)
  show ?case
  proof (cases "block_pos ctx < n")
    case True
    then have "replicate (n - block_pos ctx) 0 = (0 :: u8) # replicate (n - Suc (block_pos ctx)) 0"
      by (metis Suc_diff_Suc replicate_Suc)
    with 1 True show ?thesis by (simp add: zero_fill.simps [of n ctx])
  next
    case False
    then show ?thesis by (simp add: zero_fill.simps [of n ctx])
  qed
qed

lemma pending_full: "length (sha_block ctx) = 64 \<Longrightarrow> block_pos ctx = 64 \<Longrightarrow> pending ctx = sha_block ctx"
  by (simp add: pending_def)

text \<open>Filling the block completely and compressing it.\<close>

lemma transform_filled:
  assumes "length (sha_block ctx) = 64" and "block_pos ctx + length bs = 64"
  shows "sha256_transform (sha_state (fold put_byte bs ctx)) (sha_block (fold put_byte bs ctx)) =
         sha256_transform (sha_state ctx) (pending ctx @ bs)"
  using fold_put_byte [of ctx bs] assms pending_full [of "fold put_byte bs ctx"] by simp

lemma sha_blocks_one: "length m = 64 \<Longrightarrow> sha_blocks s m = sha256_transform s m"
  by (subst sha_blocks.simps) (subst sha_blocks.simps, simp)

lemma sha_blocks_append: "length m = 64 \<Longrightarrow> sha_blocks s (m @ n) = sha_blocks (sha256_transform s m) n"
  by (subst sha_blocks.simps) simp

lemma finish_tail:
  assumes "length (sha_block ctx) = 64" and "block_pos ctx \<le> 56"
  shows "(let ctx = zero_fill 56 ctx; ctx = fold put_byte (length_bytes bl) ctx
          in sha256_transform (sha_state ctx) (sha_block ctx)) =
         sha_blocks (sha_state ctx) (pending ctx @ replicate (56 - block_pos ctx) 0 @ length_bytes bl)"
proof -
  let ?bs = "replicate (56 - block_pos ctx) 0 @ length_bytes bl"
  have "length (pending ctx @ ?bs) = 64"
    using assms by (simp add: pending_def)
  then show ?thesis
    using transform_filled [of ctx ?bs] assms
    by (simp add: zero_fill_fold Let_def sha_blocks_one)
qed

lemma finish_full:
  assumes "length (sha_block ctx) = 64" and "block_pos ctx \<le> 64"
  shows "sha_state (flush_block (zero_fill 64 ctx)) =
           sha256_transform (sha_state ctx) (pending ctx @ replicate (64 - block_pos ctx) 0)"
    and "length (sha_block (flush_block (zero_fill 64 ctx))) = 64"
    and "block_pos (flush_block (zero_fill 64 ctx)) = 0"
  using assms transform_filled [of ctx "replicate (64 - block_pos ctx) 0"]
    fold_put_byte [of ctx "replicate (64 - block_pos ctx) 0"]
  by (simp_all add: flush_block_def zero_fill_fold)

lemma sha256_finish_blocks:
  assumes ok: "length (sha_block ctx) = 64" and pos: "block_pos ctx < 64"
  shows "sha256_finish bl ctx = sha_blocks (sha_state ctx) (pending ctx @ sha_pad (block_pos ctx) bl)"
    and "sha256_file_finish bl ctx = sha_blocks (sha_state ctx) (pending ctx @ sha_pad (block_pos ctx) bl)"
proof -
  define c1 where "c1 = put_byte 0x80 ctx"
  have c1: "length (sha_block c1) = 64" "block_pos c1 = Suc (block_pos ctx)"
    "sha_state c1 = sha_state ctx" "pending c1 = pending ctx @ [0x80]"
    using assms by (simp_all add: c1_def pending_put_byte)
  have goal: "(let c = (if block_pos c1 > 56 then f (flush_block (zero_fill 64 c1)) else c1);
                   c = zero_fill 56 c; c = fold put_byte (length_bytes bl) c
               in sha256_transform (sha_state c) (sha_block c)) =
              sha_blocks (sha_state ctx) (pending ctx @ sha_pad (block_pos ctx) bl)"
    if f: "\<And>c. length (sha_block c) = 64 \<Longrightarrow> length (sha_block (f c)) = 64 \<and> sha_state (f c) = sha_state c \<and> block_pos (f c) = block_pos c"
    for f
  proof (cases "block_pos c1 > 56")
    case False
    then show ?thesis
      using finish_tail [of c1 bl] c1 pos by (simp add: sha_pad_def Let_def)
  next
    case True
    define c2 where "c2 = f (flush_block (zero_fill 64 c1))"
    have c2: "length (sha_block c2) = 64" "block_pos c2 = 0" "pending c2 = []"
      "sha_state c2 = sha256_transform (sha_state c1) (pending c1 @ replicate (64 - block_pos c1) 0)"
      using finish_full [of c1] f [of "flush_block (zero_fill 64 c1)"] c1 pos
      by (simp_all add: c2_def pending_def)
    have r: "replicate (119 - block_pos ctx) 0 = replicate (64 - block_pos c1) 0 @ (replicate 56 0 :: bytes)"
      using c1 pos by (simp flip: replicate_add)
    have len: "length (pending c1 @ replicate (64 - block_pos c1) (0 :: u8)) = 64"
      using c1 pos ok by (simp add: pending_def)
    have "sha_blocks (sha_state ctx) (pending ctx @ sha_pad (block_pos ctx) bl) =
          sha_blocks (sha_state c2) (replicate 56 0 @ length_bytes bl)"
      using sha_blocks_append [OF len, of "sha_state c1" "replicate 56 0 @ length_bytes bl"] True pos
      by (simp add: c2 sha_pad_def r c1)
    then show ?thesis
      using True finish_tail [of c2 bl] c2 by (simp add: Let_def c2_def)
  qed
  show "sha256_finish bl ctx = sha_blocks (sha_state ctx) (pending ctx @ sha_pad (block_pos ctx) bl)"
    using goal [of "\<lambda>c. c", unfolded c1_def] by (simp add: sha256_finish_def Let_def)
  show "sha256_file_finish bl ctx = sha_blocks (sha_state ctx) (pending ctx @ sha_pad (block_pos ctx) bl)"
    using goal [of "\<lambda>c. c\<lparr>sha_block := replicate 64 0\<rparr>", unfolded c1_def]
    by (simp add: sha256_file_finish_def Let_def)
qed

text \<open>The byte loop of \<open>compute_sha256\<close>: complete blocks are compressed, the rest is pending.\<close>

lemma absorb_byte_blocks:
  assumes "length (sha_block ctx) = 64" and "block_pos ctx < 64"
  shows "length (sha_block (absorb_byte ctx b)) = 64 \<and> block_pos (absorb_byte ctx b) < 64 \<and>
         sha_blocks (sha_state (absorb_byte ctx b)) (pending (absorb_byte ctx b) @ t) =
         sha_blocks (sha_state ctx) (pending ctx @ b # t) \<and>
         block_pos (absorb_byte ctx b) = Suc (block_pos ctx) mod 64"
proof (cases "Suc (block_pos ctx) = 64")
  case True
  have full: "sha_block (put_byte b ctx) = pending ctx @ [b]"
    using pending_full [of "put_byte b ctx"] pending_put_byte [of ctx b] assms True by simp
  then have "length (pending ctx @ [b]) = 64"
    using assms by (metis put_byte_simps(3))
  then show ?thesis
    using assms True full sha_blocks_append [of "pending ctx @ [b]" "sha_state ctx" t]
    by (simp add: absorb_byte_def flush_block_def pending_def)
next
  case False
  then show ?thesis
    using assms by (simp add: absorb_byte_def pending_put_byte)
qed

lemma foldl_absorb_blocks:
  "length (sha_block ctx) = 64 \<Longrightarrow> block_pos ctx < 64 \<Longrightarrow>
   length (sha_block (foldl absorb_byte ctx xs)) = 64 \<and>
   block_pos (foldl absorb_byte ctx xs) = (block_pos ctx + length xs) mod 64 \<and>
   sha_blocks (sha_state (foldl absorb_byte ctx xs)) (pending (foldl absorb_byte ctx xs) @ t) =
   sha_blocks (sha_state ctx) (pending ctx @ xs @ t)"
proof (induction xs arbitrary: ctx)
  case Nil
  then show ?case by simp
next
  case (Cons x xs)
  from Cons.IH [of "absorb_byte ctx x"] absorb_byte_blocks [OF Cons.prems, of x "xs @ t"]
  show ?case by (simp add: mod_add_left_eq)
qed

lemma sha_pad_mod: "sha_pad (n mod 64) bl = sha_pad n bl"
  by (simp add: sha_pad_def)

lemma sha256_eq_reference: "sha256 data = sha256_reference data"
proof -
  define c0 where "c0 = \<lparr>sha_state = sha256_h0, sha_block = replicate 64 0, block_pos = 0\<rparr>"
  define c where "c = foldl absorb_byte c0 data"
  define bl :: u64 where "bl = word_of_nat (length data) * 8"
  have pending_c0: "pending c0 = []" by (simp add: c0_def pending_def)
  have c: "length (sha_block c) = 64" "block_pos c = length data mod 64"
    "sha_blocks (sha_state c) (pending c @ t) = sha_blocks sha256_h0 (data @ t)" for t
    using foldl_absorb_blocks [of c0 data t] pending_c0
    by (simp_all add: c_def) (simp_all add: c0_def)
  have "sha256_finish bl c = sha_blocks (sha_state c) (pending c @ sha_pad (block_pos c) bl)"
    using c by (intro sha256_finish_blocks) simp_all
  also have "\<dots> = sha_blocks sha256_h0 (data @ sha_pad (length data) bl)"
    using c by (simp add: sha_pad_mod)
  finally show ?thesis
    by (simp add: sha256_def compute_sha256_def sha256_reference_def Let_def c_def c0_def bl_def)
qed

text \<open>The read loop of \<open>sha256_file\<close>.\<close>

lemma sha256_file_loop_blocks:
  "length block = 64 \<Longrightarrow>
   sha256_file_loop state sz block content =
   sha_blocks state (content @ sha_pad (length content) ((sz + word_of_nat (length content)) * 8))"
proof (induction state sz block content rule: sha256_file_loop.induct)
  case (1 state sz block content)
  show ?case
  proof (cases "length content < 64")
    case True
    define c where "c = \<lparr>sha_state = state, sha_block = content @ drop (length content) block,
                          block_pos = length content\<rparr>"
    have "pending c = content"
      by (simp add: c_def pending_def)
    then show ?thesis
      using True sha256_finish_blocks(2) [of c] "1.prems"
      by (simp add: sha256_file_loop.simps [of state sz block content] c_def Let_def)
  next
    case False
    have pad: "sha_pad (length (drop 64 content)) bl = sha_pad (length content) bl" for bl
      using False sha_pad_mod [of "length content" bl] sha_pad_mod [of "length content - 64" bl]
      by (simp add: le_mod_geq)
    have tot: "sz + 64 + word_of_nat (length content - 64) = sz + word_of_nat (length content)"
      using False by (simp add: of_nat_diff)
    have "sha_blocks state (content @ p) = sha_blocks (sha256_transform state (take 64 content)) (drop 64 content @ p)" for p
      using sha_blocks_append [of "take 64 content" state "drop 64 content @ p"] False
      by (metis append.assoc append_take_drop_id length_take linorder_not_le min.absorb2)
    then show ?thesis
      using False 1 pad tot by (simp add: sha256_file_loop.simps [of state sz block content])
  qed
qed

lemma sha256_file_eq_reference: "sha256_file (Some content) = Inr (sha256_reference content)"
  by (simp add: sha256_file_def sha256_file_loop_blocks sha256_reference_def)

lemma length_sha_blocks: "length state = 8 \<Longrightarrow> length (sha_blocks state m) = 8"
  by (induction state m rule: sha_blocks.induct) (subst sha_blocks.simps, simp)

lemma length_sha256_reference: "length (sha256_reference m) = 64"
  by (simp add: sha256_reference_def state_bytes_def upt_rec length_concat)

lemma verify_sha256_simps [simp]:
  "\<not> verify_sha256 None h"
  "verify_sha256 (Some content) h \<longleftrightarrow> sha256_reference content = h"
  by (simp_all add: verify_sha256_def sha256_file_def [of None] sha256_file_eq_reference)

section \<open>Properties\<close>

text \<open>The table-driven CRC-32 computes the same value as the bit-at-a-time definition.\<close>

theorem crc32_table_correct: "crc32 bs = crc32_bitwise bs"
  by (rule crc32_eq_bitwise)

text \<open>The stored checksum detects every error in a single byte: data that differs from the
  data the checksum was computed for in exactly one byte never verifies.\<close>

theorem crc32_detects_byte_error:
  assumes "b \<noteq> b'"
  shows "\<not> verify_crc32 (xs @ b' # ys) (crc32 (xs @ b # ys))"
  using crc32_single_byte [OF assms, of xs ys] by (simp add: verify_crc32_def)

theorem crc32_detects_byte_error_witness:
  "\<not> verify_crc32 ([1, 2] @ 7 # [4]) (crc32 ([1, 2] @ 3 # [4]))"
  by (rule crc32_detects_byte_error) simp

text \<open>C6: hashing a file through the streaming reader and hashing its content in memory give
  the same hexadecimal digest of 64 characters, which is the hash of the padded message in the
  sense of FIPS 180-4; a file that cannot be opened is reported as not found.\<close>

theorem sha256_file_agrees:
  "sha256_file (Some content) = Inr (sha256 content) \<and>
   sha256 content = sha256_reference content \<and>
   length (sha256 content) = 64 \<and>
   sha256_file None = Inl File_not_found"
  by (simp add: sha256_file_eq_reference sha256_eq_reference length_sha256_reference)
     (simp add: sha256_file_def)

end
