(* ===== verification/Chunk_Types.thy ===== *)
theory Chunk_Types
  imports Complex_Main Transfer_Id Checksum
begin

text \<open>
  core/chunk_types.h and core/chunk_config.h: chunk flags, chunk headers, chunks, the chunk
  configuration with its validation, and the metadata structures of core/types.h. Fields keep
  their widths. Percentages and ratios, which the code computes in \<open>double\<close>, are exact
  rationals.
\<close>

section \<open>Flags\<close>

type_synonym chunk_flags = u8

definition flag_none :: chunk_flags where "flag_none = 0x00"
definition flag_first_chunk :: chunk_flags where "flag_first_chunk = 0x01"
definition flag_last_chunk :: chunk_flags where "flag_last_chunk = 0x02"
definition flag_compressed :: chunk_flags where "flag_compressed = 0x04"
definition flag_encrypted :: chunk_flags where "flag_encrypted = 0x08"

definition flags_or :: "chunk_flags \<Rightarrow> chunk_flags \<Rightarrow> chunk_flags" where
  "flags_or a b = a OR b"

definition flags_and :: "chunk_flags \<Rightarrow> chunk_flags \<Rightarrow> chunk_flags" where
  "flags_and a b = a AND b"

definition flags_not :: "chunk_flags \<Rightarrow> chunk_flags" where
  "flags_not a = NOT a"

definition has_flag :: "chunk_flags \<Rightarrow> chunk_flags \<Rightarrow> bool" where
  "has_flag flags flag \<longleftrightarrow> flags AND flag \<noteq> 0"

definition is_first_chunk :: "chunk_flags \<Rightarrow> bool" where
  "is_first_chunk flags = has_flag flags flag_first_chunk"

definition is_last_chunk :: "chunk_flags \<Rightarrow> bool" where
  "is_last_chunk flags = has_flag flags flag_last_chunk"

definition is_compressed :: "chunk_flags \<Rightarrow> bool" where
  "is_compressed flags = has_flag flags flag_compressed"

definition is_encrypted :: "chunk_flags \<Rightarrow> bool" where
  "is_encrypted flags = has_flag flags flag_encrypted"

definition is_single_chunk :: "chunk_flags \<Rightarrow> bool" where
  "is_single_chunk flags \<longleftrightarrow> is_first_chunk flags \<and> is_last_chunk flags"

lemmas flag_defs =
  flag_none_def flag_first_chunk_def flag_last_chunk_def flag_compressed_def flag_encrypted_def

lemmas flag_query_defs =
  is_first_chunk_def is_last_chunk_def is_compressed_def is_encrypted_def is_single_chunk_def

lemma and_or_eq_0: "((a OR b) AND (c :: u8)) = 0 \<longleftrightarrow> a AND c = 0 \<and> b AND c = 0"
  by (simp add: bit.conj_disj_distrib2 or_eq_0_iff)

lemma has_flag_or: "has_flag (flags_or a b) f \<longleftrightarrow> has_flag a f \<or> has_flag b f"
  by (auto simp: has_flag_def flags_or_def and_or_eq_0)

lemma has_flag_none [simp]: "\<not> has_flag flag_none f"
  by (simp add: has_flag_def flag_none_def)

section \<open>Chunks\<close>

record chunk_header =
  h_id :: transfer_id
  chunk_index :: u64
  chunk_offset :: u64
  original_size :: u32
  compressed_size :: u32
  checksum :: u32
  flags :: chunk_flags

definition chunk_header_size :: nat where
  "chunk_header_size = 48"

definition empty_header :: chunk_header where
  "empty_header =
     \<lparr>h_id = null_id, chunk_index = 0, chunk_offset = 0, original_size = 0, compressed_size = 0,
      checksum = 0, flags = flag_none\<rparr>"

record chunk =
  header :: chunk_header
  data :: bytes

definition data_size :: "chunk \<Rightarrow> nat" where
  "data_size c = length (data c)"

definition total_size :: "chunk \<Rightarrow> nat" where
  "total_size c = chunk_header_size + length (data c)"

definition chunk_is_first :: "chunk \<Rightarrow> bool" where
  "chunk_is_first c = has_flag (flags (header c)) flag_first_chunk"

definition chunk_is_last :: "chunk \<Rightarrow> bool" where
  "chunk_is_last c = has_flag (flags (header c)) flag_last_chunk"

definition chunk_is_compressed :: "chunk \<Rightarrow> bool" where
  "chunk_is_compressed c = has_flag (flags (header c)) flag_compressed"

record chunk_statistics =
  st_total_chunks :: u64
  st_received_chunks :: u64
  st_compressed_chunks :: u64
  st_retransmitted_chunks :: u64
  st_checksum_failures :: u64
  st_bytes_original :: u64
  st_bytes_compressed :: u64

definition percentage :: "u64 \<Rightarrow> u64 \<Rightarrow> rat" where
  "percentage part whole = (if whole = 0 then 0 else of_nat (unat part) / of_nat (unat whole) * 100)"

definition st_completion_percentage :: "chunk_statistics \<Rightarrow> rat" where
  "st_completion_percentage s = percentage (st_received_chunks s) (st_total_chunks s)"

definition st_compression_ratio :: "chunk_statistics \<Rightarrow> rat" where
  "st_compression_ratio s =
     (if st_bytes_original s = 0 then 1
      else of_nat (unat (st_bytes_compressed s)) / of_nat (unat (st_bytes_original s)))"

section \<open>Metadata\<close>

record file_metadata =
  m_filename :: string
  m_file_size :: u64
  m_total_chunks :: u64
  m_chunk_size :: u64
  m_sha256_hash :: string

record assembly_progress =
  ap_id :: transfer_id
  ap_total_chunks :: u64
  ap_received_chunks :: u64
  ap_bytes_written :: u64

definition ap_completion_percentage :: "assembly_progress \<Rightarrow> rat" where
  "ap_completion_percentage p = percentage (ap_received_chunks p) (ap_total_chunks p)"

lemma percentage_range:
  assumes "part \<le> whole"
  shows "0 \<le> percentage part whole" and "percentage part whole \<le> 100"
proof -
  have ratio: "0 \<le> (of_nat m / of_nat n * 100 :: rat) \<and> (of_nat m / of_nat n * 100 :: rat) \<le> 100"
    if "m \<le> n" "0 < n" for m n :: nat
    using that by (simp add: divide_le_eq)
  from assms have "unat part \<le> unat whole"
    by (simp add: word_le_nat_alt)
  then show "0 \<le> percentage part whole" "percentage part whole \<le> 100"
    using ratio [of "unat part" "unat whole"]
    by (simp_all add: percentage_def unat_gt_0 del: of_nat_unat)
qed

section \<open>Configuration\<close>

definition default_chunk_size :: u64 where "default_chunk_size = 256 * 1024"
definition min_chunk_size :: u64 where "min_chunk_size = 64 * 1024"
definition max_chunk_size :: u64 where "max_chunk_size = 1024 * 1024"

record chunk_config =
  chunk_size :: u64

definition default_chunk_config :: chunk_config where
  "default_chunk_config = \<lparr>chunk_size = default_chunk_size\<rparr>"

definition validate_config :: "chunk_config \<Rightarrow> unit result" where
  "validate_config cfg =
     (if chunk_size cfg < min_chunk_size then Inl Invalid_chunk_size
      else if chunk_size cfg > max_chunk_size then Inl Invalid_chunk_size
      else Inr ())"

text \<open>
  The sum wraps at 64 bits. \<open>None\<close> is the integer division by zero, which a configuration
  that was never validated can reach.
\<close>

definition calculate_chunk_count :: "chunk_config \<Rightarrow> u64 \<Rightarrow> u64 option" where
  "calculate_chunk_count cfg file_size =
     (if file_size = 0 then Some 0
      else if chunk_size cfg = 0 then None
      else Some ((file_size + chunk_size cfg - 1) div chunk_size cfg))"

lemma validate_config_ok: "validate_config cfg = Inr () \<longleftrightarrow> 65536 \<le> chunk_size cfg \<and> chunk_size cfg \<le> 1048576"
  by (auto simp: validate_config_def min_chunk_size_def max_chunk_size_def)

text \<open>The number of chunks of \<open>n\<close> bytes: the quotient rounded up.\<close>

definition ceil_div :: "nat \<Rightarrow> nat \<Rightarrow> nat" where
  "ceil_div n k = (n + k - 1) div k"

lemma ceil_div_bounds:
  assumes "0 < k" and "0 < n"
  shows "(ceil_div n k - 1) * k < n" and "n \<le> ceil_div n k * k" and "0 < ceil_div n k"
proof -
  define q where "q = (n + k - 1) div k"
  have "n + k - 1 = q * k + (n + k - 1) mod k" and m: "(n + k - 1) mod k < k"
    using assms by (simp_all add: q_def)
  then have e: "n + k = q * k + (n + k - 1) mod k + 1"
    using assms by linarith
  have "0 < q"
    using assms by (simp add: q_def div_greater_zero_iff)
  then obtain p where p: "q = Suc p" by (cases q) auto
  show "(ceil_div n k - 1) * k < n" "n \<le> ceil_div n k * k" "0 < ceil_div n k"
    unfolding ceil_div_def q_def [symmetric] using e m p by simp_all
qed

lemma calculate_chunk_count_nat:
  assumes "chunk_size cfg \<noteq> 0" and "file_size \<noteq> 0"
    and "unat file_size + unat (chunk_size cfg) \<le> 2 ^ 64"
  shows "calculate_chunk_count cfg file_size =
           Some (word_of_nat (ceil_div (unat file_size) (unat (chunk_size cfg))))"
proof -
  have pos: "0 < unat (chunk_size cfg)" "0 < unat file_size"
    using assms by (simp_all add: unat_gt_0)
  have "unat (file_size + chunk_size cfg - 1) = unat file_size + unat (chunk_size cfg) - 1"
  proof -
    have "file_size + chunk_size cfg - 1 = word_of_nat (unat file_size + unat (chunk_size cfg) - 1)"
      using pos by (simp add: of_nat_diff)
    then show ?thesis
      using assms(3) pos by (simp only: unat_of_nat) simp
  qed
  then have "unat ((file_size + chunk_size cfg - 1) div chunk_size cfg) =
             ceil_div (unat file_size) (unat (chunk_size cfg))"
    by (simp add: unat_div ceil_div_def)
  then have "(file_size + chunk_size cfg - 1) div chunk_size cfg =
             word_of_nat (ceil_div (unat file_size) (unat (chunk_size cfg)))"
    by (metis word_of_nat_unat)
  then show ?thesis
    using assms by (simp add: calculate_chunk_count_def)
qed

section \<open>Properties\<close>

text \<open>With a valid configuration the chunk count of a non-empty file is the file size
  divided by the chunk size, rounded up, so that the chunks cover the file and the last one is
  not empty; the 64-bit sum does not wrap for any file below \<open>2 ^ 63\<close> bytes.\<close>

theorem chunk_count_correct:
  assumes "validate_config cfg = Inr ()" and "0 < unat fsize" and "unat fsize < 2 ^ 63"
  shows "\<exists>n. calculate_chunk_count cfg fsize = Some n \<and> 0 < unat n \<and>
             (unat n - 1) * unat (chunk_size cfg) < unat fsize \<and>
             unat fsize \<le> unat n * unat (chunk_size cfg)"
proof -
  define cs where "cs = unat (chunk_size cfg)"
  have cs: "0 < cs" "cs \<le> 1048576" "chunk_size cfg \<noteq> 0"
    using assms(1) by (auto simp: cs_def validate_config_ok word_le_nat_alt)
  note b = ceil_div_bounds [OF cs(1) assms(2)]
  have "ceil_div (unat fsize) cs - 1 \<le> (ceil_div (unat fsize) cs - 1) * cs"
    using cs(1) by (metis Suc_leI One_nat_def mult.right_neutral mult_le_mono2)
  then have "ceil_div (unat fsize) cs - 1 < 2 ^ 63"
    using b(1) assms(3) by (meson le_less_trans less_trans)
  then have "ceil_div (unat fsize) cs < 2 ^ 64"
    by simp
  then have "unat (word_of_nat (ceil_div (unat fsize) cs) :: u64) = ceil_div (unat fsize) cs"
    by (rule unat_u64_of_nat)
  moreover have "calculate_chunk_count cfg fsize = Some (word_of_nat (ceil_div (unat fsize) cs))"
    using calculate_chunk_count_nat [of cfg fsize] cs assms unat_gt_0 [of fsize]
    by (simp add: cs_def)
  ultimately show ?thesis
    using b by (intro exI [of _ "word_of_nat (ceil_div (unat fsize) cs) :: u64"])
      (simp add: cs_def)
qed

theorem chunk_count_correct_witness:
  "\<exists>n. calculate_chunk_count default_chunk_config 1000000 = Some n \<and> 0 < unat n \<and>
       (unat n - 1) * unat (chunk_size default_chunk_config) < unat (1000000 :: u64) \<and>
       unat (1000000 :: u64) \<le> unat n * unat (chunk_size default_chunk_config)"
  by (rule chunk_count_correct)
     (simp_all add: validate_config_ok default_chunk_config_def default_chunk_size_def)

end
