(* ===== verification/File_System.thy ===== *)
theory File_System
  imports Error_Codes
begin

text \<open>
  What the program uses of \<open>std::filesystem\<close> and of file streams. A file system maps the paths
  of regular files to their contents. Which calls fail is a parameter of each operation
  (\<open>io_env\<close>): permissions, full disks and races are decisions of the environment, and the
  theorems hold for every environment, or say which calls they need to succeed. A successful
  write is durable at once (stream buffering is not modelled).
\<close>

type_synonym path = string
type_synonym filesystem = "path \<rightharpoonup> bytes"

record io_env =
  open_read_fails :: "path \<Rightarrow> bool"
  open_write_fails :: "path \<Rightarrow> bool"
  stat_fails :: "path \<Rightarrow> bool"
  write_fails :: "path \<Rightarrow> bool"
  rename_fails :: "path \<Rightarrow> path \<Rightarrow> bool"
  remove_fails :: "path \<Rightarrow> bool"

definition reliable :: io_env where
  "reliable =
     \<lparr>open_read_fails = (\<lambda>_. False), open_write_fails = (\<lambda>_. False), stat_fails = (\<lambda>_. False),
      write_fails = (\<lambda>_. False), rename_fails = (\<lambda>_ _. False), remove_fails = (\<lambda>_. False)\<rparr>"

lemma reliable_simps [simp]:
  "\<not> open_read_fails reliable p" "\<not> open_write_fails reliable p" "\<not> stat_fails reliable p"
  "\<not> write_fails reliable p" "\<not> rename_fails reliable p q" "\<not> remove_fails reliable p"
  by (simp_all add: reliable_def)

text \<open>\<open>operator/\<close> of \<open>std::filesystem::path\<close> (POSIX): an absolute right operand replaces the left.\<close>

definition path_append :: "path \<Rightarrow> path \<Rightarrow> path" where
  "path_append d f =
     (if f \<noteq> [] \<and> hd f = CHR ''/'' then f
      else if d = [] \<or> last d = CHR ''/'' then d @ f
      else d @ CHR ''/'' # f)"

text \<open>\<open>path::filename\<close>: what follows the last slash.\<close>

definition path_filename :: "path \<Rightarrow> string" where
  "path_filename p = rev (takeWhile (\<lambda>c. c \<noteq> CHR ''/'') (rev p))"

definition fs_exists :: "filesystem \<Rightarrow> path \<Rightarrow> bool" where
  "fs_exists fs p \<longleftrightarrow> p \<in> dom fs"

definition fs_remove :: "io_env \<Rightarrow> path \<Rightarrow> filesystem \<Rightarrow> filesystem" where
  "fs_remove io p fs = (if remove_fails io p then fs else fs(p := None))"

text \<open>\<open>rename\<close> replaces an existing target; a missing source is an error.\<close>

definition fs_rename :: "io_env \<Rightarrow> path \<Rightarrow> path \<Rightarrow> filesystem \<Rightarrow> filesystem option" where
  "fs_rename io p q fs =
     (case fs p of
        None \<Rightarrow> None
      | Some c \<Rightarrow> if rename_fails io p q then None else Some ((fs(p := None))(q \<mapsto> c)))"

text \<open>What a reader gets: \<open>None\<close> if the file is missing or cannot be opened.\<close>

definition fs_read :: "io_env \<Rightarrow> filesystem \<Rightarrow> path \<Rightarrow> bytes option" where
  "fs_read io fs p = (if open_read_fails io p then None else fs p)"

text \<open>\<open>seekp(off); write(bs)\<close>: a gap before \<open>off\<close> reads as zeros.\<close>

definition write_at :: "nat \<Rightarrow> bytes \<Rightarrow> bytes \<Rightarrow> bytes" where
  "write_at off bs content =
     (let base = content @ replicate (off - length content) 0
      in take off base @ bs @ drop (off + length bs) base)"

text \<open>\<open>std::streamoff\<close> is signed: an unsigned 64-bit offset with its top bit set is negative.\<close>

definition seek_ok :: "u64 \<Rightarrow> bool" where
  "seek_ok off \<longleftrightarrow> unat off < 2 ^ 63"

lemma length_write_at:
  "bs \<noteq> [] \<Longrightarrow> length (write_at off bs content) = max (length content) (off + length bs)"
  by (simp add: write_at_def Let_def)

lemma write_at_within:
  "off + length bs \<le> length content \<Longrightarrow>
   write_at off bs content = take off content @ bs @ drop (off + length bs) content"
  by (simp add: write_at_def Let_def)

lemma length_write_at_within [simp]:
  "off + length bs \<le> length content \<Longrightarrow> length (write_at off bs content) = length content"
  by (simp add: write_at_within)

lemma write_at_nth:
  "off + length bs \<le> length content \<Longrightarrow> i < length content \<Longrightarrow>
   write_at off bs content ! i =
     (if off \<le> i \<and> i < off + length bs then bs ! (i - off) else content ! i)"
  by (auto simp: write_at_within nth_append)

end
