(* ===== verification/Chunk_Splitter.thy ===== *)
theory Chunk_Splitter
  imports Chunk_Types File_System
begin

text \<open>
  core/chunk_splitter.h and core/chunk_splitter.cpp: opening a file for splitting, the
  iterator that reads one chunk after the other, and the file metadata. The iterator holds the
  open stream: its content, and whether the stream is \<open>good()\<close>.
\<close>

record chunk_iterator =
  file_data :: bytes
  file_good :: bool
  it_config :: chunk_config
  it_id :: transfer_id
  it_file_size :: u64
  it_total_chunks :: u64
  current_index :: u64
  buffer :: bytes

definition make_iterator :: "bytes \<Rightarrow> chunk_config \<Rightarrow> transfer_id \<Rightarrow> u64 \<Rightarrow> u64 \<Rightarrow> chunk_iterator" where
  "make_iterator content cfg i fsize ntotal =
     \<lparr>file_data = content, file_good = True, it_config = cfg, it_id = i, it_file_size = fsize,
      it_total_chunks = ntotal, current_index = 0, buffer = replicate (unat (chunk_size cfg)) 0\<rparr>"

text \<open>The move leaves the source without chunks; the pair is the new and the old iterator.\<close>

definition move_iterator :: "chunk_iterator \<Rightarrow> chunk_iterator \<times> chunk_iterator" where
  "move_iterator other =
     (other, other\<lparr>file_data := [], buffer := [], it_total_chunks := 0, current_index := 0\<rparr>)"

definition has_next :: "chunk_iterator \<Rightarrow> bool" where
  "has_next it \<longleftrightarrow> current_index it < it_total_chunks it"

definition chunk_flags_at :: "u64 \<Rightarrow> u64 \<Rightarrow> chunk_flags" where
  "chunk_flags_at index ntotal =
     (let f = flag_none;
          f = (if index = 0 then flags_or f flag_first_chunk else f);
          f = (if index = ntotal - 1 then flags_or f flag_last_chunk else f)
      in f)"

text \<open>
  \<open>chunk_iterator::next\<close>. The read fails, and the stream goes bad, when the file holds fewer
  bytes than the size recorded at the start promised.
\<close>

definition it_next :: "chunk_iterator \<Rightarrow> chunk_iterator \<times> chunk result" where
  "it_next it =
     (if \<not> has_next it then (it, Inl Invalid_chunk_index)
      else if \<not> file_good it then (it, Inl File_read_error)
      else
        let offset = current_index it * chunk_size (it_config it);
            bytes_to_read = (if current_index it = it_total_chunks it - 1
                             then it_file_size it - offset else chunk_size (it_config it))
        in if \<not> seek_ok offset then (it\<lparr>file_good := False\<rparr>, Inl File_read_error)
           else
             let got = take (unat bytes_to_read) (drop (unat offset) (file_data it));
                 bytes_read = length got;
                 it = it\<lparr>buffer := got @ drop bytes_read (buffer it)\<rparr>
             in if bytes_read \<noteq> unat bytes_to_read
                then (it\<lparr>file_good := False\<rparr>, Inl File_read_error)
                else
                  let d = take bytes_read (buffer it);
                      hdr = \<lparr>h_id = it_id it, chunk_index = current_index it, chunk_offset = offset,
                             original_size = word_of_nat bytes_read,
                             compressed_size = word_of_nat bytes_read,
                             checksum = crc32 d,
                             flags = chunk_flags_at (current_index it) (it_total_chunks it)\<rparr>
                  in (it\<lparr>current_index := current_index it + 1\<rparr>, Inr \<lparr>header = hdr, data = d\<rparr>))"

text \<open>\<open>chunk_splitter::split\<close>. \<open>None\<close> is the division by zero, which the validation excludes.\<close>

definition split_file :: "io_env \<Rightarrow> filesystem \<Rightarrow> chunk_config \<Rightarrow> path \<Rightarrow> transfer_id \<Rightarrow> chunk_iterator result option" where
  "split_file io fs cfg file_path i =
     (case validate_config cfg of
        Inl e \<Rightarrow> Some (Inl e)
      | Inr _ \<Rightarrow>
          (case fs file_path of
             None \<Rightarrow> Some (Inl File_not_found)
           | Some content \<Rightarrow>
               if stat_fails io file_path then Some (Inl File_access_denied)
               else if open_read_fails io file_path then Some (Inl File_access_denied)
               else
                 let fsize = word_of_nat (length content) :: u64
                 in map_option
                      (\<lambda>n. Inr (make_iterator content cfg i fsize (if n = 0 then 1 else n)))
                      (calculate_chunk_count cfg fsize)))"

text \<open>\<open>chunk_splitter::calculate_metadata\<close>, which does not validate the configuration.\<close>

definition calculate_metadata :: "io_env \<Rightarrow> filesystem \<Rightarrow> chunk_config \<Rightarrow> path \<Rightarrow> file_metadata result option" where
  "calculate_metadata io fs cfg file_path =
     (case fs file_path of
        None \<Rightarrow> Some (Inl File_not_found)
      | Some content \<Rightarrow>
          if stat_fails io file_path then Some (Inl File_access_denied)
          else
            (case sha256_file (fs_read io fs file_path) of
               Inl e \<Rightarrow> Some (Inl e)
             | Inr h \<Rightarrow>
                 let fsize = word_of_nat (length content) :: u64
                 in map_option
                      (\<lambda>n. Inr \<lparr>m_filename = path_filename file_path, m_file_size = fsize,
                                m_total_chunks = (if n = 0 then 1 else n),
                                m_chunk_size = chunk_size cfg, m_sha256_hash = h\<rparr>)
                      (calculate_chunk_count cfg fsize)))"

text \<open>A client's loop \<open>while (it.has_next())\<close>, stopping at the first error; at most \<open>fuel\<close> rounds.\<close>

fun drain :: "nat \<Rightarrow> chunk_iterator \<Rightarrow> chunk list \<times> error_code option" where
  "drain 0 it = ([], None)"
| "drain (Suc fuel) it =
     (if \<not> has_next it then ([], None)
      else case it_next it of
             (it', Inl e) \<Rightarrow> ([], Some e)
           | (it', Inr c) \<Rightarrow> (case drain fuel it' of (cs, r) \<Rightarrow> (c # cs, r)))"

section \<open>The chunks of a file\<close>

text \<open>
  The abstract contract: chunk \<open>k\<close> of a file cut every \<open>cs\<close> bytes, and the list of all of
  them; an empty file has one empty chunk.
\<close>

definition num_chunks :: "nat \<Rightarrow> nat \<Rightarrow> nat" where
  "num_chunks cs n = (if n = 0 then 1 else ceil_div n cs)"

definition nth_chunk :: "nat \<Rightarrow> transfer_id \<Rightarrow> bytes \<Rightarrow> nat \<Rightarrow> chunk" where
  "nth_chunk cs i content k =
     (let d = take cs (drop (k * cs) content)
      in \<lparr>header = \<lparr>h_id = i, chunk_index = word_of_nat k, chunk_offset = word_of_nat (k * cs),
                    original_size = word_of_nat (length d), compressed_size = word_of_nat (length d),
                    checksum = crc32 d,
                    flags = chunk_flags_at (word_of_nat k) (word_of_nat (num_chunks cs (length content)))\<rparr>,
          data = d\<rparr>)"

definition all_chunks :: "nat \<Rightarrow> transfer_id \<Rightarrow> bytes \<Rightarrow> chunk list" where
  "all_chunks cs i content = map (nth_chunk cs i content) [0..<num_chunks cs (length content)]"

text \<open>An iterator over an unchanged file, at chunk \<open>k\<close>.\<close>

definition it_at :: "chunk_config \<Rightarrow> transfer_id \<Rightarrow> bytes \<Rightarrow> nat \<Rightarrow> chunk_iterator \<Rightarrow> bool" where
  "it_at cfg i content k it \<longleftrightarrow>
     file_data it = content \<and> file_good it \<and> it_config it = cfg \<and> it_id it = i \<and>
     it_file_size it = word_of_nat (length content) \<and>
     it_total_chunks it = word_of_nat (num_chunks (unat (chunk_size cfg)) (length content)) \<and>
     current_index it = word_of_nat k"

lemma num_chunks_pos: "0 < cs \<Longrightarrow> 0 < num_chunks cs n"
  by (simp add: num_chunks_def ceil_div_bounds)

lemma num_chunks_last: "0 < cs \<Longrightarrow> (num_chunks cs n - 1) * cs \<le> n"
  using ceil_div_bounds(1) [of cs n] by (cases "n = 0") (simp_all add: num_chunks_def)

lemma num_chunks_cover: "0 < cs \<Longrightarrow> n \<le> num_chunks cs n * cs"
  using ceil_div_bounds(2) [of cs n] by (cases "n = 0") (simp_all add: num_chunks_def)

lemma num_chunks_le: "0 < cs \<Longrightarrow> num_chunks cs n \<le> Suc n"
proof (cases "n = 0")
  case False
  assume "0 < cs"
  then have "(ceil_div n cs - 1) * cs < n"
    using False by (intro ceil_div_bounds) simp_all
  moreover have "ceil_div n cs - 1 \<le> (ceil_div n cs - 1) * cs"
    using \<open>0 < cs\<close> by (metis Suc_leI One_nat_def mult.right_neutral mult_le_mono2)
  ultimately have "ceil_div n cs - 1 < n"
    by linarith
  then show ?thesis
    using False by (simp add: num_chunks_def)
qed (simp add: num_chunks_def)

lemma chunk_end:
  assumes "0 < cs" and "k < num_chunks cs n"
  shows "k * cs \<le> n" and "k \<noteq> num_chunks cs n - 1 \<Longrightarrow> k * cs + cs \<le> n"
    and "k = num_chunks cs n - 1 \<Longrightarrow> n \<le> k * cs + cs"
proof -
  have le: "k * cs \<le> (num_chunks cs n - 1) * cs"
    using assms by (intro mult_right_mono) auto
  then show "k * cs \<le> n"
    using num_chunks_last [OF assms(1), of n] by linarith
  show "k * cs + cs \<le> n" if "k \<noteq> num_chunks cs n - 1"
  proof -
    have "Suc k * cs \<le> (num_chunks cs n - 1) * cs"
      using assms that by (intro mult_right_mono) auto
    then show ?thesis
      using num_chunks_last [OF assms(1), of n] by simp
  qed
  show "n \<le> k * cs + cs" if "k = num_chunks cs n - 1"
    using num_chunks_cover [OF assms(1), of n] that assms by (cases "num_chunks cs n") auto
qed


text \<open>One step of the iterator is one step of the contract.\<close>

lemma it_next_at:
  assumes cfg: "validate_config cfg = Inr ()" and len: "length content < 2 ^ 63"
    and it: "it_at cfg i content k it"
    and k: "k < num_chunks (unat (chunk_size cfg)) (length content)"
  shows "snd (it_next it) = Inr (nth_chunk (unat (chunk_size cfg)) i content k)"
    and "it_at cfg i content (Suc k) (fst (it_next it))"
proof -
  define cs where "cs = unat (chunk_size cfg)"
  define n where "n = length content"
  define m where "m = num_chunks cs n"
  have cs: "0 < cs" "cs \<le> 1048576"
    using cfg by (auto simp: cs_def validate_config_ok word_le_nat_alt)
  have km: "k < m" and m_le: "m \<le> Suc n" and n: "n < 2 ^ 63"
    using k num_chunks_le [OF cs(1), of n] len by (simp_all add: m_def cs_def n_def)
  note fin = chunk_end [OF cs(1), of k n, folded m_def, OF km]
  have fields: "file_data it = content" "file_good it" "it_config it = cfg" "it_id it = i"
    "it_file_size it = word_of_nat n" "it_total_chunks it = word_of_nat m" "current_index it = word_of_nat k"
    using it by (simp_all add: it_at_def cs_def n_def m_def)
  have m1: "(word_of_nat m :: u64) - 1 = word_of_nat (m - 1)"
    using km by (simp add: of_nat_diff)
  have hn: "has_next it"
    using fields km m_le n by (simp add: has_next_def word_less_nat_alt unat_u64_of_nat)
  define w :: u64 where "w = word_of_nat (k * cs)"
  have off: "current_index it * chunk_size (it_config it) = w"
    by (simp add: fields cs_def w_def)
  have uoff: "unat w = k * cs"
    unfolding w_def using fin(1) n by (intro unat_u64_of_nat) simp
  then have seek: "seek_ok w"
    using fin(1) n by (simp add: seek_ok_def)
  have last: "current_index it = it_total_chunks it - 1 \<longleftrightarrow> k = m - 1"
    unfolding fields m1 using km m_le n by (intro u64_of_nat_inj) simp_all
  define d where "d = take cs (drop (k * cs) content)"
  have b: "unat (if current_index it = it_total_chunks it - 1
                 then it_file_size it - w else chunk_size (it_config it)) = length d"
    (is "unat ?b = _")
  proof (cases "k = m - 1")
    case True
    then have "?b = word_of_nat (n - k * cs)"
      using fin(1) last by (simp add: fields w_def of_nat_diff)
    moreover have "length d = n - k * cs"
      using fin(3) True by (simp add: d_def n_def)
    ultimately show ?thesis
      using n by (simp add: unat_u64_of_nat)
  next
    case False
    then have "?b = chunk_size cfg"
      using last by (simp add: fields)
    moreover have "length d = cs"
      using fin(2) False by (simp add: d_def n_def)
    ultimately show ?thesis
      by (simp add: cs_def)
  qed
  have "take (length d) (drop (k * cs) content) = d"
    by (cases "length content - k * cs \<le> cs") (simp_all add: d_def min_def)
  then have res: "snd (it_next it) = Inr (nth_chunk cs i content k) \<and>
    fst (it_next it) = it\<lparr>buffer := d @ drop (length d) (buffer it), current_index := current_index it + 1\<rparr>"
    using hn seek b
    by (simp add: it_next_def off uoff fields(1,2) Let_def nth_chunk_def flip: d_def)
       (simp add: fields w_def m_def n_def cs_def)
  then show "snd (it_next it) = Inr (nth_chunk (unat (chunk_size cfg)) i content k)"
    by (simp add: cs_def)
  from res show "it_at cfg i content (Suc k) (fst (it_next it))"
    using it by (simp add: it_at_def)
qed

lemma has_next_at:
  assumes cfg: "validate_config cfg = Inr ()" and len: "length content < 2 ^ 63"
    and it: "it_at cfg i content k it"
    and k: "k \<le> num_chunks (unat (chunk_size cfg)) (length content)"
  shows "has_next it \<longleftrightarrow> k < num_chunks (unat (chunk_size cfg)) (length content)"
proof -
  have "0 < unat (chunk_size cfg)"
    using cfg by (auto simp: validate_config_ok word_le_nat_alt)
  then have "num_chunks (unat (chunk_size cfg)) (length content) < 2 ^ 64"
    using num_chunks_le [of "unat (chunk_size cfg)" "length content"] len by simp
  then show ?thesis
    using it k by (simp add: has_next_def it_at_def word_less_nat_alt unat_u64_of_nat)
qed

lemma drain_at:
  assumes cfg: "validate_config cfg = Inr ()" and len: "length content < 2 ^ 63"
  shows "it_at cfg i content k it \<Longrightarrow> k \<le> num_chunks (unat (chunk_size cfg)) (length content) \<Longrightarrow>
     num_chunks (unat (chunk_size cfg)) (length content) - k < fuel \<Longrightarrow>
     drain fuel it =
       (map (nth_chunk (unat (chunk_size cfg)) i content)
          [k..<num_chunks (unat (chunk_size cfg)) (length content)], None)"
proof (induction fuel arbitrary: k it)
  case 0
  then show ?case by simp
next
  case (Suc fuel)
  let ?m = "num_chunks (unat (chunk_size cfg)) (length content)"
  note hn = has_next_at [OF cfg len Suc.prems(1,2)]
  show ?case
  proof (cases "k < ?m")
    case False
    then show ?thesis using hn by simp
  next
    case True
    obtain it' r where step: "it_next it = (it', r)" by (cases "it_next it")
    from it_next_at [OF cfg len Suc.prems(1) True] step
    have r: "r = Inr (nth_chunk (unat (chunk_size cfg)) i content k)" and at: "it_at cfg i content (Suc k) it'"
      by simp_all
    have "drain fuel it' = (map (nth_chunk (unat (chunk_size cfg)) i content) [Suc k..<?m], None)"
      using Suc.prems True by (intro Suc.IH [OF at]) auto
    then show ?thesis
      using True hn step r by (simp add: upt_conv_Cons)
  qed
qed

lemma chunk_count_at:
  assumes "validate_config cfg = Inr ()" and "length content < 2 ^ 63"
  shows "map_option (\<lambda>n. if n = 0 then 1 else n) (calculate_chunk_count cfg (word_of_nat (length content))) =
         Some (word_of_nat (num_chunks (unat (chunk_size cfg)) (length content)))"
proof -
  have cs: "chunk_size cfg \<noteq> 0" "unat (chunk_size cfg) \<le> 1048576"
    using assms(1) by (auto simp: validate_config_ok word_le_nat_alt)
  show ?thesis
  proof (cases "length content = 0")
    case True
    then show ?thesis
      by (simp add: calculate_chunk_count_def num_chunks_def)
  next
    case False
    let ?w = "word_of_nat (length content) :: u64"
    have w: "unat ?w = length content" "?w \<noteq> 0"
      using assms(2) False by (auto simp: unat_u64_of_nat word_unat_eq_iff)
    then have cc: "calculate_chunk_count cfg ?w =
        Some (word_of_nat (ceil_div (length content) (unat (chunk_size cfg))))"
      using calculate_chunk_count_nat [of cfg ?w] cs assms(2) by simp
    have "0 < ceil_div (length content) (unat (chunk_size cfg))"
      using False cs by (intro ceil_div_bounds) (simp_all add: unat_gt_0)
    moreover have "ceil_div (length content) (unat (chunk_size cfg)) \<le> Suc (length content)"
      using num_chunks_le [of "unat (chunk_size cfg)" "length content"] False cs
      by (simp add: num_chunks_def unat_gt_0)
    ultimately have "(word_of_nat (ceil_div (length content) (unat (chunk_size cfg))) :: u64) \<noteq> 0"
      using assms(2) u64_of_nat_inj [of "ceil_div (length content) (unat (chunk_size cfg))" 0] by simp
    then show ?thesis
      using cc False by (simp add: num_chunks_def)
  qed
qed

lemma split_file_at:
  assumes "validate_config cfg = Inr ()" and "fs p = Some content" and "length content < 2 ^ 63"
    and "\<not> stat_fails io p" and "\<not> open_read_fails io p"
  shows "\<exists>it. split_file io fs cfg p i = Some (Inr it) \<and> it_at cfg i content 0 it"
proof -
  obtain n where n: "calculate_chunk_count cfg (word_of_nat (length content)) = Some n"
    "(if n = 0 then 1 else n) = word_of_nat (num_chunks (unat (chunk_size cfg)) (length content))"
    using chunk_count_at [OF assms(1,3)] by blast
  show ?thesis
    using assms n(1) by (simp add: split_file_def Let_def it_at_def make_iterator_def n(2))
qed

text \<open>The metadata of the same file agree with what the iterator was opened with.\<close>

lemma calculate_metadata_at:
  assumes "validate_config cfg = Inr ()" and "fs p = Some content" and "length content < 2 ^ 63"
    and "\<not> stat_fails io p" and "\<not> open_read_fails io p"
  shows "calculate_metadata io fs cfg p = Some (Inr
    \<lparr>m_filename = path_filename p, m_file_size = word_of_nat (length content),
     m_total_chunks = word_of_nat (num_chunks (unat (chunk_size cfg)) (length content)),
     m_chunk_size = chunk_size cfg, m_sha256_hash = sha256 content\<rparr>)"
proof -
  obtain n where n: "calculate_chunk_count cfg (word_of_nat (length content)) = Some n"
    "(if n = 0 then 1 else n) = word_of_nat (num_chunks (unat (chunk_size cfg)) (length content))"
    using chunk_count_at [OF assms(1,3)] by blast
  show ?thesis
    using assms n(1)
    by (simp add: calculate_metadata_def Let_def fs_read_def sha256_file_eq_reference
        sha256_eq_reference n(2))
qed

section \<open>What the chunks cover\<close>

lemma length_all_chunks [simp]: "length (all_chunks cs i content) = num_chunks cs (length content)"
  by (simp add: all_chunks_def)

text \<open>Concatenating the data of all chunks gives the file back.\<close>

lemma concat_slices: "concat (map (\<lambda>k. take cs (drop (k * cs) xs)) [0..<n]) = take (n * cs) xs"
  by (induction n) (simp_all add: take_add [symmetric] add.commute flip: take_add)

lemma concat_all_chunks: "0 < cs \<Longrightarrow> concat (map data (all_chunks cs i content)) = content"
  using num_chunks_cover [of cs "length content"]
  by (simp add: all_chunks_def nth_chunk_def comp_def concat_slices Let_def)

lemma nth_chunk_crc: "verify_crc32 (data (nth_chunk cs i content k)) (checksum (header (nth_chunk cs i content k)))"
  by (simp add: nth_chunk_def verify_crc32_def Let_def)

lemma flags_at_first: "has_flag (chunk_flags_at i n) flag_first_chunk \<longleftrightarrow> i = 0"
  by (simp add: chunk_flags_at_def Let_def has_flag_or) (simp add: has_flag_def flag_defs)

lemma flags_at_last: "has_flag (chunk_flags_at i n) flag_last_chunk \<longleftrightarrow> i = n - 1"
  by (simp add: chunk_flags_at_def Let_def has_flag_or) (simp add: has_flag_def flag_defs)

definition flagged_first_last :: "chunk list \<Rightarrow> nat \<Rightarrow> bool" where
  "flagged_first_last cl k \<longleftrightarrow>
     (has_flag (flags (header (cl ! k))) flag_first_chunk \<longleftrightarrow> k = 0) \<and>
     (has_flag (flags (header (cl ! k))) flag_last_chunk \<longleftrightarrow> k = length cl - 1)"

lemma all_chunks_flagged:
  assumes cs: "0 < cs" and len: "length content < 2 ^ 63" and k: "k < num_chunks cs (length content)"
  shows "flagged_first_last (all_chunks cs i content) k"
proof -
  define m where "m = num_chunks cs (length content)"
  have m: "m < 2 ^ 64" "k < m"
    using num_chunks_le [OF cs, of "length content"] len k by (simp_all add: m_def)
  have m1: "(word_of_nat m :: u64) - 1 = word_of_nat (m - 1)"
    using m(2) by (simp add: of_nat_diff)
  have "(word_of_nat k :: u64) = 0 \<longleftrightarrow> k = 0"
    using u64_of_nat_inj [of k 0] m by simp
  moreover have "(word_of_nat k :: u64) = word_of_nat m - 1 \<longleftrightarrow> k = m - 1"
    unfolding m1 using m by (intro u64_of_nat_inj) simp_all
  ultimately show ?thesis
    using m(2)
    by (simp add: flagged_first_last_def all_chunks_def nth_chunk_def Let_def flags_at_first
        flags_at_last flip: m_def)
qed

section \<open>Properties\<close>

text \<open>C5: splitting an existing, readable file with a valid configuration opens an iterator whose
  loop yields, without an error, exactly the chunks of the file in order; their data
  concatenates to the file, every checksum verifies, and exactly the chunks at the first and
  the last position are flagged as first and last.\<close>

theorem split_yields_all_chunks:
  assumes "validate_config cfg = Inr ()" and "fs p = Some content" and "length content < 2 ^ 63"
    and "\<not> stat_fails io p" and "\<not> open_read_fails io p"
  shows "\<exists>it cl. split_file io fs cfg p i = Some (Inr it) \<and>
           drain (Suc (unat (it_total_chunks it))) it = (cl, None) \<and>
           cl = all_chunks (unat (chunk_size cfg)) i content \<and>
           concat (map data cl) = content \<and>
           (\<forall>c \<in> set cl. verify_crc32 (data c) (checksum (header c))) \<and>
           (\<forall>k < length cl. flagged_first_last cl k)"
proof -
  have cs: "0 < unat (chunk_size cfg)"
    using assms(1) by (auto simp: validate_config_ok word_le_nat_alt)
  obtain it where it: "split_file io fs cfg p i = Some (Inr it)" "it_at cfg i content 0 it"
    using split_file_at [of cfg fs p content io i] assms by auto
  have "unat (it_total_chunks it) = num_chunks (unat (chunk_size cfg)) (length content)"
    using it(2) num_chunks_le [OF cs, of "length content"] assms(3)
    by (simp add: it_at_def unat_u64_of_nat)
  then have "drain (Suc (unat (it_total_chunks it))) it = (all_chunks (unat (chunk_size cfg)) i content, None)"
    using drain_at [OF assms(1,3) it(2), of "Suc (unat (it_total_chunks it))"]
    by (simp add: all_chunks_def)
  moreover have "\<forall>c \<in> set (all_chunks (unat (chunk_size cfg)) i content). verify_crc32 (data c) (checksum (header c))"
    by (auto simp: all_chunks_def nth_chunk_crc)
  moreover have "\<forall>k < length (all_chunks (unat (chunk_size cfg)) i content).
      flagged_first_last (all_chunks (unat (chunk_size cfg)) i content) k"
    using all_chunks_flagged [OF cs assms(3)] by simp
  ultimately show ?thesis
    using it(1) concat_all_chunks [OF cs, of i content] by blast
qed

theorem split_yields_all_chunks_witness:
  "\<exists>it cl. split_file reliable [''/in'' \<mapsto> [1, 2, 3]] default_chunk_config ''/in'' null_id = Some (Inr it) \<and>
     drain (Suc (unat (it_total_chunks it))) it = (cl, None) \<and>
     cl = all_chunks (unat (chunk_size default_chunk_config)) null_id [1, 2, 3] \<and>
     concat (map data cl) = [1, 2, 3] \<and>
     (\<forall>c \<in> set cl. verify_crc32 (data c) (checksum (header c))) \<and>
     (\<forall>k < length cl. flagged_first_last cl k)"
  by (rule split_yields_all_chunks)
     (simp_all add: validate_config_ok default_chunk_config_def default_chunk_size_def)

text \<open>A file that shrinks after it was opened is detected: when the stream holds fewer bytes
  than the size recorded for the chunk at hand, the iterator reports a read error and does
  not advance.\<close>

theorem short_file_detected:
  assumes "has_next it" and "file_good it" and "current_index it = it_total_chunks it - 1"
    and "seek_ok (current_index it * chunk_size (it_config it))"
    and "length (file_data it) <
           unat (current_index it * chunk_size (it_config it)) +
           unat (it_file_size it - current_index it * chunk_size (it_config it))"
    and "0 < unat (it_file_size it - current_index it * chunk_size (it_config it))"
  shows "snd (it_next it) = Inl File_read_error \<and> current_index (fst (it_next it)) = current_index it"
proof -
  have "min (length (file_data it) - unat (current_index it * chunk_size (it_config it)))
            (unat (it_file_size it - current_index it * chunk_size (it_config it)))
        \<noteq> unat (it_file_size it - current_index it * chunk_size (it_config it))"
    using assms(5,6) by linarith
  then show ?thesis
    using assms by (simp add: it_next_def Let_def)
qed

theorem short_file_detected_witness:
  "snd (it_next (make_iterator [1, 2] default_chunk_config null_id 3 1)) = Inl File_read_error \<and>
   current_index (fst (it_next (make_iterator [1, 2] default_chunk_config null_id 3 1))) =
   current_index (make_iterator [1, 2] default_chunk_config null_id 3 1)"
  by (rule short_file_detected) (simp_all add: make_iterator_def has_next_def seek_ok_def)

end
