(* ===== verification/Chunk_Assembler.thy ===== *)
theory Chunk_Assembler
  imports Chunk_Splitter
begin

text \<open>
  core/chunk_assembler.h and core/chunk_assembler.cpp: sessions that collect the chunks of a
  transfer in a temporary file, in any order, and move it to its final name. The assembler
  keeps a hash map of contexts. Each operation is one step on the pair of assembler and file
  system: what is modelled is calls that do not overlap on one session (\<open>process_chunk\<close> and the
  queries take a raw pointer from \<open>get_context\<close> and release the map's lock before they use
  it, so the code itself does not exclude a concurrent \<open>finalize\<close> or \<open>cancel_session\<close> that
  frees the context). The random suffix of the temporary file is an argument of
  \<open>start_session\<close>.
\<close>

record assembly_context =
  temp_file_path :: path
  final_path :: path
  ctx_filename :: string
  stream_open :: bool
  stream_good :: bool
  ctx_file_size :: u64
  total_chunks :: u64
  received_chunks :: "bool list"
  received_count :: u64
  bytes_written :: u64

record assembler =
  output_dir :: path
  contexts :: "(transfer_id \<times> assembly_context) list"

definition new_assembler :: "path \<Rightarrow> assembler" where
  "new_assembler dir = \<lparr>output_dir = dir, contexts = []\<rparr>"

definition generate_temp_filename :: "nat list \<Rightarrow> string" where
  "generate_temp_filename rnd = ''.tmp_'' @ map hex_digit rnd"

text \<open>
  \<open>start_session\<close>: \<open>ofstream\<close> truncates the temporary file; a positive size is preallocated by
  writing one zero byte at its end, whose failure only leaves the stream bad.
\<close>

definition start_session ::
  "io_env \<Rightarrow> nat list \<Rightarrow> transfer_id \<Rightarrow> string \<Rightarrow> u64 \<Rightarrow> u64 \<Rightarrow> assembler \<times> filesystem \<Rightarrow>
   (assembler \<times> filesystem) \<times> unit result" where
  "start_session io rnd i fname fsize n = (\<lambda>(a, fs).
     if al_find (contexts a) i \<noteq> None then ((a, fs), Inl Already_initialized)
     else
       let tmp = path_append (output_dir a) (generate_temp_filename rnd);
           ctx = \<lparr>temp_file_path = tmp, final_path = path_append (output_dir a) fname,
                  ctx_filename = fname, stream_open = True, stream_good = True,
                  ctx_file_size = fsize, total_chunks = n,
                  received_chunks = replicate (unat n) False, received_count = 0, bytes_written = 0\<rparr>
       in if open_write_fails io tmp then ((a, fs), Inl File_access_denied)
          else
            let prealloc_ok = (fsize = 0 \<or> seek_ok (fsize - 1) \<and> \<not> write_fails io tmp);
                content = (if fsize > 0 \<and> prealloc_ok then replicate (unat fsize) 0 else []);
                ctx = ctx\<lparr>stream_good := prealloc_ok\<rparr>
            in ((a\<lparr>contexts := al_update i ctx (contexts a)\<rparr>, fs(tmp \<mapsto> content)), Inr ()))"

definition verify_chunk_crc32 :: "chunk \<Rightarrow> bool" where
  "verify_chunk_crc32 c = verify_crc32 (data c) (checksum (header c))"

text \<open>
  \<open>process_chunk\<close> on one context and the content of its temporary file. A failed seek or write
  leaves the stream bad, and no operation ever clears it.
\<close>

definition process_in_context ::
  "io_env \<Rightarrow> chunk \<Rightarrow> assembly_context \<times> bytes \<Rightarrow> (assembly_context \<times> bytes) \<times> unit result" where
  "process_in_context io c = (\<lambda>(ctx, content).
     let h = header c; idx = unat (chunk_index h)
     in if chunk_index h \<ge> total_chunks ctx then ((ctx, content), Inl Invalid_chunk_index)
        else if received_chunks ctx ! idx then ((ctx, content), Inr ())
        else if \<not> verify_chunk_crc32 c then ((ctx, content), Inl Chunk_checksum_error)
        else if \<not> stream_good ctx \<or> \<not> stream_open ctx \<or> \<not> seek_ok (chunk_offset h)
        then ((ctx\<lparr>stream_good := False\<rparr>, content), Inl File_write_error)
        else if write_fails io (temp_file_path ctx)
        then ((ctx\<lparr>stream_good := False\<rparr>, content), Inl File_write_error)
        else
          ((ctx\<lparr>received_chunks := (received_chunks ctx)[idx := True],
                received_count := received_count ctx + 1,
                bytes_written := bytes_written ctx + word_of_nat (length (data c))\<rparr>,
            if data c = [] then content else write_at (unat (chunk_offset h)) (data c) content),
           Inr ()))"

text \<open>
  The open stream writes to the file it created even if the name has been removed since; then
  the bytes go nowhere, which the missing entry stands for.
\<close>

definition process_chunk ::
  "io_env \<Rightarrow> chunk \<Rightarrow> assembler \<times> filesystem \<Rightarrow> (assembler \<times> filesystem) \<times> unit result" where
  "process_chunk io c = (\<lambda>(a, fs).
     case al_find (contexts a) (h_id (header c)) of
       None \<Rightarrow> ((a, fs), Inl Not_initialized)
     | Some ctx \<Rightarrow>
         let tmp = temp_file_path ctx
         in case process_in_context io c (ctx, case fs tmp of None \<Rightarrow> [] | Some x \<Rightarrow> x) of
              ((ctx', content'), r) \<Rightarrow>
                ((a\<lparr>contexts := al_update (h_id (header c)) ctx' (contexts a)\<rparr>,
                  if fs tmp = None then fs else fs(tmp \<mapsto> content')), r))"

definition is_complete :: "transfer_id \<Rightarrow> assembler \<Rightarrow> bool" where
  "is_complete i a =
     (case al_find (contexts a) i of None \<Rightarrow> False | Some ctx \<Rightarrow> received_count ctx = total_chunks ctx)"

definition get_missing_chunks :: "transfer_id \<Rightarrow> assembler \<Rightarrow> nat list" where
  "get_missing_chunks i a =
     (case al_find (contexts a) i of
        None \<Rightarrow> []
      | Some ctx \<Rightarrow> filter (\<lambda>k. \<not> received_chunks ctx ! k) [0..<unat (total_chunks ctx)])"

definition get_progress :: "transfer_id \<Rightarrow> assembler \<Rightarrow> assembly_progress option" where
  "get_progress i a =
     map_option (\<lambda>ctx. \<lparr>ap_id = i, ap_total_chunks = total_chunks ctx,
                        ap_received_chunks = received_count ctx,
                        ap_bytes_written = bytes_written ctx\<rparr>)
       (al_find (contexts a) i)"

definition has_session :: "transfer_id \<Rightarrow> assembler \<Rightarrow> bool" where
  "has_session i a \<longleftrightarrow> al_find (contexts a) i \<noteq> None"

text \<open>\<open>finalize\<close>: completeness, hash, replacing an existing file, rename.\<close>

definition finalize ::
  "io_env \<Rightarrow> transfer_id \<Rightarrow> string \<Rightarrow> assembler \<times> filesystem \<Rightarrow>
   (assembler \<times> filesystem) \<times> path result" where
  "finalize io i expected_hash = (\<lambda>(a, fs).
     case al_find (contexts a) i of
       None \<Rightarrow> ((a, fs), Inl Not_initialized)
     | Some ctx \<Rightarrow>
         if received_count ctx \<noteq> total_chunks ctx then ((a, fs), Inl Missing_chunks)
         else
           let closed = a\<lparr>contexts := al_update i (ctx\<lparr>stream_open := False\<rparr>) (contexts a)\<rparr>;
               erased = a\<lparr>contexts := al_erase i (contexts a)\<rparr>;
               tmp = temp_file_path ctx; final = final_path ctx
           in if expected_hash \<noteq> [] \<and> \<not> verify_sha256 (fs_read io fs tmp) expected_hash
              then ((erased, fs_remove io tmp fs), Inl File_hash_mismatch)
              else
                let fs = (if fs_exists fs final then fs_remove io final fs else fs)
                in case fs_rename io tmp final fs of
                     None \<Rightarrow> ((closed, fs), Inl File_write_error)
                   | Some fs' \<Rightarrow> ((erased, fs'), Inr final))"

definition cancel_session :: "io_env \<Rightarrow> transfer_id \<Rightarrow> assembler \<times> filesystem \<Rightarrow> assembler \<times> filesystem" where
  "cancel_session io i = (\<lambda>(a, fs).
     case al_find (contexts a) i of
       None \<Rightarrow> (a, fs)
     | Some ctx \<Rightarrow> (a\<lparr>contexts := al_erase i (contexts a)\<rparr>, fs_remove io (temp_file_path ctx) fs))"

text \<open>The destructor removes the temporary files of all open sessions.\<close>

definition destroy :: "io_env \<Rightarrow> assembler \<times> filesystem \<Rightarrow> filesystem" where
  "destroy io = (\<lambda>(a, fs). fold (\<lambda>(_, ctx). fs_remove io (temp_file_path ctx)) (contexts a) fs)"

section \<open>The invariant of a context\<close>

text \<open>
  The bitmap has one bit per chunk and the counter counts the set bits; the bound excludes a
  64-bit wrap of the counter (a bitmap of \<open>2 ^ 64\<close> bits cannot be allocated).
\<close>

definition ctx_inv :: "assembly_context \<Rightarrow> bool" where
  "ctx_inv ctx \<longleftrightarrow>
     length (received_chunks ctx) = unat (total_chunks ctx) \<and>
     received_count ctx = word_of_nat (count_list (received_chunks ctx) True)"

definition asm_inv :: "assembler \<Rightarrow> bool" where
  "asm_inv a \<longleftrightarrow> al_distinct (contexts a) \<and> (\<forall>(i, ctx) \<in> set (contexts a). ctx_inv ctx)"

lemma ctx_inv_count_le: "ctx_inv ctx \<Longrightarrow> count_list (received_chunks ctx) True \<le> unat (total_chunks ctx)"
  using count_list_True_le [of "received_chunks ctx"] by (simp add: ctx_inv_def)

lemma ctx_inv_complete:
  assumes "ctx_inv ctx"
  shows "received_count ctx = total_chunks ctx \<longleftrightarrow> (\<forall>k < unat (total_chunks ctx). received_chunks ctx ! k)"
proof -
  have "count_list (received_chunks ctx) True < 2 ^ 64"
    using ctx_inv_count_le [OF assms] unat_u64_less [of "total_chunks ctx"] by linarith
  then have "received_count ctx = total_chunks ctx \<longleftrightarrow>
             count_list (received_chunks ctx) True = unat (total_chunks ctx)"
    using assms by (auto simp: ctx_inv_def word_unat_eq_iff unat_u64_of_nat)
  then show ?thesis
    using assms count_list_True_eq_length [of "received_chunks ctx"] by (simp add: ctx_inv_def)
qed

text \<open>The six ways \<open>process_in_context\<close> can go.\<close>

lemma process_in_context_cases:
  obtains (out_of_range) "chunk_index (header c) \<ge> total_chunks ctx"
      "process_in_context io c (ctx, f) = ((ctx, f), Inl Invalid_chunk_index)"
  | (duplicate) "chunk_index (header c) < total_chunks ctx"
      "received_chunks ctx ! unat (chunk_index (header c))"
      "process_in_context io c (ctx, f) = ((ctx, f), Inr ())"
  | (corrupt) "chunk_index (header c) < total_chunks ctx" "\<not> verify_chunk_crc32 c"
      "process_in_context io c (ctx, f) = ((ctx, f), Inl Chunk_checksum_error)"
  | (io_error) "process_in_context io c (ctx, f) = ((ctx\<lparr>stream_good := False\<rparr>, f), Inl File_write_error)"
  | (stored) "chunk_index (header c) < total_chunks ctx" "verify_chunk_crc32 c"
      "\<not> received_chunks ctx ! unat (chunk_index (header c))"
      "process_in_context io c (ctx, f) =
         ((ctx\<lparr>received_chunks := (received_chunks ctx)[unat (chunk_index (header c)) := True],
               received_count := received_count ctx + 1,
               bytes_written := bytes_written ctx + word_of_nat (length (data c))\<rparr>,
           if data c = [] then f else write_at (unat (chunk_offset (header c))) (data c) f), Inr ())"
proof -
  define bad where "bad \<longleftrightarrow> \<not> stream_good ctx \<or> \<not> stream_open ctx \<or> \<not> seek_ok (chunk_offset (header c))"
  note eq = process_in_context_def [of io c, THEN fun_cong, of "(ctx, f)", unfolded Let_def prod.case, folded bad_def]
  show thesis
  proof (cases "chunk_index (header c) \<ge> total_chunks ctx")
    case True
    then show thesis by (intro out_of_range) (simp_all add: eq)
  next
    case lt: False
    show thesis
    proof (cases "received_chunks ctx ! unat (chunk_index (header c))")
      case True
      with lt show thesis by (intro duplicate) (simp_all add: eq)
    next
      case new: False
      show thesis
      proof (cases "verify_chunk_crc32 c")
        case False
        with lt new show thesis by (intro corrupt) (simp_all add: eq)
      next
        case crc: True
        show thesis
        proof (cases "bad \<or> write_fails io (temp_file_path ctx)")
          case True
          with lt new crc show thesis by (intro io_error) (auto simp: eq)
        next
          case False
          with lt new crc show thesis by (intro stored) (simp_all add: eq)
        qed
      qed
    qed
  qed
qed

lemma process_in_context_inv:
  assumes "ctx_inv ctx" and "process_in_context io c (ctx, f) = ((ctx', f'), r)"
  shows "ctx_inv ctx'"
proof (cases rule: process_in_context_cases [where c = c and ctx = ctx and io = io and f = f])
  case stored
  then have "unat (chunk_index (header c)) < length (received_chunks ctx)"
    using assms(1) by (simp add: ctx_inv_def word_less_nat_alt)
  then show ?thesis
    using stored assms by (auto simp: ctx_inv_def count_list_True_update add.commute)
qed (use assms in \<open>auto simp: ctx_inv_def\<close>)

lemma asm_inv_find: "asm_inv a \<Longrightarrow> al_find (contexts a) i = Some ctx \<Longrightarrow> ctx_inv ctx"
  by (auto simp: asm_inv_def dest: al_find_Some_in)

lemma set_al_erase: "x \<in> set (al_erase k m) \<Longrightarrow> x \<in> set m"
  by (simp add: al_erase_def)

lemma asm_inv_update:
  "asm_inv a \<Longrightarrow> ctx_inv ctx \<Longrightarrow> asm_inv (a\<lparr>contexts := al_update i ctx (contexts a)\<rparr>)"
  by (auto simp: asm_inv_def al_distinct_update dest!: set_al_update)

lemma asm_inv_erase: "asm_inv a \<Longrightarrow> asm_inv (a\<lparr>contexts := al_erase i (contexts a)\<rparr>)"
  by (auto simp: asm_inv_def al_distinct_erase dest!: set_al_erase)

lemma asm_inv_new [simp]: "asm_inv (new_assembler d)"
  by (simp add: asm_inv_def new_assembler_def)

lemma count_list_replicate_False [simp]: "count_list (replicate n False) True = 0"
  by (induction n) auto

lemma asm_inv_start: "asm_inv a \<Longrightarrow> start_session io rnd i f s n (a, fs) = ((a', fs'), r) \<Longrightarrow> asm_inv a'"
  by (auto simp: start_session_def Let_def ctx_inv_def intro!: asm_inv_update split: if_splits)

lemma asm_inv_process: "asm_inv a \<Longrightarrow> process_chunk io c (a, fs) = ((a', fs'), r) \<Longrightarrow> asm_inv a'"
  by (auto simp: process_chunk_def Let_def split: option.splits prod.splits
      intro!: asm_inv_update dest: process_in_context_inv asm_inv_find)

lemma asm_inv_finalize: "asm_inv a \<Longrightarrow> finalize io i h (a, fs) = ((a', fs'), r) \<Longrightarrow> asm_inv a'"
  by (auto simp: finalize_def Let_def ctx_inv_def split: option.splits if_splits
      intro!: asm_inv_update asm_inv_erase dest: asm_inv_find)

lemma asm_inv_cancel: "asm_inv a \<Longrightarrow> asm_inv (fst (cancel_session io i (a, fs)))"
  by (auto simp: cancel_session_def asm_inv_erase split: option.splits)


section \<open>Assembling the chunks of one file\<close>

text \<open>
  What a session that has received only chunks of \<open>content\<close> keeps: the temporary file has the
  final length, and the bytes of every chunk marked as received are already the right ones.
\<close>

definition assembling :: "nat \<Rightarrow> bytes \<Rightarrow> assembly_context \<Rightarrow> bytes \<Rightarrow> bool" where
  "assembling cs content ctx f \<longleftrightarrow>
     ctx_inv ctx \<and> stream_open ctx \<and> stream_good ctx \<and>
     total_chunks ctx = word_of_nat (num_chunks cs (length content)) \<and>
     length f = length content \<and>
     (\<forall>k j. k < num_chunks cs (length content) \<and> received_chunks ctx ! k \<and>
            k * cs \<le> j \<and> j < k * cs + cs \<and> j < length content \<longrightarrow> f ! j = content ! j)"

lemma nth_chunk_simps [simp]:
  "h_id (header (nth_chunk cs i content k)) = i"
  "chunk_index (header (nth_chunk cs i content k)) = word_of_nat k"
  "data (nth_chunk cs i content k) = take cs (drop (k * cs) content)"
  "chunk_offset (header (nth_chunk cs i content k)) = word_of_nat (k * cs)"
  by (simp_all add: nth_chunk_def Let_def)

lemma num_chunks_less_2_64: "0 < cs \<Longrightarrow> n < 2 ^ 63 \<Longrightarrow> num_chunks cs n < 2 ^ 64"
  using num_chunks_le [of cs n] by simp

lemma assembling_step:
  assumes cs: "0 < cs" and len: "length content < 2 ^ 63" and A: "assembling cs content ctx f"
    and k: "k < num_chunks cs (length content)" and io: "\<not> write_fails io (temp_file_path ctx)"
  shows "\<exists>ctx' f'. process_in_context io (nth_chunk cs i content k) (ctx, f) = ((ctx', f'), Inr ()) \<and>
           assembling cs content ctx' f' \<and>
           received_chunks ctx' = (received_chunks ctx)[k := True] \<and>
           temp_file_path ctx' = temp_file_path ctx \<and> final_path ctx' = final_path ctx"
proof -
  define c where "c = nth_chunk cs i content k"
  define m where "m = num_chunks cs (length content)"
  have m: "m < 2 ^ 64" and km: "k < m"
    using num_chunks_less_2_64 [OF cs len] k by (simp_all add: m_def)
  have koff: "k * cs \<le> length content"
    using chunk_end(1) [OF cs k] .
  have idx: "unat (chunk_index (header c)) = k"
    using km m by (simp add: c_def unat_u64_of_nat)
  have "k * cs < 2 ^ 64" using koff len by simp
  then have off: "unat (chunk_offset (header c)) = k * cs"
    unfolding c_def nth_chunk_simps by (rule unat_u64_of_nat)
  have lt: "chunk_index (header c) < total_chunks ctx"
    using A km m idx by (simp add: assembling_def m_def word_less_nat_alt unat_u64_of_nat)
  have seek: "seek_ok (chunk_offset (header c))"
    using off koff len by (simp add: seek_ok_def)
  have crc: "verify_chunk_crc32 c"
    using nth_chunk_crc by (simp add: verify_chunk_crc32_def c_def)
  have lrec: "length (received_chunks ctx) = m"
    using A m by (simp add: assembling_def ctx_inv_def m_def unat_u64_of_nat)
  have fit: "k * cs + length (data c) \<le> length f"
    using A koff by (simp add: assembling_def c_def)
  have goal: "\<exists>ctx' f'. process_in_context io c (ctx, f) = ((ctx', f'), Inr ()) \<and>
           assembling cs content ctx' f' \<and> received_chunks ctx' = (received_chunks ctx)[k := True] \<and>
           temp_file_path ctx' = temp_file_path ctx \<and> final_path ctx' = final_path ctx"
  proof (cases "received_chunks ctx ! k")
    case True
    then have "(received_chunks ctx)[k := True] = received_chunks ctx"
      by (metis list_update_id)
    then show ?thesis
      using True A lt idx by (simp add: process_in_context_def Let_def not_le)
  next
    case False
    define ctx' where "ctx' = ctx\<lparr>received_chunks := (received_chunks ctx)[k := True],
               received_count := received_count ctx + 1,
               bytes_written := bytes_written ctx + word_of_nat (length (data c))\<rparr>"
    define f' where "f' = (if data c = [] then f else write_at (k * cs) (data c) f)"
    have step: "process_in_context io c (ctx, f) = ((ctx', f'), Inr ())"
      using False A lt idx off crc seek io
      by (simp add: process_in_context_def Let_def not_le assembling_def ctx'_def f'_def)
    have nth: "f' ! j = (if k * cs \<le> j \<and> j < k * cs + length (data c) then data c ! (j - k * cs) else f ! j)"
      if "j < length content" for j
      using that fit A by (auto simp: f'_def write_at_nth assembling_def)
    have "f' ! j = content ! j"
      if "j < length content" "k' * cs \<le> j" "j < k' * cs + cs" "(received_chunks ctx)[k := True] ! k'" "k' < m"
      for k' j
    proof (cases "k * cs \<le> j \<and> j < k * cs + cs")
      case True
      then show ?thesis
        using nth [OF that(1)] that(1) by (auto simp: c_def)
    next
      case out: False
      then have "k' \<noteq> k" using that by auto
      then have "f ! j = content ! j"
        using A that by (auto simp: assembling_def m_def)
      then show ?thesis
        using nth [OF that(1)] out by (auto simp: c_def)
    qed
    moreover have "length f' = length content"
      using fit A by (simp add: f'_def assembling_def)
    moreover have "ctx_inv ctx'"
      using process_in_context_inv [OF _ step] A by (simp add: assembling_def)
    ultimately have "assembling cs content ctx' f'"
      using A by (auto simp: assembling_def ctx'_def m_def)
    then show ?thesis
      using step by (auto simp: ctx'_def)
  qed
  then show ?thesis by (simp add: c_def)
qed

text \<open>A complete session holds the content.\<close>

lemma assembling_complete:
  assumes cs: "0 < cs" and len: "length content < 2 ^ 63" and A: "assembling cs content ctx f"
    and all: "\<forall>k < num_chunks cs (length content). received_chunks ctx ! k"
  shows "f = content" and "received_count ctx = total_chunks ctx"
proof -
  define m where "m = num_chunks cs (length content)"
  show "f = content"
  proof (rule nth_equalityI)
    show "length f = length content" using A by (simp add: assembling_def)
    fix j assume j: "j < length f"
    then have j: "j < length content" using A by (simp add: assembling_def)
    have "j < m * cs"
      using j num_chunks_cover [OF cs, of "length content"] by (simp add: m_def)
    then have "j div cs < m"
      using cs by (simp add: div_less_iff_less_mult)
    moreover have "j div cs * cs \<le> j" and "j < j div cs * cs + cs"
      using cs by (simp_all add: dividend_less_div_times add.commute)
    ultimately show "f ! j = content ! j"
      using A all j unfolding assembling_def m_def by blast
  qed
  have "unat (total_chunks ctx) = m"
    using A num_chunks_less_2_64 [OF cs len] by (simp add: assembling_def m_def unat_u64_of_nat)
  then show "received_count ctx = total_chunks ctx"
    using ctx_inv_complete [of ctx] A all by (simp add: assembling_def m_def)
qed

text \<open>Delivering a list of chunks, with the result of each call.\<close>

fun deliver ::
  "io_env \<Rightarrow> chunk list \<Rightarrow> assembler \<times> filesystem \<Rightarrow> (assembler \<times> filesystem) \<times> unit result list" where
  "deliver io [] s = (s, [])"
| "deliver io (c # cs) s =
     (case process_chunk io c s of (s', r) \<Rightarrow> (case deliver io cs s' of (s'', rs) \<Rightarrow> (s'', r # rs)))"

definition session_of :: "nat \<Rightarrow> bytes \<Rightarrow> transfer_id \<Rightarrow> path \<Rightarrow> path \<Rightarrow> assembler \<times> filesystem \<Rightarrow> bool list \<Rightarrow> bool" where
  "session_of cs content i tmp final = (\<lambda>(a, fs) bm.
     \<exists>ctx f. al_find (contexts a) i = Some ctx \<and> fs tmp = Some f \<and> assembling cs content ctx f \<and>
             temp_file_path ctx = tmp \<and> final_path ctx = final \<and> received_chunks ctx = bm)"

lemma session_of_step:
  assumes "0 < cs" "length content < 2 ^ 63" "session_of cs content i tmp final s bm"
    "k < num_chunks cs (length content)" "\<not> write_fails io tmp"
  shows "\<exists>s'. process_chunk io (nth_chunk cs i content k) s = (s', Inr ()) \<and>
              session_of cs content i tmp final s' (bm[k := True]) \<and>
              (\<forall>q. q \<noteq> tmp \<longrightarrow> snd s' q = snd s q)"
proof -
  obtain a fs where s: "s = (a, fs)" by (cases s)
  with assms(3) obtain ctx f where c: "al_find (contexts a) i = Some ctx" "fs tmp = Some f"
    "assembling cs content ctx f" "temp_file_path ctx = tmp" "final_path ctx = final" "received_chunks ctx = bm"
    by (auto simp: session_of_def)
  obtain ctx' f' where st: "process_in_context io (nth_chunk cs i content k) (ctx, f) = ((ctx', f'), Inr ())"
    "assembling cs content ctx' f'" "received_chunks ctx' = bm[k := True]"
    "temp_file_path ctx' = tmp" "final_path ctx' = final"
    using assembling_step [OF assms(1,2) c(3) assms(4), of io i] assms(5) c(4,5,6) by auto
  show ?thesis
    using c st by (simp add: s process_chunk_def session_of_def al_find_update)
qed

lemma session_of_deliver:
  assumes "0 < cs" "length content < 2 ^ 63" "\<not> write_fails io tmp"
  shows "session_of cs content i tmp final s bm \<Longrightarrow> \<forall>k \<in> set ks. k < num_chunks cs (length content) \<Longrightarrow>
    \<exists>s'. deliver io (map (nth_chunk cs i content) ks) s = (s', replicate (length ks) (Inr ())) \<and>
         session_of cs content i tmp final s' (fold (\<lambda>k bm. bm[k := True]) ks bm) \<and>
         (\<forall>q. q \<noteq> tmp \<longrightarrow> snd s' q = snd s q)"
proof (induction ks arbitrary: s bm)
  case Nil
  then show ?case by simp
next
  case (Cons k ks)
  from session_of_step [OF assms(1,2) Cons.prems(1) _ assms(3), of k] Cons.prems(2)
  obtain s1 where s1: "process_chunk io (nth_chunk cs i content k) s = (s1, Inr ())"
    "session_of cs content i tmp final s1 (bm[k := True])" "\<forall>q. q \<noteq> tmp \<longrightarrow> snd s1 q = snd s q"
    by auto
  from Cons.IH [OF s1(2)] Cons.prems(2) s1 show ?case by fastforce
qed

lemma fold_set_bits:
  "k < length bm \<Longrightarrow> fold (\<lambda>k bm. bm[k := True]) ks bm ! k \<longleftrightarrow> k \<in> set ks \<or> bm ! k"
proof (induction ks arbitrary: bm)
  case (Cons a ks)
  then show ?case by (cases "a = k") auto
qed simp

lemma length_fold_set_bits [simp]: "length (fold (\<lambda>k bm. bm[k := True]) ks bm) = length bm"
  by (induction ks arbitrary: bm) auto

lemma start_session_of:
  assumes "0 < cs" "length content < 2 ^ 63" "al_find (contexts a) i = None"
    and "tmp = path_append (output_dir a) (generate_temp_filename rnd)"
    and "\<not> open_write_fails io tmp" "\<not> write_fails io tmp"
  shows "\<exists>s. start_session io rnd i fname (word_of_nat (length content))
               (word_of_nat (num_chunks cs (length content))) (a, fs) = (s, Inr ()) \<and>
             session_of cs content i tmp (path_append (output_dir a) fname) s
               (replicate (num_chunks cs (length content)) False) \<and>
             (\<forall>q. q \<noteq> tmp \<longrightarrow> snd s q = fs q)"
proof -
  let ?w = "word_of_nat (length content) :: u64"
  have w: "unat ?w = length content"
    using assms(2) by (simp add: unat_u64_of_nat)
  have m: "unat (word_of_nat (num_chunks cs (length content)) :: u64) = num_chunks cs (length content)"
    using num_chunks_less_2_64 [OF assms(1,2)] by (simp add: unat_u64_of_nat)
  have pre: "?w = 0 \<or> seek_ok (?w - 1)"
  proof (cases "?w = 0")
    case False
    then have "unat (?w - 1) < length content"
      using w by (metis measure_unat)
    then show ?thesis
      using assms(2) by (simp add: seek_ok_def)
  qed simp
  have zero: "?w = 0 \<longleftrightarrow> content = []"
    using w by (metis length_0_conv unat_0 unat_eq_zero)
  show ?thesis
    using assms pre m w zero
    by (auto simp: start_session_def Let_def session_of_def al_find_update assembling_def ctx_inv_def word_gt_0)
qed

text \<open>From start to finish.\<close>

lemma transfer_complete:
  assumes "0 < cs" "length content < 2 ^ 63" "al_find (contexts a) i = None"
    and tmp: "tmp = path_append (output_dir a) (generate_temp_filename rnd)"
    and final: "final = path_append (output_dir a) fname" and "tmp \<noteq> final"
    and io: "\<not> open_write_fails io tmp" "\<not> write_fails io tmp" "\<not> open_read_fails io tmp" "\<not> rename_fails io tmp final"
    and ks: "set ks = {..<num_chunks cs (length content)}" and h: "h = [] \<or> h = sha256 content"
    and start: "start_session io rnd i fname (word_of_nat (length content))
               (word_of_nat (num_chunks cs (length content))) (a, fs) = (s1, r1)"
    and dels: "deliver io (map (nth_chunk cs i content) ks) s1 = (s2, rs)"
    and fin: "finalize io i h s2 = (s3, r3)"
  shows "r1 = Inr () \<and> rs = replicate (length ks) (Inr ()) \<and> r3 = Inr final \<and>
         snd s3 final = Some content \<and> snd s3 tmp = None \<and> \<not> has_session i (fst s3)"
proof -
  let ?m = "num_chunks cs (length content)"
  from start_session_of [OF assms(1-3) tmp io(1,2), of fname fs] start
  have s1: "r1 = Inr ()" "session_of cs content i tmp final s1 (replicate ?m False)"
    by (auto simp: final)
  from session_of_deliver [OF assms(1,2) io(2) s1(2), of ks] ks dels
  have s2: "rs = replicate (length ks) (Inr ())"
    "session_of cs content i tmp final s2 (fold (\<lambda>k bm. bm[k := True]) ks (replicate ?m False))"
    by auto
  obtain a2 fs2 where p: "s2 = (a2, fs2)" by (cases s2)
  with s2(2) obtain ctx f where c: "al_find (contexts a2) i = Some ctx" "fs2 tmp = Some f"
    "assembling cs content ctx f" "temp_file_path ctx = tmp" "final_path ctx = final"
    "received_chunks ctx = fold (\<lambda>k bm. bm[k := True]) ks (replicate ?m False)"
    by (auto simp: session_of_def)
  have "\<forall>k < ?m. received_chunks ctx ! k"
    using c(6) ks by (simp add: fold_set_bits)
  note comp = assembling_complete [OF assms(1,2) c(3) this]
  have "h \<noteq> [] \<longrightarrow> verify_sha256 (fs_read io fs2 tmp) h"
    using h c(2) comp(1) io(3) by (auto simp: fs_read_def sha256_eq_reference)
  then have "finalize io i h s2 =
    (let fs3 = (if fs_exists fs2 final then fs_remove io final fs2 else fs2)
     in ((a2\<lparr>contexts := al_erase i (contexts a2)\<rparr>, (fs3(tmp := None))(final \<mapsto> content)), Inr final))"
    using c comp p io(4) \<open>tmp \<noteq> final\<close>
    by (auto simp: finalize_def Let_def fs_rename_def fs_remove_def)
  then show ?thesis
    using fin s1 s2 \<open>tmp \<noteq> final\<close> by (auto simp: Let_def has_session_def al_find_erase)
qed

section \<open>Reachable states\<close>

text \<open>
  The states of an assembler and the file system it works in: any sequence of operations, in
  any order and by any caller, interleaved with arbitrary changes other programs make to the
  file system.
\<close>

inductive reachable :: "path \<Rightarrow> assembler \<times> filesystem \<Rightarrow> bool" for dir where
  reachable_init: "reachable dir (new_assembler dir, fs)"
| reachable_start: "reachable dir s \<Longrightarrow> reachable dir (fst (start_session io rnd i fname fsize n s))"
| reachable_process: "reachable dir s \<Longrightarrow> reachable dir (fst (process_chunk io c s))"
| reachable_finalize: "reachable dir s \<Longrightarrow> reachable dir (fst (finalize io i h s))"
| reachable_cancel: "reachable dir s \<Longrightarrow> reachable dir (cancel_session io i s)"
| reachable_env: "reachable dir (a, fs) \<Longrightarrow> reachable dir (a, fs')"

lemma reachable_inv: "reachable dir s \<Longrightarrow> asm_inv (fst s)"
proof (induction rule: reachable.induct)
  case (reachable_start s io rnd i fname fsize n)
  then show ?case
    by (metis asm_inv_start prod.collapse)
next
  case (reachable_process s io c)
  then show ?case
    by (metis asm_inv_process prod.collapse)
next
  case (reachable_finalize s io i h)
  then show ?case
    by (metis asm_inv_finalize prod.collapse)
next
  case (reachable_cancel s io i)
  then show ?case
    by (metis asm_inv_cancel prod.collapse)
qed simp_all

lemma al_update_same: "al_find m k = Some v \<Longrightarrow> al_update k v m = m"
  by (induction k v m rule: al_update.induct) (auto split: if_splits)

lemma process_chunk_unchanged:
  assumes "al_find (contexts a) (h_id (header c)) = Some ctx"
    and "\<And>f. process_in_context io c (ctx, f) = ((ctx, f), r)"
  shows "process_chunk io c (a, fs) = ((a, fs), r)"
  using assms by (auto simp: process_chunk_def Let_def al_update_same fun_upd_idem split: option.splits)

text \<open>Receiving chunks never changes where a session delivers.\<close>

lemma process_in_context_paths:
  "process_in_context io c (ctx, f) = ((ctx', f'), r) \<Longrightarrow> final_path ctx' = final_path ctx"
  by (auto simp: process_in_context_def Let_def split: if_splits)

lemma process_chunk_paths:
  "process_chunk io c s = (s', r) \<Longrightarrow>
   map_option final_path (al_find (contexts (fst s')) i) = map_option final_path (al_find (contexts (fst s)) i)"
  by (auto simp: process_chunk_def Let_def al_find_update process_in_context_paths
      split: option.splits prod.splits)

lemma deliver_paths:
  "deliver io cl s = (s', rs) \<Longrightarrow>
   map_option final_path (al_find (contexts (fst s')) i) = map_option final_path (al_find (contexts (fst s)) i)"
proof (induction cl arbitrary: s rs)
  case (Cons c cl)
  then show ?case
    by (auto simp: process_chunk_paths [of io c s] split: prod.splits)
qed simp

lemma start_session_path:
  "start_session io rnd i fname fsize n (a, fs) = (s1, Inr ()) \<Longrightarrow>
   map_option final_path (al_find (contexts (fst s1)) i) = Some (path_append (output_dir a) fname)"
  by (auto simp: start_session_def Let_def al_find_update split: if_splits)

lemma finalize_path:
  "finalize io i h s = (s', Inr p) \<Longrightarrow>
   map_option final_path (al_find (contexts (fst s)) i) = Some p \<and> snd s' p \<noteq> None"
  by (cases s) (auto simp: finalize_def Let_def fs_rename_def split: option.splits if_splits)

text \<open>A complete session with one chunk, for the instances below.\<close>

definition sample_context :: assembly_context where
  "sample_context = \<lparr>temp_file_path = ''/d/.tmp_1'', final_path = ''/d/f'', ctx_filename = ''f'',
     stream_open = True, stream_good = True, ctx_file_size = 3, total_chunks = 1,
     received_chunks = [True], received_count = 1, bytes_written = 3\<rparr>"

section \<open>Properties\<close>

text \<open>C2: in every reachable state of the assembler a session is complete exactly when its list
  of missing chunks is empty, whatever calls, failures and interleavings led there.\<close>

theorem complete_iff_none_missing:
  assumes "reachable dir (a, fs)" and "has_session i a"
  shows "is_complete i a \<longleftrightarrow> get_missing_chunks i a = []"
proof -
  obtain ctx where ctx: "al_find (contexts a) i = Some ctx"
    using assms(2) by (auto simp: has_session_def)
  have "ctx_inv ctx"
    using reachable_inv [OF assms(1)] ctx by (auto intro: asm_inv_find)
  from ctx_inv_complete [OF this] ctx show ?thesis
    by (auto simp: is_complete_def get_missing_chunks_def filter_empty_conv)
qed

text \<open>C4: a chunk in which one byte was changed on the way is never written: it is answered with
  a checksum error (or ignored, when its position is taken or out of range), and neither the
  session nor any file changes.\<close>

theorem corrupted_chunk_rejected:
  assumes "data c = xs @ b' # ys" and "checksum (header c) = crc32 (xs @ b # ys)" and "b \<noteq> b'"
    and "al_find (contexts a) (h_id (header c)) = Some ctx"
  shows "fst (process_chunk io c (a, fs)) = (a, fs) \<and>
         (chunk_index (header c) < total_chunks ctx \<and>
          \<not> received_chunks ctx ! unat (chunk_index (header c)) \<longrightarrow>
          snd (process_chunk io c (a, fs)) = Inl Chunk_checksum_error)"
proof -
  have bad: "\<not> verify_chunk_crc32 c"
    using crc32_single_byte [OF assms(3), of xs ys] assms(1,2)
    by (simp add: verify_chunk_crc32_def verify_crc32_def)
  define r where "r = snd (process_in_context io c (ctx, []))"
  have "process_in_context io c (ctx, f) = ((ctx, f), r)" for f
    using bad by (simp add: process_in_context_def Let_def r_def)
  from process_chunk_unchanged [OF assms(4) this] have "process_chunk io c (a, fs) = ((a, fs), r)" .
  moreover have "r = Inl Chunk_checksum_error"
    if "chunk_index (header c) < total_chunks ctx" "\<not> received_chunks ctx ! unat (chunk_index (header c))"
    using that bad by (simp add: r_def process_in_context_def Let_def not_le)
  ultimately show ?thesis
    by simp
qed

text \<open>C3: finalising with an expected hash never delivers anything else: on success all chunks
  were received, the file at the returned path has exactly that SHA-256 hash and the session
  is gone; on a mismatch the existing file at the final path is untouched, the session and its
  temporary file are gone.\<close>

theorem finalize_checks_hash:
  assumes "h \<noteq> []" and "\<forall>p. \<not> remove_fails io p"
    and "al_find (contexts a) i = Some ctx" and "temp_file_path ctx \<noteq> final_path ctx"
  shows "case finalize io i h (a, fs) of
           ((a', fs'), Inr p) \<Rightarrow>
             p = final_path ctx \<and> is_complete i a \<and> \<not> has_session i a' \<and>
             (\<exists>content. fs' p = Some content \<and> sha256 content = h)
         | ((a', fs'), Inl e) \<Rightarrow>
             (e = File_hash_mismatch \<longrightarrow>
                fs' (final_path ctx) = fs (final_path ctx) \<and> fs' (temp_file_path ctx) = None \<and>
                \<not> has_session i a') \<and>
             (e = Missing_chunks \<longrightarrow> (a', fs') = (a, fs))"
  using assms
  by (auto simp: finalize_def Let_def is_complete_def has_session_def al_find_erase fs_remove_def
      fs_rename_def fs_read_def sha256_eq_reference split: option.splits if_splits)

theorem complete_iff_none_missing_witness:
  "is_complete null_id (fst (fst (start_session reliable [1] null_id ''f'' 3 2 (new_assembler ''/d'', Map.empty)))) \<longleftrightarrow>
   get_missing_chunks null_id
     (fst (fst (start_session reliable [1] null_id ''f'' 3 2 (new_assembler ''/d'', Map.empty)))) = []"
  by (rule complete_iff_none_missing [where dir = "''/d''" and fs =
        "snd (fst (start_session reliable [1] null_id ''f'' 3 2 (new_assembler ''/d'', Map.empty)))"])
     (use reachable_start [OF reachable_init, of "''/d''" reliable "[1]" null_id "''f''" 3 2] in
       \<open>simp_all add: start_session_def Let_def has_session_def al_find_update new_assembler_def\<close>)

theorem corrupted_chunk_rejected_witness:
  "let c = \<lparr>header = \<lparr>h_id = null_id, chunk_index = 0, chunk_offset = 0, original_size = 3,
             compressed_size = 3, checksum = crc32 ([1] @ 2 # [3]), flags = flag_none\<rparr>,
            data = [1] @ 9 # [3]\<rparr>;
       ctx = sample_context\<lparr>received_chunks := [False], received_count := 0\<rparr>;
       a = \<lparr>output_dir = ''/d'', contexts = [(null_id, ctx)]\<rparr>
   in fst (process_chunk reliable c (a, Map.empty)) = (a, Map.empty) \<and>
      (chunk_index (header c) < total_chunks ctx \<and> \<not> received_chunks ctx ! unat (chunk_index (header c)) \<longrightarrow>
       snd (process_chunk reliable c (a, Map.empty)) = Inl Chunk_checksum_error)"
  unfolding Let_def
  by (rule corrupted_chunk_rejected [where xs = "[1]" and b = 2 and b' = 9 and ys = "[3]"])
     (simp_all add: sample_context_def)

theorem finalize_checks_hash_witness:
  "case finalize reliable null_id (sha256 [1, 2, 3])
          (\<lparr>output_dir = ''/d'', contexts = [(null_id, sample_context)]\<rparr>, [''/d/.tmp_1'' \<mapsto> [1, 2, 3]]) of
     ((a', fs'), Inr p) \<Rightarrow>
       p = final_path sample_context \<and>
       is_complete null_id \<lparr>output_dir = ''/d'', contexts = [(null_id, sample_context)]\<rparr> \<and>
       \<not> has_session null_id a' \<and> (\<exists>content. fs' p = Some content \<and> sha256 content = sha256 [1, 2, 3])
   | ((a', fs'), Inl e) \<Rightarrow>
       (e = File_hash_mismatch \<longrightarrow>
          fs' (final_path sample_context) = [''/d/.tmp_1'' \<mapsto> [1, 2, 3]] (final_path sample_context) \<and>
          fs' (temp_file_path sample_context) = None \<and> \<not> has_session null_id a') \<and>
       (e = Missing_chunks \<longrightarrow>
          (a', fs') = (\<lparr>output_dir = ''/d'', contexts = [(null_id, sample_context)]\<rparr>,
                       [''/d/.tmp_1'' \<mapsto> [1, 2, 3]]))"
proof (rule finalize_checks_hash)
  have "length (sha256 [1, 2, 3]) = 64"
    by (simp add: sha256_eq_reference length_sha256_reference)
  then show "sha256 [1, 2, 3] \<noteq> []"
    by force
qed (simp_all add: sample_context_def)

text \<open>A finalised transfer is at the output directory joined with the name the peer sent, and
  nothing confines that path to the directory: an absolute name is used as it stands.\<close>

theorem delivery_path:
  assumes "start_session io rnd i fname fsize n (a, fs) = (s1, Inr ())"
    and "deliver io cl s1 = (s2, rs)" and "finalize io i h s2 = (s3, Inr p)"
  shows "p = path_append (output_dir a) fname \<and> snd s3 p \<noteq> None \<and>
         (fname \<noteq> [] \<and> hd fname = CHR ''/'' \<longrightarrow> p = fname)"
  using start_session_path [OF assms(1)] deliver_paths [OF assms(2), of i] finalize_path [OF assms(3)]
  by (auto simp: path_append_def)

theorem delivery_path_witness:
  "let s1 = start_session reliable [1] null_id ''/etc/x'' 0 0 (new_assembler ''/d'', Map.empty);
       s2 = deliver reliable [] (fst s1);
       s3 = finalize reliable null_id [] (fst s2)
   in ''/etc/x'' = path_append ''/d'' ''/etc/x'' \<and> snd (fst s3) ''/etc/x'' \<noteq> None \<and>
      (''/etc/x'' \<noteq> [] \<and> hd ''/etc/x'' = CHR ''/'' \<longrightarrow> ''/etc/x'' = ''/etc/x'')"
  unfolding Let_def
  using delivery_path [of reliable "[1]" null_id "''/etc/x''" 0 0 "new_assembler ''/d''" Map.empty
      "fst (start_session reliable [1] null_id ''/etc/x'' 0 0 (new_assembler ''/d'', Map.empty))" "[]"
      "fst (deliver reliable [] (fst (start_session reliable [1] null_id ''/etc/x'' 0 0 (new_assembler ''/d'', Map.empty))))"
      "[]" "[]"
      "fst (finalize reliable null_id [] (fst (deliver reliable [] (fst (start_session reliable [1] null_id ''/etc/x'' 0 0 (new_assembler ''/d'', Map.empty))))))"
      "''/etc/x''"]
  by (simp add: start_session_def Let_def new_assembler_def al_find_update path_append_def
      generate_temp_filename_def hex_digit_def finalize_def fs_rename_def fs_exists_def)

text \<open>An existing file at the final path is removed before the rename, so a rename that fails
  loses it: the transfer reports an error and neither the old nor the new file is there.\<close>

theorem failed_rename_loses_existing:
  assumes "al_find (contexts a) i = Some ctx" and "received_count ctx = total_chunks ctx"
    and "fs (final_path ctx) = Some old" and "\<not> remove_fails io (final_path ctx)"
    and "rename_fails io (temp_file_path ctx) (final_path ctx)"
  shows "snd (finalize io i [] (a, fs)) = Inl File_write_error \<and>
         snd (fst (finalize io i [] (a, fs))) (final_path ctx) = None"
  using assms by (auto simp: finalize_def Let_def fs_exists_def fs_remove_def fs_rename_def split: option.splits)

theorem failed_rename_loses_existing_witness:
  "let io = reliable\<lparr>rename_fails := \<lambda>_ _. True\<rparr>;
       a = \<lparr>output_dir = ''/d'', contexts = [(null_id, sample_context)]\<rparr>;
       fs = [''/d/.tmp_1'' \<mapsto> [1, 2, 3], ''/d/f'' \<mapsto> [9]]
   in snd (finalize io null_id [] (a, fs)) = Inl File_write_error \<and>
      snd (fst (finalize io null_id [] (a, fs))) (final_path sample_context) = None"
  unfolding Let_def
  by (rule failed_rename_loses_existing [where old = "[9]"]) (simp_all add: sample_context_def reliable_def)

text \<open>Destroying the assembler leaves no temporary file of an unfinished session behind and
  touches no other file.\<close>

theorem destroy_removes_temp_files:
  assumes "\<forall>p. \<not> remove_fails io p"
  shows "destroy io (a, fs) p = (if \<exists>ctx \<in> snd ` set (contexts a). temp_file_path ctx = p then None else fs p)"
proof -
  have "fold (\<lambda>(_, ctx). fs_remove io (temp_file_path ctx)) m fs p =
        (if \<exists>ctx \<in> snd ` set m. temp_file_path ctx = p then None else fs p)"
    for m :: "(transfer_id \<times> assembly_context) list"
    using assms by (induction m arbitrary: fs) (auto simp: fs_remove_def)
  then show ?thesis
    by (simp add: destroy_def)
qed

theorem destroy_removes_temp_files_witness:
  "destroy reliable (\<lparr>output_dir = ''/d'', contexts = [(null_id, sample_context)]\<rparr>,
     [''/d/.tmp_1'' \<mapsto> [1], ''/d/f'' \<mapsto> [2]]) ''/d/.tmp_1'' =
   (if \<exists>ctx \<in> snd ` set (contexts \<lparr>output_dir = ''/d'', contexts = [(null_id, sample_context)]\<rparr>).
         temp_file_path ctx = ''/d/.tmp_1'' then None
    else [''/d/.tmp_1'' \<mapsto> [1], ''/d/f'' \<mapsto> [2]] ''/d/.tmp_1'')"
  by (rule destroy_removes_temp_files) simp

end
