(* ===== verification/Quoted_Text.thy ===== *)
theory Quoted_Text
  imports Prelude
begin

text \<open>
  Texts with quoted names and values, as the hand-written JSON readers of the program see them (core/resume_handler.cpp,
  cloud/gcs_storage.cpp): a text is the list of the pieces between its quotes, and a search for a quoted name finds the
  first piece that is that name.
\<close>

abbreviation "dquote \<equiv> CHR 0x22"
abbreviation "backslash \<equiv> CHR 0x5C"
abbreviation "newline \<equiv> CHR 0x0A"

text \<open>The printed text as the pieces between its quotes.\<close>

fun quoted :: "string list \<Rightarrow> string" where
  "quoted [] = []"
| "quoted [s] = s"
| "quoted (s # t # ss) = s @ dquote # quoted (t # ss)"

lemma find_sub_skip: "dquote \<notin> set s \<Longrightarrow> find_sub (dquote # p) (s @ dquote # r) = find_sub (dquote # p) (dquote # r)"
  by (induction s) auto

lemma split_at_quote:
  "dquote \<notin> set s \<Longrightarrow> dquote \<notin> set key \<Longrightarrow> s @ dquote # r = key @ dquote # r' \<longleftrightarrow> s = key \<and> r = r'"
proof (induction s arbitrary: key)
  case Nil
  then show ?case by (cases key) auto
next
  case (Cons a s)
  then show ?case by (cases key) auto
qed

lemma take_quote_key:
  assumes "dquote \<notin> set s" and "dquote \<notin> set key"
  shows "take (Suc (length key)) (s @ dquote # r) = key @ [dquote] \<longleftrightarrow> s = key"
proof
  assume eq: "take (Suc (length key)) (s @ dquote # r) = key @ [dquote]"
  have "s @ dquote # r = take (Suc (length key)) (s @ dquote # r) @ drop (Suc (length key)) (s @ dquote # r)"
    by (rule append_take_drop_id [symmetric])
  then have "s @ dquote # r = key @ dquote # drop (Suc (length key)) (s @ dquote # r)"
    unfolding eq by simp
  then show "s = key"
    using split_at_quote [OF assms] by blast
qed simp

definition find_key :: "string \<Rightarrow> string \<Rightarrow> string option" where
  "find_key key s = find_sub (dquote # key @ [dquote]) s"

lemma find_quoted_start:
  "dquote \<notin> set s \<Longrightarrow> find_key key (quoted (s # t # ss)) = find_key key (dquote # quoted (t # ss))"
  by (simp add: find_sub_skip find_key_def del: find_sub.simps)

lemma find_quoted_step:
  "dquote \<notin> set s \<Longrightarrow> dquote \<notin> set key \<Longrightarrow>
   find_key key (dquote # quoted (s # t # ss)) =
     (if s = key then Some (dquote # quoted (s # t # ss)) else find_key key (dquote # quoted (t # ss)))"
  using take_quote_key [of s key "quoted (t # ss)"] find_sub_skip [of s "key @ [dquote]" "quoted (t # ss)"]
  by (simp add: find_key_def)

text \<open>The first piece that equals the name, whatever comes before the first quote.\<close>

lemma find_piece:
  assumes "dquote \<notin> set s" "\<forall>p \<in> set ps. dquote \<notin> set p" "dquote \<notin> set key" "key \<notin> set ps"
  shows "find_key key (quoted (s # ps @ key # t # ts)) = Some (dquote # quoted (key # t # ts))"
  using assms
proof (induction ps arbitrary: s)
  case (Cons p ps)
  obtain q qs where q: "ps @ key # t # ts = q # qs" by (cases "ps @ key # t # ts") auto
  have "find_key key (quoted (s # (p # ps) @ key # t # ts)) = find_key key (dquote # quoted (p # q # qs))"
    using find_quoted_start [of s key p "q # qs"] Cons.prems(1) q by simp
  also have "\<dots> = find_key key (dquote # quoted (q # qs))" using find_quoted_step [of p key q qs] Cons.prems by auto
  also have "\<dots> = find_key key (quoted (p # q # qs))" using find_quoted_start [of p key q qs] Cons.prems(2) by simp
  finally show ?case using Cons.IH [of p] Cons.prems q by simp
next
  case (Nil s)
  then show ?case using find_quoted_start [of s key key "t # ts"] find_quoted_step [of key key t ts] by simp
qed

end
