(* ===== verification/Resume_Json.thy ===== *)
theory Resume_Json
  imports Chunk_Types Quoted_Text
begin

text \<open>
  The text format of core/resume_handler.cpp: the state of a resumable transfer and the
  hand-written JSON printer and reader. An outer \<open>None\<close> is a C++ exception that leaves the
  function (\<open>std::stoi\<close> outside the \<open>try\<close> block); the errors the code returns are \<open>Inl\<close>. A time
  point is a number of nanoseconds (the tick of \<open>system_clock\<close> in libstdc++).
\<close>

record transfer_state =
  ts_id :: transfer_id
  ts_filename :: string
  ts_total_size :: u64
  ts_transferred_bytes :: u64
  ts_total_chunks :: u32
  ts_chunk_bitmap :: "bool list"
  ts_sha256 :: string
  ts_started_at :: int
  ts_last_activity :: int

definition new_transfer_state :: "int \<Rightarrow> transfer_id \<Rightarrow> string \<Rightarrow> u64 \<Rightarrow> u32 \<Rightarrow> string \<Rightarrow> transfer_state" where
  "new_transfer_state now i fname fsize n h =
     \<lparr>ts_id = i, ts_filename = fname, ts_total_size = fsize, ts_transferred_bytes = 0,
      ts_total_chunks = n, ts_chunk_bitmap = replicate (unat n) False, ts_sha256 = h,
      ts_started_at = now, ts_last_activity = now\<rparr>"

definition empty_transfer_state :: transfer_state where
  "empty_transfer_state =
     \<lparr>ts_id = null_id, ts_filename = [], ts_total_size = 0, ts_transferred_bytes = 0,
      ts_total_chunks = 0, ts_chunk_bitmap = [], ts_sha256 = [], ts_started_at = 0, ts_last_activity = 0\<rparr>"

definition received_chunk_count :: "transfer_state \<Rightarrow> u32" where
  "received_chunk_count st = word_of_nat (count_list (ts_chunk_bitmap st) True)"

definition ts_completion_percentage :: "transfer_state \<Rightarrow> rat" where
  "ts_completion_percentage st =
     (if ts_total_chunks st = 0 then 0
      else of_nat (unat (received_chunk_count st)) / of_nat (unat (ts_total_chunks st)) * 100)"

definition ts_is_complete :: "transfer_state \<Rightarrow> bool" where
  "ts_is_complete st \<longleftrightarrow> received_chunk_count st = ts_total_chunks st"

section \<open>Escaping\<close>


definition escape_char :: "char \<Rightarrow> string" where
  "escape_char c =
     (if c = dquote then [backslash, dquote]
      else if c = backslash then [backslash, backslash]
      else if c = CHR 0x08 then [backslash, CHR ''b'']
      else if c = CHR 0x0C then [backslash, CHR ''f'']
      else if c = CHR 0x0A then [backslash, CHR ''n'']
      else if c = CHR 0x0D then [backslash, CHR ''r'']
      else if c = CHR 0x09 then [backslash, CHR ''t'']
      else if (of_char c :: nat) < 32
      then [backslash, CHR ''u'', CHR ''0'', CHR ''0'',
            hex_digit (of_char c div 16), hex_digit (of_char c mod 16)]
      else [c])"

definition escape_json_string :: "string \<Rightarrow> string" where
  "escape_json_string s = concat (map escape_char s)"

fun unescape_json_string :: "string \<Rightarrow> string option" where
  "unescape_json_string [] = Some []"
| "unescape_json_string [c] = Some [c]"
| "unescape_json_string (c # d # s) =
     (if c = backslash then
        if d = dquote then map_option ((#) dquote) (unescape_json_string s)
        else if d = backslash then map_option ((#) backslash) (unescape_json_string s)
        else if d = CHR ''b'' then map_option ((#) (CHR 0x08)) (unescape_json_string s)
        else if d = CHR ''f'' then map_option ((#) (CHR 0x0C)) (unescape_json_string s)
        else if d = CHR ''n'' then map_option ((#) (CHR 0x0A)) (unescape_json_string s)
        else if d = CHR ''r'' then map_option ((#) (CHR 0x0D)) (unescape_json_string s)
        else if d = CHR ''t'' then map_option ((#) (CHR 0x09)) (unescape_json_string s)
        else if d = CHR ''u'' then
          if length s < 4 then unescape_json_string (d # s)
          else (case sto_signed 32 16 (take 4 s) of
                  None \<Rightarrow> None
                | Some code \<Rightarrow>
                    map_option ((#) (char_of (nat (code mod 256)))) (unescape_json_string (drop 4 s)))
        else map_option ((#) c) (unescape_json_string (d # s))
      else map_option ((#) c) (unescape_json_string (d # s)))"

section \<open>Times and bitmaps\<close>

text \<open>\<open>duration_cast\<close> to milliseconds truncates towards zero.\<close>

definition time_point_to_int64 :: "int \<Rightarrow> int" where
  "time_point_to_int64 t = trunc_div t 1000000"

definition int64_to_time_point :: "int \<Rightarrow> int" where
  "int64_to_time_point ms = ms * 1000000"

fun bitmap_loop :: "u8 \<Rightarrow> nat \<Rightarrow> bool list \<Rightarrow> bytes" where
  "bitmap_loop byte bit_count [] = (if bit_count > 0 then [byte] else [])"
| "bitmap_loop byte bit_count (b # bm) =
     (let byte = (if b then byte OR push_bit (7 - bit_count) 1 else byte)
      in if bit_count + 1 = 8 then byte # bitmap_loop 0 0 bm else bitmap_loop byte (bit_count + 1) bm)"

definition bitmap_to_hex_string :: "bool list \<Rightarrow> string" where
  "bitmap_to_hex_string bm = hex_string (bitmap_loop 0 0 bm)"

text \<open>The inner loop: the eight bits of one byte, from \<open>bit_index\<close> on, within the bitmap.\<close>

definition put_bits :: "u8 \<Rightarrow> nat \<Rightarrow> bool list \<Rightarrow> bool list" where
  "put_bits byte bit_index bm =
     fold (\<lambda>j bm. if bit_index + (7 - j) < length bm then bm[bit_index + (7 - j) := bit byte j] else bm)
       [7, 6, 5, 4, 3, 2, 1, 0] bm"

fun hex_bits_loop :: "string \<Rightarrow> nat \<Rightarrow> bool list \<Rightarrow> bool list option" where
  "hex_bits_loop (a # b # hex) bit_index bm =
     (if bit_index < length bm then
        case sto_signed 32 16 [a, b] of
          None \<Rightarrow> None
        | Some v \<Rightarrow>
            hex_bits_loop hex (min (bit_index + 8) (length bm)) (put_bits (word_of_int v) bit_index bm)
      else Some bm)"
| "hex_bits_loop hex bit_index bm = Some bm"

definition hex_string_to_bitmap :: "string \<Rightarrow> u32 \<Rightarrow> bool list option" where
  "hex_string_to_bitmap hex total_bits = hex_bits_loop hex 0 (replicate (unat total_bits) False)"

section \<open>Printer\<close>

definition string_field :: "string \<Rightarrow> string \<Rightarrow> string" where
  "string_field key v = ''  '' @ dquote # key @ dquote # '': '' @ dquote # v @ dquote # '','' @ [newline]"

definition number_field :: "string \<Rightarrow> string \<Rightarrow> string" where
  "number_field key v = ''  '' @ dquote # key @ dquote # '': '' @ v @ '','' @ [newline]"

definition serialize_state_to_json :: "transfer_state \<Rightarrow> string" where
  "serialize_state_to_json st =
     ''{'' @ [newline] @
     string_field ''id'' (id_to_string (ts_id st)) @
     string_field ''filename'' (escape_json_string (ts_filename st)) @
     number_field ''total_size'' (dec_digits (unat (ts_total_size st))) @
     number_field ''transferred_bytes'' (dec_digits (unat (ts_transferred_bytes st))) @
     number_field ''total_chunks'' (dec_digits (unat (ts_total_chunks st))) @
     string_field ''chunk_bitmap'' (bitmap_to_hex_string (ts_chunk_bitmap st)) @
     string_field ''sha256'' (ts_sha256 st) @
     number_field ''started_at'' (dec_int (time_point_to_int64 (ts_started_at st))) @
     ''  '' @ dquote # ''last_activity'' @ dquote # '': '' @
       dec_int (time_point_to_int64 (ts_last_activity st)) @ [newline] @
     ''}''"

section \<open>Reader\<close>

text \<open>A string value ends at the first quote whose predecessor is not a backslash.\<close>

fun scan_string :: "char \<Rightarrow> string \<Rightarrow> string" where
  "scan_string prev [] = []"
| "scan_string prev (c # s) = (if c = dquote \<and> prev \<noteq> backslash then [] else c # scan_string c s)"

definition trim_end :: "string \<Rightarrow> string" where
  "trim_end s = rev (dropWhile (\<lambda>c. c = CHR '' '' \<or> c = CHR 0x09) (rev s))"

definition extract_json_value :: "string \<Rightarrow> string \<Rightarrow> string" where
  "extract_json_value json key =
     (case find_sub (dquote # key @ [dquote]) json of
        None \<Rightarrow> []
      | Some at_key \<Rightarrow>
          (case dropWhile (\<lambda>c. c \<noteq> CHR '':'') at_key of
             [] \<Rightarrow> []
           | _ # after_colon \<Rightarrow>
               (case dropWhile (\<lambda>c. c = CHR '' '' \<or> c = newline \<or> c = CHR 0x09) after_colon of
                  [] \<Rightarrow> []
                | c # s \<Rightarrow>
                    if c = dquote then scan_string dquote s
                    else trim_end (takeWhile (\<lambda>x. x \<noteq> CHR '','' \<and> x \<noteq> newline \<and> x \<noteq> CHR ''}'') (c # s)))))"

definition parse_numbers :: "string \<Rightarrow> transfer_state \<Rightarrow> transfer_state option" where
  "parse_numbers json st =
     (case stoull 10 (extract_json_value json ''total_size'') of None \<Rightarrow> None | Some sz \<Rightarrow>
      case stoull 10 (extract_json_value json ''transferred_bytes'') of None \<Rightarrow> None | Some done \<Rightarrow>
      case stoull 10 (extract_json_value json ''total_chunks'') of None \<Rightarrow> None | Some chunks \<Rightarrow>
      case sto_signed 64 10 (extract_json_value json ''started_at'') of None \<Rightarrow> None | Some started \<Rightarrow>
      case sto_signed 64 10 (extract_json_value json ''last_activity'') of None \<Rightarrow> None | Some active \<Rightarrow>
        Some (st\<lparr>ts_total_size := word_of_nat sz, ts_transferred_bytes := word_of_nat done,
                 ts_total_chunks := word_of_nat chunks,
                 ts_started_at := int64_to_time_point started,
                 ts_last_activity := int64_to_time_point active\<rparr>))"

definition deserialize_state_from_json :: "string \<Rightarrow> transfer_state result option" where
  "deserialize_state_from_json json =
     (let id_str = extract_json_value json ''id''
      in if id_str = [] then Some (Inl Internal_error)
         else case id_from_string id_str of
           None \<Rightarrow> Some (Inl Internal_error)
         | Some i \<Rightarrow>
             (case unescape_json_string (extract_json_value json ''filename'') of
                None \<Rightarrow> None
              | Some fname \<Rightarrow>
                  (case parse_numbers json (empty_transfer_state\<lparr>ts_id := i, ts_filename := fname\<rparr>) of
                     None \<Rightarrow> Some (Inl Internal_error)
                   | Some st \<Rightarrow>
                       map_option
                         (\<lambda>bm. Inr (st\<lparr>ts_sha256 := extract_json_value json ''sha256'',
                                       ts_chunk_bitmap := bm\<rparr>))
                         (hex_string_to_bitmap (extract_json_value json ''chunk_bitmap'') (ts_total_chunks st)))))"

section \<open>Bitmap round trip\<close>

text \<open>Bit \<open>r\<close> of byte \<open>q\<close>, counted from the top, is entry \<open>8 * q + r\<close> of the bitmap.\<close>

lemma bit_set_flag:
  "n < 8 \<Longrightarrow> (\<And>j. j \<le> 7 - n \<Longrightarrow> \<not> bit (byte :: u8) j) \<Longrightarrow>
   bit (if b then byte OR push_bit (7 - n) 1 else byte) j = (if j = 7 - n then b else bit byte j)"
  by (auto simp: bit_simps)

lemma bitmap_loop_bits:
  "n < 8 \<Longrightarrow> k < n + length bm \<Longrightarrow> (\<And>j. j \<le> 7 - n \<Longrightarrow> \<not> bit byte j) \<Longrightarrow>
   bit (bitmap_loop byte n bm ! (k div 8)) (7 - k mod 8) = (if k < n then bit byte (7 - k) else bm ! (k - n))"
proof (induction byte n bm arbitrary: k rule: bitmap_loop.induct)
  case (1 byte n)
  then show ?case by simp
next
  case (2 byte n b bm)
  define byte' where "byte' = (if b then byte OR push_bit (7 - n) 1 else byte)"
  have bit': "bit byte' j = (if j = 7 - n then b else bit byte j)" for j
    unfolding byte'_def using "2.prems" by (intro bit_set_flag) auto
  show ?case
  proof (cases "n + 1 = 8")
    case True
    then have loop: "bitmap_loop byte n (b # bm) = byte' # bitmap_loop 0 0 bm"
      by (simp add: byte'_def Let_def)
    show ?thesis
    proof (cases "k < 8")
      case k: True
      have "bit ((byte' # bitmap_loop 0 0 bm) ! (k div 8)) (7 - k mod 8) = bit byte' (7 - k)"
        using k by simp
      then show ?thesis
        unfolding loop using True k by (auto simp: bit' nth_Cons split: nat.splits)
    next
      case False
      then have "k div 8 = Suc ((k - 8) div 8)" "k mod 8 = (k - 8) mod 8"
        by (simp_all add: le_div_geq le_mod_geq)
      moreover have "bit (bitmap_loop 0 0 bm ! ((k - 8) div 8)) (7 - (k - 8) mod 8) = bm ! (k - 8)"
        using "2.IH"(1) [OF byte'_def True, of "k - 8"] "2.prems" False True by simp
      moreover have "(b # bm) ! (k - n) = bm ! (k - 8)"
      proof -
        have "k - n = Suc (k - 8)" using True False by arith
        then show ?thesis by simp
      qed
      ultimately show ?thesis unfolding loop using True False by simp
    qed
  next
    case False
    then have n1: "n + 1 < 8" using "2.prems" by simp
    have loop: "bitmap_loop byte n (b # bm) = bitmap_loop byte' (n + 1) bm"
      using False by (simp add: byte'_def Let_def)
    have "bit (bitmap_loop byte' (n + 1) bm ! (k div 8)) (7 - k mod 8) =
          (if k < n + 1 then bit byte' (7 - k) else bm ! (k - (n + 1)))"
    proof (rule "2.IH"(2) [OF byte'_def False n1])
      show "k < n + 1 + length bm" using "2.prems" by simp
      show "\<not> bit byte' j" if "j \<le> 7 - (n + 1)" for j
        using that n1 "2.prems"(3) [of j] by (auto simp: bit')
    qed
    moreover have "n < k \<Longrightarrow> (b # bm) ! (k - n) = bm ! (k - (n + 1))"
      by simp
    ultimately show ?thesis
      unfolding loop using n1 by (cases k n rule: linorder_cases) (auto simp: bit')
  qed
qed

lemma length_bitmap_loop: "n < 8 \<Longrightarrow> length (bitmap_loop byte n bm) = (n + length bm + 7) div 8"
proof (induction byte n bm rule: bitmap_loop.induct)
  case (1 byte n)
  then show ?case by auto
next
  case (2 byte n b bm)
  show ?case
  proof (cases "n + 1 = 8")
    case True
    then show ?thesis using 2 by (simp add: Let_def)
  next
    case False
    then show ?thesis using 2 by (simp add: Let_def)
  qed
qed

lemma digit_val_hex_digit [simp]: "n < 16 \<Longrightarrow> digit_val 16 (hex_digit n) = Some n"
  by (simp add: digit_val_def)

lemma hex_digit_not_special: "n < 16 \<Longrightarrow> \<not> is_space (hex_digit n) \<and> hex_digit n \<noteq> CHR ''-'' \<and> hex_digit n \<noteq> CHR ''+''"
proof -
  assume n: "n < 16"
  have "hex_val (CHR ''-'') = None" "hex_val (CHR ''+'') = None"
    by (simp_all add: hex_val_def)
  moreover have "\<not> is_space (hex_digit n)"
    using n by (simp add: is_space_def of_char_hex_digit)
  ultimately show ?thesis
    using hex_val_hex_digit [OF n] by auto
qed

lemma sto_signed_hex_digits:
  "a < 16 \<Longrightarrow> b < 16 \<Longrightarrow> sto_signed 32 16 [hex_digit a, hex_digit b] = Some (int (a * 16 + b))"
  by (simp add: sto_signed_def strto_def hex_digit_not_special strto_unsigned_def Let_def)

lemma sto_signed_hex2: "sto_signed 32 16 (hex2 b) = Some (int (unat b))"
  unfolding hex2_def by (subst sto_signed_hex_digits) simp_all

lemma length_put_bits [simp]: "length (put_bits byte k bm) = length bm"
  by (simp add: put_bits_def)

lemma put_bits_nth:
  assumes "m < length bm"
  shows "put_bits byte k bm ! m = (if k \<le> m \<and> m < k + 8 then bit byte (7 - (m - k)) else bm ! m)"
proof (cases "k \<le> m \<and> m < k + 8")
  case True
  then have "m = k \<or> m = k + 1 \<or> m = k + 2 \<or> m = k + 3 \<or> m = k + 4 \<or> m = k + 5 \<or> m = k + 6 \<or> m = k + 7"
    by auto
  then show ?thesis
    using assms by (elim disjE) (simp_all add: put_bits_def nth_list_update)
next
  case False
  then show ?thesis
    by (auto simp: put_bits_def nth_list_update)
qed

lemma hex_bits_loop_nth:
  "k \<le> length bm \<Longrightarrow>
   \<exists>bm'. hex_bits_loop (hex_string bs) k bm = Some bm' \<and> length bm' = length bm \<and>
     (\<forall>m < length bm. bm' ! m =
        (if k \<le> m \<and> (m - k) div 8 < length bs then bit (bs ! ((m - k) div 8)) (7 - (m - k) mod 8) else bm ! m))"
proof (induction bs arbitrary: k bm)
  case Nil
  then show ?case by simp
next
  case (Cons b bs)
  obtain c d where cd: "hex2 b = [c, d]"
    by (simp add: hex2_def)
  show ?case
  proof (cases "k < length bm")
    case False
    then show ?thesis
      using Cons.prems by (auto simp: hex_string_Cons cd)
  next
    case True
    define k' where "k' = min (k + 8) (length bm)"
    obtain bm' where bm': "hex_bits_loop (hex_string bs) k' (put_bits b k bm) = Some bm'"
      "length bm' = length bm"
      "\<And>m. m < length bm \<Longrightarrow> bm' ! m =
        (if k' \<le> m \<and> (m - k') div 8 < length bs then bit (bs ! ((m - k') div 8)) (7 - (m - k') mod 8)
         else put_bits b k bm ! m)"
      using Cons.IH [of k' "put_bits b k bm"] by (auto simp: k'_def)
    have "hex_bits_loop (hex_string (b # bs)) k bm = Some bm'"
      using True bm'(1) sto_signed_hex2 [of b] by (simp add: hex_string_Cons cd k'_def)
    moreover have "bm' ! m =
        (if k \<le> m \<and> (m - k) div 8 < length (b # bs) then bit ((b # bs) ! ((m - k) div 8)) (7 - (m - k) mod 8)
         else bm ! m)" if m: "m < length bm" for m
    proof (cases "k + 8 \<le> m")
      case True
      then have "k' = k + 8" "(m - k) div 8 = Suc ((m - k') div 8)" "(m - k) mod 8 = (m - k') mod 8"
        using m by (simp_all add: k'_def le_div_geq le_mod_geq)
      then show ?thesis
        using True bm'(3) [OF m] m by (simp add: put_bits_nth)
    next
      case False
      then have "\<not> k' \<le> m" using m by (simp add: k'_def)
      then show ?thesis
        using False bm'(3) [OF m] m by (simp add: put_bits_nth)
    qed
    ultimately show ?thesis using bm'(2) by blast
  qed
qed

lemma bitmap_roundtrip:
  assumes "length bm = unat n"
  shows "hex_string_to_bitmap (bitmap_to_hex_string bm) n = Some bm"
proof -
  let ?bs = "bitmap_loop 0 0 bm"
  obtain bm' where bm': "hex_bits_loop (hex_string ?bs) 0 (replicate (unat n) False) = Some bm'"
    "length bm' = unat n"
    "\<And>m. m < unat n \<Longrightarrow> bm' ! m = (if m div 8 < length ?bs then bit (?bs ! (m div 8)) (7 - m mod 8) else False)"
    using hex_bits_loop_nth [of 0 "replicate (unat n) False" ?bs] by auto
  have "bm' ! m = bm ! m" if "m < unat n" for m
  proof -
    have "m div 8 < length ?bs"
      using that assms by (simp add: length_bitmap_loop)
    then show ?thesis
      using bm'(3) [OF that] bitmap_loop_bits [of 0 m bm 0] that assms by simp
  qed
  then have "bm' = bm"
    using bm'(2) assms by (intro nth_equalityI) auto
  then show ?thesis
    using bm'(1) by (simp add: hex_string_to_bitmap_def bitmap_to_hex_string_def)
qed

section \<open>Escaping round trip\<close>

lemma sto_signed_u00:
  "a < 16 \<Longrightarrow> b < 16 \<Longrightarrow>
   sto_signed 32 16 [CHR ''0'', CHR ''0'', hex_digit a, hex_digit b] = Some (int (a * 16 + b))"
proof -
  assume ab: "a < 16" "b < 16"
  have z: "digit_val 16 (CHR ''0'') = Some 0" "\<not> is_space (CHR ''0'')"
    by (simp_all add: digit_val_def hex_val_def is_space_def)
  show ?thesis
    using ab by (simp add: sto_signed_def strto_def strto_unsigned_def z Let_def)
qed

lemma unescape_escape_char:
  "unescape_json_string (escape_char c @ s) = map_option ((#) c) (unescape_json_string s)"
proof -
  define n :: nat where "n = of_char c"
  have n: "char_of n = c"
    by (simp add: n_def)
  have u: "unescape_json_string (backslash # CHR ''u'' # CHR ''0'' # CHR ''0'' #
             hex_digit (n div 16) # hex_digit (n mod 16) # s) = map_option ((#) c) (unescape_json_string s)"
    if "n < 32"
  proof -
    have "int (n div 16 * 16 + n mod 16) mod 256 = int n"
      using that by simp
    then show ?thesis
      using that sto_signed_u00 [of "n div 16" "n mod 16"] by (simp add: n)
  qed
  show ?thesis
    using u by (cases s) (auto simp: escape_char_def n_def)
qed

lemma unescape_escape: "unescape_json_string (escape_json_string s) = Some s"
  by (induction s) (simp_all add: escape_json_string_def unescape_escape_char)

section \<open>Finding a key\<close>

text \<open>The printed state as the pieces between its quotes.\<close>

definition state_pieces :: "transfer_state \<Rightarrow> string list" where
  "state_pieces st =
     (let sep = '','' @ [newline] @ ''  ''; num = (\<lambda>v. '': '' @ v @ sep)
      in [''{'' @ [newline] @ ''  '', ''id'', '': '', id_to_string (ts_id st), sep,
          ''filename'', '': '', escape_json_string (ts_filename st), sep,
          ''total_size'', num (dec_digits (unat (ts_total_size st))),
          ''transferred_bytes'', num (dec_digits (unat (ts_transferred_bytes st))),
          ''total_chunks'', num (dec_digits (unat (ts_total_chunks st))),
          ''chunk_bitmap'', '': '', bitmap_to_hex_string (ts_chunk_bitmap st), sep,
          ''sha256'', '': '', ts_sha256 st, sep,
          ''started_at'', num (dec_int (time_point_to_int64 (ts_started_at st))),
          ''last_activity'', '': '' @ dec_int (time_point_to_int64 (ts_last_activity st)) @ [newline] @ ''}''])"

lemma serialize_pieces: "serialize_state_to_json st = quoted (state_pieces st)"
  by (simp add: serialize_state_to_json_def state_pieces_def string_field_def number_field_def Let_def)

text \<open>What is read once the key is found.\<close>

lemma scan_string_append:
  "dquote \<notin> set v \<Longrightarrow> (if v = [] then prev else last v) \<noteq> backslash \<Longrightarrow> scan_string prev (v @ dquote # r) = v"
  by (induction v arbitrary: prev) (auto split: if_splits)

lemma dropWhile_colon: "CHR '':'' \<notin> set key \<Longrightarrow> dropWhile (\<lambda>c. c \<noteq> CHR '':'') (key @ dquote # CHR '':'' # r) = CHR '':'' # r"
  by (induction key) auto

lemma extract_string:
  assumes "find_key key json = Some (dquote # quoted (key # '': '' # v # s # ss))"
    and "CHR '':'' \<notin> set key" and "dquote \<notin> set v" and "v = [] \<or> last v \<noteq> backslash"
  shows "extract_json_value json key = v"
proof -
  have q: "quoted (key # '': '' # v # s # ss) = key @ dquote # '': '' @ dquote # v @ dquote # quoted (s # ss)"
    by simp
  have "scan_string dquote (v @ dquote # quoted (s # ss)) = v"
    using assms(3,4) by (intro scan_string_append) auto
  then show ?thesis
    using assms(1) dropWhile_colon [OF assms(2), of "'' '' @ dquote # v @ dquote # quoted (s # ss)"]
    unfolding q by (simp add: extract_json_value_def find_key_def)
qed

lemma trim_end_id: "s \<noteq> [] \<Longrightarrow> last s \<noteq> CHR '' '' \<Longrightarrow> last s \<noteq> CHR 0x09 \<Longrightarrow> trim_end s = s"
  by (cases s rule: rev_cases) (simp_all add: trim_end_def)

lemma extract_number:
  assumes "find_key key json = Some (dquote # quoted (key # ('': '' @ v @ c # t) # ss))"
    and "CHR '':'' \<notin> set key" and v: "v \<noteq> []" "\<And>x. x \<in> set v \<Longrightarrow> is_digit x \<or> x = CHR ''-''"
    and "c \<in> {CHR '','', newline}"
  shows "extract_json_value json key = v"
proof -
  have ok: "x \<noteq> dquote \<and> x \<noteq> CHR '','' \<and> x \<noteq> newline \<and> x \<noteq> CHR ''}'' \<and> x \<noteq> CHR '' '' \<and> x \<noteq> CHR 0x09"
    if "x \<in> set v" for x
    using v(2) [OF that] by (auto simp: is_digit_def)
  obtain h w where hw: "v = h # w" using v(1) by (cases v) auto
  have tw: "takeWhile (\<lambda>x. x \<noteq> CHR '','' \<and> x \<noteq> newline \<and> x \<noteq> CHR ''}'') (v @ c # r) = v" for r
    using ok assms(5) by (subst takeWhile_append2) auto
  have trim: "trim_end v = v"
    using v(1) ok [of "last v"] by (intro trim_end_id) simp_all
  obtain r where r: "quoted (key # ('': '' @ v @ c # t) # ss) = key @ dquote # '': '' @ v @ c # r"
    by (cases ss) auto
  show ?thesis
    using assms(1) dropWhile_colon [OF assms(2), of "'' '' @ v @ c # r"] tw [of r] trim ok [of h]
    unfolding r by (simp add: extract_json_value_def find_key_def hw)
qed

section \<open>State round trip\<close>

definition reserved_names :: "string list" where
  "reserved_names = [''total_size'', ''transferred_bytes'', ''total_chunks'', ''chunk_bitmap'', ''sha256'',
                     ''started_at'', ''last_activity'']"

definition plain_name :: "string \<Rightarrow> bool" where
  "plain_name s \<longleftrightarrow> dquote \<notin> set s \<and> (s = [] \<or> last s \<noteq> backslash)"

definition storable :: "transfer_state \<Rightarrow> bool" where
  "storable st \<longleftrightarrow>
     wf_id (ts_id st) \<and> plain_name (ts_filename st) \<and> list_all isxdigit (ts_sha256 st) \<and>
     length (ts_chunk_bitmap st) = unat (ts_total_chunks st) \<and>
     \<bar>ts_started_at st\<bar> < 2 ^ 63 \<and> \<bar>ts_last_activity st\<bar> < 2 ^ 63"

text \<open>What survives: times are cut to whole milliseconds.\<close>

definition to_millis :: "transfer_state \<Rightarrow> transfer_state" where
  "to_millis st =
     st\<lparr>ts_started_at := int64_to_time_point (time_point_to_int64 (ts_started_at st)),
        ts_last_activity := int64_to_time_point (time_point_to_int64 (ts_last_activity st))\<rparr>"

lemma isxdigit_not_special: "isxdigit c \<Longrightarrow> c \<noteq> dquote \<and> c \<noteq> backslash"
  by (auto simp: isxdigit_def hex_val_def)

lemma not_isxdigit: "\<not> isxdigit (CHR ''t'')" "\<not> isxdigit (CHR ''h'')" "\<not> isxdigit (CHR ''s'')" "\<not> isxdigit (CHR ''l'')"
  by (simp_all add: isxdigit_def hex_val_def)

lemma dec_int_chars: "x \<in> set (dec_int i) \<Longrightarrow> is_digit x \<or> x = CHR ''-''"
  by (auto simp: dec_int_def is_digit_dec_digits split: if_splits)

lemma dec_int_nonempty [simp]: "dec_int i \<noteq> []"
  by (simp add: dec_int_def)

lemma no_dquote:
  "dquote \<notin> set (dec_digits n)" "dquote \<notin> set (dec_int i)" "dquote \<notin> set (id_to_string d)"
  "dquote \<notin> set (bitmap_to_hex_string bm)" "list_all isxdigit s \<Longrightarrow> dquote \<notin> set s"
  using is_digit_dec_digits [of dquote n] dec_int_chars [of dquote i] set_id_to_string [of dquote d]
    set_hex_string [of dquote "bitmap_loop 0 0 bm"] isxdigit_not_special [of dquote]
  by (auto simp: is_digit_def bitmap_to_hex_string_def list_all_iff)

lemma no_dquote_escape: "dquote \<notin> set s \<Longrightarrow> dquote \<notin> set (escape_json_string s)"
proof -
  have h: "dquote \<noteq> hex_digit n" if "n < 16" for n
    using isxdigit_hex_digit [OF that] isxdigit_not_special [of dquote] by metis
  then have "dquote \<notin> set (escape_char c)" if "c \<noteq> dquote" for c
    using that h [of "of_char c div 16"] h [of "of_char c mod 16"] by (simp add: escape_char_def)
  then have "dquote \<notin> set s \<Longrightarrow> \<forall>c \<in> set s. dquote \<notin> set (escape_char c)"
    by metis
  then show "dquote \<notin> set s \<Longrightarrow> dquote \<notin> set (escape_json_string s)"
    by (simp add: escape_json_string_def)
qed

lemma last_escape: "s = [] \<or> last s \<noteq> backslash \<Longrightarrow> escape_json_string s = [] \<or> last (escape_json_string s) \<noteq> backslash"
proof (cases s rule: rev_cases)
  case (snoc ys c)
  have "hex_digit n \<noteq> backslash" if "n < 16" for n
    using isxdigit_hex_digit [OF that] isxdigit_not_special by blast
  moreover assume "s = [] \<or> last s \<noteq> backslash"
  ultimately show ?thesis
    using snoc by (auto simp: escape_json_string_def escape_char_def)
qed (simp add: escape_json_string_def)

lemma escape_inj: "escape_json_string s = escape_json_string t \<Longrightarrow> s = t"
  by (metis unescape_escape option.inject)

lemma escape_reserved: "key \<in> set reserved_names \<Longrightarrow> escape_json_string key = key"
  by (auto simp: reserved_names_def escape_json_string_def escape_char_def)

lemma hex_not_reserved: "list_all isxdigit s \<Longrightarrow> s \<notin> set reserved_names"
  by (auto simp: reserved_names_def not_isxdigit)


lemma keys_differ:
  assumes "storable st"
  shows "key \<in> set reserved_names \<Longrightarrow> id_to_string (ts_id st) \<noteq> key"
    "key \<in> set reserved_names \<Longrightarrow> bitmap_to_hex_string bm \<noteq> key"
    "key \<in> set reserved_names \<Longrightarrow> ts_sha256 st \<noteq> key"
    "key \<in> set reserved_names \<Longrightarrow> ts_filename st \<noteq> key \<Longrightarrow> escape_json_string (ts_filename st) \<noteq> key"
    "id_to_string (ts_id st) \<noteq> ''filename''"
proof -
  have "length (id_to_string (ts_id st)) = 36"
    using assms by (simp add: storable_def length_id_to_string)
  then show "key \<in> set reserved_names \<Longrightarrow> id_to_string (ts_id st) \<noteq> key" "id_to_string (ts_id st) \<noteq> ''filename''"
    by (auto simp: reserved_names_def)
  show "key \<in> set reserved_names \<Longrightarrow> bitmap_to_hex_string bm \<noteq> key"
    using hex_not_reserved [of "bitmap_to_hex_string bm"] set_hex_string
    by (auto simp: list_all_iff bitmap_to_hex_string_def)
  show "key \<in> set reserved_names \<Longrightarrow> ts_sha256 st \<noteq> key"
    using hex_not_reserved [of "ts_sha256 st"] assms by (auto simp: storable_def)
  show "key \<in> set reserved_names \<Longrightarrow> ts_filename st \<noteq> key \<Longrightarrow> escape_json_string (ts_filename st) \<noteq> key"
    using escape_reserved escape_inj by metis
qed

lemma find_pieces:
  assumes "storable st"
  shows "find_key ''id'' (quoted (state_pieces st)) = Some (dquote # quoted (drop 1 (state_pieces st)))"
    "find_key ''filename'' (quoted (state_pieces st)) = Some (dquote # quoted (drop 5 (state_pieces st)))"
proof -
  have q: "dquote \<notin> set (escape_json_string (ts_filename st))" "dquote \<notin> set (ts_sha256 st)"
    using assms by (simp_all add: storable_def plain_name_def no_dquote no_dquote_escape)
  note step = state_pieces_def Let_def find_quoted_start find_quoted_step no_dquote q keys_differ [OF assms]
  show "find_key ''id'' (quoted (state_pieces st)) = Some (dquote # quoted (drop 1 (state_pieces st)))"
    by (simp add: step del: quoted.simps)
  show "find_key ''filename'' (quoted (state_pieces st)) = Some (dquote # quoted (drop 5 (state_pieces st)))"
    by (simp add: step del: quoted.simps)
qed

lemma find_numbers:
  assumes "storable st"
  shows "ts_filename st \<noteq> ''total_size'' \<Longrightarrow>
     find_key ''total_size'' (quoted (state_pieces st)) = Some (dquote # quoted (drop 9 (state_pieces st)))"
    "ts_filename st \<noteq> ''transferred_bytes'' \<Longrightarrow>
     find_key ''transferred_bytes'' (quoted (state_pieces st)) = Some (dquote # quoted (drop 11 (state_pieces st)))"
    "ts_filename st \<noteq> ''total_chunks'' \<Longrightarrow>
     find_key ''total_chunks'' (quoted (state_pieces st)) = Some (dquote # quoted (drop 13 (state_pieces st)))"
    "ts_filename st \<noteq> ''chunk_bitmap'' \<Longrightarrow>
     find_key ''chunk_bitmap'' (quoted (state_pieces st)) = Some (dquote # quoted (drop 15 (state_pieces st)))"
    "ts_filename st \<noteq> ''sha256'' \<Longrightarrow>
     find_key ''sha256'' (quoted (state_pieces st)) = Some (dquote # quoted (drop 19 (state_pieces st)))"
    "ts_filename st \<noteq> ''started_at'' \<Longrightarrow>
     find_key ''started_at'' (quoted (state_pieces st)) = Some (dquote # quoted (drop 23 (state_pieces st)))"
    "ts_filename st \<noteq> ''last_activity'' \<Longrightarrow>
     find_key ''last_activity'' (quoted (state_pieces st)) = Some (dquote # quoted (drop 25 (state_pieces st)))"
proof -
  have q: "dquote \<notin> set (escape_json_string (ts_filename st))" "dquote \<notin> set (ts_sha256 st)"
    using assms by (simp_all add: storable_def plain_name_def no_dquote no_dquote_escape)
  have ne: "id_to_string (ts_id st) \<noteq> key" "bitmap_to_hex_string bm \<noteq> key" "ts_sha256 st \<noteq> key"
    "ts_filename st \<noteq> key \<Longrightarrow> escape_json_string (ts_filename st) \<noteq> key"
    if "key \<in> set reserved_names" for key bm
    using keys_differ [OF assms] that by auto
  note step = state_pieces_def Let_def find_quoted_start find_quoted_step no_dquote q ne reserved_names_def
  show "ts_filename st \<noteq> ''total_size'' \<Longrightarrow>
     find_key ''total_size'' (quoted (state_pieces st)) = Some (dquote # quoted (drop 9 (state_pieces st)))"
    by (simp add: step del: quoted.simps)
  show "ts_filename st \<noteq> ''transferred_bytes'' \<Longrightarrow>
     find_key ''transferred_bytes'' (quoted (state_pieces st)) = Some (dquote # quoted (drop 11 (state_pieces st)))"
    by (simp add: step del: quoted.simps)
  show "ts_filename st \<noteq> ''total_chunks'' \<Longrightarrow>
     find_key ''total_chunks'' (quoted (state_pieces st)) = Some (dquote # quoted (drop 13 (state_pieces st)))"
    by (simp add: step del: quoted.simps)
  show "ts_filename st \<noteq> ''chunk_bitmap'' \<Longrightarrow>
     find_key ''chunk_bitmap'' (quoted (state_pieces st)) = Some (dquote # quoted (drop 15 (state_pieces st)))"
    by (simp add: step del: quoted.simps)
  show "ts_filename st \<noteq> ''sha256'' \<Longrightarrow>
     find_key ''sha256'' (quoted (state_pieces st)) = Some (dquote # quoted (drop 19 (state_pieces st)))"
    by (simp add: step del: quoted.simps)
  show "ts_filename st \<noteq> ''started_at'' \<Longrightarrow>
     find_key ''started_at'' (quoted (state_pieces st)) = Some (dquote # quoted (drop 23 (state_pieces st)))"
    by (simp add: step del: quoted.simps)
  show "ts_filename st \<noteq> ''last_activity'' \<Longrightarrow>
     find_key ''last_activity'' (quoted (state_pieces st)) = Some (dquote # quoted (drop 25 (state_pieces st)))"
    by (simp add: step del: quoted.simps)
qed

lemma id_text: "wf_id i \<Longrightarrow> id_to_string i \<noteq> [] \<and> last (id_to_string i) \<noteq> backslash"
proof -
  assume "wf_id i"
  then have ne: "id_to_string i \<noteq> []"
    using length_id_to_string [of i] by auto
  then show ?thesis
    using set_id_to_string [of "last (id_to_string i)" i] isxdigit_not_special [of backslash] by auto
qed

lemma hex_text: "list_all isxdigit s \<Longrightarrow> s = [] \<or> last s \<noteq> backslash"
  using isxdigit_not_special by (metis last_in_set list_all_iff)

lemma bitmap_text: "bitmap_to_hex_string bm = [] \<or> last (bitmap_to_hex_string bm) \<noteq> backslash"
  by (rule hex_text) (auto simp: list_all_iff bitmap_to_hex_string_def dest: set_hex_string)

lemma extract_strings:
  assumes "storable st"
  shows "extract_json_value (serialize_state_to_json st) ''id'' = id_to_string (ts_id st)"
    "extract_json_value (serialize_state_to_json st) ''filename'' = escape_json_string (ts_filename st)"
proof -
  have ok: "wf_id (ts_id st)" "plain_name (ts_filename st)"
    using assms by (simp_all add: storable_def)
  show "extract_json_value (serialize_state_to_json st) ''id'' = id_to_string (ts_id st)"
    unfolding serialize_pieces
    by (rule extract_string) (use find_pieces(1) [OF assms] id_text [OF ok(1)] in
        \<open>simp_all add: state_pieces_def Let_def no_dquote del: quoted.simps\<close>)
  show "extract_json_value (serialize_state_to_json st) ''filename'' = escape_json_string (ts_filename st)"
    unfolding serialize_pieces
    by (rule extract_string) (use find_pieces(2) [OF assms] ok(2) last_escape [of "ts_filename st"] in
        \<open>simp_all add: state_pieces_def Let_def plain_name_def no_dquote_escape del: quoted.simps\<close>)
qed

lemma extract_values:
  assumes "storable st"
  shows "ts_filename st \<noteq> ''total_size'' \<Longrightarrow>
     extract_json_value (serialize_state_to_json st) ''total_size'' = dec_digits (unat (ts_total_size st))"
    "ts_filename st \<noteq> ''transferred_bytes'' \<Longrightarrow>
     extract_json_value (serialize_state_to_json st) ''transferred_bytes'' = dec_digits (unat (ts_transferred_bytes st))"
    "ts_filename st \<noteq> ''total_chunks'' \<Longrightarrow>
     extract_json_value (serialize_state_to_json st) ''total_chunks'' = dec_digits (unat (ts_total_chunks st))"
    "ts_filename st \<noteq> ''chunk_bitmap'' \<Longrightarrow>
     extract_json_value (serialize_state_to_json st) ''chunk_bitmap'' = bitmap_to_hex_string (ts_chunk_bitmap st)"
    "ts_filename st \<noteq> ''sha256'' \<Longrightarrow>
     extract_json_value (serialize_state_to_json st) ''sha256'' = ts_sha256 st"
    "ts_filename st \<noteq> ''started_at'' \<Longrightarrow>
     extract_json_value (serialize_state_to_json st) ''started_at'' = dec_int (time_point_to_int64 (ts_started_at st))"
    "ts_filename st \<noteq> ''last_activity'' \<Longrightarrow>
     extract_json_value (serialize_state_to_json st) ''last_activity'' = dec_int (time_point_to_int64 (ts_last_activity st))"
proof -
  note find = find_numbers [OF assms]
  have sha: "list_all isxdigit (ts_sha256 st)"
    using assms by (simp add: storable_def)
  show "ts_filename st \<noteq> ''total_size'' \<Longrightarrow>
     extract_json_value (serialize_state_to_json st) ''total_size'' = dec_digits (unat (ts_total_size st))"
    unfolding serialize_pieces
    by (rule extract_number [where c = "CHR '',''"])
       (use find(1) in \<open>simp_all add: state_pieces_def Let_def is_digit_dec_digits del: quoted.simps\<close>)
  show "ts_filename st \<noteq> ''transferred_bytes'' \<Longrightarrow>
     extract_json_value (serialize_state_to_json st) ''transferred_bytes'' = dec_digits (unat (ts_transferred_bytes st))"
    unfolding serialize_pieces
    by (rule extract_number [where c = "CHR '',''"])
       (use find(2) in \<open>simp_all add: state_pieces_def Let_def is_digit_dec_digits del: quoted.simps\<close>)
  show "ts_filename st \<noteq> ''total_chunks'' \<Longrightarrow>
     extract_json_value (serialize_state_to_json st) ''total_chunks'' = dec_digits (unat (ts_total_chunks st))"
    unfolding serialize_pieces
    by (rule extract_number [where c = "CHR '',''"])
       (use find(3) in \<open>simp_all add: state_pieces_def Let_def is_digit_dec_digits del: quoted.simps\<close>)
  show "ts_filename st \<noteq> ''chunk_bitmap'' \<Longrightarrow>
     extract_json_value (serialize_state_to_json st) ''chunk_bitmap'' = bitmap_to_hex_string (ts_chunk_bitmap st)"
    unfolding serialize_pieces
    by (rule extract_string)
       (use find(4) bitmap_text in \<open>simp_all add: state_pieces_def Let_def no_dquote del: quoted.simps\<close>)
  show "ts_filename st \<noteq> ''sha256'' \<Longrightarrow>
     extract_json_value (serialize_state_to_json st) ''sha256'' = ts_sha256 st"
    unfolding serialize_pieces
    by (rule extract_string)
       (use find(5) sha hex_text [OF sha] in \<open>simp_all add: state_pieces_def Let_def no_dquote del: quoted.simps\<close>)
  show "ts_filename st \<noteq> ''started_at'' \<Longrightarrow>
     extract_json_value (serialize_state_to_json st) ''started_at'' = dec_int (time_point_to_int64 (ts_started_at st))"
    unfolding serialize_pieces
    by (rule extract_number [where c = "CHR '',''"])
       (use find(6) dec_int_chars in \<open>simp_all add: state_pieces_def Let_def del: quoted.simps\<close>)
  show "ts_filename st \<noteq> ''last_activity'' \<Longrightarrow>
     extract_json_value (serialize_state_to_json st) ''last_activity'' = dec_int (time_point_to_int64 (ts_last_activity st))"
    unfolding serialize_pieces
    by (rule extract_number [where c = newline])
       (use find(7) dec_int_chars in \<open>simp_all add: state_pieces_def Let_def del: quoted.simps\<close>)
qed

lemma time_in_range: "\<bar>t\<bar> < 2 ^ 63 \<Longrightarrow> - (2 ^ 63) \<le> time_point_to_int64 t \<and> time_point_to_int64 t < 2 ^ 63"
proof -
  assume t: "\<bar>t\<bar> < 2 ^ 63"
  have "0 \<le> \<bar>t\<bar> div 1000000"
    by (rule pos_imp_zdiv_nonneg_iff [THEN iffD2]) simp_all
  moreover have "\<bar>t\<bar> div 1000000 \<le> \<bar>t\<bar>"
    using zdiv_mono2 [of "\<bar>t\<bar>" 1 1000000] by simp
  moreover have "time_point_to_int64 t = \<bar>t\<bar> div 1000000 \<or> time_point_to_int64 t = - (\<bar>t\<bar> div 1000000)"
    by (auto simp: time_point_to_int64_def trunc_div_def sgn_if)
  ultimately show ?thesis
    using t by linarith
qed

lemma sto_signed_time: "\<bar>t\<bar> < 2 ^ 63 \<Longrightarrow> sto_signed 64 10 (dec_int (time_point_to_int64 t)) = Some (time_point_to_int64 t)"
  using time_in_range [of t] by (intro sto_signed_dec) simp_all

text \<open>
  A file that is called like a field: the search for the key finds the value of \<open>filename\<close>
  first, and the next colon after it belongs to the field \<open>total_size\<close>.
\<close>

lemma find_key_as_filename:
  assumes "storable st" and "ts_filename st = ''total_chunks''"
  shows "find_key ''total_chunks'' (quoted (state_pieces st)) = Some (dquote # quoted (drop 7 (state_pieces st)))"
proof -
  have esc: "escape_json_string ''total_chunks'' = ''total_chunks''"
    by (rule escape_reserved) (simp add: reserved_names_def)
  have "id_to_string (ts_id st) \<noteq> ''total_chunks''"
    using keys_differ(1) [OF assms(1), of "''total_chunks''"] by (simp add: reserved_names_def)
  then show ?thesis
    by (simp add: state_pieces_def Let_def find_quoted_start find_quoted_step no_dquote assms(2) esc
        del: quoted.simps)
qed

lemma extract_confused:
  assumes "storable st" and "ts_filename st = ''total_chunks''"
  shows "extract_json_value (serialize_state_to_json st) ''total_chunks'' = dec_digits (unat (ts_total_size st))"
proof -
  let ?d = "dec_digits (unat (ts_total_size st))"
  obtain c cs where cs: "?d = c # cs" by (cases ?d) auto
  then have dig: "\<And>x. x \<in> set (c # cs) \<Longrightarrow> is_digit x"
    by (metis is_digit_dec_digits)
  have ok: "x \<noteq> dquote \<and> x \<noteq> CHR '','' \<and> x \<noteq> newline \<and> x \<noteq> CHR ''}'' \<and> x \<noteq> CHR '' '' \<and> x \<noteq> CHR 0x09"
    if "x \<in> set (c # cs)" for x
    using dig [OF that] by (auto simp: is_digit_def)
  have trim: "trim_end (c # cs) = c # cs"
    using ok [of "last (c # cs)"] by (intro trim_end_id) simp_all
  have esc: "escape_json_string ''total_chunks'' = ''total_chunks''"
    by (rule escape_reserved) (simp add: reserved_names_def)
  obtain r where r: "quoted (drop 7 (state_pieces st)) =
      ''total_chunks'' @ dquote # '','' @ [newline] @ ''  '' @ dquote # ''total_size'' @ dquote #
      '': '' @ (c # cs) @ CHR '','' # r"
    by (simp add: state_pieces_def Let_def assms(2) esc cs)
  have "takeWhile (\<lambda>x. x \<noteq> CHR '','' \<and> x \<noteq> newline \<and> x \<noteq> CHR ''}'') ((c # cs) @ CHR '','' # r) = c # cs"
    using ok by (subst takeWhile_append2) auto
  then show ?thesis
    using find_key_as_filename [OF assms] trim ok [of c] unfolding serialize_pieces r
    by (simp add: extract_json_value_def find_key_def cs)
qed

lemma hex_bits_loop_total: "\<exists>bm. hex_string_to_bitmap (bitmap_to_hex_string bm0) n = Some bm"
  using hex_bits_loop_nth [of 0 "replicate (unat n) False" "bitmap_loop 0 0 bm0"]
  by (auto simp: hex_string_to_bitmap_def bitmap_to_hex_string_def)

definition sample_state :: transfer_state where
  "sample_state =
     \<lparr>ts_id = null_id, ts_filename = ''report.txt'', ts_total_size = 700000,
      ts_transferred_bytes = 300000, ts_total_chunks = 3, ts_chunk_bitmap = [True, False, True],
      ts_sha256 = ''ab12'', ts_started_at = 1700000000123456789, ts_last_activity = - 5\<rparr>"

lemma storable_sample: "storable sample_state"
  by (simp add: storable_def sample_state_def plain_name_def wf_id_def null_id_def isxdigit_def hex_val_def)

section \<open>Properties\<close>

text \<open>C7: a saved state is read back as it was, for every file name without a quotation mark that
  does not end in a backslash and is not one of the field names; control characters and inner
  backslashes survive, and times are cut to milliseconds.\<close>

theorem state_roundtrip:
  assumes "storable st" and "ts_filename st \<notin> set reserved_names"
  shows "deserialize_state_from_json (serialize_state_to_json st) = Some (Inr (to_millis st))"
proof -
  have ok: "wf_id (ts_id st)" "length (ts_chunk_bitmap st) = unat (ts_total_chunks st)"
    "\<bar>ts_started_at st\<bar> < 2 ^ 63" "\<bar>ts_last_activity st\<bar> < 2 ^ 63"
    using assms(1) by (simp_all add: storable_def)
  have b: "unat (ts_total_size st) < 2 ^ 64" "unat (ts_transferred_bytes st) < 2 ^ 64"
    by (simp_all only: unat_u64_less)
  have "unat (ts_total_chunks st) < 2 ^ 32"
    using unsigned_less [of "ts_total_chunks st"] by simp
  then have b3: "unat (ts_total_chunks st) < 2 ^ 64"
    by simp
  have fname: "ts_filename st \<noteq> key" if "key \<in> set reserved_names" for key
    using that assms(2) by blast
  show ?thesis
    using id_text [OF ok(1)] bitmap_roundtrip [OF ok(2)]
    by (simp add: deserialize_state_from_json_def extract_strings [OF assms(1)] extract_values [OF assms(1)]
        fname reserved_names_def
        id_from_to_string [OF ok(1)] unescape_escape parse_numbers_def stoull_dec [OF b(1)]
        stoull_dec [OF b(2)] stoull_dec [OF b3] sto_signed_time [OF ok(3)] sto_signed_time [OF ok(4)])
       (simp add: to_millis_def empty_transfer_state_def)
qed

theorem state_roundtrip_witness:
  "deserialize_state_from_json (serialize_state_to_json sample_state) = Some (Inr (to_millis sample_state))"
  by (rule state_roundtrip [OF storable_sample]) (simp add: reserved_names_def sample_state_def)

text \<open>A received-chunk bitmap of any length is restored from its hexadecimal text.\<close>

theorem bitmap_text_roundtrip:
  assumes "length bm = unat n"
  shows "hex_string_to_bitmap (bitmap_to_hex_string bm) n = Some bm"
  by (rule bitmap_roundtrip [OF assms])

theorem bitmap_text_roundtrip_witness:
  "hex_string_to_bitmap (bitmap_to_hex_string [True, False, True]) 3 = Some [True, False, True]"
  by (rule bitmap_text_roundtrip) simp

text \<open>A file name that equals a field name corrupts the saved state without an error: for a
  file called \<open>total_chunks\<close> the state that is read back has the file size (cut to 32 bits) as its
  number of chunks, and a bitmap of that length.\<close>

theorem field_name_as_filename_corrupts:
  assumes "storable st" and "ts_filename st = ''total_chunks''"
  shows "\<exists>st'. deserialize_state_from_json (serialize_state_to_json st) = Some (Inr st') \<and>
               ts_total_chunks st' = word_of_nat (unat (ts_total_size st))"
proof -
  have ok: "wf_id (ts_id st)" "\<bar>ts_started_at st\<bar> < 2 ^ 63" "\<bar>ts_last_activity st\<bar> < 2 ^ 63"
    using assms(1) by (simp_all add: storable_def)
  have b: "unat (ts_total_size st) < 2 ^ 64" "unat (ts_transferred_bytes st) < 2 ^ 64"
    by (simp_all only: unat_u64_less)
  obtain bm where bm: "hex_string_to_bitmap (bitmap_to_hex_string (ts_chunk_bitmap st))
      (word_of_nat (unat (ts_total_size st))) = Some bm"
    using hex_bits_loop_total by blast
  show ?thesis
    using id_text [OF ok(1)] bm
    by (simp add: deserialize_state_from_json_def extract_strings [OF assms(1)] extract_values [OF assms(1)]
        extract_confused [OF assms] assms(2) id_from_to_string [OF ok(1)] unescape_escape parse_numbers_def
        stoull_dec [OF b(1)] stoull_dec [OF b(2)] sto_signed_time [OF ok(2)] sto_signed_time [OF ok(3)]
        del: of_nat_unat)
qed

theorem field_name_as_filename_corrupts_witness:
  "\<exists>st'. deserialize_state_from_json (serialize_state_to_json (sample_state\<lparr>ts_filename := ''total_chunks''\<rparr>)) =
           Some (Inr st') \<and>
         ts_total_chunks st' = word_of_nat (unat (ts_total_size (sample_state\<lparr>ts_filename := ''total_chunks''\<rparr>)))"
  by (rule field_name_as_filename_corrupts) (use storable_sample in \<open>simp_all add: storable_def plain_name_def\<close>)

end
