(* ===== verification/Resume_Handler.thy ===== *)
theory Resume_Handler
  imports Resume_Json File_System
begin

text \<open>
  \<open>resume_handler::impl\<close> of core/resume_handler.cpp: a cache of transfer states backed by one
  JSON file per transfer. Each public operation is one step on the pair of handler and file
  system. The result is \<open>None\<close> when a C++ exception leaves the operation: \<open>filesystem::exists\<close>
  without an error code throws when the file status cannot be read (\<open>stat_fails\<close>), and the JSON
  reader may throw. The clock is the argument \<open>now\<close> (nanoseconds). A directory scan takes the
  names it yields as an argument, \<open>None\<close> for a missing directory. A write that fails leaves the
  truncated file behind (the file is written in place).
\<close>

record resume_handler_config =
  state_directory :: path
  checkpoint_interval :: u32
  state_ttl :: int
  auto_cleanup :: bool

definition make_resume_config :: "path \<Rightarrow> resume_handler_config" where
  "make_resume_config dir =
     \<lparr>state_directory = dir, checkpoint_interval = 10, state_ttl = 86400, auto_cleanup = True\<rparr>"

record resume_handler =
  rh_config :: resume_handler_config
  cache :: "(transfer_id \<times> transfer_state) list"
  chunks_since_checkpoint :: u32

definition new_resume_handler :: "resume_handler_config \<Rightarrow> resume_handler" where
  "new_resume_handler cfg = \<lparr>rh_config = cfg, cache = [], chunks_since_checkpoint = 0\<rparr>"

type_synonym rh_state = "resume_handler \<times> filesystem"

definition get_state_file_path :: "path \<Rightarrow> transfer_id \<Rightarrow> path" where
  "get_state_file_path dir i = path_append dir (id_to_string i @ ''.json'')"

definition state_path :: "resume_handler \<Rightarrow> transfer_id \<Rightarrow> path" where
  "state_path h i = get_state_file_path (state_directory (rh_config h)) i"

definition save_state :: "io_env \<Rightarrow> transfer_state \<Rightarrow> rh_state \<Rightarrow> rh_state \<times> unit result" where
  "save_state io st = (\<lambda>(h, fs).
     let h = h\<lparr>cache := al_update (ts_id st) st (cache h)\<rparr>; p = state_path h (ts_id st)
     in if open_write_fails io p then ((h, fs), Inl File_write_error)
        else if write_fails io p then ((h, fs(p \<mapsto> [])), Inl File_write_error)
        else ((h, fs(p \<mapsto> text_bytes (serialize_state_to_json st))), Inr ()))"

definition load_state :: "io_env \<Rightarrow> transfer_id \<Rightarrow> rh_state \<Rightarrow> rh_state \<times> transfer_state result option" where
  "load_state io i = (\<lambda>(h, fs).
     case al_find (cache h) i of
       Some st \<Rightarrow> ((h, fs), Some (Inr st))
     | None \<Rightarrow>
         let p = state_path h i
         in if stat_fails io p then ((h, fs), None)
            else case fs p of
              None \<Rightarrow> ((h, fs), Some (Inl File_not_found))
            | Some content \<Rightarrow>
                if open_read_fails io p then ((h, fs), Some (Inl File_read_error))
                else (case deserialize_state_from_json (bytes_text content) of
                        None \<Rightarrow> ((h, fs), None)
                      | Some (Inl e) \<Rightarrow> ((h, fs), Some (Inl e))
                      | Some (Inr st) \<Rightarrow> ((h\<lparr>cache := al_update i st (cache h)\<rparr>, fs), Some (Inr st))))"

definition delete_state :: "io_env \<Rightarrow> transfer_id \<Rightarrow> rh_state \<Rightarrow> rh_state \<times> unit result option" where
  "delete_state io i = (\<lambda>(h, fs).
     let h = h\<lparr>cache := al_erase i (cache h)\<rparr>; p = state_path h i
     in if stat_fails io p then ((h, fs), None)
        else if fs_exists fs p then
          if remove_fails io p then ((h, fs), Some (Inl File_write_error))
          else ((h, fs_remove io p fs), Some (Inr ()))
        else ((h, fs), Some (Inr ())))"

definition has_state :: "io_env \<Rightarrow> transfer_id \<Rightarrow> rh_state \<Rightarrow> bool option" where
  "has_state io i = (\<lambda>(h, fs).
     if al_find (cache h) i \<noteq> None then Some True
     else if stat_fails io (state_path h i) then None
     else Some (fs_exists fs (state_path h i)))"

text \<open>
  The common start of the updating operations: the cached state, loaded on demand; the fourth
  case of the code, a state that is missing after a successful load, is \<open>Internal_error\<close>.
\<close>

definition with_cached ::
  "io_env \<Rightarrow> transfer_id \<Rightarrow> (transfer_state \<Rightarrow> rh_state \<Rightarrow> rh_state \<times> unit result option) \<Rightarrow>
   rh_state \<Rightarrow> rh_state \<times> unit result option" where
  "with_cached io i k = (\<lambda>(h, fs).
     case al_find (cache h) i of
       Some st \<Rightarrow> k st (h, fs)
     | None \<Rightarrow>
         (case load_state io i (h, fs) of
            (s, None) \<Rightarrow> (s, None)
          | (s, Some (Inl e)) \<Rightarrow> (s, Some (Inl e))
          | (s, Some (Inr _)) \<Rightarrow>
              (case al_find (cache (fst s)) i of
                 None \<Rightarrow> (s, Some (Inl Internal_error))
               | Some st \<Rightarrow> k st s)))"

definition put_state :: "transfer_id \<Rightarrow> transfer_state \<Rightarrow> rh_state \<Rightarrow> rh_state" where
  "put_state i st = (\<lambda>(h, fs). (h\<lparr>cache := al_update i st (cache h)\<rparr>, fs))"

definition mark_step :: "io_env \<Rightarrow> int \<Rightarrow> transfer_id \<Rightarrow> u32 \<Rightarrow> transfer_state \<Rightarrow> rh_state \<Rightarrow> rh_state \<times> unit result option" where
  "mark_step io now i idx st s =
     (if idx \<ge> ts_total_chunks st then (s, Some (Inl Invalid_chunk_index))
      else
        let st = st\<lparr>ts_chunk_bitmap := (ts_chunk_bitmap st)[unat idx := True], ts_last_activity := now\<rparr>;
            (h, fs) = put_state i st s;
            n = chunks_since_checkpoint h + 1
        in if n \<ge> checkpoint_interval (rh_config h)
           then (case save_state io st (h\<lparr>chunks_since_checkpoint := 0\<rparr>, fs) of (s, r) \<Rightarrow> (s, Some r))
           else ((h\<lparr>chunks_since_checkpoint := n\<rparr>, fs), Some (Inr ())))"

definition mark_chunk_received :: "io_env \<Rightarrow> int \<Rightarrow> transfer_id \<Rightarrow> u32 \<Rightarrow> rh_state \<Rightarrow> rh_state \<times> unit result option" where
  "mark_chunk_received io now i idx = with_cached io i (mark_step io now i idx)"

text \<open>The loop over the indices stops at the first one out of range; earlier bits stay set.\<close>

fun mark_bits :: "u32 list \<Rightarrow> transfer_state \<Rightarrow> transfer_state \<times> bool" where
  "mark_bits [] st = (st, True)"
| "mark_bits (idx # is) st =
     (if idx \<ge> ts_total_chunks st then (st, False)
      else mark_bits is (st\<lparr>ts_chunk_bitmap := (ts_chunk_bitmap st)[unat idx := True]\<rparr>))"

definition mark_many_step ::
  "io_env \<Rightarrow> int \<Rightarrow> transfer_id \<Rightarrow> u32 list \<Rightarrow> transfer_state \<Rightarrow> rh_state \<Rightarrow> rh_state \<times> unit result option" where
  "mark_many_step io now i is st s =
     (case mark_bits is st of
        (st, False) \<Rightarrow> (put_state i st s, Some (Inl Invalid_chunk_index))
      | (st, True) \<Rightarrow>
          let st = st\<lparr>ts_last_activity := now\<rparr>
          in (case save_state io st (put_state i st s) of (s, r) \<Rightarrow> (s, Some r)))"

definition mark_chunks_received ::
  "io_env \<Rightarrow> int \<Rightarrow> transfer_id \<Rightarrow> u32 list \<Rightarrow> rh_state \<Rightarrow> rh_state \<times> unit result option" where
  "mark_chunks_received io now i is = with_cached io i (mark_many_step io now i is)"

definition missing_of :: "transfer_state \<Rightarrow> nat list" where
  "missing_of st = filter (\<lambda>k. \<not> ts_chunk_bitmap st ! k) [0..<unat (ts_total_chunks st)]"

definition rh_get_missing_chunks :: "io_env \<Rightarrow> transfer_id \<Rightarrow> rh_state \<Rightarrow> rh_state \<times> nat list result option" where
  "rh_get_missing_chunks io i s =
     (case load_state io i s of
        (s, None) \<Rightarrow> (s, None)
      | (s, Some (Inl e)) \<Rightarrow> (s, Some (Inl e))
      | (s, Some (Inr st)) \<Rightarrow> (s, Some (Inr (missing_of st))))"

definition is_chunk_received :: "transfer_id \<Rightarrow> u32 \<Rightarrow> resume_handler \<Rightarrow> bool" where
  "is_chunk_received i idx h =
     (case al_find (cache h) i of
        None \<Rightarrow> False
      | Some st \<Rightarrow> if idx \<ge> ts_total_chunks st then False else ts_chunk_bitmap st ! unat idx)"

definition update_transferred_bytes ::
  "io_env \<Rightarrow> int \<Rightarrow> transfer_id \<Rightarrow> u64 \<Rightarrow> rh_state \<Rightarrow> rh_state \<times> unit result option" where
  "update_transferred_bytes io now i n =
     with_cached io i (\<lambda>st s.
       (put_state i (st\<lparr>ts_transferred_bytes := ts_transferred_bytes st + n, ts_last_activity := now\<rparr>) s,
        Some (Inr ())))"

section \<open>Scanning the directory\<close>

text \<open>The identifier of a directory entry: extension \<open>.json\<close> and a stem that parses.\<close>

definition entry_id :: "string \<Rightarrow> transfer_id option" where
  "entry_id f =
     (if length f > 5 \<and> drop (length f - 5) f = ''.json'' then id_from_string (take (length f - 5) f)
      else None)"

text \<open>The loop of both scans, with the states it loads; \<open>None\<close> when a load throws.\<close>

fun scan_states ::
  "io_env \<Rightarrow> string list \<Rightarrow> rh_state \<Rightarrow> rh_state \<times> (transfer_id \<times> transfer_state) list option" where
  "scan_states io [] s = (s, Some [])"
| "scan_states io (f # fs) s =
     (case entry_id f of
        None \<Rightarrow> scan_states io fs s
      | Some i \<Rightarrow>
          (case load_state io i s of
             (s', None) \<Rightarrow> (s', None)
           | (s', Some (Inl _)) \<Rightarrow> scan_states io fs s'
           | (s', Some (Inr st)) \<Rightarrow>
               (case scan_states io fs s' of (s'', r) \<Rightarrow> (s'', map_option ((#) (i, st)) r))))"

definition list_resumable_transfers ::
  "io_env \<Rightarrow> string list option \<Rightarrow> rh_state \<Rightarrow> rh_state \<times> transfer_state list option" where
  "list_resumable_transfers io entries s =
     (case entries of
        None \<Rightarrow> (s, Some [])
      | Some es \<Rightarrow> (case scan_states io es s of (s', r) \<Rightarrow> (s', map_option (map snd) r)))"

fun delete_all :: "io_env \<Rightarrow> transfer_id list \<Rightarrow> nat \<Rightarrow> rh_state \<Rightarrow> rh_state \<times> nat option" where
  "delete_all io [] removed s = (s, Some removed)"
| "delete_all io (i # is) removed s =
     (case delete_state io i s of
        (s', None) \<Rightarrow> (s', None)
      | (s', Some r) \<Rightarrow> delete_all io is (if isl r then removed else removed + 1) s')"

definition expired :: "resume_handler_config \<Rightarrow> int \<Rightarrow> transfer_state \<Rightarrow> bool" where
  "expired cfg now st \<longleftrightarrow> now - ts_last_activity st > state_ttl cfg * 1000000000"

definition cleanup_expired_states ::
  "io_env \<Rightarrow> int \<Rightarrow> string list option \<Rightarrow> rh_state \<Rightarrow> rh_state \<times> nat option" where
  "cleanup_expired_states io now entries s =
     (case entries of
        None \<Rightarrow> (s, Some 0)
      | Some es \<Rightarrow>
          (case scan_states io es s of
             (s', None) \<Rightarrow> (s', None)
           | (s', Some found) \<Rightarrow>
               delete_all io (map fst (filter (\<lambda>(i, st). expired (rh_config (fst s')) now st) found)) 0 s'))"

lemma hd_id_to_string: "wf_id i \<Longrightarrow> id_to_string i \<noteq> [] \<and> hd (id_to_string i) \<noteq> CHR ''/''"
proof -
  assume "wf_id i"
  then have ne: "id_to_string i \<noteq> []"
    using length_id_to_string [of i] by auto
  have "\<not> isxdigit (CHR ''/'')"
    by (simp add: isxdigit_def hex_val_def)
  then show ?thesis
    using ne set_id_to_string [of "hd (id_to_string i)" i] by auto
qed

lemma state_file_path_inj:
  assumes "wf_id i" and "wf_id j"
  shows "get_state_file_path d i = get_state_file_path d j \<longleftrightarrow> i = j"
  using assms id_to_string_inj [of i j] hd_id_to_string [of i] hd_id_to_string [of j]
  by (auto simp: get_state_file_path_def path_append_def)

lemma state_path_simps [simp]:
  "state_path (h\<lparr>cache := c\<rparr>) i = state_path h i"
  "state_path (h\<lparr>chunks_since_checkpoint := n\<rparr>) i = state_path h i"
  by (simp_all add: state_path_def)

lemma load_state_cached:
  "load_state io i s = (s1, Some (Inr st)) \<Longrightarrow>
   al_find (cache (fst s1)) i = Some st \<and> snd s1 = snd s \<and> rh_config (fst s1) = rh_config (fst s) \<and>
   chunks_since_checkpoint (fst s1) = chunks_since_checkpoint (fst s)"
  by (cases s) (auto simp: load_state_def Let_def al_find_update
      split: option.splits if_splits sum.splits)

text \<open>A successful load is always found in the cache: \<open>Internal_error\<close> is not reached.\<close>

lemma with_cached_load:
  "with_cached io i k s =
     (case load_state io i s of
        (s1, None) \<Rightarrow> (s1, None)
      | (s1, Some (Inl e)) \<Rightarrow> (s1, Some (Inl e))
      | (s1, Some (Inr st)) \<Rightarrow> k st s1)"
proof (cases s)
  case (Pair h fs)
  show ?thesis
  proof (cases "al_find (cache h) i")
    case None
    show ?thesis
      using load_state_cached [of io i "(h, fs)"]
      by (auto simp: Pair with_cached_def None split: prod.splits option.splits sum.splits)
  qed (simp add: Pair with_cached_def load_state_def)
qed

section \<open>Bitmaps keep their length\<close>

definition state_ok :: "transfer_state \<Rightarrow> bool" where
  "state_ok st \<longleftrightarrow> length (ts_chunk_bitmap st) = unat (ts_total_chunks st)"

definition rh_ok :: "resume_handler \<Rightarrow> bool" where
  "rh_ok h \<longleftrightarrow> (\<forall>(i, st) \<in> set (cache h). state_ok st)"

lemma rh_ok_find: "rh_ok h \<Longrightarrow> al_find (cache h) i = Some st \<Longrightarrow> state_ok st"
  by (auto simp: rh_ok_def dest: al_find_Some_in)

lemma rh_ok_update [simp]: "rh_ok h \<Longrightarrow> state_ok st \<Longrightarrow> rh_ok (h\<lparr>cache := al_update i st (cache h)\<rparr>)"
  by (auto simp: rh_ok_def dest!: set_al_update)

lemma rh_ok_erase [simp]: "rh_ok h \<Longrightarrow> rh_ok (h\<lparr>cache := al_erase i (cache h)\<rparr>)"
  by (auto simp: rh_ok_def al_erase_def)

lemma rh_ok_counter [simp]: "rh_ok (h\<lparr>chunks_since_checkpoint := n\<rparr>) = rh_ok h"
  by (simp add: rh_ok_def)

lemma hex_bits_loop_length: "hex_bits_loop hex k bm = Some bm' \<Longrightarrow> length bm' = length bm"
  by (induction hex k bm rule: hex_bits_loop.induct) (auto split: if_splits option.splits)

lemma deserialize_ok: "deserialize_state_from_json json = Some (Inr st) \<Longrightarrow> state_ok st"
  by (auto simp: deserialize_state_from_json_def Let_def state_ok_def hex_string_to_bitmap_def
      dest!: hex_bits_loop_length split: if_splits option.splits)

lemma load_state_ok:
  "rh_ok (fst s) \<Longrightarrow> rh_ok (fst (fst (load_state io i s)))"
  "rh_ok (fst s) \<Longrightarrow> snd (load_state io i s) = Some (Inr st) \<Longrightarrow> state_ok st"
  by (cases s; auto simp: load_state_def Let_def rh_ok_find deserialize_ok
      split: option.splits if_splits sum.splits)+

lemma save_state_ok: "rh_ok (fst s) \<Longrightarrow> state_ok st \<Longrightarrow> rh_ok (fst (fst (save_state io st s)))"
  by (cases s) (auto simp: save_state_def Let_def)

lemma with_cached_ok:
  assumes "rh_ok (fst s)"
    and "\<And>st s1. state_ok st \<Longrightarrow> rh_ok (fst s1) \<Longrightarrow> rh_ok (fst (fst (k st s1)))"
  shows "rh_ok (fst (fst (with_cached io i k s)))"
proof -
  obtain s1 l where l: "load_state io i s = (s1, l)" by fastforce
  then have "rh_ok (fst s1)" "\<And>st. l = Some (Inr st) \<Longrightarrow> state_ok st"
    using load_state_ok [OF assms(1), of io i] by simp_all
  then show ?thesis
    using assms(2) by (auto simp: with_cached_load l split: option.splits sum.splits)
qed

lemma state_ok_simps [simp]:
  "state_ok (st\<lparr>ts_chunk_bitmap := (ts_chunk_bitmap st)[k := b], ts_last_activity := t\<rparr>) = state_ok st"
  "state_ok (st\<lparr>ts_chunk_bitmap := (ts_chunk_bitmap st)[k := b]\<rparr>) = state_ok st"
  "state_ok (st\<lparr>ts_last_activity := t\<rparr>) = state_ok st"
  "state_ok (st\<lparr>ts_transferred_bytes := n\<rparr>) = state_ok st"
  by (simp_all add: state_ok_def)

lemma mark_bits_ok: "state_ok st \<Longrightarrow> state_ok (fst (mark_bits is st))"
  by (induction "is" st rule: mark_bits.induct) auto

lemma put_state_ok: "rh_ok (fst s) \<Longrightarrow> state_ok st \<Longrightarrow> rh_ok (fst (put_state i st s))"
  by (cases s) (simp add: put_state_def)

lemma save_state_ok': "save_state io st s = (s', r) \<Longrightarrow> rh_ok (fst s) \<Longrightarrow> state_ok st \<Longrightarrow> rh_ok (fst s')"
  using save_state_ok by (metis fst_conv)

lemma mark_step_ok: "state_ok st \<Longrightarrow> rh_ok (fst s) \<Longrightarrow> rh_ok (fst (fst (mark_step io now i idx st s)))"
  by (cases s) (auto simp: mark_step_def Let_def put_state_def split: prod.splits dest!: save_state_ok')

lemma mark_many_step_ok: "state_ok st \<Longrightarrow> rh_ok (fst s) \<Longrightarrow> rh_ok (fst (fst (mark_many_step io now i is st s)))"
  using mark_bits_ok [of st "is"]
  by (auto simp: mark_many_step_def Let_def put_state_ok split: prod.splits bool.splits dest!: save_state_ok')

lemma mark_chunk_ok: "rh_ok (fst s) \<Longrightarrow> rh_ok (fst (fst (mark_chunk_received io now i idx s)))"
  unfolding mark_chunk_received_def by (rule with_cached_ok) (simp_all add: mark_step_ok)

lemma mark_chunks_ok: "rh_ok (fst s) \<Longrightarrow> rh_ok (fst (fst (mark_chunks_received io now i is s)))"
  unfolding mark_chunks_received_def by (rule with_cached_ok) (simp_all add: mark_many_step_ok)

lemma update_bytes_ok: "rh_ok (fst s) \<Longrightarrow> rh_ok (fst (fst (update_transferred_bytes io now i n s)))"
  unfolding update_transferred_bytes_def by (rule with_cached_ok) (auto simp: put_state_ok)

lemma delete_state_ok: "rh_ok (fst s) \<Longrightarrow> rh_ok (fst (fst (delete_state io i s)))"
  by (cases s) (simp add: delete_state_def Let_def)

lemma scan_states_ok: "rh_ok (fst s) \<Longrightarrow> rh_ok (fst (fst (scan_states io es s)))"
proof (induction es arbitrary: s)
  case (Cons f fs)
  show ?case
  proof (cases "entry_id f")
    case (Some i)
    obtain s1 l where l: "load_state io i s = (s1, l)" by fastforce
    then have "rh_ok (fst s1)"
      using load_state_ok(1) [OF Cons.prems, of io i] by simp
    then show ?thesis
      using Cons.IH [of s1] by (auto simp: Some l split: option.splits sum.splits prod.splits)
  qed (use Cons in simp)
qed simp

lemma delete_all_ok: "rh_ok (fst s) \<Longrightarrow> rh_ok (fst (fst (delete_all io is n s)))"
proof (induction "is" arbitrary: s n)
  case (Cons i "is")
  obtain s1 l where l: "delete_state io i s = (s1, l)" by fastforce
  then have "rh_ok (fst s1)"
    using delete_state_ok [OF Cons.prems, of io i] by simp
  then show ?case
    using Cons.IH by (simp add: l split: option.splits)
qed simp

lemma cleanup_ok: "rh_ok (fst s) \<Longrightarrow> rh_ok (fst (fst (cleanup_expired_states io now es s)))"
proof (cases es)
  case (Some l)
  assume "rh_ok (fst s)"
  then show ?thesis
    using scan_states_ok [of s io l]
    by (auto simp: cleanup_expired_states_def Some delete_all_ok split: option.splits prod.splits)
qed (simp add: cleanup_expired_states_def)

text \<open>
  The states of a handler: any sequence of calls, with saved states whose bitmap fits, and with
  files that other programs change at will.
\<close>

inductive rh_reachable :: "resume_handler_config \<Rightarrow> rh_state \<Rightarrow> bool" for cfg where
  rh_init: "rh_reachable cfg (new_resume_handler cfg, fs)"
| rh_save: "rh_reachable cfg s \<Longrightarrow> state_ok st \<Longrightarrow> rh_reachable cfg (fst (save_state io st s))"
| rh_load: "rh_reachable cfg s \<Longrightarrow> rh_reachable cfg (fst (load_state io i s))"
| rh_delete: "rh_reachable cfg s \<Longrightarrow> rh_reachable cfg (fst (delete_state io i s))"
| rh_mark: "rh_reachable cfg s \<Longrightarrow> rh_reachable cfg (fst (mark_chunk_received io now i idx s))"
| rh_marks: "rh_reachable cfg s \<Longrightarrow> rh_reachable cfg (fst (mark_chunks_received io now i is s))"
| rh_bytes: "rh_reachable cfg s \<Longrightarrow> rh_reachable cfg (fst (update_transferred_bytes io now i n s))"
| rh_scan: "rh_reachable cfg s \<Longrightarrow> rh_reachable cfg (fst (scan_states io es s))"
| rh_cleanup: "rh_reachable cfg s \<Longrightarrow> rh_reachable cfg (fst (cleanup_expired_states io now entries s))"
| rh_files: "rh_reachable cfg (h, fs) \<Longrightarrow> rh_reachable cfg (h, fs')"

lemma rh_reachable_ok: "rh_reachable cfg s \<Longrightarrow> rh_ok (fst s)"
proof (induction rule: rh_reachable.induct)
  case (rh_init fs)
  then show ?case by (simp add: rh_ok_def new_resume_handler_def)
qed (simp_all add: save_state_ok load_state_ok delete_state_ok mark_chunk_ok mark_chunks_ok
    update_bytes_ok scan_states_ok cleanup_ok)

section \<open>Marking\<close>


lemma save_state_file:
  "save_state io st (h, fs) = ((h', fs'), Inr ()) \<Longrightarrow>
   fs' = fs(state_path h (ts_id st) \<mapsto> text_bytes (serialize_state_to_json st))"
  by (auto simp: save_state_def Let_def split: if_splits)



section \<open>Properties\<close>

text \<open>In every reachable state of the handler each cached transfer has exactly one bitmap entry
  per chunk, so that no guarded access leaves the bitmap; this covers states read from files
  that anybody wrote.\<close>

theorem cached_bitmap_fits:
  assumes "rh_reachable cfg s" and "al_find (cache (fst s)) i = Some st"
  shows "length (ts_chunk_bitmap st) = unat (ts_total_chunks st)"
  using rh_ok_find [OF rh_reachable_ok [OF assms(1)] assms(2)] by (simp add: state_ok_def)

theorem cached_bitmap_fits_witness: "length (ts_chunk_bitmap sample_state) = unat (ts_total_chunks sample_state)"
proof (rule cached_bitmap_fits)
  show "rh_reachable (make_resume_config ''/s'')
     (fst (save_state reliable sample_state (new_resume_handler (make_resume_config ''/s''), Map.empty)))"
    by (intro rh_save rh_init) (simp add: state_ok_def sample_state_def)
  show "al_find (cache (fst (fst (save_state reliable sample_state
          (new_resume_handler (make_resume_config ''/s''), Map.empty))))) null_id = Some sample_state"
    by (simp add: save_state_def Let_def new_resume_handler_def) (simp add: sample_state_def)
qed


text \<open>After a crash a new handler recovers the state that was saved last: when saving
  succeeded, loading from the file with an empty cache gives the same state, with times cut to
  milliseconds.\<close>

theorem saved_state_recovered:
  assumes "save_state io st (h, fs) = ((h', fs'), Inr ())" and "storable st"
    and "ts_filename st \<notin> set reserved_names"
    and "\<not> stat_fails io' (state_path h (ts_id st))" and "\<not> open_read_fails io' (state_path h (ts_id st))"
  shows "snd (load_state io' (ts_id st) (new_resume_handler (rh_config h), fs')) = Some (Inr (to_millis st))"
proof -
  have "state_path (new_resume_handler (rh_config h)) (ts_id st) = state_path h (ts_id st)"
    by (simp add: state_path_def new_resume_handler_def)
  then show ?thesis
    using assms save_state_file [OF assms(1)] state_roundtrip [OF assms(2,3)]
    by (simp add: load_state_def Let_def) (simp add: new_resume_handler_def)
qed

theorem saved_state_recovered_witness:
  "let s = save_state reliable sample_state (new_resume_handler (make_resume_config ''/s''), Map.empty)
   in snd (load_state reliable null_id (new_resume_handler (make_resume_config ''/s''), snd (fst s))) =
      Some (Inr (to_millis sample_state))"
proof -
  have "save_state reliable sample_state (new_resume_handler (make_resume_config ''/s''), Map.empty) =
    ((fst (fst (save_state reliable sample_state (new_resume_handler (make_resume_config ''/s''), Map.empty))),
      snd (fst (save_state reliable sample_state (new_resume_handler (make_resume_config ''/s''), Map.empty)))), Inr ())"
    by (simp add: save_state_def Let_def)
  from saved_state_recovered [OF this storable_sample, of reliable]
  show ?thesis
    by (simp add: Let_def reserved_names_def) (simp add: sample_state_def new_resume_handler_def)
qed


section \<open>Scans and clean-up\<close>

lemma load_state_stable:
  assumes "load_state io j s = (s1, r)"
  shows "snd (load_state io i s1) = snd (load_state io i s)"
    and "snd s1 = snd s" and "state_path (fst s1) = state_path (fst s)" and "rh_config (fst s1) = rh_config (fst s)"
proof -
  obtain h fs where s: "s = (h, fs)" by (cases s)
  have "s1 = s \<or> (\<exists>st. s1 = (h\<lparr>cache := al_update j st (cache h)\<rparr>, fs) \<and> al_find (cache h) j = None \<and> r = Some (Inr st))"
    using assms by (auto simp: s load_state_def Let_def split: option.splits if_splits sum.splits)
  then consider "s1 = s"
    | st where "s1 = (h\<lparr>cache := al_update j st (cache h)\<rparr>, fs)" "al_find (cache h) j = None" "r = Some (Inr st)"
    by blast
  then have "snd (load_state io i s1) = snd (load_state io i s) \<and> snd s1 = snd s \<and>
    state_path (fst s1) = state_path (fst s) \<and> rh_config (fst s1) = rh_config (fst s)"
  proof cases
    case 2
    have "snd (load_state io i s1) = snd (load_state io i s)"
    proof (cases "i = j")
      case True
      then show ?thesis
        using assms 2 by (simp add: load_state_def al_find_update)
    next
      case False
      then show ?thesis
        using 2(1) by (auto simp: s load_state_def Let_def al_find_update split: option.splits sum.splits)
    qed
    then show ?thesis
      using 2(1) by (simp add: s fun_eq_iff)
  qed simp
  then show "snd (load_state io i s1) = snd (load_state io i s)" "snd s1 = snd s"
    "state_path (fst s1) = state_path (fst s)" "rh_config (fst s1) = rh_config (fst s)"
    by simp_all
qed

lemma entry_id_wf: "entry_id f = Some i \<Longrightarrow> wf_id i"
  by (auto simp: entry_id_def id_from_string_def wf_id_def length_parse_hex_pairs split: if_splits option.splits)

lemma scan_states_found:
  "scan_states io es s = (s', Some found) \<Longrightarrow>
   snd s' = snd s \<and> rh_config (fst s') = rh_config (fst s) \<and>
   (\<forall>(i, st) \<in> set found. wf_id i \<and> snd (load_state io i s) = Some (Inr st)) \<and>
   (\<forall>f \<in> set es. \<forall>i st. entry_id f = Some i \<longrightarrow> snd (load_state io i s) = Some (Inr st) \<longrightarrow> (i, st) \<in> set found)"
proof (induction es arbitrary: s s' found)
  case Nil
  then show ?case by simp
next
  case (Cons f es)
  show ?case
  proof (cases "entry_id f")
    case None
    then show ?thesis using Cons by simp
  next
    case (Some i)
    obtain s1 l where l: "load_state io i s = (s1, l)" by fastforce
    note stable = load_state_stable [OF l]
    show ?thesis
    proof (cases "\<exists>st. l = Some (Inr st)")
      case False
      then have "scan_states io es s1 = (s', Some found)"
        using Cons.prems Some l by (auto split: option.splits sum.splits)
      then show ?thesis
        using Cons.IH [of s1 s' found] stable Some l False by auto
    next
      case True
      then obtain st found' where "l = Some (Inr st)" "scan_states io es s1 = (s', Some found')" "found = (i, st) # found'"
        using Cons.prems Some l by (auto split: prod.splits)
      then show ?thesis
        using Cons.IH [of s1 s' found'] stable Some l entry_id_wf [OF Some] by auto
    qed
  qed
qed

lemma delete_state_files:
  assumes "delete_state io i s = (s', Some r)" and "\<forall>p. \<not> remove_fails io p"
  shows "snd s' = (snd s)(state_path (fst s) i := None)" and "rh_config (fst s') = rh_config (fst s)"
  using assms by (cases s; auto simp: delete_state_def Let_def fs_remove_def fs_exists_def fun_upd_idem split: if_splits)+

lemma delete_all_files:
  assumes "\<forall>p. \<not> remove_fails io p"
  shows "delete_all io is n s = (s', Some m) \<Longrightarrow>
    snd s' p = (if p \<in> state_path (fst s) ` set is then None else snd s p)"
proof (induction "is" arbitrary: n s)
  case (Cons i "is")
  obtain s1 r where d: "delete_state io i s = (s1, Some r)"
    "delete_all io is (if isl r then n else n + 1) s1 = (s', Some m)"
    using Cons.prems by (auto split: prod.splits option.splits)
  note f = delete_state_files [OF d(1) assms]
  have "state_path (fst s1) = state_path (fst s)"
    using f(2) by (simp add: state_path_def fun_eq_iff)
  then show ?case
    using Cons.IH [OF d(2)] f(1) by auto
qed simp

text \<open>The clean-up deletes the file of a listed transfer exactly when its last activity is older
  than the time to live; every other transfer keeps its file.\<close>

theorem cleanup_removes_exactly_expired:
  assumes "cleanup_expired_states io now (Some es) s = (s', Some n)" and "\<forall>p. \<not> remove_fails io p"
    and "f \<in> set es" and "entry_id f = Some i" and "snd (load_state io i s) = Some (Inr st)"
  shows "snd s' (state_path (fst s) i) =
         (if expired (rh_config (fst s)) now st then None else snd s (state_path (fst s) i))"
proof -
  obtain s1 found where scan: "scan_states io es s = (s1, Some found)"
    "delete_all io (map fst (filter (\<lambda>(i, st). expired (rh_config (fst s1)) now st) found)) 0 s1 = (s', Some n)"
    using assms(1) by (auto simp: cleanup_expired_states_def split: prod.splits option.splits)
  note found = scan_states_found [OF scan(1)]
  have path: "state_path (fst s1) = state_path (fst s)"
    using found by (simp add: state_path_def fun_eq_iff)
  have inj: "state_path (fst s) j = state_path (fst s) i \<longleftrightarrow> j = i" if "wf_id j" for j
    using state_file_path_inj [OF that entry_id_wf [OF assms(4)]] by (simp add: state_path_def)
  have "state_path (fst s) i \<in> state_path (fst s1) ` set (map fst (filter (\<lambda>(i, st). expired (rh_config (fst s1)) now st) found))
        \<longleftrightarrow> expired (rh_config (fst s)) now st"
  proof
    assume "expired (rh_config (fst s)) now st"
    then show "state_path (fst s) i \<in> state_path (fst s1) ` set (map fst (filter (\<lambda>(i, st). expired (rh_config (fst s1)) now st) found))"
      using found assms(3-5) unfolding path by force
  next
    assume "state_path (fst s) i \<in> state_path (fst s1) ` set (map fst (filter (\<lambda>(i, st). expired (rh_config (fst s1)) now st) found))"
    then obtain j st' where j: "(j, st') \<in> set found" "expired (rh_config (fst s)) now st'"
      "state_path (fst s) i = state_path (fst s) j"
      using found unfolding path by auto
    then have "j = i"
      using found inj by auto
    then show "expired (rh_config (fst s)) now st"
      using found j assms(5) by auto
  qed
  then show ?thesis
    using delete_all_files [OF assms(2) scan(2), of "state_path (fst s) i"] found by simp
qed

theorem cleanup_removes_exactly_expired_witness:
  "let s = fst (save_state reliable sample_state (new_resume_handler (make_resume_config ''/s''), Map.empty));
       c = cleanup_expired_states reliable 90000000000000 (Some [id_to_string null_id @ ''.json'']) s
   in snd (fst c) (state_path (fst s) null_id) =
      (if expired (rh_config (fst s)) 90000000000000 sample_state then None else snd s (state_path (fst s) null_id))"
proof -
  define s where "s = fst (save_state reliable sample_state (new_resume_handler (make_resume_config ''/s''), Map.empty))"
  define c where "c = cleanup_expired_states reliable 90000000000000 (Some [id_to_string null_id @ ''.json'']) s"
  have id: "entry_id (id_to_string null_id @ ''.json'') = Some null_id"
    by (simp add: entry_id_def wf_id_def null_id_def length_id_to_string)
  have s: "al_find (cache (fst s)) null_id = Some sample_state"
    by (simp add: s_def save_state_def Let_def new_resume_handler_def) (simp add: sample_state_def)
  then have load: "load_state reliable null_id s = (s, Some (Inr sample_state))"
    by (cases s) (simp add: load_state_def)
  have "\<exists>n. snd c = Some n"
    using load by (cases s) (auto simp: c_def cleanup_expired_states_def id delete_state_def Let_def split: prod.splits)
  then obtain n where "c = (fst c, Some n)"
    by (metis prod.collapse)
  from cleanup_removes_exactly_expired [OF this [unfolded c_def], of _ null_id sample_state] id load
  show ?thesis
    by (simp add: c_def flip: s_def)
qed

text \<open>Two transfers that receive chunks in turn.\<close>

fun alternate :: "io_env \<Rightarrow> int \<Rightarrow> transfer_id \<Rightarrow> transfer_id \<Rightarrow> (u32 \<times> u32) list \<Rightarrow> rh_state \<Rightarrow> rh_state" where
  "alternate io now a b [] s = s"
| "alternate io now a b ((x, y) # xs) s =
     alternate io now a b xs
       (fst (mark_chunk_received io now b y (fst (mark_chunk_received io now a x s))))"

definition tracked :: "resume_handler \<Rightarrow> transfer_id \<Rightarrow> u32 \<Rightarrow> bool list \<Rightarrow> bool" where
  "tracked h i n bm \<longleftrightarrow>
     (\<exists>st. al_find (cache h) i = Some st \<and> ts_id st = i \<and> ts_total_chunks st = n \<and> ts_chunk_bitmap st = bm)"

lemma mark_tracked:
  assumes "tracked (fst s) i n bm" and "idx < n" and "mark_chunk_received io now i idx s = (s', r)"
  shows "tracked (fst s') i n (bm[unat idx := True])"
    and "j \<noteq> i \<Longrightarrow> tracked (fst s') j m bm' = tracked (fst s) j m bm'"
    and "rh_config (fst s') = rh_config (fst s)"
    and "p \<noteq> state_path (fst s) i \<Longrightarrow> snd s' p = snd s p"
    and "chunks_since_checkpoint (fst s) + 1 < checkpoint_interval (rh_config (fst s)) \<Longrightarrow>
         chunks_since_checkpoint (fst s') = chunks_since_checkpoint (fst s) + 1 \<and> snd s' = snd s"
    and "chunks_since_checkpoint (fst s) + 1 \<ge> checkpoint_interval (rh_config (fst s)) \<Longrightarrow>
         chunks_since_checkpoint (fst s') = 0"
proof -
  obtain h fs where s: "s = (h, fs)" by (cases s)
  obtain st where st: "al_find (cache h) i = Some st" "ts_id st = i" "ts_total_chunks st = n" "ts_chunk_bitmap st = bm"
    using assms(1) by (auto simp: tracked_def s)
  define st' where "st' = st\<lparr>ts_chunk_bitmap := (ts_chunk_bitmap st)[unat idx := True], ts_last_activity := now\<rparr>"
  have st': "ts_id st' = i" "ts_total_chunks st' = n" "ts_chunk_bitmap st' = bm[unat idx := True]"
    using st by (simp_all add: st'_def)
  define h1 where "h1 = h\<lparr>cache := al_update i st' (cache h)\<rparr>"
  have eq: "mark_chunk_received io now i idx s =
     (if chunks_since_checkpoint h + 1 \<ge> checkpoint_interval (rh_config h)
      then (case save_state io st' (h1\<lparr>chunks_since_checkpoint := 0\<rparr>, fs) of (s, r) \<Rightarrow> (s, Some r))
      else ((h1\<lparr>chunks_since_checkpoint := chunks_since_checkpoint h + 1\<rparr>, fs), Some (Inr ())))"
    using leD [of n idx] assms(2) st
    by (auto simp: s mark_chunk_received_def with_cached_def mark_step_def Let_def put_state_def h1_def
        simp flip: st'_def)
  have cases: "s' = (h1\<lparr>chunks_since_checkpoint := chunks_since_checkpoint h + 1\<rparr>, fs) \<and>
        chunks_since_checkpoint h + 1 < checkpoint_interval (rh_config h) \<or>
      rh_config (fst s') = rh_config h \<and> chunks_since_checkpoint (fst s') = 0 \<and>
         (\<forall>k. al_find (cache (fst s')) k = (if k = i then Some st' else al_find (cache h) k)) \<and>
         (\<forall>p. p \<noteq> state_path h i \<longrightarrow> snd s' p = fs p) \<and>
        chunks_since_checkpoint h + 1 \<ge> checkpoint_interval (rh_config h)"
    using assms(3) st'(1) unfolding eq
    by (auto simp: save_state_def Let_def h1_def al_find_update not_le split: if_splits)
  show "tracked (fst s') i n (bm[unat idx := True])"
    using cases st' by (auto simp: tracked_def h1_def al_find_update)
  show "j \<noteq> i \<Longrightarrow> tracked (fst s') j m bm' = tracked (fst s) j m bm'"
    using cases by (auto simp: tracked_def h1_def al_find_update s)
  show "rh_config (fst s') = rh_config (fst s)"
    using cases by (auto simp: h1_def s)
  show "p \<noteq> state_path (fst s) i \<Longrightarrow> snd s' p = snd s p"
    using cases by (auto simp: s)
  show "chunks_since_checkpoint (fst s) + 1 < checkpoint_interval (rh_config (fst s)) \<Longrightarrow>
         chunks_since_checkpoint (fst s') = chunks_since_checkpoint (fst s) + 1 \<and> snd s' = snd s"
    using cases by (auto simp: s h1_def simp flip: not_le)
  show "chunks_since_checkpoint (fst s) + 1 \<ge> checkpoint_interval (rh_config (fst s)) \<Longrightarrow>
         chunks_since_checkpoint (fst s') = 0"
    using cases by (auto simp: s h1_def simp flip: not_le)
qed

lemma alternate_starves:
  assumes "a \<noteq> b" and "wf_id a" and "wf_id b"
  shows "checkpoint_interval (rh_config (fst s)) = 2 \<Longrightarrow> chunks_since_checkpoint (fst s) = 0 \<Longrightarrow>
    tracked (fst s) a n bma \<Longrightarrow> tracked (fst s) b m bmb \<Longrightarrow> \<forall>(x, y) \<in> set xs. x < n \<and> y < m \<Longrightarrow>
    snd (alternate io now a b xs s) (state_path (fst s) a) = snd s (state_path (fst s) a) \<and>
    tracked (fst (alternate io now a b xs s)) a n (fold (\<lambda>(x, y) bm. bm[unat x := True]) xs bma)"
proof (induction xs arbitrary: s bma bmb)
  case Nil
  then show ?case by simp
next
  case (Cons p xs)
  obtain x y where p: "p = (x, y)" by (cases p)
  have lt: "x < n" "y < m" using Cons.prems(5) p by auto
  obtain s1 r1 where s1: "mark_chunk_received io now a x s = (s1, r1)" by fastforce
  note m1 = mark_tracked [OF Cons.prems(3) lt(1) s1]
  obtain s2 r2 where s2: "mark_chunk_received io now b y s1 = (s2, r2)" by fastforce
  have b1: "tracked (fst s1) b m bmb"
    using m1(2) [of b m bmb] assms(1) Cons.prems(4) by auto
  note m2 = mark_tracked [OF b1 lt(2) s2]
  have c1: "chunks_since_checkpoint (fst s1) = 1" "snd s1 = snd s"
    using m1(5) Cons.prems(1,2) by (simp_all add: word_less_nat_alt)
  have c2: "chunks_since_checkpoint (fst s2) = 0"
    using m2(6) m1(3) c1 Cons.prems(1) by simp
  have cfg: "rh_config (fst s2) = rh_config (fst s)"
    using m1(3) m2(3) by simp
  have path: "state_path (fst s2) = state_path (fst s)" "state_path (fst s1) = state_path (fst s)"
    using cfg m1(3) by (simp_all add: state_path_def fun_eq_iff)
  have "state_path (fst s) a \<noteq> state_path (fst s) b"
    using state_file_path_inj [OF assms(2,3)] assms(1) by (simp add: state_path_def)
  then have "snd s2 (state_path (fst s) a) = snd s (state_path (fst s) a)"
    using m2(4) [of "state_path (fst s) a"] c1 path by simp
  moreover have "tracked (fst s2) a n (bma[unat x := True])"
    using m2(2) [of a] m1(1) assms(1) by simp
  ultimately show ?case
    using Cons.IH [of s2 "bma[unat x := True]" "bmb[unat y := True]"] Cons.prems(1,5) cfg c2 m2(1) path
    by (simp add: p s1 s2)
qed

definition other_id :: transfer_id where
  "other_id = Transfer_Id (replicate 16 1)"

definition two_transfers :: rh_state where
  "two_transfers =
     ((new_resume_handler (make_resume_config ''/s''\<lparr>checkpoint_interval := 2\<rparr>))
        \<lparr>cache := [(null_id, sample_state), (other_id, sample_state\<lparr>ts_id := other_id\<rparr>)]\<rparr>, Map.empty)"

text \<open>The checkpoint counter is shared by all transfers, so a transfer can go without a
  checkpoint for ever: with an interval of two, when two transfers receive chunks in turn, the
  file of the first one is never written, however many chunks it receives.\<close>

theorem shared_counter_starves_transfer:
  assumes "a \<noteq> b" and "wf_id a" and "wf_id b"
    and "checkpoint_interval (rh_config (fst s)) = 2" and "chunks_since_checkpoint (fst s) = 0"
    and "tracked (fst s) a n bma" and "tracked (fst s) b m bmb" and "\<forall>(x, y) \<in> set xs. x < n \<and> y < m"
  shows "snd (alternate io now a b xs s) (state_path (fst s) a) = snd s (state_path (fst s) a) \<and>
    tracked (fst (alternate io now a b xs s)) a n (fold (\<lambda>(x, y) bm. bm[unat x := True]) xs bma)"
  using alternate_starves [OF assms(1-3)] assms(4-8) by blast

theorem shared_counter_starves_transfer_witness:
  "snd (alternate reliable 7 null_id other_id [(0, 0), (1, 1), (2, 2)] two_transfers) (state_path (fst two_transfers) null_id) =
     snd two_transfers (state_path (fst two_transfers) null_id) \<and>
   tracked (fst (alternate reliable 7 null_id other_id [(0, 0), (1, 1), (2, 2)] two_transfers)) null_id 3
     (fold (\<lambda>(x, y) bm. bm[unat x := True]) [(0, 0), (1, 1), (2 :: u32, 2 :: u32)] [True, False, True])"
proof (rule shared_counter_starves_transfer)
  show "null_id \<noteq> other_id"
    by (simp add: null_id_def other_id_def)
  show "tracked (fst two_transfers) other_id 3 [True, False, True]"
    by (simp add: two_transfers_def tracked_def sample_state_def null_id_def other_id_def)
  show "wf_id null_id" "wf_id other_id"
    by (simp_all add: wf_id_def null_id_def other_id_def)
  show "checkpoint_interval (rh_config (fst two_transfers)) = 2"
    "chunks_since_checkpoint (fst two_transfers) = 0" "tracked (fst two_transfers) null_id 3 [True, False, True]"
    by (simp_all add: two_transfers_def tracked_def sample_state_def new_resume_handler_def make_resume_config_def)
qed simp

end
