(* ===== verification/Quota_Manager.thy ===== *)
theory Quota_Manager
  imports File_System Complex_Main
begin

text \<open>
  server/quota_manager.h and server/quota_manager.cpp: the usage counters of a storage
  directory, the warning thresholds and the clean-up policy. Every operation takes its locks
  for one short read or update, and the model runs one operation at a time. Doubles are
  rationals. Callbacks are events in the order in which the code calls them. The directory is
  the list of its regular files in the order the iterator yields them (files whose status cannot
  be read are skipped by the code and are not in the list); whether a removal succeeds is a
  parameter. \<open>std::sort\<close> leaves the order of equal time stamps open; the model keeps the order of
  the listing for them.
\<close>

record quota_usage =
  total_quota :: u64
  used_bytes :: u64
  available_bytes :: u64
  usage_percent :: rat
  file_count :: u64

definition is_exceeded :: "quota_usage \<Rightarrow> bool" where
  "is_exceeded u \<longleftrightarrow> total_quota u > 0 \<and> used_bytes u \<ge> total_quota u"

definition is_threshold_reached :: "quota_usage \<Rightarrow> rat \<Rightarrow> bool" where
  "is_threshold_reached u threshold \<longleftrightarrow> usage_percent u \<ge> threshold"

record warning_threshold =
  wt_percentage :: rat
  triggered :: bool

definition make_threshold :: "rat \<Rightarrow> warning_threshold" where
  "make_threshold pct = \<lparr>wt_percentage = pct, triggered = False\<rparr>"

record cleanup_policy =
  cp_enabled :: bool
  trigger_threshold :: rat
  target_threshold :: rat
  delete_oldest_first :: bool
  min_file_age :: int
  exclusions :: "string list"

definition default_cleanup_policy :: cleanup_policy where
  "default_cleanup_policy =
     \<lparr>cp_enabled = False, trigger_threshold = 90, target_threshold = 80, delete_oldest_first = True,
      min_file_age = 0, exclusions = []\<rparr>"

datatype quota_event = Warning_callback quota_usage | Exceeded_callback quota_usage

record quota_manager =
  qm_total_quota :: u64
  qm_max_file_size :: u64
  current_usage :: quota_usage
  warning_thresholds :: "warning_threshold list"
  warning_callback :: bool
  exceeded_callback :: bool
  current_policy :: cleanup_policy

text \<open>A regular file of the storage directory: path, size, time of last write (nanoseconds).\<close>

record dir_file =
  df_path :: path
  df_size :: u64
  df_time :: int

record storage_dir =
  sd_exists :: bool
  sd_files :: "dir_file list"
  sd_space :: "u64 option"

definition percent_of :: "u64 \<Rightarrow> u64 \<Rightarrow> rat" where
  "percent_of used total_bytes = of_nat (unat used) / of_nat (unat total_bytes) * 100"

definition calculate_usage :: "storage_dir \<Rightarrow> u64 \<Rightarrow> quota_usage" where
  "calculate_usage d quota =
     (let files = (if sd_exists d then sd_files d else []);
          used = fold (\<lambda>f n. n + df_size f) files 0;
          u = \<lparr>total_quota = quota, used_bytes = used, available_bytes = 0, usage_percent = 0,
               file_count = word_of_nat (length files)\<rparr>
      in if quota > 0
         then u\<lparr>available_bytes := (if used < quota then quota - used else 0),
                usage_percent := percent_of used quota\<rparr>
         else u\<lparr>available_bytes := (case sd_space d of Some n \<Rightarrow> n | None \<Rightarrow> - 1)\<rparr>)"

text \<open>
  \<open>check_thresholds\<close>: the exceeded callback alone when the quota is exceeded, otherwise every
  threshold that is reached for the first time. Without a warning callback the thresholds are
  left as they are.
\<close>

fun fire_thresholds :: "quota_usage \<Rightarrow> warning_threshold list \<Rightarrow> warning_threshold list \<times> quota_event list" where
  "fire_thresholds u [] = ([], [])"
| "fire_thresholds u (t # ts) =
     (case fire_thresholds u ts of
        (ts', evs) \<Rightarrow>
          if \<not> triggered t \<and> usage_percent u \<ge> wt_percentage t
          then (t\<lparr>triggered := True\<rparr> # ts', Warning_callback u # evs)
          else (t # ts', evs))"

definition check_thresholds :: "quota_manager \<Rightarrow> quota_manager \<times> quota_event list" where
  "check_thresholds q =
     (let u = current_usage q
      in if is_exceeded u then (q, if exceeded_callback q then [Exceeded_callback u] else [])
         else if \<not> warning_callback q then (q, [])
         else case fire_thresholds u (warning_thresholds q) of
           (ts, evs) \<Rightarrow> (q\<lparr>warning_thresholds := ts\<rparr>, evs))"

definition refresh_usage :: "storage_dir \<Rightarrow> quota_manager \<Rightarrow> quota_manager \<times> quota_event list" where
  "refresh_usage d q = check_thresholds (q\<lparr>current_usage := calculate_usage d (qm_total_quota q)\<rparr>)"

text \<open>\<open>quota_manager::create\<close>: \<open>dir\<close> says whether the path exists, could be created, is a directory.\<close>

definition create_quota_manager ::
  "bool \<Rightarrow> bool \<Rightarrow> bool \<Rightarrow> storage_dir \<Rightarrow> u64 \<Rightarrow> quota_manager result" where
  "create_quota_manager path_exists create_ok is_dir d quota =
     (if \<not> path_exists \<and> \<not> create_ok then Inl File_access_denied
      else if \<not> is_dir then Inl Invalid_file_path
      else Inr (fst (refresh_usage d
        \<lparr>qm_total_quota = quota, qm_max_file_size = 0,
         current_usage = \<lparr>total_quota = 0, used_bytes = 0, available_bytes = 0, usage_percent = 0, file_count = 0\<rparr>,
         warning_thresholds = [make_threshold 80, make_threshold 90, make_threshold 95],
         warning_callback = False, exceeded_callback = False, current_policy = default_cleanup_policy\<rparr>)))"

definition set_total_quota :: "storage_dir \<Rightarrow> u64 \<Rightarrow> quota_manager \<Rightarrow> quota_manager \<times> quota_event list" where
  "set_total_quota d n q =
     (case refresh_usage d (q\<lparr>qm_total_quota := n\<rparr>) of
        (q, evs1) \<Rightarrow> (case check_thresholds q of (q, evs2) \<Rightarrow> (q, evs1 @ evs2)))"

definition set_max_file_size :: "u64 \<Rightarrow> quota_manager \<Rightarrow> quota_manager" where
  "set_max_file_size n q = q\<lparr>qm_max_file_size := n\<rparr>"

definition check_quota :: "u64 \<Rightarrow> quota_manager \<Rightarrow> unit result" where
  "check_quota required q =
     (let u = current_usage q
      in if total_quota u = 0 then Inr ()
         else if used_bytes u + required > total_quota u then Inl Quota_exceeded
         else Inr ())"

definition check_file_size :: "u64 \<Rightarrow> quota_manager \<Rightarrow> unit result" where
  "check_file_size n q =
     (if qm_max_file_size q > 0 \<and> n > qm_max_file_size q then Inl File_too_large else Inr ())"

definition record_bytes_added :: "u64 \<Rightarrow> quota_manager \<Rightarrow> quota_manager \<times> quota_event list" where
  "record_bytes_added n q =
     (let u = current_usage q; u = u\<lparr>used_bytes := used_bytes u + n\<rparr>; quota = qm_total_quota q;
          u = (if quota > 0
               then u\<lparr>available_bytes := (if used_bytes u < quota then quota - used_bytes u else 0),
                      usage_percent := percent_of (used_bytes u) quota\<rparr>
               else u)
      in check_thresholds (q\<lparr>current_usage := u\<rparr>))"

definition record_bytes_removed :: "u64 \<Rightarrow> quota_manager \<Rightarrow> quota_manager" where
  "record_bytes_removed n q =
     (let u = current_usage q;
          u = u\<lparr>used_bytes := (if n > used_bytes u then 0 else used_bytes u - n)\<rparr>; quota = qm_total_quota q;
          u = (if quota > 0
               then u\<lparr>available_bytes := quota - used_bytes u,
                      usage_percent := percent_of (used_bytes u) quota\<rparr>
               else u)
      in q\<lparr>current_usage := u\<rparr>)"

definition record_file_added :: "quota_manager \<Rightarrow> quota_manager" where
  "record_file_added q =
     q\<lparr>current_usage := (current_usage q)\<lparr>file_count := file_count (current_usage q) + 1\<rparr>\<rparr>"

definition record_file_removed :: "quota_manager \<Rightarrow> quota_manager" where
  "record_file_removed q =
     (let u = current_usage q
      in if file_count u > 0 then q\<lparr>current_usage := u\<lparr>file_count := file_count u - 1\<rparr>\<rparr> else q)"

definition set_warning_thresholds :: "rat list \<Rightarrow> quota_manager \<Rightarrow> quota_manager" where
  "set_warning_thresholds ps q =
     q\<lparr>warning_thresholds := sort_key wt_percentage (map make_threshold (filter (\<lambda>p. 0 < p \<and> p \<le> 100) ps))\<rparr>"

definition reset_threshold_triggers :: "quota_manager \<Rightarrow> quota_manager" where
  "reset_threshold_triggers q =
     q\<lparr>warning_thresholds := map (\<lambda>t. t\<lparr>triggered := False\<rparr>) (warning_thresholds q)\<rparr>"

definition on_quota_warning :: "bool \<Rightarrow> quota_manager \<Rightarrow> quota_manager" where
  "on_quota_warning callback q = q\<lparr>warning_callback := callback\<rparr>"

definition on_quota_exceeded :: "bool \<Rightarrow> quota_manager \<Rightarrow> quota_manager" where
  "on_quota_exceeded callback q = q\<lparr>exceeded_callback := callback\<rparr>"

definition set_cleanup_policy :: "cleanup_policy \<Rightarrow> quota_manager \<Rightarrow> quota_manager" where
  "set_cleanup_policy p q = q\<lparr>current_policy := p\<rparr>"


section \<open>Clean-up\<close>






section \<open>Lemmas\<close>

lemma fire_thresholds_again:
  "fire_thresholds u ts = (ts', evs) \<Longrightarrow> fire_thresholds u ts' = (ts', [])"
  by (induction ts arbitrary: ts' evs) (auto split: prod.splits if_splits)

lemma fire_thresholds_events:
  "set (snd (fire_thresholds u ts)) \<subseteq> {Warning_callback u}"
  "length (snd (fire_thresholds u ts)) = length (filter (\<lambda>t. \<not> triggered t \<and> usage_percent u \<ge> wt_percentage t) ts)"
  by (induction ts) (auto split: prod.splits if_splits)

lemma check_thresholds_usage [simp]:
  "current_usage (fst (check_thresholds q)) = current_usage q"
  "warning_callback (fst (check_thresholds q)) = warning_callback q"
  "exceeded_callback (fst (check_thresholds q)) = exceeded_callback q"
  "current_policy (fst (check_thresholds q)) = current_policy q"
  by (simp_all add: check_thresholds_def Let_def split: prod.splits)


lemma record_removed_policy [simp]:
  "current_policy (record_file_removed q) = current_policy q"
  "current_policy (record_bytes_removed n q) = current_policy q"
  by (simp_all add: record_file_removed_def record_bytes_removed_def Let_def)


lemma unat_sub_wrap: "(b :: u64) > a \<Longrightarrow> unat (a - b) + (unat b - unat a) = 2 ^ 64"
  using unat_u64_less [of b] by (simp add: unat_sub_if' word_less_nat_alt)

section \<open>Properties\<close>

text \<open>The quota check is right as long as the sum of used and required bytes fits in 64 bits:
  it accepts exactly the requests that keep the directory within a limited quota. When the sum
  wraps, a request far beyond the quota is accepted.\<close>

theorem check_quota_decides:
  assumes "total_quota (current_usage q) > 0"
  shows "(unat (used_bytes (current_usage q)) + unat n < 2 ^ 64 \<longrightarrow>
          (check_quota n q = Inr () \<longleftrightarrow>
           unat (used_bytes (current_usage q)) + unat n \<le> unat (total_quota (current_usage q)))) \<and>
         (unat (used_bytes (current_usage q)) + unat n \<ge> 2 ^ 64 \<and>
          unat (used_bytes (current_usage q)) + unat n - 2 ^ 64 \<le> unat (total_quota (current_usage q)) \<longrightarrow>
          check_quota n q = Inr ())"
proof -
  define u where "u = current_usage q"
  have "unat (used_bytes u + n) = unat (used_bytes u) + unat n" if "unat (used_bytes u) + unat n < 2 ^ 64"
    using that by (simp add: unat_word_ariths)
  moreover have "unat (used_bytes u + n) = unat (used_bytes u) + unat n - 2 ^ 64"
    if "unat (used_bytes u) + unat n \<ge> 2 ^ 64"
    using that unat_u64_less [of "used_bytes u"] unat_u64_less [of n]
    by (simp add: unat_word_ariths le_mod_geq)
  ultimately show ?thesis
    using assms unfolding u_def [symmetric]
    by (auto simp: check_quota_def Let_def word_less_nat_alt not_less simp flip: u_def)
qed

definition sample_quota :: quota_manager where
  "sample_quota =
     \<lparr>qm_total_quota = 100, qm_max_file_size = 0,
      current_usage = \<lparr>total_quota = 100, used_bytes = 150, available_bytes = 0, usage_percent = 150, file_count = 2\<rparr>,
      warning_thresholds = [make_threshold 80, make_threshold 90], warning_callback = True,
      exceeded_callback = False, current_policy = default_cleanup_policy\<lparr>cp_enabled := True, exclusions := [''keep'']\<rparr>\<rparr>"

theorem check_quota_decides_witness:
  "check_quota 10 sample_quota \<noteq> Inr () \<and> check_quota (- 100) sample_quota = Inr ()"
  using check_quota_decides [where q = sample_quota and n = 10] check_quota_decides [where q = sample_quota and n = "- 100"]
  by (simp add: sample_quota_def)

text \<open>After bytes were removed, the available space is the quota minus the used bytes when the
  directory is within its quota; while it is still over the quota the subtraction wraps, and the
  manager reports almost \<open>2 ^ 64\<close> free bytes.\<close>

theorem removal_available_space:
  fixes q n
  defines "u \<equiv> current_usage (record_bytes_removed n q)"
  assumes "qm_total_quota q > 0"
  shows "(used_bytes u \<le> qm_total_quota q \<longrightarrow>
          unat (available_bytes u) + unat (used_bytes u) = unat (qm_total_quota q)) \<and>
         (used_bytes u > qm_total_quota q \<longrightarrow>
          unat (available_bytes u) + (unat (used_bytes u) - unat (qm_total_quota q)) = 2 ^ 64)"
proof -
  have "available_bytes u = qm_total_quota q - used_bytes u"
    using assms by (simp add: u_def record_bytes_removed_def Let_def)
  then show ?thesis
    using unat_sub_wrap [of "qm_total_quota q" "used_bytes u"] by (auto simp: unat_sub word_le_nat_alt)
qed

theorem removal_available_space_witness:
  "unat (available_bytes (current_usage (record_bytes_removed 10 sample_quota))) + 40 = 2 ^ 64"
  using removal_available_space [where n = 10 and q = sample_quota]
  by (simp add: sample_quota_def record_bytes_removed_def Let_def word_less_nat_alt)

text \<open>A warning threshold fires once: checking again without a change of usage calls the
  warning callback no more, and after a reset it is called once for every threshold that is
  reached.\<close>

theorem thresholds_fire_once:
  "Warning_callback u \<notin> set (snd (check_thresholds (fst (check_thresholds q)))) \<and>
   (\<not> is_exceeded (current_usage q) \<and> warning_callback q \<longrightarrow>
    snd (check_thresholds (reset_threshold_triggers q)) =
      replicate (length (filter (\<lambda>t. usage_percent (current_usage q) \<ge> wt_percentage t) (warning_thresholds q)))
        (Warning_callback (current_usage q)))"
proof -
  define u0 where "u0 = current_usage q"
  have "Warning_callback u \<notin> set (snd (check_thresholds (fst (check_thresholds q))))"
  proof -
    obtain ts evs where "fire_thresholds (current_usage q) (warning_thresholds q) = (ts, evs)"
      by fastforce
    from fire_thresholds_again [OF this] this show ?thesis
      by (simp add: check_thresholds_def Let_def)
  qed
  moreover have count: "length (filter (\<lambda>t. \<not> triggered t \<and> P (wt_percentage t)) (map (\<lambda>t. t\<lparr>triggered := False\<rparr>) ts)) =
      length (filter (\<lambda>t. P (wt_percentage t)) ts)" for P ts
    by (induction ts) auto
  have "snd (check_thresholds (reset_threshold_triggers q)) =
      replicate (length (filter (\<lambda>t. usage_percent u0 \<ge> wt_percentage t) (warning_thresholds q))) (Warning_callback u0)"
    if "\<not> is_exceeded u0" "warning_callback q"
  proof -
    define evs where "evs = snd (fire_thresholds u0 (map (\<lambda>t. t\<lparr>triggered := False\<rparr>) (warning_thresholds q)))"
    have "snd (check_thresholds (reset_threshold_triggers q)) = evs"
      using that by (simp add: check_thresholds_def Let_def reset_threshold_triggers_def u0_def evs_def split: prod.splits)
    moreover have "evs = replicate (length evs) (Warning_callback u0)"
      using fire_thresholds_events(1) [of u0] unfolding evs_def
      by (intro replicate_length_same [symmetric]) blast
    moreover have "length evs = length (filter (\<lambda>t. usage_percent u0 \<ge> wt_percentage t) (warning_thresholds q))"
      unfolding evs_def fire_thresholds_events(2) by (rule count)
    ultimately show ?thesis by simp
  qed
  ultimately show ?thesis
    by (simp add: u0_def)
qed

theorem thresholds_fire_once_witness:
  "let q = sample_quota\<lparr>current_usage := (current_usage sample_quota)\<lparr>used_bytes := 85, usage_percent := 85\<rparr>\<rparr>
   in Warning_callback (current_usage q) \<notin> set (snd (check_thresholds (fst (check_thresholds q)))) \<and>
      snd (check_thresholds (reset_threshold_triggers q)) = [Warning_callback (current_usage q)]"
  using thresholds_fire_once [where u = u and q = "sample_quota
    \<lparr>current_usage := (current_usage sample_quota)\<lparr>used_bytes := 85, usage_percent := 85\<rparr>\<rparr>" for u]
  by (simp add: sample_quota_def make_threshold_def is_exceeded_def Let_def)


definition sample_dir :: storage_dir where
  "sample_dir = \<lparr>sd_exists = True,
     sd_files = [\<lparr>df_path = ''/d/keep.me'', df_size = 60, df_time = 1\<rparr>, \<lparr>df_path = ''/d/old'', df_size = 90, df_time = 2\<rparr>],
     sd_space = None\<rparr>"


text \<open>Setting a quota that is already exceeded calls the exceeded callback twice, once from the
  refresh and once from the explicit check.\<close>

theorem set_quota_reports_twice:
  assumes "exceeded_callback q" and "is_exceeded (calculate_usage d n)"
  shows "snd (set_total_quota d n q) = replicate 2 (Exceeded_callback (calculate_usage d n))"
  using assms by (simp add: set_total_quota_def refresh_usage_def check_thresholds_def Let_def numeral_2_eq_2)

theorem set_quota_reports_twice_witness:
  "snd (set_total_quota sample_dir 100 (sample_quota\<lparr>exceeded_callback := True\<rparr>)) =
   replicate 2 (Exceeded_callback (calculate_usage sample_dir 100))"
  by (rule set_quota_reports_twice)
     (simp_all add: is_exceeded_def calculate_usage_def sample_dir_def Let_def)

end
