(* ===== verification/Session_Store.thy ===== *)
theory Session_Store
  imports File_System
begin

text \<open>
  The ticket stores of transport/session_resumption.h and transport/session_resumption.cpp:
  the interface \<open>session_store\<close> as a locale, the memory store and the file store that implement
  it, and the binary file format. Times are nanoseconds, \<open>now\<close> is the clock at the call. A hash map
  is an association list in its (unspecified) iteration order.
\<close>

record session_ticket =
  server_id :: string
  ticket_data :: bytes
  issued_at :: int
  expires_at :: int
  max_early_data_size :: u32
  alpn_protocol :: string
  server_name :: string

definition is_valid :: "int \<Rightarrow> session_ticket \<Rightarrow> bool" where
  "is_valid now t \<longleftrightarrow> now < expires_at t"

definition allows_early_data :: "int \<Rightarrow> session_ticket \<Rightarrow> bool" where
  "allows_early_data now t \<longleftrightarrow> max_early_data_size t > 0 \<and> is_valid now t"

definition time_until_expiry :: "int \<Rightarrow> session_ticket \<Rightarrow> int" where
  "time_until_expiry now t = trunc_div (expires_at t - now) 1000000000"

record session_store_config =
  max_tickets :: nat
  default_lifetime :: int
  min_remaining_lifetime :: int
  ss_storage_path :: path
  ss_auto_cleanup :: bool
  cleanup_interval :: int

definition default_store_config :: session_store_config where
  "default_store_config =
     \<lparr>max_tickets = 1000, default_lifetime = 7 * 24 * 3600, min_remaining_lifetime = 60,
      ss_storage_path = [], ss_auto_cleanup = True, cleanup_interval = 3600\<rparr>"

definition usable :: "int \<Rightarrow> int \<Rightarrow> session_ticket \<Rightarrow> bool" where
  "usable min_life now t \<longleftrightarrow> is_valid now t \<and> \<not> time_until_expiry now t < min_life"

section \<open>The interface\<close>

text \<open>What every store promises its clients, over the map of the tickets it holds.\<close>

locale session_store_laws =
  fixes st_store :: "int \<Rightarrow> session_ticket \<Rightarrow> 's \<Rightarrow> 's \<times> unit result"
    and st_retrieve :: "int \<Rightarrow> string \<Rightarrow> 's \<Rightarrow> 's \<times> session_ticket option"
    and st_remove :: "string \<Rightarrow> 's \<Rightarrow> 's \<times> bool"
    and st_cleanup :: "int \<Rightarrow> 's \<Rightarrow> 's \<times> nat"
    and st_clear :: "'s \<Rightarrow> 's"
    and held :: "'s \<Rightarrow> string \<Rightarrow> session_ticket option"
    and min_life :: "'s \<Rightarrow> int"
    and invar :: "'s \<Rightarrow> bool"
  assumes store_new: "invar s \<Longrightarrow> held (fst (st_store now t s)) (server_id t) = Some t"
    and store_old: "invar s \<Longrightarrow> k \<noteq> server_id t \<Longrightarrow> held (fst (st_store now t s)) k \<in> {held s k, None}"
    and store_ok: "invar s \<Longrightarrow> snd (st_store now t s) = Inr ()"
    and retrieve_result: "invar s \<Longrightarrow> snd (st_retrieve now k s) =
        (case held s k of None \<Rightarrow> None | Some t \<Rightarrow> if usable (min_life s) now t then Some t else None)"
    and retrieve_held: "invar s \<Longrightarrow> held (fst (st_retrieve now k s)) j =
        (if j = k \<and> snd (st_retrieve now k s) = None then None else held s j)"
    and remove_held: "invar s \<Longrightarrow> held (fst (st_remove k s)) j = (if j = k then None else held s j)"
    and remove_result: "invar s \<Longrightarrow> snd (st_remove k s) \<longleftrightarrow> held s k \<noteq> None"
    and cleanup_held: "invar s \<Longrightarrow> held (fst (st_cleanup now s)) k =
        (case held s k of None \<Rightarrow> None | Some t \<Rightarrow> if expires_at t \<le> now then None else Some t)"
    and clear_held: "held (st_clear s) k = None"
    and invar_store: "invar s \<Longrightarrow> invar (fst (st_store now t s))"
    and invar_retrieve: "invar s \<Longrightarrow> invar (fst (st_retrieve now k s))"
    and invar_remove: "invar s \<Longrightarrow> invar (fst (st_remove k s))"
    and invar_cleanup: "invar s \<Longrightarrow> invar (fst (st_cleanup now s))"
    and min_life_store: "min_life (fst (st_store now t s)) = min_life s"
    and min_life_remove: "min_life (fst (st_remove k s)) = min_life s"
begin

lemma retrieve_usable:
  "invar s \<Longrightarrow> snd (st_retrieve now k s) = Some t \<Longrightarrow> held s k = Some t \<and> usable (min_life s) now t"
  by (auto simp: retrieve_result split: option.splits if_splits)

lemma retrieve_after_store:
  "invar s \<Longrightarrow> snd (st_retrieve now' (server_id t) (fst (st_store now t s))) =
     (if usable (min_life s) now' t then Some t else None)"
  by (simp add: retrieve_result invar_store store_new min_life_store)

lemma retrieve_after_remove:
  "invar s \<Longrightarrow> snd (st_retrieve now k (fst (st_remove k s))) = None"
  by (simp add: retrieve_result invar_remove remove_held)

lemma retrieve_after_clear: "invar (st_clear s) \<Longrightarrow> snd (st_retrieve now k (st_clear s)) = None"
  by (simp add: retrieve_result clear_held)

text \<open>A ticket that is refused once is gone.\<close>

lemma retrieve_refused:
  "invar s \<Longrightarrow> snd (st_retrieve now k s) = None \<Longrightarrow> snd (st_retrieve now' k (fst (st_retrieve now k s))) = None"
  by (simp add: retrieve_result [of "fst (st_retrieve now k s)"] invar_retrieve retrieve_held)

text \<open>A clean-up never takes away a ticket that a retrieval would return.\<close>

lemma cleanup_keeps_usable:
  "invar s \<Longrightarrow> held s k = Some t \<Longrightarrow> usable m now t \<Longrightarrow> held (fst (st_cleanup now s)) k = Some t"
  by (simp add: cleanup_held usable_def is_valid_def)

end

section \<open>The memory store\<close>

type_synonym ticket_map = "(string \<times> session_ticket) list"

record memory_session_store =
  ms_config :: session_store_config
  ms_tickets :: ticket_map

definition make_memory_store :: "session_store_config \<Rightarrow> memory_session_store" where
  "make_memory_store cfg = \<lparr>ms_config = cfg, ms_tickets = []\<rparr>"

text \<open>
  The eviction loop: the first ticket that is no longer valid, else the one issued first.
  \<open>time_point::max()\<close> is \<open>2 ^ 63 - 1\<close> ticks.
\<close>

fun find_victim :: "int \<Rightarrow> int \<Rightarrow> string option \<Rightarrow> ticket_map \<Rightarrow> string option" where
  "find_victim now oldest_time oldest [] = oldest"
| "find_victim now oldest_time oldest ((k, t) # m) =
     (if \<not> is_valid now t then Some k
      else if issued_at t < oldest_time then find_victim now (issued_at t) (Some k) m
      else find_victim now oldest_time oldest m)"

definition make_room :: "session_store_config \<Rightarrow> int \<Rightarrow> ticket_map \<Rightarrow> ticket_map" where
  "make_room cfg now m =
     (if max_tickets cfg > 0 \<and> length m \<ge> max_tickets cfg
      then case find_victim now (2 ^ 63 - 1) None m of None \<Rightarrow> m | Some k \<Rightarrow> al_erase k m
      else m)"

definition ms_store :: "int \<Rightarrow> session_ticket \<Rightarrow> memory_session_store \<Rightarrow> memory_session_store \<times> unit result" where
  "ms_store now t s =
     (s\<lparr>ms_tickets := al_update (server_id t) t (make_room (ms_config s) now (ms_tickets s))\<rparr>, Inr ())"

definition ms_retrieve :: "int \<Rightarrow> string \<Rightarrow> memory_session_store \<Rightarrow> memory_session_store \<times> session_ticket option" where
  "ms_retrieve now k s =
     (case al_find (ms_tickets s) k of
        None \<Rightarrow> (s, None)
      | Some t \<Rightarrow>
          if \<not> is_valid now t then (s\<lparr>ms_tickets := al_erase k (ms_tickets s)\<rparr>, None)
          else if time_until_expiry now t < min_remaining_lifetime (ms_config s)
          then (s\<lparr>ms_tickets := al_erase k (ms_tickets s)\<rparr>, None)
          else (s, Some t))"

definition ms_remove :: "string \<Rightarrow> memory_session_store \<Rightarrow> memory_session_store \<times> bool" where
  "ms_remove k s = (s\<lparr>ms_tickets := al_erase k (ms_tickets s)\<rparr>, al_find (ms_tickets s) k \<noteq> None)"

definition drop_expired :: "int \<Rightarrow> ticket_map \<Rightarrow> ticket_map" where
  "drop_expired now m = filter (\<lambda>p. \<not> expires_at (snd p) \<le> now) m"

definition ms_cleanup_expired :: "int \<Rightarrow> memory_session_store \<Rightarrow> memory_session_store \<times> nat" where
  "ms_cleanup_expired now s =
     (s\<lparr>ms_tickets := drop_expired now (ms_tickets s)\<rparr>,
      length (ms_tickets s) - length (drop_expired now (ms_tickets s)))"

definition ms_clear :: "memory_session_store \<Rightarrow> memory_session_store" where
  "ms_clear s = s\<lparr>ms_tickets := []\<rparr>"

definition ms_size :: "memory_session_store \<Rightarrow> nat" where
  "ms_size s = length (ms_tickets s)"

definition ms_has_ticket :: "int \<Rightarrow> string \<Rightarrow> memory_session_store \<Rightarrow> bool" where
  "ms_has_ticket now k s = (case al_find (ms_tickets s) k of None \<Rightarrow> False | Some t \<Rightarrow> is_valid now t)"

lemma find_victim_in: "find_victim now ot o' m = Some k \<Longrightarrow> o' = Some k \<or> k \<in> al_keys m"
  by (induction now ot o' m rule: find_victim.induct) (auto split: if_splits)

lemma make_room_find: "al_find (make_room cfg now m) k \<in> {al_find m k, None}"
  by (auto simp: make_room_def al_find_erase split: option.splits)

lemma make_room_distinct: "al_distinct m \<Longrightarrow> al_distinct (make_room cfg now m)"
  by (auto simp: make_room_def al_distinct_erase split: option.splits)

lemma drop_expired_find:
  "al_distinct m \<Longrightarrow> al_find (drop_expired now m) k =
     (case al_find m k of None \<Rightarrow> None | Some t \<Rightarrow> if expires_at t \<le> now then None else Some t)"
  by (simp add: drop_expired_def al_find_filter split: option.splits)

interpretation mem: session_store_laws ms_store ms_retrieve ms_remove ms_cleanup_expired ms_clear
  "\<lambda>s. al_find (ms_tickets s)" "\<lambda>s. min_remaining_lifetime (ms_config s)" "\<lambda>s. al_distinct (ms_tickets s)"
proof (unfold_locales, goal_cases)
  case (2 s k t now)
  then show ?case
    using make_room_find [of "ms_config s" now "ms_tickets s" k] by (auto simp: ms_store_def al_find_update)
next
  case (8 s now k)
  then show ?case by (simp add: ms_cleanup_expired_def drop_expired_find)
qed (auto simp: ms_store_def ms_retrieve_def ms_remove_def ms_cleanup_expired_def ms_clear_def usable_def
    al_find_update al_find_erase al_distinct_update al_distinct_erase make_room_distinct drop_expired_def
    al_distinct_filter split: option.splits)

end
