(* ===== verification/File_Session_Store.thy ===== *)
theory File_Session_Store
  imports Session_Store
begin

text \<open>
  \<open>file_session_store\<close> of transport/session_resumption.cpp: the tickets in memory, a dirty flag,
  and the binary file they are written to after every \<open>store\<close>. Integers are little-endian. A
  stream that is being read is the rest of the file with its \<open>good()\<close> flag: a short read keeps
  the bytes there are, pads with zeros and fails the stream, and a failed stream reads zeros.
\<close>

section \<open>File format\<close>

definition MAGIC :: nat where "MAGIC = 0x51534553"
definition VERSION :: nat where "VERSION = 1"

definition serialize_string :: "string \<Rightarrow> bytes" where
  "serialize_string s = (let n = length s mod 2 ^ 32 in nat_to_le 4 n @ take n (text_bytes s))"

definition serialize_bytes :: "bytes \<Rightarrow> bytes" where
  "serialize_bytes bs = (let n = length bs mod 2 ^ 32 in nat_to_le 4 n @ take n bs)"

definition serialize_timepoint :: "int \<Rightarrow> bytes" where
  "serialize_timepoint t = nat_to_le 8 (nat (trunc_div t 1000000 mod 2 ^ 64))"

definition serialize_ticket :: "session_ticket \<Rightarrow> bytes" where
  "serialize_ticket t =
     serialize_string (server_id t) @ serialize_bytes (ticket_data t) @
     serialize_timepoint (issued_at t) @ serialize_timepoint (expires_at t) @
     nat_to_le 4 (unat (max_early_data_size t)) @
     serialize_string (alpn_protocol t) @ serialize_string (server_name t)"

definition serialize_store :: "ticket_map \<Rightarrow> bytes" where
  "serialize_store m =
     nat_to_le 4 MAGIC @ nat_to_le 4 VERSION @ nat_to_le 4 (length m mod 2 ^ 32) @
     concat (map (\<lambda>(k, t). serialize_ticket t) m)"

type_synonym in_stream = "bytes \<times> bool"

definition read_bytes :: "nat \<Rightarrow> in_stream \<Rightarrow> bytes \<times> in_stream" where
  "read_bytes n = (\<lambda>(bs, ok).
     if \<not> ok then (replicate n 0, (bs, False))
     else (take n bs @ replicate (n - length bs) 0, (drop n bs, n \<le> length bs)))"

definition read_nat :: "nat \<Rightarrow> in_stream \<Rightarrow> nat \<times> in_stream" where
  "read_nat n s = (case read_bytes n s of (bs, s) \<Rightarrow> (le_to_nat bs, s))"

definition deserialize_bytes :: "in_stream \<Rightarrow> bytes \<times> in_stream" where
  "deserialize_bytes s = (case read_nat 4 s of (n, s) \<Rightarrow> read_bytes n s)"

definition deserialize_string :: "in_stream \<Rightarrow> string \<times> in_stream" where
  "deserialize_string s = (case read_nat 4 s of (n, s) \<Rightarrow> (case read_bytes n s of (bs, s) \<Rightarrow> (bytes_text bs, s)))"

definition deserialize_timepoint :: "in_stream \<Rightarrow> int \<times> in_stream" where
  "deserialize_timepoint s =
     (case read_nat 8 s of (n, s) \<Rightarrow> (sint (word_of_nat n :: u64) * 1000000, s))"

definition deserialize_ticket :: "in_stream \<Rightarrow> session_ticket \<times> in_stream" where
  "deserialize_ticket s =
     (let (sid, s) = deserialize_string s; (d, s) = deserialize_bytes s;
          (iss, s) = deserialize_timepoint s; (ex, s) = deserialize_timepoint s;
          (early, s) = read_nat 4 s; (alpn, s) = deserialize_string s; (sni, s) = deserialize_string s
      in (\<lparr>server_id = sid, ticket_data = d, issued_at = iss, expires_at = ex,
           max_early_data_size = word_of_nat early, alpn_protocol = alpn, server_name = sni\<rparr>, s))"

text \<open>The loop reads while tickets are left and the stream is good, and keeps what is still valid.\<close>

fun load_tickets :: "int \<Rightarrow> nat \<Rightarrow> in_stream \<Rightarrow> ticket_map \<Rightarrow> ticket_map" where
  "load_tickets now 0 s m = m"
| "load_tickets now (Suc n) s m =
     (if \<not> snd s then m
      else case deserialize_ticket s of
        (t, s) \<Rightarrow> load_tickets now n s (if is_valid now t then al_update (server_id t) t m else m))"

section \<open>The store\<close>

record file_session_store =
  fss_config :: session_store_config
  fss_tickets :: ticket_map
  dirty :: bool

type_synonym fss_state = "file_session_store \<times> filesystem"

text \<open>
  \<open>save_internal\<close>. Creating the parent directory and opening the file fail together
  (\<open>open_write_fails\<close>). The result of the writes is never looked at: when they fail the file is left
  truncated, and the tickets count as saved.
\<close>

definition save_internal :: "io_env \<Rightarrow> fss_state \<Rightarrow> fss_state \<times> unit result" where
  "save_internal io = (\<lambda>(s, fs).
     let p = ss_storage_path (fss_config s)
     in if p = [] then ((s, fs), Inr ())
        else if open_write_fails io p then ((s, fs), Inl File_write_error)
        else ((s\<lparr>dirty := False\<rparr>,
               fs(p \<mapsto> (if write_fails io p then [] else serialize_store (fss_tickets s)))), Inr ()))"

text \<open>\<open>load_internal\<close>; \<open>None\<close> when \<open>exists\<close> throws, which happens outside the \<open>try\<close> block.\<close>

definition load_internal :: "io_env \<Rightarrow> int \<Rightarrow> fss_state \<Rightarrow> fss_state \<times> unit result option" where
  "load_internal io now = (\<lambda>(s, fs).
     let p = ss_storage_path (fss_config s)
     in if p = [] then ((s, fs), Some (Inr ()))
        else if stat_fails io p then ((s, fs), None)
        else case fs p of
          None \<Rightarrow> ((s, fs), Some (Inr ()))
        | Some content \<Rightarrow>
            if open_read_fails io p then ((s, fs), Some (Inl File_read_error))
            else
              let (magic, st) = read_nat 4 (content, True)
              in if magic \<noteq> MAGIC then ((s, fs), Some (Inl Invalid_configuration))
                 else
                   let (version, st) = read_nat 4 st
                   in if version \<noteq> VERSION then ((s\<lparr>fss_tickets := []\<rparr>, fs), Some (Inr ()))
                      else
                        let (n, st) = read_nat 4 st
                        in ((s\<lparr>fss_tickets := load_tickets now n st []\<rparr>, fs), Some (Inr ())))"

text \<open>
  \<open>create\<close> gives no store without a path (\<open>Some None\<close>); the constructor loads the file and ignores
  the result, but an exception leaves it (\<open>None\<close>).
\<close>

definition empty_file_store :: "session_store_config \<Rightarrow> file_session_store" where
  "empty_file_store cfg = \<lparr>fss_config = cfg, fss_tickets = [], dirty = False\<rparr>"

definition create_file_store ::
  "io_env \<Rightarrow> int \<Rightarrow> session_store_config \<Rightarrow> filesystem \<Rightarrow> file_session_store option option" where
  "create_file_store io now cfg fs =
     (if ss_storage_path cfg = [] then Some None
      else case load_internal io now (empty_file_store cfg, fs) of
        (s, None) \<Rightarrow> None
      | (s, Some _) \<Rightarrow> Some (Some (fst s)))"

definition destroy_file_store :: "io_env \<Rightarrow> fss_state \<Rightarrow> filesystem" where
  "destroy_file_store io = (\<lambda>(s, fs).
     if dirty s \<and> ss_storage_path (fss_config s) \<noteq> [] then snd (fst (save_internal io (s, fs))) else fs)"

definition fss_store :: "io_env \<Rightarrow> int \<Rightarrow> session_ticket \<Rightarrow> fss_state \<Rightarrow> fss_state \<times> unit result" where
  "fss_store io now t = (\<lambda>(s, fs).
     let s = s\<lparr>fss_tickets := al_update (server_id t) t (make_room (fss_config s) now (fss_tickets s)),
               dirty := True\<rparr>
     in (fst (save_internal io (s, fs)), Inr ()))"

definition fss_retrieve :: "int \<Rightarrow> string \<Rightarrow> fss_state \<Rightarrow> fss_state \<times> session_ticket option" where
  "fss_retrieve now k = (\<lambda>(s, fs).
     let gone = s\<lparr>fss_tickets := al_erase k (fss_tickets s), dirty := True\<rparr>
     in case al_find (fss_tickets s) k of
          None \<Rightarrow> ((s, fs), None)
        | Some t \<Rightarrow>
            if \<not> is_valid now t then ((gone, fs), None)
            else if time_until_expiry now t < min_remaining_lifetime (fss_config s) then ((gone, fs), None)
            else ((s, fs), Some t))"

definition fss_remove :: "string \<Rightarrow> fss_state \<Rightarrow> fss_state \<times> bool" where
  "fss_remove k = (\<lambda>(s, fs).
     if al_find (fss_tickets s) k = None then ((s, fs), False)
     else ((s\<lparr>fss_tickets := al_erase k (fss_tickets s), dirty := True\<rparr>, fs), True))"

definition fss_cleanup_expired :: "int \<Rightarrow> fss_state \<Rightarrow> fss_state \<times> nat" where
  "fss_cleanup_expired now = (\<lambda>(s, fs).
     let m = drop_expired now (fss_tickets s); removed = length (fss_tickets s) - length m
     in ((s\<lparr>fss_tickets := m, dirty := dirty s \<or> removed > 0\<rparr>, fs), removed))"

definition fss_clear :: "fss_state \<Rightarrow> fss_state" where
  "fss_clear = (\<lambda>(s, fs). (s\<lparr>fss_tickets := [], dirty := True\<rparr>, fs))"

definition fss_size :: "fss_state \<Rightarrow> nat" where
  "fss_size = (\<lambda>(s, fs). length (fss_tickets s))"

definition fss_has_ticket :: "int \<Rightarrow> string \<Rightarrow> fss_state \<Rightarrow> bool" where
  "fss_has_ticket now k = (\<lambda>(s, fs).
     case al_find (fss_tickets s) k of None \<Rightarrow> False | Some t \<Rightarrow> is_valid now t)"

lemma save_internal_keeps [simp]:
  "fss_tickets (fst (fst (save_internal io (s, fs)))) = fss_tickets s"
  "fss_config (fst (fst (save_internal io (s, fs)))) = fss_config s"
  by (simp_all add: save_internal_def Let_def)

interpretation file_store: session_store_laws "fss_store io" fss_retrieve fss_remove fss_cleanup_expired fss_clear
  "\<lambda>s. al_find (fss_tickets (fst s))" "\<lambda>s. min_remaining_lifetime (fss_config (fst s))"
  "\<lambda>s. al_distinct (fss_tickets (fst s))"
proof (unfold_locales, goal_cases)
  case (2 s k t now)
  then show ?case
    using make_room_find [of "fss_config (fst s)" now "fss_tickets (fst s)" k]
    by (cases s) (auto simp: fss_store_def Let_def al_find_update)
next
  case (8 s now k)
  then show ?case by (cases s) (simp add: fss_cleanup_expired_def Let_def drop_expired_find)
qed (auto simp: fss_store_def fss_retrieve_def fss_remove_def fss_cleanup_expired_def fss_clear_def usable_def
    Let_def al_find_update al_find_erase al_distinct_update al_distinct_erase make_room_distinct drop_expired_def
    al_distinct_filter split: option.splits prod.splits)

section \<open>Round trip of the file format\<close>

lemma read_bytes_append: "n = length bs \<Longrightarrow> read_bytes n (bs @ rest, True) = (bs, (rest, True))"
  by (simp add: read_bytes_def)

lemma read_nat_append: "v < 256 ^ n \<Longrightarrow> read_nat n (nat_to_le n v @ rest, True) = (v, (rest, True))"
  using read_bytes_append [of n "nat_to_le n v" rest] by (simp add: read_nat_def le_to_nat_to_le)

lemma deserialize_string_append:
  "length s < 2 ^ 32 \<Longrightarrow> deserialize_string (serialize_string s @ rest, True) = (s, (rest, True))"
  using read_nat_append [of "length s" 4 "text_bytes s @ rest"]
    read_bytes_append [of "length s" "text_bytes s" rest]
  by (simp add: deserialize_string_def serialize_string_def Let_def)

lemma deserialize_bytes_append:
  "length s < 2 ^ 32 \<Longrightarrow> deserialize_bytes (serialize_bytes s @ rest, True) = (s, (rest, True))"
  using read_nat_append [of "length s" 4 "s @ rest"] read_bytes_append [of "length s" s rest]
  by (simp add: deserialize_bytes_def serialize_bytes_def Let_def)

lemma sint_of_mod:
  assumes "- (2 ^ 63) \<le> x" and "x < 2 ^ 63"
  shows "sint (word_of_nat (nat (x mod 2 ^ 64)) :: u64) = x"
proof -
  have "(word_of_nat (nat (x mod 2 ^ 64)) :: u64) = word_of_int (x mod 2 ^ 64)"
    by (simp add: word_of_nat_eq_iff)
  also have "\<dots> = word_of_int x"
    by (simp add: word_of_int_eq_iff take_bit_eq_mod)
  finally show ?thesis
    using assms by (simp add: sint_sbintrunc' signed_take_bit_int_eq_self)
qed

definition millis :: "int \<Rightarrow> int" where
  "millis t = trunc_div t 1000000 * 1000000"

definition millis_ticket :: "session_ticket \<Rightarrow> session_ticket" where
  "millis_ticket t = t\<lparr>issued_at := millis (issued_at t), expires_at := millis (expires_at t)\<rparr>"

definition storable_ticket :: "session_ticket \<Rightarrow> bool" where
  "storable_ticket t \<longleftrightarrow>
     length (server_id t) < 2 ^ 32 \<and> length (ticket_data t) < 2 ^ 32 \<and>
     length (alpn_protocol t) < 2 ^ 32 \<and> length (server_name t) < 2 ^ 32 \<and>
     \<bar>issued_at t\<bar> < 2 ^ 63 \<and> \<bar>expires_at t\<bar> < 2 ^ 63"

lemma trunc_div_abs: "0 < b \<Longrightarrow> \<bar>trunc_div a b\<bar> \<le> \<bar>a\<bar>"
proof -
  assume b: "0 < b"
  then have "0 \<le> \<bar>a\<bar> div b"
    by (simp add: pos_imp_zdiv_nonneg_iff)
  moreover have "\<bar>a\<bar> div b \<le> \<bar>a\<bar>"
    using b zdiv_mono2 [of "\<bar>a\<bar>" 1 b] by simp
  ultimately show ?thesis
    by (auto simp: trunc_div_def abs_mult sgn_if)
qed

lemma deserialize_timepoint_append:
  assumes "\<bar>t\<bar> < 2 ^ 63"
  shows "deserialize_timepoint (serialize_timepoint t @ rest, True) = (millis t, (rest, True))"
proof -
  have "\<bar>trunc_div t 1000000\<bar> < 2 ^ 63"
    using trunc_div_abs [of 1000000 t] assms by linarith
  then have s: "sint (word_of_nat (nat (trunc_div t 1000000 mod 2 ^ 64)) :: u64) = trunc_div t 1000000"
    by (intro sint_of_mod) linarith+
  have "trunc_div t 1000000 mod 2 ^ 64 < 2 ^ 64" "0 \<le> trunc_div t 1000000 mod 2 ^ 64"
    by simp_all
  then have "nat (trunc_div t 1000000 mod 2 ^ 64) < 256 ^ 8"
    by simp
  from read_nat_append [OF this, of rest] s show ?thesis
    by (simp add: deserialize_timepoint_def serialize_timepoint_def millis_def)
qed

lemma deserialize_ticket_append:
  assumes "storable_ticket t"
  shows "deserialize_ticket (serialize_ticket t @ rest, True) = (millis_ticket t, (rest, True))"
proof -
  have l: "length (server_id t) < 2 ^ 32" "length (ticket_data t) < 2 ^ 32" "length (alpn_protocol t) < 2 ^ 32"
    "length (server_name t) < 2 ^ 32" "\<bar>issued_at t\<bar> < 2 ^ 63" "\<bar>expires_at t\<bar> < 2 ^ 63"
    using assms by (simp_all add: storable_ticket_def)
  have "unat (max_early_data_size t) < 256 ^ 4"
    using unsigned_less [of "max_early_data_size t"] by simp
  then show ?thesis
    by (simp add: deserialize_ticket_def serialize_ticket_def deserialize_string_append [OF l(1)]
        deserialize_bytes_append [OF l(2)] deserialize_timepoint_append [OF l(5)]
        deserialize_timepoint_append [OF l(6)] read_nat_append deserialize_string_append [OF l(3)]
        deserialize_string_append [OF l(4)] millis_ticket_def del: append_assoc)
       (simp add: deserialize_string_append [OF l(1)]
        deserialize_bytes_append [OF l(2)] deserialize_timepoint_append [OF l(5)]
        deserialize_timepoint_append [OF l(6)] read_nat_append deserialize_string_append [OF l(3)]
        deserialize_string_append [OF l(4)])
qed

lemma al_update_new: "k \<notin> al_keys m \<Longrightarrow> al_update k v m = m @ [(k, v)]"
  by (induction k v m rule: al_update.induct) auto

lemma al_keys_append [simp]: "al_keys (a @ b) = al_keys a \<union> al_keys b"
  by (auto simp: al_keys_def)

lemma load_tickets_append:
  "(\<forall>(k, t) \<in> set m. k = server_id t \<and> storable_ticket t) \<Longrightarrow> al_distinct m \<Longrightarrow> al_keys m \<inter> al_keys acc = {} \<Longrightarrow>
   load_tickets now (length m) (concat (map (\<lambda>(k, t). serialize_ticket t) m) @ rest, True) acc =
   acc @ filter (\<lambda>(k, t). is_valid now t) (map (\<lambda>(k, t). (k, millis_ticket t)) m)"
proof (induction m arbitrary: acc)
  case (Cons p m)
  obtain k t where p: "p = (k, t)" by (cases p)
  have t: "k = server_id t" "storable_ticket t" "server_id (millis_ticket t) = server_id t"
    using Cons.prems by (auto simp: p millis_ticket_def)
  have "load_tickets now (length m) (concat (map (\<lambda>(k, t). serialize_ticket t) m) @ rest, True)
      (if is_valid now (millis_ticket t) then acc @ [(k, millis_ticket t)] else acc) =
    (if is_valid now (millis_ticket t) then acc @ [(k, millis_ticket t)] else acc) @
      filter (\<lambda>(k, t). is_valid now t) (map (\<lambda>(k, t). (k, millis_ticket t)) m)"
    using Cons.prems by (intro Cons.IH) (auto simp: p)
  moreover have "k \<notin> al_keys acc"
    using Cons.prems by (auto simp: p)
  ultimately show ?case
    using t by (cases "is_valid now (millis_ticket t)") (simp_all add: p deserialize_ticket_append al_update_new)
qed simp

section \<open>Properties\<close>

text \<open>C10: the tickets a file store has saved are the tickets a new store loads: every one that is
  still valid at the time of loading, with its times cut to milliseconds, and no other.\<close>

theorem ticket_file_roundtrip:
  assumes "save_internal io (s, fs) = ((s', fs'), Inr ())" and "ss_storage_path (fss_config s) \<noteq> []"
    and "\<not> write_fails io (ss_storage_path (fss_config s))"
    and "\<forall>(k, t) \<in> set (fss_tickets s). k = server_id t \<and> storable_ticket t"
    and "al_distinct (fss_tickets s)" and "length (fss_tickets s) < 2 ^ 32"
    and "\<not> stat_fails io' (ss_storage_path (fss_config s))" and "\<not> open_read_fails io' (ss_storage_path (fss_config s))"
  shows "\<exists>r. create_file_store io' now (fss_config s) fs' = Some (Some r) \<and>
             fss_tickets r = filter (\<lambda>(k, t). is_valid now t) (map (\<lambda>(k, t). (k, millis_ticket t)) (fss_tickets s))"
proof -
  let ?p = "ss_storage_path (fss_config s)" and ?m = "fss_tickets s"
  have saved: "fs' ?p = Some (serialize_store ?m)"
    using assms(1-3) by (auto simp: save_internal_def Let_def split: if_splits)
  have r: "read_nat 4 (nat_to_le 4 v @ rest, True) = (v, (rest, True))" if "v < 2 ^ 32" for v rest
    using that read_nat_append [of v 4 rest] by simp
  have "load_internal io' now (empty_file_store (fss_config s), fs') =
    (((empty_file_store (fss_config s))\<lparr>fss_tickets := load_tickets now (length ?m)
        (concat (map (\<lambda>(k, t). serialize_ticket t) ?m), True) []\<rparr>, fs'), Some (Inr ()))"
    using assms(2,6-8) saved
    by (simp add: load_internal_def Let_def empty_file_store_def serialize_store_def r MAGIC_def VERSION_def)
  then show ?thesis
    using load_tickets_append [OF assms(4,5), of "[]" now "[]"] assms(2)
    by (simp add: create_file_store_def)
qed

definition sample_ticket :: session_ticket where
  "sample_ticket = \<lparr>server_id = ''h:443'', ticket_data = [1, 2, 3], issued_at = 1000000, expires_at = 9000000000000,
     max_early_data_size = 16384, alpn_protocol = ''ft'', server_name = ''h''\<rparr>"

definition sample_store :: file_session_store where
  "sample_store = \<lparr>fss_config = default_store_config\<lparr>ss_storage_path := ''/t''\<rparr>,
     fss_tickets = [(''h:443'', sample_ticket)], dirty = True\<rparr>"

theorem ticket_file_roundtrip_witness:
  "\<exists>r. create_file_store reliable 7 (fss_config sample_store) (snd (fst (save_internal reliable (sample_store, Map.empty)))) =
         Some (Some r) \<and>
       fss_tickets r = filter (\<lambda>(k, t). is_valid 7 t) (map (\<lambda>(k, t). (k, millis_ticket t)) (fss_tickets sample_store))"
  by (rule ticket_file_roundtrip [where io = reliable and fs = Map.empty and s' = "sample_store\<lparr>dirty := False\<rparr>"])
     (simp_all add: save_internal_def Let_def sample_store_def sample_ticket_def storable_ticket_def)

end
