(* ===== verification/Session_Resumption.thy ===== *)
theory Session_Resumption
  imports File_Session_Store
begin

text \<open>
  \<open>session_resumption_manager\<close> of transport/session_resumption.cpp: the 0-RTT client side on top
  of one of the two ticket stores. The manager is the client of \<open>session_store_laws\<close>: the pointer to
  the abstract store is a sum of the two implementations, and the laws hold of the dispatching
  operations.
\<close>

section \<open>The store pointer\<close>

datatype session_store = Memory_Store memory_session_store | File_Store file_session_store

type_synonym store_state = "session_store \<times> filesystem"

definition store_ticket_in :: "io_env \<Rightarrow> int \<Rightarrow> session_ticket \<Rightarrow> store_state \<Rightarrow> store_state \<times> unit result" where
  "store_ticket_in io now t = (\<lambda>(s, fs). case s of
       Memory_Store m \<Rightarrow> (case ms_store now t m of (m, r) \<Rightarrow> ((Memory_Store m, fs), r))
     | File_Store f \<Rightarrow> (case fss_store io now t (f, fs) of ((f, fs), r) \<Rightarrow> ((File_Store f, fs), r)))"

definition store_retrieve :: "int \<Rightarrow> string \<Rightarrow> store_state \<Rightarrow> store_state \<times> session_ticket option" where
  "store_retrieve now k = (\<lambda>(s, fs). case s of
       Memory_Store m \<Rightarrow> (case ms_retrieve now k m of (m, r) \<Rightarrow> ((Memory_Store m, fs), r))
     | File_Store f \<Rightarrow> (case fss_retrieve now k (f, fs) of ((f, fs), r) \<Rightarrow> ((File_Store f, fs), r)))"

definition store_remove :: "string \<Rightarrow> store_state \<Rightarrow> store_state \<times> bool" where
  "store_remove k = (\<lambda>(s, fs). case s of
       Memory_Store m \<Rightarrow> (case ms_remove k m of (m, r) \<Rightarrow> ((Memory_Store m, fs), r))
     | File_Store f \<Rightarrow> (case fss_remove k (f, fs) of ((f, fs), r) \<Rightarrow> ((File_Store f, fs), r)))"

definition store_cleanup :: "int \<Rightarrow> store_state \<Rightarrow> store_state \<times> nat" where
  "store_cleanup now = (\<lambda>(s, fs). case s of
       Memory_Store m \<Rightarrow> (case ms_cleanup_expired now m of (m, r) \<Rightarrow> ((Memory_Store m, fs), r))
     | File_Store f \<Rightarrow> (case fss_cleanup_expired now (f, fs) of ((f, fs), r) \<Rightarrow> ((File_Store f, fs), r)))"

definition store_clear :: "store_state \<Rightarrow> store_state" where
  "store_clear = (\<lambda>(s, fs). case s of
       Memory_Store m \<Rightarrow> (Memory_Store (ms_clear m), fs)
     | File_Store f \<Rightarrow> (case fss_clear (f, fs) of (f, fs) \<Rightarrow> (File_Store f, fs)))"

fun tickets_of :: "session_store \<Rightarrow> ticket_map" where
  "tickets_of (Memory_Store m) = ms_tickets m"
| "tickets_of (File_Store f) = fss_tickets f"

fun config_of :: "session_store \<Rightarrow> session_store_config" where
  "config_of (Memory_Store m) = ms_config m"
| "config_of (File_Store f) = fss_config f"

lemma store_state_cases [case_names memory file_store]:
  obtains (memory) m fs where "(s :: store_state) = (Memory_Store m, fs)"
  | (file_store) f fs where "s = (File_Store f, fs)"
  by (cases s; cases "fst s") auto

lemma dispatch_simps:
  "store_ticket_in io now t (Memory_Store m, fs) = ((Memory_Store (fst (ms_store now t m)), fs), snd (ms_store now t m))"
  "store_ticket_in io now t (File_Store f, fs) =
     (map_prod File_Store id (fst (fss_store io now t (f, fs))), snd (fss_store io now t (f, fs)))"
  "store_retrieve now k (Memory_Store m, fs) = ((Memory_Store (fst (ms_retrieve now k m)), fs), snd (ms_retrieve now k m))"
  "store_retrieve now k (File_Store f, fs) =
     (map_prod File_Store id (fst (fss_retrieve now k (f, fs))), snd (fss_retrieve now k (f, fs)))"
  "store_remove k (Memory_Store m, fs) = ((Memory_Store (fst (ms_remove k m)), fs), snd (ms_remove k m))"
  "store_remove k (File_Store f, fs) =
     (map_prod File_Store id (fst (fss_remove k (f, fs))), snd (fss_remove k (f, fs)))"
  "store_cleanup now (Memory_Store m, fs) =
     ((Memory_Store (fst (ms_cleanup_expired now m)), fs), snd (ms_cleanup_expired now m))"
  "store_cleanup now (File_Store f, fs) =
     (map_prod File_Store id (fst (fss_cleanup_expired now (f, fs))), snd (fss_cleanup_expired now (f, fs)))"
  "store_clear (Memory_Store m, fs) = (Memory_Store (ms_clear m), fs)"
  "store_clear (File_Store f, fs) = map_prod File_Store id (fss_clear (f, fs))"
  by (simp_all add: store_ticket_in_def store_retrieve_def store_remove_def store_cleanup_def store_clear_def
      map_prod_def split: prod.splits)

lemma fst_map_prod [simp]: "fst (map_prod f g p) = f (fst p)"
  by (cases p) simp

interpretation any_store: session_store_laws "store_ticket_in io" store_retrieve store_remove store_cleanup
  store_clear "\<lambda>s. al_find (tickets_of (fst s))" "\<lambda>s. min_remaining_lifetime (config_of (fst s))"
  "\<lambda>s. al_distinct (tickets_of (fst s))"
proof (unfold_locales, goal_cases)
  case (2 s k t now)
  show ?case
  proof (cases s rule: store_state_cases)
    case (memory m fs)
    with 2 mem.store_old [of m k t now] show ?thesis by (simp add: dispatch_simps)
  next
    case (file_store f fs)
    with 2 file_store.store_old [of "(f, fs)" k t io now] show ?thesis by (simp add: dispatch_simps)
  qed
qed (case_tac s rule: store_state_cases;
     simp add: dispatch_simps mem.store_new file_store.store_new mem.store_ok file_store.store_ok
       mem.retrieve_result file_store.retrieve_result mem.retrieve_held file_store.retrieve_held
       mem.remove_held file_store.remove_held mem.remove_result file_store.remove_result
       mem.cleanup_held file_store.cleanup_held mem.clear_held file_store.clear_held
       mem.invar_store file_store.invar_store mem.invar_retrieve file_store.invar_retrieve
       mem.invar_remove file_store.invar_remove mem.invar_cleanup file_store.invar_cleanup
       mem.min_life_store file_store.min_life_store mem.min_life_remove file_store.min_life_remove cong: option.case_cong)+

section \<open>The manager\<close>

text \<open>
  The three callbacks of the configuration are observed as events; the flags say which of them are
  set. Arithmetic on time points is unbounded. An operation reads the clock once (\<open>now\<close>).
\<close>

record session_resumption_config =
  enable_0rtt :: bool
  store_config :: session_store_config
  rejected_callback :: bool
  accepted_callback :: bool
  received_callback :: bool

datatype session_event = On_0rtt_rejected string | On_0rtt_accepted string | On_ticket_received session_ticket

record session_manager =
  sm_config :: session_resumption_config
  sm_store :: session_store

type_synonym manager_state = "session_manager \<times> filesystem"

text \<open>\<open>None\<close>: the constructor of the file store threw.\<close>

definition create_session_manager ::
  "io_env \<Rightarrow> int \<Rightarrow> session_resumption_config \<Rightarrow> filesystem \<Rightarrow> session_manager option" where
  "create_session_manager io now cfg fs =
     (let memory = Memory_Store (make_memory_store (store_config cfg));
          with_store = (\<lambda>s. \<lparr>sm_config = cfg, sm_store = s\<rparr>)
      in if ss_storage_path (store_config cfg) \<noteq> []
         then (case create_file_store io now (store_config cfg) fs of
                 None \<Rightarrow> None
               | Some None \<Rightarrow> Some (with_store memory)
               | Some (Some f) \<Rightarrow> Some (with_store (File_Store f)))
         else Some (with_store memory))"

definition make_server_id :: "string \<Rightarrow> u16 \<Rightarrow> string" where
  "make_server_id host port = host @ '':'' @ dec_digits (unat port)"

definition on_store :: "(store_state \<Rightarrow> store_state \<times> 'a) \<Rightarrow> manager_state \<Rightarrow> manager_state \<times> 'a" where
  "on_store f = (\<lambda>(m, fs). case f (sm_store m, fs) of ((s, fs), r) \<Rightarrow> ((m\<lparr>sm_store := s\<rparr>, fs), r))"

definition get_session :: "int \<Rightarrow> string \<Rightarrow> u16 \<Rightarrow> manager_state \<Rightarrow> manager_state \<times> session_ticket option" where
  "get_session now host port = on_store (store_retrieve now (make_server_id host port))"

definition get_ticket_for_server :: "int \<Rightarrow> string \<Rightarrow> u16 \<Rightarrow> manager_state \<Rightarrow> manager_state \<times> bytes option" where
  "get_ticket_for_server now host port st =
     (if \<not> enable_0rtt (sm_config (fst st)) then (st, None)
      else case on_store (store_retrieve now (make_server_id host port)) st of
        (st, None) \<Rightarrow> (st, None)
      | (st, Some t) \<Rightarrow> if \<not> allows_early_data now t then (st, None) else (st, Some (ticket_data t)))"

definition can_use_0rtt :: "int \<Rightarrow> string \<Rightarrow> u16 \<Rightarrow> manager_state \<Rightarrow> manager_state \<times> bool" where
  "can_use_0rtt now host port st =
     (if \<not> enable_0rtt (sm_config (fst st)) then (st, False)
      else case on_store (store_retrieve now (make_server_id host port)) st of
        (st, t) \<Rightarrow> (st, case t of None \<Rightarrow> False | Some t \<Rightarrow> allows_early_data now t))"

definition new_ticket ::
  "session_resumption_config \<Rightarrow> int \<Rightarrow> string \<Rightarrow> u16 \<Rightarrow> bytes \<Rightarrow> int option \<Rightarrow> u32 \<Rightarrow> string \<Rightarrow> session_ticket" where
  "new_ticket cfg now host port bs lifetime early alpn =
     (let secs = (case lifetime of None \<Rightarrow> default_lifetime (store_config cfg) | Some l \<Rightarrow> l)
      in \<lparr>server_id = make_server_id host port, ticket_data = bs, issued_at = now,
          expires_at = now + secs * 1000000000, max_early_data_size = early, alpn_protocol = alpn,
          server_name = host\<rparr>)"

definition store_ticket ::
  "io_env \<Rightarrow> int \<Rightarrow> string \<Rightarrow> u16 \<Rightarrow> bytes \<Rightarrow> int option \<Rightarrow> u32 \<Rightarrow> string \<Rightarrow> manager_state \<Rightarrow>
   (manager_state \<times> unit result) \<times> session_event list" where
  "store_ticket io now host port bs lifetime early alpn st =
     (let t = new_ticket (sm_config (fst st)) now host port bs lifetime early alpn
      in case on_store (store_ticket_in io now t) st of
           (st, r) \<Rightarrow> ((st, r), if has_value r \<and> received_callback (sm_config (fst st)) then [On_ticket_received t] else []))"

definition on_0rtt_rejected :: "string \<Rightarrow> u16 \<Rightarrow> manager_state \<Rightarrow> manager_state \<times> session_event list" where
  "on_0rtt_rejected host port st =
     (let k = make_server_id host port
      in (fst (on_store (store_remove k) st),
          if rejected_callback (sm_config (fst st)) then [On_0rtt_rejected k] else []))"

definition on_0rtt_accepted :: "string \<Rightarrow> u16 \<Rightarrow> manager_state \<Rightarrow> session_event list" where
  "on_0rtt_accepted host port st =
     (if accepted_callback (sm_config (fst st)) then [On_0rtt_accepted (make_server_id host port)] else [])"

definition remove_ticket :: "string \<Rightarrow> u16 \<Rightarrow> manager_state \<Rightarrow> manager_state \<times> bool" where
  "remove_ticket host port = on_store (store_remove (make_server_id host port))"

definition clear_all_tickets :: "manager_state \<Rightarrow> manager_state" where
  "clear_all_tickets st = fst (on_store (\<lambda>s. (store_clear s, ())) st)"

section \<open>Histories\<close>

text \<open>The calls a connection makes, each at its own time and in its own environment.\<close>

datatype session_call =
  Get_ticket string u16
| Get_session string u16
| Can_use_0rtt string u16
| Store_ticket string u16 bytes "int option" u32 string
| Rejected string u16
| Accepted string u16
| Remove_ticket string u16
| Clear_all
| Cleanup

fun session_step :: "io_env \<times> int \<times> session_call \<Rightarrow> manager_state \<Rightarrow> manager_state" where
  "session_step (io, now, Get_ticket h p) st = fst (get_ticket_for_server now h p st)"
| "session_step (io, now, Get_session h p) st = fst (get_session now h p st)"
| "session_step (io, now, Can_use_0rtt h p) st = fst (can_use_0rtt now h p st)"
| "session_step (io, now, Store_ticket h p bs l e a) st = fst (fst (store_ticket io now h p bs l e a st))"
| "session_step (io, now, Rejected h p) st = fst (on_0rtt_rejected h p st)"
| "session_step (io, now, Accepted h p) st = st"
| "session_step (io, now, Remove_ticket h p) st = fst (remove_ticket h p st)"
| "session_step (io, now, Clear_all) st = clear_all_tickets st"
| "session_step (io, now, Cleanup) st = fst (on_store (store_cleanup now) st)"

definition session_run :: "(io_env \<times> int \<times> session_call) list \<Rightarrow> manager_state \<Rightarrow> manager_state" where
  "session_run = fold session_step"

fun stores_for :: "string \<Rightarrow> u16 \<Rightarrow> session_call \<Rightarrow> bool" where
  "stores_for h p (Store_ticket h' p' bs l e a) \<longleftrightarrow> h' = h \<and> p' = p"
| "stores_for h p c \<longleftrightarrow> False"

section \<open>What the manager promises\<close>

lemma dec_digits_inj: "dec_digits m = dec_digits n \<Longrightarrow> m = n"
  by (metis take_digits_dec)

lemma no_colon_dec: "c \<in> set (dec_digits n) \<Longrightarrow> c \<noteq> CHR '':''"
  using is_digit_dec_digits [of c n] by (auto simp: is_digit_def)

lemma make_server_id_inject [simp]: "make_server_id h p = make_server_id h' p' \<longleftrightarrow> h = h' \<and> p = p'"
proof
  assume eq: "make_server_id h p = make_server_id h' p'"
  have tw: "takeWhile (\<lambda>c. c \<noteq> CHR '':'') (rev (make_server_id h p)) = rev (dec_digits (unat p))" for h p
    by (auto simp: make_server_id_def takeWhile_append dest: no_colon_dec)
  have "dec_digits (unat p) = dec_digits (unat p')"
    using tw [of h p] tw [of h' p'] eq by simp
  then have "unat p = unat p'"
    by (rule dec_digits_inj)
  moreover from this eq have "h = h'"
    by (simp add: make_server_id_def)
  ultimately show "h = h' \<and> p = p'"
    by (simp add: word_unat_eq_iff)
qed simp

definition store_of :: "manager_state \<Rightarrow> store_state" where
  "store_of st = (sm_store (fst st), snd st)"

definition held_for :: "manager_state \<Rightarrow> string \<Rightarrow> session_ticket option" where
  "held_for st k = al_find (tickets_of (fst (store_of st))) k"

definition manager_ok :: "manager_state \<Rightarrow> bool" where
  "manager_ok st \<longleftrightarrow> al_distinct (tickets_of (fst (store_of st)))"

definition min_remaining :: "manager_state \<Rightarrow> int" where
  "min_remaining st = min_remaining_lifetime (config_of (fst (store_of st)))"

lemma on_store_simps [simp]:
  "store_of (fst (on_store f st)) = fst (f (store_of st))"
  "snd (on_store f st) = snd (f (store_of st))"
  "sm_config (fst (fst (on_store f st))) = sm_config (fst st)"
  by (simp_all add: on_store_def store_of_def split: prod.splits)

lemma ops_on_store:
  "fst (get_session now h p st) = fst (on_store (store_retrieve now (make_server_id h p)) st)"
  "fst (get_ticket_for_server now h p st) =
     (if enable_0rtt (sm_config (fst st)) then fst (on_store (store_retrieve now (make_server_id h p)) st) else st)"
  "fst (can_use_0rtt now h p st) =
     (if enable_0rtt (sm_config (fst st)) then fst (on_store (store_retrieve now (make_server_id h p)) st) else st)"
  "fst (on_0rtt_rejected h p st) = fst (on_store (store_remove (make_server_id h p)) st)"
  "fst (remove_ticket h p st) = fst (on_store (store_remove (make_server_id h p)) st)"
  "fst (fst (store_ticket io now h p bs l e a st)) =
     fst (on_store (store_ticket_in io now (new_ticket (sm_config (fst st)) now h p bs l e a)) st)"
  "clear_all_tickets st = fst (on_store (\<lambda>s. (store_clear s, ())) st)"
  by (simp_all add: get_session_def get_ticket_for_server_def can_use_0rtt_def on_0rtt_rejected_def store_ticket_def
      remove_ticket_def clear_all_tickets_def Let_def split: prod.splits option.splits)

lemma server_id_new_ticket [simp]: "server_id (new_ticket cfg now h p bs l e a) = make_server_id h p"
  by (simp add: new_ticket_def Let_def)

lemma clear_distinct: "al_distinct (tickets_of (fst (store_clear s)))"
  by (cases s rule: store_state_cases) (simp_all add: dispatch_simps ms_clear_def fss_clear_def)

lemma step_ok: "manager_ok st \<Longrightarrow> manager_ok (session_step c st)"
  by (cases "(c, st)" rule: session_step.cases)
     (simp_all add: manager_ok_def ops_on_store clear_distinct any_store.invar_store any_store.invar_retrieve
        any_store.invar_remove any_store.invar_cleanup)

lemma step_keeps_absent:
  assumes "manager_ok st" and "held_for st (make_server_id h p) = None" and "\<not> stores_for h p (snd (snd c))"
  shows "held_for (session_step c st) (make_server_id h p) = None"
  using assms
proof (cases "(c, st)" rule: session_step.cases)
  case (4 io now h' p' bs l e a st')
  have "make_server_id h p \<noteq> server_id (new_ticket (sm_config (fst st)) now h' p' bs l e a)"
    using assms(3) 4 by auto
  from any_store.store_old [OF _ this, of "store_of st" io now] show ?thesis
    using assms 4 by (simp add: manager_ok_def held_for_def ops_on_store)
qed (simp_all add: manager_ok_def held_for_def ops_on_store any_store.retrieve_held any_store.remove_held
      any_store.clear_held any_store.cleanup_held)

lemma run_keeps_absent:
  assumes "manager_ok st" and "held_for st (make_server_id h p) = None"
    and "\<forall>c \<in> set cs. \<not> stores_for h p (snd (snd c))"
  shows "manager_ok (session_run cs st) \<and> held_for (session_run cs st) (make_server_id h p) = None"
  using assms
  by (induction cs arbitrary: st) (simp_all add: session_run_def step_ok step_keeps_absent)

lemma run_ok: "manager_ok st \<Longrightarrow> manager_ok (session_run cs st)"
  by (induction cs arbitrary: st) (simp_all add: session_run_def step_ok)

lemma load_tickets_distinct: "al_distinct m \<Longrightarrow> al_distinct (load_tickets now n s m)"
  by (induction now n s m rule: load_tickets.induct) (auto simp: al_distinct_update split: prod.splits)

lemma load_internal_distinct:
  "al_distinct (fss_tickets s) \<Longrightarrow> al_distinct (fss_tickets (fst (fst (load_internal io now (s, fs)))))"
  by (auto simp: load_internal_def Let_def load_tickets_distinct split: option.splits prod.splits)

lemma create_ok: "create_session_manager io now cfg fs = Some m \<Longrightarrow> manager_ok (m, fs)"
  using load_internal_distinct [of "empty_file_store (store_config cfg)" io now fs]
  by (auto simp: create_session_manager_def Let_def create_file_store_def manager_ok_def store_of_def
      make_memory_store_def empty_file_store_def split: if_splits option.splits prod.splits)

text \<open>What is offered: the one place where the three queries and the retrieval law meet.\<close>

definition offered :: "int \<Rightarrow> manager_state \<Rightarrow> string \<Rightarrow> session_ticket option" where
  "offered now st k =
     (case held_for st k of None \<Rightarrow> None
      | Some t \<Rightarrow> if enable_0rtt (sm_config (fst st)) \<and> usable (min_remaining st) now t \<and> 0 < max_early_data_size t
                  then Some t else None)"

lemma query_results:
  "snd (get_ticket_for_server now h p st) =
     (if enable_0rtt (sm_config (fst st))
      then (case snd (store_retrieve now (make_server_id h p) (store_of st)) of None \<Rightarrow> None
            | Some t \<Rightarrow> if allows_early_data now t then Some (ticket_data t) else None)
      else None)"
  "snd (can_use_0rtt now h p st) \<longleftrightarrow> enable_0rtt (sm_config (fst st)) \<and>
     (case snd (store_retrieve now (make_server_id h p) (store_of st)) of None \<Rightarrow> False
      | Some t \<Rightarrow> allows_early_data now t)"
  by (simp_all add: get_ticket_for_server_def can_use_0rtt_def flip: on_store_simps(2) split: prod.splits option.splits)

lemma query_offered:
  assumes "manager_ok st"
  shows "snd (get_ticket_for_server now h p st) = map_option ticket_data (offered now st (make_server_id h p))"
    and "snd (can_use_0rtt now h p st) \<longleftrightarrow> offered now st (make_server_id h p) \<noteq> None"
  using assms
  by (auto simp: query_results any_store.retrieve_result manager_ok_def offered_def held_for_def min_remaining_def
      usable_def allows_early_data_def split: option.splits)

lemma get_session_held:
  "manager_ok st \<Longrightarrow> held_for st (make_server_id h p) = None \<Longrightarrow> snd (get_session now h p st) = None"
  by (simp add: get_session_def manager_ok_def held_for_def any_store.retrieve_result)


text \<open>C9: after the server has rejected early data, no history of further calls makes the manager offer a ticket
  for that server again until a new one is stored for exactly that host and port, whatever happens to other servers,
  and for both kinds of store.\<close>

theorem rejected_ticket_never_offered:
  assumes "create_session_manager io now cfg fs = Some m" and "st = session_run before (m, fs)"
    and "\<forall>c \<in> set later. \<not> stores_for host port (snd (snd c))"
    and "st' = session_run later (fst (on_0rtt_rejected host port st))"
  shows "snd (get_ticket_for_server t host port st') = None \<and> \<not> snd (can_use_0rtt t host port st') \<and>
         snd (get_session t host port st') = None"
proof -
  have "manager_ok st"
    using create_ok [OF assms(1)] run_ok assms(2) by blast
  then have "manager_ok (fst (on_0rtt_rejected host port st))"
    "held_for (fst (on_0rtt_rejected host port st)) (make_server_id host port) = None"
    by (simp_all add: manager_ok_def held_for_def ops_on_store any_store.invar_remove any_store.remove_held)
  from run_keeps_absent [OF this assms(3)]
  have "manager_ok st'" "held_for st' (make_server_id host port) = None"
    by (simp_all add: assms(4))
  then show ?thesis
    by (simp_all add: query_offered get_session_held offered_def)
qed

definition sample_session_config :: session_resumption_config where
  "sample_session_config = \<lparr>enable_0rtt = True, store_config = default_store_config, rejected_callback = True,
     accepted_callback = True, received_callback = False\<rparr>"

definition sample_manager :: session_manager where
  "sample_manager = \<lparr>sm_config = sample_session_config, sm_store = Memory_Store (make_memory_store default_store_config)\<rparr>"

lemma create_sample: "create_session_manager reliable 0 sample_session_config Map.empty = Some sample_manager"
  by (simp add: create_session_manager_def Let_def sample_session_config_def default_store_config_def sample_manager_def)

theorem rejected_ticket_never_offered_witness:
  "let st' = session_run [(reliable, 8, Store_ticket ''h'' 8443 [2] None 1 [])]
       (fst (on_0rtt_rejected ''h'' 443
         (session_run [(reliable, 7, Store_ticket ''h'' 443 [1] None 1 [])] (sample_manager, Map.empty))))
   in snd (get_ticket_for_server 9 ''h'' 443 st') = None \<and> \<not> snd (can_use_0rtt 9 ''h'' 443 st') \<and>
      snd (get_session 9 ''h'' 443 st') = None"
  unfolding Let_def by (rule rejected_ticket_never_offered [OF create_sample refl _ refl]) simp

lemma trunc_div_billion: "0 < d \<Longrightarrow> trunc_div d 1000000000 < m \<longleftrightarrow> d < m * 1000000000"
  by (auto simp: trunc_div_def)

text \<open>A stored ticket is handed out, as the bytes that were stored, exactly while 0-RTT is enabled, the ticket
  allows early data and at least the minimal remaining lifetime is left; then a retrieval by \<open>can_use_0rtt\<close> agrees.
  Refused once, it is gone for good.\<close>

theorem stored_ticket_offered_while_fresh:
  assumes "create_session_manager io0 t0 cfg fs = Some m" and "st = session_run before (m, fs)"
    and "st' = fst (fst (store_ticket io now host port bs lifetime early alpn st))"
    and "secs = (case lifetime of None \<Rightarrow> default_lifetime (store_config (sm_config (fst st))) | Some l \<Rightarrow> l)"
    and "0 \<le> min_remaining st"
  shows "snd (get_ticket_for_server t host port st') =
           (if enable_0rtt (sm_config (fst st)) \<and> 0 < early \<and> t < now + secs * 1000000000 \<and>
               min_remaining st * 1000000000 \<le> now + secs * 1000000000 - t
            then Some bs else None) \<and>
         (snd (can_use_0rtt t host port st') \<longleftrightarrow> snd (get_ticket_for_server t host port st') \<noteq> None) \<and>
         (snd (get_session t host port st') = None \<longrightarrow>
          snd (get_session t' host port (fst (get_session t host port st'))) = None)"
proof (intro conjI)
  have ok: "manager_ok st"
    using create_ok [OF assms(1)] run_ok assms(2) by blast
  let ?t = "new_ticket (sm_config (fst st)) now host port bs lifetime early alpn"
  have ok': "manager_ok st'"
    using ok by (simp add: assms(3) manager_ok_def ops_on_store any_store.invar_store)
  have held: "held_for st' (make_server_id host port) = Some ?t"
    using any_store.store_new [of "store_of st" io now ?t] ok
    by (simp add: assms(3) manager_ok_def held_for_def ops_on_store)
  have keep: "min_remaining st' = min_remaining st" "sm_config (fst st') = sm_config (fst st)"
    by (simp_all add: assms(3) min_remaining_def ops_on_store any_store.min_life_store)
  show "snd (get_ticket_for_server t host port st') =
           (if enable_0rtt (sm_config (fst st)) \<and> 0 < early \<and> t < now + secs * 1000000000 \<and>
               min_remaining st * 1000000000 \<le> now + secs * 1000000000 - t
            then Some bs else None)"
    by (simp add: query_offered(1) [OF ok'] offered_def held keep usable_def is_valid_def time_until_expiry_def
        new_ticket_def Let_def flip: assms(4)) (auto simp: trunc_div_billion)
  show "snd (can_use_0rtt t host port st') \<longleftrightarrow> snd (get_ticket_for_server t host port st') \<noteq> None"
    by (simp add: query_offered [OF ok'])
  show "snd (get_session t host port st') = None \<longrightarrow>
         snd (get_session t' host port (fst (get_session t host port st'))) = None"
    using ok' any_store.retrieve_refused [of "store_of st'" t "make_server_id host port" t']
    by (simp add: get_session_def manager_ok_def)
qed

theorem stored_ticket_offered_while_fresh_witness:
  "snd (get_ticket_for_server 500 ''h'' 443
     (fst (fst (store_ticket reliable 7 ''h'' 443 [1, 2] None 1 [] (session_run [] (sample_manager, Map.empty)))))) =
   Some [1, 2]"
  using stored_ticket_offered_while_fresh [OF create_sample refl refl refl,
      where before = "[]" and io = reliable and now = 7 and host = "''h''" and port = 443 and bs = "[1, 2]"
        and lifetime = None and early = 1 and alpn = "[]" and t = 500]
  by (simp add: session_run_def min_remaining_def store_of_def sample_manager_def sample_session_config_def
       default_store_config_def make_memory_store_def)

end
