(* ===== verification/Connection_Migration.thy ===== *)
theory Connection_Migration
  imports File_System
begin

text \<open>
  transport/connection_migration.h and transport/connection_migration.cpp: moving a QUIC connection
  between network paths. What \<open>getifaddrs\<close> returns at its k-th call and what the steady clock
  shows at its k-th reading are streams (\<open>net_env\<close>), because the code asks again in every probe and
  every validation; the manager counts the calls. The branch for Linux is modelled. Callbacks
  are a trace of events, without their time stamps, and do not call back into the manager.
  The monitor thread is a step that the environment takes (\<open>monitor_step\<close>); steps do not overlap.
\<close>

section \<open>Data\<close>

record network_path =
  local_address :: string
  local_port :: u16
  remote_address :: string
  remote_port :: u16
  interface_name :: string
  validated :: bool
  rtt :: int
  created_at :: int

definition default_path :: network_path where
  "default_path = \<lparr>local_address = [], local_port = 0, remote_address = [], remote_port = 0,
     interface_name = [], validated = False, rtt = 0, created_at = 0\<rparr>"

definition path_eq :: "network_path \<Rightarrow> network_path \<Rightarrow> bool" where
  "path_eq p q \<longleftrightarrow> local_address p = local_address q \<and> local_port p = local_port q \<and>
     remote_address p = remote_address q \<and> remote_port p = remote_port q"

definition path_to_string :: "network_path \<Rightarrow> string" where
  "path_to_string p = local_address p @ '':'' @ dec_digits (unat (local_port p)) @ '' -> '' @
     remote_address p @ '':'' @ dec_digits (unat (remote_port p))"

datatype migration_state = Idle | Detecting | Probing | Validating | Migrating | Completed | Failed

fun migration_state_to_string :: "migration_state \<Rightarrow> string" where
  "migration_state_to_string Idle = ''idle''"
| "migration_state_to_string Detecting = ''detecting''"
| "migration_state_to_string Probing = ''probing''"
| "migration_state_to_string Validating = ''validating''"
| "migration_state_to_string Migrating = ''migrating''"
| "migration_state_to_string Completed = ''completed''"
| "migration_state_to_string Failed = ''failed''"

datatype migration_event =
  Network_change_detected | Path_probe_started | Path_probe_succeeded | Path_probe_failed
| Migration_started | Migration_completed | Migration_failed | Path_validated | Path_degraded
| Fallback_triggered

fun migration_event_to_string :: "migration_event \<Rightarrow> string" where
  "migration_event_to_string Network_change_detected = ''network_change_detected''"
| "migration_event_to_string Path_probe_started = ''path_probe_started''"
| "migration_event_to_string Path_probe_succeeded = ''path_probe_succeeded''"
| "migration_event_to_string Path_probe_failed = ''path_probe_failed''"
| "migration_event_to_string Migration_started = ''migration_started''"
| "migration_event_to_string Migration_completed = ''migration_completed''"
| "migration_event_to_string Migration_failed = ''migration_failed''"
| "migration_event_to_string Path_validated = ''path_validated''"
| "migration_event_to_string Path_degraded = ''path_degraded''"
| "migration_event_to_string Fallback_triggered = ''fallback_triggered''"

record migration_event_data =
  ev_event :: migration_event
  ev_old_path :: "network_path option"
  ev_new_path :: "network_path option"
  ev_error_message :: string

definition make_event :: "migration_event \<Rightarrow> migration_event_data" where
  "make_event e = \<lparr>ev_event = e, ev_old_path = None, ev_new_path = None, ev_error_message = []\<rparr>"

record migration_result =
  success :: bool
  old_path :: network_path
  new_path :: network_path
  duration :: int
  mr_error_message :: string

definition succeeded :: "network_path \<Rightarrow> network_path \<Rightarrow> int \<Rightarrow> migration_result" where
  "succeeded old_p new_p dur =
     \<lparr>success = True, old_path = old_p, new_path = new_p, duration = dur, mr_error_message = []\<rparr>"

definition failed :: "network_path \<Rightarrow> string \<Rightarrow> migration_result" where
  "failed old_p err =
     \<lparr>success = False, old_path = old_p, new_path = default_path, duration = 0, mr_error_message = err\<rparr>"

record migration_statistics =
  total_migrations :: u64
  successful_migrations :: u64
  failed_migrations :: u64
  path_probes :: u64
  network_changes :: u64
  total_downtime :: int
  avg_migration_time :: u64

definition zero_statistics :: migration_statistics where
  "zero_statistics = \<lparr>total_migrations = 0, successful_migrations = 0, failed_migrations = 0,
     path_probes = 0, network_changes = 0, total_downtime = 0, avg_migration_time = 0\<rparr>"

text \<open>The options the code reads; the others of \<open>migration_config\<close> have no effect.\<close>

record migration_config =
  auto_migrate :: bool
  enable_path_probing :: bool
  enable_fallback :: bool
  keep_previous_paths :: bool
  max_previous_paths :: nat

definition default_migration_config :: migration_config where
  "default_migration_config = \<lparr>auto_migrate = True, enable_path_probing = True, enable_fallback = True,
     keep_previous_paths = True, max_previous_paths = 3\<rparr>"

record network_interface =
  ni_name :: string
  ni_address :: string
  is_up :: bool
  is_wireless :: bool
  priority :: int

text \<open>An entry of the list \<open>getifaddrs\<close> gives: whether it has an address and is IPv4.\<close>

record if_addr =
  ifa_has_addr :: bool
  ifa_inet :: bool
  ifa_name :: string
  ifa_up :: bool
  ifa_ip :: string

record net_env =
  if_addrs_at :: "nat \<Rightarrow> if_addr list option"
  clock_at :: "nat \<Rightarrow> int"

datatype migration_notice = Migration_notice migration_event_data | Network_notice "network_interface list"

record migration_manager =
  mm_config :: migration_config
  mm_state :: migration_state
  current_path :: "network_path option"
  previous_paths :: "network_path list"
  mm_stats :: migration_statistics
  monitoring :: bool
  last_known_interfaces :: "network_interface list"
  event_cb :: bool
  network_cb :: bool
  trace :: "migration_notice list"
  if_reads :: nat
  clock_reads :: nat

definition create_migration_manager :: "migration_config \<Rightarrow> migration_manager" where
  "create_migration_manager cfg =
     \<lparr>mm_config = cfg, mm_state = Idle, current_path = None, previous_paths = [], mm_stats = zero_statistics,
      monitoring = False, last_known_interfaces = [], event_cb = False, network_cb = False, trace = [],
      if_reads = 0, clock_reads = 0\<rparr>"

section \<open>Helpers of the implementation class\<close>

definition set_state :: "migration_state \<Rightarrow> migration_manager \<Rightarrow> migration_manager" where
  "set_state s m = m\<lparr>mm_state := s\<rparr>"

definition emit_event :: "migration_event_data \<Rightarrow> migration_manager \<Rightarrow> migration_manager" where
  "emit_event e m = (if event_cb m then m\<lparr>trace := trace m @ [Migration_notice e]\<rparr> else m)"

definition emit_network_change :: "network_interface list \<Rightarrow> migration_manager \<Rightarrow> migration_manager" where
  "emit_network_change ifs m = (if network_cb m then m\<lparr>trace := trace m @ [Network_notice ifs]\<rparr> else m)"

text \<open>The average is computed in unsigned 64-bit arithmetic.\<close>

definition update_stats :: "migration_result \<Rightarrow> migration_manager \<Rightarrow> migration_manager" where
  "update_stats r m =
     (let s = mm_stats m; s = s\<lparr>total_migrations := total_migrations s + 1\<rparr>
      in m\<lparr>mm_stats :=
        (if success r
         then let n = successful_migrations s + 1;
                  total_time = avg_migration_time s * (n - 1) + word_of_int (duration r)
              in s\<lparr>successful_migrations := n, avg_migration_time := total_time div n\<rparr>
         else s\<lparr>failed_migrations := failed_migrations s + 1, total_downtime := total_downtime s + duration r\<rparr>)\<rparr>)"

definition add_previous_path :: "network_path \<Rightarrow> migration_manager \<Rightarrow> migration_manager" where
  "add_previous_path p m =
     m\<lparr>previous_paths := take (max_previous_paths (mm_config m))
         (p # filter (\<lambda>q. \<not> path_eq q p) (previous_paths m))\<rparr>"

section \<open>Interfaces\<close>

definition starts_with :: "string \<Rightarrow> string \<Rightarrow> bool" where
  "starts_with pre s \<longleftrightarrow> take (length pre) s = pre"

definition to_interface :: "if_addr \<Rightarrow> network_interface" where
  "to_interface a =
     (let wireless = starts_with ''wlan'' (ifa_name a) \<or> starts_with ''wlp'' (ifa_name a)
      in \<lparr>ni_name = ifa_name a, ni_address = ifa_ip a, is_up = ifa_up a, is_wireless = wireless,
          priority = (if wireless then 1 else 2)\<rparr>)"

text \<open>\<open>std::sort\<close> leaves the order of equal priorities open; the model keeps the order of the list.\<close>

definition interfaces_of :: "if_addr list option \<Rightarrow> network_interface list" where
  "interfaces_of r =
     (case r of None \<Rightarrow> []
      | Some addrs \<Rightarrow>
          sort_key (\<lambda>i. - priority i)
            (map to_interface (filter (\<lambda>a. ifa_has_addr a \<and> ifa_inet a \<and> ifa_ip a \<noteq> ''127.0.0.1'') addrs)))"

definition get_available_interfaces ::
  "net_env \<Rightarrow> migration_manager \<Rightarrow> network_interface list \<times> migration_manager" where
  "get_available_interfaces env m = (interfaces_of (if_addrs_at env (if_reads m)), m\<lparr>if_reads := Suc (if_reads m)\<rparr>)"

definition read_clock :: "net_env \<Rightarrow> migration_manager \<Rightarrow> int \<times> migration_manager" where
  "read_clock env m = (clock_at env (clock_reads m), m\<lparr>clock_reads := Suc (clock_reads m)\<rparr>)"

definition address_up :: "string \<Rightarrow> network_interface list \<Rightarrow> bool" where
  "address_up ip ifs \<longleftrightarrow> (\<exists>i \<in> set ifs. ni_address i = ip \<and> is_up i)"

section \<open>Migration\<close>

definition probe_path :: "net_env \<Rightarrow> network_path \<Rightarrow> migration_manager \<Rightarrow> bool \<times> migration_manager" where
  "probe_path env p m =
     (let m = emit_event ((make_event Path_probe_started)\<lparr>ev_new_path := Some p\<rparr>) m;
          m = m\<lparr>mm_stats := (mm_stats m)\<lparr>path_probes := path_probes (mm_stats m) + 1\<rparr>\<rparr>
      in case get_available_interfaces env m of (ifs, m) \<Rightarrow>
           if address_up (local_address p) ifs
           then (True, emit_event ((make_event Path_probe_succeeded)\<lparr>ev_new_path := Some p\<rparr>) m)
           else (False, emit_event ((make_event Path_probe_failed)\<lparr>ev_new_path := Some p,
                          ev_error_message := ''Interface not found or down''\<rparr>) m))"

definition validate_path :: "net_env \<Rightarrow> network_path \<Rightarrow> migration_manager \<Rightarrow> bool \<times> migration_manager" where
  "validate_path env p m =
     (case get_available_interfaces env m of (ifs, m) \<Rightarrow>
        let valid = address_up (local_address p) ifs
        in (valid, if valid then emit_event ((make_event Path_validated)\<lparr>ev_new_path := Some p\<rparr>) m else m))"

definition begin_migration :: "network_path \<Rightarrow> migration_manager \<Rightarrow> migration_manager" where
  "begin_migration p m =
     emit_event ((make_event Migration_started)\<lparr>ev_old_path := current_path m, ev_new_path := Some p\<rparr>)
       (set_state Migrating m)"

definition elapsed :: "net_env \<Rightarrow> int \<Rightarrow> migration_manager \<Rightarrow> int \<times> migration_manager" where
  "elapsed env start m = (case read_clock env m of (t, m) \<Rightarrow> (trunc_div (t - start) 1000000, m))"

definition path_or_default :: "network_path option \<Rightarrow> network_path" where
  "path_or_default o' = (case o' of None \<Rightarrow> default_path | Some p \<Rightarrow> p)"

definition fail_migration ::
  "net_env \<Rightarrow> int \<Rightarrow> network_path \<Rightarrow> string \<Rightarrow> migration_manager \<Rightarrow> migration_manager \<times> migration_result" where
  "fail_migration env start p msg m =
     (case elapsed env start m of (d, m) \<Rightarrow>
        let m = set_state Failed m;
            m = emit_event ((make_event Migration_failed)\<lparr>ev_old_path := current_path m, ev_new_path := Some p,
                  ev_error_message := msg\<rparr>) m;
            r = (failed (path_or_default (current_path m)) msg)\<lparr>duration := d\<rparr>
        in (update_stats r m, r))"

definition complete_migration ::
  "net_env \<Rightarrow> int \<Rightarrow> network_path \<Rightarrow> migration_manager \<Rightarrow> migration_manager \<times> migration_result" where
  "complete_migration env start p m =
     (let m = (case current_path m of
                 None \<Rightarrow> m
               | Some c \<Rightarrow> if keep_previous_paths (mm_config m) then add_previous_path c m else m);
          old = path_or_default (current_path m);
          m = m\<lparr>current_path := Some (p\<lparr>validated := True\<rparr>)\<rparr>
      in case elapsed env start m of (d, m) \<Rightarrow>
           let m = set_state Completed m;
               m = emit_event ((make_event Migration_completed)\<lparr>ev_old_path := Some old, ev_new_path := Some p\<rparr>) m;
               r = succeeded old p d
           in (set_state Idle (update_stats r m), r))"

text \<open>The previous paths are probed in order until one answers.\<close>

fun probe_first :: "net_env \<Rightarrow> network_path list \<Rightarrow> migration_manager \<Rightarrow> network_path option \<times> migration_manager" where
  "probe_first env [] m = (None, m)"
| "probe_first env (p # ps) m =
     (case probe_path env p m of (ok, m) \<Rightarrow> if ok then (Some p, m) else probe_first env ps m)"

text \<open>
  \<open>migrate_to_path\<close> and \<open>fallback_to_previous\<close> call each other: the fallback gets the function that
  migrates as an argument. The first argument of \<open>migrate_to_path\<close> bounds the depth of its calls;
  \<open>None\<close> says that the bound was too small for the call to return.
\<close>

definition try_fallback ::
  "(network_path \<Rightarrow> migration_manager \<Rightarrow> (migration_manager \<times> migration_result result) option) \<Rightarrow> net_env \<Rightarrow>
   migration_manager \<Rightarrow> (migration_manager \<times> migration_result result) option" where
  "try_fallback migrate env m =
     (case previous_paths m of
        [] \<Rightarrow> Some (m, Inl Internal_error)
      | q # qs \<Rightarrow>
          let m = emit_event ((make_event Fallback_triggered)\<lparr>ev_new_path := Some q, ev_old_path := current_path m\<rparr>) m
          in case probe_first env (q # qs) m of
               (None, m) \<Rightarrow> Some (m, Inl Internal_error)
             | (Some p, m) \<Rightarrow> migrate p m)"

fun migrate_to_path ::
  "nat \<Rightarrow> net_env \<Rightarrow> network_path \<Rightarrow> migration_manager \<Rightarrow> (migration_manager \<times> migration_result result) option" where
  "migrate_to_path 0 env p m = None"
| "migrate_to_path (Suc n) env p m =
     (case read_clock env m of (start, m) \<Rightarrow>
        let m = begin_migration p m
        in case (if enable_path_probing (mm_config m) then probe_path env p (set_state Probing m) else (True, m)) of
             (probed, m) \<Rightarrow>
               if \<not> probed
               then (case fail_migration env start p ''Path probe failed'' m of (m, r) \<Rightarrow> Some (m, Inr r))
               else case validate_path env p (set_state Validating m) of (valid, m) \<Rightarrow>
                 if \<not> valid
                 then (case fail_migration env start p ''Path validation failed'' m of (m, r) \<Rightarrow>
                         if enable_fallback (mm_config m) \<and> previous_paths m \<noteq> []
                         then try_fallback (migrate_to_path n env) env m
                         else Some (m, Inr r))
                 else (case complete_migration env start p m of (m, r) \<Rightarrow> Some (m, Inr r)))"

definition fallback_to_previous ::
  "nat \<Rightarrow> net_env \<Rightarrow> migration_manager \<Rightarrow> (migration_manager \<times> migration_result result) option" where
  "fallback_to_previous n env = try_fallback (migrate_to_path n env) env"

section \<open>Monitoring and the other operations\<close>

definition interfaces_changed :: "network_interface list \<Rightarrow> network_interface list \<Rightarrow> bool" where
  "interfaces_changed cur last_known \<longleftrightarrow>
     length cur \<noteq> length last_known \<or>
     (\<exists>(a, b) \<in> set (zip cur last_known). ni_name a \<noteq> ni_name b \<or> ni_address a \<noteq> ni_address b \<or> is_up a \<noteq> is_up b)"

text \<open>
  The loop of the monitor thread that moves to another interface. \<open>current_path_\<close> has a value when
  the loop starts and is never reset. A path gets the time of its creation from the clock.
\<close>

fun auto_migrate_loop ::
  "nat \<Rightarrow> net_env \<Rightarrow> network_interface list \<Rightarrow> migration_manager \<Rightarrow> migration_manager option" where
  "auto_migrate_loop n env [] m = Some m"
| "auto_migrate_loop n env (i # ifs) m =
     (let cur = path_or_default (current_path m)
      in if is_up i \<and> ni_address i \<noteq> local_address cur
         then (case read_clock env m of (t, m) \<Rightarrow>
                 let p = default_path\<lparr>local_address := ni_address i, interface_name := ni_name i,
                           remote_address := remote_address cur, remote_port := remote_port cur, created_at := t\<rparr>
                 in case migrate_to_path n env p m of
                      None \<Rightarrow> None
                    | Some (m, Inr r) \<Rightarrow> if success r then Some m else auto_migrate_loop n env ifs m
                    | Some (m, Inl _) \<Rightarrow> auto_migrate_loop n env ifs m)
         else auto_migrate_loop n env ifs m)"

definition monitor_step :: "nat \<Rightarrow> net_env \<Rightarrow> migration_manager \<Rightarrow> migration_manager option" where
  "monitor_step n env m =
     (if \<not> monitoring m then Some m
      else case get_available_interfaces env m of (cur, m) \<Rightarrow>
        if interfaces_changed cur (last_known_interfaces m)
        then
          let m = m\<lparr>mm_stats := (mm_stats m)\<lparr>network_changes := network_changes (mm_stats m) + 1\<rparr>\<rparr>;
              m = emit_network_change cur (emit_event (make_event Network_change_detected) m);
              m = m\<lparr>last_known_interfaces := cur\<rparr>
          in if auto_migrate (mm_config m) \<and> current_path m \<noteq> None then auto_migrate_loop n env cur m else Some m
        else Some m)"

definition start_monitoring :: "net_env \<Rightarrow> migration_manager \<Rightarrow> migration_manager \<times> unit result" where
  "start_monitoring env m =
     (if monitoring m then (m, Inr ())
      else case get_available_interfaces env (set_state Detecting (m\<lparr>monitoring := True\<rparr>)) of
        (ifs, m) \<Rightarrow> (m\<lparr>last_known_interfaces := ifs\<rparr>, Inr ()))"

definition stop_monitoring :: "migration_manager \<Rightarrow> migration_manager" where
  "stop_monitoring m = set_state Idle (m\<lparr>monitoring := False\<rparr>)"

definition set_current_path :: "network_path \<Rightarrow> migration_manager \<Rightarrow> migration_manager" where
  "set_current_path p m = m\<lparr>current_path := Some p\<rparr>"

definition detect_network_changes ::
  "net_env \<Rightarrow> migration_manager \<Rightarrow> network_interface list \<times> migration_manager" where
  "detect_network_changes env m = get_available_interfaces env m"

definition on_migration_event :: "bool \<Rightarrow> migration_manager \<Rightarrow> migration_manager" where
  "on_migration_event callback m = m\<lparr>event_cb := callback\<rparr>"

definition on_network_change :: "bool \<Rightarrow> migration_manager \<Rightarrow> migration_manager" where
  "on_network_change callback m = m\<lparr>network_cb := callback\<rparr>"

definition reset_statistics :: "migration_manager \<Rightarrow> migration_manager" where
  "reset_statistics m = m\<lparr>mm_stats := zero_statistics\<rparr>"

definition set_migration_config :: "migration_config \<Rightarrow> migration_manager \<Rightarrow> migration_manager" where
  "set_migration_config cfg m = m\<lparr>mm_config := cfg\<rparr>"

definition is_migration_available :: "net_env \<Rightarrow> migration_manager \<Rightarrow> bool \<times> migration_manager" where
  "is_migration_available env m = (case get_available_interfaces env m of (ifs, m) \<Rightarrow> (length ifs > 1, m))"

definition cancel_migration :: "migration_manager \<Rightarrow> migration_manager" where
  "cancel_migration m =
     (if mm_state m \<in> {Migrating, Probing, Validating}
      then emit_event ((make_event Migration_failed)\<lparr>ev_error_message := ''Migration cancelled''\<rparr>) (set_state Idle m)
      else m)"

section \<open>What one step does\<close>

definition addr_up :: "net_env \<Rightarrow> nat \<Rightarrow> network_path \<Rightarrow> bool" where
  "addr_up env k p \<longleftrightarrow> address_up (local_address p) (interfaces_of (if_addrs_at env k))"

definition same_paths :: "migration_manager \<Rightarrow> migration_manager \<Rightarrow> bool" where
  "same_paths m m' \<longleftrightarrow> mm_config m' = mm_config m \<and> current_path m' = current_path m \<and>
     previous_paths m' = previous_paths m"

lemma same_paths_refl [simp]: "same_paths m m"
  by (simp add: same_paths_def)

lemma same_paths_trans: "same_paths a b \<Longrightarrow> same_paths b c \<Longrightarrow> same_paths a c"
  by (simp add: same_paths_def)

lemma emit_event_frame [simp]:
  "mm_config (emit_event e m) = mm_config m" "current_path (emit_event e m) = current_path m"
  "previous_paths (emit_event e m) = previous_paths m" "mm_stats (emit_event e m) = mm_stats m"
  "if_reads (emit_event e m) = if_reads m" "monitoring (emit_event e m) = monitoring m"
  by (simp_all add: emit_event_def)

lemma set_state_frame [simp]:
  "mm_config (set_state s m) = mm_config m" "current_path (set_state s m) = current_path m"
  "previous_paths (set_state s m) = previous_paths m" "mm_stats (set_state s m) = mm_stats m"
  "if_reads (set_state s m) = if_reads m"
  by (simp_all add: set_state_def)

lemma update_stats_frame [simp]:
  "mm_config (update_stats r m) = mm_config m" "current_path (update_stats r m) = current_path m"
  "previous_paths (update_stats r m) = previous_paths m" "if_reads (update_stats r m) = if_reads m"
  by (simp_all add: update_stats_def Let_def)

lemma read_clock_frame [simp]:
  "mm_config (snd (read_clock env m)) = mm_config m" "current_path (snd (read_clock env m)) = current_path m"
  "previous_paths (snd (read_clock env m)) = previous_paths m" "mm_stats (snd (read_clock env m)) = mm_stats m"
  "if_reads (snd (read_clock env m)) = if_reads m"
  by (simp_all add: read_clock_def)

lemma elapsed_frame [simp]: "snd (elapsed env start m) = snd (read_clock env m)"
  by (simp add: elapsed_def read_clock_def)

lemma begin_migration_frame [simp]:
  "mm_config (begin_migration p m) = mm_config m" "current_path (begin_migration p m) = current_path m"
  "previous_paths (begin_migration p m) = previous_paths m" "mm_stats (begin_migration p m) = mm_stats m"
  "if_reads (begin_migration p m) = if_reads m"
  by (simp_all add: begin_migration_def)

lemma add_previous_frame [simp]:
  "mm_config (add_previous_path p m) = mm_config m" "current_path (add_previous_path p m) = current_path m"
  "mm_stats (add_previous_path p m) = mm_stats m" "if_reads (add_previous_path p m) = if_reads m"
  by (simp_all add: add_previous_path_def)

lemma probe_path_frame [simp]:
  "fst (probe_path env p m) \<longleftrightarrow> addr_up env (if_reads m) p"
  "mm_config (snd (probe_path env p m)) = mm_config m" "current_path (snd (probe_path env p m)) = current_path m"
  "previous_paths (snd (probe_path env p m)) = previous_paths m"
  "if_reads (snd (probe_path env p m)) = Suc (if_reads m)"
  by (simp_all add: probe_path_def get_available_interfaces_def Let_def addr_up_def split: prod.splits)

lemma validate_path_frame [simp]:
  "fst (validate_path env p m) \<longleftrightarrow> addr_up env (if_reads m) p"
  "mm_config (snd (validate_path env p m)) = mm_config m" "current_path (snd (validate_path env p m)) = current_path m"
  "previous_paths (snd (validate_path env p m)) = previous_paths m" "mm_stats (snd (validate_path env p m)) = mm_stats m"
  "if_reads (snd (validate_path env p m)) = Suc (if_reads m)"
  by (simp_all add: validate_path_def get_available_interfaces_def Let_def addr_up_def split: prod.splits)

lemma fail_migration_frame [simp]:
  "mm_config (fst (fail_migration env start p msg m)) = mm_config m"
  "current_path (fst (fail_migration env start p msg m)) = current_path m"
  "previous_paths (fst (fail_migration env start p msg m)) = previous_paths m"
  "if_reads (fst (fail_migration env start p msg m)) = if_reads m"
  "\<not> success (snd (fail_migration env start p msg m))"
  by (simp_all add: fail_migration_def elapsed_def read_clock_def Let_def failed_def)

definition pushed_paths :: "migration_manager \<Rightarrow> network_path list" where
  "pushed_paths m =
     (case current_path m of None \<Rightarrow> previous_paths m
      | Some c \<Rightarrow> if keep_previous_paths (mm_config m) then previous_paths (add_previous_path c m) else previous_paths m)"

lemma complete_migration_frame [simp]:
  "mm_config (fst (complete_migration env start p m)) = mm_config m"
  "current_path (fst (complete_migration env start p m)) = Some (p\<lparr>validated := True\<rparr>)"
  "previous_paths (fst (complete_migration env start p m)) = pushed_paths m"
  "success (snd (complete_migration env start p m))" "new_path (snd (complete_migration env start p m)) = p"
  by (simp_all add: complete_migration_def elapsed_def read_clock_def Let_def succeeded_def pushed_paths_def split: option.splits)


text \<open>The invariant: every attempt is counted once as a success or a failure, and no path is
  remembered twice.\<close>

definition path_key :: "network_path \<Rightarrow> string \<times> u16 \<times> string \<times> u16" where
  "path_key p = (local_address p, local_port p, remote_address p, remote_port p)"

lemma path_eq_key: "path_eq p q \<longleftrightarrow> path_key p = path_key q"
  by (auto simp: path_eq_def path_key_def)

definition migration_inv :: "migration_manager \<Rightarrow> bool" where
  "migration_inv m \<longleftrightarrow>
     total_migrations (mm_stats m) = successful_migrations (mm_stats m) + failed_migrations (mm_stats m) \<and>
     distinct (map path_key (previous_paths m))"

lemma migration_inv_frame [simp]:
  "migration_inv (emit_event e m) = migration_inv m" "migration_inv (set_state s m) = migration_inv m"
  "migration_inv (snd (read_clock env m)) = migration_inv m" "migration_inv (begin_migration p m) = migration_inv m"
  "migration_inv (snd (probe_path env p m)) = migration_inv m"
  "migration_inv (snd (validate_path env p m)) = migration_inv m"
  "migration_inv (fst (fail_migration env start p msg m)) = migration_inv m"
  by (simp_all add: migration_inv_def probe_path_def get_available_interfaces_def fail_migration_def elapsed_def
      read_clock_def update_stats_def failed_def Let_def)

lemma distinct_add_previous:
  "distinct (map path_key (previous_paths m)) \<Longrightarrow> distinct (map path_key (previous_paths (add_previous_path p m)))"
  by (auto simp: add_previous_path_def path_eq_key distinct_map_filter simp flip: take_map
      intro!: distinct_take)

lemma migration_inv_complete: "migration_inv m \<Longrightarrow> migration_inv (fst (complete_migration env start p m))"
  using distinct_add_previous [of m]
  by (auto simp: migration_inv_def complete_migration_def elapsed_def read_clock_def update_stats_def succeeded_def
      Let_def split: option.splits)

lemma migrate_to_path_Suc:
  "migrate_to_path (Suc n) env p m =
     (let start = fst (read_clock env m); m0 = begin_migration p (snd (read_clock env m));
          pr = (if enable_path_probing (mm_config m) then probe_path env p (set_state Probing m0) else (True, m0));
          v = validate_path env p (set_state Validating (snd pr));
          f1 = fail_migration env start p ''Path probe failed'' (snd pr);
          f2 = fail_migration env start p ''Path validation failed'' (snd v);
          c = complete_migration env start p (snd v)
      in if \<not> fst pr then Some (fst f1, Inr (snd f1))
         else if \<not> fst v
         then if enable_fallback (mm_config m) \<and> previous_paths m \<noteq> [] then fallback_to_previous n env (fst f2)
              else Some (fst f2, Inr (snd f2))
         else Some (fst c, Inr (snd c)))"
  by (auto simp: Let_def split_beta fallback_to_previous_def)

declare migrate_to_path.simps(2) [simp del]

definition validation_read :: "migration_manager \<Rightarrow> nat" where
  "validation_read m = if_reads m + (if enable_path_probing (mm_config m) then 1 else 0)"

lemma migrate_to_path_cases:
  obtains (probe_failed) m' r where "enable_path_probing (mm_config m)" "\<not> addr_up env (if_reads m) p"
      "migrate_to_path (Suc n) env p m = Some (m', Inr r)" "\<not> success r" "same_paths m m'"
      "migration_inv m' = migration_inv m"
  | (invalid) m' r where "enable_path_probing (mm_config m) \<longrightarrow> addr_up env (if_reads m) p"
      "\<not> addr_up env (validation_read m) p" "same_paths m m'" "if_reads m' = Suc (validation_read m)" "\<not> success r"
      "migration_inv m' = migration_inv m"
      "migrate_to_path (Suc n) env p m =
         (if enable_fallback (mm_config m) \<and> previous_paths m \<noteq> [] then fallback_to_previous n env m'
          else Some (m', Inr r))"
  | (moved) m' r where "addr_up env (validation_read m) p"
      "enable_path_probing (mm_config m) \<longrightarrow> addr_up env (if_reads m) p"
      "migrate_to_path (Suc n) env p m = Some (m', Inr r)" "success r" "new_path r = p"
      "mm_config m' = mm_config m" "current_path m' = Some (p\<lparr>validated := True\<rparr>)" "previous_paths m' = pushed_paths m"
      "migration_inv m \<longrightarrow> migration_inv m'"
proof -
  define start where "start = fst (read_clock env m)"
  define m0 where "m0 = begin_migration p (snd (read_clock env m))"
  define pr where "pr = (if enable_path_probing (mm_config m) then probe_path env p (set_state Probing m0) else (True, m0))"
  define v where "v = validate_path env p (set_state Validating (snd pr))"
  note defs = start_def m0_def pr_def v_def
  have pr: "fst pr \<longleftrightarrow> (enable_path_probing (mm_config m) \<longrightarrow> addr_up env (if_reads m) p)"
    "mm_config (snd pr) = mm_config m" "current_path (snd pr) = current_path m"
    "previous_paths (snd pr) = previous_paths m" "if_reads (snd pr) = validation_read m"
    "migration_inv (snd pr) = migration_inv m"
    by (simp_all add: pr_def m0_def validation_read_def)
  have v: "fst v \<longleftrightarrow> addr_up env (validation_read m) p" "mm_config (snd v) = mm_config m"
    "current_path (snd v) = current_path m" "previous_paths (snd v) = previous_paths m"
    "if_reads (snd v) = Suc (validation_read m)" "migration_inv (snd v) = migration_inv m"
    by (simp_all add: v_def pr)
  have pushed: "pushed_paths (snd v) = pushed_paths m"
    by (simp add: pushed_paths_def v add_previous_path_def split: option.splits)
  have step: "migrate_to_path (Suc n) env p m =
     (let f1 = fail_migration env start p ''Path probe failed'' (snd pr);
          f2 = fail_migration env start p ''Path validation failed'' (snd v);
          c = complete_migration env start p (snd v)
      in if \<not> fst pr then Some (fst f1, Inr (snd f1))
         else if \<not> fst v
         then if enable_fallback (mm_config m) \<and> previous_paths m \<noteq> [] then fallback_to_previous n env (fst f2)
              else Some (fst f2, Inr (snd f2))
         else Some (fst c, Inr (snd c)))"
    by (simp only: migrate_to_path_Suc Let_def defs)
  show ?thesis
  proof (cases "fst pr \<and> fst v")
    case True
    show ?thesis
      by (rule moved [of "fst (complete_migration env start p (snd v))" "snd (complete_migration env start p (snd v))"])
         (use True pr v pushed in \<open>simp_all add: step Let_def migration_inv_complete\<close>)
  next
    case False
    show ?thesis
    proof (cases "fst pr")
      case True
      show ?thesis
        by (rule invalid [of "fst (fail_migration env start p ''Path validation failed'' (snd v))"
              "snd (fail_migration env start p ''Path validation failed'' (snd v))"])
           (use True False pr v in \<open>simp_all add: step same_paths_def Let_def\<close>)
    next
      case no_probe: False
      show ?thesis
        by (rule probe_failed [of "fst (fail_migration env start p ''Path probe failed'' (snd pr))"
              "snd (fail_migration env start p ''Path probe failed'' (snd pr))"])
           (use no_probe pr in \<open>simp_all add: step same_paths_def Let_def\<close>)
    qed
  qed
qed

lemma probe_first_cases:
  obtains (none) m' where "probe_first env ps m = (None, m')" "same_paths m m'" "if_reads m' = if_reads m + length ps"
      "migration_inv m' = migration_inv m"
      "\<forall>i < length ps. \<not> addr_up env (if_reads m + i) (ps ! i)"
  | (found) i m' where "i < length ps" "probe_first env ps m = (Some (ps ! i), m')" "same_paths m m'"
      "if_reads m' = if_reads m + i + 1" "addr_up env (if_reads m + i) (ps ! i)"
      "migration_inv m' = migration_inv m"
      "\<forall>j < i. \<not> addr_up env (if_reads m + j) (ps ! j)"
proof (induction ps arbitrary: m thesis)
  case Nil
  then show ?case by simp
next
  case (Cons p ps)
  let ?m = "snd (probe_path env p m)"
  have step: "probe_first env (p # ps) m = (if addr_up env (if_reads m) p then (Some p, ?m) else probe_first env ps ?m)"
    by (simp add: split_beta)
  have same: "same_paths m ?m"
    by (simp add: same_paths_def)
  show ?case
  proof (cases "addr_up env (if_reads m) p")
    case True
    then show ?thesis
      using same by (intro Cons.prems(2) [of 0 ?m]) (simp_all add: step del: probe_first.simps)
  next
    case down: False
    show ?thesis
    proof (rule Cons.IH [of ?m])
      fix m' assume r: "probe_first env ps ?m = (None, m')" "same_paths ?m m'" "if_reads m' = if_reads ?m + length ps"
        "migration_inv m' = migration_inv ?m"
        "\<forall>i < length ps. \<not> addr_up env (if_reads ?m + i) (ps ! i)"
      show ?thesis
      proof (rule Cons.prems(1) [of m'])
        show "\<forall>i < length (p # ps). \<not> addr_up env (if_reads m + i) ((p # ps) ! i)"
          using r(5) down by (auto simp: nth_Cons split: nat.splits)
      qed (use r down same in \<open>auto simp: step intro: same_paths_trans simp del: probe_first.simps\<close>)
    next
      fix i m' assume r: "i < length ps" "probe_first env ps ?m = (Some (ps ! i), m')" "same_paths ?m m'"
        "if_reads m' = if_reads ?m + i + 1" "addr_up env (if_reads ?m + i) (ps ! i)"
        "migration_inv m' = migration_inv ?m"
        "\<forall>j < i. \<not> addr_up env (if_reads ?m + j) (ps ! j)"
      show ?thesis
      proof (rule Cons.prems(2) [of "Suc i" m'])
        show "\<forall>j < Suc i. \<not> addr_up env (if_reads m + j) ((p # ps) ! j)"
          using r(7) down by (auto simp: nth_Cons split: nat.splits)
      qed (use r down same in \<open>auto simp: step intro: same_paths_trans simp del: probe_first.simps\<close>)
    qed
  qed
qed

lemma fallback_cases:
  assumes "previous_paths m \<noteq> []"
  obtains (all_down) m' where "fallback_to_previous n env m = Some (m', Inl Internal_error)" "same_paths m m'"
      "migration_inv m' = migration_inv m"
      "\<forall>i < length (previous_paths m). \<not> addr_up env (if_reads m + i) (previous_paths m ! i)"
  | (retry) i m' where "i < length (previous_paths m)" "same_paths m m'" "if_reads m' = if_reads m + i + 1"
      "migration_inv m' = migration_inv m"
      "addr_up env (if_reads m + i) (previous_paths m ! i)"
      "\<forall>j < i. \<not> addr_up env (if_reads m + j) (previous_paths m ! j)"
      "fallback_to_previous n env m = migrate_to_path n env (previous_paths m ! i) m'"
proof -
  define m1 where "m1 = emit_event ((make_event Fallback_triggered)\<lparr>ev_new_path := Some (hd (previous_paths m)),
    ev_old_path := current_path m\<rparr>) m"
  have m1: "same_paths m m1" "if_reads m1 = if_reads m" "migration_inv m1 = migration_inv m"
    by (simp_all add: m1_def same_paths_def)
  have step: "fallback_to_previous n env m = (case probe_first env (previous_paths m) m1 of
      (None, m) \<Rightarrow> Some (m, Inl Internal_error) | (Some p, m) \<Rightarrow> migrate_to_path n env p m)"
    using assms by (simp add: fallback_to_previous_def try_fallback_def m1_def Let_def split: list.splits)
  show ?thesis
    by (rule probe_first_cases [of env "previous_paths m" m1])
       (use m1 step in \<open>auto intro: all_down retry same_paths_trans\<close>)
qed

section \<open>Where a migration can lead\<close>

definition moved_to :: "network_path \<Rightarrow> migration_manager \<Rightarrow> migration_manager \<Rightarrow> migration_result result \<Rightarrow> bool" where
  "moved_to q m m' r \<longleftrightarrow> mm_config m' = mm_config m \<and> current_path m' = Some (q\<lparr>validated := True\<rparr>) \<and>
     previous_paths m' = pushed_paths m \<and> (\<exists>res. r = Inr res \<and> success res \<and> new_path res = q)"






lemma fallback_inv:
  assumes "\<And>p m m' r. migrate_to_path n env p m = Some (m', r) \<Longrightarrow> migration_inv m \<Longrightarrow> migration_inv m'"
    and "fallback_to_previous n env m = Some (m', r)" and "migration_inv m"
  shows "migration_inv m'"
proof (cases "previous_paths m = []")
  case True
  then show ?thesis
    using assms(2,3) by (simp add: fallback_to_previous_def try_fallback_def)
next
  case False
  then show ?thesis
  proof (cases rule: fallback_cases [where n = n and env = env])
    case (all_down m1)
    then show ?thesis using assms(2,3) by simp
  next
    case (retry i m1)
    then show ?thesis using assms(1) [of "previous_paths m ! i" m1 m' r] assms(2,3) by simp
  qed
qed

lemma migrate_inv: "migrate_to_path n env p m = Some (m', r) \<Longrightarrow> migration_inv m \<Longrightarrow> migration_inv m'"
proof (induction n arbitrary: p m m' r)
  case (Suc n)
  then show ?case
    by (cases rule: migrate_to_path_cases [of m env p n])
       (auto split: if_splits dest: fallback_inv [of n env, rotated] Suc.IH)
qed simp


section \<open>Termination\<close>

definition fallback_candidates :: "migration_manager \<Rightarrow> network_path list" where
  "fallback_candidates m =
     (if enable_path_probing (mm_config m) \<or> \<not> enable_fallback (mm_config m) then [] else previous_paths m)"

lemma find_Some_nth:
  "i < length xs \<Longrightarrow> P (xs ! i) \<Longrightarrow> \<forall>j < i. \<not> P (xs ! j) \<Longrightarrow> find P xs = Some (xs ! i)"
proof (induction xs arbitrary: i)
  case (Cons a xs)
  show ?case
  proof (cases i)
    case (Suc k)
    then have "\<forall>j < k. \<not> P (xs ! j)" "\<not> P a"
      using Cons.prems(3) by force+
    then show ?thesis
      using Cons Suc by simp
  qed (use Cons in simp)
qed simp

lemma find_None_nth: "\<forall>i < length xs. \<not> P (xs ! i) \<Longrightarrow> find P xs = None"
  by (auto simp: find_None_iff in_set_conv_nth)

text \<open>C12: while the set of interfaces does not change, two nested calls are enough: the migration returns, it
  succeeds exactly when the interface of the new path is up, or, without probing and with fallback enabled, that of
  a remembered path, and it ends on the first of them. With probing (the default) a migration never falls back.\<close>

theorem stable_network_migration_returns:
  assumes "\<forall>k. if_addrs_at env k = addrs"
  shows "\<exists>m' r. migrate_to_path (n + 2) env p m = Some (m', r) \<and>
     (case find (\<lambda>q. address_up (local_address q) (interfaces_of addrs)) (p # fallback_candidates m) of
        Some q \<Rightarrow> current_path m' = Some (q\<lparr>validated := True\<rparr>) \<and> (\<exists>res. r = Inr res \<and> success res \<and> new_path res = q)
      | None \<Rightarrow> current_path m' = current_path m \<and> \<not> (\<exists>res. r = Inr res \<and> success res))"
proof -
  define up where "up = (\<lambda>q :: network_path. address_up (local_address q) (interfaces_of addrs))"
  have up: "addr_up env k q = up q" for k q
    using assms by (simp add: addr_up_def up_def)
  have direct: "\<exists>m' r. migrate_to_path (Suc j) env q m1 = Some (m', r) \<and> moved_to q m1 m' r" if "up q" for j q m1
    by (cases rule: migrate_to_path_cases [of m1 env q j]) (use that up in \<open>auto simp: moved_to_def\<close>)
  show ?thesis
  proof (cases rule: migrate_to_path_cases [of m env p "Suc n"])
    case (probe_failed m' r)
    then show ?thesis
      by (auto simp: up same_paths_def fallback_candidates_def simp flip: up_def)
  next
    case (moved m' r)
    then show ?thesis
      by (auto simp: up simp flip: up_def)
  next
    case (invalid m1 r1)
    have np: "\<not> enable_path_probing (mm_config m)" "\<not> up p"
      using invalid(1,2) by (auto simp: up)
    show ?thesis
    proof (cases "enable_fallback (mm_config m) \<and> previous_paths m \<noteq> []")
      case False
      then have "fallback_candidates m = []"
        by (auto simp: fallback_candidates_def)
      then show ?thesis
        using False invalid np by (auto simp: same_paths_def simp flip: up_def)
    next
      case True
      have cand: "fallback_candidates m = previous_paths m"
        using True np by (simp add: fallback_candidates_def)
      have prev: "previous_paths m1 = previous_paths m" "previous_paths m1 \<noteq> []"
        using True invalid(3) by (simp_all add: same_paths_def)
      from prev(2) show ?thesis
      proof (cases rule: fallback_cases [where n = "Suc n" and env = env])
        case (all_down m2)
        then show ?thesis
          using True invalid np cand prev find_None_nth [of "previous_paths m" up]
          by (auto simp: up same_paths_def simp flip: up_def)
      next
        case (retry i m2)
        let ?q = "previous_paths m ! i"
        have f: "find up (previous_paths m) = Some ?q"
          using retry prev by (intro find_Some_nth) (auto simp: up)
        obtain m' r where "migrate_to_path (Suc n) env ?q m2 = Some (m', r)" "moved_to ?q m2 m' r"
          using direct [of ?q n m2] retry(5) prev by (auto simp: up)
        then show ?thesis
          using True invalid np cand prev retry(7) f by (auto simp: moved_to_def simp flip: up_def)
      qed
    qed
  qed
qed

definition eth :: if_addr where
  "eth = \<lparr>ifa_has_addr = True, ifa_inet = True, ifa_name = ''eth0'', ifa_up = True, ifa_ip = ''10.0.0.1''\<rparr>"

definition sample_net :: net_env where
  "sample_net = \<lparr>if_addrs_at = (\<lambda>_. Some [eth]), clock_at = int\<rparr>"

definition sample_path :: "string \<Rightarrow> network_path" where
  "sample_path ip = default_path\<lparr>local_address := ip\<rparr>"

theorem stable_network_migration_returns_witness:
  "\<exists>m' r. migrate_to_path 2 sample_net (sample_path ''10.0.0.1'') (create_migration_manager default_migration_config) = Some (m', r) \<and>
     current_path m' = Some (sample_path ''10.0.0.1''\<lparr>validated := True\<rparr>)"
  using stable_network_migration_returns [where env = sample_net and addrs = "Some [eth]" and n = 0
    and p = "sample_path ''10.0.0.1''" and m = "create_migration_manager default_migration_config"]
  by (auto simp: sample_net_def sample_path_def eth_def address_up_def interfaces_of_def to_interface_def Let_def
      numeral_2_eq_2)

text \<open>On an interface that is down whenever a path is validated and up whenever the fallback probes it, the two
  functions call each other for ever: no depth of calls is enough, so the program runs out of stack.\<close>

theorem flapping_interface_never_returns:
  assumes "\<forall>k p. even k \<longrightarrow> \<not> addr_up env k p" and "\<forall>k. odd k \<longrightarrow> addr_up env k q"
    and "previous_paths m = q # qs" and "\<not> enable_path_probing (mm_config m)" and "enable_fallback (mm_config m)"
    and "even (if_reads m)"
  shows "migrate_to_path n env p m = None"
  using assms(3-6)
proof (induction n arbitrary: p m)
  case 0
  then show ?case by simp
next
  case (Suc n)
  show ?case
  proof (cases rule: migrate_to_path_cases [of m env p n])
    case (probe_failed m' r)
    then show ?thesis using Suc.prems by simp
  next
    case (moved m' r)
    then show ?thesis using Suc.prems assms(1) by (simp add: validation_read_def)
  next
    case (invalid m1 r1)
    have m1: "previous_paths m1 = q # qs" "odd (if_reads m1)" "mm_config m1 = mm_config m"
      using invalid(3,4) Suc.prems by (simp_all add: same_paths_def validation_read_def)
    have "previous_paths m1 \<noteq> []"
      using m1 by simp
    then show ?thesis
    proof (cases rule: fallback_cases [where n = n and env = env])
      case (all_down m2)
      then show ?thesis
        using m1 assms(2) by force
    next
      case (retry i m2)
      have "i = 0"
        using retry(6) m1 assms(2) by (metis add_0_right gr0I nth_Cons_0)
      then have "migrate_to_path n env q m2 = None"
        using retry(2,3) m1 Suc.prems by (intro Suc.IH) (simp_all add: same_paths_def)
      then show ?thesis
        using invalid Suc.prems retry(7) m1 \<open>i = 0\<close> by simp
    qed
  qed
qed

theorem flapping_interface_never_returns_witness:
  "\<forall>n. migrate_to_path n (sample_net\<lparr>if_addrs_at := (\<lambda>k. if even k then Some [] else Some [eth])\<rparr>) (sample_path ''10.0.0.2'')
     ((create_migration_manager (default_migration_config\<lparr>enable_path_probing := False\<rparr>))
       \<lparr>previous_paths := [sample_path ''10.0.0.1'']\<rparr>) = None"
  by (intro allI, rule flapping_interface_never_returns [where q = "sample_path ''10.0.0.1''" and qs = "[]"])
     (simp_all add: addr_up_def sample_net_def sample_path_def eth_def address_up_def interfaces_of_def to_interface_def
       Let_def create_migration_manager_def default_migration_config_def)

section \<open>Histories\<close>

datatype migration_call =
  Set_current_path network_path | Migrate network_path | Fallback | Probe network_path | Validate network_path
| Start_monitoring | Monitor_tick | Stop_monitoring | Set_config migration_config | Set_callbacks bool bool
| Reset_statistics | Cancel

fun migration_step :: "nat \<Rightarrow> net_env \<Rightarrow> migration_call \<Rightarrow> migration_manager \<Rightarrow> migration_manager option" where
  "migration_step n env (Set_current_path p) m = Some (set_current_path p m)"
| "migration_step n env (Migrate p) m = map_option fst (migrate_to_path n env p m)"
| "migration_step n env Fallback m = map_option fst (fallback_to_previous n env m)"
| "migration_step n env (Probe p) m = Some (snd (probe_path env p m))"
| "migration_step n env (Validate p) m = Some (snd (validate_path env p m))"
| "migration_step n env Start_monitoring m = Some (fst (start_monitoring env m))"
| "migration_step n env Monitor_tick m = monitor_step n env m"
| "migration_step n env Stop_monitoring m = Some (stop_monitoring m)"
| "migration_step n env (Set_config cfg) m = Some (set_migration_config cfg m)"
| "migration_step n env (Set_callbacks e c) m = Some (on_network_change c (on_migration_event e m))"
| "migration_step n env Reset_statistics m = Some (reset_statistics m)"
| "migration_step n env Cancel m = Some (cancel_migration m)"

inductive migration_reachable :: "nat \<Rightarrow> net_env \<Rightarrow> migration_manager \<Rightarrow> bool" for n env where
  initial: "migration_reachable n env (create_migration_manager cfg)"
| step: "migration_reachable n env m \<Longrightarrow> migration_step n env c m = Some m' \<Longrightarrow> migration_reachable n env m'"

lemma auto_migrate_loop_inv: "auto_migrate_loop n env ifs m = Some m' \<Longrightarrow> migration_inv m \<Longrightarrow> migration_inv m'"
proof (induction ifs arbitrary: m)
  case Nil
  then show ?case by simp
next
  case (Cons i ifs)
  define cur where "cur = path_or_default (current_path m)"
  define m1 where "m1 = snd (read_clock env m)"
  define p where "p = default_path\<lparr>local_address := ni_address i, interface_name := ni_name i,
    remote_address := remote_address cur, remote_port := remote_port cur, created_at := fst (read_clock env m)\<rparr>"
  show ?case
  proof (cases "is_up i \<and> ni_address i \<noteq> local_address cur")
    case False
    then show ?thesis
      using Cons.prems Cons.IH by (auto simp: cur_def Let_def split: if_splits)
  next
    case True
    have loop: "(case migrate_to_path n env p m1 of None \<Rightarrow> None
        | Some (m, Inr r) \<Rightarrow> if success r then Some m else auto_migrate_loop n env ifs m
        | Some (m, Inl _) \<Rightarrow> auto_migrate_loop n env ifs m) = Some m'"
      using Cons.prems(1) True by (cases "read_clock env m") (simp add: cur_def m1_def p_def Let_def)
    then obtain m2 r where mig: "migrate_to_path n env p m1 = Some (m2, r)"
      by (auto split: option.splits)
    have inv: "migration_inv m2"
      using migrate_inv [OF mig] Cons.prems(2) by (simp add: m1_def)
    have "m2 = m' \<or> auto_migrate_loop n env ifs m2 = Some m'"
    proof (cases r)
      case (Inl e)
      then show ?thesis using loop mig by simp
    next
      case (Inr res)
      then show ?thesis using loop mig by (cases "success res") simp_all
    qed
    then show ?thesis
      using inv Cons.IH [of m2] by blast
  qed
qed

lemma inv_plain_updates:
  "migration_inv (m\<lparr>if_reads := a\<rparr>) = migration_inv m" "migration_inv (m\<lparr>monitoring := b\<rparr>) = migration_inv m"
  "migration_inv (m\<lparr>last_known_interfaces := c\<rparr>) = migration_inv m"
  "migration_inv (m\<lparr>mm_stats := (mm_stats m)\<lparr>network_changes := d\<rparr>\<rparr>) = migration_inv m"
  "migration_inv (m\<lparr>if_reads := a, mm_stats := (mm_stats m)\<lparr>network_changes := d\<rparr>\<rparr>) = migration_inv m"
  "migration_inv (emit_network_change ifs m) = migration_inv m"
  by (simp_all add: migration_inv_def emit_network_change_def)

lemma monitor_step_inv: "monitor_step n env m = Some m' \<Longrightarrow> migration_inv m \<Longrightarrow> migration_inv m'"
  by (auto simp: monitor_step_def get_available_interfaces_def Let_def inv_plain_updates split: if_splits
      dest!: auto_migrate_loop_inv)

lemma migration_step_inv: "migration_step n env c m = Some m' \<Longrightarrow> migration_inv m \<Longrightarrow> migration_inv m'"
proof (cases c)
  case Monitor_tick
  then show "migration_step n env c m = Some m' \<Longrightarrow> migration_inv m \<Longrightarrow> migration_inv m'"
    by (simp add: monitor_step_inv)
next
  case Fallback
  then show "migration_step n env c m = Some m' \<Longrightarrow> migration_inv m \<Longrightarrow> migration_inv m'"
    by (auto intro: fallback_inv [of n env m m'] migrate_inv)
qed (auto simp: inv_plain_updates start_monitoring_def get_available_interfaces_def stop_monitoring_def
    cancel_migration_def dest: migrate_inv,
    auto simp: migration_inv_def set_current_path_def set_migration_config_def on_network_change_def
      on_migration_event_def reset_statistics_def zero_statistics_def)

text \<open>C14: in every reachable state, whatever the calls, the interfaces and the monitor did, the number of attempts is
  the number of successes plus failures, and no two remembered paths are the same path.\<close>

theorem migration_accounting:
  "migration_reachable n env m \<Longrightarrow>
   total_migrations (mm_stats m) = successful_migrations (mm_stats m) + failed_migrations (mm_stats m) \<and>
   (\<forall>i < length (previous_paths m). \<forall>j < i. \<not> path_eq (previous_paths m ! i) (previous_paths m ! j))"
proof -
  assume "migration_reachable n env m"
  then have "migration_inv m"
    by induction (simp_all add: migration_step_inv,
        simp add: migration_inv_def create_migration_manager_def zero_statistics_def)
  then show ?thesis
    by (auto simp: migration_inv_def path_eq_key distinct_conv_nth)
qed

theorem migration_accounting_witness:
  "let m = snd (probe_path sample_net (sample_path ''10.0.0.1'') (create_migration_manager default_migration_config))
   in total_migrations (mm_stats m) = successful_migrations (mm_stats m) + failed_migrations (mm_stats m) \<and>
      (\<forall>i < length (previous_paths m). \<forall>j < i. \<not> path_eq (previous_paths m ! i) (previous_paths m ! j))"
  unfolding Let_def
  by (rule migration_accounting [where n = 2, OF migration_reachable.step [where c = "Probe (sample_path ''10.0.0.1'')",
        OF migration_reachable.initial [where cfg = default_migration_config]]]) simp

end
