(* ===== verification/Storage_Backend.thy ===== *)
theory Storage_Backend
  imports File_System Complex_Main
begin

text \<open>
  server/storage_manager.h and the local backend of server/storage_manager.cpp. A backend is the
  record of its virtual functions over a world \<open>'w\<close>; \<open>backend_laws\<close> is the contract the storage
  manager relies on. The world of the local backend holds the file system, the times of last
  modification and the progress reports (reported whether or not a callback is set). Durations are
  left out, and so are \<open>retrieve_options\<close>, which no backend reads. Names of directories are not
  keys: a file system only has regular files.
\<close>

section \<open>Data\<close>

datatype storage_backend_type = Local | Cloud_S3 | Cloud_Azure | Cloud_Gcs

fun backend_type_to_string :: "storage_backend_type \<Rightarrow> string" where
  "backend_type_to_string Local = ''local''"
| "backend_type_to_string Cloud_S3 = ''cloud_s3''"
| "backend_type_to_string Cloud_Azure = ''cloud_azure''"
| "backend_type_to_string Cloud_Gcs = ''cloud_gcs''"

datatype storage_tier = Hot | Warm | Cold | Archive

fun tier_to_string :: "storage_tier \<Rightarrow> string" where
  "tier_to_string Hot = ''hot''"
| "tier_to_string Warm = ''warm''"
| "tier_to_string Cold = ''cold''"
| "tier_to_string Archive = ''archive''"

datatype storage_operation = Op_store | Op_retrieve | Op_remove | Op_list | Op_metadata

record stored_object_metadata =
  om_key :: string
  om_size :: u64
  om_last_modified :: int
  om_content_hash :: "string option"
  om_backend :: storage_backend_type
  om_tier :: storage_tier
  om_etag :: "string option"
  om_content_type :: "string option"
  om_custom_metadata :: "(string \<times> string) list"
  om_access_count :: u64
  om_last_accessed :: "int option"

definition new_metadata :: "string \<Rightarrow> storage_backend_type \<Rightarrow> stored_object_metadata" where
  "new_metadata key backend =
     \<lparr>om_key = key, om_size = 0, om_last_modified = 0, om_content_hash = None, om_backend = backend, om_tier = Hot,
      om_etag = None, om_content_type = None, om_custom_metadata = [], om_access_count = 0, om_last_accessed = None\<rparr>"

record store_options =
  so_tier :: storage_tier
  so_content_type :: "string option"
  so_custom_metadata :: "(string \<times> string) list"
  so_content_hash :: "string option"
  overwrite :: bool
  so_storage_class :: "string option"

definition default_store_options :: store_options where
  "default_store_options = \<lparr>so_tier = Hot, so_content_type = None, so_custom_metadata = [], so_content_hash = None,
     overwrite = False, so_storage_class = None\<rparr>"

record list_storage_options =
  lo_prefix :: "string option"
  max_results :: nat
  continuation_token :: "string option"

definition default_list_options :: list_storage_options where
  "default_list_options = \<lparr>lo_prefix = None, max_results = 1000, continuation_token = None\<rparr>"

record list_storage_result =
  objects :: "stored_object_metadata list"
  is_truncated :: bool
  next_token :: "string option"
  total_count :: "u64 option"

definition empty_listing :: list_storage_result where
  "empty_listing = \<lparr>objects = [], is_truncated = False, next_token = None, total_count = None\<rparr>"

record store_result =
  sr_key :: string
  bytes_stored :: u64
  sr_backend :: storage_backend_type
  sr_tier :: storage_tier
  sr_etag :: "string option"

record retrieve_result =
  rr_key :: string
  bytes_retrieved :: u64
  rr_backend :: storage_backend_type
  rr_metadata :: stored_object_metadata

record storage_progress =
  pr_operation :: storage_operation
  pr_key :: string
  pr_bytes_transferred :: nat
  pr_total_bytes :: nat
  pr_backend :: storage_backend_type

definition percentage :: "storage_progress \<Rightarrow> rat" where
  "percentage p =
     (if pr_total_bytes p = 0 then 0 else of_nat (pr_bytes_transferred p) / of_nat (pr_total_bytes p) * 100)"

section \<open>The interface\<close>

record 'w storage_backend =
  sb_type :: storage_backend_type
  sb_is_available :: "'w \<Rightarrow> bool"
  sb_connect :: "'w \<Rightarrow> 'w \<times> unit result"
  sb_disconnect :: "'w \<Rightarrow> 'w \<times> unit result"
  sb_store :: "string \<Rightarrow> bytes \<Rightarrow> store_options \<Rightarrow> 'w \<Rightarrow> 'w \<times> store_result result"
  sb_store_file :: "string \<Rightarrow> path \<Rightarrow> store_options \<Rightarrow> 'w \<Rightarrow> 'w \<times> store_result result"
  sb_retrieve :: "string \<Rightarrow> 'w \<Rightarrow> 'w \<times> bytes result"
  sb_retrieve_file :: "string \<Rightarrow> path \<Rightarrow> 'w \<Rightarrow> 'w \<times> retrieve_result result"
  sb_remove :: "string \<Rightarrow> 'w \<Rightarrow> 'w \<times> unit result"
  sb_exists :: "string \<Rightarrow> 'w \<Rightarrow> 'w \<times> bool result"
  sb_get_metadata :: "string \<Rightarrow> 'w \<Rightarrow> 'w \<times> stored_object_metadata result"
  sb_list :: "list_storage_options \<Rightarrow> 'w \<Rightarrow> 'w \<times> list_storage_result result"

text \<open>The contract over the objects a world holds for the backend, for the keys that are allowed.\<close>

locale backend_laws =
  fixes b :: "'w storage_backend"
    and held :: "'w \<Rightarrow> string \<Rightarrow> bytes option"
    and key_ok :: "string \<Rightarrow> bool"
  assumes store_ok: "key_ok k \<Longrightarrow> key_ok j \<Longrightarrow> snd (sb_store b k d opts w) = Inr r \<Longrightarrow>
      held (fst (sb_store b k d opts w)) j = (if j = k then Some d else held w j)"
    and store_other: "key_ok k \<Longrightarrow> key_ok j \<Longrightarrow> j \<noteq> k \<Longrightarrow> held (fst (sb_store b k d opts w)) j = held w j"
    and retrieve_held: "key_ok k \<Longrightarrow> snd (sb_retrieve b k w) = Inr d \<Longrightarrow> held w k = Some d"
    and retrieve_keeps: "held (fst (sb_retrieve b k w)) j = held w j"
    and remove_ok: "key_ok k \<Longrightarrow> snd (sb_remove b k w) = Inr () \<Longrightarrow> held (fst (sb_remove b k w)) k = None"
    and remove_other: "key_ok k \<Longrightarrow> key_ok j \<Longrightarrow> j \<noteq> k \<Longrightarrow> held (fst (sb_remove b k w)) j = held w j"
    and exists_held: "key_ok k \<Longrightarrow> snd (sb_exists b k w) = Inr True \<Longrightarrow> held w k \<noteq> None"
    and exists_keeps: "held (fst (sb_exists b k w)) j = held w j"
begin

lemma retrieve_after_store:
  assumes "key_ok k" and "snd (sb_store b k d opts w) = Inr r"
    and "snd (sb_retrieve b k (fst (sb_store b k d opts w))) = Inr d'"
  shows "d' = d"
  using retrieve_held [OF assms(1,3)] store_ok [OF assms(1,1,2)] by simp

lemma no_retrieve_after_remove:
  assumes "key_ok k" and "snd (sb_remove b k w) = Inr ()"
  shows "snd (sb_retrieve b k (fst (sb_remove b k w))) \<noteq> Inr d"
  using retrieve_held [OF assms(1)] remove_ok [OF assms] by fastforce

end

section \<open>The local backend\<close>

text \<open>
  The environment adds to \<open>io_env\<close> the failures of creating a parent directory, of reading the size
  of a file, of reading, of copying and of reading the modification time, the room that is left
  for a file (\<open>None\<close>: enough), the clock and the order in which a directory is listed.
\<close>

record storage_env = io_env +
  mkdir_fails :: "path \<Rightarrow> bool"
  size_fails :: "path \<Rightarrow> bool"
  read_fails :: "path \<Rightarrow> bool"
  copy_fails :: "path \<Rightarrow> path \<Rightarrow> bool"
  mtime_fails :: "path \<Rightarrow> bool"
  room :: "path \<Rightarrow> nat option"
  se_now :: int
  dir_entries :: "path \<Rightarrow> path list"

record storage_world =
  sw_fs :: filesystem
  sw_mtime :: "path \<Rightarrow> int"
  sw_base_exists :: "path \<Rightarrow> bool"
  sw_connected :: "path \<Rightarrow> bool"
  sw_progress :: "storage_progress list"

definition full_path_for :: "path \<Rightarrow> string \<Rightarrow> path" where
  "full_path_for base key = path_append base key"

definition path_exists :: "storage_env \<Rightarrow> storage_world \<Rightarrow> path \<Rightarrow> bool" where
  "path_exists env w p \<longleftrightarrow> \<not> stat_fails env p \<and> fs_exists (sw_fs w) p"

definition write_file :: "storage_env \<Rightarrow> path \<Rightarrow> bytes \<Rightarrow> storage_world \<Rightarrow> storage_world" where
  "write_file env p d w = w\<lparr>sw_fs := (sw_fs w)(p \<mapsto> d), sw_mtime := (sw_mtime w)(p := se_now env)\<rparr>"

definition report_progress :: "string \<Rightarrow> nat \<Rightarrow> nat \<Rightarrow> storage_world \<Rightarrow> storage_world" where
  "report_progress key n total_bytes w =
     w\<lparr>sw_progress := sw_progress w @ [\<lparr>pr_operation = Op_store, pr_key = key, pr_bytes_transferred = n,
        pr_total_bytes = total_bytes, pr_backend = Local\<rparr>]\<rparr>"

definition write_unit :: nat where "write_unit = 1024 * 1024"

lemma write_unit_pos [simp]: "0 < write_unit"
  by (simp add: write_unit_def)

text \<open>The writing loop. A block for which there is no room is cut off, and the stream fails.\<close>

function write_loop :: "storage_env \<Rightarrow> path \<Rightarrow> string \<Rightarrow> bytes \<Rightarrow> nat \<Rightarrow> storage_world \<Rightarrow> storage_world \<times> bool" where
  "write_loop env p key d written w =
     (if written < length d
      then let n = min write_unit (length d - written)
           in case room env p of
                Some r \<Rightarrow>
                  if r < written + n then (write_file env p (take r d) w, False)
                  else write_loop env p key d (written + n)
                         (report_progress key (written + n) (length d) (write_file env p (take (written + n) d) w))
              | None \<Rightarrow> write_loop env p key d (written + n)
                         (report_progress key (written + n) (length d) (write_file env p (take (written + n) d) w))
      else (w, True))"
  by pat_completeness auto
termination
  by (relation "measure (\<lambda>(env, p, key, d, written, w). length d - written)") (auto simp: write_unit_def)

declare write_loop.simps [simp del]

definition local_connect :: "storage_env \<Rightarrow> path \<Rightarrow> storage_world \<Rightarrow> storage_world \<times> unit result" where
  "local_connect env base w =
     (if \<not> sw_base_exists w base \<and> mkdir_fails env base then (w, Inl Invalid_configuration)
      else (w\<lparr>sw_base_exists := (sw_base_exists w)(base := True), sw_connected := (sw_connected w)(base := True)\<rparr>, Inr ()))"

definition local_disconnect :: "path \<Rightarrow> storage_world \<Rightarrow> storage_world \<times> unit result" where
  "local_disconnect base w = (w\<lparr>sw_connected := (sw_connected w)(base := False)\<rparr>, Inr ())"

definition local_store ::
  "storage_env \<Rightarrow> path \<Rightarrow> string \<Rightarrow> bytes \<Rightarrow> store_options \<Rightarrow> storage_world \<Rightarrow> storage_world \<times> store_result result" where
  "local_store env base key d opts w =
     (let p = full_path_for base key
      in if path_exists env w p \<and> \<not> overwrite opts then (w, Inl File_already_exists)
         else if mkdir_fails env p then (w, Inl Invalid_configuration)
         else if open_write_fails env p then (w, Inl File_access_denied)
         else case write_loop env p key d 0 (write_file env p [] w) of
           (w, False) \<Rightarrow> (w, Inl File_write_error)
         | (w, True) \<Rightarrow> (w, Inr \<lparr>sr_key = key, bytes_stored = word_of_nat (length d), sr_backend = Local,
                              sr_tier = so_tier opts, sr_etag = None\<rparr>))"

text \<open>\<open>copy_file\<close> fails for a file onto itself and when the directory could not be created.\<close>

definition copy_file :: "storage_env \<Rightarrow> path \<Rightarrow> path \<Rightarrow> storage_world \<Rightarrow> storage_world option" where
  "copy_file env src dst w =
     (case sw_fs w src of
        None \<Rightarrow> None
      | Some d \<Rightarrow> if src = dst \<or> mkdir_fails env dst \<or> copy_fails env src dst then None
                  else Some (write_file env dst d w))"

definition local_store_file ::
  "storage_env \<Rightarrow> path \<Rightarrow> string \<Rightarrow> path \<Rightarrow> store_options \<Rightarrow> storage_world \<Rightarrow> storage_world \<times> store_result result" where
  "local_store_file env base key src opts w =
     (let p = full_path_for base key
      in if \<not> path_exists env w src then (w, Inl File_not_found)
         else if size_fails env src then (w, Inl File_read_error)
         else if path_exists env w p \<and> \<not> overwrite opts then (w, Inl File_already_exists)
         else case copy_file env src p w of
           None \<Rightarrow> (w, Inl File_write_error)
         | Some w' \<Rightarrow> (w', Inr \<lparr>sr_key = key, bytes_stored = word_of_nat (length (the (sw_fs w src))),
                              sr_backend = Local, sr_tier = so_tier opts, sr_etag = None\<rparr>))"

definition local_retrieve :: "storage_env \<Rightarrow> path \<Rightarrow> string \<Rightarrow> storage_world \<Rightarrow> storage_world \<times> bytes result" where
  "local_retrieve env base key w =
     (let p = full_path_for base key
      in if \<not> path_exists env w p then (w, Inl File_not_found)
         else if size_fails env p then (w, Inl File_read_error)
         else if open_read_fails env p then (w, Inl File_access_denied)
         else if read_fails env p then (w, Inl File_read_error)
         else (w, Inr (the (sw_fs w p))))"

definition local_metadata :: "storage_env \<Rightarrow> string \<Rightarrow> path \<Rightarrow> storage_world \<Rightarrow> stored_object_metadata" where
  "local_metadata env key p w =
     (let m = (new_metadata key Local)\<lparr>om_size := word_of_nat (length (the (sw_fs w p)))\<rparr>
      in if mtime_fails env p then m else m\<lparr>om_last_modified := sw_mtime w p\<rparr>)"

definition local_retrieve_file ::
  "storage_env \<Rightarrow> path \<Rightarrow> string \<Rightarrow> path \<Rightarrow> storage_world \<Rightarrow> storage_world \<times> retrieve_result result" where
  "local_retrieve_file env base key dst w =
     (let p = full_path_for base key
      in if \<not> path_exists env w p then (w, Inl File_not_found)
         else if size_fails env p then (w, Inl File_read_error)
         else case copy_file env p dst w of
           None \<Rightarrow> (w, Inl File_write_error)
         | Some w' \<Rightarrow> (w', Inr \<lparr>rr_key = key, bytes_retrieved = word_of_nat (length (the (sw_fs w p))),
                              rr_backend = Local, rr_metadata = local_metadata env key p w'\<rparr>))"

definition local_remove :: "storage_env \<Rightarrow> path \<Rightarrow> string \<Rightarrow> storage_world \<Rightarrow> storage_world \<times> unit result" where
  "local_remove env base key w =
     (let p = full_path_for base key
      in if \<not> path_exists env w p then (w, Inl File_not_found)
         else if remove_fails env p then (w, Inl File_access_denied)
         else (w\<lparr>sw_fs := (sw_fs w)(p := None)\<rparr>, Inr ()))"

definition local_exists :: "storage_env \<Rightarrow> path \<Rightarrow> string \<Rightarrow> storage_world \<Rightarrow> storage_world \<times> bool result" where
  "local_exists env base key w = (w, Inr (path_exists env w (full_path_for base key)))"

definition local_get_metadata ::
  "storage_env \<Rightarrow> path \<Rightarrow> string \<Rightarrow> storage_world \<Rightarrow> storage_world \<times> stored_object_metadata result" where
  "local_get_metadata env base key w =
     (let p = full_path_for base key
      in if \<not> path_exists env w p then (w, Inl File_not_found)
         else if size_fails env p then (w, Inl File_read_error)
         else (w, Inr (local_metadata env key p w)))"

definition relative_key :: "path \<Rightarrow> path \<Rightarrow> string" where
  "relative_key base p = drop (length (path_append base [])) p"

text \<open>The listing loop. A file whose size cannot be read is listed with the size \<open>2 ^ 64 - 1\<close>.\<close>

fun list_loop ::
  "storage_env \<Rightarrow> path \<Rightarrow> list_storage_options \<Rightarrow> storage_world \<Rightarrow> path list \<Rightarrow> stored_object_metadata list \<Rightarrow>
   stored_object_metadata list \<times> bool" where
  "list_loop env base opts w [] acc = (acc, False)"
| "list_loop env base opts w (p # ps) acc =
     (let key = relative_key base p
      in if (case lo_prefix opts of None \<Rightarrow> False | Some pre \<Rightarrow> take (length pre) key \<noteq> pre)
         then list_loop env base opts w ps acc
         else
           let m = (if size_fails env p then (new_metadata key Local)\<lparr>om_size := - 1\<rparr> else local_metadata env key p w);
               acc = acc @ [m]
           in if length acc \<ge> max_results opts then (acc, True) else list_loop env base opts w ps acc)"

definition local_list ::
  "storage_env \<Rightarrow> path \<Rightarrow> list_storage_options \<Rightarrow> storage_world \<Rightarrow> storage_world \<times> list_storage_result result" where
  "local_list env base opts w =
     (if \<not> sw_base_exists w base \<or> stat_fails env base then (w, Inr empty_listing)
      else case list_loop env base opts w (filter (fs_exists (sw_fs w)) (dir_entries env base)) [] of
        (ms, trunc) \<Rightarrow> (w, Inr (empty_listing\<lparr>objects := ms, is_truncated := trunc\<rparr>)))"

definition local_backend :: "storage_env \<Rightarrow> path \<Rightarrow> storage_world storage_backend" where
  "local_backend env base =
     \<lparr>sb_type = Local,
      sb_is_available = (\<lambda>w. sw_base_exists w base \<and> \<not> stat_fails env base),
      sb_connect = local_connect env base, sb_disconnect = local_disconnect base,
      sb_store = local_store env base, sb_store_file = local_store_file env base,
      sb_retrieve = local_retrieve env base, sb_retrieve_file = local_retrieve_file env base,
      sb_remove = local_remove env base, sb_exists = local_exists env base,
      sb_get_metadata = local_get_metadata env base, sb_list = local_list env base\<rparr>"

section \<open>The local backend keeps the contract\<close>

definition relative :: "string \<Rightarrow> bool" where
  "relative key \<longleftrightarrow> key \<noteq> [] \<and> hd key \<noteq> CHR ''/''"

definition local_held :: "path \<Rightarrow> storage_world \<Rightarrow> string \<Rightarrow> bytes option" where
  "local_held base w key = sw_fs w (full_path_for base key)"

lemma full_path_relative: "relative key \<Longrightarrow> full_path_for base key = path_append base [] @ key"
  by (auto simp: relative_def full_path_for_def path_append_def)

lemma full_path_inject [simp]:
  "relative key \<Longrightarrow> relative key' \<Longrightarrow> full_path_for base key = full_path_for base key' \<longleftrightarrow> key = key'"
  by (simp add: full_path_relative)

lemma relative_key_full_path: "relative key \<Longrightarrow> relative_key base (full_path_for base key) = key"
  by (simp add: full_path_relative relative_key_def)

lemma write_file_fs [simp]: "sw_fs (write_file env p d w) = (sw_fs w)(p \<mapsto> d)"
  by (simp add: write_file_def)

lemma report_progress_fs [simp]: "sw_fs (report_progress key n t w) = sw_fs w"
  by (simp add: report_progress_def)

lemma write_loop_result:
  "written \<le> length d \<Longrightarrow> sw_fs w p = Some (take written d) \<Longrightarrow>
   (case room env p of None \<Rightarrow> True | Some r \<Rightarrow> written \<le> r) \<Longrightarrow>
   snd (write_loop env p key d written w) = (case room env p of None \<Rightarrow> True | Some r \<Rightarrow> length d \<le> r) \<and>
   sw_fs (fst (write_loop env p key d written w)) =
     (sw_fs w)(p \<mapsto> (case room env p of None \<Rightarrow> d | Some r \<Rightarrow> take r d))"
proof (induction env p key d written w rule: write_loop.induct)
  case (1 env p key d written w)
  show ?case
  proof (cases "written < length d")
    case False
    then show ?thesis
      using "1.prems" by (subst (1 2) write_loop.simps) (auto simp: fun_upd_idem split: option.splits)
  next
    case True
    define n where "n = min write_unit (length d - written)"
    have n: "written + n \<le> length d"
      using True by (simp add: n_def)
    show ?thesis
    proof (cases "room env p")
      case None
      from "1.IH"(1) [OF True n_def None] n None show ?thesis
        by (subst (1 2) write_loop.simps) (simp add: True Let_def fun_upd_def cong: if_cong flip: n_def)
    next
      case (Some r)
      show ?thesis
      proof (cases "r < written + n")
        case short: True
        then have "r < length d"
          using n by simp
        then show ?thesis
          using Some short True by (subst (1 2) write_loop.simps) (simp add: Let_def flip: n_def)
      next
        case False
        from "1.IH"(2) [OF True n_def Some] False n Some show ?thesis
          by (subst (1 2) write_loop.simps) (simp add: True Let_def fun_upd_def cong: if_cong flip: n_def)
      qed
    qed
  qed
qed

definition enough_room :: "storage_env \<Rightarrow> path \<Rightarrow> bytes \<Rightarrow> bool" where
  "enough_room env p d \<longleftrightarrow> (case room env p of None \<Rightarrow> True | Some r \<Rightarrow> length d \<le> r)"

lemma local_store_cases:
  obtains (refused) e where "local_store env base key d opts w = (w, Inl e)"
      "e = File_already_exists \<longleftrightarrow> path_exists env w (full_path_for base key) \<and> \<not> overwrite opts"
      "path_exists env w (full_path_for base key) \<and> \<not> overwrite opts \<or> mkdir_fails env (full_path_for base key) \<or>
       open_write_fails env (full_path_for base key)" "e \<noteq> File_write_error"
  | (cut) w' r where "local_store env base key d opts w = (w', Inl File_write_error)"
      "room env (full_path_for base key) = Some r" "r < length d"
      "sw_fs w' = (sw_fs w)(full_path_for base key \<mapsto> take r d)"
  | (stored) w' r where "local_store env base key d opts w = (w', Inr r)" "bytes_stored r = word_of_nat (length d)"
      "sw_fs w' = (sw_fs w)(full_path_for base key \<mapsto> d)" "enough_room env (full_path_for base key) d"
      "\<not> (path_exists env w (full_path_for base key) \<and> \<not> overwrite opts)"
proof -
  define p where "p = full_path_for base key"
  define res where "res = write_loop env p key d 0 (write_file env p [] w)"
  have res: "snd res \<longleftrightarrow> enough_room env p d"
    "sw_fs (fst res) = (sw_fs w)(p \<mapsto> (case room env p of None \<Rightarrow> d | Some r \<Rightarrow> take r d))"
    using write_loop_result [of 0 d "write_file env p [] w" p env key]
    by (auto simp: res_def enough_room_def split: option.splits)
  consider "path_exists env w p \<and> \<not> overwrite opts \<or> mkdir_fails env p \<or> open_write_fails env p"
    | "\<not> (path_exists env w p \<and> \<not> overwrite opts)" "\<not> mkdir_fails env p" "\<not> open_write_fails env p" "snd res"
    | "\<not> (path_exists env w p \<and> \<not> overwrite opts)" "\<not> mkdir_fails env p" "\<not> open_write_fails env p" "\<not> snd res"
    by blast
  then show ?thesis
  proof cases
    case 1
    then show ?thesis
      using refused unfolding local_store_def Let_def p_def
      by (cases "path_exists env w (full_path_for base key) \<and> \<not> overwrite opts";
          cases "mkdir_fails env (full_path_for base key)") auto
  next
    case 2
    have "sw_fs (fst res) = (sw_fs w)(p \<mapsto> d)"
      using 2(4) res by (auto simp: enough_room_def split: option.splits)
    then show ?thesis
      using 2 res by (intro stored) (auto simp: local_store_def Let_def simp flip: p_def res_def split: prod.splits bool.splits)
  next
    case 3
    then obtain r where "room env p = Some r" "r < length d"
      using res by (auto simp: enough_room_def split: option.splits)
    then show ?thesis
      using 3 res by (intro cut) (auto simp: local_store_def Let_def simp flip: p_def res_def split: prod.splits bool.splits)
  qed
qed

lemma local_backend_simps [simp]:
  "sb_type (local_backend env base) = Local" "sb_store (local_backend env base) = local_store env base"
  "sb_retrieve (local_backend env base) = local_retrieve env base"
  "sb_store_file (local_backend env base) = local_store_file env base"
  "sb_retrieve_file (local_backend env base) = local_retrieve_file env base"
  "sb_remove (local_backend env base) = local_remove env base"
  "sb_exists (local_backend env base) = local_exists env base"
  "sb_get_metadata (local_backend env base) = local_get_metadata env base"
  "sb_list (local_backend env base) = local_list env base"
  "sb_connect (local_backend env base) = local_connect env base"
  by (simp_all add: local_backend_def)

lemma local_retrieve_simps:
  "fst (local_retrieve env base key w) = w"
  "snd (local_retrieve env base key w) = Inr d \<Longrightarrow> local_held base w key = Some d"
  by (auto simp: local_retrieve_def Let_def local_held_def path_exists_def fs_exists_def split: if_splits)

interpretation local: backend_laws "local_backend env base" "local_held base" relative
proof (unfold_locales, goal_cases)
  case (1 k j d opts w r)
  then show ?case
    by (cases rule: local_store_cases [of env base k d opts w]) (auto simp: local_held_def)
next
  case (2 k j d opts w)
  then show ?case
    by (cases rule: local_store_cases [of env base k d opts w]) (auto simp: local_held_def)
qed (auto simp: local_retrieve_simps local_retrieve_simps(2) [unfolded local_held_def] local_remove_def
    local_exists_def Let_def local_held_def path_exists_def fs_exists_def split: if_splits)

section \<open>Refinement of a key-value store\<close>











text \<open>No call of the operating system fails on the paths of the backend.\<close>

definition healthy :: "storage_env \<Rightarrow> path \<Rightarrow> bool" where
  "healthy env base \<longleftrightarrow> (\<forall>k. relative k \<longrightarrow>
     (let p = full_path_for base k
      in \<not> stat_fails env p \<and> \<not> mkdir_fails env p \<and> \<not> open_write_fails env p \<and> \<not> size_fails env p \<and>
         \<not> open_read_fails env p \<and> \<not> read_fails env p \<and> \<not> remove_fails env p \<and> room env p = None))"

lemma healthyD:
  assumes "healthy env base" and "relative k"
  defines "p \<equiv> full_path_for base k"
  shows "\<not> stat_fails env p" "\<not> mkdir_fails env p" "\<not> open_write_fails env p" "\<not> size_fails env p"
    "\<not> open_read_fails env p" "\<not> read_fails env p" "\<not> remove_fails env p" "room env p = None"
  using assms by (simp_all add: healthy_def Let_def)




definition sound_env :: storage_env where
  "sound_env = io_env.extend reliable
     \<lparr>mkdir_fails = (\<lambda>_. False), size_fails = (\<lambda>_. False), read_fails = (\<lambda>_. False), copy_fails = (\<lambda>_ _. False),
      mtime_fails = (\<lambda>_. False), room = (\<lambda>_. None), se_now = 0, dir_entries = (\<lambda>_. [])\<rparr>"

definition empty_world :: storage_world where
  "empty_world = \<lparr>sw_fs = Map.empty, sw_mtime = (\<lambda>_. 0), sw_base_exists = (\<lambda>_. True), sw_connected = (\<lambda>_. False),
     sw_progress = []\<rparr>"

lemma sound_env_simps [simp]:
  "\<not> stat_fails sound_env p" "\<not> open_write_fails sound_env p" "\<not> open_read_fails sound_env p"
  "\<not> remove_fails sound_env p" "\<not> mkdir_fails sound_env p" "\<not> size_fails sound_env p" "\<not> read_fails sound_env p"
  "\<not> copy_fails sound_env p q" "\<not> mtime_fails sound_env p" "room sound_env p = None"
  by (simp_all add: sound_env_def io_env.defs reliable_def)

lemma sound_healthy: "healthy sound_env base"
  by (simp add: healthy_def Let_def)


text \<open>When the disk is full, an overwriting store reports a write error, but the object that was
  there is gone: from then on a retrieval succeeds with the first bytes of the new data, as if
  they were the whole object.\<close>

theorem failed_store_leaves_prefix:
  assumes "snd (sb_store (local_backend env base) key d opts w) = Inl File_write_error"
    and "relative key" and "healthy env' base"
  shows "\<exists>r < length d. snd (sb_retrieve (local_backend env' base) key (fst (sb_store (local_backend env base) key d opts w))) =
           Inr (take r d)"
proof -
  note h = healthyD [OF assms(3,2)]
  obtain w' r where "local_store env base key d opts w = (w', Inl File_write_error)" "r < length d"
    "sw_fs w' = (sw_fs w)(full_path_for base key \<mapsto> take r d)"
    using assms(1) by (cases rule: local_store_cases [of env base key d opts w]) auto
  then show ?thesis
    using h by (auto simp: local_retrieve_def Let_def path_exists_def fs_exists_def intro!: exI [of _ r])
qed

definition full_disk :: storage_env where
  "full_disk = sound_env\<lparr>room := (\<lambda>_. Some 1)\<rparr>"

lemma full_disk_store:
  "local_store full_disk ''/s'' ''a'' [1, 2] (default_store_options\<lparr>overwrite := True\<rparr>) empty_world =
     (write_file full_disk ''/s/a'' [1] (write_file full_disk ''/s/a'' [] empty_world), Inl File_write_error)"
proof -
  have "write_loop full_disk ''/s/a'' ''a'' [1, 2] 0 w = (write_file full_disk ''/s/a'' [1] w, False)" for w
    by (subst write_loop.simps) (simp add: full_disk_def write_unit_def Let_def)
  then show ?thesis
    by (simp add: local_store_def Let_def full_path_for_def path_append_def full_disk_def)
qed

theorem failed_store_leaves_prefix_witness:
  "\<exists>r < 2. snd (sb_retrieve (local_backend sound_env ''/s'') ''a''
     (fst (sb_store (local_backend full_disk ''/s'') ''a'' [1, 2] (default_store_options\<lparr>overwrite := True\<rparr>) empty_world))) =
       Inr (take r [1, 2])"
  using failed_store_leaves_prefix [of full_disk "''/s''" "''a''" "[1, 2]" "default_store_options\<lparr>overwrite := True\<rparr>"
      empty_world sound_env]
  by (simp add: full_disk_store sound_healthy relative_def numeral_2_eq_2)

end
