(* ===== verification/Cloud_Utils.thy ===== *)
theory Cloud_Utils
  imports Complex_Main Prelude
begin

text \<open>
  cloud/cloud_utils.h and cloud/cloud_utils.cpp: the text encodings, the little XML and JSON
  readers, content types and the retry policy that the cloud backends share. Strings are bytes.
  SHA-256 and HMAC come from OpenSSL and are parameters of the theories that sign requests; the
  random bytes of the delay are an argument. \<open>double\<close> is exact.
\<close>

section \<open>Base64\<close>

definition base64_chars :: string where
  "base64_chars = ''ABCDEFGHIJKLMNOPQRSTUVWXYZabcdefghijklmnopqrstuvwxyz0123456789+/''"

definition base64_decode_table :: "int list" where
  "base64_decode_table =
     replicate 43 (- 1) @ [62] @ replicate 3 (- 1) @ [63] @ [52, 53, 54, 55, 56, 57, 58, 59, 60, 61] @
     replicate 7 (- 1) @ map int [0..<26] @ replicate 6 (- 1) @ map int [26..<52] @ replicate 133 (- 1)"

definition base64_char :: "u32 \<Rightarrow> char" where
  "base64_char n = base64_chars ! unat (n AND 0x3F)"

function base64_encode :: "bytes \<Rightarrow> string" where
  "base64_encode [] = []"
| "base64_encode (a # rest) =
     (let n = push_bit 16 (ucast a) OR
              (case rest of b # _ \<Rightarrow> push_bit 8 (ucast b) | _ \<Rightarrow> 0) OR
              (case rest of _ # c # _ \<Rightarrow> ucast c | _ \<Rightarrow> 0) :: u32
      in [base64_char (drop_bit 18 n), base64_char (drop_bit 12 n),
          if rest \<noteq> [] then base64_char (drop_bit 6 n) else CHR ''='',
          if length rest \<ge> 2 then base64_char n else CHR ''=''] @ base64_encode (drop 2 rest))"
  by pat_completeness auto
termination by (relation "measure length") auto

definition base64_encode_text :: "string \<Rightarrow> string" where
  "base64_encode_text s = base64_encode (map of_char s)"

fun base64_decode_loop :: "u32 \<Rightarrow> nat \<Rightarrow> string \<Rightarrow> bytes" where
  "base64_decode_loop bits bit_count [] = []"
| "base64_decode_loop bits bit_count (c # cs) =
     (if c = CHR ''='' then []
      else let val = base64_decode_table ! of_char c
           in if val < 0 then base64_decode_loop bits bit_count cs
              else let bits = push_bit 6 bits OR word_of_int val; bit_count = bit_count + 6
                   in if bit_count \<ge> 8
                      then ucast (signed_drop_bit (bit_count - 8) bits AND 0xFF) #
                             base64_decode_loop bits (bit_count - 8) cs
                      else base64_decode_loop bits bit_count cs)"

definition base64_decode :: "string \<Rightarrow> bytes" where
  "base64_decode s = base64_decode_loop 0 0 s"

definition url_safe :: "char \<Rightarrow> char" where
  "url_safe c = (if c = CHR ''+'' then CHR ''-'' else if c = CHR ''/'' then CHR ''_'' else c)"

definition strip_padding :: "string \<Rightarrow> string" where
  "strip_padding s = rev (dropWhile (\<lambda>c. c = CHR ''='') (rev s))"

definition base64url_encode :: "bytes \<Rightarrow> string" where
  "base64url_encode bs = strip_padding (map url_safe (base64_encode bs))"

section \<open>Percent encoding\<close>

definition is_alnum :: "char \<Rightarrow> bool" where
  "is_alnum c =
     (let n = of_char c :: nat in 48 \<le> n \<and> n \<le> 57 \<or> 65 \<le> n \<and> n \<le> 90 \<or> 97 \<le> n \<and> n \<le> 122)"

definition upper_hex_digit :: "nat \<Rightarrow> char" where
  "upper_hex_digit n = char_of (if n < 10 then 48 + n else 55 + n)"

definition url_encode_char :: "bool \<Rightarrow> char \<Rightarrow> string" where
  "url_encode_char encode_slash c =
     (if is_alnum c \<or> c \<in> {CHR ''-'', CHR ''_'', CHR ''.'', CHR ''~''} then [c]
      else if c = CHR ''/'' \<and> \<not> encode_slash then [c]
      else let n = of_char c in [CHR ''%'', upper_hex_digit (n div 16), upper_hex_digit (n mod 16)])"

definition url_encode :: "string \<Rightarrow> bool \<Rightarrow> string" where
  "url_encode value encode_slash = concat (map (url_encode_char encode_slash) value)"

definition bytes_to_hex :: "bytes \<Rightarrow> string" where
  "bytes_to_hex bs = hex_string bs"

section \<open>XML and JSON\<close>

definition extract_xml_element :: "string \<Rightarrow> string \<Rightarrow> string option" where
  "extract_xml_element xml tag =
     (let open_tag = ''<'' @ tag @ ''>''; close_tag = ''</'' @ tag @ ''>''
      in case find_sub open_tag xml of
           None \<Rightarrow> None
         | Some rest \<Rightarrow>
             (let content = drop (length open_tag) rest
              in case find_sub close_tag content of
                   None \<Rightarrow> None
                 | Some tail \<Rightarrow> Some (take (length content - length tail) content)))"

text \<open>The rest of a string value up to the first quote that the character before it does not escape.\<close>

fun scan_quoted :: "char \<Rightarrow> string \<Rightarrow> string" where
  "scan_quoted prev [] = []"
| "scan_quoted prev (c # cs) =
     (if c = CHR 0x22 \<and> prev \<noteq> CHR 0x5C then [] else c # scan_quoted c cs)"

definition json_value :: "string \<Rightarrow> string \<Rightarrow> string option" where
  "json_value json key =
     (let search = [CHR 0x22] @ key @ [CHR 0x22]
      in case find_sub search json of
           None \<Rightarrow> None
         | Some rest \<Rightarrow>
             (case dropWhile (\<lambda>c. c \<noteq> CHR '':'') (drop (length search) rest) of
                [] \<Rightarrow> None
              | _ # after \<Rightarrow>
                  (case dropWhile (\<lambda>c. c \<in> {CHR '' '', CHR 0x09, CHR 0x0A, CHR 0x0D}) after of
                     [] \<Rightarrow> None
                   | c # cs \<Rightarrow>
                       if c = CHR 0x22 then Some (scan_quoted c cs)
                       else Some (takeWhile (\<lambda>c. c \<notin> {CHR '','', CHR ''}'', CHR 0x0A}) (c # cs)))))"

section \<open>Content types\<close>

definition to_lower :: "char \<Rightarrow> char" where
  "to_lower c = (let n = of_char c :: nat in if 65 \<le> n \<and> n \<le> 90 then char_of (n + 32) else c)"

definition mime_types :: "(string \<times> string) list" where
  "mime_types =
     [(''.txt'', ''text/plain''), (''.html'', ''text/html''), (''.htm'', ''text/html''), (''.css'', ''text/css''),
      (''.js'', ''application/javascript''), (''.json'', ''application/json''), (''.xml'', ''application/xml''),
      (''.pdf'', ''application/pdf''), (''.zip'', ''application/zip''), (''.gz'', ''application/gzip''),
      (''.tar'', ''application/x-tar''), (''.png'', ''image/png''), (''.jpg'', ''image/jpeg''),
      (''.jpeg'', ''image/jpeg''), (''.gif'', ''image/gif''), (''.svg'', ''image/svg+xml''),
      (''.webp'', ''image/webp''), (''.ico'', ''image/x-icon''), (''.mp3'', ''audio/mpeg''),
      (''.mp4'', ''video/mp4''), (''.webm'', ''video/webm''), (''.woff'', ''font/woff''),
      (''.woff2'', ''font/woff2''), (''.ttf'', ''font/ttf''), (''.otf'', ''font/otf'')]"

text \<open>From the last dot on.\<close>

definition extension_of :: "string \<Rightarrow> string option" where
  "extension_of key =
     (if CHR ''.'' \<in> set key then Some (CHR ''.'' # rev (takeWhile (\<lambda>c. c \<noteq> CHR ''.'') (rev key))) else None)"

definition detect_content_type :: "string \<Rightarrow> string" where
  "detect_content_type key =
     (case extension_of key of
        None \<Rightarrow> ''application/octet-stream''
      | Some ext \<Rightarrow>
          (case al_find mime_types (map to_lower ext) of
             Some t \<Rightarrow> t
           | None \<Rightarrow> ''application/octet-stream''))"

section \<open>Retry policy\<close>

record cloud_retry_policy =
  max_attempts :: nat
  initial_delay :: int
  max_delay :: int
  backoff_multiplier :: rat
  use_jitter :: bool
  retry_on_rate_limit :: bool
  retry_on_connection_error :: bool
  retry_on_server_error :: bool

definition default_retry_policy :: cloud_retry_policy where
  "default_retry_policy =
     \<lparr>max_attempts = 3, initial_delay = 1000, max_delay = 30000, backoff_multiplier = 2, use_jitter = True,
      retry_on_rate_limit = True, retry_on_connection_error = True, retry_on_server_error = True\<rparr>"

text \<open>The factor \<open>jitter\<close> is what the generator drew from \<open>[0.5, 1.5)\<close>.\<close>

definition calculate_retry_delay :: "rat \<Rightarrow> cloud_retry_policy \<Rightarrow> nat \<Rightarrow> int" where
  "calculate_retry_delay jitter policy attempt =
     (let delay = of_int (initial_delay policy) * backoff_multiplier policy ^ (attempt - 1);
          delay = min delay (of_int (max_delay policy));
          delay = (if use_jitter policy then delay * jitter else delay)
      in if delay < 0 then \<lceil>delay\<rceil> else \<lfloor>delay\<rfloor>)"

definition is_retryable_status :: "int \<Rightarrow> cloud_retry_policy \<Rightarrow> bool" where
  "is_retryable_status status policy =
     (if retry_on_rate_limit policy \<and> (status = 429 \<or> status = 503) then True
      else retry_on_server_error policy \<and> status \<ge> 500 \<and> status < 600)"

section \<open>Base64 is undone by decoding\<close>

lemma base64_table: "map (\<lambda>c. base64_decode_table ! of_char c) base64_chars = map int [0..<64]"
  by (simp add: base64_chars_def base64_decode_table_def nth_append upt_rec)

lemma base64_index:
  assumes "k < 64"
  shows "base64_decode_table ! of_char (base64_chars ! k) = int k" "base64_chars ! k \<noteq> CHR ''=''"
proof -
  have len: "length base64_chars = 64" by (simp add: base64_chars_def)
  with assms show "base64_decode_table ! of_char (base64_chars ! k) = int k"
    using arg_cong [OF base64_table, where f = "\<lambda>xs. xs ! k"] by simp
  have "CHR ''='' \<notin> set base64_chars" by (simp add: base64_chars_def)
  then show "base64_chars ! k \<noteq> CHR ''=''" using nth_mem [of k base64_chars] assms len by metis
qed

lemma sextet_less: "unat (w AND 0x3F :: u32) < 64"
proof -
  have "w AND 0x3F = w AND mask 6" by (simp add: mask_eq_exp_minus_1)
  then show ?thesis using and_mask_less' [of 6 w] by (simp add: word_less_nat_alt)
qed

lemma decode_char:
  "base64_decode_loop bits n (base64_char w # cs) =
     (let bits = push_bit 6 bits OR (w AND 0x3F); n = n + 6
      in if n \<ge> 8 then ucast (signed_drop_bit (n - 8) bits AND 0xFF) # base64_decode_loop bits (n - 8) cs
         else base64_decode_loop bits n cs)"
  using base64_index sextet_less [of w] by (simp add: base64_char_def Let_def)

lemma masks: "(0x3F :: u32) = mask 6" "(0xFF :: u32) = mask 8"
  by (simp_all add: mask_eq_exp_minus_1)

lemma below_8: "n < 8 \<longleftrightarrow> n \<in> {0, 1, 2, 3, 4, 5, 6, 7 :: nat}"
  by auto

lemma decode_octets:
  fixes n bits :: u32
  defines "b1 \<equiv> push_bit 6 bits OR (drop_bit 18 n AND 0x3F)"
  defines "b2 \<equiv> push_bit 6 b1 OR (drop_bit 12 n AND 0x3F)"
  defines "b3 \<equiv> push_bit 6 b2 OR (drop_bit 6 n AND 0x3F)"
  defines "b4 \<equiv> push_bit 6 b3 OR (n AND 0x3F)"
  shows "ucast (signed_drop_bit 4 b2 AND 0xFF) = (ucast (drop_bit 16 n) :: u8)"
    and "ucast (signed_drop_bit 2 b3 AND 0xFF) = (ucast (drop_bit 8 n) :: u8)"
    and "ucast (signed_drop_bit 0 b4 AND 0xFF) = (ucast n :: u8)"
  unfolding b1_def b2_def b3_def b4_def masks
  by (rule bit_word_eqI, simp only: below_8 len_num0 len_bit0, auto simp: bit_simps)+

lemma octets_of_group:
  fixes a b c :: u8
  defines "n \<equiv> push_bit 16 (ucast a) OR push_bit 8 (ucast b) OR ucast c :: u32"
  shows "ucast (drop_bit 16 n) = a" "ucast (drop_bit 8 n) = b" "ucast n = c"
  unfolding n_def by (rule bit_word_eqI, auto simp: bit_simps dest: bit_imp_le_length)+

definition shift_in :: "u32 \<Rightarrow> u32 \<Rightarrow> u32" where
  "shift_in bits w = push_bit 6 bits OR (w AND 0x3F)"

lemma decode_steps:
  "base64_decode_loop bits 0 (base64_char w # cs) = base64_decode_loop (shift_in bits w) 6 cs"
  "base64_decode_loop bits 6 (base64_char w # cs) =
     ucast (signed_drop_bit 4 (shift_in bits w) AND 0xFF) # base64_decode_loop (shift_in bits w) 4 cs"
  "base64_decode_loop bits 4 (base64_char w # cs) =
     ucast (signed_drop_bit 2 (shift_in bits w) AND 0xFF) # base64_decode_loop (shift_in bits w) 2 cs"
  "base64_decode_loop bits 2 (base64_char w # cs) =
     ucast (signed_drop_bit 0 (shift_in bits w) AND 0xFF) # base64_decode_loop (shift_in bits w) 0 cs"
  by (simp_all add: decode_char Let_def shift_in_def del: base64_decode_loop.simps)

lemma decode_padding: "base64_decode_loop bits n (CHR ''='' # cs) = []"
  by simp

lemma decode_groups:
  "base64_decode_loop bits 0 (base64_char (drop_bit 18 n) # base64_char (drop_bit 12 n) # cs) =
     ucast (drop_bit 16 n) # base64_decode_loop (shift_in (shift_in bits (drop_bit 18 n)) (drop_bit 12 n)) 4 cs"
  "base64_decode_loop (shift_in (shift_in bits (drop_bit 18 n)) (drop_bit 12 n)) 4 (base64_char (drop_bit 6 n) # cs) =
     ucast (drop_bit 8 n) #
       base64_decode_loop (shift_in (shift_in (shift_in bits (drop_bit 18 n)) (drop_bit 12 n)) (drop_bit 6 n)) 2 cs"
  "base64_decode_loop (shift_in (shift_in (shift_in bits (drop_bit 18 n)) (drop_bit 12 n)) (drop_bit 6 n)) 2
       (base64_char n # cs) =
     ucast n # base64_decode_loop (shift_in (shift_in (shift_in (shift_in bits (drop_bit 18 n)) (drop_bit 12 n))
       (drop_bit 6 n)) n) 0 cs"
  unfolding decode_steps using decode_octets [of bits n] by (simp_all only: shift_in_def)

lemma decode_encode_loop: "base64_decode_loop bits 0 (base64_encode bs) = bs"
proof (induction bs arbitrary: bits rule: base64_encode.induct)
  case (2 a rest)
  consider "rest = []" | b where "rest = [b]" | b c r where "rest = b # c # r"
    by (metis neq_Nil_conv)
  then show ?case
  proof cases
    case 1
    then show ?thesis
      using octets_of_group(1) [of a 0 0]
      by (simp add: decode_groups decode_padding Let_def del: base64_decode_loop.simps(2))
  next
    case (2 b)
    then show ?thesis
      using octets_of_group(1,2) [of a b 0]
      by (simp add: decode_groups decode_padding Let_def del: base64_decode_loop.simps(2) drop_bit_or)
  next
    case (3 b c r)
    then show ?thesis
      using octets_of_group [of a b c] "2.IH"
      by (simp add: decode_groups Let_def or.assoc del: base64_decode_loop.simps(2) drop_bit_or)
  qed
qed simp

lemma base64_char_in: "base64_char w \<in> set base64_chars"
  unfolding base64_char_def using sextet_less [of w] by (intro nth_mem) (simp add: base64_chars_def)

lemma set_base64_encode: "set (base64_encode bs) \<subseteq> insert (CHR ''='') (set base64_chars)"
  by (induction bs rule: base64_encode.induct) (auto simp: base64_char_in Let_def)

text \<open>The inverse of \<open>url_safe\<close> on the alphabet.\<close>

definition url_unsafe :: "char \<Rightarrow> char" where
  "url_unsafe c = (if c = CHR ''-'' then CHR ''+'' else if c = CHR ''_'' then CHR ''/'' else c)"

lemma url_unsafe_safe: "c \<in> insert (CHR ''='') (set base64_chars) \<Longrightarrow> url_unsafe (url_safe c) = c"
  by (auto simp: base64_chars_def url_unsafe_def url_safe_def)

lemma decode_stops: "base64_decode_loop bits n (s @ CHR ''='' # t) = base64_decode_loop bits n s"
  by (induction bits n s rule: base64_decode_loop.induct) (simp_all add: Let_def)

lemma strip_padding_append: "\<exists>k. s = strip_padding s @ replicate k (CHR ''='')"
proof -
  let ?p = "\<lambda>c. c = CHR ''=''"
  have "takeWhile ?p (rev s) = replicate (length (takeWhile ?p (rev s))) (CHR ''='')"
    by (auto intro: replicate_eqI dest: set_takeWhileD)
  then have "rev s = replicate (length (takeWhile ?p (rev s))) (CHR ''='') @ dropWhile ?p (rev s)"
    by (metis takeWhile_dropWhile_id)
  then have "s = rev (dropWhile ?p (rev s)) @ replicate (length (takeWhile ?p (rev s))) (CHR ''='')"
    by (metis rev_append rev_replicate rev_rev_ident)
  then show ?thesis unfolding strip_padding_def by blast
qed

lemma decode_stripped: "base64_decode (strip_padding s) = base64_decode s"
proof -
  obtain k where "s = strip_padding s @ replicate k (CHR ''='')"
    using strip_padding_append by blast
  then have "base64_decode s = base64_decode (strip_padding s @ replicate k (CHR ''=''))" by simp
  then show ?thesis by (cases k) (simp_all add: base64_decode_def decode_stops)
qed

lemma strip_padding_unsafe: "map url_unsafe (strip_padding s) = strip_padding (map url_unsafe s)"
proof -
  have "(url_unsafe c = CHR ''='') = (c = CHR ''='')" for c by (simp add: url_unsafe_def)
  then show ?thesis by (simp add: strip_padding_def rev_map dropWhile_map comp_def)
qed

section \<open>Percent encoding is undone by decoding\<close>

text \<open>The decoder of RFC 3986.\<close>

fun url_decode :: "string \<Rightarrow> string option" where
  "url_decode [] = Some []"
| "url_decode (c # cs) =
     (if c = CHR ''%''
      then (case cs of
              h # l # r \<Rightarrow>
                (case (hex_val h, hex_val l, url_decode r) of
                   (Some i, Some j, Some s) \<Rightarrow> Some (char_of (16 * i + j) # s)
                 | _ \<Rightarrow> None)
            | _ \<Rightarrow> None)
      else map_option ((#) c) (url_decode cs))"

lemma hex_val_upper [simp]: "n < 16 \<Longrightarrow> hex_val (upper_hex_digit n) = Some n"
  by (auto simp: hex_val_def upper_hex_digit_def Let_def)

lemma url_decode_char: "url_decode (url_encode_char b c @ s) = map_option ((#) c) (url_decode s)"
proof -
  have "(of_char c :: nat) div 16 < 16" by (rule less_mult_imp_div_less) simp
  moreover have "char_of (37 :: nat) = CHR ''%''" by (simp add: char_of_def bit_iff_odd)
  ultimately show ?thesis
    by (auto simp: url_encode_char_def Let_def is_alnum_def split: option.split)
qed

lemma url_decode_encode: "url_decode (url_encode v b) = Some v"
  by (induction v) (simp_all add: url_encode_def url_decode_char)

section \<open>Properties\<close>

text \<open>C20: decoding undoes Base64 encoding for every sequence of bytes, and so does decoding the URL-safe
  form, which has no padding, after the two substituted characters are put back.\<close>

theorem base64_roundtrip:
  "base64_decode (base64_encode bs) = bs \<and> base64_decode (map url_unsafe (base64url_encode bs)) = bs"
proof -
  have "map url_unsafe (map url_safe (base64_encode bs)) = base64_encode bs"
    unfolding map_map comp_def
    by (rule map_idI, rule url_unsafe_safe, rule subsetD [OF set_base64_encode])
  then show ?thesis
    by (simp add: base64url_encode_def strip_padding_unsafe decode_stripped del: map_map)
      (simp add: base64_decode_def decode_encode_loop)
qed

text \<open>Percent encoding loses nothing: the decoder of RFC 3986 reads every encoded text back,
  whether slashes were encoded or not.\<close>

theorem url_encode_roundtrip: "url_decode (url_encode v b) = Some v"
  by (rule url_decode_encode)

text \<open>Without jitter no delay is longer than the configured maximum; with it a delay can be half as long again.\<close>

lemma retry_delay_bound:
  assumes "0 \<le> max_delay p" and "1 / 2 \<le> j" and "j \<le> 3 / 2"
  shows "2 * calculate_retry_delay j p n \<le> (if use_jitter p then 3 else 2) * max_delay p"
proof -
  define d :: rat where "d = min (of_int (initial_delay p) * backoff_multiplier p ^ (n - 1)) (of_int (max_delay p))"
  define e where "e = (if use_jitter p then d * j else d)"
  have "d * j \<le> of_int (max_delay p) * (3 / 2)"
  proof (cases "0 \<le> d")
    case True
    then show ?thesis using assms by (intro mult_mono) (auto simp: d_def)
  next
    case False
    then have "d * j \<le> 0" using assms(2) by (simp add: mult_nonpos_nonneg)
    also have "0 \<le> of_int (max_delay p) * (3 / 2 :: rat)" using assms(1) by simp
    finally show ?thesis .
  qed
  then have e: "2 * e \<le> of_int ((if use_jitter p then 3 else 2) * max_delay p)"
    by (auto simp: e_def d_def)
  have r: "calculate_retry_delay j p n = (if e < 0 then \<lceil>e\<rceil> else \<lfloor>e\<rfloor>)"
    by (simp add: calculate_retry_delay_def d_def e_def Let_def)
  show ?thesis
  proof (cases "e < 0")
    case True
    then have "\<lceil>e\<rceil> \<le> 0" by (simp add: ceiling_le_iff)
    then have "2 * calculate_retry_delay j p n \<le> 0" using r True by simp
    also have "0 \<le> (if use_jitter p then 3 else 2) * max_delay p" using assms(1) by simp
    finally show ?thesis .
  next
    case False
    have "of_int (2 * \<lfloor>e\<rfloor>) \<le> 2 * e" by simp
    with e have "of_int (2 * \<lfloor>e\<rfloor>) \<le> (of_int ((if use_jitter p then 3 else 2) * max_delay p) :: rat)"
      by (rule order_trans [rotated])
    then show ?thesis using r False by (simp only: of_int_le_iff if_False)
  qed
qed

end
