(* ===== verification/Cloud_Types.thy ===== *)
theory Cloud_Types
  imports Cloud_Utils Error_Codes
begin

text \<open>
  The data of the cloud storage interface: cloud/cloud_credentials.h, cloud/cloud_config.h and the
  structures of cloud/cloud_storage_interface.h. Time points are seconds since 1970; durations are in
  the unit of the source. The clock that \<open>is_expired\<close> and \<open>time_until_expiration\<close> read is the argument
  \<open>now\<close>. Of \<open>upload_result\<close> and \<open>download_result\<close> the measured durations are left out.
\<close>

section \<open>Providers and credentials\<close>

datatype cloud_provider = Aws_s3 | Azure_blob | Google_cloud | Custom_provider

definition provider_to_string :: "cloud_provider \<Rightarrow> string" where
  "provider_to_string p =
     (case p of Aws_s3 \<Rightarrow> ''aws-s3'' | Azure_blob \<Rightarrow> ''azure-blob'' | Google_cloud \<Rightarrow> ''google-cloud''
      | Custom_provider \<Rightarrow> ''custom'')"

datatype credential_type = Static_credentials | Iam_role | Managed_identity | Service_account | Environment
  | Profile | Assume_role | Web_identity | Shared_credentials

definition credential_type_to_string :: "credential_type \<Rightarrow> string" where
  "credential_type_to_string t =
     (case t of Static_credentials \<Rightarrow> ''static-credentials'' | Iam_role \<Rightarrow> ''iam-role''
      | Managed_identity \<Rightarrow> ''managed-identity'' | Service_account \<Rightarrow> ''service-account''
      | Environment \<Rightarrow> ''environment'' | Profile \<Rightarrow> ''profile'' | Assume_role \<Rightarrow> ''assume-role''
      | Web_identity \<Rightarrow> ''web-identity'' | Shared_credentials \<Rightarrow> ''shared-credentials'')"

datatype credential_state = Cred_uninitialized | Cred_valid | Cred_expired | Cred_invalid | Cred_refreshing

definition credential_state_to_string :: "credential_state \<Rightarrow> string" where
  "credential_state_to_string s =
     (case s of Cred_uninitialized \<Rightarrow> ''uninitialized'' | Cred_valid \<Rightarrow> ''valid'' | Cred_expired \<Rightarrow> ''expired''
      | Cred_invalid \<Rightarrow> ''invalid'' | Cred_refreshing \<Rightarrow> ''refreshing'')"

record cloud_credentials =
  cr_type :: credential_type
  cr_session_token :: "string option"
  cr_expiration :: "int option"
  cr_region :: "string option"

definition is_expired :: "int \<Rightarrow> 'a cloud_credentials_scheme \<Rightarrow> bool" where
  "is_expired now c = (case cr_expiration c of None \<Rightarrow> False | Some e \<Rightarrow> now \<ge> e)"

definition time_until_expiration :: "int \<Rightarrow> 'a cloud_credentials_scheme \<Rightarrow> int option" where
  "time_until_expiration now c =
     (case cr_expiration c of None \<Rightarrow> None | Some e \<Rightarrow> Some (if now \<ge> e then 0 else e - now))"

record static_credentials = cloud_credentials +
  access_key_id :: string
  secret_access_key :: string

definition new_static_credentials :: static_credentials where
  "new_static_credentials =
     \<lparr>cr_type = Static_credentials, cr_session_token = None, cr_expiration = None, cr_region = None,
      access_key_id = [], secret_access_key = []\<rparr>"

record azure_credentials = cloud_credentials +
  az_account_name :: string
  az_account_key :: "string option"
  az_connection_string :: "string option"
  az_sas_token :: "string option"
  az_tenant_id :: "string option"
  az_client_id :: "string option"
  az_client_secret :: "string option"

definition new_azure_credentials :: azure_credentials where
  "new_azure_credentials =
     \<lparr>cr_type = Static_credentials, cr_session_token = None, cr_expiration = None, cr_region = None,
      az_account_name = [], az_account_key = None, az_connection_string = None, az_sas_token = None,
      az_tenant_id = None, az_client_id = None, az_client_secret = None\<rparr>"

record gcs_credentials = cloud_credentials +
  gc_service_account_file :: "string option"
  gc_service_account_json :: "string option"
  gc_project_id :: "string option"

definition new_gcs_credentials :: gcs_credentials where
  "new_gcs_credentials =
     \<lparr>cr_type = Service_account, cr_session_token = None, cr_expiration = None, cr_region = None,
      gc_service_account_file = None, gc_service_account_json = None, gc_project_id = None\<rparr>"

text \<open>What \<open>credential_provider::get_credentials\<close> returns: a pointer to one of the classes above.\<close>

datatype any_credentials = Static static_credentials | Azure azure_credentials | Gcs gcs_credentials

section \<open>Configuration\<close>

record multipart_config =
  mp_enabled :: bool
  mp_threshold :: u64
  mp_part_size :: u64
  mp_max_concurrent_parts :: nat
  mp_part_timeout :: int
  mp_max_part_retries :: nat

definition default_multipart_config :: multipart_config where
  "default_multipart_config =
     \<lparr>mp_enabled = True, mp_threshold = 100 * 1024 * 1024, mp_part_size = 5 * 1024 * 1024,
      mp_max_concurrent_parts = 4, mp_part_timeout = 300000, mp_max_part_retries = 3\<rparr>"

record cloud_transfer_options =
  ct_timeout :: int
  ct_verify_checksum :: bool
  ct_checksum_algorithm :: string
  ct_content_type :: "string option"
  ct_metadata :: "(string \<times> string) list"
  ct_storage_class :: "string option"
  ct_server_side_encryption :: "string option"
  ct_kms_key_id :: "string option"
  ct_acl :: "string option"
  ct_cache_control :: "string option"
  ct_content_disposition :: "string option"
  ct_content_encoding :: "string option"

definition default_transfer_options :: cloud_transfer_options where
  "default_transfer_options =
     \<lparr>ct_timeout = 0, ct_verify_checksum = True, ct_checksum_algorithm = ''md5'', ct_content_type = None,
      ct_metadata = [], ct_storage_class = None, ct_server_side_encryption = None, ct_kms_key_id = None,
      ct_acl = None, ct_cache_control = None, ct_content_disposition = None, ct_content_encoding = None\<rparr>"

record cloud_storage_config =
  sc_provider :: cloud_provider
  sc_bucket :: string
  sc_region :: string
  sc_endpoint :: "string option"
  sc_use_path_style :: bool
  sc_use_ssl :: bool
  sc_verify_ssl :: bool
  sc_ca_cert_path :: "string option"
  sc_connect_timeout :: int
  sc_request_timeout :: int
  sc_connection_pool_size :: nat
  sc_keep_alive :: bool
  sc_retry :: cloud_retry_policy
  sc_multipart :: multipart_config
  sc_default_transfer_options :: cloud_transfer_options
  sc_user_agent :: "string option"

definition default_storage_config :: "cloud_provider \<Rightarrow> cloud_storage_config" where
  "default_storage_config p =
     \<lparr>sc_provider = p, sc_bucket = [], sc_region = [], sc_endpoint = None, sc_use_path_style = False,
      sc_use_ssl = True, sc_verify_ssl = True, sc_ca_cert_path = None, sc_connect_timeout = 30000,
      sc_request_timeout = 0, sc_connection_pool_size = 25, sc_keep_alive = True, sc_retry = default_retry_policy,
      sc_multipart = default_multipart_config, sc_default_transfer_options = default_transfer_options,
      sc_user_agent = None\<rparr>"

record s3_config = cloud_storage_config +
  s3_use_transfer_acceleration :: bool
  s3_use_dualstack :: bool
  s3_use_express_one_zone :: bool
  s3_signature_version :: string
  s3_use_chunked_encoding :: bool
  s3_request_payer :: "string option"

definition default_s3_config :: s3_config where
  "default_s3_config = cloud_storage_config.extend (default_storage_config Aws_s3)
     (s3_config.fields False False False ''v4'' True None)"

record azure_blob_config = cloud_storage_config +
  az_container :: string
  az_config_account_name :: string
  az_api_version :: string
  az_validate_content_md5 :: bool
  az_access_tier :: "string option"
  az_use_customer_encryption_key :: bool
  az_customer_encryption_key :: "string option"
  az_enable_immutability :: bool

definition default_azure_blob_config :: azure_blob_config where
  "default_azure_blob_config = cloud_storage_config.extend (default_storage_config Azure_blob)
     (azure_blob_config.fields [] [] ''2023-11-03'' True None False None False)"

record gcs_config = cloud_storage_config +
  gc_config_project_id :: string
  gc_predefined_acl :: "string option"
  gc_default_object_acl :: "string option"
  gc_use_csek :: bool
  gc_csek_key :: "string option"
  gc_csek_key_sha256 :: "string option"
  gc_kms_key_name :: "string option"
  gc_uniform_bucket_level_access :: bool

definition default_gcs_config :: gcs_config where
  "default_gcs_config = cloud_storage_config.extend (default_storage_config Google_cloud)
     (gcs_config.fields [] None None False None None None True)"

section \<open>The configuration builder\<close>

text \<open>Each setter changes the first configuration that is present; those of one provider change no other.\<close>

record cloud_config_builder =
  cb_s3 :: "s3_config option"
  cb_azure :: "azure_blob_config option"
  cb_gcs :: "gcs_config option"

definition builder_s3 :: cloud_config_builder where
  "builder_s3 = \<lparr>cb_s3 = Some default_s3_config, cb_azure = None, cb_gcs = None\<rparr>"

definition builder_azure_blob :: cloud_config_builder where
  "builder_azure_blob = \<lparr>cb_s3 = None, cb_azure = Some default_azure_blob_config, cb_gcs = None\<rparr>"

definition builder_gcs :: cloud_config_builder where
  "builder_gcs = \<lparr>cb_s3 = None, cb_azure = None, cb_gcs = Some default_gcs_config\<rparr>"

definition on_first ::
  "(s3_config \<Rightarrow> s3_config) \<Rightarrow> (azure_blob_config \<Rightarrow> azure_blob_config) \<Rightarrow> (gcs_config \<Rightarrow> gcs_config) \<Rightarrow>
   cloud_config_builder \<Rightarrow> cloud_config_builder" where
  "on_first f g h b =
     (case cb_s3 b of
        Some c \<Rightarrow> b\<lparr>cb_s3 := Some (f c)\<rparr>
      | None \<Rightarrow>
          (case cb_azure b of
             Some c \<Rightarrow> b\<lparr>cb_azure := Some (g c)\<rparr>
           | None \<Rightarrow> b\<lparr>cb_gcs := map_option h (cb_gcs b)\<rparr>))"

definition with_bucket :: "string \<Rightarrow> cloud_config_builder \<Rightarrow> cloud_config_builder" where
  "with_bucket x =
     on_first (\<lambda>c. c\<lparr>sc_bucket := x\<rparr>) (\<lambda>c. c\<lparr>sc_bucket := x, az_container := x\<rparr>) (\<lambda>c. c\<lparr>sc_bucket := x\<rparr>)"

definition with_region :: "string \<Rightarrow> cloud_config_builder \<Rightarrow> cloud_config_builder" where
  "with_region x = on_first (sc_region_update (\<lambda>_. x)) (sc_region_update (\<lambda>_. x)) (sc_region_update (\<lambda>_. x))"

definition with_endpoint :: "string \<Rightarrow> cloud_config_builder \<Rightarrow> cloud_config_builder" where
  "with_endpoint x =
     on_first (sc_endpoint_update (\<lambda>_. Some x)) (sc_endpoint_update (\<lambda>_. Some x)) (sc_endpoint_update (\<lambda>_. Some x))"

definition with_path_style :: "bool \<Rightarrow> cloud_config_builder \<Rightarrow> cloud_config_builder" where
  "with_path_style x =
     on_first (sc_use_path_style_update (\<lambda>_. x)) (sc_use_path_style_update (\<lambda>_. x)) (sc_use_path_style_update (\<lambda>_. x))"

definition with_ssl :: "bool \<Rightarrow> bool \<Rightarrow> cloud_config_builder \<Rightarrow> cloud_config_builder" where
  "with_ssl enable verify =
     on_first (\<lambda>c. c\<lparr>sc_use_ssl := enable, sc_verify_ssl := verify\<rparr>)
       (\<lambda>c. c\<lparr>sc_use_ssl := enable, sc_verify_ssl := verify\<rparr>) (\<lambda>c. c\<lparr>sc_use_ssl := enable, sc_verify_ssl := verify\<rparr>)"

definition with_connect_timeout :: "int \<Rightarrow> cloud_config_builder \<Rightarrow> cloud_config_builder" where
  "with_connect_timeout x =
     on_first (sc_connect_timeout_update (\<lambda>_. x)) (sc_connect_timeout_update (\<lambda>_. x)) (sc_connect_timeout_update (\<lambda>_. x))"

definition with_request_timeout :: "int \<Rightarrow> cloud_config_builder \<Rightarrow> cloud_config_builder" where
  "with_request_timeout x =
     on_first (sc_request_timeout_update (\<lambda>_. x)) (sc_request_timeout_update (\<lambda>_. x)) (sc_request_timeout_update (\<lambda>_. x))"

definition with_connection_pool_size :: "nat \<Rightarrow> cloud_config_builder \<Rightarrow> cloud_config_builder" where
  "with_connection_pool_size x =
     on_first (sc_connection_pool_size_update (\<lambda>_. x)) (sc_connection_pool_size_update (\<lambda>_. x))
       (sc_connection_pool_size_update (\<lambda>_. x))"

definition with_retry_policy :: "cloud_retry_policy \<Rightarrow> cloud_config_builder \<Rightarrow> cloud_config_builder" where
  "with_retry_policy x = on_first (sc_retry_update (\<lambda>_. x)) (sc_retry_update (\<lambda>_. x)) (sc_retry_update (\<lambda>_. x))"

definition with_multipart :: "multipart_config \<Rightarrow> cloud_config_builder \<Rightarrow> cloud_config_builder" where
  "with_multipart x = on_first (sc_multipart_update (\<lambda>_. x)) (sc_multipart_update (\<lambda>_. x)) (sc_multipart_update (\<lambda>_. x))"

definition on_s3 :: "(s3_config \<Rightarrow> s3_config) \<Rightarrow> cloud_config_builder \<Rightarrow> cloud_config_builder" where
  "on_s3 f b = b\<lparr>cb_s3 := map_option f (cb_s3 b)\<rparr>"

definition on_azure :: "(azure_blob_config \<Rightarrow> azure_blob_config) \<Rightarrow> cloud_config_builder \<Rightarrow> cloud_config_builder" where
  "on_azure f b = b\<lparr>cb_azure := map_option f (cb_azure b)\<rparr>"

definition on_gcs :: "(gcs_config \<Rightarrow> gcs_config) \<Rightarrow> cloud_config_builder \<Rightarrow> cloud_config_builder" where
  "on_gcs f b = b\<lparr>cb_gcs := map_option f (cb_gcs b)\<rparr>"

definition with_transfer_acceleration :: "bool \<Rightarrow> cloud_config_builder \<Rightarrow> cloud_config_builder" where
  "with_transfer_acceleration x = on_s3 (s3_use_transfer_acceleration_update (\<lambda>_. x))"

definition with_dualstack :: "bool \<Rightarrow> cloud_config_builder \<Rightarrow> cloud_config_builder" where
  "with_dualstack x = on_s3 (s3_use_dualstack_update (\<lambda>_. x))"

definition with_account_name :: "string \<Rightarrow> cloud_config_builder \<Rightarrow> cloud_config_builder" where
  "with_account_name x = on_azure (az_config_account_name_update (\<lambda>_. x))"

definition with_access_tier :: "string \<Rightarrow> cloud_config_builder \<Rightarrow> cloud_config_builder" where
  "with_access_tier x = on_azure (az_access_tier_update (\<lambda>_. Some x))"

definition with_project_id :: "string \<Rightarrow> cloud_config_builder \<Rightarrow> cloud_config_builder" where
  "with_project_id x = on_gcs (gc_config_project_id_update (\<lambda>_. x))"

definition with_uniform_bucket_level_access :: "bool \<Rightarrow> cloud_config_builder \<Rightarrow> cloud_config_builder" where
  "with_uniform_bucket_level_access x = on_gcs (gc_uniform_bucket_level_access_update (\<lambda>_. x))"

definition build_s3 :: "cloud_config_builder \<Rightarrow> s3_config" where
  "build_s3 b = (case cb_s3 b of Some c \<Rightarrow> c | None \<Rightarrow> default_s3_config)"

definition build_azure_blob :: "cloud_config_builder \<Rightarrow> azure_blob_config" where
  "build_azure_blob b = (case cb_azure b of Some c \<Rightarrow> c | None \<Rightarrow> default_azure_blob_config)"

definition build_gcs :: "cloud_config_builder \<Rightarrow> gcs_config" where
  "build_gcs b = (case cb_gcs b of Some c \<Rightarrow> c | None \<Rightarrow> default_gcs_config)"

section \<open>Objects, requests and results\<close>

datatype cloud_storage_state = Cs_disconnected | Cs_connecting | Cs_connected | Cs_error

definition storage_state_to_string :: "cloud_storage_state \<Rightarrow> string" where
  "storage_state_to_string s =
     (case s of Cs_disconnected \<Rightarrow> ''disconnected'' | Cs_connecting \<Rightarrow> ''connecting'' | Cs_connected \<Rightarrow> ''connected''
      | Cs_error \<Rightarrow> ''error'')"

record cloud_object_metadata =
  cm_key :: string
  cm_size :: u64
  cm_last_modified :: int
  cm_etag :: string
  cm_content_type :: string
  cm_content_encoding :: "string option"
  cm_storage_class :: "string option"
  cm_version_id :: "string option"
  cm_md5 :: "string option"
  cm_custom_metadata :: "(string \<times> string) list"
  cm_is_directory :: bool

definition new_object_metadata :: "string \<Rightarrow> cloud_object_metadata" where
  "new_object_metadata key =
     \<lparr>cm_key = key, cm_size = 0, cm_last_modified = 0, cm_etag = [], cm_content_type = [], cm_content_encoding = None,
      cm_storage_class = None, cm_version_id = None, cm_md5 = None, cm_custom_metadata = [], cm_is_directory = False\<rparr>"

record list_objects_result =
  lr_objects :: "cloud_object_metadata list"
  lr_common_prefixes :: "string list"
  lr_is_truncated :: bool
  lr_token :: "string option"
  lr_total_count :: "u64 option"

record list_objects_options =
  lq_prefix :: "string option"
  lq_delimiter :: "string option"
  lq_max_keys :: nat
  lq_token :: "string option"
  lq_start_after :: "string option"
  lq_fetch_owner :: bool

definition default_list_objects_options :: list_objects_options where
  "default_list_objects_options =
     \<lparr>lq_prefix = None, lq_delimiter = Some ''/'', lq_max_keys = 1000, lq_token = None, lq_start_after = None,
      lq_fetch_owner = False\<rparr>"

record upload_progress =
  up_bytes_transferred :: u64
  up_total_bytes :: u64
  up_speed_bps :: u64
  up_upload_id :: "string option"
  up_current_part :: "nat option"
  up_total_parts :: "nat option"

definition percentage_of :: "u64 \<Rightarrow> u64 \<Rightarrow> rat" where
  "percentage_of bytes_transferred total_bytes =
     (if total_bytes = 0 then 0 else of_nat (unat bytes_transferred) / of_nat (unat total_bytes) * 100)"

definition upload_percentage :: "upload_progress \<Rightarrow> rat" where
  "upload_percentage p = percentage_of (up_bytes_transferred p) (up_total_bytes p)"

record download_progress =
  dp_bytes_transferred :: u64
  dp_total_bytes :: u64
  dp_speed_bps :: u64

definition download_percentage :: "download_progress \<Rightarrow> rat" where
  "download_percentage p = percentage_of (dp_bytes_transferred p) (dp_total_bytes p)"

record upload_result =
  ur_key :: string
  ur_etag :: string
  ur_version_id :: "string option"
  ur_upload_id :: "string option"
  ur_bytes_uploaded :: u64

definition new_upload_result :: "string \<Rightarrow> string \<Rightarrow> u64 \<Rightarrow> upload_result" where
  "new_upload_result key etag n =
     \<lparr>ur_key = key, ur_etag = etag, ur_version_id = None, ur_upload_id = None, ur_bytes_uploaded = n\<rparr>"

record download_result =
  dr_key :: string
  dr_bytes_downloaded :: u64
  dr_metadata :: cloud_object_metadata

record delete_result =
  de_key :: string
  de_version_id :: "string option"
  de_delete_marker :: bool

definition new_delete_result :: "string \<Rightarrow> delete_result" where
  "new_delete_result key = \<lparr>de_key = key, de_version_id = None, de_delete_marker = False\<rparr>"

record presigned_url_options =
  pu_expiration :: int
  pu_method :: string
  pu_content_type :: "string option"
  pu_content_md5 :: "string option"
  pu_storage_class :: "string option"
  pu_server_side_encryption :: "string option"
  pu_kms_key_id :: "string option"
  pu_custom_metadata :: "(string \<times> string) list"
  pu_response_content_type :: "string option"
  pu_response_content_disposition :: "string option"

definition default_presigned_url_options :: presigned_url_options where
  "default_presigned_url_options =
     \<lparr>pu_expiration = 3600, pu_method = ''GET'', pu_content_type = None, pu_content_md5 = None, pu_storage_class = None,
      pu_server_side_encryption = None, pu_kms_key_id = None, pu_custom_metadata = [], pu_response_content_type = None,
      pu_response_content_disposition = None\<rparr>"

record cloud_storage_statistics =
  cst_bytes_uploaded :: u64
  cst_bytes_downloaded :: u64
  cst_upload_count :: u64
  cst_download_count :: u64
  cst_list_count :: u64
  cst_delete_count :: u64
  cst_errors :: u64
  cst_connected_at :: int

definition zero_cloud_statistics :: cloud_storage_statistics where
  "zero_cloud_statistics =
     \<lparr>cst_bytes_uploaded = 0, cst_bytes_downloaded = 0, cst_upload_count = 0, cst_download_count = 0, cst_list_count = 0,
      cst_delete_count = 0, cst_errors = 0, cst_connected_at = 0\<rparr>"

end
