(* ===== verification/Cloud_Backend.thy ===== *)
theory Cloud_Backend
  imports Storage_Backend Cloud_Types
begin

text \<open>
  The cloud backend of server/storage_manager.cpp: it translates the calls of \<open>storage_backend\<close> into
  those of \<open>cloud_storage_interface\<close> (cloud/cloud_storage_interface.h), a record of functions over the
  world, and the answers back.
\<close>

record 'w cloud_storage =
  cs_is_connected :: "'w \<Rightarrow> bool"
  cs_connect :: "'w \<Rightarrow> 'w \<times> unit result"
  cs_disconnect :: "'w \<Rightarrow> 'w \<times> unit result"
  cs_upload :: "string \<Rightarrow> bytes \<Rightarrow> cloud_transfer_options \<Rightarrow> 'w \<Rightarrow> 'w \<times> upload_result result"
  cs_upload_file :: "path \<Rightarrow> string \<Rightarrow> cloud_transfer_options \<Rightarrow> 'w \<Rightarrow> 'w \<times> upload_result result"
  cs_download :: "string \<Rightarrow> 'w \<Rightarrow> 'w \<times> bytes result"
  cs_download_file :: "string \<Rightarrow> path \<Rightarrow> 'w \<Rightarrow> 'w \<times> download_result result"
  cs_delete_object :: "string \<Rightarrow> 'w \<Rightarrow> 'w \<times> delete_result result"
  cs_exists :: "string \<Rightarrow> 'w \<Rightarrow> 'w \<times> bool result"
  cs_get_metadata :: "string \<Rightarrow> 'w \<Rightarrow> 'w \<times> cloud_object_metadata result"
  cs_list_objects :: "list_objects_options \<Rightarrow> 'w \<Rightarrow> 'w \<times> list_objects_result result"

text \<open>An error of the service becomes the error of the backend.\<close>

definition on_error :: "error_code \<Rightarrow> ('a \<Rightarrow> 'b) \<Rightarrow> 'w \<times> 'a result \<Rightarrow> 'w \<times> 'b result" where
  "on_error e f = (\<lambda>(w, r). (w, case r of Inl _ \<Rightarrow> Inl e | Inr x \<Rightarrow> Inr (f x)))"

definition cloud_connect :: "'w cloud_storage \<Rightarrow> 'w \<Rightarrow> 'w \<times> unit result" where
  "cloud_connect c w = on_error Invalid_configuration id (cs_connect c w)"

definition cloud_disconnect :: "'w cloud_storage \<Rightarrow> 'w \<Rightarrow> 'w \<times> unit result" where
  "cloud_disconnect c w = on_error Internal_error id (cs_disconnect c w)"

definition cloud_options_of :: "store_options \<Rightarrow> cloud_transfer_options" where
  "cloud_options_of opts =
     default_transfer_options
       \<lparr>ct_content_type := so_content_type opts, ct_metadata := so_custom_metadata opts,
        ct_storage_class := so_storage_class opts\<rparr>"

definition cloud_store_result ::
  "storage_backend_type \<Rightarrow> string \<Rightarrow> store_options \<Rightarrow> upload_result \<Rightarrow> store_result" where
  "cloud_store_result t key opts u =
     \<lparr>sr_key = key, bytes_stored = ur_bytes_uploaded u, sr_backend = t, sr_tier = so_tier opts,
      sr_etag = Some (ur_etag u)\<rparr>"

definition cloud_store ::
  "storage_backend_type \<Rightarrow> 'w cloud_storage \<Rightarrow> string \<Rightarrow> bytes \<Rightarrow> store_options \<Rightarrow> 'w \<Rightarrow> 'w \<times> store_result result" where
  "cloud_store t c key d opts w =
     on_error File_write_error (cloud_store_result t key opts) (cs_upload c key d (cloud_options_of opts) w)"

definition cloud_store_file ::
  "storage_backend_type \<Rightarrow> 'w cloud_storage \<Rightarrow> string \<Rightarrow> path \<Rightarrow> store_options \<Rightarrow> 'w \<Rightarrow> 'w \<times> store_result result" where
  "cloud_store_file t c key src opts w =
     on_error File_write_error (cloud_store_result t key opts) (cs_upload_file c src key (cloud_options_of opts) w)"

definition cloud_retrieve :: "'w cloud_storage \<Rightarrow> string \<Rightarrow> 'w \<Rightarrow> 'w \<times> bytes result" where
  "cloud_retrieve c key w = on_error File_read_error id (cs_download c key w)"

definition object_of_cloud :: "storage_backend_type \<Rightarrow> cloud_object_metadata \<Rightarrow> stored_object_metadata" where
  "object_of_cloud t m = (new_metadata (cm_key m) t)
     \<lparr>om_size := cm_size m, om_last_modified := cm_last_modified m, om_etag := Some (cm_etag m),
      om_content_type := Some (cm_content_type m), om_custom_metadata := cm_custom_metadata m\<rparr>"

definition cloud_retrieve_file ::
  "storage_backend_type \<Rightarrow> 'w cloud_storage \<Rightarrow> string \<Rightarrow> path \<Rightarrow> 'w \<Rightarrow> 'w \<times> retrieve_result result" where
  "cloud_retrieve_file t c key dst w =
     on_error File_read_error
       (\<lambda>d. \<lparr>rr_key = key, bytes_retrieved = dr_bytes_downloaded d, rr_backend = t,
             rr_metadata = object_of_cloud t (dr_metadata d)\<rparr>)
       (cs_download_file c key dst w)"

definition cloud_remove :: "'w cloud_storage \<Rightarrow> string \<Rightarrow> 'w \<Rightarrow> 'w \<times> unit result" where
  "cloud_remove c key w = on_error File_access_denied (\<lambda>_. ()) (cs_delete_object c key w)"

definition cloud_exists :: "'w cloud_storage \<Rightarrow> string \<Rightarrow> 'w \<Rightarrow> 'w \<times> bool result" where
  "cloud_exists c key w = on_error File_read_error id (cs_exists c key w)"

text \<open>The storage class becomes a tier; an unknown class leaves the default, hot.\<close>

definition tier_of_class :: "string option \<Rightarrow> storage_tier" where
  "tier_of_class cls =
     (case cls of None \<Rightarrow> Hot
      | Some s \<Rightarrow>
          if s = ''STANDARD'' then Hot
          else if s = ''STANDARD_IA'' \<or> s = ''ONEZONE_IA'' then Warm
          else if s = ''GLACIER'' \<or> s = ''GLACIER_IR'' then Cold
          else if s = ''DEEP_ARCHIVE'' then Archive
          else Hot)"

definition cloud_get_metadata ::
  "storage_backend_type \<Rightarrow> 'w cloud_storage \<Rightarrow> string \<Rightarrow> 'w \<Rightarrow> 'w \<times> stored_object_metadata result" where
  "cloud_get_metadata t c key w =
     on_error File_read_error (\<lambda>m. (object_of_cloud t m)\<lparr>om_tier := tier_of_class (cm_storage_class m)\<rparr>)
       (cs_get_metadata c key w)"

text \<open>The delimiter keeps its default \<open>/\<close>, so the services list one level.\<close>

definition cloud_list ::
  "storage_backend_type \<Rightarrow> 'w cloud_storage \<Rightarrow> list_storage_options \<Rightarrow> 'w \<Rightarrow> 'w \<times> list_storage_result result" where
  "cloud_list t c opts w =
     on_error File_read_error
       (\<lambda>r. \<lparr>objects = map (object_of_cloud t) (lr_objects r), is_truncated = lr_is_truncated r,
             next_token = lr_token r, total_count = lr_total_count r\<rparr>)
       (cs_list_objects c
         (default_list_objects_options
            \<lparr>lq_prefix := lo_prefix opts, lq_max_keys := max_results opts, lq_token := continuation_token opts\<rparr>) w)"

definition cloud_backend :: "storage_backend_type \<Rightarrow> 'w cloud_storage \<Rightarrow> 'w storage_backend" where
  "cloud_backend t c =
     \<lparr>sb_type = t, sb_is_available = cs_is_connected c,
      sb_connect = cloud_connect c, sb_disconnect = cloud_disconnect c,
      sb_store = cloud_store t c, sb_store_file = cloud_store_file t c,
      sb_retrieve = cloud_retrieve c, sb_retrieve_file = cloud_retrieve_file t c,
      sb_remove = cloud_remove c, sb_exists = cloud_exists c,
      sb_get_metadata = cloud_get_metadata t c, sb_list = cloud_list t c\<rparr>"

lemma on_error_simps [simp]:
  "on_error e f (w, Inl e') = (w, Inl e)" "on_error e f (w, Inr x) = (w, Inr (f x))"
  "fst (on_error e f p) = fst p"
  by (simp_all add: on_error_def split: prod.splits)

lemma cloud_backend_simps [simp]:
  "sb_type (cloud_backend t c) = t" "sb_store (cloud_backend t c) = cloud_store t c"
  "sb_retrieve (cloud_backend t c) = cloud_retrieve c" "sb_remove (cloud_backend t c) = cloud_remove c"
  "sb_exists (cloud_backend t c) = cloud_exists c" "sb_get_metadata (cloud_backend t c) = cloud_get_metadata t c"
  "sb_list (cloud_backend t c) = cloud_list t c"
  by (simp_all add: cloud_backend_def)

end
