(* ===== verification/Storage_Manager.thy ===== *)
theory Storage_Manager
  imports Cloud_Backend "HOL-Library.List_Lexorder" "HOL-Library.Char_ord" "HOL-Library.Multiset"
begin

text \<open>
  \<open>storage_manager\<close> of server/storage_manager.cpp over two backends. Its state is the manager and the
  world the backends share; calls of the error callback are a trace. The asynchronous variants run
  the same functions on another thread. \<open>hybrid_storage\<close>, \<open>fallback_reads\<close> and \<open>replicate_writes\<close>
  are the options the code reads.
\<close>

record storage_manager_statistics =
  st_bytes_stored :: u64
  st_bytes_retrieved :: u64
  store_count :: u64
  retrieve_count :: u64
  delete_count :: u64
  error_count :: u64
  local_file_count :: u64
  local_bytes :: u64
  cloud_file_count :: u64
  cloud_bytes :: u64
  tier_change_count :: u64

definition zero_storage_statistics :: storage_manager_statistics where
  "zero_storage_statistics = \<lparr>st_bytes_stored = 0, st_bytes_retrieved = 0, store_count = 0, retrieve_count = 0,
     delete_count = 0, error_count = 0, local_file_count = 0, local_bytes = 0, cloud_file_count = 0, cloud_bytes = 0,
     tier_change_count = 0\<rparr>"

record 'w storage_manager_config =
  primary_backend :: "'w storage_backend option"
  secondary_backend :: "'w storage_backend option"
  hybrid_storage :: bool
  fallback_reads :: bool
  replicate_writes :: bool

definition config_is_valid :: "'w storage_manager_config \<Rightarrow> bool" where
  "config_is_valid cfg \<longleftrightarrow> primary_backend cfg \<noteq> None"

record 'w storage_manager =
  primary :: "'w storage_backend"
  secondary :: "'w storage_backend option"
  hybrid :: bool
  fallback :: bool
  replicate_on :: bool
  initialized :: bool
  stats :: storage_manager_statistics
  error_reports :: "(string \<times> error_code) list"

type_synonym 'w manager = "'w storage_manager \<times> 'w"

text \<open>\<open>create\<close> gives nothing without a primary backend.\<close>

definition create_storage_manager :: "'w storage_manager_config \<Rightarrow> 'w storage_manager option" where
  "create_storage_manager cfg =
     (case primary_backend cfg of None \<Rightarrow> None
      | Some b \<Rightarrow> Some \<lparr>primary = b, secondary = secondary_backend cfg, hybrid = hybrid_storage cfg,
          fallback = fallback_reads cfg, replicate_on = replicate_writes cfg, initialized = False,
          stats = zero_storage_statistics, error_reports = []\<rparr>)"

section \<open>Statistics\<close>

definition report_error :: "string \<Rightarrow> error_code \<Rightarrow> 'w storage_manager \<Rightarrow> 'w storage_manager" where
  "report_error key e m = m\<lparr>error_reports := error_reports m @ [(key, e)]\<rparr>"

definition record_store :: "u64 \<Rightarrow> storage_backend_type \<Rightarrow> 'w storage_manager \<Rightarrow> 'w storage_manager" where
  "record_store n t m =
     (let s = stats m;
          s = s\<lparr>st_bytes_stored := st_bytes_stored s + n, store_count := store_count s + 1\<rparr>
      in m\<lparr>stats :=
        (if t = Local then s\<lparr>local_file_count := local_file_count s + 1, local_bytes := local_bytes s + n\<rparr>
         else s\<lparr>cloud_file_count := cloud_file_count s + 1, cloud_bytes := cloud_bytes s + n\<rparr>)\<rparr>)"

definition record_retrieve :: "u64 \<Rightarrow> 'w storage_manager \<Rightarrow> 'w storage_manager" where
  "record_retrieve n m =
     m\<lparr>stats := (stats m)\<lparr>st_bytes_retrieved := st_bytes_retrieved (stats m) + n,
       retrieve_count := retrieve_count (stats m) + 1\<rparr>\<rparr>"

definition record_delete :: "'w storage_manager \<Rightarrow> 'w storage_manager" where
  "record_delete m = m\<lparr>stats := (stats m)\<lparr>delete_count := delete_count (stats m) + 1\<rparr>\<rparr>"

definition record_error :: "'w storage_manager \<Rightarrow> 'w storage_manager" where
  "record_error m = m\<lparr>stats := (stats m)\<lparr>error_count := error_count (stats m) + 1\<rparr>\<rparr>"

section \<open>Life cycle\<close>

definition initialize :: "'w manager \<Rightarrow> 'w manager \<times> unit result" where
  "initialize = (\<lambda>(m, w).
     if initialized m then ((m, w), Inr ())
     else case sb_connect (primary m) w of
       (w, Inl _) \<Rightarrow> ((m, w), Inl Invalid_configuration)
     | (w, Inr _) \<Rightarrow>
         (case secondary m of
            None \<Rightarrow> ((m\<lparr>initialized := True\<rparr>, w), Inr ())
          | Some b \<Rightarrow>
              (case sb_connect b w of
                 (w, Inl e) \<Rightarrow> (((report_error [] e m)\<lparr>initialized := True\<rparr>, w), Inr ())
               | (w, Inr _) \<Rightarrow> ((m\<lparr>initialized := True\<rparr>, w), Inr ()))))"

definition shutdown :: "'w manager \<Rightarrow> 'w manager \<times> unit result" where
  "shutdown = (\<lambda>(m, w).
     if \<not> initialized m then ((m, w), Inr ())
     else
       let w = (case secondary m of None \<Rightarrow> w | Some b \<Rightarrow> fst (sb_disconnect b w));
           w = fst (sb_disconnect (primary m) w)
       in ((m\<lparr>initialized := False\<rparr>, w), Inr ()))"

section \<open>Objects\<close>

text \<open>
  \<open>store\<close> and \<open>store_file\<close> differ in the function of the backend they call, and so do \<open>retrieve\<close> and
  \<open>retrieve_file\<close>: the common code takes that function as an argument.
\<close>

definition store_with ::
  "('w storage_backend \<Rightarrow> 'w \<Rightarrow> 'w \<times> store_result result) \<Rightarrow> string \<Rightarrow> 'w manager \<Rightarrow> 'w manager \<times> store_result result" where
  "store_with call key = (\<lambda>(m, w).
     if \<not> initialized m then ((m, w), Inl Invalid_configuration)
     else case call (primary m) w of
       (w, Inl e) \<Rightarrow> ((report_error key e (record_error m), w), Inl e)
     | (w, Inr r) \<Rightarrow>
         let m = record_store (bytes_stored r) (sr_backend r) m
         in case (if replicate_on m then secondary m else None) of
              None \<Rightarrow> ((m, w), Inr r)
            | Some b \<Rightarrow>
                (case call b w of
                   (w, Inl e) \<Rightarrow> ((report_error key e m, w), Inr r)
                 | (w, Inr _) \<Rightarrow> ((m, w), Inr r)))"

definition mgr_store :: "string \<Rightarrow> bytes \<Rightarrow> store_options \<Rightarrow> 'w manager \<Rightarrow> 'w manager \<times> store_result result" where
  "mgr_store key d opts = store_with (\<lambda>b. sb_store b key d opts) key"

definition mgr_store_file :: "string \<Rightarrow> path \<Rightarrow> store_options \<Rightarrow> 'w manager \<Rightarrow> 'w manager \<times> store_result result" where
  "mgr_store_file key src opts = store_with (\<lambda>b. sb_store_file b key src opts) key"

definition retrieve_with ::
  "('w storage_backend \<Rightarrow> 'w \<Rightarrow> 'w \<times> 'a result) \<Rightarrow> ('a \<Rightarrow> u64) \<Rightarrow> 'w manager \<Rightarrow> 'w manager \<times> 'a result" where
  "retrieve_with call size_of = (\<lambda>(m, w).
     if \<not> initialized m then ((m, w), Inl Invalid_configuration)
     else case call (primary m) w of
       (w, Inr x) \<Rightarrow> ((record_retrieve (size_of x) m, w), Inr x)
     | (w, Inl e) \<Rightarrow>
         (case (if fallback m then secondary m else None) of
            None \<Rightarrow> ((record_error m, w), Inl e)
          | Some b \<Rightarrow>
              (case call b w of
                 (w, Inr x) \<Rightarrow> ((record_retrieve (size_of x) m, w), Inr x)
               | (w, Inl _) \<Rightarrow> ((record_error m, w), Inl e))))"

definition mgr_retrieve :: "string \<Rightarrow> 'w manager \<Rightarrow> 'w manager \<times> bytes result" where
  "mgr_retrieve key = retrieve_with (\<lambda>b. sb_retrieve b key) (\<lambda>d. word_of_nat (length d))"

definition mgr_retrieve_file :: "string \<Rightarrow> path \<Rightarrow> 'w manager \<Rightarrow> 'w manager \<times> retrieve_result result" where
  "mgr_retrieve_file key dst = retrieve_with (\<lambda>b. sb_retrieve_file b key dst) bytes_retrieved"

definition mgr_remove :: "string \<Rightarrow> 'w manager \<Rightarrow> 'w manager \<times> unit result" where
  "mgr_remove key = (\<lambda>(m, w).
     if \<not> initialized m then ((m, w), Inl Invalid_configuration)
     else case sb_remove (primary m) key w of
       (w, r) \<Rightarrow>
         let w = (case secondary m of None \<Rightarrow> w | Some b \<Rightarrow> fst (sb_remove b key w))
         in ((if has_value r then record_delete m else record_error m, w), r))"

definition mgr_exists :: "string \<Rightarrow> 'w manager \<Rightarrow> 'w manager \<times> bool result" where
  "mgr_exists key = (\<lambda>(m, w).
     if \<not> initialized m then ((m, w), Inl Invalid_configuration)
     else case sb_exists (primary m) key w of
       (w, r) \<Rightarrow>
         if r = Inr True then ((m, w), Inr True)
         else case (if fallback m then secondary m else None) of
           None \<Rightarrow> ((m, w), Inr False)
         | Some b \<Rightarrow> (case sb_exists b key w of (w, r) \<Rightarrow> ((m, w), Inr (r = Inr True))))"

definition mgr_get_metadata :: "string \<Rightarrow> 'w manager \<Rightarrow> 'w manager \<times> stored_object_metadata result" where
  "mgr_get_metadata key = (\<lambda>(m, w).
     if \<not> initialized m then ((m, w), Inl Invalid_configuration)
     else case sb_get_metadata (primary m) key w of
       (w, Inr x) \<Rightarrow> ((m, w), Inr x)
     | (w, Inl e) \<Rightarrow>
         (case (if fallback m then secondary m else None) of
            None \<Rightarrow> ((m, w), Inl e)
          | Some b \<Rightarrow>
              (case sb_get_metadata b key w of
                 (w, Inr x) \<Rightarrow> ((m, w), Inr x)
               | (w, Inl _) \<Rightarrow> ((m, w), Inl e))))"

text \<open>The merge of two listings: the last entry of the primary for a key, else the first of the secondary.\<close>

definition listed :: "list_storage_result result \<Rightarrow> stored_object_metadata list" where
  "listed r = (case r of Inl _ \<Rightarrow> [] | Inr l \<Rightarrow> objects l)"

definition merge_objects ::
  "stored_object_metadata list \<Rightarrow> stored_object_metadata list \<Rightarrow> (string \<times> stored_object_metadata) list" where
  "merge_objects ps ss =
     fold (\<lambda>x m. if al_find m (om_key x) = None then al_update (om_key x) x m else m) ss
       (fold (\<lambda>x. al_update (om_key x) x) ps [])"

definition merged_listing ::
  "nat \<Rightarrow> stored_object_metadata list \<Rightarrow> stored_object_metadata list \<Rightarrow> list_storage_result" where
  "merged_listing n ps ss =
     (let xs = sort_key om_key (map snd (merge_objects ps ss))
      in empty_listing\<lparr>objects := take n xs, is_truncated := length xs > n\<rparr>)"

definition mgr_list :: "list_storage_options \<Rightarrow> 'w manager \<Rightarrow> 'w manager \<times> list_storage_result result" where
  "mgr_list opts = (\<lambda>(m, w).
     if \<not> initialized m then ((m, w), Inl Invalid_configuration)
     else case (if hybrid m then secondary m else None) of
       None \<Rightarrow> (case sb_list (primary m) opts w of (w, r) \<Rightarrow> ((m, w), r))
     | Some b \<Rightarrow>
         (case sb_list (primary m) opts w of
            (w, r1) \<Rightarrow> (case sb_list b opts w of
              (w, r2) \<Rightarrow> ((m, w), Inr (merged_listing (max_results opts) (listed r1) (listed r2))))))"

section \<open>Tiers and copies\<close>

fun class_of_tier :: "storage_tier \<Rightarrow> string" where
  "class_of_tier Hot = ''STANDARD''"
| "class_of_tier Warm = ''STANDARD_IA''"
| "class_of_tier Cold = ''GLACIER''"
| "class_of_tier Archive = ''DEEP_ARCHIVE''"

definition tier_options :: "storage_tier \<Rightarrow> store_options" where
  "tier_options t =
     default_store_options\<lparr>so_tier := t, overwrite := True, so_storage_class := Some (class_of_tier t)\<rparr>"

definition change_tier :: "string \<Rightarrow> storage_tier \<Rightarrow> 'w manager \<Rightarrow> 'w manager \<times> unit result" where
  "change_tier key t s =
     (if \<not> initialized (fst s) then (s, Inl Invalid_configuration)
      else case mgr_retrieve key s of
        (s, Inl e) \<Rightarrow> (s, Inl e)
      | (s, Inr d) \<Rightarrow>
          (case mgr_store key d (tier_options t) s of
             (s, Inl e) \<Rightarrow> (s, Inl e)
           | ((m, w), Inr _) \<Rightarrow>
               ((m\<lparr>stats := (stats m)\<lparr>tier_change_count := tier_change_count (stats m) + 1\<rparr>\<rparr>, w), Inr ())))"

definition backend_of_type :: "storage_backend_type \<Rightarrow> 'w storage_manager \<Rightarrow> 'w storage_backend option" where
  "backend_of_type t m =
     (if sb_type (primary m) = t then Some (primary m)
      else case secondary m of None \<Rightarrow> None | Some b \<Rightarrow> if sb_type b = t then Some b else None)"

definition copy_between_backends ::
  "string \<Rightarrow> storage_backend_type \<Rightarrow> storage_backend_type \<Rightarrow> 'w manager \<Rightarrow> 'w manager \<times> unit result" where
  "copy_between_backends key src dst = (\<lambda>(m, w).
     if \<not> initialized m then ((m, w), Inl Invalid_configuration)
     else case (backend_of_type src m, backend_of_type dst m) of
       (Some b1, Some b2) \<Rightarrow>
         (case sb_retrieve b1 key w of
            (w, Inl e) \<Rightarrow> ((m, w), Inl e)
          | (w, Inr d) \<Rightarrow>
              (case sb_store b2 key d (default_store_options\<lparr>overwrite := True\<rparr>) w of
                 (w, Inl e) \<Rightarrow> ((m, w), Inl e)
               | (w, Inr _) \<Rightarrow> ((m, w), Inr ())))
     | _ \<Rightarrow> ((m, w), Inl Invalid_configuration))"

definition reset_storage_statistics :: "'w manager \<Rightarrow> 'w manager" where
  "reset_storage_statistics = (\<lambda>(m, w). (m\<lparr>stats := zero_storage_statistics\<rparr>, w))"

section \<open>Listing both backends\<close>

text \<open>A map of objects by their key, all of them from the given set.\<close>

definition keyed :: "stored_object_metadata set \<Rightarrow> (string \<times> stored_object_metadata) list \<Rightarrow> bool" where
  "keyed X m \<longleftrightarrow> al_distinct m \<and> (\<forall>(k, x) \<in> set m. k = om_key x \<and> x \<in> X)"

lemma keyed_update: "keyed X m \<Longrightarrow> keyed (insert x X) (al_update (om_key x) x m)"
  by (auto simp: keyed_def al_distinct_update dest!: set_al_update)

lemma keyed_mono: "keyed X m \<Longrightarrow> X \<subseteq> Y \<Longrightarrow> keyed Y m"
  by (fastforce simp: keyed_def)

lemma fold_primary:
  "keyed X m \<Longrightarrow> keyed (X \<union> set ps) (fold (\<lambda>x. al_update (om_key x) x) ps m) \<and>
     al_keys (fold (\<lambda>x. al_update (om_key x) x) ps m) = al_keys m \<union> om_key ` set ps"
proof (induction ps arbitrary: m X)
  case (Cons p ps)
  from Cons.IH [OF keyed_update [OF Cons.prems, of p]] show ?case
    by (auto simp: al_keys_update insert_commute)
qed simp

lemma fold_secondary:
  "keyed X m \<Longrightarrow> al_keys m = om_key ` X \<Longrightarrow>
   keyed (X \<union> {x \<in> set ss. om_key x \<notin> om_key ` X})
     (fold (\<lambda>x m. if al_find m (om_key x) = None then al_update (om_key x) x m else m) ss m) \<and>
   al_keys (fold (\<lambda>x m. if al_find m (om_key x) = None then al_update (om_key x) x m else m) ss m) =
     om_key ` X \<union> om_key ` set ss"
proof (induction ss arbitrary: m X)
  case (Cons s ss)
  show ?case
  proof (cases "om_key s \<in> om_key ` X")
    case True
    have "al_find m (om_key s) \<noteq> None"
      using True Cons.prems(2) by (simp add: al_find_None_iff)
    then show ?thesis
      using Cons.IH [OF Cons.prems] True by (auto elim!: keyed_mono)
  next
    case False
    then have "al_find m (om_key s) = None"
      using Cons.prems(2) by (simp add: al_find_None_iff)
    moreover have "al_keys (al_update (om_key s) s m) = om_key ` insert s X"
      using Cons.prems(2) by (simp add: al_keys_update)
    ultimately show ?thesis
      using Cons.IH [OF keyed_update [OF Cons.prems(1), of s]] False
      by (auto elim!: keyed_mono)
  qed
qed simp

lemma merge_objects_facts:
  "keyed (set ps \<union> {x \<in> set ss. om_key x \<notin> om_key ` set ps}) (merge_objects ps ss)"
  "al_keys (merge_objects ps ss) = om_key ` set ps \<union> om_key ` set ss"
proof -
  have "keyed {} []"
    by (simp add: keyed_def)
  from fold_primary [OF this, of ps]
  have p: "keyed (set ps) (fold (\<lambda>x. al_update (om_key x) x) ps [])"
    "al_keys (fold (\<lambda>x. al_update (om_key x) x) ps []) = om_key ` set ps"
    by simp_all
  from fold_secondary [OF p] show "keyed (set ps \<union> {x \<in> set ss. om_key x \<notin> om_key ` set ps}) (merge_objects ps ss)"
    "al_keys (merge_objects ps ss) = om_key ` set ps \<union> om_key ` set ss"
    by (simp_all add: merge_objects_def)
qed

lemma keyed_map_keys: "keyed X m \<Longrightarrow> map om_key (map snd m) = map fst m"
  by (auto simp: keyed_def)

lemma merged_listing_facts:
  fixes n ps ss
  defines "l \<equiv> merged_listing n ps ss" and "ks \<equiv> om_key ` set ps \<union> om_key ` set ss"
  shows "sorted (map om_key (objects l))" and "distinct (map om_key (objects l))" and "length (objects l) \<le> n"
    and "\<And>x. x \<in> set (objects l) \<Longrightarrow> x \<in> set ps \<or> (x \<in> set ss \<and> om_key x \<notin> om_key ` set ps)"
    and "is_truncated l \<longleftrightarrow> card ks > n"
    and "\<not> is_truncated l \<Longrightarrow> om_key ` set (objects l) = ks"
proof -
  define m where "m = merge_objects ps ss"
  define xs where "xs = sort_key om_key (map snd m)"
  have l: "objects l = take n xs" "is_truncated l \<longleftrightarrow> length xs > n"
    by (simp_all add: l_def merged_listing_def Let_def xs_def m_def)
  note km = merge_objects_facts [of ps ss, folded m_def]
  have keys: "map om_key (map snd m) = map fst m"
    using km(1) by (rule keyed_map_keys)
  have mset: "mset (map om_key xs) = mset (map fst m)"
    unfolding keys [symmetric] by (simp add: xs_def multiset.map_comp)
  have dist: "distinct (map om_key xs)"
    using km(1) mset_eq_imp_distinct_iff [OF mset] by (simp add: keyed_def al_distinct_def)
  have set: "om_key ` set xs = ks"
    using mset_eq_setD [OF mset] km(2) by (simp add: ks_def al_keys_def)
  have len: "length xs = card ks"
    using distinct_card [OF dist] set by simp
  show "sorted (map om_key (objects l))"
    using sorted_wrt_take [of "(\<le>)" "map om_key xs" n] by (simp add: l take_map xs_def)
  show "distinct (map om_key (objects l))"
    using distinct_take [OF dist, of n] by (simp add: l take_map)
  show "length (objects l) \<le> n"
    by (simp add: l)
  show "x \<in> set ps \<or> (x \<in> set ss \<and> om_key x \<notin> om_key ` set ps)" if "x \<in> set (objects l)" for x
    using that km(1) in_set_takeD [of x n xs] by (auto simp: l xs_def keyed_def)
  show "is_truncated l \<longleftrightarrow> card ks > n"
    by (simp add: l len)
  show "om_key ` set (objects l) = ks" if "\<not> is_truncated l"
    using that set by (simp add: l)
qed

text \<open>A hybrid manager lists the union of both backends: sorted by key, one entry per key, the entry of the
  primary where both have the key, at most \<open>max_results\<close> entries; the list is complete exactly when it is not
  marked as truncated. That mark only looks at the entries the backends returned: when the primary itself cut its
  listing, and the merged entries fit, the caller is told that nothing is missing.\<close>

theorem hybrid_listing:
  assumes "initialized m" and "hybrid m" and "secondary m = Some b"
    and "sb_list (primary m) opts w = (w1, Inr l1)" and "sb_list b opts w1 = (w2, Inr l2)"
  shows "\<exists>l. mgr_list opts (m, w) = ((m, w2), Inr l) \<and>
     sorted (map om_key (objects l)) \<and> distinct (map om_key (objects l)) \<and> length (objects l) \<le> max_results opts \<and>
     (\<forall>x \<in> set (objects l). x \<in> set (objects l1) \<or> x \<in> set (objects l2) \<and> om_key x \<notin> om_key ` set (objects l1)) \<and>
     (is_truncated l \<longleftrightarrow> card (om_key ` set (objects l1) \<union> om_key ` set (objects l2)) > max_results opts) \<and>
     (\<not> is_truncated l \<longrightarrow> om_key ` set (objects l) = om_key ` set (objects l1) \<union> om_key ` set (objects l2))"
  using assms merged_listing_facts [where n = "max_results opts" and ps = "objects l1" and ss = "objects l2"]
  by (intro exI [of _ "merged_listing (max_results opts) (objects l1) (objects l2)"])
     (simp add: mgr_list_def listed_def; blast)

definition two_disks :: "storage_env \<Rightarrow> storage_world storage_manager" where
  "two_disks env = \<lparr>primary = local_backend env ''/p'', secondary = Some (local_backend env ''/s''), hybrid = True,
     fallback = True, replicate_on = False, initialized = True, stats = zero_storage_statistics, error_reports = []\<rparr>"

definition one_entry :: storage_env where
  "one_entry = sound_env\<lparr>dir_entries := (\<lambda>b. [b @ ''/x''])\<rparr>"

definition entries_world :: storage_world where
  "entries_world = empty_world\<lparr>sw_fs := [''/p/x'' \<mapsto> [1], ''/s/x'' \<mapsto> [2]]\<rparr>"

lemma one_entry_list:
  assumes "b = ''/p'' \<or> b = ''/s''"
  shows "local_list one_entry b default_list_options entries_world =
     (entries_world, Inr (empty_listing\<lparr>objects := [(new_metadata ''x'' Local)\<lparr>om_size := 1\<rparr>]\<rparr>))"
  using assms
  by (auto simp: local_list_def one_entry_def entries_world_def empty_world_def fs_exists_def default_list_options_def
      relative_key_def path_append_def local_metadata_def new_metadata_def empty_listing_def Let_def)

theorem hybrid_listing_witness:
  "\<exists>l. mgr_list default_list_options (two_disks one_entry, entries_world) = ((two_disks one_entry, entries_world), Inr l) \<and>
     sorted (map om_key (objects l)) \<and> distinct (map om_key (objects l))"
  using hybrid_listing [OF _ _ _ _ _, of "two_disks one_entry" "local_backend one_entry ''/s''" default_list_options
      entries_world entries_world _ entries_world]
  by (auto simp: two_disks_def one_entry_list)

section \<open>A stored object stays\<close>

datatype manager_call =
  Call_store string bytes store_options | Call_retrieve string | Call_remove string | Call_exists string
| Call_change_tier string storage_tier

fun manager_step :: "manager_call \<Rightarrow> 'w manager \<Rightarrow> 'w manager" where
  "manager_step (Call_store k d opts) s = fst (mgr_store k d opts s)"
| "manager_step (Call_retrieve k) s = fst (mgr_retrieve k s)"
| "manager_step (Call_remove k) s = fst (mgr_remove k s)"
| "manager_step (Call_exists k) s = fst (mgr_exists k s)"
| "manager_step (Call_change_tier k t) s = fst (change_tier k t s)"

fun call_key :: "manager_call \<Rightarrow> string" where
  "call_key (Call_store k d opts) = k"
| "call_key (Call_retrieve k) = k"
| "call_key (Call_remove k) = k"
| "call_key (Call_exists k) = k"
| "call_key (Call_change_tier k t) = k"

fun replaces :: "string \<Rightarrow> manager_call \<Rightarrow> bool" where
  "replaces k (Call_store j d opts) \<longleftrightarrow> j = k"
| "replaces k (Call_remove j) \<longleftrightarrow> j = k"
| "replaces k c \<longleftrightarrow> False"

text \<open>The other backend never touches the objects of this one.\<close>

definition leaves_alone :: "('w \<Rightarrow> string \<Rightarrow> bytes option) \<Rightarrow> (string \<Rightarrow> bool) \<Rightarrow> 'w storage_backend \<Rightarrow> bool" where
  "leaves_alone held key_ok b \<longleftrightarrow> (\<forall>w j k d opts. key_ok j \<and> key_ok k \<longrightarrow>
     held (fst (sb_store b k d opts w)) j = held w j \<and> held (fst (sb_retrieve b k w)) j = held w j \<and>
     held (fst (sb_remove b k w)) j = held w j \<and> held (fst (sb_exists b k w)) j = held w j)"

lemma stats_keep_backends [simp]:
  "primary (report_error k e m) = primary m" "secondary (report_error k e m) = secondary m"
  "initialized (report_error k e m) = initialized m"
  "primary (record_store n t m) = primary m" "secondary (record_store n t m) = secondary m"
  "initialized (record_store n t m) = initialized m"
  "primary (record_retrieve n m) = primary m" "secondary (record_retrieve n m) = secondary m"
  "initialized (record_retrieve n m) = initialized m"
  "primary (record_error m) = primary m" "secondary (record_error m) = secondary m"
  "initialized (record_error m) = initialized m"
  "primary (record_delete m) = primary m" "secondary (record_delete m) = secondary m"
  "initialized (record_delete m) = initialized m"
  by (simp_all add: report_error_def record_store_def record_retrieve_def record_error_def record_delete_def Let_def)

lemma calls_keep_backends [simp]:
  "primary (fst (fst (store_with call key s))) = primary (fst s)"
  "secondary (fst (fst (store_with call key s))) = secondary (fst s)"
  "initialized (fst (fst (store_with call key s))) = initialized (fst s)"
  "primary (fst (fst (retrieve_with call' g s))) = primary (fst s)"
  "secondary (fst (fst (retrieve_with call' g s))) = secondary (fst s)"
  "initialized (fst (fst (retrieve_with call' g s))) = initialized (fst s)"
  by (auto simp: store_with_def retrieve_with_def Let_def split: prod.splits sum.splits option.splits if_splits)

definition guarded ::
  "'w storage_backend \<Rightarrow> ('w \<Rightarrow> string \<Rightarrow> bytes option) \<Rightarrow> (string \<Rightarrow> bool) \<Rightarrow> 'w manager \<Rightarrow> bool" where
  "guarded b held key_ok s \<longleftrightarrow> initialized (fst s) \<and> primary (fst s) = b \<and>
     (case secondary (fst s) of None \<Rightarrow> True | Some b' \<Rightarrow> leaves_alone held key_ok b')"

lemma change_tier_backends [simp]:
  "primary (fst (fst (change_tier key t s))) = primary (fst s)"
  "secondary (fst (fst (change_tier key t s))) = secondary (fst s)"
  "initialized (fst (fst (change_tier key t s))) = initialized (fst s)"
  using calls_keep_backends
  by (auto simp: change_tier_def mgr_retrieve_def mgr_store_def split: prod.splits sum.splits)
     (metis calls_keep_backends fst_conv)+

lemma guarded_step: "guarded b held key_ok s \<Longrightarrow> guarded b held key_ok (manager_step c s)"
  by (cases c) (auto simp: guarded_def mgr_store_def mgr_retrieve_def mgr_remove_def mgr_exists_def Let_def
      split: prod.splits option.splits if_splits)

text \<open>What a client needs of the primary for one key beyond the contract: what is there can be read and replaced.\<close>

definition dependable :: "'w storage_backend \<Rightarrow> ('w \<Rightarrow> string \<Rightarrow> bytes option) \<Rightarrow> string \<Rightarrow> bool" where
  "dependable b held k \<longleftrightarrow> (\<forall>w d opts.
     (held w k \<noteq> None \<longrightarrow> has_value (snd (sb_retrieve b k w)) \<and> snd (sb_exists b k w) = Inr True) \<and>
     (overwrite opts \<longrightarrow> has_value (snd (sb_store b k d opts w))))"

context backend_laws
begin

lemma mgr_store_held:
  assumes "guarded b held key_ok s" and "key_ok k" and "key_ok j"
  shows "held (snd (fst (mgr_store k d opts s))) j = held (fst (sb_store b k d opts (snd s))) j"
  using assms
  by (auto simp: mgr_store_def store_with_def guarded_def leaves_alone_def Let_def
      split: prod.splits sum.splits option.splits if_splits) (metis fst_conv)+

lemma mgr_store_success:
  "guarded b held key_ok s \<Longrightarrow> snd (mgr_store k d opts s) = Inr r \<Longrightarrow> snd (sb_store b k d opts (snd s)) = Inr r"
  by (auto simp: mgr_store_def store_with_def guarded_def Let_def
      split: prod.splits sum.splits option.splits if_splits)

lemma mgr_retrieve_held:
  assumes "guarded b held key_ok s" and "key_ok k" and "key_ok j"
  shows "held (snd (fst (mgr_retrieve k s))) j = held (snd s) j"
  using assms retrieve_keeps [of k "snd s" j]
  by (auto simp: mgr_retrieve_def retrieve_with_def guarded_def leaves_alone_def
      split: prod.splits sum.splits option.splits if_splits) (metis fst_conv)+

lemma mgr_retrieve_value:
  assumes "guarded b held key_ok s" and "key_ok k" and "held (snd s) k = Some d" and "dependable b held k"
  shows "snd (mgr_retrieve k s) = Inr d"
proof -
  have "has_value (snd (sb_retrieve b k (snd s)))"
    using assms(3) assms(4) [unfolded dependable_def, rule_format, of "snd s"] by simp
  then obtain d' where d': "snd (sb_retrieve b k (snd s)) = Inr d'"
    by (auto simp: has_value_def split: sum.splits)
  then have "d' = d"
    using retrieve_held [OF assms(2) d'] assms(3) by simp
  then show ?thesis
    using d' assms(1) by (auto simp: mgr_retrieve_def retrieve_with_def guarded_def split: prod.splits)
qed

lemma mgr_remove_other:
  assumes "guarded b held key_ok s" and "key_ok k" and "key_ok j" and "j \<noteq> k"
  shows "held (snd (fst (mgr_remove k s))) j = held (snd s) j"
  using assms remove_other [OF assms(2-4), of "snd s"]
  by (auto simp: mgr_remove_def guarded_def leaves_alone_def Let_def split: prod.splits option.splits)

lemma mgr_exists_held:
  assumes "guarded b held key_ok s" and "key_ok k" and "key_ok j"
  shows "held (snd (fst (mgr_exists k s))) j = held (snd s) j"
  using assms exists_keeps [of k "snd s" j]
  by (auto simp: mgr_exists_def guarded_def leaves_alone_def split: prod.splits option.splits if_splits)
     (metis fst_conv)+

lemma mgr_store_keeps:
  assumes "guarded b held key_ok s" and "key_ok k" and "key_ok j" and "held (snd s) k = Some d"
    and "j \<noteq> k \<or> (d' = d \<and> has_value (snd (sb_store b k d opts (snd s))))"
  shows "held (snd (fst (mgr_store j d' opts s))) k = Some d"
proof (cases "j = k")
  case True
  then obtain r where "snd (sb_store b k d opts (snd s)) = Inr r" "d' = d"
    using assms(5) by (auto simp: has_value_def split: sum.splits)
  then show ?thesis
    using mgr_store_held [OF assms(1,3,2), of d' opts] store_ok [OF assms(2,2), of d opts "snd s" r] True by simp
next
  case False
  then show ?thesis
    using mgr_store_held [OF assms(1,3,2), of d' opts] store_other [OF assms(3,2), of d' opts "snd s"] assms(4) by simp
qed

lemma change_tier_keeps:
  assumes "guarded b held key_ok s" and "key_ok k" and "key_ok j" and "held (snd s) k = Some d"
    and "dependable b held k"
  shows "held (snd (fst (change_tier j t s))) k = Some d"
proof -
  obtain s1 r1 where s1: "mgr_retrieve j s = (s1, r1)"
    by fastforce
  have g1: "guarded b held key_ok s1" and h1: "held (snd s1) k = Some d"
    using guarded_step [OF assms(1), of "Call_retrieve j"] mgr_retrieve_held [OF assms(1,3,2)] s1 assms(4) by simp_all
  show ?thesis
  proof (cases r1)
    case (Inl e)
    then show ?thesis
      using s1 h1 assms(1,4) by (auto simp: change_tier_def)
  next
    case (Inr d')
    have "j \<noteq> k \<or> (d' = d \<and> has_value (snd (sb_store b k d (tier_options t) (snd s1))))"
      using mgr_retrieve_value [OF assms(1,2,4,5)] s1 Inr assms(5)
      by (auto simp: dependable_def tier_options_def)
    from mgr_store_keeps [OF g1 assms(2,3) h1 this] show ?thesis
      using s1 Inr assms(1) by (auto simp: change_tier_def guarded_def split: prod.splits sum.splits)
  qed
qed

lemma step_keeps_object:
  assumes "guarded b held key_ok s" and "key_ok k" and "key_ok (call_key c)" and "\<not> replaces k c"
    and "held (snd s) k = Some d" and "dependable b held k"
  shows "held (snd (manager_step c s)) k = Some d"
  using assms
  by (cases c) (simp_all add: mgr_store_keeps mgr_retrieve_held mgr_remove_other mgr_exists_held change_tier_keeps)

lemma run_keeps_object:
  assumes "guarded b held key_ok s" and "key_ok k" and "held (snd s) k = Some d" and "dependable b held k"
    and "\<forall>c \<in> set cs. key_ok (call_key c) \<and> \<not> replaces k c"
  shows "guarded b held key_ok (fold manager_step cs s) \<and> held (snd (fold manager_step cs s)) k = Some d"
  using assms by (induction cs arbitrary: s) (simp_all add: guarded_step step_keeps_object)

lemma stored_then_retrieved:
  assumes "guarded b held key_ok s" and "key_ok k" and "dependable b held k"
    and "mgr_store k d opts s = (s1, Inr r)" and "\<forall>c \<in> set cs. key_ok (call_key c) \<and> \<not> replaces k c"
  defines "s2 \<equiv> fold manager_step cs s1"
  shows "snd (mgr_retrieve k s2) = Inr d \<and> snd (mgr_exists k s2) = Inr True"
proof -
  have g: "guarded b held key_ok s1"
    using guarded_step [OF assms(1), of "Call_store k d opts"] assms(4) by simp
  have "held (snd s1) k = Some d"
    using mgr_store_held [OF assms(1,2,2), of d opts] mgr_store_success [OF assms(1)] assms(4)
      store_ok [OF assms(2,2), of d opts "snd s" r] by simp
  from run_keeps_object [OF g assms(2) this assms(3,5)]
  have s2: "guarded b held key_ok s2" "held (snd s2) k = Some d"
    by (simp_all add: s2_def)
  then have "snd (sb_exists b k (snd s2)) = Inr True"
    using assms(3) by (auto simp: dependable_def)
  then have "snd (mgr_exists k s2) = Inr True"
    using s2(1) by (auto simp: mgr_exists_def guarded_def split: prod.splits)
  then show ?thesis
    using mgr_retrieve_value [OF s2(1) assms(2) s2(2) assms(3)] by simp
qed

end





text \<open>The storage class that a change of tier asks for is read back as that tier.\<close>

lemma tier_class_roundtrip: "tier_of_class (so_storage_class (tier_options t)) = t"
  by (cases t) (simp_all add: tier_of_class_def tier_options_def)

end
