(* ===== verification/Storage_Policy.thy ===== *)
theory Storage_Policy
  imports Storage_Manager
begin

text \<open>
  server/storage_policy.h and server/storage_policy.cpp: rules that move objects between tiers or delete
  them, the built-in tiering by age and size, retention, and the queue of pending actions, on top
  of the storage manager. \<open>now\<close> is the system clock at the call. Callbacks are a trace; the
  texts of reasons and the time stamps of the statistics are left out. The attached manager is
  the second part of the state, and \<open>attached\<close> says whether the pointer is set.
\<close>

section \<open>Glob patterns\<close>

text \<open>
  The code turns a pattern into a regular expression that is a sequence of atoms: \<open>.*\<close>, \<open>.\<close> and
  characters, special ones escaped. A dot does not match a line terminator.
\<close>

datatype glob_atom = Any_string | Any_char | Literal char

definition glob_atom :: "char \<Rightarrow> glob_atom" where
  "glob_atom c = (if c = CHR ''*'' then Any_string else if c = CHR ''?'' then Any_char else Literal c)"

definition dot_matches :: "char \<Rightarrow> bool" where
  "dot_matches c \<longleftrightarrow> (of_char c :: nat) \<noteq> 10 \<and> (of_char c :: nat) \<noteq> 13"

fun atoms_match :: "glob_atom list \<Rightarrow> string \<Rightarrow> bool" where
  "atoms_match [] s \<longleftrightarrow> s = []"
| "atoms_match (Literal a # as) [] \<longleftrightarrow> False"
| "atoms_match (Literal a # as) (c # s) \<longleftrightarrow> c = a \<and> atoms_match as s"
| "atoms_match (Any_char # as) [] \<longleftrightarrow> False"
| "atoms_match (Any_char # as) (c # s) \<longleftrightarrow> dot_matches c \<and> atoms_match as s"
| "atoms_match (Any_string # as) [] \<longleftrightarrow> atoms_match as []"
| "atoms_match (Any_string # as) (c # s) \<longleftrightarrow>
     atoms_match as (c # s) \<or> (dot_matches c \<and> atoms_match (Any_string # as) s)"

definition matches_glob_pattern :: "string \<Rightarrow> string \<Rightarrow> bool" where
  "matches_glob_pattern pattern key \<longleftrightarrow> pattern = [] \<or> atoms_match (map glob_atom pattern) key"

section \<open>Data\<close>

datatype tiering_trigger = Access_pattern | Age | Size | Manual

fun trigger_to_string :: "tiering_trigger \<Rightarrow> string" where
  "trigger_to_string Access_pattern = ''access_pattern''"
| "trigger_to_string Age = ''age''"
| "trigger_to_string Size = ''size''"
| "trigger_to_string Manual = ''manual''"

datatype tiering_action = Move | Copy | Archive_obj | Delete_obj

fun action_to_string :: "tiering_action \<Rightarrow> string" where
  "action_to_string Move = ''move''"
| "action_to_string Copy = ''copy''"
| "action_to_string Archive_obj = ''archive''"
| "action_to_string Delete_obj = ''delete''"

text \<open>Durations are in hours.\<close>

record access_pattern_config =
  hot_min_access_count :: u64
  warm_min_access_count :: u64
  access_window :: int
  min_time_in_tier :: int

record age_tiering_config =
  hot_to_warm_age :: int
  warm_to_cold_age :: int
  cold_to_archive_age :: int
  delete_after :: int

record size_tiering_config =
  hot_max_size :: u64
  warm_max_size :: u64

record tiering_rule =
  rule_name :: string
  rule_priority :: int
  trigger :: tiering_trigger
  source_tier :: "storage_tier option"
  rule_target :: storage_tier
  rule_action :: tiering_action
  key_pattern :: "string option"
  min_age :: "int option"
  max_age :: "int option"
  min_size :: "u64 option"
  max_size :: "u64 option"
  max_access_count :: "u64 option"
  enabled :: bool

record retention_policy =
  min_retention :: int
  max_retention :: "int option"
  legal_hold :: bool
  governance_mode :: bool
  compliance_mode :: bool
  retention_exclusions :: "string list"

definition default_retention :: retention_policy where
  "default_retention = \<lparr>min_retention = 0, max_retention = None, legal_hold = False, governance_mode = False,
     compliance_mode = False, retention_exclusions = []\<rparr>"

record policy_evaluation_result =
  er_key :: string
  matched_rule :: string
  recommended_action :: tiering_action
  current_tier :: storage_tier
  target_tier :: storage_tier
  blocked_by_retention :: bool

record tiering_statistics =
  objects_evaluated :: u64
  objects_moved :: u64
  objects_copied :: u64
  objects_archived :: u64
  objects_deleted :: u64
  bytes_moved :: u64
  ts_errors :: u64

definition zero_tiering_statistics :: tiering_statistics where
  "zero_tiering_statistics = \<lparr>objects_evaluated = 0, objects_moved = 0, objects_copied = 0, objects_archived = 0,
     objects_deleted = 0, bytes_moved = 0, ts_errors = 0\<rparr>"

datatype policy_event =
  Evaluated policy_evaluation_result
| Acted string tiering_action storage_tier storage_tier
| Policy_error string error_code

record storage_policy =
  attached :: bool
  access_config :: "access_pattern_config option"
  age_config :: "age_tiering_config option"
  size_config :: "size_tiering_config option"
  rules :: "tiering_rule list"
  retention :: retention_policy
  auto_eval_interval :: int
  auto_execution :: bool
  dry_run :: bool
  policy_stats :: tiering_statistics
  pending_actions :: "policy_evaluation_result list"
  policy_trace :: "policy_event list"

section \<open>The builder\<close>

record builder_data =
  b_access_config :: "access_pattern_config option"
  b_age_config :: "age_tiering_config option"
  b_size_config :: "size_tiering_config option"
  b_rules :: "tiering_rule list"
  b_retention :: "retention_policy option"
  b_auto_eval_interval :: int
  b_auto_execution :: bool
  b_dry_run :: bool

definition new_builder :: builder_data where
  "new_builder = \<lparr>b_access_config = None, b_age_config = None, b_size_config = None, b_rules = [], b_retention = None,
     b_auto_eval_interval = 0, b_auto_execution = False, b_dry_run = False\<rparr>"

definition with_access_pattern_tiering :: "access_pattern_config \<Rightarrow> builder_data \<Rightarrow> builder_data" where
  "with_access_pattern_tiering c b = b\<lparr>b_access_config := Some c\<rparr>"

definition with_age_tiering :: "age_tiering_config \<Rightarrow> builder_data \<Rightarrow> builder_data" where
  "with_age_tiering c b = b\<lparr>b_age_config := Some c\<rparr>"

definition with_size_tiering :: "size_tiering_config \<Rightarrow> builder_data \<Rightarrow> builder_data" where
  "with_size_tiering c b = b\<lparr>b_size_config := Some c\<rparr>"

definition with_rule :: "tiering_rule \<Rightarrow> builder_data \<Rightarrow> builder_data" where
  "with_rule r b = b\<lparr>b_rules := b_rules b @ [r]\<rparr>"

definition with_retention :: "retention_policy \<Rightarrow> builder_data \<Rightarrow> builder_data" where
  "with_retention r b = b\<lparr>b_retention := Some r\<rparr>"

definition with_auto_evaluation :: "int \<Rightarrow> builder_data \<Rightarrow> builder_data" where
  "with_auto_evaluation n b = b\<lparr>b_auto_eval_interval := n\<rparr>"

definition with_auto_execution :: "bool \<Rightarrow> builder_data \<Rightarrow> builder_data" where
  "with_auto_execution e b = b\<lparr>b_auto_execution := e\<rparr>"

definition with_dry_run :: "bool \<Rightarrow> builder_data \<Rightarrow> builder_data" where
  "with_dry_run e b = b\<lparr>b_dry_run := e\<rparr>"

text \<open>\<open>std::sort\<close> leaves the order of equal priorities open; the model keeps it.\<close>

definition by_priority :: "tiering_rule list \<Rightarrow> tiering_rule list" where
  "by_priority rs = sort_key (\<lambda>r. - rule_priority r) rs"

definition build_policy :: "builder_data \<Rightarrow> storage_policy" where
  "build_policy b =
     \<lparr>attached = False, access_config = b_access_config b, age_config = b_age_config b, size_config = b_size_config b,
      rules = by_priority (b_rules b),
      retention = (case b_retention b of None \<Rightarrow> default_retention | Some r \<Rightarrow> r),
      auto_eval_interval = b_auto_eval_interval b, auto_execution = b_auto_execution b, dry_run = b_dry_run b,
      policy_stats = zero_tiering_statistics, pending_actions = [], policy_trace = []\<rparr>"

section \<open>Evaluation of an object\<close>

definition age_hours :: "int \<Rightarrow> stored_object_metadata \<Rightarrow> int" where
  "age_hours now md = trunc_div (now - om_last_modified md) 3600000000000"

definition at_least :: "'a::linorder option \<Rightarrow> 'a \<Rightarrow> bool" where
  "at_least bound x \<longleftrightarrow> (case bound of None \<Rightarrow> True | Some b \<Rightarrow> \<not> x < b)"

definition at_most :: "'a::linorder option \<Rightarrow> 'a \<Rightarrow> bool" where
  "at_most bound x \<longleftrightarrow> (case bound of None \<Rightarrow> True | Some b \<Rightarrow> \<not> x > b)"

fun trigger_matches :: "int \<Rightarrow> stored_object_metadata \<Rightarrow> tiering_rule \<Rightarrow> tiering_trigger \<Rightarrow> bool" where
  "trigger_matches now md r Age \<longleftrightarrow>
     (min_age r \<noteq> None \<or> max_age r \<noteq> None) \<and> at_least (min_age r) (age_hours now md) \<and> at_most (max_age r) (age_hours now md)"
| "trigger_matches now md r Size \<longleftrightarrow>
     (min_size r \<noteq> None \<or> max_size r \<noteq> None) \<and> at_least (min_size r) (om_size md) \<and> at_most (max_size r) (om_size md)"
| "trigger_matches now md r Access_pattern \<longleftrightarrow>
     (case max_access_count r of None \<Rightarrow> False | Some n \<Rightarrow> om_access_count md \<le> n)"
| "trigger_matches now md r Manual \<longleftrightarrow> False"

definition rule_applies :: "int \<Rightarrow> stored_object_metadata \<Rightarrow> tiering_rule \<Rightarrow> bool" where
  "rule_applies now md r \<longleftrightarrow>
     enabled r \<and>
     (case key_pattern r of None \<Rightarrow> True | Some p \<Rightarrow> matches_glob_pattern p (om_key md)) \<and>
     (case source_tier r of None \<Rightarrow> True | Some t \<Rightarrow> t = om_tier md) \<and>
     trigger_matches now md r (trigger r)"

definition initial_result :: "stored_object_metadata \<Rightarrow> policy_evaluation_result" where
  "initial_result md = \<lparr>er_key = om_key md, matched_rule = [], recommended_action = Move, current_tier = om_tier md,
     target_tier = om_tier md, blocked_by_retention = False\<rparr>"

definition apply_rules ::
  "int \<Rightarrow> stored_object_metadata \<Rightarrow> tiering_rule list \<Rightarrow> policy_evaluation_result \<Rightarrow> policy_evaluation_result" where
  "apply_rules now md rs er =
     (case find (rule_applies now md) rs of
        None \<Rightarrow> er
      | Some r \<Rightarrow> er\<lparr>matched_rule := rule_name r, recommended_action := rule_action r, target_tier := rule_target r\<rparr>)"

definition apply_age :: "int \<Rightarrow> stored_object_metadata \<Rightarrow> age_tiering_config \<Rightarrow> policy_evaluation_result \<Rightarrow>
    policy_evaluation_result" where
  "apply_age now md c er =
     (if om_tier md = Hot \<and> age_hours now md \<ge> hot_to_warm_age c
      then er\<lparr>target_tier := Warm, recommended_action := Move\<rparr>
      else if om_tier md = Warm \<and> age_hours now md \<ge> warm_to_cold_age c
      then er\<lparr>target_tier := Cold, recommended_action := Move\<rparr>
      else if om_tier md = Cold \<and> age_hours now md \<ge> cold_to_archive_age c
      then er\<lparr>target_tier := Archive, recommended_action := Archive_obj\<rparr>
      else er)"

definition apply_size :: "stored_object_metadata \<Rightarrow> size_tiering_config \<Rightarrow> policy_evaluation_result \<Rightarrow>
    policy_evaluation_result" where
  "apply_size md c er =
     (if om_size md \<le> hot_max_size c
      then if om_tier md \<noteq> Hot then er\<lparr>target_tier := Hot, recommended_action := Move\<rparr> else er
      else if om_size md \<le> warm_max_size c
      then if om_tier md = Hot then er\<lparr>target_tier := Warm, recommended_action := Move\<rparr> else er
      else if om_tier md \<noteq> Cold \<and> om_tier md \<noteq> Archive
      then er\<lparr>target_tier := Cold, recommended_action := Move\<rparr> else er)"

definition apply_builtin ::
  "int \<Rightarrow> stored_object_metadata \<Rightarrow> storage_policy \<Rightarrow> policy_evaluation_result \<Rightarrow> policy_evaluation_result" where
  "apply_builtin now md p er =
     (if matched_rule er \<noteq> [] then er
      else
        let er = (case age_config p of None \<Rightarrow> er | Some c \<Rightarrow> apply_age now md c er)
        in case size_config p of
             None \<Rightarrow> er
           | Some c \<Rightarrow> if target_tier er = current_tier er then apply_size md c er else er)"

definition check_retention ::
  "int \<Rightarrow> stored_object_metadata \<Rightarrow> retention_policy \<Rightarrow> policy_evaluation_result \<Rightarrow> policy_evaluation_result" where
  "check_retention now md ret er =
     (if recommended_action er \<noteq> Delete_obj then er
      else if legal_hold ret \<or> compliance_mode ret then er\<lparr>blocked_by_retention := True\<rparr>
      else if min_retention ret > 0 \<and> age_hours now md < min_retention ret then er\<lparr>blocked_by_retention := True\<rparr>
      else er)"

definition evaluate_object :: "storage_policy \<Rightarrow> int \<Rightarrow> stored_object_metadata \<Rightarrow> policy_evaluation_result" where
  "evaluate_object p now md =
     check_retention now md (retention p) (apply_builtin now md p (apply_rules now md (rules p) (initial_result md)))"

section \<open>Operations\<close>

type_synonym 'w policy_state = "storage_policy \<times> 'w manager"

definition attach :: "'w policy_state \<Rightarrow> 'w policy_state" where
  "attach = (\<lambda>(p, s). (p\<lparr>attached := True\<rparr>, s))"

definition detach :: "'w policy_state \<Rightarrow> 'w policy_state" where
  "detach = (\<lambda>(p, s). (p\<lparr>attached := False\<rparr>, s))"

definition log_event :: "policy_event \<Rightarrow> storage_policy \<Rightarrow> storage_policy" where
  "log_event e p = p\<lparr>policy_trace := policy_trace p @ [e]\<rparr>"

definition record_evaluation :: "storage_policy \<Rightarrow> storage_policy" where
  "record_evaluation p =
     p\<lparr>policy_stats := (policy_stats p)\<lparr>objects_evaluated := objects_evaluated (policy_stats p) + 1\<rparr>\<rparr>"

fun record_action :: "tiering_action \<Rightarrow> u64 \<Rightarrow> storage_policy \<Rightarrow> storage_policy" where
  "record_action Move n p = p\<lparr>policy_stats := (policy_stats p)
     \<lparr>objects_moved := objects_moved (policy_stats p) + 1, bytes_moved := bytes_moved (policy_stats p) + n\<rparr>\<rparr>"
| "record_action Copy n p =
     p\<lparr>policy_stats := (policy_stats p)\<lparr>objects_copied := objects_copied (policy_stats p) + 1\<rparr>\<rparr>"
| "record_action Archive_obj n p =
     p\<lparr>policy_stats := (policy_stats p)\<lparr>objects_archived := objects_archived (policy_stats p) + 1\<rparr>\<rparr>"
| "record_action Delete_obj n p =
     p\<lparr>policy_stats := (policy_stats p)\<lparr>objects_deleted := objects_deleted (policy_stats p) + 1\<rparr>\<rparr>"

definition record_policy_error :: "storage_policy \<Rightarrow> storage_policy" where
  "record_policy_error p = p\<lparr>policy_stats := (policy_stats p)\<lparr>ts_errors := ts_errors (policy_stats p) + 1\<rparr>\<rparr>"

text \<open>The part that \<open>evaluate\<close>, \<open>evaluate_all\<close> and \<open>evaluate_prefix\<close> do for each object.\<close>

definition evaluate_one ::
  "int \<Rightarrow> stored_object_metadata \<Rightarrow> storage_policy \<Rightarrow> storage_policy \<times> policy_evaluation_result" where
  "evaluate_one now md p =
     (let er = evaluate_object p now md;
          p = log_event (Evaluated er) (record_evaluation p)
      in (if target_tier er \<noteq> current_tier er \<and> \<not> blocked_by_retention er
          then p\<lparr>pending_actions := pending_actions p @ [er]\<rparr> else p, er))"

definition evaluate :: "int \<Rightarrow> string \<Rightarrow> 'w policy_state \<Rightarrow> 'w policy_state \<times> policy_evaluation_result result" where
  "evaluate now key = (\<lambda>(p, s).
     if \<not> attached p then ((p, s), Inl Not_initialized)
     else case mgr_get_metadata key s of
       (s, Inl e) \<Rightarrow> ((p, s), Inl e)
     | (s, Inr md) \<Rightarrow> (case evaluate_one now md p of (p, er) \<Rightarrow> ((p, s), Inr er)))"

fun evaluate_each ::
  "int \<Rightarrow> stored_object_metadata list \<Rightarrow> storage_policy \<Rightarrow> storage_policy \<times> policy_evaluation_result list" where
  "evaluate_each now [] p = (p, [])"
| "evaluate_each now (md # mds) p =
     (case evaluate_one now md p of (p, er) \<Rightarrow> (case evaluate_each now mds p of (p, ers) \<Rightarrow> (p, er # ers)))"

definition evaluate_listing ::
  "int \<Rightarrow> list_storage_options \<Rightarrow> 'w policy_state \<Rightarrow> 'w policy_state \<times> policy_evaluation_result list result" where
  "evaluate_listing now opts = (\<lambda>(p, s).
     if \<not> attached p then ((p, s), Inl Not_initialized)
     else case mgr_list opts s of
       (s, Inl e) \<Rightarrow> ((p, s), Inl e)
     | (s, Inr l) \<Rightarrow> (case evaluate_each now (objects l) p of (p, ers) \<Rightarrow> ((p, s), Inr ers)))"

definition evaluate_all :: "int \<Rightarrow> 'w policy_state \<Rightarrow> 'w policy_state \<times> policy_evaluation_result list result" where
  "evaluate_all now = evaluate_listing now default_list_options"

definition evaluate_prefix ::
  "int \<Rightarrow> string \<Rightarrow> 'w policy_state \<Rightarrow> 'w policy_state \<times> policy_evaluation_result list result" where
  "evaluate_prefix now pre = evaluate_listing now (default_list_options\<lparr>lo_prefix := Some pre\<rparr>)"

definition perform :: "string \<Rightarrow> storage_tier \<Rightarrow> tiering_action \<Rightarrow> 'w manager \<Rightarrow> 'w manager \<times> unit result" where
  "perform key t action = (if action = Delete_obj then mgr_remove key else change_tier key t)"

definition execute_action ::
  "string \<Rightarrow> storage_tier \<Rightarrow> tiering_action \<Rightarrow> 'w policy_state \<Rightarrow> 'w policy_state \<times> unit result" where
  "execute_action key t action = (\<lambda>(p, s).
     if \<not> attached p then ((p, s), Inl Not_initialized)
     else case mgr_get_metadata key s of
       (s, Inl e) \<Rightarrow> ((log_event (Policy_error key e) (record_policy_error p), s), Inl e)
     | (s, Inr md) \<Rightarrow>
         if dry_run p then ((log_event (Acted key action (om_tier md) t) p, s), Inr ())
         else case perform key t action s of
           (s, Inr _) \<Rightarrow>
             ((log_event (Acted key action (om_tier md) t) (record_action action (om_size md) p), s), Inr ())
         | (s, Inl e) \<Rightarrow> ((log_event (Policy_error key e) (record_policy_error p), s), Inl e))"

definition execute :: "int \<Rightarrow> string \<Rightarrow> 'w policy_state \<Rightarrow> 'w policy_state \<times> unit result" where
  "execute now key st =
     (case evaluate now key st of
        (st, Inl e) \<Rightarrow> (st, Inl e)
      | (st, Inr er) \<Rightarrow>
          if target_tier er = current_tier er then (st, Inr ())
          else if blocked_by_retention er then (st, Inl File_access_denied)
          else execute_action key (target_tier er) (recommended_action er) st)"

fun execute_each :: "policy_evaluation_result list \<Rightarrow> 'w policy_state \<Rightarrow> 'w policy_state \<times> nat" where
  "execute_each [] st = (st, 0)"
| "execute_each (er # ers) st =
     (if blocked_by_retention er \<or> target_tier er = current_tier er then execute_each ers st
      else case execute_action (er_key er) (target_tier er) (recommended_action er) st of
        (st, r) \<Rightarrow> (case execute_each ers st of (st, n) \<Rightarrow> (st, if has_value r then Suc n else n)))"

definition execute_pending :: "'w policy_state \<Rightarrow> 'w policy_state \<times> nat result" where
  "execute_pending = (\<lambda>(p, s).
     if \<not> attached p then ((p, s), Inl Not_initialized)
     else case execute_each (pending_actions p) (p\<lparr>pending_actions := []\<rparr>, s) of (st, n) \<Rightarrow> (st, Inr n))"

section \<open>Rules and retention\<close>





definition excluded_from_retention :: "string \<Rightarrow> retention_policy \<Rightarrow> bool" where
  "excluded_from_retention key ret \<longleftrightarrow> (\<exists>pat \<in> set (retention_exclusions ret). matches_glob_pattern pat key)"

definition can_delete :: "int \<Rightarrow> string \<Rightarrow> 'w policy_state \<Rightarrow> 'w policy_state \<times> bool result" where
  "can_delete now key = (\<lambda>(p, s).
     if \<not> attached p then ((p, s), Inl Not_initialized)
     else if excluded_from_retention key (retention p) then ((p, s), Inr True)
     else if legal_hold (retention p) then ((p, s), Inr False)
     else if compliance_mode (retention p) then ((p, s), Inr False)
     else if min_retention (retention p) > 0
     then (case mgr_get_metadata key s of
             (s, Inl _) \<Rightarrow> ((p, s), Inr True)
           | (s, Inr md) \<Rightarrow> ((p, s), Inr (\<not> age_hours now md < min_retention (retention p))))
     else ((p, s), Inr True))"

definition can_modify :: "string \<Rightarrow> storage_policy \<Rightarrow> bool result" where
  "can_modify key p =
     (if excluded_from_retention key (retention p) then Inr True
      else if legal_hold (retention p) then Inr False
      else if compliance_mode (retention p) then Inr False
      else Inr True)"

definition set_retention :: "retention_policy \<Rightarrow> storage_policy \<Rightarrow> storage_policy" where
  "set_retention r p = p\<lparr>retention := r\<rparr>"

definition reset_tiering_statistics :: "storage_policy \<Rightarrow> storage_policy" where
  "reset_tiering_statistics p = p\<lparr>policy_stats := zero_tiering_statistics\<rparr>"

definition set_dry_run :: "bool \<Rightarrow> storage_policy \<Rightarrow> storage_policy" where
  "set_dry_run e p = p\<lparr>dry_run := e\<rparr>"

section \<open>Which rule decides\<close>













lemma evaluation_of_rule:
  assumes "find (rule_applies now md) (rules p) = Some r0" and "rule_name r0 \<noteq> []"
  shows "matched_rule (evaluate_object p now md) = rule_name r0"
    "target_tier (evaluate_object p now md) = rule_target r0"
    "recommended_action (evaluate_object p now md) = rule_action r0"
  using assms by (simp_all add: evaluate_object_def apply_rules_def apply_builtin_def check_retention_def)


section \<open>Retention\<close>

lemma evaluation_steps_keep [simp]:
  "current_tier (apply_rules now md rs er) = current_tier er" "er_key (apply_rules now md rs er) = er_key er"
  "current_tier (apply_age now md c er) = current_tier er" "er_key (apply_age now md c er) = er_key er"
  "current_tier (apply_size md c' er) = current_tier er" "er_key (apply_size md c' er) = er_key er"
  "current_tier (check_retention now md ret er) = current_tier er" "er_key (check_retention now md ret er) = er_key er"
  by (simp_all add: apply_rules_def apply_age_def apply_size_def check_retention_def split: option.split)

lemma evaluate_object_keeps:
  "current_tier (evaluate_object p now md) = om_tier md" "er_key (evaluate_object p now md) = om_key md"
  by (simp_all add: evaluate_object_def apply_builtin_def initial_result_def Let_def split: option.split)

definition under_hold :: "int \<Rightarrow> stored_object_metadata \<Rightarrow> retention_policy \<Rightarrow> bool" where
  "under_hold now md ret \<longleftrightarrow> legal_hold ret \<or> compliance_mode ret \<or>
     (min_retention ret > 0 \<and> age_hours now md < min_retention ret)"

lemma delete_blocked:
  "recommended_action (evaluate_object p now md) = Delete_obj \<Longrightarrow> under_hold now md (retention p) \<Longrightarrow>
   blocked_by_retention (evaluate_object p now md)"
  unfolding evaluate_object_def check_retention_def under_hold_def by (auto split: if_splits)

text \<open>C18: when the evaluation recommends to delete an object that is under a hold, \<open>execute\<close> neither deletes the object
  nor queues the deletion: the storage is as it was after reading the metadata, and the answer is a refusal (or
  success, when the rule names the tier the object already has).\<close>

theorem hold_blocks_evaluated_delete:
  assumes "attached p" and "mgr_get_metadata key s = (s', Inr md)" and "under_hold now md (retention p)"
    and "recommended_action (evaluate_object p now md) = Delete_obj"
  shows "\<exists>p' r. execute now key (p, s) = ((p', s'), r) \<and> pending_actions p' = pending_actions p \<and>
           r = (if target_tier (evaluate_object p now md) = om_tier md then Inr () else Inl File_access_denied)"
  using assms(1,2) delete_blocked [OF assms(4,3)]
  by (auto simp: execute_def evaluate_def evaluate_one_def Let_def log_event_def record_evaluation_def
      evaluate_object_keeps split: prod.splits)

definition held_object :: "storage_world storage_manager \<times> storage_world" where
  "held_object = (two_disks sound_env, empty_world\<lparr>sw_fs := [''/p/a'' \<mapsto> [1]]\<rparr>)"

definition delete_rule :: tiering_rule where
  "delete_rule = \<lparr>rule_name = ''old'', rule_priority = 1, trigger = Size, source_tier = None, rule_target = Cold,
     rule_action = Delete_obj, key_pattern = Some ''a*'', min_age = None, max_age = None, min_size = Some 1,
     max_size = None, max_access_count = None, enabled = True\<rparr>"

definition held_policy :: storage_policy where
  "held_policy = (build_policy (with_rule delete_rule
     (with_retention (default_retention\<lparr>legal_hold := True\<rparr>) new_builder)))\<lparr>attached := True\<rparr>"

definition held_metadata :: stored_object_metadata where
  "held_metadata = (new_metadata ''a'' Local)\<lparr>om_size := 1\<rparr>"

lemma held_object_metadata: "mgr_get_metadata ''a'' held_object = (held_object, Inr held_metadata)"
  by (simp add: mgr_get_metadata_def held_object_def two_disks_def local_get_metadata_def Let_def path_exists_def
      fs_exists_def full_path_for_def path_append_def local_metadata_def empty_world_def new_metadata_def held_metadata_def)

lemma delete_rule_applies: "rule_applies now held_metadata delete_rule"
  by (simp add: rule_applies_def delete_rule_def held_metadata_def matches_glob_pattern_def glob_atom_def
      new_metadata_def at_least_def at_most_def)

lemma held_policy_rules: "rules held_policy = [delete_rule]"
  by (simp add: held_policy_def build_policy_def with_rule_def with_retention_def new_builder_def by_priority_def)


theorem hold_blocks_evaluated_delete_witness:
  "\<exists>p' r. execute 0 ''a'' (held_policy, held_object) = ((p', held_object), r) \<and>
      pending_actions p' = pending_actions held_policy \<and> r = Inl File_access_denied"
proof -
  have f: "find (rule_applies 0 held_metadata) (rules held_policy) = Some delete_rule"
    by (simp add: held_policy_rules delete_rule_applies)
  have e: "recommended_action (evaluate_object held_policy 0 held_metadata) = Delete_obj"
    "target_tier (evaluate_object held_policy 0 held_metadata) = Cold"
    using evaluation_of_rule [OF f] by (simp_all add: delete_rule_def)
  have "attached held_policy" "under_hold 0 held_metadata (retention held_policy)"
    by (simp_all add: held_policy_def under_hold_def build_policy_def with_rule_def with_retention_def new_builder_def)
  from hold_blocks_evaluated_delete [OF this(1) held_object_metadata this(2) e(1)] e(2) show ?thesis
    by (simp add: held_metadata_def new_metadata_def)
qed

section \<open>Queued actions\<close>

lemma execute_action_retention:
  "execute_action key t a (p\<lparr>retention := ret\<rparr>, s) =
     (((fst (fst (execute_action key t a (p, s))))\<lparr>retention := ret\<rparr>, snd (fst (execute_action key t a (p, s)))),
      snd (execute_action key t a (p, s)))"
  by (cases a)
     (auto simp: execute_action_def log_event_def record_policy_error_def split: prod.splits sum.splits)

lemma execute_each_retention:
  "execute_each ers (p\<lparr>retention := ret\<rparr>, s) =
     (((fst (fst (execute_each ers (p, s))))\<lparr>retention := ret\<rparr>, snd (fst (execute_each ers (p, s)))),
      snd (execute_each ers (p, s)))"
proof (induction ers arbitrary: p s)
  case (Cons er ers)
  obtain p1 s1 r where "execute_action (er_key er) (target_tier er) (recommended_action er) (p, s) = ((p1, s1), r)"
    by (metis surj_pair)
  then show ?case
    using Cons.IH [where p = p1 and s = s1] Cons.IH [where p = p and s = s]
      execute_action_retention [where p = p and ret = ret and s = s and key = "er_key er" and t = "target_tier er" and a = "recommended_action er"]
    by (auto split: prod.splits)
qed simp

text \<open>Retention is not looked at when queued actions are executed: a hold that is set after the evaluation changes
  neither what the execution does to the storage nor its answer, although \<open>can_delete\<close> then forbids the deletion.\<close>

theorem pending_execution_ignores_retention:
  assumes "attached p" and "legal_hold ret" and "\<not> excluded_from_retention key ret"
  shows "snd (fst (execute_pending (set_retention ret p, s))) = snd (fst (execute_pending (p, s))) \<and>
         snd (execute_pending (set_retention ret p, s)) = snd (execute_pending (p, s)) \<and>
         snd (can_delete now key (set_retention ret p, s)) = Inr False"
proof -
  define x where "x = execute_each (pending_actions p) (p\<lparr>pending_actions := []\<rparr>, s)"
  have swap: "p\<lparr>retention := ret, pending_actions := []\<rparr> = p\<lparr>pending_actions := [], retention := ret\<rparr>"
    by simp
  have "execute_each (pending_actions p) (p\<lparr>retention := ret, pending_actions := []\<rparr>, s) =
      (((fst (fst x))\<lparr>retention := ret\<rparr>, snd (fst x)), snd x)"
    unfolding x_def by (subst swap) (rule execute_each_retention)
  then show ?thesis
    using assms by (simp add: execute_pending_def set_retention_def can_delete_def split_beta flip: x_def)
qed

theorem pending_execution_ignores_retention_witness:
  "let p = fst (evaluate_one 0 held_metadata (held_policy\<lparr>retention := default_retention\<rparr>));
       ret = default_retention\<lparr>legal_hold := True\<rparr>
   in snd (fst (execute_pending (set_retention ret p, held_object))) = snd (fst (execute_pending (p, held_object))) \<and>
      snd (can_delete 0 ''a'' (set_retention ret p, held_object)) = Inr False"
  using pending_execution_ignores_retention [of "fst (evaluate_one 0 held_metadata (held_policy\<lparr>retention := default_retention\<rparr>))"
      "default_retention\<lparr>legal_hold := True\<rparr>" "''a''" held_object 0]
  by (simp add: evaluate_one_def Let_def log_event_def record_evaluation_def held_policy_def build_policy_def
      default_retention_def excluded_from_retention_def)

text \<open>\<open>execute\<close> goes through \<open>evaluate\<close>, which queues the action that is then executed at once: it is executed again
  with the queue.\<close>

lemma execute_action_pending:
  "pending_actions (fst (fst (execute_action key t a st))) = pending_actions (fst st)"
  by (cases st; cases a)
     (auto simp: execute_action_def log_event_def record_policy_error_def split: prod.splits sum.splits)

lemma executed_action_stays_pending:
  assumes "evaluate now key st = (st1, Inr er)" and "target_tier er \<noteq> current_tier er"
    and "\<not> blocked_by_retention er"
  shows "er \<in> set (pending_actions (fst (fst (execute now key st))))"
proof -
  have "er \<in> set (pending_actions (fst st1))"
    using assms by (auto simp: evaluate_def evaluate_one_def Let_def split: prod.splits sum.splits if_splits)
  then show ?thesis
    using assms by (simp add: execute_def execute_action_pending)
qed

text \<open>A rule that deletes has no effect on objects that are in the tier the rule names as its target.\<close>

lemma delete_needs_tier_change:
  assumes "evaluate now key st = (st1, Inr er)" and "target_tier er = current_tier er"
  shows "execute now key st = (st1, Inr ())"
  using assms by (simp add: execute_def)

end
