(* ===== verification/Statistics_Collector.thy ===== *)
theory Statistics_Collector
  imports Complex_Main Prelude
begin

text \<open>
  core/statistics_collector.h and core/statistics_collector.cpp: the progress counters of a transfer,
  the sliding window of rate samples and the smoothed time to completion. Times are nanoseconds of
  the steady clock, durations milliseconds; rates and ratios, which the code computes in \<open>double\<close>,
  are exact rationals. An operation is one step (the counters are atomic, the window and the
  smoothed time each have a lock); the clock is an argument.
\<close>

section \<open>State\<close>

record stat_config =
  rate_window_size :: nat
  rate_sample_interval :: int
  min_eta_update_interval :: int

definition default_stat_config :: stat_config where
  "default_stat_config = \<lparr>rate_window_size = 10, rate_sample_interval = 100, min_eta_update_interval = 500\<rparr>"

record rate_sample =
  timestamp :: int
  sample_bytes :: u64

record collector =
  sc_cfg :: stat_config
  sc_active :: bool
  start_time :: int
  last_sample_time :: int
  bytes_transferred :: u64
  bytes_on_wire :: u64
  sc_total_bytes :: u64
  chunks_transferred :: u64
  chunks_compressed :: u64
  error_count :: u64
  rate_samples :: "rate_sample list"
  last_sample_bytes :: u64
  last_eta_update :: int
  cached_eta :: int

record stat_snapshot =
  ss_bytes_transferred :: u64
  ss_bytes_on_wire :: u64
  ss_total_bytes :: u64
  ss_chunks_transferred :: u64
  ss_chunks_compressed :: u64
  ss_error_count :: u64
  current_rate :: rat
  average_rate :: rat
  compression_ratio_of :: rat
  elapsed :: int
  estimated_remaining :: int

definition new_collector :: "stat_config \<Rightarrow> collector" where
  "new_collector cfg =
     \<lparr>sc_cfg = cfg, sc_active = False, start_time = 0, last_sample_time = 0, bytes_transferred = 0,
      bytes_on_wire = 0, sc_total_bytes = 0, chunks_transferred = 0, chunks_compressed = 0, error_count = 0,
      rate_samples = [], last_sample_bytes = 0, last_eta_update = 0, cached_eta = 0\<rparr>"

definition to_ms :: "int \<Rightarrow> int" where
  "to_ms d = trunc_div d 1000000"

section \<open>Samples, rates and estimates\<close>

text \<open>The deque keeps its newest entries.\<close>

definition trim_samples :: "nat \<Rightarrow> rate_sample list \<Rightarrow> rate_sample list" where
  "trim_samples n ss = drop (length ss - n) ss"

definition update_rate_samples :: "int \<Rightarrow> collector \<Rightarrow> collector" where
  "update_rate_samples now c =
     (if to_ms (now - last_sample_time c) \<ge> rate_sample_interval (sc_cfg c)
      then c\<lparr>rate_samples := trim_samples (rate_window_size (sc_cfg c))
                (rate_samples c @ [\<lparr>timestamp = now, sample_bytes = bytes_transferred c\<rparr>]),
             last_sample_bytes := bytes_transferred c, last_sample_time := now\<rparr>
      else c)"

definition calculate_current_rate :: "collector \<Rightarrow> rat" where
  "calculate_current_rate c =
     (if length (rate_samples c) < 2 then 0
      else let oldest = hd (rate_samples c); newest = last (rate_samples c);
               time_diff = to_ms (timestamp newest - timestamp oldest);
               bytes_diff = sample_bytes newest - sample_bytes oldest
           in if time_diff = 0 then 0 else of_nat (unat bytes_diff) * 1000 / of_int time_diff)"

definition calculate_average_rate :: "int \<Rightarrow> collector \<Rightarrow> rat" where
  "calculate_average_rate now c =
     (let elapsed = to_ms (now - start_time c)
      in if \<not> sc_active c then 0
         else if elapsed = 0 then 0
         else of_nat (unat (bytes_transferred c)) * 1000 / of_int elapsed)"

definition truncate :: "rat \<Rightarrow> int" where
  "truncate x = (if x < 0 then \<lceil>x\<rceil> else \<lfloor>x\<rfloor>)"

definition calculate_eta :: "int \<Rightarrow> collector \<Rightarrow> int" where
  "calculate_eta now c =
     (let transferred = bytes_transferred c; total = sc_total_bytes c; avg_rate = calculate_average_rate now c
      in if transferred \<ge> total \<or> total = 0 then 0
         else if avg_rate \<le> 0 then 0
         else truncate (of_nat (unat (total - transferred)) * 1000 / avg_rate))"

section \<open>Operations\<close>

definition start_collecting :: "u64 \<Rightarrow> int \<Rightarrow> collector \<Rightarrow> collector" where
  "start_collecting n now c =
     c\<lparr>sc_total_bytes := n, start_time := now, last_sample_time := now, last_eta_update := now,
       sc_active := True, rate_samples := [\<lparr>timestamp = now, sample_bytes = 0\<rparr>], last_sample_bytes := 0\<rparr>"

definition stop_collecting :: "collector \<Rightarrow> collector" where
  "stop_collecting c = c\<lparr>sc_active := False\<rparr>"

definition reset_collector :: "collector \<Rightarrow> collector" where
  "reset_collector c =
     c\<lparr>sc_active := False, bytes_transferred := 0, bytes_on_wire := 0, sc_total_bytes := 0,
       chunks_transferred := 0, chunks_compressed := 0, error_count := 0,
       rate_samples := [], last_sample_bytes := 0, cached_eta := 0\<rparr>"

definition is_active :: "collector \<Rightarrow> bool" where "is_active c = sc_active c"

definition record_bytes_transferred :: "u64 \<Rightarrow> u64 option \<Rightarrow> int \<Rightarrow> collector \<Rightarrow> collector" where
  "record_bytes_transferred n wire now c =
     update_rate_samples now
       (c\<lparr>bytes_transferred := bytes_transferred c + n,
          bytes_on_wire := bytes_on_wire c + (case wire of Some w \<Rightarrow> w | None \<Rightarrow> n)\<rparr>)"

definition record_chunk_processed :: "bool \<Rightarrow> collector \<Rightarrow> collector" where
  "record_chunk_processed compressed c =
     (let c = c\<lparr>chunks_transferred := chunks_transferred c + 1\<rparr>
      in if compressed then c\<lparr>chunks_compressed := chunks_compressed c + 1\<rparr> else c)"

definition record_transfer_error :: "collector \<Rightarrow> collector" where
  "record_transfer_error c = c\<lparr>error_count := error_count c + 1\<rparr>"

definition get_transfer_rate :: "collector \<Rightarrow> rat" where
  "get_transfer_rate c = calculate_current_rate c"

definition get_average_rate :: "int \<Rightarrow> collector \<Rightarrow> rat" where
  "get_average_rate now c = calculate_average_rate now c"

definition get_compression_ratio :: "collector \<Rightarrow> rat" where
  "get_compression_ratio c =
     (if bytes_transferred c = 0 then 1
      else of_nat (unat (bytes_on_wire c)) / of_nat (unat (bytes_transferred c)))"

definition get_eta :: "int \<Rightarrow> collector \<Rightarrow> collector \<times> int" where
  "get_eta now c =
     (if to_ms (now - last_eta_update c) < min_eta_update_interval (sc_cfg c) then (c, cached_eta c)
      else let c = c\<lparr>cached_eta := calculate_eta now c, last_eta_update := now\<rparr> in (c, cached_eta c))"

definition get_elapsed :: "int \<Rightarrow> collector \<Rightarrow> int" where
  "get_elapsed now c = (if \<not> sc_active c then 0 else to_ms (now - start_time c))"

definition get_completion_percentage :: "collector \<Rightarrow> rat" where
  "get_completion_percentage c =
     (if sc_total_bytes c = 0 then 0
      else of_nat (unat (bytes_transferred c)) / of_nat (unat (sc_total_bytes c)) * 100)"

definition get_bytes_transferred :: "collector \<Rightarrow> u64" where "get_bytes_transferred c = bytes_transferred c"
definition get_bytes_on_wire :: "collector \<Rightarrow> u64" where "get_bytes_on_wire c = bytes_on_wire c"
definition get_chunks_transferred :: "collector \<Rightarrow> u64" where "get_chunks_transferred c = chunks_transferred c"
definition get_error_count :: "collector \<Rightarrow> u64" where "get_error_count c = error_count c"

text \<open>The clock is read once for the whole snapshot here; in the code each figure reads it again.\<close>

definition get_snapshot :: "int \<Rightarrow> collector \<Rightarrow> collector \<times> stat_snapshot" where
  "get_snapshot now c =
     (case get_eta now c of
        (c', eta) \<Rightarrow>
          (c', \<lparr>ss_bytes_transferred = bytes_transferred c, ss_bytes_on_wire = bytes_on_wire c,
                ss_total_bytes = sc_total_bytes c, ss_chunks_transferred = chunks_transferred c,
                ss_chunks_compressed = chunks_compressed c, ss_error_count = error_count c,
                current_rate = get_transfer_rate c, average_rate = get_average_rate now c,
                compression_ratio_of = get_compression_ratio c, elapsed = get_elapsed now c,
                estimated_remaining = eta\<rparr>))"

definition set_total_bytes :: "u64 \<Rightarrow> collector \<Rightarrow> collector" where
  "set_total_bytes n c = c\<lparr>sc_total_bytes := n\<rparr>"

section \<open>Histories\<close>

datatype collector_call =
  Start u64 | Stop | Reset | Record_bytes u64 "u64 option" | Record_chunk bool | Record_error | Get_eta | Set_total u64

definition collector_step :: "int \<Rightarrow> collector_call \<Rightarrow> collector \<Rightarrow> collector" where
  "collector_step now x c =
     (case x of
        Start n \<Rightarrow> start_collecting n now c
      | Stop \<Rightarrow> stop_collecting c
      | Reset \<Rightarrow> reset_collector c
      | Record_bytes n w \<Rightarrow> record_bytes_transferred n w now c
      | Record_chunk z \<Rightarrow> record_chunk_processed z c
      | Record_error \<Rightarrow> record_transfer_error c
      | Get_eta \<Rightarrow> fst (get_eta now c)
      | Set_total n \<Rightarrow> set_total_bytes n c)"

inductive collector_reachable :: "stat_config \<Rightarrow> int \<Rightarrow> collector \<Rightarrow> bool" for cfg where
  initial: "collector_reachable cfg 0 (new_collector cfg)"
| step: "collector_reachable cfg t c \<Longrightarrow> t \<le> now \<Longrightarrow>
    (\<forall>n w. x = Record_bytes n w \<longrightarrow> unat (bytes_transferred c) + unat n < 2 ^ 64) \<Longrightarrow>
    collector_reachable cfg now (collector_step now x c)"

text \<open>The window is ordered in time and in bytes, lies in the past and is not longer than configured
  (the sample that \<open>start\<close> takes is kept until the next one even if the window has no room).\<close>

definition earlier :: "rate_sample \<Rightarrow> rate_sample \<Rightarrow> bool" where
  "earlier a b \<longleftrightarrow> timestamp a \<le> timestamp b \<and> sample_bytes a \<le> sample_bytes b"

definition window_inv :: "stat_config \<Rightarrow> int \<Rightarrow> collector \<Rightarrow> bool" where
  "window_inv cfg t c \<longleftrightarrow>
     sc_cfg c = cfg \<and> length (rate_samples c) \<le> max 1 (rate_window_size cfg) \<and>
     sorted_wrt earlier (rate_samples c) \<and>
     (\<forall>s \<in> set (rate_samples c). timestamp s \<le> t \<and> sample_bytes s \<le> bytes_transferred c)"

lemma window_inv_update:
  assumes "window_inv cfg t c" and "t \<le> now"
  shows "window_inv cfg now (update_rate_samples now c)"
  using assms
  by (auto simp: window_inv_def update_rate_samples_def trim_samples_def earlier_def sorted_wrt_append
      dest!: in_set_dropD intro!: sorted_wrt_drop)

lemma window_inv_more_bytes:
  assumes "window_inv cfg t c" and "unat (bytes_transferred c) + unat n < 2 ^ 64"
  shows "window_inv cfg t (c\<lparr>bytes_transferred := bytes_transferred c + n, bytes_on_wire := w\<rparr>)"
proof -
  have "bytes_transferred c \<le> bytes_transferred c + n"
    using assms(2) by (simp add: no_olen_add_nat)
  then show ?thesis using assms(1) by (auto simp: window_inv_def intro: order_trans)
qed

lemma window_inv_step:
  assumes "window_inv cfg t c" and "t \<le> now"
    and "\<forall>n w. x = Record_bytes n w \<longrightarrow> unat (bytes_transferred c) + unat n < 2 ^ 64"
  shows "window_inv cfg now (collector_step now x c)"
proof (cases x)
  case (Record_bytes n w)
  then show ?thesis
    using assms window_inv_update [OF window_inv_more_bytes [OF assms(1), of n]]
    by (simp add: collector_step_def record_bytes_transferred_def)
qed (use assms in \<open>force simp: collector_step_def window_inv_def start_collecting_def stop_collecting_def
  reset_collector_def record_chunk_processed_def record_transfer_error_def get_eta_def set_total_bytes_def Let_def\<close>)+

lemma window_inv_reachable: "collector_reachable cfg t c \<Longrightarrow> window_inv cfg t c"
  by (induction rule: collector_reachable.induct)
    (simp add: window_inv_def new_collector_def, rule window_inv_step)

lemma sorted_wrt_hd_last: "sorted_wrt P xs \<Longrightarrow> 2 \<le> length xs \<Longrightarrow> P (hd xs) (last xs)"
  by (cases xs) auto

lemma truncate_ratio: "0 \<le> a \<Longrightarrow> 0 < b \<Longrightarrow> truncate (of_int a / of_int b) = a div b"
  by (simp add: truncate_def floor_divide_of_int_eq divide_less_0_iff)

section \<open>Properties\<close>

text \<open>As long as the byte counter does not wrap, the current rate is never computed from an
  inconsistent window: whatever calls were made, there are at most as many samples as configured, and with
  two or more of them the rate times their distance in time is exactly the bytes recorded between them.\<close>

theorem rate_window_consistent:
  assumes "collector_reachable cfg t c"
  shows "length (rate_samples c) \<le> max 1 (rate_window_size cfg) \<and>
    (2 \<le> length (rate_samples c) \<longrightarrow>
       (let a = hd (rate_samples c); b = last (rate_samples c); dt = to_ms (timestamp b - timestamp a)
        in 0 \<le> dt \<and> unat (sample_bytes a) \<le> unat (sample_bytes b) \<and>
           unat (sample_bytes b) \<le> unat (get_bytes_transferred c) \<and>
           (dt \<noteq> 0 \<longrightarrow>
              get_transfer_rate c * of_int dt = of_nat (unat (sample_bytes b) - unat (sample_bytes a)) * 1000)))"
proof -
  have inv: "window_inv cfg t c" by (rule window_inv_reachable [OF assms])
  have "0 \<le> to_ms d" if "0 \<le> d" for d using that by (simp add: to_ms_def trunc_div_def sgn_if)
  moreover have "rate_samples c \<noteq> []" if "2 \<le> length (rate_samples c)" using that by auto
  ultimately show ?thesis
    using inv sorted_wrt_hd_last [of earlier "rate_samples c"] last_in_set [of "rate_samples c"]
    by (auto simp: window_inv_def earlier_def Let_def get_transfer_rate_def calculate_current_rate_def
        get_bytes_transferred_def word_le_nat_alt unat_sub)
qed

definition sample_collector :: collector where
  "sample_collector =
     collector_step 2000000000 (Record_bytes 50 None) (collector_step 1000000000 (Start 200) (new_collector default_stat_config))"

theorem rate_window_consistent_witness:
  "length (rate_samples sample_collector) \<le> 10 \<and>
   (let a = hd (rate_samples sample_collector); b = last (rate_samples sample_collector)
    in get_transfer_rate sample_collector * of_int (to_ms (timestamp b - timestamp a)) =
         of_nat (unat (sample_bytes b) - unat (sample_bytes a)) * 1000)"
proof -
  have r: "collector_reachable default_stat_config 2000000000 sample_collector"
    unfolding sample_collector_def
    by (intro collector_reachable.intros(2) [OF collector_reachable.intros(2) [OF collector_reachable.intros(1)]])
       (simp_all add: collector_step_def start_collecting_def new_collector_def)
  have "length (rate_samples sample_collector) = 2"
    "to_ms (timestamp (last (rate_samples sample_collector)) - timestamp (hd (rate_samples sample_collector))) = 1000"
    by (simp_all add: sample_collector_def collector_step_def start_collecting_def new_collector_def
        record_bytes_transferred_def update_rate_samples_def trim_samples_def default_stat_config_def to_ms_def
        trunc_div_def)
  then show ?thesis
    using rate_window_consistent [OF r] by (simp add: Let_def)
qed

text \<open>Once the minimal interval is over, the estimate is the elapsed time scaled by the ratio of
  remaining to transferred bytes, rounded down; before that it is the estimate given last, and nothing changes.\<close>

theorem eta_scales_elapsed_time:
  assumes "is_active c" and "0 < bytes_transferred c" and "bytes_transferred c < sc_total_bytes c"
    and "0 < get_elapsed now c"
  shows "get_eta now c =
    (if to_ms (now - last_eta_update c) < min_eta_update_interval (sc_cfg c) then (c, cached_eta c)
     else let eta = int (unat (sc_total_bytes c) - unat (bytes_transferred c)) * get_elapsed now c
                      div int (unat (bytes_transferred c))
          in (c\<lparr>cached_eta := eta, last_eta_update := now\<rparr>, eta))"
proof -
  let ?b = "unat (bytes_transferred c)" and ?t = "unat (sc_total_bytes c)" and ?e = "get_elapsed now c"
  have e: "?e = to_ms (now - start_time c)" using assms(1) by (simp add: get_elapsed_def is_active_def)
  have b: "0 < ?b" using assms(2) by (simp add: unat_gt_0 word_neq_0_conv)
  have rate: "calculate_average_rate now c = of_nat ?b * 1000 / of_int ?e"
    using assms(1,4) e by (simp add: calculate_average_rate_def is_active_def)
  have "0 < (of_nat n * 1000 / of_int ?e :: rat)" if "0 < n" for n using that assms(4) by simp
  from this [OF b] have pos: "0 < (of_nat ?b * 1000 / of_int ?e :: rat)" .
  have "unat (sc_total_bytes c - bytes_transferred c) = ?t - ?b"
    using assms(3) by (simp add: unat_sub)
  moreover have "(of_nat (?t - ?b) * 1000 / (of_nat ?b * 1000 / of_int ?e) :: rat) =
      of_int (int (?t - ?b) * ?e) / of_int (int ?b)" by simp
  moreover have "truncate (of_int (int (?t - ?b) * ?e) / of_int (int ?b)) = int (?t - ?b) * ?e div int ?b"
    using assms(4) b unfolding of_nat_0_less_iff [where ?'a = int, symmetric] by (intro truncate_ratio) simp_all
  ultimately have "calculate_eta now c = int (?t - ?b) * ?e div int ?b"
    using pos rate assms(3) unfolding calculate_eta_def Let_def by simp
  then show ?thesis by (simp add: get_eta_def Let_def)
qed

theorem eta_scales_elapsed_time_witness:
  "snd (get_eta 2000000000 sample_collector) = 3000"
proof -
  have c: "sc_active sample_collector" "bytes_transferred sample_collector = 50" "sc_total_bytes sample_collector = 200"
    "start_time sample_collector = 1000000000" "last_eta_update sample_collector = 1000000000"
    "sc_cfg sample_collector = default_stat_config"
    by (simp_all add: sample_collector_def collector_step_def start_collecting_def new_collector_def
        record_bytes_transferred_def update_rate_samples_def)
  show ?thesis
    using eta_scales_elapsed_time [where c = sample_collector and now = 2000000000]
    by (simp add: c is_active_def get_elapsed_def to_ms_def trunc_div_def default_stat_config_def Let_def)
qed

end
