(* ===== verification/Bandwidth_Limiter.thy ===== *)
theory Bandwidth_Limiter
  imports Complex_Main Prelude
begin

text \<open>
  core/bandwidth_limiter.h and core/bandwidth_limiter.cpp: a token bucket. The clock is an argument
  in nanoseconds of the steady clock; the tokens, which the code keeps in \<open>double\<close>, are exact
  rationals, and the cast of the waiting time to \<open>int64_t\<close> is taken to fit. Every operation holds
  the mutex, so it is one step; what \<open>acquire\<close> does between two waits is one step as well
  (\<open>acquire_round\<close>), and the waits are where other threads get their turn.
\<close>

section \<open>The token bucket\<close>

record limiter =
  bytes_per_second :: u64
  bl_enabled :: bool
  tokens :: rat
  capacity :: rat
  last_refill :: int

definition rat_of_size :: "u64 \<Rightarrow> rat" where
  "rat_of_size n = of_nat (unat n)"

definition new_limiter :: "u64 \<Rightarrow> int \<Rightarrow> limiter" where
  "new_limiter rate now =
     \<lparr>bytes_per_second = rate, bl_enabled = (rate > 0),
      tokens = (if rate > 0 then rat_of_size rate else 0),
      capacity = (if rate > 0 then rat_of_size rate else 0), last_refill = now\<rparr>"

text \<open>The move constructor: the new object and what is left in the old one.\<close>

definition move_limiter :: "limiter \<Rightarrow> limiter \<times> limiter" where
  "move_limiter l =
     (\<lparr>bytes_per_second = bytes_per_second l, bl_enabled = bl_enabled l, tokens = tokens l, capacity = capacity l,
       last_refill = last_refill l\<rparr>, l\<lparr>bl_enabled := False, tokens := 0\<rparr>)"

definition elapsed_seconds :: "int \<Rightarrow> limiter \<Rightarrow> rat" where
  "elapsed_seconds now l = of_int (now - last_refill l) / 1000000000"

definition refill_tokens :: "int \<Rightarrow> limiter \<Rightarrow> limiter" where
  "refill_tokens now l =
     (if elapsed_seconds now l > 0
      then l\<lparr>tokens := min (tokens l + elapsed_seconds now l * rat_of_size (bytes_per_second l)) (capacity l),
             last_refill := now\<rparr>
      else l)"

text \<open>Microseconds.\<close>

definition calculate_wait_time :: "u64 \<Rightarrow> limiter \<Rightarrow> int" where
  "calculate_wait_time n l =
     (let needed = rat_of_size n - tokens l; rate = rat_of_size (bytes_per_second l)
      in if \<not> bl_enabled l then 0
         else if needed \<le> 0 then 0
         else if rate \<le> 0 then 0
         else \<lfloor>needed / rate * 1000000\<rfloor>)"

definition take_tokens :: "u64 \<Rightarrow> limiter \<Rightarrow> limiter" where
  "take_tokens n l = l\<lparr>tokens := tokens l - rat_of_size n\<rparr>"

definition try_acquire :: "u64 \<Rightarrow> int \<Rightarrow> limiter \<Rightarrow> limiter \<times> bool" where
  "try_acquire n now l =
     (if n = 0 then (l, True)
      else if \<not> bl_enabled l then (l, True)
      else let l = refill_tokens now l
           in if tokens l \<ge> rat_of_size n then (take_tokens n l, True) else (l, False))"

definition set_limit :: "u64 \<Rightarrow> int \<Rightarrow> limiter \<Rightarrow> limiter" where
  "set_limit rate now l =
     (let old_limit = bytes_per_second l; l = l\<lparr>bytes_per_second := rate\<rparr>; new_capacity = rat_of_size rate
      in if rate > 0
         then l\<lparr>tokens := (if old_limit > 0 \<and> capacity l > 0
                           then min (tokens l * (new_capacity / capacity l)) new_capacity else new_capacity),
                capacity := new_capacity, bl_enabled := True, last_refill := now\<rparr>
         else l\<lparr>bl_enabled := False\<rparr>)"

definition get_limit :: "limiter \<Rightarrow> u64" where "get_limit l = bytes_per_second l"
definition is_enabled :: "limiter \<Rightarrow> bool" where "is_enabled l = bl_enabled l"
definition disable :: "limiter \<Rightarrow> limiter" where "disable l = l\<lparr>bl_enabled := False\<rparr>"

definition enable :: "int \<Rightarrow> limiter \<Rightarrow> limiter" where
  "enable now l = (if bytes_per_second l > 0 then l\<lparr>last_refill := now, bl_enabled := True\<rparr> else l)"

definition reset_bucket :: "int \<Rightarrow> limiter \<Rightarrow> limiter" where
  "reset_bucket now l = l\<lparr>tokens := capacity l, last_refill := now\<rparr>"

definition available_tokens :: "int \<Rightarrow> limiter \<Rightarrow> limiter \<times> u64" where
  "available_tokens now l =
     (let l = refill_tokens now l in (l, word_of_nat (nat \<lfloor>max 0 (tokens l)\<rfloor>)))"

definition bucket_capacity :: "limiter \<Rightarrow> u64" where
  "bucket_capacity l = word_of_nat (nat \<lfloor>capacity l\<rfloor>)"

section \<open>Waiting\<close>

text \<open>One round of the loop of \<open>acquire\<close>: the bytes are granted (\<open>None\<close>) or the thread has to wait
  that many microseconds.\<close>

definition acquire_round :: "u64 \<Rightarrow> int \<Rightarrow> limiter \<Rightarrow> limiter \<times> int option" where
  "acquire_round n now l =
     (let l = refill_tokens now l
      in if tokens l \<ge> rat_of_size n then (take_tokens n l, None)
         else if calculate_wait_time n l \<le> 0 then (take_tokens n l, None)
         else (l, Some (calculate_wait_time n l)))"

text \<open>\<open>wait_for\<close> evaluates its predicate, which refills the bucket, at the given readings of the clock
  (when it starts, when the thread wakes up, when the time is over) and stops as soon as it holds.\<close>

fun wait_for :: "u64 \<Rightarrow> int list \<Rightarrow> limiter \<Rightarrow> limiter" where
  "wait_for n [] l = l"
| "wait_for n (t # ts) l =
     (let l = refill_tokens t l
      in if tokens l \<ge> rat_of_size n \<or> \<not> bl_enabled l then l else wait_for n ts l)"

text \<open>The loop, with the clock reading of each round and the readings of each wait; \<open>None\<close> when the
  rounds are used up before it returns.\<close>

fun acquire_rounds :: "nat \<Rightarrow> u64 \<Rightarrow> (nat \<Rightarrow> int) \<Rightarrow> (nat \<Rightarrow> int list) \<Rightarrow> nat \<Rightarrow> limiter \<Rightarrow> limiter option" where
  "acquire_rounds 0 n clk wakes k l = None"
| "acquire_rounds (Suc fuel) n clk wakes k l =
     (if \<not> bl_enabled l then Some l
      else case acquire_round n (clk k) l of
             (l, None) \<Rightarrow> Some l
           | (l, Some w) \<Rightarrow> acquire_rounds fuel n clk wakes (Suc k) (wait_for n (wakes k) l))"

definition acquire :: "nat \<Rightarrow> u64 \<Rightarrow> (nat \<Rightarrow> int) \<Rightarrow> (nat \<Rightarrow> int list) \<Rightarrow> limiter \<Rightarrow> limiter option" where
  "acquire fuel n clk wakes l =
     (if n = 0 \<or> \<not> bl_enabled l then Some l else acquire_rounds fuel n clk wakes 0 l)"

section \<open>The invariant of the bucket\<close>

text \<open>The bucket never holds more than its capacity, which is the rate while there is one, and it
  owes less than what flows in within a microsecond.\<close>

definition bucket_inv :: "limiter \<Rightarrow> bool" where
  "bucket_inv l \<longleftrightarrow>
     tokens l \<le> capacity l \<and> (tokens l = 0 \<or> - capacity l < tokens l * 1000000) \<and>
     (bytes_per_second l > 0 \<longrightarrow> capacity l = rat_of_size (bytes_per_second l)) \<and>
     (bl_enabled l \<longrightarrow> bytes_per_second l > 0)"

lemma rat_of_size_nonneg [simp]: "0 \<le> rat_of_size n"
  unfolding rat_of_size_def by (rule of_nat_0_le_iff)

lemma rat_of_size_pos [simp]: "0 < rat_of_size n \<longleftrightarrow> n > 0"
  unfolding rat_of_size_def of_nat_0_less_iff by (simp add: unat_gt_0 word_neq_0_conv)

lemma rat_of_size_le [simp]: "rat_of_size m \<le> rat_of_size n \<longleftrightarrow> m \<le> n"
  unfolding rat_of_size_def of_nat_le_iff word_le_nat_alt by (rule refl)

lemma bucket_inv_new: "bucket_inv (new_limiter rate now)"
  by (auto simp: bucket_inv_def new_limiter_def intro: less_le_trans [of _ 0])

lemma capacity_nonneg: "bucket_inv l \<Longrightarrow> 0 \<le> capacity l"
  by (auto simp: bucket_inv_def)

lemma refill_frame [simp]:
  "bytes_per_second (refill_tokens now l) = bytes_per_second l"
  "bl_enabled (refill_tokens now l) = bl_enabled l" "capacity (refill_tokens now l) = capacity l"
  by (simp_all add: refill_tokens_def)

lemma refill_ge: "bucket_inv l \<Longrightarrow> tokens l \<le> tokens (refill_tokens now l)"
  by (auto simp: refill_tokens_def bucket_inv_def min_def)

lemma bucket_inv_refill: "bucket_inv l \<Longrightarrow> bucket_inv (refill_tokens now l)"
proof -
  assume inv: "bucket_inv l"
  show ?thesis
  proof (cases "tokens (refill_tokens now l) = tokens l")
    case True
    then show ?thesis using inv by (simp add: bucket_inv_def)
  next
    case False
    then have more: "tokens l < tokens (refill_tokens now l)"
      using refill_ge [OF inv, of now] by simp
    have "tokens (refill_tokens now l) \<le> capacity l"
      using inv by (auto simp: refill_tokens_def bucket_inv_def)
    moreover have "tokens (refill_tokens now l) = 0 \<or> - capacity l < tokens (refill_tokens now l) * 1000000"
      using inv more capacity_nonneg [OF inv] by (auto simp: bucket_inv_def)
    ultimately show ?thesis using inv by (simp add: bucket_inv_def)
  qed
qed

lemma bucket_inv_take: "bucket_inv l \<Longrightarrow> rat_of_size n \<le> tokens l \<Longrightarrow> bucket_inv (take_tokens n l)"
  using rat_of_size_nonneg [of n] unfolding bucket_inv_def take_tokens_def by (simp del: rat_of_size_nonneg) linarith

lemma wait_time_zero:
  assumes "bl_enabled l" "bytes_per_second l > 0" "tokens l < rat_of_size n"
  shows "calculate_wait_time n l \<le> 0 \<longleftrightarrow>
           (rat_of_size n - tokens l) * 1000000 < rat_of_size (bytes_per_second l)"
  using assms by (simp add: calculate_wait_time_def Let_def not_le divide_less_eq floor_le_iff field_simps)

lemma bucket_inv_borrow:
  assumes inv: "bucket_inv l" and e: "bl_enabled l" and less: "\<not> rat_of_size n \<le> tokens l"
    and wait: "calculate_wait_time n l \<le> 0"
  shows "bucket_inv (take_tokens n l)"
proof -
  have "bytes_per_second l > 0" "capacity l = rat_of_size (bytes_per_second l)"
    using inv e by (auto simp: bucket_inv_def)
  then have "(rat_of_size n - tokens l) * 1000000 < capacity l"
    using wait_time_zero [of l n] e less wait by simp
  then show ?thesis
    using inv rat_of_size_nonneg [of n] unfolding bucket_inv_def take_tokens_def
    by (simp del: rat_of_size_nonneg add: algebra_simps)
qed

lemma bucket_inv_set_limit: "bucket_inv l \<Longrightarrow> bucket_inv (set_limit rate now l)"
proof -
  assume inv: "bucket_inv l"
  have "- rat_of_size rate < tokens l * (rat_of_size rate / capacity l) * 1000000"
    if c: "capacity l > 0" and r: "rate > 0" and t: "- capacity l < tokens l * 1000000"
  proof -
    have "- capacity l * (rat_of_size rate / capacity l) < tokens l * 1000000 * (rat_of_size rate / capacity l)"
      using t c r by (intro mult_strict_right_mono) simp_all
    then show ?thesis using c by (simp add: algebra_simps)
  qed
  then show ?thesis
    using inv by (auto simp: bucket_inv_def set_limit_def Let_def min_def intro: less_le_trans [of _ 0])
qed

section \<open>Histories\<close>

text \<open>The atomic steps of all threads that share the limiter, with what each of them grants.\<close>

datatype limiter_call =
  Try_acquire u64 | Acquire_round u64 | Available_tokens | Set_limit u64 | Enable | Disable | Reset_bucket

definition limiter_step :: "int \<Rightarrow> limiter_call \<Rightarrow> limiter \<Rightarrow> limiter \<times> nat" where
  "limiter_step now c l =
     (case c of
        Try_acquire n \<Rightarrow> (case try_acquire n now l of (l', ok) \<Rightarrow> (l', if ok then unat n else 0))
      | Acquire_round n \<Rightarrow>
          (if n = 0 \<or> \<not> bl_enabled l then (l, unat n)
           else case acquire_round n now l of (l', w) \<Rightarrow> (l', if w = None then unat n else 0))
      | Available_tokens \<Rightarrow> (fst (available_tokens now l), 0)
      | Set_limit rate \<Rightarrow> (set_limit rate now l, 0)
      | Enable \<Rightarrow> (enable now l, 0)
      | Disable \<Rightarrow> (disable l, 0)
      | Reset_bucket \<Rightarrow> (reset_bucket now l, 0))"

fun limiter_run :: "(int \<times> limiter_call) list \<Rightarrow> limiter \<Rightarrow> limiter \<times> nat" where
  "limiter_run [] l = (l, 0)"
| "limiter_run ((now, c) # cs) l =
     (case limiter_step now c l of (l', g) \<Rightarrow> (case limiter_run cs l' of (l'', g') \<Rightarrow> (l'', g + g')))"

text \<open>The calls that neither change the limit nor refill the bucket for free.\<close>

fun metered :: "limiter_call \<Rightarrow> bool" where
  "metered (Try_acquire n) = True"
| "metered (Acquire_round n) = True"
| "metered Available_tokens = True"
| "metered c = False"

lemma bucket_inv_round:
  assumes "bucket_inv l" and "bl_enabled l"
  shows "bucket_inv (fst (acquire_round n now l))"
  using assms bucket_inv_refill [of l now] bucket_inv_take [of "refill_tokens now l" n]
    bucket_inv_borrow [of "refill_tokens now l" n]
  by (simp add: acquire_round_def Let_def)

lemma bucket_inv_step: "bucket_inv l \<Longrightarrow> bucket_inv (fst (limiter_step now c l))"
proof (cases c)
  case (Try_acquire n)
  then show "bucket_inv l \<Longrightarrow> ?thesis"
    using bucket_inv_refill [of l now] bucket_inv_take [of "refill_tokens now l" n]
    by (simp add: limiter_step_def try_acquire_def Let_def)
next
  case (Acquire_round n)
  then show "bucket_inv l \<Longrightarrow> ?thesis"
    using bucket_inv_round [of l n now] by (auto simp: limiter_step_def split_beta)
next
  case Reset_bucket
  then show "bucket_inv l \<Longrightarrow> ?thesis"
    using capacity_nonneg [of l] by (simp add: limiter_step_def bucket_inv_def reset_bucket_def) linarith
qed (auto simp: limiter_step_def available_tokens_def Let_def bucket_inv_refill bucket_inv_set_limit,
     auto simp: bucket_inv_def enable_def disable_def)

lemma bucket_inv_run: "bucket_inv l \<Longrightarrow> bucket_inv (fst (limiter_run cs l))"
proof (induction cs l rule: limiter_run.induct)
  case (2 now c cs l)
  then show ?case
    using bucket_inv_step [of l now c] by (auto split: prod.split)
qed simp

text \<open>What a metered step grants was in the bucket or flowed in.\<close>

lemma refill_paid:
  "tokens (refill_tokens now l) \<le>
     tokens l + of_int (last_refill (refill_tokens now l) - last_refill l) / 1000000000 * rat_of_size (bytes_per_second l)"
  by (simp add: refill_tokens_def elapsed_seconds_def)

lemma refill_time: "last_refill l \<le> T \<Longrightarrow> now \<le> T \<Longrightarrow> last_refill (refill_tokens now l) \<le> T"
  by (simp add: refill_tokens_def)

lemma step_paid:
  assumes "metered c" and "bl_enabled l" and step: "limiter_step now c l = (l', g)"
  shows "of_nat g + tokens l' \<le>
           tokens l + of_int (last_refill l' - last_refill l) / 1000000000 * rat_of_size (bytes_per_second l) \<and>
         bl_enabled l' \<and> bytes_per_second l' = bytes_per_second l \<and>
         (last_refill l \<le> T \<longrightarrow> now \<le> T \<longrightarrow> last_refill l' \<le> T)"
proof (cases c)
  case (Try_acquire n)
  then show ?thesis
    using assms refill_paid [of now l] refill_time [of l T now]
    by (auto simp: limiter_step_def try_acquire_def take_tokens_def Let_def rat_of_size_def split: if_splits)
next
  case (Acquire_round n)
  then show ?thesis
    using assms refill_paid [of now l] refill_time [of l T now]
    by (auto simp: limiter_step_def acquire_round_def take_tokens_def Let_def rat_of_size_def split: if_splits)
next
  case Available_tokens
  then show ?thesis
    using assms refill_paid [of now l] refill_time [of l T now]
    by (auto simp: limiter_step_def available_tokens_def Let_def)
qed (use assms in simp_all)

lemma run_paid:
  assumes "list_all (\<lambda>(t, c). metered c \<and> t \<le> T) cs" and "bl_enabled l" and "last_refill l \<le> T"
    and "limiter_run cs l = (l', g)"
  shows "of_nat g + tokens l' \<le>
           tokens l + of_int (last_refill l' - last_refill l) / 1000000000 * rat_of_size (bytes_per_second l) \<and>
         bytes_per_second l' = bytes_per_second l \<and> last_refill l' \<le> T"
  using assms
proof (induction cs l arbitrary: l' g rule: limiter_run.induct)
  case (2 t c cs l)
  obtain l1 g1 where one: "limiter_step t c l = (l1, g1)" by fastforce
  obtain l2 g2 where rest: "limiter_run cs l1 = (l2, g2)" by fastforce
  have s: "of_nat g1 + tokens l1 \<le>
           tokens l + of_int (last_refill l1 - last_refill l) / 1000000000 * rat_of_size (bytes_per_second l)"
    "bl_enabled l1" "bytes_per_second l1 = bytes_per_second l" "last_refill l1 \<le> T"
    using step_paid [of c l t l1 g1 T] one "2.prems" by auto
  then have "of_nat g2 + tokens l2 \<le>
           tokens l1 + of_int (last_refill l2 - last_refill l1) / 1000000000 * rat_of_size (bytes_per_second l) \<and>
         bytes_per_second l2 = bytes_per_second l \<and> last_refill l2 \<le> T"
    using "2.IH" [of l1 g1 l2 g2] one rest "2.prems" by simp
  moreover have "l' = l2" "g = g1 + g2" using one rest "2.prems" by auto
  ultimately show ?case
    using s(1) by (simp add: diff_divide_distrib algebra_simps)
qed simp

section \<open>Waiting ends\<close>

lemma wait_for_frame [simp]:
  "bl_enabled (wait_for n ts l) = bl_enabled l" "bytes_per_second (wait_for n ts l) = bytes_per_second l"
  "capacity (wait_for n ts l) = capacity l"
  by (induction n ts l rule: wait_for.induct) (simp_all add: Let_def)

lemma bucket_inv_wait_for: "bucket_inv l \<Longrightarrow> bucket_inv (wait_for n ts l)"
  by (induction n ts l rule: wait_for.induct) (simp_all add: Let_def bucket_inv_refill)

text \<open>However often the bucket is refilled, at time \<open>T\<close> it is full or holds all that flowed in.\<close>

definition caught_up :: "rat \<Rightarrow> int \<Rightarrow> limiter \<Rightarrow> bool" where
  "caught_up t0 T0 l \<longleftrightarrow>
     tokens l = capacity l \<or>
     tokens l \<ge> t0 + of_int (last_refill l - T0) / 1000000000 * rat_of_size (bytes_per_second l)"

lemma caught_up_refill:
  assumes "caught_up t0 T0 l"
  shows "caught_up t0 T0 (refill_tokens now l)"
proof (cases "elapsed_seconds now l > 0")
  case True
  then have "0 \<le> elapsed_seconds now l * rat_of_size (bytes_per_second l)" by simp
  with assms True show ?thesis
    unfolding caught_up_def refill_tokens_def
    by (auto simp: min_def elapsed_seconds_def diff_divide_distrib algebra_simps)
qed (use assms in \<open>simp add: refill_tokens_def\<close>)

lemma caught_up_wait_for: "caught_up t0 T0 l \<Longrightarrow> caught_up t0 T0 (wait_for n ts l)"
  by (induction n ts l rule: wait_for.induct) (simp_all add: Let_def caught_up_refill)

lemma refill_at_least:
  assumes "bucket_inv l"
  shows "last_refill (refill_tokens now l) \<ge> now"
  by (simp add: refill_tokens_def elapsed_seconds_def)

lemma round_waits:
  assumes "snd (acquire_round n now l) = Some w"
  shows "acquire_round n now l = (refill_tokens now l, Some w)" "w = calculate_wait_time n (refill_tokens now l)"
    "\<not> rat_of_size n \<le> tokens (refill_tokens now l)"
  using assms by (auto simp: acquire_round_def Let_def split: if_splits)

lemma wait_covers:
  assumes "bl_enabled l" "bytes_per_second l > 0" "\<not> rat_of_size n \<le> tokens l"
  shows "(rat_of_size n - tokens l) * 1000000 <
           (of_int (calculate_wait_time n l) + 1) * rat_of_size (bytes_per_second l)"
proof -
  let ?r = "rat_of_size (bytes_per_second l)"
  have r: "0 < ?r" "\<not> ?r \<le> 0" using assms(2) by (simp_all add: not_le)
  have "(rat_of_size n - tokens l) / ?r * 1000000 < of_int (calculate_wait_time n l) + 1"
    using floor_correct [of "(rat_of_size n - tokens l) / ?r * 1000000"] assms r(2)
    by (simp add: calculate_wait_time_def Let_def)
  then have "(rat_of_size n - tokens l) / ?r * 1000000 * ?r < (of_int (calculate_wait_time n l) + 1) * ?r"
    using r(1) by (rule mult_strict_right_mono)
  then show ?thesis using r(1) by simp
qed

lemma second_round_grants:
  assumes inv: "bucket_inv l" and e: "bl_enabled l" and fits: "rat_of_size n \<le> capacity l" and clk: "last_refill l \<le> t"
    and w: "snd (acquire_round n t l) = Some w"
    and later: "t' \<ge> t + 1000 * w \<or> rat_of_size n \<le> tokens (wait_for n ts (refill_tokens t l))"
  shows "snd (acquire_round n t' (wait_for n ts (refill_tokens t l))) = None"
proof -
  let ?l0 = "refill_tokens t l" and ?r = "rat_of_size (bytes_per_second l)"
  let ?l1 = "wait_for n ts ?l0"
  let ?l2 = "refill_tokens t' ?l1"
  note rw = round_waits [OF w]
  have r: "bytes_per_second l > 0" "?r > 0" using inv e by (auto simp: bucket_inv_def)
  have T0: "last_refill ?l0 = t" using clk by (simp add: refill_tokens_def elapsed_seconds_def)
  have inv1: "bucket_inv ?l1" using inv by (intro bucket_inv_wait_for bucket_inv_refill)
  have "caught_up (tokens ?l0) t ?l0" by (simp add: caught_up_def T0)
  from caught_up_refill [OF caught_up_wait_for [OF this], where now = t'] consider "tokens ?l2 = capacity l"
    | "tokens ?l2 \<ge> tokens ?l0 + of_int (last_refill ?l2 - t) / 1000000000 * ?r"
    by (auto simp: caught_up_def)
  then have "rat_of_size n \<le> tokens ?l2 \<or> (rat_of_size n - tokens ?l2) * 1000000 < ?r"
  proof cases
    case 2
    from later show ?thesis
    proof
      assume "t' \<ge> t + 1000 * w"
      then have "of_int (1000 * w) \<le> (of_int (last_refill ?l2 - t) :: rat)"
        using refill_at_least [OF inv1, of t'] unfolding of_int_le_iff by simp
      then have "of_int (1000 * w) / 1000000000 * ?r \<le> of_int (last_refill ?l2 - t) / 1000000000 * ?r"
        using r(2) by (intro mult_right_mono divide_right_mono) simp_all
      moreover have "(rat_of_size n - tokens ?l0) * 1000000 < (of_int w + 1) * ?r"
        using wait_covers [of ?l0 n] rw e r by simp
      moreover have "of_int (1000 * w) / 1000000000 * ?r = of_int w * ?r / 1000000" "(of_int w + 1) * ?r = of_int w * ?r + ?r"
        by (simp_all add: distrib_right)
      ultimately show ?thesis using 2 unfolding left_diff_distrib by - (rule disjI2, linarith)
    next
      assume "rat_of_size n \<le> tokens ?l1"
      then show ?thesis using refill_ge [OF inv1, of t'] by simp
    qed
  qed (use fits in simp)
  then show ?thesis
    using wait_time_zero [of ?l2 n] e r by (auto simp: acquire_round_def Let_def not_le)
qed

lemma oversized_round:
  assumes inv: "bucket_inv l" and e: "bl_enabled l"
    and big: "rat_of_size (bytes_per_second l) * 1000001 \<le> rat_of_size n * 1000000"
  shows "\<exists>w. acquire_round n t l = (refill_tokens t l, Some w)"
proof -
  let ?l = "refill_tokens t l"
  have inv': "bucket_inv ?l" by (rule bucket_inv_refill [OF inv])
  have r: "bytes_per_second l > 0" using inv e by (simp add: bucket_inv_def)
  have "tokens ?l \<le> rat_of_size (bytes_per_second l)"
    using inv' r by (auto simp: bucket_inv_def)
  moreover have "rat_of_size (bytes_per_second l) > 0" using r by simp
  ultimately have "tokens ?l < rat_of_size n \<and> \<not> (rat_of_size n - tokens ?l) * 1000000 < rat_of_size (bytes_per_second l)"
    using big unfolding left_diff_distrib by - (rule conjI, linarith+)
  then show ?thesis
    using wait_time_zero [of ?l n] e r by (auto simp: acquire_round_def Let_def)
qed

lemma oversized_rounds:
  "bucket_inv l \<Longrightarrow> bl_enabled l \<Longrightarrow> rat_of_size (bytes_per_second l) * 1000001 \<le> rat_of_size n * 1000000 \<Longrightarrow>
     acquire_rounds fuel n clk wakes k l = None"
proof (induction fuel arbitrary: k l)
  case (Suc fuel)
  then obtain w where "acquire_round n (clk k) l = (refill_tokens (clk k) l, Some w)"
    using oversized_round by blast
  then show ?case using Suc by (simp add: bucket_inv_wait_for bucket_inv_refill)
qed simp

section \<open>Properties\<close>

text \<open>C19: the limiter keeps its rate: from any state that any history of calls leads to, while the limit
  is not changed and the bucket is not reset by hand, all threads together are granted by time \<open>T\<close> at most one
  bucket, what flows in until then, and what flows in within one microsecond.\<close>

theorem granted_bytes_bounded:
  assumes "l = fst (limiter_run cs0 (new_limiter r t0))" and "is_enabled l" and "last_refill l \<le> T"
    and "list_all (\<lambda>(t, c). metered c \<and> t \<le> T) cs"
  shows "of_nat (snd (limiter_run cs l)) \<le>
           (1 + of_int (T - last_refill l) / 1000000000 + 1 / 1000000) * rat_of_size (get_limit l)"
proof -
  obtain l' g where run: "limiter_run cs l = (l', g)" by fastforce
  have inv: "bucket_inv l" "bucket_inv l'"
    using assms(1) run bucket_inv_run [of l cs] bucket_inv_run [OF bucket_inv_new] by auto
  note paid = run_paid [OF assms(4) _ assms(3) run]
  let ?r = "rat_of_size (get_limit l)"
  have r: "capacity l = ?r" "capacity l' = ?r" "0 \<le> ?r"
    using inv paid assms(2) by (auto simp: bucket_inv_def is_enabled_def get_limit_def)
  have "(of_int (last_refill l' - last_refill l) :: rat) \<le> of_int (T - last_refill l)"
    using paid assms(2) unfolding of_int_le_iff by (simp add: is_enabled_def)
  then have "of_int (last_refill l' - last_refill l) / 1000000000 * ?r \<le> of_int (T - last_refill l) / 1000000000 * ?r"
    using r(3) by (intro mult_right_mono divide_right_mono) simp_all
  moreover have "tokens l \<le> ?r" "- ?r \<le> tokens l' * 1000000"
    using inv r by (auto simp: bucket_inv_def)
  moreover have "of_nat g + tokens l' \<le> tokens l + of_int (last_refill l' - last_refill l) / 1000000000 * ?r"
    using paid assms(2) by (simp add: is_enabled_def get_limit_def)
  ultimately have "of_nat g \<le> ?r + of_int (T - last_refill l) / 1000000000 * ?r + 1 / 1000000 * ?r"
    by linarith
  then show ?thesis using run by (simp only: distrib_right mult_1_left snd_conv)
qed

theorem granted_bytes_bounded_witness:
  "of_nat (snd (limiter_run [(0, Try_acquire 600), (5, Acquire_round 400), (10, Try_acquire 400)] (new_limiter 1000 0))) \<le>
     (1000 + 101 / 100000 :: rat)"
  using granted_bytes_bounded [where ?cs0.0 = "[]" and r = 1000 and ?t0.0 = 0 and T = 10 and l = "new_limiter 1000 0"
      and cs = "[(0, Try_acquire 600), (5, Acquire_round 400), (10, Try_acquire 400)]"]
  by (simp add: new_limiter_def is_enabled_def get_limit_def rat_of_size_def del: limiter_run.simps(2))

text \<open>A limiter whose bucket was emptied at time 0.\<close>

definition drained_limiter :: limiter where
  "drained_limiter = fst (limiter_run [(0, Try_acquire 1000)] (new_limiter 1000 0))"

lemma drained_limiter_simp:
  "drained_limiter =
     \<lparr>bytes_per_second = 1000, bl_enabled = True, tokens = 0, capacity = 1000, last_refill = 0\<rparr>"
  by (simp add: drained_limiter_def limiter_step_def try_acquire_def new_limiter_def rat_of_size_def
      refill_tokens_def elapsed_seconds_def take_tokens_def Let_def)

text \<open>\<open>acquire\<close> returns after at most one wait when it asks for no more than the bucket holds,
  provided the wait lasts as long as asked for or ends because the bucket is full enough.\<close>

theorem acquire_returns:
  assumes "l = fst (limiter_run cs (new_limiter r t0))" and "is_enabled l" and "n \<le> get_limit l"
    and "last_refill l \<le> clk 0"
    and "\<And>w. snd (acquire_round n (clk 0) l) = Some w \<Longrightarrow>
           clk 1 \<ge> clk 0 + 1000 * w \<or> tokens (wait_for n (wakes 0) (refill_tokens (clk 0) l)) \<ge> rat_of_size n"
  shows "\<exists>l'. acquire 2 n clk wakes l = Some l'"
proof (cases "snd (acquire_round n (clk 0) l)")
  case None
  then show ?thesis by (auto simp: acquire_def numeral_2_eq_2 split: prod.split option.split)
next
  case (Some w)
  have inv: "bucket_inv l" using assms(1) bucket_inv_run [OF bucket_inv_new] by simp
  then have "rat_of_size n \<le> capacity l"
    using assms(2,3) by (auto simp: bucket_inv_def is_enabled_def get_limit_def)
  then have "snd (acquire_round n (clk 1) (wait_for n (wakes 0) (refill_tokens (clk 0) l))) = None"
    using second_round_grants [OF inv _ _ assms(4) Some assms(5) [OF Some]] assms(2) by (simp add: is_enabled_def)
  then show ?thesis
    using round_waits(1) [OF Some] by (auto simp: acquire_def numeral_2_eq_2 split: prod.split)
qed

theorem acquire_returns_witness:
  "\<exists>l'. acquire 2 500 (\<lambda>k. int k * 500000000) (\<lambda>_. [0, 500000000]) drained_limiter = Some l'"
  by (rule acquire_returns [where cs = "[(0, Try_acquire 1000)]" and r = 1000 and ?t0.0 = 0])
     (rule drained_limiter_def,
      simp_all add: drained_limiter_simp is_enabled_def get_limit_def acquire_round_def refill_tokens_def
        elapsed_seconds_def rat_of_size_def calculate_wait_time_def Let_def)

text \<open>A request for more than the bucket can ever hold (by a millionth of the limit) never returns
  while the limiter stays enabled: the bucket is full before there is enough in it, and the thread waits again,
  for every number of rounds and whatever the clock shows.\<close>

theorem oversized_acquire_never_returns:
  assumes "l = fst (limiter_run cs (new_limiter r t0))" and "is_enabled l"
    and "unat (get_limit l) * 1000001 \<le> unat n * 1000000"
  shows "acquire fuel n clk wakes l = None"
proof -
  have inv: "bucket_inv l" using assms(1) bucket_inv_run [OF bucket_inv_new] by simp
  have "(of_nat (unat (get_limit l) * 1000001) :: rat) \<le> of_nat (unat n * 1000000)"
    using assms(3) by (rule of_nat_mono)
  then have big: "rat_of_size (bytes_per_second l) * 1000001 \<le> rat_of_size n * 1000000"
    by (simp add: rat_of_size_def get_limit_def)
  moreover have "bytes_per_second l > 0" using inv assms(2) by (simp add: bucket_inv_def is_enabled_def)
  then have "n \<noteq> 0" using assms(3) by (auto simp: get_limit_def word_neq_0_conv [symmetric] unat_eq_zero)
  ultimately show ?thesis
    using oversized_rounds [OF inv] assms(2) by (simp add: acquire_def is_enabled_def)
qed

theorem oversized_acquire_never_returns_witness:
  "\<forall>fuel. acquire fuel 1001 (\<lambda>k. int k * 1000000000) (\<lambda>_. []) drained_limiter = None"
  by (intro allI, rule oversized_acquire_never_returns [where cs = "[(0, Try_acquire 1000)]" and r = 1000 and ?t0.0 = 0])
     (rule drained_limiter_def, simp_all add: drained_limiter_simp is_enabled_def get_limit_def)

end
