(* ===== verification/Client_Types.thy ===== *)
theory Client_Types
  imports Chunk_Types Error_Codes File_System Bandwidth_Limiter
begin

text \<open>
  client/client_types.h without the fields that no code sets, and from client/file_transfer_client.cpp the state machine of a transfer:
  the vocabulary of the client. \<open>double\<close> is exact; durations are milliseconds.
\<close>

section \<open>Connections and transfers\<close>

datatype connection_state = Disconnected | Connecting | Connected | Reconnecting

fun connection_state_to_string :: "connection_state \<Rightarrow> string" where
  "connection_state_to_string Disconnected = ''disconnected''"
| "connection_state_to_string Connecting = ''connecting''"
| "connection_state_to_string Connected = ''connected''"
| "connection_state_to_string Reconnecting = ''reconnecting''"

record reconnect_policy =
  rp_max_attempts :: nat
  rp_initial_delay :: int
  rp_max_delay :: int
  rp_backoff_multiplier :: rat

definition default_reconnect_policy :: reconnect_policy where
  "default_reconnect_policy =
     \<lparr>rp_max_attempts = 5, rp_initial_delay = 1000, rp_max_delay = 30000, rp_backoff_multiplier = 2\<rparr>"

datatype compression_mode = Compression_none | Compression_always | Compression_adaptive
datatype compression_level = Level_fast | Level_balanced | Level_best

record progress_config =
  callback_interval :: int
  pc_rate_window_size :: nat
  pc_rate_sample_interval :: int

definition default_progress_config :: progress_config where
  "default_progress_config = \<lparr>callback_interval = 100, pc_rate_window_size = 10, pc_rate_sample_interval = 100\<rparr>"

record client_config =
  cl_compression :: compression_mode
  comp_level :: compression_level
  cl_chunk_size :: u64
  auto_reconnect :: bool
  cl_reconnect :: reconnect_policy
  upload_bandwidth_limit :: "u64 option"
  download_bandwidth_limit :: "u64 option"
  connect_timeout :: int
  progress_cfg :: progress_config
  enable_encryption :: bool
  encryption_password :: string
  encryption_key :: bytes

definition default_client_config :: client_config where
  "default_client_config =
     \<lparr>cl_compression = Compression_adaptive, comp_level = Level_fast, cl_chunk_size = 262144,
      auto_reconnect = True, cl_reconnect = default_reconnect_policy, upload_bandwidth_limit = None,
      download_bandwidth_limit = None, connect_timeout = 30000, progress_cfg = default_progress_config,
      enable_encryption = False, encryption_password = [], encryption_key = []\<rparr>"

record upload_options =
  uo_compression :: "compression_mode option"
  uo_overwrite :: bool
  uo_encrypt :: "bool option"

definition default_upload_options :: upload_options where
  "default_upload_options = \<lparr>uo_compression = None, uo_overwrite = False, uo_encrypt = None\<rparr>"

record download_options =
  do_overwrite :: bool
  do_verify_hash :: bool
  do_encrypt :: "bool option"

definition default_download_options :: download_options where
  "default_download_options = \<lparr>do_overwrite = False, do_verify_hash = True, do_encrypt = None\<rparr>"

datatype transfer_status = Pending | In_progress | Paused | Completing | Completed | Failed | Cancelled

fun transfer_status_to_string :: "transfer_status \<Rightarrow> string" where
  "transfer_status_to_string Pending = ''pending''"
| "transfer_status_to_string In_progress = ''in_progress''"
| "transfer_status_to_string Paused = ''paused''"
| "transfer_status_to_string Completing = ''completing''"
| "transfer_status_to_string Completed = ''completed''"
| "transfer_status_to_string Failed = ''failed''"
| "transfer_status_to_string Cancelled = ''cancelled''"

definition is_terminal_status :: "transfer_status \<Rightarrow> bool" where
  "is_terminal_status s \<longleftrightarrow> s = Completed \<or> s = Failed \<or> s = Cancelled"

record transfer_progress_info =
  pi_bytes_transferred :: u64
  pi_total_bytes :: u64
  pi_chunks_transferred :: u64
  pi_total_chunks :: u64
  pi_transfer_rate :: rat
  pi_elapsed :: int

definition no_progress_info :: transfer_progress_info where
  "no_progress_info =
     \<lparr>pi_bytes_transferred = 0, pi_total_bytes = 0, pi_chunks_transferred = 0, pi_total_chunks = 0,
      pi_transfer_rate = 0, pi_elapsed = 0\<rparr>"

definition pi_completion_percentage :: "transfer_progress_info \<Rightarrow> rat" where
  "pi_completion_percentage i = percentage (pi_bytes_transferred i) (pi_total_bytes i)"

record transfer_result_info =
  ri_success :: bool
  ri_bytes_transferred :: u64
  ri_elapsed :: int
  ri_error_message :: "string option"

record client_statistics =
  total_bytes_uploaded :: u64
  total_bytes_downloaded :: u64
  total_bytes_on_wire_upload :: u64
  total_bytes_on_wire_download :: u64
  total_files_uploaded :: u64
  total_files_downloaded :: u64
  active_transfers :: nat

definition no_client_statistics :: client_statistics where
  "no_client_statistics =
     \<lparr>total_bytes_uploaded = 0, total_bytes_downloaded = 0, total_bytes_on_wire_upload = 0,
      total_bytes_on_wire_download = 0, total_files_uploaded = 0, total_files_downloaded = 0, active_transfers = 0\<rparr>"

definition ratio_or_one :: "u64 \<Rightarrow> u64 \<Rightarrow> rat" where
  "ratio_or_one wire original =
     (if original = 0 then 1 else of_nat (unat wire) / of_nat (unat original))"

definition upload_compression_ratio :: "client_statistics \<Rightarrow> rat" where
  "upload_compression_ratio s = ratio_or_one (total_bytes_on_wire_upload s) (total_bytes_uploaded s)"

definition download_compression_ratio :: "client_statistics \<Rightarrow> rat" where
  "download_compression_ratio s = ratio_or_one (total_bytes_on_wire_download s) (total_bytes_downloaded s)"

definition overall_compression_ratio :: "client_statistics \<Rightarrow> rat" where
  "overall_compression_ratio s =
     ratio_or_one (total_bytes_on_wire_upload s + total_bytes_on_wire_download s)
       (total_bytes_uploaded s + total_bytes_downloaded s)"

section \<open>Batches\<close>

record upload_entry =
  ue_local_path :: path
  ue_remote_name :: string

record download_entry =
  de_remote_name :: string
  de_local_path :: path

record batch_progress =
  bp_total_files :: u64
  bp_completed_files :: u64
  bp_failed_files :: u64
  bp_in_progress_files :: u64
  bp_total_bytes :: u64
  bp_transferred_bytes :: u64
  bp_overall_rate :: rat

definition no_batch_progress :: batch_progress where
  "no_batch_progress =
     \<lparr>bp_total_files = 0, bp_completed_files = 0, bp_failed_files = 0, bp_in_progress_files = 0,
      bp_total_bytes = 0, bp_transferred_bytes = 0, bp_overall_rate = 0\<rparr>"

definition bp_completion_percentage :: "batch_progress \<Rightarrow> rat" where
  "bp_completion_percentage p = percentage (bp_transferred_bytes p) (bp_total_bytes p)"

definition pending_files :: "batch_progress \<Rightarrow> u64" where
  "pending_files p = bp_total_files p - bp_completed_files p - bp_failed_files p - bp_in_progress_files p"

record batch_file_result =
  fr_filename :: string
  fr_success :: bool
  fr_bytes_transferred :: u64
  fr_elapsed :: int
  fr_has_error :: bool

text \<open>Whether an error message is present is all the model keeps of it.\<close>

definition no_file_result :: batch_file_result where
  "no_file_result = \<lparr>fr_filename = [], fr_success = False, fr_bytes_transferred = 0, fr_elapsed = 0, fr_has_error = False\<rparr>"

record batch_result =
  br_total_files :: u64
  br_succeeded :: u64
  br_failed :: u64
  br_total_bytes :: u64
  br_elapsed :: int
  br_file_results :: "batch_file_result list"

definition all_succeeded :: "batch_result \<Rightarrow> bool" where
  "all_succeeded r \<longleftrightarrow> br_failed r = 0 \<and> br_succeeded r = br_total_files r"

record batch_options =
  max_concurrent :: nat
  continue_on_error :: bool
  bo_overwrite :: bool
  bo_compression :: "compression_mode option"

definition default_batch_options :: batch_options where
  "default_batch_options = \<lparr>max_concurrent = 4, continue_on_error = True, bo_overwrite = False, bo_compression = None\<rparr>"

record compression_statistics =
  total_compressed_bytes :: u64
  total_uncompressed_bytes :: u64

definition cs_compression_ratio :: "compression_statistics \<Rightarrow> rat" where
  "cs_compression_ratio s = ratio_or_one (total_compressed_bytes s) (total_uncompressed_bytes s)"

section \<open>The state machine of a transfer\<close>

datatype internal_transfer_state =
  Idle | Initializing | Transferring | Paused_state | Verifying | Completing_state | Completed_state | Failed_state |
  Cancelled_state

fun to_transfer_status :: "internal_transfer_state \<Rightarrow> transfer_status" where
  "to_transfer_status Idle = Pending"
| "to_transfer_status Initializing = Pending"
| "to_transfer_status Transferring = In_progress"
| "to_transfer_status Paused_state = Paused"
| "to_transfer_status Verifying = Completing"
| "to_transfer_status Completing_state = Completing"
| "to_transfer_status Completed_state = Completed"
| "to_transfer_status Failed_state = Failed"
| "to_transfer_status Cancelled_state = Cancelled"

definition is_valid_transition :: "internal_transfer_state \<Rightarrow> internal_transfer_state \<Rightarrow> bool" where
  "is_valid_transition from_state to_state =
     (if from_state = Completed_state \<or> from_state = Failed_state \<or> from_state = Cancelled_state then False
      else if to_state = Cancelled_state then True
      else case from_state of
             Idle \<Rightarrow> to_state = Initializing
           | Initializing \<Rightarrow> to_state = Transferring \<or> to_state = Failed_state
           | Transferring \<Rightarrow>
               to_state = Paused_state \<or> to_state = Verifying \<or> to_state = Completing_state \<or> to_state = Failed_state
           | Paused_state \<Rightarrow> to_state = Transferring \<or> to_state = Failed_state
           | Verifying \<Rightarrow> to_state = Completing_state \<or> to_state = Failed_state
           | Completing_state \<Rightarrow> to_state = Completed_state \<or> to_state = Failed_state
           | _ \<Rightarrow> False)"

definition terminal :: "internal_transfer_state \<Rightarrow> bool" where
  "terminal s \<longleftrightarrow> is_terminal_status (to_transfer_status s)"

lemma terminal_simps [simp]:
  "terminal Completed_state" "terminal Failed_state" "terminal Cancelled_state" "\<not> terminal Idle"
  "\<not> terminal Initializing" "\<not> terminal Transferring" "\<not> terminal Paused_state" "\<not> terminal Verifying"
  "\<not> terminal Completing_state"
  by (simp_all add: terminal_def is_terminal_status_def)

lemma terminal_is_final: "terminal s \<Longrightarrow> \<not> is_valid_transition s t"
  by (cases s) (simp_all add: is_valid_transition_def)

text \<open>From every state that is not terminal the transfer can be cancelled, and no transition skips the
  verification of a transfer that was not started.\<close>

lemma cancel_transition: "is_valid_transition s Cancelled_state \<longleftrightarrow> \<not> terminal s"
  by (cases s) (simp_all add: is_valid_transition_def)

end
