(* ===== verification/File_Transfer_Client.thy ===== *)
theory File_Transfer_Client
  imports Client_Types Checksum Transfer_Id
begin

text \<open>
  client/file_transfer_client.h and client/file_transfer_client.cpp, without the batches: the
  connection, the contexts of uploads and downloads, the chunks of a download and the control of
  transfers. Each operation is a step on the client and the file system; callbacks are a trace of
  events. The network library is a parameter: whether \<open>start_client\<close> and \<open>stop_client\<close>
  succeed. Chunks arrive by calls of \<open>process_download_chunk\<close>, as in the code, whose upload
  and request messages are not implemented. A call that blocks for ever is \<open>None\<close>.
\<close>

section \<open>State\<close>

record transfer_context =
  tc_id :: transfer_id
  tc_state :: internal_transfer_state
  tc_file_size :: u64
  tc_total_chunks :: u64
  transferred_chunks :: u64
  tc_transferred_bytes :: u64
  tc_start_time :: int
  tc_error_message :: string

record upload_context = transfer_context +
  uc_local_path :: path
  uc_remote_name :: string
  uc_options :: upload_options
  uc_chunk_size :: u32
  uc_file_hash :: string

record download_context = transfer_context +
  dc_remote_name :: string
  dc_local_path :: path
  dc_temp_path :: path
  dc_options :: download_options
  dc_chunk_size :: u32
  expected_sha256 :: string
  dc_cancelled :: bool

datatype batch_direction = Batch_upload | Batch_download

record batch_context =
  bc_direction :: batch_direction
  bc_options :: batch_options
  bc_start_time :: int
  transfer_ids :: "u64 list"
  filenames :: "string list"
  completed_count :: u64
  failed_count :: u64
  in_progress_count :: u64
  bc_total_bytes :: u64
  bc_transferred_bytes :: u64
  bc_cancelled :: bool
  bc_paused :: bool
  file_results :: "batch_file_result list"

datatype client_event =
    State_event connection_state
  | Progress_event string u64 u64 rat
  | Complete_event string bool u64

record client =
  fc_config :: client_config
  fc_state :: connection_state
  server_endpoint :: "string \<times> u16"
  fc_statistics :: client_statistics
  compression_stats :: compression_statistics
  next_transfer_id :: u64
  upload_contexts :: "(u64 \<times> upload_context) list"
  download_contexts :: "(u64 \<times> download_context) list"
  next_batch_id :: u64
  batch_contexts :: "(u64 \<times> batch_context) list"
  upload_limiter :: "limiter option"
  download_limiter :: "limiter option"
  has_progress_callback :: bool
  has_complete_callback :: bool
  has_state_callback :: bool
  fc_events :: "client_event list"

text \<open>What the environment decides: failing file operations, the decompressor of the LZ4 library
  (\<open>None\<close> for a negative answer), and for a limited transfer the clock and the wake-ups of the limiter,
  of which \<open>ce_rounds\<close> are observed.\<close>

record client_env =
  ce_io :: io_env
  create_dir_fails :: "path \<Rightarrow> bool"
  lz4_decompress_safe :: "bytes \<Rightarrow> nat \<Rightarrow> bytes option"
  ce_rounds :: nat
  ce_clk :: "nat \<Rightarrow> int"
  ce_wakes :: "nat \<Rightarrow> int list"

type_synonym client_world = "client \<times> filesystem"

definition elapsed_ms :: "int \<Rightarrow> 'a transfer_context_scheme \<Rightarrow> int" where
  "elapsed_ms now ctx = trunc_div (now - tc_start_time ctx) 1000000"

definition get_progress_info :: "int \<Rightarrow> 'a transfer_context_scheme \<Rightarrow> transfer_progress_info" where
  "get_progress_info now ctx =
     \<lparr>pi_bytes_transferred = tc_transferred_bytes ctx, pi_total_bytes = tc_file_size ctx,
      pi_chunks_transferred = transferred_chunks ctx, pi_total_chunks = tc_total_chunks ctx,
      pi_transfer_rate =
        (if elapsed_ms now ctx > 0
         then of_nat (unat (tc_transferred_bytes ctx)) / (of_int (elapsed_ms now ctx) / 1000) else 0),
      pi_elapsed = elapsed_ms now ctx\<rparr>"

definition get_result_info :: "int \<Rightarrow> 'a transfer_context_scheme \<Rightarrow> transfer_result_info" where
  "get_result_info now ctx =
     \<lparr>ri_success = (tc_state ctx = Completed_state), ri_bytes_transferred = tc_transferred_bytes ctx,
      ri_elapsed = elapsed_ms now ctx,
      ri_error_message = (if tc_error_message ctx \<noteq> [] then Some (tc_error_message ctx) else None)\<rparr>"

definition new_client :: "client_config \<Rightarrow> int \<Rightarrow> client" where
  "new_client cfg now =
     \<lparr>fc_config = cfg, fc_state = Disconnected, server_endpoint = ([], 0), fc_statistics = no_client_statistics,
      compression_stats = \<lparr>total_compressed_bytes = 0, total_uncompressed_bytes = 0\<rparr>, next_transfer_id = 1,
      upload_contexts = [], download_contexts = [], next_batch_id = 1, batch_contexts = [],
      upload_limiter = map_option (\<lambda>n. new_limiter n now) (upload_bandwidth_limit cfg),
      download_limiter = map_option (\<lambda>n. new_limiter n now) (download_bandwidth_limit cfg),
      has_progress_callback = False, has_complete_callback = False, has_state_callback = False, fc_events = []\<rparr>"

definition build_client :: "client_config \<Rightarrow> int \<Rightarrow> client result" where
  "build_client cfg now =
     (if cl_chunk_size cfg < 64 * 1024 \<or> cl_chunk_size cfg > 1024 * 1024 then Inl Invalid_chunk_size
      else Inr (new_client cfg now))"

definition client_emit :: "client_event \<Rightarrow> client \<Rightarrow> client" where
  "client_emit e c = c\<lparr>fc_events := fc_events c @ [e]\<rparr>"

definition put_upload :: "u64 \<Rightarrow> upload_context \<Rightarrow> client \<Rightarrow> client" where
  "put_upload h ctx c = c\<lparr>upload_contexts := al_update h ctx (upload_contexts c)\<rparr>"

definition put_download :: "u64 \<Rightarrow> download_context \<Rightarrow> client \<Rightarrow> client" where
  "put_download h ctx c = c\<lparr>download_contexts := al_update h ctx (download_contexts c)\<rparr>"

section \<open>The connection\<close>

definition set_client_state :: "connection_state \<Rightarrow> client \<Rightarrow> client" where
  "set_client_state s c =
     (let old_state = fc_state c; c = c\<lparr>fc_state := s\<rparr>
      in if old_state \<noteq> s \<and> has_state_callback c then client_emit (State_event s) c else c)"

definition client_connect :: "bool \<Rightarrow> string \<times> u16 \<Rightarrow> client \<Rightarrow> client \<times> unit result" where
  "client_connect started addr c =
     (if fc_state c = Connected \<or> fc_state c = Connecting then (c, Inl Already_initialized)
      else let c = (set_client_state Connecting c)\<lparr>server_endpoint := addr\<rparr>
           in if \<not> started then (set_client_state Disconnected c, Inl Internal_error)
              else (set_client_state Connected c, Inr ()))"

definition client_disconnect :: "bool \<Rightarrow> client \<Rightarrow> client \<times> unit result" where
  "client_disconnect stopped c =
     (if fc_state c \<noteq> Connected then (c, Inl Not_initialized)
      else if \<not> stopped then (c, Inl Internal_error)
      else (set_client_state Disconnected c, Inr ()))"

definition client_is_connected :: "client \<Rightarrow> bool" where
  "client_is_connected c \<longleftrightarrow> fc_state c = Connected"

section \<open>Starting transfers\<close>

definition upload_file ::
  "client_env \<Rightarrow> u64 \<times> u64 \<Rightarrow> int \<Rightarrow> path \<Rightarrow> string \<Rightarrow> upload_options \<Rightarrow> client_world \<Rightarrow> client_world \<times> u64 result" where
  "upload_file env rnd now local_path remote_name options = (\<lambda>(c, fs).
     if \<not> client_is_connected c then ((c, fs), Inl Not_initialized)
     else case fs local_path of
       None \<Rightarrow> ((c, fs), Inl File_not_found)
     | Some content \<Rightarrow>
         if stat_fails (ce_io env) local_path then ((c, fs), Inl File_read_error)
         else
           let handle_id = next_transfer_id c;
               c = c\<lparr>next_transfer_id := next_transfer_id c + 1\<rparr>;
               chunk_size = ucast (cl_chunk_size (fc_config c)) :: u32;
               file_size = word_of_nat (length content) :: u64;
               ctx = \<lparr>tc_id = generate (fst rnd) (snd rnd), tc_state = Initializing, tc_file_size = file_size,
                      tc_total_chunks = (file_size + ucast chunk_size - 1) div ucast chunk_size,
                      transferred_chunks = 0, tc_transferred_bytes = 0, tc_start_time = now, tc_error_message = [],
                      uc_local_path = local_path, uc_remote_name = remote_name, uc_options = options,
                      uc_chunk_size = chunk_size, uc_file_hash = []\<rparr>;
               c = put_upload handle_id ctx c;
               c = c\<lparr>fc_statistics := (fc_statistics c)
                       \<lparr>total_files_uploaded := total_files_uploaded (fc_statistics c) + 1\<rparr>\<rparr>;
               c = put_upload handle_id (ctx\<lparr>tc_state := Transferring\<rparr>) c
           in ((c, fs), Inr handle_id))"

text \<open>\<open>path::parent_path\<close>, empty for a name without a slash.\<close>

definition parent_path :: "path \<Rightarrow> path" where
  "parent_path p = rev (drop 1 (dropWhile (\<lambda>c. c \<noteq> CHR ''/'') (rev p)))"

definition download_file ::
  "client_env \<Rightarrow> u64 \<times> u64 \<Rightarrow> int \<Rightarrow> string \<Rightarrow> path \<Rightarrow> download_options \<Rightarrow> client_world \<Rightarrow> client_world \<times> u64 result" where
  "download_file env rnd now remote_name local_path options = (\<lambda>(c, fs).
     if \<not> client_is_connected c then ((c, fs), Inl Not_initialized)
     else if remote_name = [] then ((c, fs), Inl Invalid_file_path)
     else if local_path = [] then ((c, fs), Inl Invalid_file_path)
     else if \<not> do_overwrite options \<and> fs_exists fs local_path then ((c, fs), Inl File_already_exists)
     else if parent_path local_path \<noteq> [] \<and> create_dir_fails env (parent_path local_path)
     then ((c, fs), Inl File_access_denied)
     else
       let handle_id = next_transfer_id c;
           c = c\<lparr>next_transfer_id := next_transfer_id c + 1\<rparr>;
           ctx = \<lparr>tc_id = generate (fst rnd) (snd rnd), tc_state = Initializing, tc_file_size = 0,
                  tc_total_chunks = 0, transferred_chunks = 0, tc_transferred_bytes = 0, tc_start_time = now,
                  tc_error_message = [], dc_remote_name = remote_name, dc_local_path = local_path,
                  dc_temp_path = local_path @ ''.tmp'', dc_options = options, dc_chunk_size = 0,
                  expected_sha256 = [], dc_cancelled = False\<rparr>;
           c = put_download handle_id ctx c;
           c = c\<lparr>fc_statistics := (fc_statistics c)
                   \<lparr>total_files_downloaded := total_files_downloaded (fc_statistics c) + 1\<rparr>\<rparr>
       in ((c, fs), Inr handle_id))"

definition set_download_metadata ::
  "client_env \<Rightarrow> u64 \<Rightarrow> u64 \<Rightarrow> u64 \<Rightarrow> u32 \<Rightarrow> string \<Rightarrow> client_world \<Rightarrow> client_world \<times> unit result" where
  "set_download_metadata env h file_size chunk_total csize sha256_hash = (\<lambda>(c, fs).
     case al_find (download_contexts c) h of
       None \<Rightarrow> ((c, fs), Inl Not_initialized)
     | Some ctx \<Rightarrow>
         let tmp = dc_temp_path ctx;
             ctx = ctx\<lparr>tc_file_size := file_size, tc_total_chunks := chunk_total, dc_chunk_size := csize,
                       expected_sha256 := sha256_hash, tc_state := Transferring\<rparr>;
             fs = (if open_write_fails (ce_io env) tmp then fs
                   else if file_size > 0 \<and> seek_ok (file_size - 1) \<and> \<not> write_fails (ce_io env) tmp
                   then fs(tmp \<mapsto> replicate (unat file_size) 0)
                   else fs(tmp \<mapsto> []))
         in ((put_download h ctx c, fs), Inr ()))"

section \<open>Receiving a file\<close>

definition decompress_lz4 :: "client_env \<Rightarrow> bytes \<Rightarrow> u32 \<Rightarrow> bytes result" where
  "decompress_lz4 env input n =
     (if input = [] then Inr []
      else case lz4_decompress_safe env input (unat n) of
             None \<Rightarrow> Inl Internal_error
           | Some out \<Rightarrow> if length out \<noteq> unat n then Inl Internal_error else Inr out)"

text \<open>The body of \<open>finalize_download\<close>, with the mutex of the context held.\<close>

definition finalize_context ::
  "client_env \<Rightarrow> u64 \<Rightarrow> download_context \<Rightarrow> client_world \<Rightarrow> client_world \<times> unit result" where
  "finalize_context env h ctx = (\<lambda>(c, fs).
     let io = ce_io env; tmp = dc_temp_path ctx;
         complete = (\<lambda>ok c. if has_complete_callback c
                           then client_emit (Complete_event (dc_remote_name ctx) ok (tc_transferred_bytes ctx)) c else c)
     in if do_verify_hash (dc_options ctx) \<and> expected_sha256 ctx \<noteq> [] \<and>
           \<not> verify_sha256 (fs_read io fs tmp) (expected_sha256 ctx)
        then ((complete False (put_download h
                 (ctx\<lparr>tc_state := Failed_state, tc_error_message := ''SHA-256 hash mismatch''\<rparr>) c),
               fs_remove io tmp fs), Inl File_hash_mismatch)
        else
          let fs = (if do_overwrite (dc_options ctx) \<and> fs_exists fs (dc_local_path ctx)
                    then fs_remove io (dc_local_path ctx) fs else fs)
          in case fs_rename io tmp (dc_local_path ctx) fs of
               None \<Rightarrow>
                 ((complete False (put_download h
                     (ctx\<lparr>tc_state := Failed_state, tc_error_message := ''Cannot move file''\<rparr>) c), fs),
                  Inl File_write_error)
             | Some fs' \<Rightarrow>
                 let c = put_download h (ctx\<lparr>tc_state := Completed_state\<rparr>) c;
                     c = c\<lparr>fc_statistics := (fc_statistics c)
                             \<lparr>total_bytes_downloaded := total_bytes_downloaded (fc_statistics c) + tc_transferred_bytes ctx\<rparr>\<rparr>
                 in ((complete True c, fs'), Inr ()))"

text \<open>The mutex of the context is not recursive: a thread that holds it (\<open>held\<close>) waits for itself.\<close>

definition finalize_download ::
  "client_env \<Rightarrow> bool \<Rightarrow> u64 \<Rightarrow> client_world \<Rightarrow> (client_world \<times> unit result) option" where
  "finalize_download env held h = (\<lambda>(c, fs).
     case al_find (download_contexts c) h of
       None \<Rightarrow> Some ((c, fs), Inl Not_initialized)
     | Some ctx \<Rightarrow> if held then None else Some (finalize_context env h ctx (c, fs)))"

text \<open>\<open>download_limiter->acquire(received_chunk.data.size())\<close>.\<close>

definition throttle_download :: "client_env \<Rightarrow> u64 \<Rightarrow> client \<Rightarrow> client option" where
  "throttle_download env n c =
     (case download_limiter c of
        None \<Rightarrow> Some c
      | Some l \<Rightarrow>
          map_option (\<lambda>l'. c\<lparr>download_limiter := Some l'\<rparr>) (acquire (ce_rounds env) n (ce_clk env) (ce_wakes env) l))"

definition write_chunk_file :: "io_env \<Rightarrow> path \<Rightarrow> u64 \<Rightarrow> bytes \<Rightarrow> filesystem \<Rightarrow> filesystem \<times> unit result" where
  "write_chunk_file io tmp off bs fs =
     (if open_write_fails io tmp then (fs, Inl File_write_error)
      else
        let content = (case fs tmp of Some x \<Rightarrow> x | None \<Rightarrow> []); fs = fs(tmp \<mapsto> content)
        in if \<not> seek_ok off then (fs, Inl File_write_error)
           else if write_fails io tmp then (fs, Inl File_write_error)
           else (if bs = [] then fs else fs(tmp \<mapsto> write_at (unat off) bs content), Inr ()))"

definition process_download_chunk ::
  "client_env \<Rightarrow> u64 \<Rightarrow> chunk \<Rightarrow> client_world \<Rightarrow> (client_world \<times> unit result) option" where
  "process_download_chunk env h ch = (\<lambda>(c, fs).
     case throttle_download env (word_of_nat (length (data ch))) c of
       None \<Rightarrow> None
     | Some c \<Rightarrow>
         (case al_find (download_contexts c) h of
            None \<Rightarrow> Some ((c, fs), Inl Not_initialized)
          | Some ctx \<Rightarrow>
              if dc_cancelled ctx then Some ((c, fs), Inl Internal_error)
              else if \<not> verify_crc32 (data ch) (checksum (header ch)) then Some ((c, fs), Inl Chunk_checksum_error)
              else case (if chunk_is_compressed ch then decompress_lz4 env (data ch) (original_size (header ch))
                         else Inr (data ch)) of
                Inl _ \<Rightarrow> Some ((c, fs), Inl Internal_error)
              | Inr write_data \<Rightarrow>
                  (case write_chunk_file (ce_io env) (dc_temp_path ctx) (chunk_offset (header ch)) write_data fs of
                     (fs, Inl e) \<Rightarrow> Some ((c, fs), Inl e)
                   | (fs, Inr _) \<Rightarrow>
                       let ctx = ctx\<lparr>transferred_chunks := transferred_chunks ctx + 1,
                                     tc_transferred_bytes := tc_transferred_bytes ctx + word_of_nat (length write_data),
                                     tc_state := Transferring\<rparr>;
                           c = put_download h ctx c;
                           c = (if has_progress_callback c
                                then client_emit (Progress_event (dc_remote_name ctx) (tc_transferred_bytes ctx)
                                       (tc_file_size ctx) (percentage (tc_transferred_bytes ctx) (tc_file_size ctx))) c
                                else c)
                       in if transferred_chunks ctx \<ge> tc_total_chunks ctx then finalize_download env True h (c, fs)
                          else Some ((c, fs), Inr ()))))"

definition cancel_download :: "client_env \<Rightarrow> u64 \<Rightarrow> client_world \<Rightarrow> client_world \<times> unit result" where
  "cancel_download env h = (\<lambda>(c, fs).
     case al_find (download_contexts c) h of
       None \<Rightarrow> ((c, fs), Inl Not_initialized)
     | Some ctx \<Rightarrow>
         ((put_download h (ctx\<lparr>dc_cancelled := True, tc_state := Cancelled_state\<rparr>) c,
           fs_remove (ce_io env) (dc_temp_path ctx) fs), Inr ()))"

section \<open>Control of transfers\<close>

definition get_transfer_status :: "u64 \<Rightarrow> client \<Rightarrow> transfer_status" where
  "get_transfer_status h c =
     (case al_find (upload_contexts c) h of
        Some ctx \<Rightarrow> to_transfer_status (tc_state ctx)
      | None \<Rightarrow>
          (case al_find (download_contexts c) h of
             Some ctx \<Rightarrow> to_transfer_status (tc_state ctx)
           | None \<Rightarrow> Failed))"

definition get_transfer_progress :: "int \<Rightarrow> u64 \<Rightarrow> client \<Rightarrow> transfer_progress_info" where
  "get_transfer_progress now h c =
     (case al_find (upload_contexts c) h of
        Some ctx \<Rightarrow> get_progress_info now ctx
      | None \<Rightarrow>
          (case al_find (download_contexts c) h of
             Some ctx \<Rightarrow> get_progress_info now ctx
           | None \<Rightarrow> no_progress_info))"

text \<open>\<open>pause_transfer\<close> and \<open>resume_transfer\<close> differ in the state they go to only.\<close>

definition change_transfer_state :: "internal_transfer_state \<Rightarrow> u64 \<Rightarrow> client \<Rightarrow> client \<times> unit result" where
  "change_transfer_state target h c =
     (case al_find (upload_contexts c) h of
        Some ctx \<Rightarrow>
          if \<not> is_valid_transition (tc_state ctx) target then (c, Inl Invalid_state_transition)
          else (put_upload h (ctx\<lparr>tc_state := target\<rparr>) c, Inr ())
      | None \<Rightarrow>
          (case al_find (download_contexts c) h of
             Some ctx \<Rightarrow>
               if \<not> is_valid_transition (tc_state ctx) target then (c, Inl Invalid_state_transition)
               else (put_download h (ctx\<lparr>tc_state := target\<rparr>) c, Inr ())
           | None \<Rightarrow> (c, Inl Transfer_not_found)))"

definition pause_transfer :: "u64 \<Rightarrow> client \<Rightarrow> client \<times> unit result" where
  "pause_transfer = change_transfer_state Paused_state"

definition resume_transfer :: "u64 \<Rightarrow> client \<Rightarrow> client \<times> unit result" where
  "resume_transfer = change_transfer_state Transferring"

text \<open>For a download the code releases its lock by hand before it calls \<open>cancel_download\<close> (and the guard
  releases it again at the end of its scope, which is undefined behaviour of the mutex).\<close>

definition cancel_transfer :: "client_env \<Rightarrow> u64 \<Rightarrow> client_world \<Rightarrow> client_world \<times> unit result" where
  "cancel_transfer env h = (\<lambda>(c, fs).
     case al_find (upload_contexts c) h of
       Some ctx \<Rightarrow>
         if \<not> is_valid_transition (tc_state ctx) Cancelled_state then ((c, fs), Inl Transfer_already_completed)
         else ((put_upload h (ctx\<lparr>tc_state := Cancelled_state\<rparr>) c, fs), Inr ())
     | None \<Rightarrow>
         if al_find (download_contexts c) h \<noteq> None then cancel_download env h (c, fs)
         else ((c, fs), Inl Transfer_not_found))"

text \<open>What the waiting thread sees at its k-th look: the context and the clock. The code compares the
  deadline with the clock whenever it was woken up and the transfer is not over.\<close>

fun wait_loop ::
  "nat \<Rightarrow> int option \<Rightarrow> (nat \<Rightarrow> 'a transfer_context_scheme \<times> int) \<Rightarrow> nat \<Rightarrow> transfer_result_info result option" where
  "wait_loop 0 deadline obs k = None"
| "wait_loop (Suc fuel) deadline obs k =
     (case obs k of
        (ctx, now) \<Rightarrow>
          if is_terminal_status (to_transfer_status (tc_state ctx)) then Some (Inr (get_result_info now ctx))
          else case deadline of
                 None \<Rightarrow> wait_loop fuel deadline obs (Suc k)
               | Some d \<Rightarrow> if d - now \<le> 0 then Some (Inl Transfer_timeout) else wait_loop fuel deadline obs (Suc k))"

text \<open>The context that a thread which found \<open>ctx\<close> sees later: contexts are never removed.\<close>

definition later :: "'a \<Rightarrow> ('a \<Rightarrow> client \<Rightarrow> 'a) \<Rightarrow> (nat \<Rightarrow> client \<times> int) \<Rightarrow> nat \<Rightarrow> 'a \<times> int" where
  "later ctx look obs k = (case obs k of (c, now) \<Rightarrow> (look ctx c, now))"

definition upload_in :: "u64 \<Rightarrow> upload_context \<Rightarrow> client \<Rightarrow> upload_context" where
  "upload_in h ctx c = (case al_find (upload_contexts c) h of Some x \<Rightarrow> x | None \<Rightarrow> ctx)"

definition download_in :: "u64 \<Rightarrow> download_context \<Rightarrow> client \<Rightarrow> download_context" where
  "download_in h ctx c = (case al_find (download_contexts c) h of Some x \<Rightarrow> x | None \<Rightarrow> ctx)"

definition wait_for_transfer ::
  "nat \<Rightarrow> int option \<Rightarrow> u64 \<Rightarrow> (nat \<Rightarrow> client \<times> int) \<Rightarrow> transfer_result_info result option" where
  "wait_for_transfer fuel timeout h obs =
     (case obs 0 of
        (c, now) \<Rightarrow>
          let deadline = map_option (\<lambda>t. now + t * 1000000) timeout
          in case al_find (upload_contexts c) h of
               Some ctx \<Rightarrow> wait_loop fuel deadline (later ctx (upload_in h) obs) 0
             | None \<Rightarrow>
                 (case al_find (download_contexts c) h of
                    Some ctx \<Rightarrow> wait_loop fuel deadline (later ctx (download_in h) obs) 0
                  | None \<Rightarrow> Some (Inl Transfer_not_found)))"

section \<open>Queries and callbacks\<close>

definition list_files :: "client \<Rightarrow> string list result" where
  "list_files c = (if \<not> client_is_connected c then Inl Not_initialized else Inr [])"

definition active_count :: "('k \<times> 'a transfer_context_scheme) list \<Rightarrow> nat" where
  "active_count m = length (filter (\<lambda>(_, ctx). \<not> is_terminal_status (to_transfer_status (tc_state ctx))) m)"

definition get_client_statistics :: "client \<Rightarrow> client_statistics" where
  "get_client_statistics c =
     (fc_statistics c)\<lparr>active_transfers := active_count (upload_contexts c) + active_count (download_contexts c)\<rparr>"

definition on_progress :: "bool \<Rightarrow> client \<Rightarrow> client" where
  "on_progress cb c = c\<lparr>has_progress_callback := cb\<rparr>"

definition on_complete :: "bool \<Rightarrow> client \<Rightarrow> client" where
  "on_complete cb c = c\<lparr>has_complete_callback := cb\<rparr>"

definition on_connection_state_changed :: "bool \<Rightarrow> client \<Rightarrow> client" where
  "on_connection_state_changed cb c = c\<lparr>has_state_callback := cb\<rparr>"

text \<open>\<open>transfer_handle\<close>: an identifier and whether it points to a client.\<close>

record transfer_handle =
  th_id :: u64
  th_attached :: bool

definition handle_is_valid :: "transfer_handle \<Rightarrow> bool" where
  "handle_is_valid t \<longleftrightarrow> th_id t \<noteq> 0 \<and> th_attached t"

definition handle_status :: "transfer_handle \<Rightarrow> client \<Rightarrow> transfer_status" where
  "handle_status t c = (if \<not> handle_is_valid t then Failed else get_transfer_status (th_id t) c)"

definition handle_progress :: "int \<Rightarrow> transfer_handle \<Rightarrow> client \<Rightarrow> transfer_progress_info" where
  "handle_progress now t c = (if \<not> handle_is_valid t then no_progress_info else get_transfer_progress now (th_id t) c)"

definition handle_pause :: "transfer_handle \<Rightarrow> client \<Rightarrow> client \<times> unit result" where
  "handle_pause t c = (if \<not> handle_is_valid t then (c, Inl Not_initialized) else pause_transfer (th_id t) c)"

definition handle_resume :: "transfer_handle \<Rightarrow> client \<Rightarrow> client \<times> unit result" where
  "handle_resume t c = (if \<not> handle_is_valid t then (c, Inl Not_initialized) else resume_transfer (th_id t) c)"

definition handle_cancel :: "client_env \<Rightarrow> transfer_handle \<Rightarrow> client_world \<Rightarrow> client_world \<times> unit result" where
  "handle_cancel env t s = (if \<not> handle_is_valid t then (s, Inl Not_initialized) else cancel_transfer env (th_id t) s)"

definition handle_wait ::
  "nat \<Rightarrow> int option \<Rightarrow> transfer_handle \<Rightarrow> (nat \<Rightarrow> client \<times> int) \<Rightarrow> transfer_result_info result option" where
  "handle_wait fuel timeout t obs =
     (if \<not> handle_is_valid t then Some (Inl Not_initialized) else wait_for_transfer fuel timeout (th_id t) obs)"

section \<open>Histories\<close>

datatype client_call =
    Connect bool "string \<times> u16" | Disconnect bool
  | Upload "u64 \<times> u64" int path string upload_options
  | Download "u64 \<times> u64" int string path download_options
  | Metadata u64 u64 u64 u32 string | Receive_chunk u64 chunk | Finalize u64
  | Pause u64 | Resume u64 | Cancel u64 | Set_callbacks bool bool bool

text \<open>\<open>None\<close> when the calling thread is blocked for ever.\<close>

definition client_step :: "client_env \<Rightarrow> client_call \<Rightarrow> client_world \<Rightarrow> client_world option" where
  "client_step env x = (\<lambda>(c, fs).
     case x of
       Connect ok addr \<Rightarrow> Some (fst (client_connect ok addr c), fs)
     | Disconnect ok \<Rightarrow> Some (fst (client_disconnect ok c), fs)
     | Upload rnd now p name opts \<Rightarrow> Some (fst (upload_file env rnd now p name opts (c, fs)))
     | Download rnd now name p opts \<Rightarrow> Some (fst (download_file env rnd now name p opts (c, fs)))
     | Metadata h n k cs sha \<Rightarrow> Some (fst (set_download_metadata env h n k cs sha (c, fs)))
     | Receive_chunk h ch \<Rightarrow> map_option fst (process_download_chunk env h ch (c, fs))
     | Finalize h \<Rightarrow> map_option fst (finalize_download env False h (c, fs))
     | Pause h \<Rightarrow> Some (fst (pause_transfer h c), fs)
     | Resume h \<Rightarrow> Some (fst (resume_transfer h c), fs)
     | Cancel h \<Rightarrow> Some (fst (cancel_transfer env h (c, fs)))
     | Set_callbacks p q r \<Rightarrow> Some (on_progress p (on_complete q (on_connection_state_changed r c)), fs))"

text \<open>The states that calls lead to; \<open>direct\<close> allows the application to call \<open>finalize_download\<close> itself. The
  file system may change between calls.\<close>

inductive client_reachable :: "bool \<Rightarrow> client \<Rightarrow> bool" for direct where
  initial: "client_reachable direct (new_client cfg now)"
| step: "client_reachable direct c \<Longrightarrow> direct \<or> (\<forall>h. x \<noteq> Finalize h) \<Longrightarrow> client_step env x (c, fs) = Some (c', fs') \<Longrightarrow>
    client_reachable direct c'"

section \<open>What the operations leave alone\<close>

lemma put_frame [simp]:
  "upload_contexts (put_download h ctx c) = upload_contexts c"
  "download_contexts (put_upload h u c) = download_contexts c"
  "upload_contexts (put_upload h u c) = al_update h u (upload_contexts c)"
  "download_contexts (put_download h ctx c) = al_update h ctx (download_contexts c)"
  by (simp_all add: put_upload_def put_download_def)

lemma emit_frame [simp]:
  "upload_contexts (client_emit e c) = upload_contexts c" "download_contexts (client_emit e c) = download_contexts c"
  by (simp_all add: client_emit_def)

lemma set_client_state_frame [simp]:
  "upload_contexts (set_client_state s c) = upload_contexts c" "download_contexts (set_client_state s c) = download_contexts c"
  by (simp_all add: set_client_state_def Let_def)

lemma connection_frame [simp]:
  "upload_contexts (fst (client_connect ok addr c)) = upload_contexts c"
  "download_contexts (fst (client_connect ok addr c)) = download_contexts c"
  "upload_contexts (fst (client_disconnect ok c)) = upload_contexts c"
  "download_contexts (fst (client_disconnect ok c)) = download_contexts c"
  by (simp_all add: client_connect_def client_disconnect_def Let_def)

lemma callbacks_frame [simp]:
  "upload_contexts (on_progress p c) = upload_contexts c" "download_contexts (on_progress p c) = download_contexts c"
  "upload_contexts (on_complete p c) = upload_contexts c" "download_contexts (on_complete p c) = download_contexts c"
  "upload_contexts (on_connection_state_changed p c) = upload_contexts c"
  "download_contexts (on_connection_state_changed p c) = download_contexts c"
  by (simp_all add: on_progress_def on_complete_def on_connection_state_changed_def)

lemma throttle_frame:
  "throttle_download env n c = Some c' \<Longrightarrow> upload_contexts c' = upload_contexts c \<and> download_contexts c' = download_contexts c"
  by (auto simp: throttle_download_def split: option.splits)

text \<open>\<open>finalize_download\<close> and \<open>cancel_download\<close> change one entry.\<close>

lemma finalize_context_frame:
  "finalize_context env h ctx (c, fs) = ((c', fs'), r) \<Longrightarrow>
     upload_contexts c' = upload_contexts c \<and>
     (\<exists>ctx'. download_contexts c' = al_update h ctx' (download_contexts c) \<and>
             tc_state ctx' = (if r = Inr () then Completed_state else Failed_state))"
  by (force simp: finalize_context_def Let_def split: if_splits option.splits)

text \<open>What holds of every context of a client: \<open>U\<close> of uploads, \<open>D\<close> of downloads.\<close>

definition contexts_are ::
  "(upload_context \<Rightarrow> bool) \<Rightarrow> (download_context \<Rightarrow> bool) \<Rightarrow> client \<Rightarrow> bool" where
  "contexts_are U D c \<longleftrightarrow>
     (\<forall>(h, ctx) \<in> set (upload_contexts c). U ctx) \<and> (\<forall>(h, ctx) \<in> set (download_contexts c). D ctx)"

lemma contexts_are_find:
  assumes "contexts_are U D c"
  shows "al_find (upload_contexts c) h = Some ctx \<Longrightarrow> U ctx" "al_find (download_contexts c) h = Some ctx' \<Longrightarrow> D ctx'"
  using assms by (auto simp: contexts_are_def dest!: al_find_Some_in)

lemma contexts_are_cong:
  "upload_contexts c' = upload_contexts c \<Longrightarrow> download_contexts c' = download_contexts c \<Longrightarrow>
     contexts_are U D c' = contexts_are U D c"
  by (simp add: contexts_are_def)

lemma contexts_are_update:
  assumes "contexts_are U D c"
  shows "upload_contexts c' = al_update h ctx (upload_contexts c) \<Longrightarrow> download_contexts c' = download_contexts c \<Longrightarrow>
           U ctx \<Longrightarrow> contexts_are U D c'"
    and "download_contexts c' = al_update h ctx' (download_contexts c) \<Longrightarrow> upload_contexts c' = upload_contexts c \<Longrightarrow>
           D ctx' \<Longrightarrow> contexts_are U D c'"
  using assms by (fastforce simp: contexts_are_def dest!: set_al_update)+

definition upload_open :: "upload_context \<Rightarrow> bool" where
  "upload_open u \<longleftrightarrow> tc_state u \<in> {Transferring, Paused_state, Cancelled_state} \<and> tc_transferred_bytes u = 0"

definition download_open :: "bool \<Rightarrow> download_context \<Rightarrow> bool" where
  "download_open direct d \<longleftrightarrow> direct \<or> tc_state d \<noteq> Completed_state"

lemma transition_targets:
  "upload_open u \<Longrightarrow> is_valid_transition (tc_state u) t \<Longrightarrow> t \<in> {Transferring, Paused_state, Cancelled_state} \<Longrightarrow>
     upload_open (u\<lparr>tc_state := t\<rparr>)"
  by (auto simp: upload_open_def)

abbreviation "ok direct \<equiv> contexts_are upload_open (download_open direct)"

lemma ok_upload: "ok d c \<Longrightarrow> ok d (fst (fst (upload_file env rnd now p name opts (c, fs))))"
  by (auto simp: upload_file_def Let_def upload_open_def split: option.split
      intro: contexts_are_update(1) [where h = "next_transfer_id c"])

lemma ok_download: "ok d c \<Longrightarrow> ok d (fst (fst (download_file env rnd now name p opts (c, fs))))"
  by (auto simp: download_file_def Let_def download_open_def intro: contexts_are_update(2))

lemma ok_metadata: "ok d c \<Longrightarrow> ok d (fst (fst (set_download_metadata env h n k cs sha (c, fs))))"
  by (auto simp: set_download_metadata_def Let_def download_open_def split: option.split intro: contexts_are_update(2))

lemma ok_change:
  "ok d c \<Longrightarrow> t \<in> {Transferring, Paused_state} \<Longrightarrow> ok d (fst (change_transfer_state t h c))"
  by (auto simp: change_transfer_state_def download_open_def split: option.split
      intro: contexts_are_update intro!: transition_targets dest: contexts_are_find)

lemma ok_cancel: "ok d c \<Longrightarrow> ok d (fst (fst (cancel_transfer env h (c, fs))))"
  by (auto simp: cancel_transfer_def cancel_download_def download_open_def split: option.split
      intro: contexts_are_update intro!: transition_targets dest: contexts_are_find)

lemma ok_finalize:
  assumes "ok d c" and "finalize_download env held h (c, fs) = Some ((c', fs'), r)" and "d \<or> held"
  shows "ok d c'"
proof (cases "al_find (download_contexts c) h")
  case (Some ctx)
  with assms(2) have f: "finalize_context env h ctx (c, fs) = ((c', fs'), r)" and "\<not> held"
    by (auto simp: finalize_download_def split: if_splits)
  then have "d" using assms(3) by simp
  then show ?thesis
    using finalize_context_frame [OF f] assms(1) by (auto simp: download_open_def intro: contexts_are_update(2))
qed (use assms in \<open>simp add: finalize_download_def\<close>)

lemma ok_chunk:
  assumes "ok d c" and "process_download_chunk env h ch (c, fs) = Some ((c', fs'), r)"
  shows "ok d c'"
proof -
  obtain c1 where t: "throttle_download env (word_of_nat (length (data ch))) c = Some c1"
    using assms(2) by (auto simp: process_download_chunk_def split: option.splits)
  have ok1: "ok d c1" using throttle_frame [OF t] assms(1) contexts_are_cong by blast
  have upd: "ok d (put_download h (ctx\<lparr>transferred_chunks := n, tc_transferred_bytes := m, tc_state := Transferring\<rparr>) c1)"
    for ctx n m using ok1 by (auto simp: download_open_def intro: contexts_are_update(2))
  have emit: "ok d (client_emit e x) = ok d x" for e x by (simp add: contexts_are_def)
  have blocked: "ok d x \<Longrightarrow> finalize_download env True h (x, fs'') = Some ((c', fs'), r) \<Longrightarrow> ok d c'" for x fs''
    using ok_finalize [of d x env True h fs'' c' fs' r] by simp
  show ?thesis
    using assms(2) ok1 upd emit
    by (auto simp: process_download_chunk_def t Let_def split: option.splits if_splits sum.splits prod.splits
        dest!: blocked [rotated])
qed

lemma ok_step: "ok d c \<Longrightarrow> d \<or> (\<forall>h. x \<noteq> Finalize h) \<Longrightarrow> client_step env x (c, fs) = Some s' \<Longrightarrow> ok d (fst s')"
proof (cases x)
  case (Finalize h)
  then show "ok d c \<Longrightarrow> d \<or> (\<forall>h. x \<noteq> Finalize h) \<Longrightarrow> client_step env x (c, fs) = Some s' \<Longrightarrow> ok d (fst s')"
    using ok_finalize [of d c env False h fs] by (auto simp: client_step_def)
next
  case (Receive_chunk h ch)
  then show "ok d c \<Longrightarrow> d \<or> (\<forall>h. x \<noteq> Finalize h) \<Longrightarrow> client_step env x (c, fs) = Some s' \<Longrightarrow> ok d (fst s')"
    using ok_chunk [of d c env h ch fs] by (auto simp: client_step_def)
qed (auto simp: client_step_def pause_transfer_def resume_transfer_def
      intro: ok_upload ok_download ok_metadata ok_cancel ok_change elim: contexts_are_cong [THEN iffD2, rotated 2])

lemma ok_reachable: "client_reachable d c \<Longrightarrow> ok d c"
proof (induction rule: client_reachable.induct)
  case (step c x env fs c' fs')
  then show ?case using ok_step [of d c x env fs "(c', fs')"] by simp
qed (simp add: contexts_are_def new_client_def)

text \<open>A connected client, one with a cancelled upload, and one with a download of one chunk.\<close>

definition sample_env :: client_env where
  "sample_env =
     \<lparr>ce_io = reliable, create_dir_fails = (\<lambda>_. False), lz4_decompress_safe = (\<lambda>_ _. None), ce_rounds = 0,
      ce_clk = (\<lambda>_. 0), ce_wakes = (\<lambda>_. [])\<rparr>"

definition connected_client :: client where
  "connected_client = fst (client_connect True (''server'', 80) (new_client default_client_config 0))"

definition cancelled_client :: client where
  "cancelled_client =
     (let c = fst (fst (upload_file sample_env (1, 2) 0 ''f'' ''f'' default_upload_options (connected_client, [''f'' \<mapsto> [1]])))
      in fst (fst (cancel_transfer sample_env 1 (c, [''f'' \<mapsto> [1]]))))"

definition downloading_client :: client where
  "downloading_client =
     (let c = fst (fst (download_file sample_env (1, 2) 0 ''f'' ''g'' default_download_options (connected_client, Map.empty)))
      in fst (fst (set_download_metadata sample_env 1 3 1 262144 (sha256_reference [1, 2, 3]) (c, Map.empty))))"

lemma connected_client_simps:
  "fc_state connected_client = Connected" "upload_contexts connected_client = []" "download_contexts connected_client = []"
  "next_transfer_id connected_client = 1" "download_limiter connected_client = None"
  by (simp_all add: connected_client_def client_connect_def set_client_state_def new_client_def default_client_config_def)

lemma cancelled_client_reachable: "client_reachable direct cancelled_client"
proof -
  have "client_reachable direct connected_client"
    unfolding connected_client_def
    by (rule client_reachable.step [OF client_reachable.initial, where x = "Connect True (''server'', 80)" and env = sample_env
          and fs = Map.empty]) (simp_all add: client_step_def)
  then have "client_reachable direct (fst (fst (upload_file sample_env (1, 2) 0 ''f'' ''f'' default_upload_options
      (connected_client, [''f'' \<mapsto> [1]]))))"
    by (rule client_reachable.step [where x = "Upload (1, 2) 0 ''f'' ''f'' default_upload_options" and env = sample_env
          and fs = "[''f'' \<mapsto> [1]]"]) (simp_all add: client_step_def prod_eq_iff)
  then show ?thesis
    unfolding cancelled_client_def Let_def
    by (rule client_reachable.step [where x = "Cancel 1" and env = sample_env and fs = "[''f'' \<mapsto> [1]]"])
       (simp_all add: client_step_def prod_eq_iff)
qed

lemma cancelled_client_upload: "\<exists>u. al_find (upload_contexts cancelled_client) 1 = Some u \<and> tc_state u = Cancelled_state"
  by (simp add: cancelled_client_def upload_file_def sample_env_def client_is_connected_def connected_client_simps Let_def
      cancel_transfer_def is_valid_transition_def al_find_update)

lemma downloading_client_context:
  "\<exists>d. al_find (download_contexts downloading_client) 1 = Some d \<and> \<not> dc_cancelled d \<and> dc_temp_path d = ''g.tmp'' \<and>
     dc_local_path d = ''g'' \<and> tc_total_chunks d = 1 \<and> transferred_chunks d = 0 \<and> do_verify_hash (dc_options d) \<and>
     \<not> do_overwrite (dc_options d) \<and> expected_sha256 d = sha256_reference [1, 2, 3]"
  by (simp add: downloading_client_def download_file_def sample_env_def client_is_connected_def connected_client_simps Let_def
      set_download_metadata_def default_download_options_def al_find_update fs_exists_def)

lemma downloading_client_limiter: "download_limiter downloading_client = None"
  by (simp add: downloading_client_def download_file_def sample_env_def client_is_connected_def connected_client_simps Let_def
      set_download_metadata_def default_download_options_def al_find_update fs_exists_def put_download_def)

section \<open>Properties\<close>

lemma wait_loop_result:
  "wait_loop fuel deadline obs k = Some (Inr info) \<Longrightarrow> \<exists>j. info = get_result_info (snd (obs j)) (fst (obs j))"
  by (induction fuel deadline obs k rule: wait_loop.induct) (auto split: prod.splits if_splits option.splits, metis fst_conv snd_conv)

text \<open>No waiting call ever reports success. Uploads do not complete whatever calls are made, because nothing
  moves a started upload on; downloads do not complete as long as the application leaves the completion to the
  chunks that arrive and does not call \<open>finalize_download\<close> itself.\<close>

theorem waiting_never_reports_success:
  assumes "\<forall>k. client_reachable direct (fst (obs k))"
    and "\<not> direct \<or> al_find (upload_contexts (fst (obs 0))) h \<noteq> None"
    and "wait_for_transfer fuel timeout h obs = Some (Inr info)"
  shows "\<not> ri_success info"
proof -
  have ok: "ok direct (fst (obs k))" for k using assms(1) ok_reachable by blast
  have u: "tc_state (fst (later ctx (upload_in h) obs j)) \<noteq> Completed_state"
    if "al_find (upload_contexts (fst (obs 0))) h = Some ctx" for ctx j
    using contexts_are_find(1) [OF ok [of j], of h] contexts_are_find(1) [OF ok [of 0] that]
    by (auto simp: later_def upload_in_def upload_open_def split: prod.split option.split)
  have d: "tc_state (fst (later ctx (download_in h) obs j)) \<noteq> Completed_state"
    if "al_find (download_contexts (fst (obs 0))) h = Some ctx" "\<not> direct" for ctx j
    using contexts_are_find(2) [OF ok [of j], of h] contexts_are_find(2) [OF ok [of 0] that(1)] that(2)
    by (auto simp: later_def download_in_def download_open_def split: prod.split option.split)
  obtain c now where o: "obs 0 = (c, now)" by fastforce
  show ?thesis
  proof (cases "al_find (upload_contexts c) h")
    case (Some ctx)
    then show ?thesis
      using assms(3) u [of ctx] o by (auto simp: wait_for_transfer_def get_result_info_def dest!: wait_loop_result)
  next
    case None
    then show ?thesis
      using assms(2,3) d o
      by (auto simp: wait_for_transfer_def get_result_info_def split: option.splits dest!: wait_loop_result)
  qed
qed

theorem waiting_never_reports_success_witness:
  "\<exists>info. wait_for_transfer 1 None 1 (\<lambda>_. (cancelled_client, 0)) = Some (Inr info) \<and> \<not> ri_success info"
proof -
  obtain u where u: "al_find (upload_contexts cancelled_client) 1 = Some u" "tc_state u = Cancelled_state"
    using cancelled_client_upload by blast
  have "wait_for_transfer 1 None 1 (\<lambda>_. (cancelled_client, 0)) = Some (Inr (get_result_info 0 u))"
    using u by (simp add: wait_for_transfer_def later_def upload_in_def is_terminal_status_def)
  then show ?thesis
    using waiting_never_reports_success [where direct = True and obs = "\<lambda>_. (cancelled_client, 0)" and h = 1]
      cancelled_client_reachable u by auto
qed

text \<open>The chunk that completes a download blocks its caller for ever: \<open>process_download_chunk\<close> still holds the
  mutex of the download when it calls \<open>finalize_download\<close>, which locks it again.\<close>

theorem completing_chunk_blocks:
  assumes "download_limiter c = None" and "al_find (download_contexts c) h = Some ctx" and "\<not> dc_cancelled ctx"
    and "verify_crc32 (data ch) (checksum (header ch))" and "\<not> chunk_is_compressed ch"
    and "snd (write_chunk_file (ce_io env) (dc_temp_path ctx) (chunk_offset (header ch)) (data ch) fs) = Inr ()"
    and "tc_total_chunks ctx \<le> transferred_chunks ctx + 1"
  shows "process_download_chunk env h ch (c, fs) = None"
proof -
  obtain fs' where w: "write_chunk_file (ce_io env) (dc_temp_path ctx) (chunk_offset (header ch)) (data ch) fs = (fs', Inr ())"
    using assms(6) by (metis prod.collapse)
  have "finalize_download env True h (client_emit e (put_download h x c), fs') = None"
    "finalize_download env True h (put_download h x c, fs') = None" for e x
    by (simp_all add: finalize_download_def assoc_simps)
  then show ?thesis
    using assms(1-5,7) w by (simp add: process_download_chunk_def throttle_download_def Let_def)
qed

theorem completing_chunk_blocks_witness:
  "process_download_chunk sample_env 1 \<lparr>header = empty_header\<lparr>checksum := crc32 [1, 2, 3]\<rparr>, data = [1, 2, 3]\<rparr>
     (downloading_client, Map.empty) = None"
proof -
  obtain d where d: "al_find (download_contexts downloading_client) 1 = Some d" "\<not> dc_cancelled d"
    "tc_total_chunks d = 1" "transferred_chunks d = 0"
    using downloading_client_context by blast
  show ?thesis
    by (rule completing_chunk_blocks [OF downloading_client_limiter d(1,2)])
       (simp_all add: d verify_crc32_def chunk_is_compressed_def empty_header_def has_flag_def flag_none_def flag_compressed_def
          write_chunk_file_def sample_env_def seek_ok_def Let_def)
qed

text \<open>C21: a direct call of \<open>finalize_download\<close> delivers the file only after its hash was verified: on success
  the file at the requested path is the received one, which has the announced hash when verification is on; when the
  hash differs, the existing file at that path is untouched and the received one is removed.\<close>

theorem finalize_delivers_verified_file:
  assumes "al_find (download_contexts c) h = Some ctx" and "dc_temp_path ctx \<noteq> dc_local_path ctx"
    and "finalize_download env False h (c, fs) = Some ((c', fs'), r)"
  shows "(r = Inr () \<longrightarrow> fs' (dc_local_path ctx) = fs (dc_temp_path ctx) \<and> fs' (dc_temp_path ctx) = None \<and>
            fs (dc_temp_path ctx) \<noteq> None \<and>
            (do_verify_hash (dc_options ctx) \<and> expected_sha256 ctx \<noteq> [] \<longrightarrow>
               verify_sha256 (fs' (dc_local_path ctx)) (expected_sha256 ctx))) \<and>
         (r = Inl File_hash_mismatch \<longrightarrow> fs' (dc_local_path ctx) = fs (dc_local_path ctx)) \<and>
         (\<exists>ctx'. al_find (download_contexts c') h = Some ctx' \<and>
                 tc_state ctx' = (if r = Inr () then Completed_state else Failed_state))"
proof -
  have f: "finalize_context env h ctx (c, fs) = ((c', fs'), r)"
    using assms(1,3) by (simp add: finalize_download_def)
  have "\<exists>ctx'. al_find (download_contexts c') h = Some ctx' \<and>
                 tc_state ctx' = (if r = Inr () then Completed_state else Failed_state)"
    using finalize_context_frame [OF f] by (auto simp: assoc_simps)
  moreover have "(r = Inr () \<longrightarrow> fs' (dc_local_path ctx) = fs (dc_temp_path ctx) \<and> fs' (dc_temp_path ctx) = None \<and>
            fs (dc_temp_path ctx) \<noteq> None \<and>
            (do_verify_hash (dc_options ctx) \<and> expected_sha256 ctx \<noteq> [] \<longrightarrow>
               verify_sha256 (fs' (dc_local_path ctx)) (expected_sha256 ctx))) \<and>
         (r = Inl File_hash_mismatch \<longrightarrow> fs' (dc_local_path ctx) = fs (dc_local_path ctx))"
    using f assms(2)
    by (auto simp: finalize_context_def Let_def fs_remove_def fs_rename_def fs_read_def fs_exists_def
        split: if_splits option.splits)
  ultimately show ?thesis by blast
qed

theorem finalize_delivers_verified_file_witness:
  "\<exists>c' fs'. finalize_download sample_env False 1 (downloading_client, [''g.tmp'' \<mapsto> [1, 2, 3]]) = Some ((c', fs'), Inr ()) \<and>
     fs' ''g'' = Some [1, 2, 3]"
proof -
  obtain d where d: "al_find (download_contexts downloading_client) 1 = Some d" "dc_temp_path d = ''g.tmp''"
    "dc_local_path d = ''g''" "do_verify_hash (dc_options d)" "\<not> do_overwrite (dc_options d)"
    "expected_sha256 d = sha256_reference [1, 2, 3]"
    using downloading_client_context by blast
  obtain c' fs' r where f: "finalize_download sample_env False 1 (downloading_client, [''g.tmp'' \<mapsto> [1, 2, 3]]) = Some ((c', fs'), r)"
    by (simp add: finalize_download_def d(1)) (metis prod.collapse)
  then have "r = Inr ()"
    using d by (auto simp: finalize_download_def finalize_context_def Let_def sample_env_def fs_read_def fs_rename_def
        split: if_splits option.splits)
  then show ?thesis
    using finalize_delivers_verified_file [OF d(1) _ f] f by (simp add: d)
qed

text \<open>A finished transfer cannot be paused or resumed, and a finished upload cannot be cancelled; but a finished
  download can: cancelling it succeeds and turns its status from completed or failed into cancelled.\<close>

theorem finished_transfers_resist_control:
  assumes "is_terminal_status (get_transfer_status h c)"
    and "al_find (upload_contexts c) h \<noteq> None \<or> al_find (download_contexts c) h \<noteq> None"
  shows "pause_transfer h c = (c, Inl Invalid_state_transition) \<and> resume_transfer h c = (c, Inl Invalid_state_transition) \<and>
    (if al_find (upload_contexts c) h \<noteq> None
     then cancel_transfer env h (c, fs) = ((c, fs), Inl Transfer_already_completed)
     else snd (cancel_transfer env h (c, fs)) = Inr () \<and>
          get_transfer_status h (fst (fst (cancel_transfer env h (c, fs)))) = Cancelled)"
proof (cases "al_find (upload_contexts c) h")
  case (Some u)
  then have "\<not> is_valid_transition (tc_state u) t" for t
    using assms(1) terminal_is_final by (simp add: get_transfer_status_def terminal_def)
  then show ?thesis
    using Some by (simp add: pause_transfer_def resume_transfer_def change_transfer_state_def cancel_transfer_def)
next
  case None
  then obtain d where d: "al_find (download_contexts c) h = Some d" using assms(2) by auto
  then have "\<not> is_valid_transition (tc_state d) t" for t
    using assms(1) None terminal_is_final by (simp add: get_transfer_status_def terminal_def)
  then show ?thesis
    using None d by (simp add: pause_transfer_def resume_transfer_def change_transfer_state_def cancel_transfer_def
      cancel_download_def get_transfer_status_def al_find_update)
qed

theorem finished_transfers_resist_control_witness:
  "pause_transfer 1 cancelled_client = (cancelled_client, Inl Invalid_state_transition)"
proof -
  have "is_terminal_status (get_transfer_status 1 cancelled_client)" "al_find (upload_contexts cancelled_client) 1 \<noteq> None"
    using cancelled_client_upload by (auto simp: get_transfer_status_def is_terminal_status_def)
  then show ?thesis using finished_transfers_resist_control [of 1 cancelled_client] by blast
qed

end
