(* ===== verification/Client_Batch.thy ===== *)
theory Client_Batch
  imports File_Transfer_Client
begin

text \<open>
  The batches of client/file_transfer_client.cpp: starting several transfers, and the counters,
  control and waiting of a batch. A transfer identifier 0 in the list of a batch stands for a file
  that failed to start or was not started.
\<close>

section \<open>Starting a batch\<close>

definition new_batch :: "batch_direction \<Rightarrow> batch_options \<Rightarrow> int \<Rightarrow> string list \<Rightarrow> u64 \<Rightarrow> batch_context" where
  "new_batch dir opts now names nbytes =
     \<lparr>bc_direction = dir, bc_options = opts, bc_start_time = now, transfer_ids = [], filenames = names,
      completed_count = 0, failed_count = 0, in_progress_count = 0, bc_total_bytes = nbytes, bc_transferred_bytes = 0,
      bc_cancelled = False, bc_paused = False, file_results = replicate (length names) no_file_result\<rparr>"

text \<open>The loop over the files from position \<open>i\<close> on. It ends when \<open>max_concurrent\<close> transfers were started; without
  \<open>continue_on_error\<close> a file that cannot be started makes the whole call fail.\<close>

fun start_loop ::
  "('e \<Rightarrow> client_world \<Rightarrow> client_world \<times> u64 result) \<Rightarrow> ('e \<Rightarrow> string) \<Rightarrow> batch_options \<Rightarrow> 'e list \<Rightarrow> nat \<Rightarrow> nat \<Rightarrow>
   batch_context \<Rightarrow> client_world \<Rightarrow> client_world \<times> (batch_context \<times> nat) result" where
  "start_loop start name opts [] i started ctx s = (s, Inr (ctx, started))"
| "start_loop start name opts (e # es) i started ctx s =
     (if \<not> started < max_concurrent opts then (s, Inr (ctx, started))
      else case start e s of
             (s, Inr h) \<Rightarrow>
               start_loop start name opts es (Suc i) (Suc started)
                 (ctx\<lparr>transfer_ids := transfer_ids ctx @ [h], in_progress_count := in_progress_count ctx + 1\<rparr>) s
           | (s, Inl _) \<Rightarrow>
               let ctx = ctx\<lparr>transfer_ids := transfer_ids ctx @ [0], failed_count := failed_count ctx + 1,
                             file_results := (file_results ctx)
                               [i := no_file_result\<lparr>fr_filename := name e, fr_has_error := True\<rparr>]\<rparr>
               in if \<not> continue_on_error opts then (s, Inl Internal_error)
                  else start_loop start name opts es (Suc i) started ctx s)"

text \<open>The files that were not started get the identifier 0, and the context is stored.\<close>

definition launch_batch ::
  "('e \<Rightarrow> client_world \<Rightarrow> client_world \<times> u64 result) \<Rightarrow> ('e \<Rightarrow> string) \<Rightarrow> batch_options \<Rightarrow> 'e list \<Rightarrow> batch_context \<Rightarrow>
   client_world \<Rightarrow> client_world \<times> u64 result" where
  "launch_batch start name opts files ctx = (\<lambda>(c, fs).
     let batch_id = next_batch_id c; c = c\<lparr>next_batch_id := next_batch_id c + 1\<rparr>
     in case start_loop start name opts files 0 0 ctx (c, fs) of
          (s, Inl e) \<Rightarrow> (s, Inl e)
        | ((c, fs), Inr (ctx, started)) \<Rightarrow>
            let ctx = ctx\<lparr>transfer_ids := transfer_ids ctx @ replicate (length files - started) 0\<rparr>
            in ((c\<lparr>batch_contexts := al_update batch_id ctx (batch_contexts c)\<rparr>, fs), Inr batch_id))"

definition upload_name :: "upload_entry \<Rightarrow> string" where
  "upload_name e = (if ue_remote_name e = [] then path_filename (ue_local_path e) else ue_remote_name e)"

definition start_upload ::
  "client_env \<Rightarrow> (u64 \<Rightarrow> u64 \<times> u64) \<Rightarrow> int \<Rightarrow> batch_options \<Rightarrow> upload_entry \<Rightarrow> client_world \<Rightarrow> client_world \<times> u64 result" where
  "start_upload env rnd now opts e s =
     upload_file env (rnd (next_transfer_id (fst s))) now (ue_local_path e) (upload_name e)
       (default_upload_options\<lparr>uo_overwrite := bo_overwrite opts, uo_compression := bo_compression opts\<rparr>) s"

definition file_size_of :: "client_env \<Rightarrow> filesystem \<Rightarrow> path \<Rightarrow> u64" where
  "file_size_of env fs p =
     (case fs p of Some content \<Rightarrow> if stat_fails (ce_io env) p then 0 else word_of_nat (length content) | None \<Rightarrow> 0)"

definition upload_files ::
  "client_env \<Rightarrow> (u64 \<Rightarrow> u64 \<times> u64) \<Rightarrow> int \<Rightarrow> upload_entry list \<Rightarrow> batch_options \<Rightarrow> client_world \<Rightarrow>
   client_world \<times> u64 result" where
  "upload_files env rnd now files opts = (\<lambda>(c, fs).
     if \<not> client_is_connected c then ((c, fs), Inl Not_initialized)
     else if files = [] then ((c, fs), Inl Invalid_file_path)
     else if \<not> list_all (\<lambda>e. fs_exists fs (ue_local_path e)) files then ((c, fs), Inl File_not_found)
     else launch_batch (start_upload env rnd now opts) upload_name opts files
            (new_batch Batch_upload opts now (map upload_name files)
               (sum_list (map (\<lambda>e. file_size_of env fs (ue_local_path e)) files))) (c, fs))"

definition start_download ::
  "client_env \<Rightarrow> (u64 \<Rightarrow> u64 \<times> u64) \<Rightarrow> int \<Rightarrow> batch_options \<Rightarrow> download_entry \<Rightarrow> client_world \<Rightarrow> client_world \<times> u64 result" where
  "start_download env rnd now opts e s =
     download_file env (rnd (next_transfer_id (fst s))) now (de_remote_name e) (de_local_path e)
       (default_download_options\<lparr>do_overwrite := bo_overwrite opts\<rparr>) s"

definition download_files ::
  "client_env \<Rightarrow> (u64 \<Rightarrow> u64 \<times> u64) \<Rightarrow> int \<Rightarrow> download_entry list \<Rightarrow> batch_options \<Rightarrow> client_world \<Rightarrow>
   client_world \<times> u64 result" where
  "download_files env rnd now files opts = (\<lambda>(c, fs).
     if \<not> client_is_connected c then ((c, fs), Inl Not_initialized)
     else if files = [] then ((c, fs), Inl Invalid_file_path)
     else launch_batch (start_download env rnd now opts) de_remote_name opts files
            (new_batch Batch_download opts now (map de_remote_name files) 0) (c, fs))"

section \<open>Queries\<close>

definition batch_progress_of :: "int \<Rightarrow> batch_context \<Rightarrow> batch_progress" where
  "batch_progress_of now ctx =
     (let ms = trunc_div (now - bc_start_time ctx) 1000000
      in \<lparr>bp_total_files = word_of_nat (length (transfer_ids ctx)), bp_completed_files = completed_count ctx,
          bp_failed_files = failed_count ctx, bp_in_progress_files = in_progress_count ctx,
          bp_total_bytes = bc_total_bytes ctx, bp_transferred_bytes = bc_transferred_bytes ctx,
          bp_overall_rate =
            (if ms > 0 then of_nat (unat (bc_transferred_bytes ctx)) / (of_int ms / 1000) else 0)\<rparr>)"

definition batch_result_of :: "int \<Rightarrow> batch_context \<Rightarrow> batch_result" where
  "batch_result_of now ctx =
     \<lparr>br_total_files = word_of_nat (length (transfer_ids ctx)), br_succeeded = completed_count ctx,
      br_failed = failed_count ctx, br_total_bytes = bc_transferred_bytes ctx,
      br_elapsed = trunc_div (now - bc_start_time ctx) 1000000, br_file_results = file_results ctx\<rparr>"

definition batch_is_complete :: "batch_context \<Rightarrow> bool" where
  "batch_is_complete ctx \<longleftrightarrow> completed_count ctx + failed_count ctx \<ge> word_of_nat (length (transfer_ids ctx))"

definition get_batch_progress :: "int \<Rightarrow> u64 \<Rightarrow> client \<Rightarrow> batch_progress" where
  "get_batch_progress now b c =
     (case al_find (batch_contexts c) b of
        None \<Rightarrow> no_batch_progress
      | Some ctx \<Rightarrow>
          (batch_progress_of now ctx)
            \<lparr>bp_transferred_bytes :=
               sum_list (map (\<lambda>h. pi_bytes_transferred (get_transfer_progress now h c))
                 (filter (\<lambda>h. h \<noteq> 0) (transfer_ids ctx)))\<rparr>)"

definition get_batch_total_files :: "u64 \<Rightarrow> client \<Rightarrow> u64" where
  "get_batch_total_files b c =
     (case al_find (batch_contexts c) b of None \<Rightarrow> 0 | Some ctx \<Rightarrow> word_of_nat (length (transfer_ids ctx)))"

definition get_batch_completed_files :: "u64 \<Rightarrow> client \<Rightarrow> u64" where
  "get_batch_completed_files b c =
     (case al_find (batch_contexts c) b of None \<Rightarrow> 0 | Some ctx \<Rightarrow> completed_count ctx)"

definition get_batch_failed_files :: "u64 \<Rightarrow> client \<Rightarrow> u64" where
  "get_batch_failed_files b c =
     (case al_find (batch_contexts c) b of None \<Rightarrow> 0 | Some ctx \<Rightarrow> failed_count ctx)"

definition get_batch_individual_handles :: "u64 \<Rightarrow> client \<Rightarrow> transfer_handle list" where
  "get_batch_individual_handles b c =
     (case al_find (batch_contexts c) b of
        None \<Rightarrow> []
      | Some ctx \<Rightarrow> map (\<lambda>h. \<lparr>th_id = h, th_attached = True\<rparr>) (filter (\<lambda>h. h \<noteq> 0) (transfer_ids ctx)))"

section \<open>Control\<close>

definition put_batch :: "u64 \<Rightarrow> batch_context \<Rightarrow> client \<Rightarrow> client" where
  "put_batch b ctx c = c\<lparr>batch_contexts := al_update b ctx (batch_contexts c)\<rparr>"

definition pause_batch :: "u64 \<Rightarrow> client \<Rightarrow> client \<times> unit result" where
  "pause_batch b c =
     (case al_find (batch_contexts c) b of
        None \<Rightarrow> (c, Inl Transfer_not_found)
      | Some ctx \<Rightarrow>
          (fold (\<lambda>h c. if h \<noteq> 0 \<and> get_transfer_status h c = In_progress then fst (pause_transfer h c) else c)
             (transfer_ids ctx) (put_batch b (ctx\<lparr>bc_paused := True\<rparr>) c), Inr ()))"

definition resume_batch :: "u64 \<Rightarrow> client \<Rightarrow> client \<times> unit result" where
  "resume_batch b c =
     (case al_find (batch_contexts c) b of
        None \<Rightarrow> (c, Inl Transfer_not_found)
      | Some ctx \<Rightarrow>
          (fold (\<lambda>h c. if h \<noteq> 0 \<and> get_transfer_status h c = Paused then fst (resume_transfer h c) else c)
             (transfer_ids ctx) (put_batch b (ctx\<lparr>bc_paused := False\<rparr>) c), Inr ()))"

definition cancel_batch :: "client_env \<Rightarrow> u64 \<Rightarrow> client_world \<Rightarrow> client_world \<times> unit result" where
  "cancel_batch env b = (\<lambda>(c, fs).
     case al_find (batch_contexts c) b of
       None \<Rightarrow> ((c, fs), Inl Transfer_not_found)
     | Some ctx \<Rightarrow>
         (fold (\<lambda>h (c, fs). if h \<noteq> 0 \<and> \<not> is_terminal_status (get_transfer_status h c)
                            then fst (cancel_transfer env h (c, fs)) else (c, fs))
            (transfer_ids ctx) (put_batch b (ctx\<lparr>bc_cancelled := True\<rparr>) c, fs), Inr ()))"

section \<open>Waiting\<close>

definition file_result_of :: "string \<Rightarrow> transfer_result_info result \<Rightarrow> batch_file_result" where
  "file_result_of name r =
     (case r of
        Inr info \<Rightarrow> \<lparr>fr_filename = name, fr_success = ri_success info, fr_bytes_transferred = ri_bytes_transferred info,
                     fr_elapsed = ri_elapsed info, fr_has_error = (ri_error_message info \<noteq> None)\<rparr>
      | Inl _ \<Rightarrow> no_file_result\<lparr>fr_filename := name, fr_has_error := True\<rparr>)"

definition file_succeeded :: "transfer_result_info result \<Rightarrow> bool" where
  "file_succeeded r = (case r of Inr info \<Rightarrow> ri_success info | Inl _ \<Rightarrow> False)"

definition account_file :: "nat \<Rightarrow> transfer_result_info result \<Rightarrow> batch_context \<Rightarrow> batch_context" where
  "account_file i r ctx =
     (let ctx = (if file_succeeded r then ctx\<lparr>completed_count := completed_count ctx + 1\<rparr>
                 else ctx\<lparr>failed_count := failed_count ctx + 1\<rparr>)
      in ctx\<lparr>file_results := (file_results ctx)[i := file_result_of (filenames ctx ! i) r],
             in_progress_count := in_progress_count ctx - 1\<rparr>)"

text \<open>What other threads do to the transfers meanwhile shows in the observations; of the client the waiting thread
  changes the context of the batch only. \<open>now\<close> and \<open>finish\<close> are the clock at its start and at its end. The loop over
  the positions of the batch: \<open>obs i k\<close> is what the thread sees at its k-th look while it waits for
  the i-th transfer; \<open>None\<close> when it is still waiting when the observations end.\<close>

fun wait_batch_loop ::
  "nat \<Rightarrow> int option \<Rightarrow> int \<Rightarrow> (nat \<Rightarrow> nat \<Rightarrow> client \<times> int) \<Rightarrow> nat list \<Rightarrow> batch_context \<Rightarrow>
   (batch_context \<times> unit result) option" where
  "wait_batch_loop fuel timeout deadline obs [] ctx = Some (ctx, Inr ())"
| "wait_batch_loop fuel timeout deadline obs (i # is) ctx =
     (if transfer_ids ctx ! i = 0 then wait_batch_loop fuel timeout deadline obs is ctx
      else let remaining = map_option (\<lambda>_. trunc_div (deadline - snd (obs i 0)) 1000000) timeout
           in if (case remaining of Some r \<Rightarrow> r \<le> 0 | None \<Rightarrow> False) then Some (ctx, Inl Transfer_timeout)
              else case wait_for_transfer fuel remaining (transfer_ids ctx ! i) (obs i) of
                     None \<Rightarrow> None
                   | Some r \<Rightarrow> wait_batch_loop fuel timeout deadline obs is (account_file i r ctx))"

definition wait_for_batch ::
  "nat \<Rightarrow> int option \<Rightarrow> (nat \<Rightarrow> nat \<Rightarrow> client \<times> int) \<Rightarrow> int \<Rightarrow> int \<Rightarrow> u64 \<Rightarrow> client \<Rightarrow> (client \<times> batch_result result) option" where
  "wait_for_batch fuel timeout obs now finish b c =
     (case al_find (batch_contexts c) b of
        None \<Rightarrow> Some (c, Inl Transfer_not_found)
      | Some ctx \<Rightarrow>
          let deadline = now + (case timeout of Some t \<Rightarrow> t * 1000000 | None \<Rightarrow> 0)
          in case wait_batch_loop fuel timeout deadline obs [0..<length (transfer_ids ctx)] ctx of
               None \<Rightarrow> None
             | Some (ctx', Inl e) \<Rightarrow> Some (put_batch b ctx' c, Inl e)
             | Some (ctx', Inr _) \<Rightarrow> Some (put_batch b ctx' c, Inr (batch_result_of finish ctx')))"

text \<open>\<open>batch_transfer_handle\<close>.\<close>

definition batch_pause_all :: "transfer_handle \<Rightarrow> client \<Rightarrow> client \<times> unit result" where
  "batch_pause_all t c = (if \<not> handle_is_valid t then (c, Inl Not_initialized) else pause_batch (th_id t) c)"

definition batch_resume_all :: "transfer_handle \<Rightarrow> client \<Rightarrow> client \<times> unit result" where
  "batch_resume_all t c = (if \<not> handle_is_valid t then (c, Inl Not_initialized) else resume_batch (th_id t) c)"

definition batch_cancel_all :: "client_env \<Rightarrow> transfer_handle \<Rightarrow> client_world \<Rightarrow> client_world \<times> unit result" where
  "batch_cancel_all env t s = (if \<not> handle_is_valid t then (s, Inl Not_initialized) else cancel_batch env (th_id t) s)"

definition batch_wait ::
  "nat \<Rightarrow> int option \<Rightarrow> (nat \<Rightarrow> nat \<Rightarrow> client \<times> int) \<Rightarrow> int \<Rightarrow> int \<Rightarrow> transfer_handle \<Rightarrow> client \<Rightarrow> (client \<times> batch_result result) option" where
  "batch_wait fuel timeout obs now finish t c =
     (if \<not> handle_is_valid t then Some (c, Inl Not_initialized) else wait_for_batch fuel timeout obs now finish (th_id t) c)"

section \<open>Counting\<close>

definition live_ids :: "batch_context \<Rightarrow> nat" where
  "live_ids ctx = length (filter (\<lambda>h. h \<noteq> 0) (transfer_ids ctx))"

text \<open>What one pass of the starting loop did: \<open>f\<close> files failed to start, \<open>m\<close> transfers were started.\<close>

lemma start_loop_counts:
  "start_loop start name opts es i started ctx s = (s', Inr (ctx', started')) \<Longrightarrow>
     \<exists>f m. started' = started + m \<and> m \<le> length es \<and> (0 < m \<longrightarrow> started' \<le> max_concurrent opts) \<and>
         length (transfer_ids ctx') = length (transfer_ids ctx) + m + f \<and>
         failed_count ctx' = failed_count ctx + of_nat f \<and> completed_count ctx' = completed_count ctx \<and>
         live_ids ctx' \<le> live_ids ctx + m"
proof (induction start name opts es i started ctx s arbitrary: s' ctx' started' rule: start_loop.induct)
  case (2 start name opts e es i started ctx s)
  show ?case
  proof (cases "started < max_concurrent opts")
    case False
    then show ?thesis using "2.prems" by simp
  next
    case True
    obtain c1 fs1 r where r: "start e s = ((c1, fs1), r)" by (metis surj_pair)
    obtain c2 fs2 where s': "s' = (c2, fs2)" by fastforce
    show ?thesis
    proof (cases r)
      case (Inr h)
      from "2.IH" "2.prems" True r s' Inr
      obtain f m where "started' = Suc started + m \<and> m \<le> length es \<and> (0 < m \<longrightarrow> started' \<le> max_concurrent opts) \<and>
         length (transfer_ids ctx') = Suc (length (transfer_ids ctx)) + m + f \<and>
         failed_count ctx' = failed_count ctx + of_nat f \<and> completed_count ctx' = completed_count ctx \<and>
         live_ids ctx' \<le> live_ids (ctx\<lparr>transfer_ids := transfer_ids ctx @ [h], in_progress_count := in_progress_count ctx + 1\<rparr>) + m"
        by simp blast
      then show ?thesis
        using True by (intro exI [of _ f] exI [of _ "Suc m"]) (auto simp: live_ids_def split: if_splits)
    next
      case (Inl er)
      then have c: "continue_on_error opts" using "2.prems" True r by (simp split: if_splits)
      from "2.IH" "2.prems" True r s' Inl c
      obtain f m where "started' = started + m \<and> m \<le> length es \<and> (0 < m \<longrightarrow> started' \<le> max_concurrent opts) \<and>
         length (transfer_ids ctx') = Suc (length (transfer_ids ctx)) + m + f \<and>
         failed_count ctx' = failed_count ctx + 1 + of_nat f \<and> completed_count ctx' = completed_count ctx \<and>
         live_ids ctx' \<le> live_ids ctx + m"
        by (simp add: live_ids_def) blast
      then show ?thesis
        by (intro exI [of _ "Suc f"] exI [of _ m]) auto
    qed
  qed
qed (auto intro: exI [of _ 0])

lemma launch_batch_counts:
  assumes "launch_batch start name opts files (new_batch dir opts now names n) (c, fs) = ((c', fs'), Inr b)"
  shows "\<exists>ctx f k. al_find (batch_contexts c') b = Some ctx \<and> length (transfer_ids ctx) = length files + f \<and>
           failed_count ctx = of_nat f \<and> completed_count ctx = 0 \<and> live_ids ctx = k \<and>
           k \<le> min (length files) (max_concurrent opts)"
proof -
  obtain c1 fs1 ctx started where run: "start_loop start name opts files 0 0 (new_batch dir opts now names n)
      (c\<lparr>next_batch_id := next_batch_id c + 1\<rparr>, fs) = ((c1, fs1), Inr (ctx, started))"
    and c': "c' = c1\<lparr>batch_contexts := al_update b (ctx\<lparr>transfer_ids := transfer_ids ctx @ replicate (length files - started) 0\<rparr>)
      (batch_contexts c1)\<rparr>"
    using assms by (auto simp: launch_batch_def Let_def split: prod.splits sum.splits)
  obtain f where "started \<le> length files" "started \<le> max_concurrent opts" "length (transfer_ids ctx) = started + f"
    "failed_count ctx = of_nat f" "completed_count ctx = 0" "live_ids ctx \<le> started"
    using start_loop_counts [OF run] by (auto simp: new_batch_def live_ids_def)
  then show ?thesis
    by (auto simp: c' al_find_update live_ids_def)
qed

lemma account_file_counts:
  "completed_count (account_file i r ctx) + failed_count (account_file i r ctx) = completed_count ctx + failed_count ctx + 1"
  "transfer_ids (account_file i r ctx) = transfer_ids ctx"
  "in_progress_count (account_file i r ctx) = in_progress_count ctx - 1"
  by (simp_all add: account_file_def Let_def algebra_simps)

text \<open>Every wait counts each started transfer once more.\<close>

lemma wait_batch_loop_counts:
  "wait_batch_loop fuel timeout deadline obs is ctx = Some (ctx', Inr ()) \<Longrightarrow>
     transfer_ids ctx' = transfer_ids ctx \<and>
     completed_count ctx' + failed_count ctx' =
       completed_count ctx + failed_count ctx + of_nat (length (filter (\<lambda>i. transfer_ids ctx ! i \<noteq> 0) is)) \<and>
     in_progress_count ctx' = in_progress_count ctx - of_nat (length (filter (\<lambda>i. transfer_ids ctx ! i \<noteq> 0) is))"
proof (induction fuel timeout deadline obs "is" ctx rule: wait_batch_loop.induct)
  case (2 fuel timeout deadline obs i "is" ctx)
  then show ?case
    by (auto simp: account_file_counts Let_def algebra_simps split: if_splits option.splits)
qed simp

lemma live_positions: "length (filter (\<lambda>i. xs ! i \<noteq> 0) [0..<length xs]) = length (filter (\<lambda>h. h \<noteq> 0) xs)"
proof -
  have "map (\<lambda>i. xs ! i) (filter (\<lambda>i. xs ! i \<noteq> 0) [0..<length xs]) = filter (\<lambda>h. h \<noteq> 0) (map (\<lambda>i. xs ! i) [0..<length xs])"
    by (simp add: filter_map comp_def)
  then show ?thesis by (metis length_map map_nth)
qed

lemma wait_for_batch_counts:
  assumes "wait_for_batch fuel timeout obs now finish b c = Some (c', Inr res)" and "al_find (batch_contexts c) b = Some ctx"
  shows "br_total_files res = of_nat (length (transfer_ids ctx)) \<and>
         br_succeeded res + br_failed res = completed_count ctx + failed_count ctx + of_nat (live_ids ctx) \<and>
         (\<exists>ctx'. al_find (batch_contexts c') b = Some ctx' \<and> transfer_ids ctx' = transfer_ids ctx \<and>
                 completed_count ctx' = br_succeeded res \<and> failed_count ctx' = br_failed res \<and>
                 in_progress_count ctx' = in_progress_count ctx - of_nat (live_ids ctx))"
  using assms
  by (auto simp: wait_for_batch_def Let_def batch_result_of_def put_batch_def al_find_update live_ids_def live_positions
      split: option.splits sum.splits prod.splits dest!: wait_batch_loop_counts)

section \<open>Properties\<close>

definition starts_batch ::
  "client_env \<Rightarrow> upload_entry list + download_entry list \<Rightarrow> batch_options \<Rightarrow> client_world \<Rightarrow> client_world \<Rightarrow> u64 \<Rightarrow> bool" where
  "starts_batch env files opts s s' b \<longleftrightarrow>
     (\<exists>rnd now. (case files of Inl us \<Rightarrow> upload_files env rnd now us opts s | Inr ds \<Rightarrow> download_files env rnd now ds opts s) =
        (s', Inr b))"

definition file_count :: "upload_entry list + download_entry list \<Rightarrow> nat" where
  "file_count files = (case files of Inl us \<Rightarrow> length us | Inr ds \<Rightarrow> length ds)"

lemma starts_batch_counts:
  assumes "starts_batch env files opts s (c', fs') b"
  shows "\<exists>ctx f k. al_find (batch_contexts c') b = Some ctx \<and> length (transfer_ids ctx) = file_count files + f \<and>
           failed_count ctx = of_nat f \<and> completed_count ctx = 0 \<and> live_ids ctx = k \<and>
           k \<le> min (file_count files) (max_concurrent opts)"
proof -
  obtain c fs where s: "s = (c, fs)" by fastforce
  show ?thesis
  proof (cases files)
    case (Inl us)
    with assms obtain rnd now n where
      "launch_batch (start_upload env rnd now opts) upload_name opts us
         (new_batch Batch_upload opts now (map upload_name us) n) (c, fs) = ((c', fs'), Inr b)"
      by (auto simp: s starts_batch_def upload_files_def split: if_splits)
    from launch_batch_counts [OF this] show ?thesis by (simp add: Inl file_count_def)
  next
    case (Inr ds)
    with assms obtain rnd now where
      "launch_batch (start_download env rnd now opts) de_remote_name opts ds
         (new_batch Batch_download opts now (map de_remote_name ds) 0) (c, fs) = ((c', fs'), Inr b)"
      by (auto simp: s starts_batch_def download_files_def split: if_splits)
    from launch_batch_counts [OF this] show ?thesis by (simp add: Inr file_count_def)
  qed
qed

text \<open>The size of a batch is reported too large by the number of files that could not be started: each of them
  has its own entry and is also counted among the files that are waiting to be started.\<close>

theorem failed_starts_counted_twice:
  assumes "starts_batch env files opts s (c', fs') b"
  shows "get_batch_total_files b c' = of_nat (file_count files) + get_batch_failed_files b c'"
  using starts_batch_counts [OF assms] by (auto simp: get_batch_total_files_def get_batch_failed_files_def)

definition two_downloads :: "upload_entry list + download_entry list" where
  "two_downloads = Inr [\<lparr>de_remote_name = [], de_local_path = ''x''\<rparr>, \<lparr>de_remote_name = ''f'', de_local_path = ''g''\<rparr>]"

definition two_downloads_client :: client where
  "two_downloads_client =
     fst (fst (download_files sample_env (\<lambda>_. (1, 2)) 0 [\<lparr>de_remote_name = [], de_local_path = ''x''\<rparr>,
        \<lparr>de_remote_name = ''f'', de_local_path = ''g''\<rparr>] default_batch_options (connected_client, Map.empty)))"

lemma two_downloads_start:
  "starts_batch sample_env two_downloads default_batch_options (connected_client, Map.empty) (two_downloads_client, Map.empty)
     (next_batch_id connected_client)"
  unfolding starts_batch_def two_downloads_def two_downloads_client_def
  by (intro exI [of _ "\<lambda>_. (1, 2)"] exI [of _ 0])
    (simp add: download_files_def launch_batch_def start_download_def download_file_def connected_client_simps
      client_is_connected_def sample_env_def default_batch_options_def Let_def fs_exists_def default_download_options_def
      parent_path_def split: prod.split sum.split)

theorem failed_starts_counted_twice_witness:
  "get_batch_total_files (next_batch_id connected_client) two_downloads_client =
     2 + get_batch_failed_files (next_batch_id connected_client) two_downloads_client"
  using failed_starts_counted_twice [OF two_downloads_start] by (simp add: two_downloads_def file_count_def)

text \<open>Files beyond the first \<open>max_concurrent\<close> are never transferred, and waiting for the batch says so to nobody:
  it returns although they are counted neither as succeeded nor as failed. Waiting again counts every started
  transfer once more.\<close>

theorem unstarted_files_never_reported:
  assumes "starts_batch env files opts s (c', fs') b" and "batch_contexts c1 = batch_contexts c'"
    and "wait_for_batch fuel timeout obs now finish b c1 = Some (c2, Inr res)"
    and "wait_for_batch fuel' timeout' obs' now' finish' b c2 = Some (c3, Inr res')"
    and "k = length (get_batch_individual_handles b c')"
  shows "k \<le> min (file_count files) (max_concurrent opts) \<and>
         br_total_files res - br_succeeded res - br_failed res = of_nat (file_count files - k) \<and>
         br_succeeded res' + br_failed res' = br_succeeded res + br_failed res + of_nat k"
proof -
  obtain ctx f where ctx: "al_find (batch_contexts c1) b = Some ctx" "length (transfer_ids ctx) = file_count files + f"
    "failed_count ctx = of_nat f" "completed_count ctx = 0" "live_ids ctx = k"
    "k \<le> min (file_count files) (max_concurrent opts)"
    using starts_batch_counts [OF assms(1)] assms(2,5) by (auto simp: get_batch_individual_handles_def live_ids_def)
  note w = wait_for_batch_counts [OF assms(3) ctx(1)]
  then obtain ctx' where ctx': "al_find (batch_contexts c2) b = Some ctx'" "live_ids ctx' = k"
    "completed_count ctx' = br_succeeded res" "failed_count ctx' = br_failed res"
    using ctx(5) by (auto simp: live_ids_def)
  have "br_total_files res - (br_succeeded res + br_failed res) = of_nat (file_count files - k)"
    using w ctx by (simp add: of_nat_diff)
  moreover have "br_succeeded res' + br_failed res' = br_succeeded res + br_failed res + of_nat k"
    using wait_for_batch_counts [OF assms(4) ctx'(1)] ctx' by simp
  ultimately show ?thesis using ctx(6) by (simp add: diff_diff_eq)
qed

text \<open>Two downloads, one at a time; the one that was started is cancelled.\<close>

definition serial_downloads :: "download_entry list" where
  "serial_downloads =
     [\<lparr>de_remote_name = ''a'', de_local_path = ''x''\<rparr>, \<lparr>de_remote_name = ''b'', de_local_path = ''y''\<rparr>]"

definition serial_options :: batch_options where
  "serial_options = default_batch_options\<lparr>max_concurrent := 1\<rparr>"

definition serial_client :: client where
  "serial_client =
     fst (fst (download_files sample_env (\<lambda>_. (1, 2)) 0 serial_downloads serial_options (connected_client, Map.empty)))"

definition serial_cancelled :: client where
  "serial_cancelled = fst (fst (cancel_transfer sample_env 1 (serial_client, Map.empty)))"

lemmas serial_simps =
  serial_client_def serial_downloads_def serial_options_def download_files_def launch_batch_def start_download_def
  download_file_def connected_client_simps client_is_connected_def sample_env_def default_batch_options_def Let_def
  fs_exists_def default_download_options_def parent_path_def

lemma connected_client_batches: "batch_contexts connected_client = []" "next_batch_id connected_client = 1"
  by (simp_all add: connected_client_def client_connect_def set_client_state_def new_client_def default_client_config_def)

lemma serial_start:
  "starts_batch sample_env (Inr serial_downloads) serial_options (connected_client, Map.empty) (serial_client, Map.empty) 1"
  unfolding starts_batch_def
  by (intro exI [of _ "\<lambda>_. (1, 2)"] exI [of _ 0]) (simp add: serial_simps connected_client_batches split: prod.split sum.split)

lemma serial_batch:
  "\<exists>ctx. al_find (batch_contexts serial_client) 1 = Some ctx \<and> transfer_ids ctx = [1, 0]"
  by (simp add: serial_simps connected_client_batches new_batch_def put_download_def)

lemma serial_download: "\<exists>d. al_find (download_contexts serial_client) 1 = Some d \<and> upload_contexts serial_client = []"
  by (simp add: serial_simps connected_client_batches new_batch_def put_download_def al_find_update)

lemma serial_cancelled_wait:
  "batch_contexts serial_cancelled = batch_contexts serial_client \<and>
   (\<exists>r. wait_for_transfer 1 None 1 (\<lambda>_. (serial_cancelled, 0)) = Some r)"
proof -
  obtain d where "al_find (download_contexts serial_client) 1 = Some d" "upload_contexts serial_client = []"
    using serial_download by blast
  then show ?thesis
    by (simp add: serial_cancelled_def cancel_transfer_def cancel_download_def put_download_def wait_for_transfer_def
        later_def download_in_def al_find_update is_terminal_status_def)
qed

lemma wait_two:
  assumes "al_find (batch_contexts c) b = Some ctx" and "transfer_ids ctx = [h, 0]" and "h \<noteq> 0"
    and "wait_for_transfer fuel None h (obs 0) = Some r"
  shows "\<exists>c' res ctx'. wait_for_batch fuel None obs now finish b c = Some (c', Inr res) \<and>
           al_find (batch_contexts c') b = Some ctx' \<and> transfer_ids ctx' = [h, 0]"
  using assms
  by (simp add: wait_for_batch_def account_file_counts put_batch_def al_find_update upt_rec)

theorem unstarted_files_never_reported_witness:
  "\<exists>c2 c3 res res'. wait_for_batch 1 None (\<lambda>_ _. (serial_cancelled, 0)) 0 0 1 serial_cancelled = Some (c2, Inr res) \<and>
     wait_for_batch 1 None (\<lambda>_ _. (serial_cancelled, 0)) 0 0 1 c2 = Some (c3, Inr res') \<and>
     br_total_files res - br_succeeded res - br_failed res = 1 \<and>
     br_succeeded res' + br_failed res' = br_succeeded res + br_failed res + 1"
proof -
  obtain ctx r where ctx: "al_find (batch_contexts serial_client) 1 = Some ctx" "transfer_ids ctx = [1, 0]"
    and same: "batch_contexts serial_cancelled = batch_contexts serial_client"
    and r: "wait_for_transfer 1 None 1 (\<lambda>_. (serial_cancelled, 0)) = Some r"
    using serial_batch serial_cancelled_wait by blast
  obtain c2 res ctx2 where w: "wait_for_batch 1 None (\<lambda>_ _. (serial_cancelled, 0)) 0 0 1 serial_cancelled = Some (c2, Inr res)"
    "al_find (batch_contexts c2) 1 = Some ctx2" "transfer_ids ctx2 = [1, 0]"
    using wait_two [OF ctx [folded same], of 1 "\<lambda>_ _. (serial_cancelled, 0)" r 0 0] r by auto
  obtain c3 res' where w': "wait_for_batch 1 None (\<lambda>_ _. (serial_cancelled, 0)) 0 0 1 c2 = Some (c3, Inr res')"
    using wait_two [OF w(2,3), of 1 "\<lambda>_ _. (serial_cancelled, 0)" r 0 0] r by auto
  have "1 = length (get_batch_individual_handles 1 serial_client)"
    using ctx by (simp add: get_batch_individual_handles_def)
  from unstarted_files_never_reported [OF serial_start same w(1) w' this] w(1) w'
  show ?thesis by (auto simp: serial_downloads_def file_count_def)
qed

end
