(* ===== verification/Encryption_Types.thy ===== *)
theory Encryption_Types
  imports Prelude
begin

text \<open>
  encryption/encryption_config.h and the data of encryption/key_derivation.h and
  encryption/encryption_interface.h: algorithms, configurations with their builders, the metadata
  that goes with a ciphertext, and the parameters of key derivation.
\<close>

section \<open>Algorithms and states\<close>

datatype encryption_algorithm = Algorithm_none | Aes_256_gcm | Aes_256_cbc | Chacha20_poly1305

fun encryption_algorithm_to_string :: "encryption_algorithm \<Rightarrow> string" where
  "encryption_algorithm_to_string Algorithm_none = ''none''"
| "encryption_algorithm_to_string Aes_256_gcm = ''aes-256-gcm''"
| "encryption_algorithm_to_string Aes_256_cbc = ''aes-256-cbc''"
| "encryption_algorithm_to_string Chacha20_poly1305 = ''chacha20-poly1305''"

datatype key_derivation_function = Kdf_none | Pbkdf2 | Argon2id | Scrypt

fun kdf_to_string :: "key_derivation_function \<Rightarrow> string" where
  "kdf_to_string Kdf_none = ''none''"
| "kdf_to_string Pbkdf2 = ''pbkdf2''"
| "kdf_to_string Argon2id = ''argon2id''"
| "kdf_to_string Scrypt = ''scrypt''"

datatype encryption_state = Uninitialized | Ready | Processing | Error_state

fun encryption_state_to_string :: "encryption_state \<Rightarrow> string" where
  "encryption_state_to_string Uninitialized = ''uninitialized''"
| "encryption_state_to_string Ready = ''ready''"
| "encryption_state_to_string Processing = ''processing''"
| "encryption_state_to_string Error_state = ''error''"

definition AES_256_KEY_SIZE :: u64 where "AES_256_KEY_SIZE = 32"
definition AES_GCM_IV_SIZE :: u64 where "AES_GCM_IV_SIZE = 12"
definition AES_GCM_TAG_SIZE :: u64 where "AES_GCM_TAG_SIZE = 16"
definition AES_BLOCK_SIZE :: u64 where "AES_BLOCK_SIZE = 16"
definition SALT_SIZE :: u64 where "SALT_SIZE = 32"
definition CHACHA20_NONCE_SIZE :: u64 where "CHACHA20_NONCE_SIZE = 12"

section \<open>Metadata and configurations\<close>

record encryption_metadata =
  em_algorithm :: encryption_algorithm
  em_kdf :: key_derivation_function
  em_iv :: bytes
  em_salt :: bytes
  auth_tag :: bytes
  em_aad :: bytes
  kdf_iterations :: u32
  argon2_memory_kb :: u32
  argon2_parallelism :: u32
  em_original_size :: u64
  em_version :: u8

definition default_encryption_metadata :: encryption_metadata where
  "default_encryption_metadata =
     \<lparr>em_algorithm = Aes_256_gcm, em_kdf = Kdf_none, em_iv = [], em_salt = [], auth_tag = [], em_aad = [],
      kdf_iterations = 0, argon2_memory_kb = 0, argon2_parallelism = 0, em_original_size = 0, em_version = 1\<rparr>"

record encryption_config =
  ec_algorithm :: encryption_algorithm
  use_aead :: bool
  stream_chunk_size :: u64
  ec_aad :: "bytes option"
  secure_memory :: bool

record aes_gcm_config = encryption_config +
  gcm_iv_size :: u64
  gcm_tag_size :: u64
  random_iv :: bool

definition default_gcm_config :: aes_gcm_config where
  "default_gcm_config =
     \<lparr>ec_algorithm = Aes_256_gcm, use_aead = True, stream_chunk_size = 64 * 1024, ec_aad = None, secure_memory = True,
      gcm_iv_size = AES_GCM_IV_SIZE, gcm_tag_size = AES_GCM_TAG_SIZE, random_iv = True\<rparr>"

record aes_cbc_config = encryption_config +
  cbc_iv_size :: u64
  pkcs7_padding :: bool
  use_hmac :: bool

definition default_cbc_config :: aes_cbc_config where
  "default_cbc_config =
     \<lparr>ec_algorithm = Aes_256_cbc, use_aead = False, stream_chunk_size = 64 * 1024, ec_aad = None, secure_memory = True,
      cbc_iv_size = AES_BLOCK_SIZE, pkcs7_padding = True, use_hmac = True\<rparr>"

record chacha20_config = encryption_config +
  nonce_size :: u64
  random_nonce :: bool

definition default_chacha20_config :: chacha20_config where
  "default_chacha20_config =
     \<lparr>ec_algorithm = Chacha20_poly1305, use_aead = True, stream_chunk_size = 64 * 1024, ec_aad = None,
      secure_memory = True, nonce_size = CHACHA20_NONCE_SIZE, random_nonce = True\<rparr>"

section \<open>The builder of encryption configurations\<close>

record encryption_config_builder =
  eb_gcm :: "aes_gcm_config option"
  eb_cbc :: "aes_cbc_config option"
  eb_chacha :: "chacha20_config option"

definition builder_aes_gcm :: encryption_config_builder where
  "builder_aes_gcm = \<lparr>eb_gcm = Some default_gcm_config, eb_cbc = None, eb_chacha = None\<rparr>"

definition builder_aes_cbc :: encryption_config_builder where
  "builder_aes_cbc = \<lparr>eb_gcm = None, eb_cbc = Some default_cbc_config, eb_chacha = None\<rparr>"

definition builder_chacha20 :: encryption_config_builder where
  "builder_chacha20 = \<lparr>eb_gcm = None, eb_cbc = None, eb_chacha = Some default_chacha20_config\<rparr>"

definition with_stream_chunk_size :: "u64 \<Rightarrow> encryption_config_builder \<Rightarrow> encryption_config_builder" where
  "with_stream_chunk_size n b =
     (case (eb_gcm b, eb_cbc b, eb_chacha b) of
        (Some c, _, _) \<Rightarrow> b\<lparr>eb_gcm := Some (c\<lparr>stream_chunk_size := n\<rparr>)\<rparr>
      | (None, Some c, _) \<Rightarrow> b\<lparr>eb_cbc := Some (c\<lparr>stream_chunk_size := n\<rparr>)\<rparr>
      | (None, None, Some c) \<Rightarrow> b\<lparr>eb_chacha := Some (c\<lparr>stream_chunk_size := n\<rparr>)\<rparr>
      | _ \<Rightarrow> b)"

definition with_aad :: "bytes \<Rightarrow> encryption_config_builder \<Rightarrow> encryption_config_builder" where
  "with_aad aad b =
     (case (eb_gcm b, eb_cbc b, eb_chacha b) of
        (Some c, _, _) \<Rightarrow> b\<lparr>eb_gcm := Some (c\<lparr>ec_aad := Some aad\<rparr>)\<rparr>
      | (None, Some c, _) \<Rightarrow> b\<lparr>eb_cbc := Some (c\<lparr>ec_aad := Some aad\<rparr>)\<rparr>
      | (None, None, Some c) \<Rightarrow> b\<lparr>eb_chacha := Some (c\<lparr>ec_aad := Some aad\<rparr>)\<rparr>
      | _ \<Rightarrow> b)"

definition with_secure_memory :: "bool \<Rightarrow> encryption_config_builder \<Rightarrow> encryption_config_builder" where
  "with_secure_memory on b =
     (case (eb_gcm b, eb_cbc b, eb_chacha b) of
        (Some c, _, _) \<Rightarrow> b\<lparr>eb_gcm := Some (c\<lparr>secure_memory := on\<rparr>)\<rparr>
      | (None, Some c, _) \<Rightarrow> b\<lparr>eb_cbc := Some (c\<lparr>secure_memory := on\<rparr>)\<rparr>
      | (None, None, Some c) \<Rightarrow> b\<lparr>eb_chacha := Some (c\<lparr>secure_memory := on\<rparr>)\<rparr>
      | _ \<Rightarrow> b)"

definition with_iv_size :: "u64 \<Rightarrow> encryption_config_builder \<Rightarrow> encryption_config_builder" where
  "with_iv_size n b = b\<lparr>eb_gcm := map_option (\<lambda>c. c\<lparr>gcm_iv_size := n\<rparr>) (eb_gcm b)\<rparr>"

definition with_tag_size :: "u64 \<Rightarrow> encryption_config_builder \<Rightarrow> encryption_config_builder" where
  "with_tag_size n b = b\<lparr>eb_gcm := map_option (\<lambda>c. c\<lparr>gcm_tag_size := n\<rparr>) (eb_gcm b)\<rparr>"

definition with_random_iv :: "bool \<Rightarrow> encryption_config_builder \<Rightarrow> encryption_config_builder" where
  "with_random_iv on b = b\<lparr>eb_gcm := map_option (\<lambda>c. c\<lparr>random_iv := on\<rparr>) (eb_gcm b)\<rparr>"

definition with_hmac :: "bool \<Rightarrow> encryption_config_builder \<Rightarrow> encryption_config_builder" where
  "with_hmac on b = b\<lparr>eb_cbc := map_option (\<lambda>c. c\<lparr>use_hmac := on\<rparr>) (eb_cbc b)\<rparr>"

definition with_random_nonce :: "bool \<Rightarrow> encryption_config_builder \<Rightarrow> encryption_config_builder" where
  "with_random_nonce on b = b\<lparr>eb_chacha := map_option (\<lambda>c. c\<lparr>random_nonce := on\<rparr>) (eb_chacha b)\<rparr>"

definition build_aes_gcm :: "encryption_config_builder \<Rightarrow> aes_gcm_config" where
  "build_aes_gcm b = (case eb_gcm b of Some c \<Rightarrow> c | None \<Rightarrow> default_gcm_config)"

definition build_aes_cbc :: "encryption_config_builder \<Rightarrow> aes_cbc_config" where
  "build_aes_cbc b = (case eb_cbc b of Some c \<Rightarrow> c | None \<Rightarrow> default_cbc_config)"

definition build_chacha20 :: "encryption_config_builder \<Rightarrow> chacha20_config" where
  "build_chacha20 b = (case eb_chacha b of Some c \<Rightarrow> c | None \<Rightarrow> default_chacha20_config)"

section \<open>Key derivation\<close>

definition PBKDF2_DEFAULT_ITERATIONS :: u32 where "PBKDF2_DEFAULT_ITERATIONS = 600000"

record pbkdf2_config =
  pb_iterations :: u32
  hash_algorithm :: string
  pb_key_length :: u64
  pb_salt_length :: u64

definition default_pbkdf2_config :: pbkdf2_config where
  "default_pbkdf2_config =
     \<lparr>pb_iterations = PBKDF2_DEFAULT_ITERATIONS, hash_algorithm = ''SHA-256'', pb_key_length = AES_256_KEY_SIZE,
      pb_salt_length = SALT_SIZE\<rparr>"

record argon2_config =
  ar_memory_kb :: u32
  time_cost :: u32
  ar_parallelism :: u32
  ar_key_length :: u64
  ar_salt_length :: u64

definition default_argon2_config :: argon2_config where
  "default_argon2_config =
     \<lparr>ar_memory_kb = 65536, time_cost = 3, ar_parallelism = 4, ar_key_length = AES_256_KEY_SIZE,
      ar_salt_length = SALT_SIZE\<rparr>"

record scrypt_config =
  scrypt_n :: u32
  scrypt_r :: u32
  scrypt_p :: u32
  sc_key_length :: u64
  sc_salt_length :: u64

definition default_scrypt_config :: scrypt_config where
  "default_scrypt_config =
     \<lparr>scrypt_n = 131072, scrypt_r = 8, scrypt_p = 1, sc_key_length = AES_256_KEY_SIZE, sc_salt_length = SALT_SIZE\<rparr>"

record key_derivation_params =
  kp_kdf :: key_derivation_function
  kp_salt :: bytes
  kp_iterations :: u32
  kp_memory_kb :: u32
  kp_parallelism :: u32
  kp_block_size :: u32
  kp_key_length :: u64

definition default_derivation_params :: key_derivation_params where
  "default_derivation_params =
     \<lparr>kp_kdf = Argon2id, kp_salt = [], kp_iterations = 0, kp_memory_kb = 0, kp_parallelism = 0, kp_block_size = 0,
      kp_key_length = AES_256_KEY_SIZE\<rparr>"

record derived_key =
  dk_key :: bytes
  dk_params :: key_derivation_params

record kdf_config_builder =
  kb_pbkdf2 :: "pbkdf2_config option"
  kb_argon2 :: "argon2_config option"
  kb_scrypt :: "scrypt_config option"

definition builder_pbkdf2 :: kdf_config_builder where
  "builder_pbkdf2 = \<lparr>kb_pbkdf2 = Some default_pbkdf2_config, kb_argon2 = None, kb_scrypt = None\<rparr>"

definition builder_argon2 :: kdf_config_builder where
  "builder_argon2 = \<lparr>kb_pbkdf2 = None, kb_argon2 = Some default_argon2_config, kb_scrypt = None\<rparr>"

definition builder_scrypt :: kdf_config_builder where
  "builder_scrypt = \<lparr>kb_pbkdf2 = None, kb_argon2 = None, kb_scrypt = Some default_scrypt_config\<rparr>"

definition with_iterations :: "u32 \<Rightarrow> kdf_config_builder \<Rightarrow> kdf_config_builder" where
  "with_iterations n b = b\<lparr>kb_pbkdf2 := map_option (\<lambda>c. c\<lparr>pb_iterations := n\<rparr>) (kb_pbkdf2 b)\<rparr>"

definition with_memory :: "u32 \<Rightarrow> kdf_config_builder \<Rightarrow> kdf_config_builder" where
  "with_memory n b = b\<lparr>kb_argon2 := map_option (\<lambda>c. c\<lparr>ar_memory_kb := n\<rparr>) (kb_argon2 b)\<rparr>"

definition with_time_cost :: "u32 \<Rightarrow> kdf_config_builder \<Rightarrow> kdf_config_builder" where
  "with_time_cost n b = b\<lparr>kb_argon2 := map_option (\<lambda>c. c\<lparr>time_cost := n\<rparr>) (kb_argon2 b)\<rparr>"

definition with_parallelism :: "u32 \<Rightarrow> kdf_config_builder \<Rightarrow> kdf_config_builder" where
  "with_parallelism n b = b\<lparr>kb_argon2 := map_option (\<lambda>c. c\<lparr>ar_parallelism := n\<rparr>) (kb_argon2 b)\<rparr>"

definition with_scrypt_n :: "u32 \<Rightarrow> kdf_config_builder \<Rightarrow> kdf_config_builder" where
  "with_scrypt_n n b = b\<lparr>kb_scrypt := map_option (\<lambda>c. c\<lparr>scrypt_n := n\<rparr>) (kb_scrypt b)\<rparr>"

definition with_scrypt_r :: "u32 \<Rightarrow> kdf_config_builder \<Rightarrow> kdf_config_builder" where
  "with_scrypt_r n b = b\<lparr>kb_scrypt := map_option (\<lambda>c. c\<lparr>scrypt_r := n\<rparr>) (kb_scrypt b)\<rparr>"

definition with_scrypt_p :: "u32 \<Rightarrow> kdf_config_builder \<Rightarrow> kdf_config_builder" where
  "with_scrypt_p n b = b\<lparr>kb_scrypt := map_option (\<lambda>c. c\<lparr>scrypt_p := n\<rparr>) (kb_scrypt b)\<rparr>"

definition with_key_length :: "u64 \<Rightarrow> kdf_config_builder \<Rightarrow> kdf_config_builder" where
  "with_key_length n b =
     (case (kb_pbkdf2 b, kb_argon2 b, kb_scrypt b) of
        (Some c, _, _) \<Rightarrow> b\<lparr>kb_pbkdf2 := Some (c\<lparr>pb_key_length := n\<rparr>)\<rparr>
      | (None, Some c, _) \<Rightarrow> b\<lparr>kb_argon2 := Some (c\<lparr>ar_key_length := n\<rparr>)\<rparr>
      | (None, None, Some c) \<Rightarrow> b\<lparr>kb_scrypt := Some (c\<lparr>sc_key_length := n\<rparr>)\<rparr>
      | _ \<Rightarrow> b)"

definition with_salt_length :: "u64 \<Rightarrow> kdf_config_builder \<Rightarrow> kdf_config_builder" where
  "with_salt_length n b =
     (case (kb_pbkdf2 b, kb_argon2 b, kb_scrypt b) of
        (Some c, _, _) \<Rightarrow> b\<lparr>kb_pbkdf2 := Some (c\<lparr>pb_salt_length := n\<rparr>)\<rparr>
      | (None, Some c, _) \<Rightarrow> b\<lparr>kb_argon2 := Some (c\<lparr>ar_salt_length := n\<rparr>)\<rparr>
      | (None, None, Some c) \<Rightarrow> b\<lparr>kb_scrypt := Some (c\<lparr>sc_salt_length := n\<rparr>)\<rparr>
      | _ \<Rightarrow> b)"

definition build_pbkdf2 :: "kdf_config_builder \<Rightarrow> pbkdf2_config" where
  "build_pbkdf2 b = (case kb_pbkdf2 b of Some c \<Rightarrow> c | None \<Rightarrow> default_pbkdf2_config)"

definition build_argon2 :: "kdf_config_builder \<Rightarrow> argon2_config" where
  "build_argon2 b = (case kb_argon2 b of Some c \<Rightarrow> c | None \<Rightarrow> default_argon2_config)"

definition build_scrypt :: "kdf_config_builder \<Rightarrow> scrypt_config" where
  "build_scrypt b = (case kb_scrypt b of Some c \<Rightarrow> c | None \<Rightarrow> default_scrypt_config)"

end
