(* ===== verification/Aes_Gcm_Engine.thy ===== *)
theory Aes_Gcm_Engine
  imports Encryption_Types Error_Codes
begin

text \<open>
  encryption/aes_gcm_engine.h and encryption/aes_gcm_engine.cpp: the engine for AES-256-GCM and its
  streams. OpenSSL is a parameter: the cipher with its tag, the random generator, and which calls
  fail. A vector whose size is smaller than what the code writes into it is not modelled; the
  properties ask for the sizes that exclude it. Times are the duration an operation took.
\<close>

section \<open>OpenSSL\<close>

text \<open>The calls that can fail, with the length that is passed to those that take one.\<close>

datatype ssl_call =
  Ctx_new | Init_cipher | Set_ivlen int | Init_key | Update_aad | Update | Final | Get_tag int | Set_tag int

text \<open>\<open>gcm_encrypt\<close> and \<open>gcm_decrypt\<close> treat the data from a position of the stream on, for a key and an initialisation
  vector; the tag of a length and its verification are about key, vector, authenticated data and the ciphertext.\<close>

record openssl =
  gcm_encrypt :: "bytes \<Rightarrow> bytes \<Rightarrow> nat \<Rightarrow> bytes \<Rightarrow> bytes"
  gcm_decrypt :: "bytes \<Rightarrow> bytes \<Rightarrow> nat \<Rightarrow> bytes \<Rightarrow> bytes"
  gcm_tag :: "bytes \<Rightarrow> bytes \<Rightarrow> bytes \<Rightarrow> bytes \<Rightarrow> nat \<Rightarrow> bytes"
  gcm_verify :: "bytes \<Rightarrow> bytes \<Rightarrow> bytes \<Rightarrow> bytes \<Rightarrow> bytes \<Rightarrow> bool"
  rand_bytes :: "int \<Rightarrow> bytes option"
  ssl_fails :: "ssl_call \<Rightarrow> bool"
  op_duration :: int

definition int_of_u64 :: "u64 \<Rightarrow> int" where
  "int_of_u64 n = sint (ucast n :: u32)"

definition any_fails :: "openssl \<Rightarrow> ssl_call list \<Rightarrow> bool" where
  "any_fails ssl cs \<longleftrightarrow> list_ex (ssl_fails ssl) cs"

section \<open>The engine\<close>

record encryption_statistics =
  bytes_encrypted :: u64
  bytes_decrypted :: u64
  encryption_ops :: u64
  decryption_ops :: u64
  enc_errors :: u64
  total_encrypt_time :: int
  total_decrypt_time :: int

definition no_encryption_statistics :: encryption_statistics where
  "no_encryption_statistics =
     \<lparr>bytes_encrypted = 0, bytes_decrypted = 0, encryption_ops = 0, decryption_ops = 0, enc_errors = 0,
      total_encrypt_time = 0, total_decrypt_time = 0\<rparr>"

record encryption_result =
  er_ciphertext :: bytes
  er_metadata :: encryption_metadata

record decryption_result =
  dr_plaintext :: bytes
  dr_original_size :: u64

record gcm_engine =
  ge_config :: aes_gcm_config
  ge_key :: bytes
  ge_state :: encryption_state
  ge_stats :: encryption_statistics
  iv_counter :: u64

definition create_gcm_engine :: "aes_gcm_config \<Rightarrow> gcm_engine" where
  "create_gcm_engine cfg =
     \<lparr>ge_config = cfg, ge_key = [], ge_state = Uninitialized, ge_stats = no_encryption_statistics, iv_counter = 0\<rparr>"

definition generate_counter_iv :: "openssl \<Rightarrow> gcm_engine \<Rightarrow> gcm_engine \<times> bytes" where
  "generate_counter_iv ssl e =
     (case rand_bytes ssl 8 of
        None \<Rightarrow> (e, [])
      | Some r \<Rightarrow>
          let n = unat (gcm_iv_size (ge_config e)); counter = iv_counter e;
              iv = (if n \<ge> 12 then r @ nat_to_le 4 (unat (ucast counter :: u32)) @ replicate (n - 12) 0
                    else take n (r @ replicate n 0))
          in (e\<lparr>iv_counter := counter + 1\<rparr>, iv))"

definition derive_chunk_iv :: "openssl \<Rightarrow> u64 \<Rightarrow> gcm_engine \<Rightarrow> bytes" where
  "derive_chunk_iv ssl chunk_index e =
     (let n = gcm_iv_size (ge_config e)
      in case rand_bytes ssl (int_of_u64 (n - 4)) of
           None \<Rightarrow> []
         | Some r \<Rightarrow>
             if unat n \<ge> 12 then r @ nat_to_le 4 (unat (ucast chunk_index :: u32)) else r @ replicate 4 0)"

definition update_stats_encrypt :: "u64 \<Rightarrow> int \<Rightarrow> gcm_engine \<Rightarrow> gcm_engine" where
  "update_stats_encrypt n d e =
     e\<lparr>ge_stats := (ge_stats e)\<lparr>bytes_encrypted := bytes_encrypted (ge_stats e) + n,
         encryption_ops := encryption_ops (ge_stats e) + 1, total_encrypt_time := total_encrypt_time (ge_stats e) + d\<rparr>\<rparr>"

definition update_stats_decrypt :: "u64 \<Rightarrow> int \<Rightarrow> gcm_engine \<Rightarrow> gcm_engine" where
  "update_stats_decrypt n d e =
     e\<lparr>ge_stats := (ge_stats e)\<lparr>bytes_decrypted := bytes_decrypted (ge_stats e) + n,
         decryption_ops := decryption_ops (ge_stats e) + 1, total_decrypt_time := total_decrypt_time (ge_stats e) + d\<rparr>\<rparr>"

definition operation_failed :: "gcm_engine \<Rightarrow> gcm_engine" where
  "operation_failed e =
     e\<lparr>ge_stats := (ge_stats e)\<lparr>enc_errors := enc_errors (ge_stats e) + 1\<rparr>, ge_state := Error_state\<rparr>"

definition set_key :: "bytes \<Rightarrow> gcm_engine \<Rightarrow> gcm_engine \<times> unit result" where
  "set_key k e =
     (if word_of_nat (length k) \<noteq> AES_256_KEY_SIZE then (e, Inl Invalid_configuration)
      else (e\<lparr>ge_key := k, ge_state := Ready\<rparr>, Inr ()))"

definition set_derived_key :: "derived_key \<Rightarrow> gcm_engine \<Rightarrow> gcm_engine \<times> unit result" where
  "set_derived_key d = set_key (dk_key d)"

definition has_key :: "gcm_engine \<Rightarrow> bool" where
  "has_key e \<longleftrightarrow> ge_key e \<noteq> []"

definition clear_key :: "gcm_engine \<Rightarrow> gcm_engine" where
  "clear_key e = e\<lparr>ge_key := [], ge_state := Uninitialized\<rparr>"

text \<open>Every failing call ends an operation in the same way; the calls are checked in the order of the code.\<close>

definition encrypt :: "openssl \<Rightarrow> bytes \<Rightarrow> bytes \<Rightarrow> gcm_engine \<Rightarrow> gcm_engine \<times> encryption_result result" where
  "encrypt ssl pt aad e =
     (if \<not> has_key e then (e, Inl Not_initialized)
      else if ssl_fails ssl Ctx_new then (operation_failed e, Inl Internal_error)
      else
        let (e, iv) = generate_counter_iv ssl e; cfg = ge_config e; tag_len = unat (gcm_tag_size cfg)
        in if iv = [] then (operation_failed e, Inl Internal_error)
           else if any_fails ssl ([Init_cipher, Set_ivlen (int_of_u64 (gcm_iv_size cfg)), Init_key] @
                     (if aad \<noteq> [] then [Update_aad] else []) @ [Update, Final, Get_tag (int_of_u64 (gcm_tag_size cfg))])
           then (operation_failed e, Inl Internal_error)
           else
             let ct = gcm_encrypt ssl (ge_key e) iv 0 pt
             in ((update_stats_encrypt (word_of_nat (length pt)) (op_duration ssl) e)\<lparr>ge_state := Ready\<rparr>,
                 Inr \<lparr>er_ciphertext = ct,
                      er_metadata = default_encryption_metadata
                        \<lparr>em_original_size := word_of_nat (length pt), em_iv := iv, em_aad := aad,
                         auth_tag := gcm_tag ssl (ge_key e) iv aad ct tag_len\<rparr>\<rparr>))"

definition decrypt ::
  "openssl \<Rightarrow> bytes \<Rightarrow> encryption_metadata \<Rightarrow> gcm_engine \<Rightarrow> gcm_engine \<times> decryption_result result" where
  "decrypt ssl ct md e =
     (if \<not> has_key e then (e, Inl Not_initialized)
      else if any_fails ssl ([Ctx_new, Init_cipher, Set_ivlen (int_of_u64 (word_of_nat (length (em_iv md)))), Init_key] @
                (if em_aad md \<noteq> [] then [Update_aad] else []) @ [Update] @
                (if auth_tag md \<noteq> [] then [Set_tag (int_of_u64 (word_of_nat (length (auth_tag md))))] else []))
      then (operation_failed e, Inl Internal_error)
      else if ssl_fails ssl Final \<or> \<not> gcm_verify ssl (ge_key e) (em_iv md) (em_aad md) ct (auth_tag md)
      then (operation_failed e, Inl Chunk_checksum_error)
      else ((update_stats_decrypt (word_of_nat (length ct)) (op_duration ssl) e)\<lparr>ge_state := Ready\<rparr>,
            Inr \<lparr>dr_plaintext = gcm_decrypt ssl (ge_key e) (em_iv md) 0 ct, dr_original_size = em_original_size md\<rparr>))"

text \<open>\<open>encrypt_chunk\<close> never sets the length of the vector, so OpenSSL uses the first 12 bytes of it.\<close>

definition encrypt_chunk :: "openssl \<Rightarrow> bytes \<Rightarrow> u64 \<Rightarrow> gcm_engine \<Rightarrow> gcm_engine \<times> encryption_result result" where
  "encrypt_chunk ssl pt chunk_index e =
     (if \<not> has_key e then (e, Inl Not_initialized)
      else if ssl_fails ssl Ctx_new then (operation_failed e, Inl Internal_error)
      else
        let iv = derive_chunk_iv ssl chunk_index e; tag_size = gcm_tag_size (ge_config e)
        in if iv = [] then (operation_failed e, Inl Internal_error)
           else if any_fails ssl [Init_key, Update, Final, Get_tag (int_of_u64 tag_size)]
           then (operation_failed e, Inl Internal_error)
           else
             let ct = gcm_encrypt ssl (ge_key e) (take 12 iv) 0 pt
             in ((update_stats_encrypt (word_of_nat (length pt)) (op_duration ssl) e)\<lparr>ge_state := Ready\<rparr>,
                 Inr \<lparr>er_ciphertext = ct,
                      er_metadata = default_encryption_metadata
                        \<lparr>em_original_size := word_of_nat (length pt), em_iv := iv,
                         auth_tag := gcm_tag ssl (ge_key e) (take 12 iv) [] ct (unat tag_size)\<rparr>\<rparr>))"

definition decrypt_chunk ::
  "openssl \<Rightarrow> bytes \<Rightarrow> encryption_metadata \<Rightarrow> u64 \<Rightarrow> gcm_engine \<Rightarrow> gcm_engine \<times> decryption_result result" where
  "decrypt_chunk ssl ct md chunk_index e = decrypt ssl ct md e"

definition engine_generate_iv :: "openssl \<Rightarrow> gcm_engine \<Rightarrow> gcm_engine \<times> bytes result" where
  "engine_generate_iv ssl e =
     (case generate_counter_iv ssl e of (e, iv) \<Rightarrow> (e, if iv = [] then Inl Internal_error else Inr iv))"

definition verify_tag :: "openssl \<Rightarrow> bytes \<Rightarrow> encryption_metadata \<Rightarrow> gcm_engine \<Rightarrow> gcm_engine \<times> bool" where
  "verify_tag ssl ct md e = (case decrypt ssl ct md e of (e, r) \<Rightarrow> (e, \<not> isl r))"

definition reset_engine_statistics :: "gcm_engine \<Rightarrow> gcm_engine" where
  "reset_engine_statistics e = e\<lparr>ge_stats := no_encryption_statistics\<rparr>"

definition calculate_ciphertext_size :: "nat \<Rightarrow> nat" where
  "calculate_ciphertext_size n = n"

section \<open>Streams\<close>

text \<open>\<open>evp_ready\<close> is whether \<open>initialize\<close>, whose result the constructors drop, succeeded; a context that is not
  initialised takes no data. \<open>evp_done\<close> is the ciphertext that went through the context.\<close>

record gcm_stream =
  gs_key :: bytes
  gs_metadata :: encryption_metadata
  gs_config :: aes_gcm_config
  gs_bytes_processed :: u64
  gs_total_size :: u64
  is_encrypting :: bool
  finalized :: bool
  evp_ready :: bool
  evp_done :: bytes

definition stream_initialize :: "openssl \<Rightarrow> gcm_stream \<Rightarrow> gcm_stream" where
  "stream_initialize ssl s =
     (let md = gs_metadata s; n = gcm_iv_size (gs_config s); aad = (if em_aad md \<noteq> [] then [Update_aad] else [])
      in if ssl_fails ssl Ctx_new then s
         else if is_encrypting s then
           (case rand_bytes ssl (int_of_u64 n) of
              None \<Rightarrow> s\<lparr>gs_metadata := md\<lparr>em_iv := replicate (unat n) 0\<rparr>\<rparr>
            | Some r \<Rightarrow>
                s\<lparr>gs_metadata := md\<lparr>em_iv := r\<rparr>,
                  evp_ready := \<not> any_fails ssl ([Init_cipher, Set_ivlen (int_of_u64 n), Init_key] @ aad)\<rparr>)
         else
           s\<lparr>evp_ready := \<not> any_fails ssl
               ([Init_cipher, Set_ivlen (int_of_u64 (word_of_nat (length (em_iv md)))), Init_key] @ aad @
                (if auth_tag md \<noteq> [] then [Set_tag (int_of_u64 (word_of_nat (length (auth_tag md))))] else []))\<rparr>)"


definition create_decrypt_stream :: "openssl \<Rightarrow> encryption_metadata \<Rightarrow> gcm_engine \<Rightarrow> gcm_stream option" where
  "create_decrypt_stream ssl md e =
     (if \<not> has_key e then None
      else
        Some (stream_initialize ssl
          \<lparr>gs_key = ge_key e, gs_metadata = md, gs_config = ge_config e, gs_bytes_processed = 0,
           gs_total_size = em_original_size md, is_encrypting = False, finalized = False, evp_ready = False,
           evp_done = []\<rparr>))"




section \<open>What OpenSSL documents\<close>

text \<open>Encryption keeps the length, is undone by decryption at the same position and can be done piece by piece; a tag
  of 1 to 16 bytes has the requested length and is verified by comparison; the generator fills what it was given.\<close>

definition sound_gcm :: "openssl \<Rightarrow> bool" where
  "sound_gcm ssl \<longleftrightarrow>
     (\<forall>k iv i p. length (gcm_encrypt ssl k iv i p) = length p) \<and>
     (\<forall>k iv i p. gcm_decrypt ssl k iv i (gcm_encrypt ssl k iv i p) = p) \<and>
     (\<forall>k iv i p q. gcm_encrypt ssl k iv i (p @ q) = gcm_encrypt ssl k iv i p @ gcm_encrypt ssl k iv (i + length p) q) \<and>
     (\<forall>k iv aad ct n. 1 \<le> n \<and> n \<le> 16 \<longrightarrow> length (gcm_tag ssl k iv aad ct n) = n) \<and>
     (\<forall>k iv aad ct t. gcm_verify ssl k iv aad ct t \<longleftrightarrow> t \<noteq> [] \<and> t = gcm_tag ssl k iv aad ct (length t)) \<and>
     (\<forall>n r. rand_bytes ssl n = Some r \<longrightarrow> length r = nat n)"

text \<open>Two processes with the same cipher, and one whose calls all succeed.\<close>

definition same_cipher :: "openssl \<Rightarrow> openssl \<Rightarrow> bool" where
  "same_cipher ssl ssl' \<longleftrightarrow>
     gcm_decrypt ssl' = gcm_decrypt ssl \<and> gcm_encrypt ssl' = gcm_encrypt ssl \<and> gcm_tag ssl' = gcm_tag ssl \<and>
     gcm_verify ssl' = gcm_verify ssl"

definition no_failures :: "openssl \<Rightarrow> bool" where
  "no_failures ssl \<longleftrightarrow> any_fails ssl = (\<lambda>_. False) \<and> \<not> ssl_fails ssl Final"

definition usable_tag :: "aes_gcm_config \<Rightarrow> bool" where
  "usable_tag cfg \<longleftrightarrow> 1 \<le> gcm_tag_size cfg \<and> gcm_tag_size cfg \<le> 16"

lemma usable_tag_nat: "usable_tag cfg \<Longrightarrow> 1 \<le> unat (gcm_tag_size cfg) \<and> unat (gcm_tag_size cfg) \<le> 16"
  by (simp add: usable_tag_def word_le_nat_alt)

lemma sound_gcmD:
  assumes "sound_gcm ssl"
  shows "length (gcm_encrypt ssl k iv i p) = length p" "gcm_decrypt ssl k iv i (gcm_encrypt ssl k iv i p) = p"
    "gcm_encrypt ssl k iv i (p @ q) = gcm_encrypt ssl k iv i p @ gcm_encrypt ssl k iv (i + length p) q"
    "1 \<le> n \<Longrightarrow> n \<le> 16 \<Longrightarrow> length (gcm_tag ssl k iv aad ct n) = n"
    "gcm_verify ssl k iv aad ct t \<longleftrightarrow> t \<noteq> [] \<and> t = gcm_tag ssl k iv aad ct (length t)"
    "rand_bytes ssl m = Some r \<Longrightarrow> length r = nat m"
  using assms by (simp_all add: sound_gcm_def)

lemma tag_verifies:
  assumes "sound_gcm ssl" and "usable_tag cfg"
  shows "gcm_verify ssl k iv aad ct (gcm_tag ssl k iv' aad ct (unat (gcm_tag_size cfg))) \<longleftrightarrow>
       gcm_tag ssl k iv' aad ct (unat (gcm_tag_size cfg)) = gcm_tag ssl k iv aad ct (unat (gcm_tag_size cfg))"
proof -
  let ?t = "gcm_tag ssl k iv' aad ct (unat (gcm_tag_size cfg))"
  have n: "length ?t = unat (gcm_tag_size cfg)" "?t \<noteq> []"
    using sound_gcmD(4) [OF assms(1)] usable_tag_nat [OF assms(2)] by (auto simp flip: length_greater_0_conv)
  have "gcm_verify ssl k iv aad ct ?t \<longleftrightarrow> ?t \<noteq> [] \<and> ?t = gcm_tag ssl k iv aad ct (length ?t)"
    by (rule sound_gcmD(5) [OF assms(1)])
  then show ?thesis using n by (simp only: simp_thms)
qed

lemma decrypt_no_failures:
  assumes "no_failures ssl" and "has_key d"
  shows "snd (decrypt ssl ct md d) =
     (if gcm_verify ssl (ge_key d) (em_iv md) (em_aad md) ct (auth_tag md)
      then Inr \<lparr>dr_plaintext = gcm_decrypt ssl (ge_key d) (em_iv md) 0 ct, dr_original_size = em_original_size md\<rparr>
      else Inl Chunk_checksum_error)"
  using assms by (simp add: decrypt_def no_failures_def)

lemma counter_iv_frame [simp]:
  "ge_config (fst (generate_counter_iv ssl e)) = ge_config e" "ge_key (fst (generate_counter_iv ssl e)) = ge_key e"
  "ge_state (fst (generate_counter_iv ssl e)) = ge_state e" "ge_stats (fst (generate_counter_iv ssl e)) = ge_stats e"
  by (simp_all add: generate_counter_iv_def Let_def split: option.split)

section \<open>Reachable engines\<close>

datatype engine_call =
    Set_key bytes | Clear_key | Encrypt openssl bytes bytes | Decrypt openssl bytes encryption_metadata
  | Encrypt_chunk openssl bytes u64 | Generate_iv openssl | Reset_statistics

text \<open>A call with the vector that it made with the counter, if it made one.\<close>

definition engine_step :: "engine_call \<Rightarrow> gcm_engine \<Rightarrow> gcm_engine \<times> bytes option" where
  "engine_step c e =
     (case c of
        Set_key k \<Rightarrow> (fst (set_key k e), None)
      | Clear_key \<Rightarrow> (clear_key e, None)
      | Encrypt ssl pt aad \<Rightarrow>
          (case encrypt ssl pt aad e of
             (e, Inr r) \<Rightarrow> (e, Some (em_iv (er_metadata r)))
           | (e, Inl _) \<Rightarrow> (e, None))
      | Decrypt ssl ct md \<Rightarrow> (fst (decrypt ssl ct md e), None)
      | Encrypt_chunk ssl pt i \<Rightarrow> (fst (encrypt_chunk ssl pt i e), None)
      | Generate_iv ssl \<Rightarrow>
          (case engine_generate_iv ssl e of (e, Inr iv) \<Rightarrow> (e, Some iv) | (e, Inl _) \<Rightarrow> (e, None))
      | Reset_statistics \<Rightarrow> (reset_engine_statistics e, None))"

fun engine_run :: "engine_call list \<Rightarrow> gcm_engine \<Rightarrow> gcm_engine \<times> bytes list" where
  "engine_run [] e = (e, [])"
| "engine_run (c # cs) e =
     (case engine_step c e of (e', iv) \<Rightarrow>
        (case engine_run cs e' of (e'', ivs) \<Rightarrow> (e'', (case iv of Some x \<Rightarrow> x # ivs | None \<Rightarrow> ivs))))"

lemmas engine_step_simps = engine_step_def set_key_def clear_key_def encrypt_def decrypt_def encrypt_chunk_def
  engine_generate_iv_def reset_engine_statistics_def Let_def operation_failed_def update_stats_encrypt_def
  update_stats_decrypt_def


text \<open>Before an operation starts an engine has a state that says whether it has a key, of the right length.\<close>

definition engine_ok :: "gcm_engine \<Rightarrow> bool" where
  "engine_ok e \<longleftrightarrow>
     (ge_key e = [] \<and> ge_state e = Uninitialized \<or>
      length (ge_key e) = 32 \<and> (ge_state e = Ready \<or> ge_state e = Error_state))"

lemma engine_ok_step:
  assumes "engine_ok e" and "\<And>k. c = Set_key k \<Longrightarrow> length k < 2 ^ 64"
  shows "engine_ok (fst (engine_step c e))"
proof (cases c)
  case (Set_key k)
  then have "unat (word_of_nat (length k) :: u64) = length k"
    using assms(2) unat_u64_of_nat [of "length k"] by simp
  then have "word_of_nat (length k) = (32 :: u64) \<Longrightarrow> length k = 32" by simp
  then show ?thesis
    using assms(1) Set_key by (auto simp: engine_ok_def engine_step_def set_key_def AES_256_KEY_SIZE_def)
next
  case (Encrypt ssl pt aad)
  obtain e1 x where "generate_counter_iv ssl e = (e1, x)" "ge_key e1 = ge_key e"
    using counter_iv_frame(2) [of ssl e] by (metis surj_pair fst_conv)
  then show ?thesis
    using assms(1) Encrypt by (auto simp: engine_ok_def engine_step_simps has_key_def split: if_splits)
next
  case (Generate_iv ssl)
  obtain e1 x where "generate_counter_iv ssl e = (e1, x)" "ge_key e1 = ge_key e" "ge_state e1 = ge_state e"
    using counter_iv_frame(2,3) [of ssl e] by (metis surj_pair fst_conv)
  then show ?thesis
    using assms(1) Generate_iv by (auto simp: engine_ok_def engine_step_def engine_generate_iv_def)
qed (use assms(1) in \<open>auto simp: engine_ok_def engine_step_simps has_key_def split: if_splits\<close>)


lemma mod_add_inj: "(a + i) mod m = (a + j) mod m \<Longrightarrow> i < m \<Longrightarrow> j < m \<Longrightarrow> i = (j :: nat)"
proof (induction i j rule: linorder_wlog)
  case (le i j)
  then have "m dvd j - i" using mod_eq_dvd_iff_nat [of "a + i" "a + j" m] by simp
  then show ?case using le by (metis dvd_imp_le diff_is_0_eq le_antisym less_imp_diff_less linorder_not_less not_gr_zero)
qed simp

text \<open>The calls of a run come with a sound OpenSSL and keys whose size is a \<open>size_t\<close>.\<close>

fun sound_call :: "engine_call \<Rightarrow> bool" where
  "sound_call (Set_key k) \<longleftrightarrow> length k < 2 ^ 64"
| "sound_call (Encrypt ssl pt aad) \<longleftrightarrow> sound_gcm ssl"
| "sound_call (Generate_iv ssl) \<longleftrightarrow> sound_gcm ssl"
| "sound_call c \<longleftrightarrow> True"


lemma engine_run_ok:
  "engine_ok e \<Longrightarrow> list_all sound_call cs \<Longrightarrow> engine_ok (fst (engine_run cs e))"
proof (induction cs arbitrary: e)
  case (Cons c cs)
  have "engine_ok (fst (engine_step c e))"
    using Cons.prems by (intro engine_ok_step) auto
  moreover obtain e1 iv where "engine_step c e = (e1, iv)" by fastforce
  moreover obtain e2 ivs where "engine_run cs e1 = (e2, ivs)" by fastforce
  ultimately show ?case using Cons.IH [of e1] Cons.prems(2) by simp
qed simp

section \<open>Properties\<close>


text \<open>C24: in every state an engine reaches between calls, it has no key and is uninitialised, or has a key of 32 bytes
  and is ready or in the error state; it never stays in the processing state.\<close>

theorem engine_state_type:
  assumes "list_all sound_call cs" and "engine_run cs (create_gcm_engine cfg) = (e, ivs)"
  shows "length (ge_key e) = (if has_key e then 32 else 0) \<and>
         (ge_state e = Uninitialized \<longleftrightarrow> \<not> has_key e) \<and> ge_state e \<noteq> Processing"
proof -
  have "engine_ok e"
    using engine_run_ok [OF _ assms(1), of "create_gcm_engine cfg"] assms(2) by (simp add: engine_ok_def create_gcm_engine_def)
  then show ?thesis by (auto simp: engine_ok_def has_key_def)
qed

lemma decrypt_of_encrypt:
  assumes "sound_gcm ssl" and "usable_tag (ge_config e)" and "encrypt ssl pt aad e = (e', Inr r)"
    and "same_cipher ssl ssl'" and "no_failures ssl'" and "ge_key d = ge_key e"
  shows "snd (decrypt ssl' (er_ciphertext r) (er_metadata r) d) =
           Inr \<lparr>dr_plaintext = pt, dr_original_size = word_of_nat (length pt)\<rparr>"
proof -
  obtain e1 iv where e1: "generate_counter_iv ssl e = (e1, iv)" "ge_key e1 = ge_key e" "ge_config e1 = ge_config e"
    using counter_iv_frame(1,2) [of ssl e] by (metis surj_pair fst_conv)
  have k: "has_key d" using assms(3,6) by (auto simp: encrypt_def has_key_def split: if_splits)
  show ?thesis
    using assms(3,4,6) e1 decrypt_no_failures [OF assms(5) k] tag_verifies [OF assms(1,2)] sound_gcmD(2) [OF assms(1)]
    by (auto simp: encrypt_def same_cipher_def Let_def split: if_splits)
qed

text \<open>What \<open>encrypt\<close> produced is decrypted, by any engine with the same key, to the data that went in.\<close>

theorem encrypted_data_decrypts:
  assumes "sound_gcm ssl" and "usable_tag (ge_config e)" and "encrypt ssl pt aad e = (e', Inr r)"
    and "same_cipher ssl ssl'" and "no_failures ssl'" and "ge_key d = ge_key e"
  shows "snd (decrypt ssl' (er_ciphertext r) (er_metadata r) d) =
           Inr \<lparr>dr_plaintext = pt, dr_original_size = word_of_nat (length pt)\<rparr>"
  by (rule decrypt_of_encrypt [OF assms])

text \<open>An encrypted chunk is decrypted to its data when vectors have the default length. With a longer vector it is
  lost: encryption uses its first 12 bytes, decryption all of it, and the tag is rejected (unless the tags of the two
  vectors happen to be equal).\<close>

theorem chunk_needs_default_iv_size:
  assumes "sound_gcm ssl" and "usable_tag (ge_config e)" and "encrypt_chunk ssl pt i e = (e', Inr r)"
    and "same_cipher ssl ssl'" and "no_failures ssl'" and "ge_key d = ge_key e"
    and "iv = em_iv (er_metadata r)" and "n = unat (gcm_tag_size (ge_config e))"
  shows "(gcm_iv_size (ge_config e) = 12 \<longrightarrow>
            snd (decrypt_chunk ssl' (er_ciphertext r) (er_metadata r) j d) =
              Inr \<lparr>dr_plaintext = pt, dr_original_size = word_of_nat (length pt)\<rparr>) \<and>
         (gcm_tag ssl (ge_key e) iv [] (er_ciphertext r) n \<noteq> gcm_tag ssl (ge_key e) (take 12 iv) [] (er_ciphertext r) n \<longrightarrow>
            snd (decrypt_chunk ssl' (er_ciphertext r) (er_metadata r) j d) = Inl Chunk_checksum_error)"
proof -
  have k: "has_key d" using assms(3,6) by (auto simp: encrypt_chunk_def has_key_def split: if_splits)
  have "length (derive_chunk_iv ssl i e) = 12" if "gcm_iv_size (ge_config e) = 12" "derive_chunk_iv ssl i e \<noteq> []"
    using that sound_gcmD(6) [OF assms(1), of "int_of_u64 8"]
    by (auto simp: derive_chunk_iv_def Let_def int_of_u64_def length_nat_to_le split: option.splits)
  then show ?thesis
    using assms(3,4,6-8) decrypt_no_failures [OF assms(5) k] tag_verifies [OF assms(1,2)] sound_gcmD(2) [OF assms(1)]
    by (auto simp: encrypt_chunk_def decrypt_chunk_def same_cipher_def Let_def default_encryption_metadata_def
        split: if_splits)
qed



text \<open>A cipher that adds one to every byte, with a tag that depends on the vector.\<close>

definition toy_ssl :: openssl where
  "toy_ssl =
     \<lparr>gcm_encrypt = (\<lambda>k iv i p. map (\<lambda>b. b + 1) p), gcm_decrypt = (\<lambda>k iv i p. map (\<lambda>b. b - 1) p),
      gcm_tag = (\<lambda>k iv aad ct n. take n (rev iv @ replicate 16 0)),
      gcm_verify = (\<lambda>k iv aad ct t. t \<noteq> [] \<and> t = take (length t) (rev iv @ replicate 16 0)),
      rand_bytes = (\<lambda>n. Some (replicate (nat n) 1)), ssl_fails = (\<lambda>_. False), op_duration = 0\<rparr>"

lemma sound_toy_ssl: "sound_gcm toy_ssl" "same_cipher toy_ssl toy_ssl" "no_failures toy_ssl"
  by (auto simp: sound_gcm_def toy_ssl_def same_cipher_def no_failures_def any_fails_def comp_def list_ex_iff)

definition toy_engine :: "u64 \<Rightarrow> gcm_engine" where
  "toy_engine n = fst (set_key (replicate 32 7) (create_gcm_engine (default_gcm_config\<lparr>gcm_iv_size := n\<rparr>)))"

lemma toy_engine_simps:
  "ge_key (toy_engine n) = replicate 32 7" "has_key (toy_engine n)" "usable_tag (ge_config (toy_engine n))"
  "gcm_iv_size (ge_config (toy_engine n)) = n" "gcm_tag_size (ge_config (toy_engine n)) = 16"
  by (simp_all add: toy_engine_def set_key_def create_gcm_engine_def AES_256_KEY_SIZE_def has_key_def usable_tag_def
      default_gcm_config_def AES_GCM_TAG_SIZE_def)


theorem engine_state_type_witness:
  "ge_state (fst (engine_run [Set_key (replicate 32 7), Clear_key] (create_gcm_engine default_gcm_config))) \<noteq> Processing"
proof -
  obtain e ivs where r: "engine_run [Set_key (replicate 32 7), Clear_key] (create_gcm_engine default_gcm_config) = (e, ivs)"
    by fastforce
  show ?thesis using engine_state_type [OF _ r] by (simp only: r fst_conv) simp
qed

theorem encrypted_data_decrypts_witness:
  "\<exists>e' r. encrypt toy_ssl [1, 2] [9] (toy_engine 12) = (e', Inr r) \<and> er_ciphertext r = [2, 3] \<and>
     snd (decrypt toy_ssl [2, 3] (er_metadata r) (toy_engine 12)) = Inr \<lparr>dr_plaintext = [1, 2], dr_original_size = 2\<rparr>"
proof -
  have "\<exists>e' r. encrypt toy_ssl [1, 2] [9] (toy_engine 12) = (e', Inr r) \<and> er_ciphertext r = [2, 3]"
    by (simp add: encrypt_def generate_counter_iv_def toy_engine_simps Let_def any_fails_def toy_ssl_def)
  then obtain e' r where r: "encrypt toy_ssl [1, 2] [9] (toy_engine 12) = (e', Inr r)" "er_ciphertext r = [2, 3]" by blast
  then show ?thesis
    using encrypted_data_decrypts [OF sound_toy_ssl(1) toy_engine_simps(3) r(1) sound_toy_ssl(2,3), of "toy_engine 12"] by simp
qed

theorem chunk_needs_default_iv_size_witness:
  "\<exists>e' r. encrypt_chunk toy_ssl [1] 0 (toy_engine 16) = (e', Inr r) \<and>
     snd (decrypt_chunk toy_ssl (er_ciphertext r) (er_metadata r) 0 (toy_engine 16)) = Inl Chunk_checksum_error"
proof -
  have z: "nat_to_le n 0 = replicate n 0" for n by (induction n) simp_all
  have rand: "rand_bytes toy_ssl n = Some (replicate (nat n) 1)" and never: "ssl_fails toy_ssl = (\<lambda>_. False)" for n
    by (simp_all add: toy_ssl_def)
  have "derive_chunk_iv toy_ssl 0 (toy_engine 16) = replicate 12 1 @ replicate 4 0"
    by (simp add: derive_chunk_iv_def toy_engine_simps Let_def int_of_u64_def rand z)
  then have "\<exists>e' r. encrypt_chunk toy_ssl [1] 0 (toy_engine 16) = (e', Inr r) \<and>
      em_iv (er_metadata r) = replicate 12 1 @ replicate 4 0"
    by (simp add: encrypt_chunk_def toy_engine_simps Let_def any_fails_def never)
  then obtain e' r where r: "encrypt_chunk toy_ssl [1] 0 (toy_engine 16) = (e', Inr r)"
    "em_iv (er_metadata r) = replicate 12 1 @ replicate 4 0" by blast
  have "gcm_tag toy_ssl k (replicate 12 1 @ replicate 4 0) aad ct 16 ! 0 = 0" "gcm_tag toy_ssl k (replicate 12 1) aad ct 16 ! 0 = 1"
    for k aad ct by (simp_all add: toy_ssl_def nth_append)
  then have "gcm_tag toy_ssl k (replicate 12 1 @ replicate 4 0) aad ct 16 \<noteq> gcm_tag toy_ssl k (replicate 12 1) aad ct 16"
    for k aad ct by (metis zero_neq_one)
  then show ?thesis
    using chunk_needs_default_iv_size [OF sound_toy_ssl(1) toy_engine_simps(3) r(1) sound_toy_ssl(2,3), of "toy_engine 16"] r
    by (simp add: toy_engine_simps)
qed


end
