(* ===== verification/Key_Manager.thy ===== *)
theory Key_Manager
  imports Aes_Gcm_Engine "HOL-Library.List_Lexorder" "HOL-Library.Char_ord"
begin

text \<open>
  encryption/key_manager.h and encryption/key_manager.cpp: key derivation with PBKDF2 and Argon2id,
  the key storage interface with its in-memory implementation, and the key manager with its
  metadata, rotation and usage tracking. OpenSSL is a parameter, and so is the system clock. The
  operations run one at a time. Looking a key up does not change a storage; a \<open>std::map\<close> is an
  association list, sorted where it is listed. Zeroing memory that is then freed has no effect in
  the model.
\<close>

section \<open>Key derivation\<close>

text \<open>\<open>PKCS5_PBKDF2_HMAC\<close> with SHA-256 takes password, salt, iterations and length; \<open>argon2_fetch\<close> tells whether
  the library offers Argon2id, \<open>argon2_derive\<close> takes password, salt, lanes, memory, iterations and length. \<open>None\<close> is a
  failing call.\<close>

record kdf_lib =
  pbkdf2_hmac :: "bytes \<Rightarrow> bytes \<Rightarrow> int \<Rightarrow> int \<Rightarrow> bytes option"
  argon2_fetch :: bool
  argon2_derive :: "bytes \<Rightarrow> bytes \<Rightarrow> u32 \<Rightarrow> u32 \<Rightarrow> u32 \<Rightarrow> nat \<Rightarrow> bytes option"
  kl_rand :: "int \<Rightarrow> bytes option"
  kl_now :: int

definition random_vector :: "kdf_lib \<Rightarrow> u64 \<Rightarrow> bytes result" where
  "random_vector kl n =
     (case kl_rand kl (int_of_u64 n) of
        None \<Rightarrow> Inl Internal_error
      | Some r \<Rightarrow> Inr (r @ replicate (unat n - length r) 0))"

definition generate_salt :: "kdf_lib \<Rightarrow> u64 \<Rightarrow> bytes result" where
  "generate_salt kl n = random_vector kl n"

definition validate_password :: "bytes \<Rightarrow> unit result" where
  "validate_password pw =
     (if pw = [] then Inl Invalid_configuration
      else if length pw < 8 then Inl Invalid_configuration
      else Inr ())"

definition secure_zero :: "bytes \<Rightarrow> bytes" where
  "secure_zero bs = replicate (length bs) 0"

definition pbkdf2_derive_key :: "kdf_lib \<Rightarrow> pbkdf2_config \<Rightarrow> bytes \<Rightarrow> bytes \<Rightarrow> derived_key result" where
  "pbkdf2_derive_key kl cfg pw salt =
     (if pw = [] then Inl Invalid_configuration
      else if length salt < 8 then Inl Invalid_configuration
      else case pbkdf2_hmac kl pw salt (sint (pb_iterations cfg)) (int_of_u64 (pb_key_length cfg)) of
             None \<Rightarrow> Inl Internal_error
           | Some k \<Rightarrow>
               Inr \<lparr>dk_key = k,
                    dk_params = default_derivation_params
                      \<lparr>kp_kdf := Pbkdf2, kp_salt := salt, kp_iterations := pb_iterations cfg,
                       kp_key_length := pb_key_length cfg\<rparr>\<rparr>)"

definition pbkdf2_derive_fresh :: "kdf_lib \<Rightarrow> pbkdf2_config \<Rightarrow> bytes \<Rightarrow> derived_key result" where
  "pbkdf2_derive_fresh kl cfg pw =
     (case generate_salt kl SALT_SIZE of Inl e \<Rightarrow> Inl e | Inr salt \<Rightarrow> pbkdf2_derive_key kl cfg pw salt)"

definition pbkdf2_derive_with_params ::
  "kdf_lib \<Rightarrow> bytes \<Rightarrow> key_derivation_params \<Rightarrow> derived_key result" where
  "pbkdf2_derive_with_params kl pw ps =
     (if kp_kdf ps \<noteq> Pbkdf2 then Inl Invalid_configuration
      else pbkdf2_derive_key kl
             (default_pbkdf2_config\<lparr>pb_iterations := kp_iterations ps, pb_key_length := kp_key_length ps\<rparr>)
             pw (kp_salt ps))"

definition argon2_params :: "argon2_config \<Rightarrow> bytes \<Rightarrow> key_derivation_params" where
  "argon2_params cfg salt =
     default_derivation_params
       \<lparr>kp_kdf := Argon2id, kp_salt := salt, kp_iterations := time_cost cfg, kp_memory_kb := ar_memory_kb cfg,
        kp_parallelism := ar_parallelism cfg, kp_key_length := ar_key_length cfg\<rparr>"

text \<open>The derivation with OpenSSL 3.2 or later, then the fallback.\<close>

definition argon2_attempt :: "kdf_lib \<Rightarrow> argon2_config \<Rightarrow> bytes \<Rightarrow> bytes \<Rightarrow> bytes option" where
  "argon2_attempt kl cfg pw salt =
     (if argon2_fetch kl
      then argon2_derive kl pw salt (ar_parallelism cfg) (ar_memory_kb cfg) (time_cost cfg) (unat (ar_key_length cfg))
      else None)"

definition fallback_config :: "argon2_config \<Rightarrow> pbkdf2_config" where
  "fallback_config cfg =
     default_pbkdf2_config
       \<lparr>pb_iterations := max PBKDF2_DEFAULT_ITERATIONS (time_cost cfg * 100000), pb_key_length := ar_key_length cfg\<rparr>"

definition argon2_derive_key :: "kdf_lib \<Rightarrow> argon2_config \<Rightarrow> bytes \<Rightarrow> bytes \<Rightarrow> derived_key result" where
  "argon2_derive_key kl cfg pw salt =
     (if pw = [] then Inl Invalid_configuration
      else if length salt < 8 then Inl Invalid_configuration
      else case argon2_attempt kl cfg pw salt of
             Some k \<Rightarrow> Inr \<lparr>dk_key = k, dk_params = argon2_params cfg salt\<rparr>
           | None \<Rightarrow>
               (case pbkdf2_derive_key kl (fallback_config cfg) pw salt of
                  Inl e \<Rightarrow> Inl e
                | Inr d \<Rightarrow> Inr \<lparr>dk_key = dk_key d, dk_params = argon2_params cfg salt\<rparr>))"

definition argon2_derive_fresh :: "kdf_lib \<Rightarrow> argon2_config \<Rightarrow> bytes \<Rightarrow> derived_key result" where
  "argon2_derive_fresh kl cfg pw =
     (case generate_salt kl SALT_SIZE of Inl e \<Rightarrow> Inl e | Inr salt \<Rightarrow> argon2_derive_key kl cfg pw salt)"

definition argon2_derive_with_params ::
  "kdf_lib \<Rightarrow> bytes \<Rightarrow> key_derivation_params \<Rightarrow> derived_key result" where
  "argon2_derive_with_params kl pw ps =
     argon2_derive_key kl
       (default_argon2_config
          \<lparr>time_cost := kp_iterations ps, ar_memory_kb := kp_memory_kb ps, ar_parallelism := kp_parallelism ps,
           ar_key_length := kp_key_length ps\<rparr>)
       pw (kp_salt ps)"

section \<open>Key storage\<close>

record 's key_storage =
  ks_store :: "string \<Rightarrow> bytes \<Rightarrow> 's \<Rightarrow> 's \<times> unit result"
  ks_retrieve :: "string \<Rightarrow> 's \<Rightarrow> bytes result"
  ks_remove :: "string \<Rightarrow> 's \<Rightarrow> 's \<times> unit result"
  ks_exists :: "string \<Rightarrow> 's \<Rightarrow> bool"
  ks_list :: "'s \<Rightarrow> string list"

type_synonym memory_keys = "(string \<times> bytes) list"

definition memory_store_key :: "string \<Rightarrow> bytes \<Rightarrow> memory_keys \<Rightarrow> memory_keys \<times> unit result" where
  "memory_store_key i k s = (if i = [] then (s, Inl Invalid_configuration) else (al_update i k s, Inr ()))"

definition memory_retrieve_key :: "string \<Rightarrow> memory_keys \<Rightarrow> bytes result" where
  "memory_retrieve_key i s = (case al_find s i of None \<Rightarrow> Inl File_not_found | Some k \<Rightarrow> Inr k)"

definition memory_remove_key :: "string \<Rightarrow> memory_keys \<Rightarrow> memory_keys \<times> unit result" where
  "memory_remove_key i s =
     (case al_find s i of None \<Rightarrow> (s, Inl File_not_found) | Some k \<Rightarrow> (al_erase i s, Inr ()))"

definition memory_key_exists :: "string \<Rightarrow> memory_keys \<Rightarrow> bool" where
  "memory_key_exists i s \<longleftrightarrow> al_find s i \<noteq> None"

definition memory_list_keys :: "memory_keys \<Rightarrow> string list" where
  "memory_list_keys s = sort (map fst s)"

definition memory_key_storage :: "memory_keys key_storage" where
  "memory_key_storage =
     \<lparr>ks_store = memory_store_key, ks_retrieve = memory_retrieve_key, ks_remove = memory_remove_key,
      ks_exists = memory_key_exists, ks_list = memory_list_keys\<rparr>"

section \<open>The key manager\<close>

record key_metadata =
  md_key_id :: string
  md_description :: string
  derivation_params :: "key_derivation_params option"
  md_created_at :: int
  md_last_used_at :: int
  md_expires_at :: "int option"
  usage_count :: u64
  md_is_active :: bool
  md_version :: u32

definition default_key_metadata :: key_metadata where
  "default_key_metadata =
     \<lparr>md_key_id = [], md_description = [], derivation_params = None, md_created_at = 0, md_last_used_at = 0,
      md_expires_at = None, usage_count = 0, md_is_active = True, md_version = 1\<rparr>"

record managed_key =
  mk_key :: bytes
  mk_metadata :: key_metadata
  mk_algorithm :: encryption_algorithm

text \<open>\<open>max_age\<close> in the unit of the clock.\<close>

record key_rotation_policy =
  auto_rotate :: bool
  max_uses :: u64
  max_key_age :: int
  keep_versions :: u32

definition default_rotation_policy :: key_rotation_policy where
  "default_rotation_policy =
     \<lparr>auto_rotate = False, max_uses = 1000000, max_key_age = 24 * 30 * 3600 * 1000000000, keep_versions = 3\<rparr>"

record 's key_manager =
  key_store :: 's
  metadata_cache :: "(string \<times> key_metadata) list"
  key_versions :: "(string \<times> managed_key list) list"
  rotation_policy :: key_rotation_policy

definition create_key_manager :: "'s \<Rightarrow> 's key_manager" where
  "create_key_manager s =
     \<lparr>key_store = s, metadata_cache = [], key_versions = [], rotation_policy = default_rotation_policy\<rparr>"

definition generate_random_bytes :: "kdf_lib \<Rightarrow> u64 \<Rightarrow> bytes result" where
  "generate_random_bytes kl n = (if n = 0 then Inl Invalid_configuration else random_vector kl n)"

definition store_key :: "'s key_storage \<Rightarrow> managed_key \<Rightarrow> 's key_manager \<Rightarrow> 's key_manager \<times> unit result" where
  "store_key ks k m =
     (case ks_store ks (md_key_id (mk_metadata k)) (mk_key k) (key_store m) of
        (s, Inl e) \<Rightarrow> (m\<lparr>key_store := s\<rparr>, Inl e)
      | (s, Inr _) \<Rightarrow>
          (m\<lparr>key_store := s,
             metadata_cache := al_update (md_key_id (mk_metadata k)) (mk_metadata k) (metadata_cache m)\<rparr>, Inr ()))"

definition new_managed_key ::
  "kdf_lib \<Rightarrow> string \<Rightarrow> bytes \<Rightarrow> key_derivation_params option \<Rightarrow> encryption_algorithm \<Rightarrow> managed_key" where
  "new_managed_key kl i k ps alg =
     \<lparr>mk_key = k,
      mk_metadata = default_key_metadata
        \<lparr>md_key_id := i, derivation_params := ps, md_created_at := kl_now kl, md_last_used_at := kl_now kl\<rparr>,
      mk_algorithm = alg\<rparr>"

definition store_new_key ::
  "'s key_storage \<Rightarrow> managed_key \<Rightarrow> 's key_manager \<Rightarrow> 's key_manager \<times> managed_key result" where
  "store_new_key ks k m =
     (case store_key ks k m of (m, Inl e) \<Rightarrow> (m, Inl e) | (m, Inr _) \<Rightarrow> (m, Inr k))"

definition generate_key ::
  "'s key_storage \<Rightarrow> kdf_lib \<Rightarrow> string \<Rightarrow> u64 \<Rightarrow> encryption_algorithm \<Rightarrow> 's key_manager \<Rightarrow>
   's key_manager \<times> managed_key result" where
  "generate_key ks kl i n alg m =
     (if i = [] then (m, Inl Invalid_configuration)
      else case generate_random_bytes kl n of
             Inl e \<Rightarrow> (m, Inl e)
           | Inr k \<Rightarrow> store_new_key ks (new_managed_key kl i k None alg) m)"

definition derive_key_from_password ::
  "'s key_storage \<Rightarrow> kdf_lib \<Rightarrow> string \<Rightarrow> bytes \<Rightarrow> argon2_config \<Rightarrow> 's key_manager \<Rightarrow>
   's key_manager \<times> managed_key result" where
  "derive_key_from_password ks kl i pw cfg m =
     (case argon2_derive_fresh kl cfg pw of
        Inl e \<Rightarrow> (m, Inl e)
      | Inr d \<Rightarrow> store_new_key ks (new_managed_key kl i (dk_key d) (Some (dk_params d)) Aes_256_gcm) m)"

definition derive_key_pbkdf2 ::
  "'s key_storage \<Rightarrow> kdf_lib \<Rightarrow> string \<Rightarrow> bytes \<Rightarrow> pbkdf2_config \<Rightarrow> 's key_manager \<Rightarrow>
   's key_manager \<times> managed_key result" where
  "derive_key_pbkdf2 ks kl i pw cfg m =
     (case pbkdf2_derive_fresh kl cfg pw of
        Inl e \<Rightarrow> (m, Inl e)
      | Inr d \<Rightarrow> store_new_key ks (new_managed_key kl i (dk_key d) (Some (dk_params d)) Aes_256_gcm) m)"

definition rederive_key :: "kdf_lib \<Rightarrow> string \<Rightarrow> bytes \<Rightarrow> 's key_manager \<Rightarrow> managed_key result" where
  "rederive_key kl i pw m =
     (case al_find (metadata_cache m) i of
        None \<Rightarrow> Inl File_not_found
      | Some md \<Rightarrow>
          (case derivation_params md of
             None \<Rightarrow> Inl File_not_found
           | Some ps \<Rightarrow>
               (case (if kp_kdf ps = Argon2id then argon2_derive_with_params kl pw ps
                      else if kp_kdf ps = Pbkdf2 then pbkdf2_derive_with_params kl pw ps
                      else Inl Invalid_configuration) of
                  Inl e \<Rightarrow> Inl e
                | Inr d \<Rightarrow> Inr \<lparr>mk_key = dk_key d, mk_metadata = md\<lparr>md_last_used_at := kl_now kl\<rparr>,
                                mk_algorithm = Aes_256_gcm\<rparr>)))"

definition get_key :: "'s key_storage \<Rightarrow> kdf_lib \<Rightarrow> string \<Rightarrow> 's key_manager \<Rightarrow> managed_key result" where
  "get_key ks kl i m =
     (case ks_retrieve ks i (key_store m) of
        Inl e \<Rightarrow> Inl e
      | Inr k \<Rightarrow>
          (case al_find (metadata_cache m) i of
             None \<Rightarrow> Inl File_not_found
           | Some md \<Rightarrow>
               Inr \<lparr>mk_key = k,
                    mk_metadata = md\<lparr>md_last_used_at := kl_now kl, usage_count := usage_count md + 1\<rparr>,
                    mk_algorithm = Aes_256_gcm\<rparr>))"

definition delete_key :: "'s key_storage \<Rightarrow> string \<Rightarrow> 's key_manager \<Rightarrow> 's key_manager \<times> unit result" where
  "delete_key ks i m =
     (case ks_remove ks i (key_store m) of
        (s, Inl e) \<Rightarrow> (m\<lparr>key_store := s\<rparr>, Inl e)
      | (s, Inr _) \<Rightarrow>
          (m\<lparr>key_store := s, metadata_cache := al_erase i (metadata_cache m),
             key_versions := al_erase i (key_versions m)\<rparr>, Inr ()))"

definition key_exists :: "'s key_storage \<Rightarrow> string \<Rightarrow> 's key_manager \<Rightarrow> bool" where
  "key_exists ks i m = ks_exists ks i (key_store m)"

definition list_keys :: "'s key_manager \<Rightarrow> key_metadata list" where
  "list_keys m = map snd (sort_key fst (metadata_cache m))"

definition set_rotation_policy :: "key_rotation_policy \<Rightarrow> 's key_manager \<Rightarrow> 's key_manager" where
  "set_rotation_policy p m = m\<lparr>rotation_policy := p\<rparr>"

section \<open>Rotation\<close>

definition get_key_versions :: "string \<Rightarrow> 's key_manager \<Rightarrow> managed_key list" where
  "get_key_versions i m = (case al_find (key_versions m) i of None \<Rightarrow> [] | Some ks \<Rightarrow> ks)"

fun trim_versions :: "nat \<Rightarrow> managed_key list \<Rightarrow> managed_key list" where
  "trim_versions keep [] = []"
| "trim_versions keep (k # ks) = (if keep < length (k # ks) then trim_versions keep ks else k # ks)"

definition keep_old_key :: "string \<Rightarrow> managed_key \<Rightarrow> 's key_manager \<Rightarrow> 's key_manager" where
  "keep_old_key i old m =
     m\<lparr>key_versions := al_update i
         (trim_versions (unat (keep_versions (rotation_policy m))) (get_key_versions i m @ [old])) (key_versions m)\<rparr>"

definition rotate_key ::
  "'s key_storage \<Rightarrow> kdf_lib \<Rightarrow> string \<Rightarrow> 's key_manager \<Rightarrow> 's key_manager \<times> managed_key result" where
  "rotate_key ks kl i m =
     (case get_key ks kl i m of
        Inl e \<Rightarrow> (m, Inl e)
      | Inr old \<Rightarrow>
          (case generate_key ks kl i (word_of_nat (length (mk_key old))) (mk_algorithm old) (keep_old_key i old m) of
             (m, Inl e) \<Rightarrow> (m, Inl e)
           | (m, Inr k) \<Rightarrow>
               let k = k\<lparr>mk_metadata := (mk_metadata k)\<lparr>md_version := md_version (mk_metadata old) + 1\<rparr>\<rparr>
               in (m\<lparr>metadata_cache := al_update i (mk_metadata k) (metadata_cache m)\<rparr>, Inr k)))"

definition needs_rotation :: "kdf_lib \<Rightarrow> string \<Rightarrow> 's key_manager \<Rightarrow> bool" where
  "needs_rotation kl i m =
     (case al_find (metadata_cache m) i of
        None \<Rightarrow> False
      | Some md \<Rightarrow>
          if \<not> auto_rotate (rotation_policy m) then False
          else if usage_count md \<ge> max_uses (rotation_policy m) then True
          else if kl_now kl - md_created_at md \<ge> max_key_age (rotation_policy m) then True
          else case md_expires_at md of Some t \<Rightarrow> kl_now kl \<ge> t | None \<Rightarrow> False)"

section \<open>Metadata and usage\<close>

definition export_key_metadata :: "string \<Rightarrow> 's key_manager \<Rightarrow> bytes result" where
  "export_key_metadata i m =
     (case al_find (metadata_cache m) i of
        None \<Rightarrow> Inl File_not_found
      | Some md \<Rightarrow>
          Inr (text_bytes (md_key_id md @ ''|'' @ dec_digits (unat (md_version md)) @ ''|'' @
                 dec_digits (unat (usage_count md)))))"

text \<open>\<open>None\<close> is an exception of \<open>std::stoul\<close> or \<open>std::stoull\<close>.\<close>

definition import_key_metadata :: "kdf_lib \<Rightarrow> bytes \<Rightarrow> key_metadata result option" where
  "import_key_metadata kl bs =
     (let s = bytes_text bs; bar = (\<lambda>c. c \<noteq> CHR ''|'');
          pos1 = length (takeWhile bar s);
          pos2 = length s - 1 - length (takeWhile bar (rev s))
      in if CHR ''|'' \<notin> set s \<or> pos1 = pos2 then Some (Inl Invalid_configuration)
         else case stoull 10 (take (pos2 - pos1 - 1) (drop (pos1 + 1) s)) of
                None \<Rightarrow> None
              | Some v \<Rightarrow>
                  (case stoull 10 (drop (pos2 + 1) s) of
                     None \<Rightarrow> None
                   | Some u \<Rightarrow>
                       Some (Inr (default_key_metadata
                         \<lparr>md_key_id := take pos1 s, md_version := word_of_nat v, usage_count := word_of_nat u,
                          md_created_at := kl_now kl, md_last_used_at := kl_now kl\<rparr>))))"

definition constant_time_compare :: "bytes \<Rightarrow> bytes \<Rightarrow> bool" where
  "constant_time_compare a b = (if length a \<noteq> length b then False else a = b)"

definition record_usage :: "kdf_lib \<Rightarrow> string \<Rightarrow> 's key_manager \<Rightarrow> 's key_manager" where
  "record_usage kl i m =
     (case al_find (metadata_cache m) i of
        None \<Rightarrow> m
      | Some md \<Rightarrow>
          m\<lparr>metadata_cache := al_update i (md\<lparr>usage_count := usage_count md + 1, md_last_used_at := kl_now kl\<rparr>)
              (metadata_cache m)\<rparr>)"

definition get_usage_stats :: "string \<Rightarrow> 's key_manager \<Rightarrow> key_metadata result" where
  "get_usage_stats i m = (case al_find (metadata_cache m) i of None \<Rightarrow> Inl File_not_found | Some md \<Rightarrow> Inr md)"


section \<open>What a key storage promises\<close>

locale key_storage_laws =
  fixes ks :: "'s key_storage" and content :: "'s \<Rightarrow> string \<Rightarrow> bytes option"
  assumes store_ok: "ks_store ks i k s = (s', Inr u) \<Longrightarrow> content s' = (content s)(i \<mapsto> k)"
    and store_error: "ks_store ks i k s = (s', Inl e) \<Longrightarrow> content s' = content s"
    and retrieve_some: "content s i = Some k \<Longrightarrow> ks_retrieve ks i s = Inr k"
    and retrieve_none: "content s i = None \<Longrightarrow> \<exists>e. ks_retrieve ks i s = Inl e"
    and remove_ok: "ks_remove ks i s = (s', Inr u) \<Longrightarrow> content s' = (content s)(i := None)"
    and remove_error: "ks_remove ks i s = (s', Inl e) \<Longrightarrow> content s' = content s"
    and exists_content: "ks_exists ks i s \<longleftrightarrow> content s i \<noteq> None"
begin

lemma stored_key:
  assumes "store_key ks k m = (m', Inr u)"
  shows "content (key_store m') = (content (key_store m))(md_key_id (mk_metadata k) \<mapsto> mk_key k)"
    and "metadata_cache m' = al_update (md_key_id (mk_metadata k)) (mk_metadata k) (metadata_cache m)"
    and "key_versions m' = key_versions m" and "rotation_policy m' = rotation_policy m"
  using assms by (auto simp: store_key_def store_ok split: prod.splits sum.splits)

lemma stored_new_key:
  assumes "store_new_key ks k m = (m', Inr k')"
  shows "k' = k \<and> content (key_store m') = (content (key_store m))(md_key_id (mk_metadata k) \<mapsto> mk_key k) \<and>
    metadata_cache m' = al_update (md_key_id (mk_metadata k)) (mk_metadata k) (metadata_cache m) \<and>
    key_versions m' = key_versions m \<and> rotation_policy m' = rotation_policy m"
  using assms stored_key [of k m] by (auto simp: store_new_key_def split: prod.splits sum.splits)

lemma get_key_iff:
  "get_key ks kl i m = Inr k \<longleftrightarrow>
     (\<exists>bs md. content (key_store m) i = Some bs \<and> al_find (metadata_cache m) i = Some md \<and>
        k = \<lparr>mk_key = bs, mk_metadata = md\<lparr>md_last_used_at := kl_now kl, usage_count := usage_count md + 1\<rparr>,
             mk_algorithm = Aes_256_gcm\<rparr>)"
  using retrieve_some [of "key_store m" i] retrieve_none [of "key_store m" i]
  by (cases "content (key_store m) i") (auto simp: get_key_def split: option.splits)

lemma deleted_key_gone:
  assumes "delete_key ks i m = (m', Inr u)"
  shows "\<not> key_exists ks i m'" and "get_key ks kl i m' \<noteq> Inr k" and "get_usage_stats i m' = Inl File_not_found"
    and "rederive_key kl i pw m' = Inl File_not_found" and "get_key_versions i m' = []"
    and "j \<noteq> i \<Longrightarrow> get_key ks kl j m' = Inr k \<longleftrightarrow> get_key ks kl j m = Inr k"
  using assms
  by (auto simp: delete_key_def key_exists_def get_key_iff get_usage_stats_def rederive_key_def get_key_versions_def exists_content
      remove_ok assoc_simps split: prod.splits sum.splits)

end

interpretation mem: key_storage_laws memory_key_storage al_find
  by unfold_locales
     (auto simp: memory_key_storage_def memory_store_key_def memory_retrieve_key_def memory_remove_key_def memory_key_exists_def
       assoc_simps split: if_splits option.splits)

section \<open>The history of a rotated key\<close>

definition last_n :: "nat \<Rightarrow> 'a list \<Rightarrow> 'a list" where
  "last_n n xs = drop (length xs - n) xs"

lemma trim_versions_last_n: "trim_versions n ks = last_n n ks"
  by (induction ks) (auto simp: last_n_def Suc_diff_le not_less)

lemma last_n_snoc: "last_n n (last_n n xs @ [x]) = last_n n (xs @ [x])"
  by (cases "n \<le> length xs"; cases n) (auto simp: last_n_def Suc_diff_le Suc_diff_Suc Suc_le_eq)

lemma map_last_n: "map f (last_n n xs) = last_n n (map f xs)"
  by (simp add: last_n_def drop_map)

text \<open>The numbered keys of a history, without the current one.\<close>

definition old_versions :: "bytes list \<Rightarrow> (bytes \<times> u32) list" where
  "old_versions ks = zip (butlast ks) (map word_of_nat [1..<length ks])"

lemma old_versions_snoc: "ks \<noteq> [] \<Longrightarrow> old_versions (ks @ [k]) = old_versions ks @ [(last ks, word_of_nat (length ks))]"
proof -
  assume ne: "ks \<noteq> []"
  then obtain ys y where ks: "ks = ys @ [y]" by (cases ks rule: rev_cases) auto
  have "[1..<length (ks @ [k])] = [1..<length ks] @ [length ks]" using ne by (simp add: Suc_le_eq)
  moreover have "butlast (ks @ [k]) = ys @ [y]" unfolding ks by (simp only: butlast_snoc)
  moreover have "zip (ys @ [y]) (map f ([1..<length ks] @ [length ks])) = zip ys (map f [1..<length ks]) @ [(y, f (length ks))]"
    for f :: "nat \<Rightarrow> u32" by (simp add: zip_append ks del: upt_Suc)
  ultimately show ?thesis by (simp add: old_versions_def ks del: upt_Suc)
qed

definition version_entry :: "managed_key \<Rightarrow> bytes \<times> u32" where
  "version_entry k = (mk_key k, md_version (mk_metadata k))"

definition usable_rand :: "u64 \<Rightarrow> kdf_lib \<Rightarrow> bool" where
  "usable_rand n kl \<longleftrightarrow> (case kl_rand kl (int_of_u64 n) of None \<Rightarrow> False | Some r \<Rightarrow> length r = unat n)"

definition random_key :: "u64 \<Rightarrow> kdf_lib \<Rightarrow> bytes" where
  "random_key n kl = the (kl_rand kl (int_of_u64 n))"

lemma usable_random: "usable_rand n kl \<Longrightarrow> random_vector kl n = Inr (random_key n kl) \<and> length (random_key n kl) = unat n"
  by (auto simp: usable_rand_def random_vector_def random_key_def split: option.splits)

definition key_history :: "string \<Rightarrow> bytes list \<Rightarrow> memory_keys key_manager \<Rightarrow> bool" where
  "key_history i ks m \<longleftrightarrow>
     ks \<noteq> [] \<and> al_find (key_store m) i = Some (last ks) \<and>
     (\<exists>md. al_find (metadata_cache m) i = Some md \<and> md_version md = word_of_nat (length ks)) \<and>
     map version_entry (get_key_versions i m) = last_n (unat (keep_versions (rotation_policy m))) (old_versions ks)"

lemma generated_key:
  assumes "i \<noteq> []" and "n \<noteq> 0" and "usable_rand n kl"
  shows "generate_key memory_key_storage kl i n alg m =
    (m\<lparr>key_store := al_update i (random_key n kl) (key_store m),
       metadata_cache := al_update i (mk_metadata (new_managed_key kl i (random_key n kl) None alg)) (metadata_cache m)\<rparr>,
     Inr (new_managed_key kl i (random_key n kl) None alg))"
  using assms
  by (simp add: generate_key_def generate_random_bytes_def usable_random store_new_key_def store_key_def new_managed_key_def
      memory_key_storage_def memory_store_key_def)

lemma rotate_step:
  assumes "key_history i ks m" and "i \<noteq> []" and "n \<noteq> 0" and "usable_rand n kl" and "length (last ks) = unat n"
  shows "key_history i (ks @ [random_key n kl]) (fst (rotate_key memory_key_storage kl i m)) \<and>
    rotation_policy (fst (rotate_key memory_key_storage kl i m)) = rotation_policy m \<and>
    (\<exists>k. snd (rotate_key memory_key_storage kl i m) = Inr k)"
proof -
  obtain md where h: "al_find (key_store m) i = Some (last ks)" "al_find (metadata_cache m) i = Some md" "ks \<noteq> []"
    "md_version md = word_of_nat (length ks)"
    "map version_entry (get_key_versions i m) = last_n (unat (keep_versions (rotation_policy m))) (old_versions ks)"
    using assms(1) by (auto simp: key_history_def)
  define old where "old = \<lparr>mk_key = last ks, mk_metadata = md\<lparr>md_last_used_at := kl_now kl, usage_count := usage_count md + 1\<rparr>,
    mk_algorithm = Aes_256_gcm\<rparr>"
  have g: "get_key memory_key_storage kl i m = Inr old"
    using h by (simp add: mem.get_key_iff old_def)
  have "version_entry old = (last ks, word_of_nat (length ks))" by (simp add: version_entry_def old_def h)
  then have v: "map version_entry (trim_versions (unat (keep_versions (rotation_policy m))) (get_key_versions i m @ [old])) =
      last_n (unat (keep_versions (rotation_policy m))) (old_versions (ks @ [k]))" for k
    by (simp add: trim_versions_last_n map_last_n h last_n_snoc old_versions_snoc)
  show ?thesis
    using assms(5) h(3,4) v
    by (simp add: rotate_key_def g generated_key [OF assms(2-4)] key_history_def old_def new_managed_key_def keep_old_key_def
        get_key_versions_def assoc_simps)
qed

lemma rotate_steps:
  assumes "key_history i ks m" and "i \<noteq> []" and "n \<noteq> 0" and "list_all (usable_rand n) kls" and "length (last ks) = unat n"
  shows "key_history i (ks @ map (random_key n) kls) (fold (\<lambda>kl m. fst (rotate_key memory_key_storage kl i m)) kls m) \<and>
    rotation_policy (fold (\<lambda>kl m. fst (rotate_key memory_key_storage kl i m)) kls m) = rotation_policy m"
  using assms
proof (induction kls arbitrary: ks m)
  case (Cons kl kls)
  show ?case
    using rotate_step [OF Cons.prems(1-3), of kl] Cons.prems(4,5) usable_random [of n kl]
      Cons.IH [of "ks @ [random_key n kl]" "fst (rotate_key memory_key_storage kl i m)"] Cons.prems(2,3)
    by simp
qed simp

section \<open>Properties\<close>

lemma derived_key_metadata:
  assumes "store_new_key ks (new_managed_key kl i k ps alg) m = (m', Inr k')"
  shows "k' = new_managed_key kl i k ps alg \<and> al_find (metadata_cache m') i = Some (mk_metadata k')"
  using assms
  by (auto simp: store_new_key_def store_key_def new_managed_key_def assoc_simps split: prod.splits sum.splits)

definition pbkdf2_params :: "pbkdf2_config \<Rightarrow> bytes \<Rightarrow> key_derivation_params" where
  "pbkdf2_params cfg salt =
     default_derivation_params
       \<lparr>kp_kdf := Pbkdf2, kp_salt := salt, kp_iterations := pb_iterations cfg, kp_key_length := pb_key_length cfg\<rparr>"

lemma derived_params:
  "argon2_derive_key kl cfg pw salt = Inr d \<Longrightarrow> dk_params d = argon2_params cfg salt"
  "pbkdf2_derive_key kl pcfg pw salt = Inr d \<Longrightarrow> dk_params d = pbkdf2_params pcfg salt"
  by (auto simp: argon2_derive_key_def pbkdf2_derive_key_def pbkdf2_params_def split: sum.splits if_splits option.splits)

lemma argon2_salt: "argon2_derive_fresh kl cfg pw = Inr d \<Longrightarrow>
    \<exists>salt. argon2_derive_key kl cfg pw salt = Inr d \<and> dk_params d = argon2_params cfg salt"
  by (auto simp: argon2_derive_fresh_def derived_params split: sum.splits)



lemma argon2_with_params:
  "argon2_derive_with_params kl pw (argon2_params cfg salt) = argon2_derive_key kl cfg pw salt"
proof -
  define c where "c = default_argon2_config
    \<lparr>time_cost := time_cost cfg, ar_memory_kb := ar_memory_kb cfg, ar_parallelism := ar_parallelism cfg,
     ar_key_length := ar_key_length cfg\<rparr>"
  have "argon2_params c salt = argon2_params cfg salt" "fallback_config c = fallback_config cfg"
    "argon2_attempt kl c pw salt = argon2_attempt kl cfg pw salt"
    by (simp_all add: c_def argon2_params_def fallback_config_def argon2_attempt_def)
  then have "argon2_derive_key kl c pw salt = argon2_derive_key kl cfg pw salt"
    by (simp add: argon2_derive_key_def split: option.split sum.split)
  then show ?thesis by (simp add: argon2_derive_with_params_def argon2_params_def default_derivation_params_def c_def)
qed




text \<open>C26: after a key was generated and rotated any number of times, the newest random key is the one that is returned, its
  version counts the keys made (modulo 2^32), and the old keys are kept in order, as many as the policy says, each with its
  version. The algorithm the key was generated for is not kept.\<close>

theorem rotation_keeps_history:
  assumes "i \<noteq> []" and "n \<noteq> 0" and "list_all (usable_rand n) (kl # kls)"
    and "m0 = fst (generate_key memory_key_storage kl i n alg (set_rotation_policy p (create_key_manager [])))"
    and "m = fold (\<lambda>kl m. fst (rotate_key memory_key_storage kl i m)) kls m0"
    and "keys = map (random_key n) (kl # kls)"
  shows "(\<exists>k. get_key memory_key_storage kl' i m = Inr k \<and> version_entry k = (last keys, word_of_nat (length keys)) \<and>
            mk_algorithm k = Aes_256_gcm) \<and>
         map version_entry (get_key_versions i m) = last_n (unat (keep_versions p)) (old_versions keys)"
proof -
  have u: "usable_rand n kl" using assms(3) by simp
  have "key_history i [random_key n kl] m0" and p: "rotation_policy m0 = p"
    unfolding assms(4) generated_key [OF assms(1,2) u]
    by (simp_all add: key_history_def new_managed_key_def set_rotation_policy_def create_key_manager_def assoc_simps
        default_key_metadata_def get_key_versions_def old_versions_def last_n_def)
  then have "key_history i keys m \<and> rotation_policy m = p"
    using rotate_steps [of i "[random_key n kl]" m0 n kls] assms usable_random [OF u] by simp
  then show ?thesis
    by (auto simp: key_history_def mem.get_key_iff version_entry_def)
qed


text \<open>A key derived while Argon2id is missing is a PBKDF2 key under metadata that names Argon2id; once the library
  offers Argon2id, the same password gives the Argon2id key instead.\<close>

theorem fallback_key_not_rederived:
  assumes "derive_key_from_password ks kl i pw cfg m = (m', Inr k)" and "\<not> argon2_fetch kl" and "argon2_fetch kl'"
  shows "\<exists>ps. derivation_params (mk_metadata k) = Some ps \<and> kp_kdf ps = Argon2id \<and>
           pbkdf2_hmac kl pw (kp_salt ps) (sint (max 600000 (time_cost cfg * 100000))) (int_of_u64 (ar_key_length cfg)) =
             Some (mk_key k) \<and>
           (\<forall>k2. argon2_derive kl' pw (kp_salt ps) (ar_parallelism cfg) (ar_memory_kb cfg) (time_cost cfg)
                    (unat (ar_key_length cfg)) = Some k2 \<longrightarrow>
              (\<exists>k'. rederive_key kl' i pw m' = Inr k' \<and> mk_key k' = k2))"
proof -
  obtain d where d: "argon2_derive_fresh kl cfg pw = Inr d"
    "store_new_key ks (new_managed_key kl i (dk_key d) (Some (dk_params d)) Aes_256_gcm) m = (m', Inr k)"
    using assms(1) by (auto simp: derive_key_from_password_def split: sum.splits)
  obtain salt where s: "argon2_derive_key kl cfg pw salt = Inr d" "dk_params d = argon2_params cfg salt"
    using argon2_salt [OF d(1)] by blast
  have "pbkdf2_hmac kl pw salt (sint (max 600000 (time_cost cfg * 100000))) (int_of_u64 (ar_key_length cfg)) = Some (dk_key d)"
    and ok: "pw \<noteq> []" "\<not> length salt < 8"
    using s(1) assms(2)
    by (auto simp: argon2_derive_key_def argon2_attempt_def pbkdf2_derive_key_def fallback_config_def PBKDF2_DEFAULT_ITERATIONS_def
        split: if_splits option.splits)
  moreover have "argon2_derive_key kl' cfg pw salt = Inr \<lparr>dk_key = k2, dk_params = argon2_params cfg salt\<rparr>"
    if "argon2_derive kl' pw salt (ar_parallelism cfg) (ar_memory_kb cfg) (time_cost cfg) (unat (ar_key_length cfg)) = Some k2" for k2
    using that ok assms(3) by (simp add: argon2_derive_key_def argon2_attempt_def)
  ultimately show ?thesis
    using derived_key_metadata [OF d(2)] argon2_with_params [of kl' pw cfg salt] s(2)
    by (simp add: rederive_key_def new_managed_key_def argon2_params_def)
qed

lemma digits_no_bar: "CHR ''|'' \<notin> set (dec_digits n)"
  using is_digit_dec_digits [of "CHR ''|''" n] by (auto simp: is_digit_def)

lemma take_to_bar: "CHR ''|'' \<notin> set a \<Longrightarrow> takeWhile (\<lambda>c. c \<noteq> CHR ''|'') (a @ CHR ''|'' # b) = a"
  by (induction a) auto

text \<open>Exported metadata is read back with identifier, version and usage count, if the identifier has no \<open>|\<close>; nothing
  else is kept.\<close>

theorem key_metadata_roundtrip:
  assumes "al_find (metadata_cache m) i = Some md" and "CHR ''|'' \<notin> set (md_key_id md)"
  shows "\<exists>bs. export_key_metadata i m = Inr bs \<and>
           import_key_metadata kl bs =
             Some (Inr (default_key_metadata
               \<lparr>md_key_id := md_key_id md, md_version := md_version md, usage_count := usage_count md,
                md_created_at := kl_now kl, md_last_used_at := kl_now kl\<rparr>))"
proof -
  let ?v = "dec_digits (unat (md_version md))" and ?u = "dec_digits (unat (usage_count md))"
  have "unat (md_version md) < 2 ^ 32" using unsigned_less [of "md_version md"] by simp
  then have "stoull 10 ?v = Some (unat (md_version md))" "stoull 10 ?u = Some (unat (usage_count md))"
    using unat_u64_less by simp_all
  then show ?thesis
    using assms unfolding import_key_metadata_def Let_def
    by (simp add: export_key_metadata_def take_to_bar digits_no_bar)
qed

section \<open>Witnesses\<close>

definition toy_kdf :: "u8 \<Rightarrow> bool \<Rightarrow> kdf_lib" where
  "toy_kdf b argon2 =
     \<lparr>pbkdf2_hmac = (\<lambda>pw salt n l. Some (replicate (nat l) 5)), argon2_fetch = argon2,
      argon2_derive = (\<lambda>pw salt lanes mem n l. Some (replicate l 6)), kl_rand = (\<lambda>n. Some (replicate (nat n) b)), kl_now = 0\<rparr>"

definition no_keys :: "memory_keys key_manager" where
  "no_keys = create_key_manager []"

lemma toy_rand: "usable_rand 2 (toy_kdf b a)" "random_key 2 (toy_kdf b a) = [b, b]"
proof -
  have "int_of_u64 2 = 2" by (simp add: int_of_u64_def)
  then have "kl_rand (toy_kdf b a) (int_of_u64 2) = Some [b, b]" by (simp add: toy_kdf_def numeral_2_eq_2)
  then show "usable_rand 2 (toy_kdf b a)" "random_key 2 (toy_kdf b a) = [b, b]"
    by (simp_all add: usable_rand_def random_key_def)
qed

definition toy_rotated :: "memory_keys key_manager" where
  "toy_rotated =
     fold (\<lambda>kl m. fst (rotate_key memory_key_storage kl ''a'' m)) [toy_kdf 2 False, toy_kdf 3 False]
       (fst (generate_key memory_key_storage (toy_kdf 1 False) ''a'' 2 Chacha20_poly1305
          (set_rotation_policy (default_rotation_policy\<lparr>keep_versions := 1\<rparr>) (create_key_manager []))))"

theorem rotation_keeps_history_witness:
  "(\<exists>k. get_key memory_key_storage (toy_kdf 0 False) ''a'' toy_rotated = Inr k \<and> version_entry k = ([3, 3], 3)) \<and>
     map version_entry (get_key_versions ''a'' toy_rotated) = [([2, 2], 2)]"
proof -
  have "old_versions (map (random_key 2) [toy_kdf 1 False, toy_kdf 2 False, toy_kdf 3 False]) = [([1, 1], 1), ([2, 2], 2)]"
    by (simp add: toy_rand old_versions_def numeral_2_eq_2)
  moreover have "list_all (usable_rand 2) [toy_kdf 1 False, toy_kdf 2 False, toy_kdf 3 False]" by (simp add: toy_rand)
  ultimately show ?thesis
    using rotation_keeps_history [of "''a''" 2 "toy_kdf 1 False" "[toy_kdf 2 False, toy_kdf 3 False]", OF _ _ _ refl toy_rotated_def refl,
        of "toy_kdf 0 False"]
    by (auto simp: toy_rand last_n_def)
qed

lemma toy_derived:
  "\<exists>m' k. derive_key_pbkdf2 memory_key_storage (toy_kdf 1 False) ''a'' [1] default_pbkdf2_config no_keys = (m', Inr k) \<and>
     mk_key k = replicate 32 5"
  "\<exists>m' k. derive_key_from_password memory_key_storage (toy_kdf 1 False) ''a'' [1] default_argon2_config no_keys = (m', Inr k) \<and>
     mk_key k = replicate 32 5 \<and> argon2_derive (toy_kdf 1 True) [1] salt 4 65536 3 32 = Some (replicate 32 6)"
  by (simp_all add: derive_key_pbkdf2_def pbkdf2_derive_fresh_def generate_salt_def random_vector_def toy_kdf_def SALT_SIZE_def
      int_of_u64_def pbkdf2_derive_key_def default_pbkdf2_config_def AES_256_KEY_SIZE_def store_new_key_def store_key_def
      memory_key_storage_def memory_store_key_def new_managed_key_def default_key_metadata_def derive_key_from_password_def
      argon2_derive_fresh_def argon2_derive_key_def argon2_attempt_def fallback_config_def default_argon2_config_def)


theorem fallback_key_not_rederived_witness:
  "\<exists>m' k k'. derive_key_from_password memory_key_storage (toy_kdf 1 False) ''a'' [1] default_argon2_config no_keys = (m', Inr k) \<and>
     rederive_key (toy_kdf 1 True) ''a'' [1] m' = Inr k' \<and> mk_key k = replicate 32 5 \<and> mk_key k' = replicate 32 6"
proof -
  obtain m' k where k: "derive_key_from_password memory_key_storage (toy_kdf 1 False) ''a'' [1] default_argon2_config no_keys = (m', Inr k)"
    "mk_key k = replicate 32 5" using toy_derived(2) by blast
  have a: "\<not> argon2_fetch (toy_kdf 1 False)" "argon2_fetch (toy_kdf 1 True)"
    "argon2_derive (toy_kdf 1 True) pw salt la me ti (unat (ar_key_length default_argon2_config)) = Some (replicate 32 6)" for pw salt la me ti
    by (simp_all add: toy_kdf_def default_argon2_config_def AES_256_KEY_SIZE_def)
  show ?thesis using fallback_key_not_rederived [OF k(1) a(1,2)] a(3) k by blast
qed

theorem key_metadata_roundtrip_witness:
  "\<exists>bs md. export_key_metadata ''a'' (no_keys\<lparr>metadata_cache := [(''a'', default_key_metadata\<lparr>md_key_id := ''a'', md_version := 7\<rparr>)]\<rparr>) = Inr bs \<and>
     import_key_metadata (toy_kdf 1 False) bs = Some (Inr md) \<and> md_version md = 7"
  using key_metadata_roundtrip [of "no_keys\<lparr>metadata_cache := [(''a'', default_key_metadata\<lparr>md_key_id := ''a'', md_version := 7\<rparr>)]\<rparr>" "''a''"
      "default_key_metadata\<lparr>md_key_id := ''a'', md_version := 7\<rparr>" "toy_kdf 1 False"]
  by fastforce

end
