(* ===== verification/Compression_Engine.thy ===== *)
theory Compression_Engine
  imports Chunk_Types Error_Codes
begin

text \<open>
  core/compression_engine.h and core/compression_engine.cpp: the compression of chunks. The LZ4
  library is a parameter: \<open>None\<close> for a build without it, otherwise the four functions the code calls,
  which take sizes as \<open>int\<close> and answer with a negative number or zero on failure (here \<open>None\<close>).
  \<open>double\<close> is exact. Locks and logging are left out; a call is one step.
\<close>

section \<open>Levels, modes and statistics\<close>

datatype engine_mode = Mode_disabled | Mode_enabled | Mode_adaptive
datatype engine_level = Level_default | Level_high

record compression_counters =
  cn_input_bytes :: u64
  cn_output_bytes :: u64
  compression_calls :: u64
  decompression_calls :: u64
  skipped_compressions :: u64
  cn_total_chunks :: u64
  compressed_chunks :: u64

definition no_counters :: compression_counters where
  "no_counters =
     \<lparr>cn_input_bytes = 0, cn_output_bytes = 0, compression_calls = 0, decompression_calls = 0,
      skipped_compressions = 0, cn_total_chunks = 0, compressed_chunks = 0\<rparr>"

definition counted_ratio :: "compression_counters \<Rightarrow> rat" where
  "counted_ratio s =
     (if cn_input_bytes s = 0 then 1 else of_nat (unat (cn_output_bytes s)) / of_nat (unat (cn_input_bytes s)))"

definition bytes_saved :: "compression_counters \<Rightarrow> u64" where
  "bytes_saved s = (if cn_output_bytes s \<ge> cn_input_bytes s then 0 else cn_input_bytes s - cn_output_bytes s)"

definition skip_rate :: "compression_counters \<Rightarrow> rat" where
  "skip_rate s =
     (if cn_total_chunks s = 0 then 0
      else of_nat (unat (skipped_compressions s)) / of_nat (unat (cn_total_chunks s)) * 100)"

section \<open>Formats that are compressed already\<close>

definition compressed_signatures :: "bytes list" where
  "compressed_signatures =
     [[0x50, 0x4B, 0x03, 0x04], [0x50, 0x4B, 0x05, 0x06], [0x50, 0x4B, 0x07, 0x08],
      [0x1F, 0x8B],
      [0x28, 0xB5, 0x2F, 0xFD],
      [0xFD, 0x37, 0x7A, 0x58, 0x5A, 0x00],
      [0x42, 0x5A, 0x68],
      [0x04, 0x22, 0x4D, 0x18],
      [0xFF, 0xD8, 0xFF],
      [0x89, 0x50, 0x4E, 0x47, 0x0D, 0x0A, 0x1A, 0x0A],
      [0x47, 0x49, 0x46, 0x38],
      [0x52, 0x49, 0x46, 0x46],
      [0xFF, 0xFB],
      [0x25, 0x50, 0x44, 0x46],
      [0x37, 0x7A, 0xBC, 0xAF, 0x27, 0x1C]]"

definition is_mp4_format :: "bytes \<Rightarrow> bool" where
  "is_mp4_format bs \<longleftrightarrow>
     \<not> length bs < 12 \<and> bs ! 4 = 0x66 \<and> bs ! 5 = 0x74 \<and> bs ! 6 = 0x79 \<and> bs ! 7 = 0x70"

definition is_precompressed_format :: "bytes \<Rightarrow> bool" where
  "is_precompressed_format bs \<longleftrightarrow>
     \<not> length bs < 8 \<and>
     (list_ex (\<lambda>sig. length bs \<ge> length sig \<and> take (length sig) bs = sig) compressed_signatures \<or> is_mp4_format bs)"

section \<open>The engine\<close>

text \<open>\<open>static_cast<int>\<close> of a size, and a size from an \<open>int\<close>.\<close>

definition int_of_size :: "nat \<Rightarrow> int" where
  "int_of_size n = sint (word_of_nat n :: u32)"

record lz4 =
  lz4_compress_bound :: "int \<Rightarrow> int"
  lz4_compress_default :: "bytes \<Rightarrow> int \<Rightarrow> int \<Rightarrow> bytes option"
  lz4_compress_hc :: "bytes \<Rightarrow> int \<Rightarrow> int \<Rightarrow> bytes option"
  lz4_decompress :: "bytes \<Rightarrow> int \<Rightarrow> int \<Rightarrow> bytes option"

record engine =
  ce_level :: engine_level
  ce_stats :: compression_counters

definition new_engine :: "engine_level \<Rightarrow> engine" where
  "new_engine l = \<lparr>ce_level = l, ce_stats = no_counters\<rparr>"

definition on_stats :: "(compression_counters \<Rightarrow> compression_counters) \<Rightarrow> engine \<Rightarrow> engine" where
  "on_stats f e = e\<lparr>ce_stats := f (ce_stats e)\<rparr>"

definition compress :: "lz4 option \<Rightarrow> bytes \<Rightarrow> engine \<Rightarrow> engine \<times> bytes result" where
  "compress lib input e =
     (case lib of
        None \<Rightarrow> (e, Inl Internal_error)
      | Some lz \<Rightarrow>
          if input = [] then (on_stats (\<lambda>s. s\<lparr>compression_calls := compression_calls s + 1\<rparr>) e, Inr [])
          else
            let src_size = int_of_size (length input); max_dst_size = lz4_compress_bound lz src_size
            in case (if ce_level e = Level_high then lz4_compress_hc lz input src_size max_dst_size
                     else lz4_compress_default lz input src_size max_dst_size) of
                 None \<Rightarrow> (e, Inl Internal_error)
               | Some out \<Rightarrow>
                   (on_stats (\<lambda>s. s\<lparr>compression_calls := compression_calls s + 1,
                                    cn_input_bytes := cn_input_bytes s + word_of_nat (length input),
                                    cn_output_bytes := cn_output_bytes s + word_of_nat (length out)\<rparr>) e,
                    Inr out))"

definition decompress :: "lz4 option \<Rightarrow> bytes \<Rightarrow> nat \<Rightarrow> engine \<Rightarrow> engine \<times> bytes result" where
  "decompress lib input n e =
     (case lib of
        None \<Rightarrow> (e, Inl Internal_error)
      | Some lz \<Rightarrow>
          if input = [] then (on_stats (\<lambda>s. s\<lparr>decompression_calls := decompression_calls s + 1\<rparr>) e, Inr [])
          else case lz4_decompress lz input (int_of_size (length input)) (int_of_size n) of
                 None \<Rightarrow> (e, Inl Internal_error)
               | Some out \<Rightarrow>
                   if length out \<noteq> n then (e, Inl Internal_error)
                   else (on_stats (\<lambda>s. s\<lparr>decompression_calls := decompression_calls s + 1\<rparr>) e, Inr out))"

definition is_compressible :: "lz4 option \<Rightarrow> bytes \<Rightarrow> bool" where
  "is_compressible lib bs =
     (case lib of
        None \<Rightarrow> False
      | Some lz \<Rightarrow>
          if bs = [] then False
          else if is_precompressed_format bs then False
          else
            let sample = take 4096 bs; src_size = int_of_size (length sample)
            in case lz4_compress_default lz sample src_size (lz4_compress_bound lz src_size) of
                 None \<Rightarrow> False
               | Some out \<Rightarrow> (of_nat (length sample) / of_nat (length out) :: rat) \<ge> 11 / 10)"

definition record_skipped :: "nat \<Rightarrow> engine \<Rightarrow> engine" where
  "record_skipped n =
     on_stats (\<lambda>s. s\<lparr>skipped_compressions := skipped_compressions s + 1, cn_total_chunks := cn_total_chunks s + 1,
                     cn_input_bytes := cn_input_bytes s + word_of_nat n,
                     cn_output_bytes := cn_output_bytes s + word_of_nat n\<rparr>)"

definition compress_adaptive ::
  "lz4 option \<Rightarrow> bytes \<Rightarrow> engine_mode \<Rightarrow> engine \<Rightarrow> engine \<times> (bytes \<times> bool) result" where
  "compress_adaptive lib input mode e =
     (case lib of
        None \<Rightarrow> (e, Inl Internal_error)
      | Some lz \<Rightarrow>
          if input = [] then (on_stats (\<lambda>s. s\<lparr>cn_total_chunks := cn_total_chunks s + 1\<rparr>) e, Inr ([], False))
          else if \<not> (case mode of Mode_disabled \<Rightarrow> False | Mode_enabled \<Rightarrow> True | Mode_adaptive \<Rightarrow> is_compressible lib input)
          then (record_skipped (length input) e, Inr (input, False))
          else case compress lib input e of
                 (e, Inl err) \<Rightarrow> (e, Inl err)
               | (e, Inr out) \<Rightarrow>
                   (on_stats (\<lambda>s. s\<lparr>cn_total_chunks := cn_total_chunks s + 1,
                                    compressed_chunks := compressed_chunks s + 1\<rparr>) e, Inr (out, True)))"

definition reset_engine_stats :: "engine \<Rightarrow> engine" where
  "reset_engine_stats e = e\<lparr>ce_stats := no_counters\<rparr>"

definition set_engine_level :: "engine_level \<Rightarrow> engine \<Rightarrow> engine" where
  "set_engine_level l e = e\<lparr>ce_level := l\<rparr>"

definition max_compressed_size :: "lz4 option \<Rightarrow> nat \<Rightarrow> nat" where
  "max_compressed_size lib n =
     (case lib of None \<Rightarrow> n | Some lz \<Rightarrow> unat (word_of_int (lz4_compress_bound lz (int_of_size n)) :: u64))"

section \<open>Lemmas\<close>

lemma sint_word_of_nat_small: "n < 2 ^ 31 \<Longrightarrow> sint (word_of_nat n :: u32) = int n"
proof -
  assume "n < 2 ^ 31"
  then have "int n < int (2 ^ 31)" by (rule iffD2 [OF of_nat_less_iff])
  then have "int n < 2 ^ 31" by (simp only: of_nat_power of_nat_numeral)
  then have "signed_take_bit 31 (int n) = int n"
    by (intro signed_take_bit_int_eq_self) simp_all
  then show "sint (word_of_nat n :: u32) = int n"
    by (simp add: signed_of_nat)
qed

lemma int_of_size_small: "n < 2 ^ 31 \<Longrightarrow> int_of_size n = int n"
  by (simp add: int_of_size_def sint_word_of_nat_small)

text \<open>What the documentation of LZ4 promises: a block that was compressed decompresses to the original when the
  original size is given, and is not empty and not longer than the capacity, which is an \<open>int\<close>.\<close>

definition sound_lz4 :: "lz4 \<Rightarrow> bool" where
  "sound_lz4 lz \<longleftrightarrow>
     (\<forall>x. lz4_compress_bound lz x < 2 ^ 31) \<and>
     (\<forall>x cap y. 0 < length x \<and> length x < 2 ^ 31 \<and>
        (lz4_compress_default lz x (int (length x)) cap = Some y \<or> lz4_compress_hc lz x (int (length x)) cap = Some y) \<longrightarrow>
        0 < length y \<and> int (length y) \<le> cap \<and> lz4_decompress lz y (int (length y)) (int (length x)) = Some x)"

lemma sound_lz4D:
  assumes "sound_lz4 lz" and "0 < length x" and "length x < 2 ^ 31"
    and "lz4_compress_default lz x (int (length x)) cap = Some y \<or> lz4_compress_hc lz x (int (length x)) cap = Some y"
  shows "0 < length y" "int (length y) \<le> cap" "lz4_decompress lz y (int (length y)) (int (length x)) = Some x"
proof -
  have "0 < length y \<and> int (length y) \<le> cap \<and> lz4_decompress lz y (int (length y)) (int (length x)) = Some x"
    using assms(1) unfolding sound_lz4_def
    by (elim conjE allE [where x = x] allE [where x = cap] allE [where x = y], elim mp) (intro conjI assms)
  then show "0 < length y" "int (length y) \<le> cap" "lz4_decompress lz y (int (length y)) (int (length x)) = Some x"
    by simp_all
qed

lemma compress_restores:
  assumes "sound_lz4 lz" and "length input < 2 ^ 31" and "compress (Some lz) input e = (e', Inr out)"
  shows "snd (decompress (Some lz) out (length input) e1) = Inr input"
proof (cases "input = []")
  case True
  then show ?thesis using assms(3) by (simp add: compress_def decompress_def)
next
  case False
  let ?cap = "lz4_compress_bound lz (int (length input))"
  have n: "int_of_size (length input) = int (length input)" by (rule int_of_size_small [OF assms(2)])
  have "lz4_compress_default lz input (int (length input)) ?cap = Some out \<or>
      lz4_compress_hc lz input (int (length input)) ?cap = Some out"
    using assms(3) False by (simp add: compress_def Let_def n split: option.splits if_splits)
  then have out: "0 < length out" "int (length out) \<le> ?cap"
    "lz4_decompress lz out (int (length out)) (int (length input)) = Some input"
    using sound_lz4D [OF assms(1) _ assms(2)] False by simp_all
  moreover have "?cap < 2 ^ 31" using assms(1) by (simp add: sound_lz4_def)
  then have "int (length out) < 2 ^ 31" using out(2) by linarith
  then have "int (length out) < int (2 ^ 31)" by (simp only: of_nat_power of_nat_numeral)
  then have "length out < 2 ^ 31" by (rule iffD1 [OF of_nat_less_iff])
  from int_of_size_small [OF this] have "int_of_size (length out) = int (length out)" .
  ultimately show ?thesis by (simp add: decompress_def n)
qed

lemma compress_nonempty:
  assumes "sound_lz4 lz" and "length input < 2 ^ 31" and "input \<noteq> []" and "compress (Some lz) input e = (e', Inr out)"
  shows "out \<noteq> []"
proof -
  have "lz4_compress_default lz input (int (length input)) (lz4_compress_bound lz (int (length input))) = Some out \<or>
      lz4_compress_hc lz input (int (length input)) (lz4_compress_bound lz (int (length input))) = Some out"
    using assms(3,4) int_of_size_small [OF assms(2)] by (simp add: compress_def Let_def split: option.splits if_splits)
  then show ?thesis using sound_lz4D(1) [OF assms(1) _ assms(2)] assms(3) by simp
qed

text \<open>A codec that collapses runs of one byte, for the witnesses.\<close>

definition run_lz4 :: lz4 where
  "run_lz4 =
     \<lparr>lz4_compress_bound = (\<lambda>n. if n < 2 ^ 30 then n + 1 else 0),
      lz4_compress_default =
        (\<lambda>x n cap. if int (length x) + 1 > cap then None
                   else Some (if x = replicate (length x) (hd x) then [hd x] else 0 # x)),
      lz4_compress_hc =
        (\<lambda>x n cap. if int (length x) + 1 > cap then None
                   else Some (if x = replicate (length x) (hd x) then [hd x] else 0 # x)),
      lz4_decompress = (\<lambda>y n m. Some (if length y = 1 then replicate (nat m) (hd y) else tl y))\<rparr>"

lemma sound_run_lz4: "sound_lz4 run_lz4"
proof -
  have "length x \<noteq> 0" if "x \<noteq> replicate (length x) (hd x)" for x :: bytes
    using that by auto
  moreover have "x \<noteq> [a]" if "x \<noteq> replicate (length x) (hd x)" for x :: bytes and a
    using that by auto
  ultimately show ?thesis
    by (auto simp: sound_lz4_def run_lz4_def split: if_splits)
qed

section \<open>Properties\<close>

text \<open>C22: whatever the mode and the level, the output of \<open>compress_adaptive\<close> gives the input back: as it is when the
  answer says that it was not compressed, and through \<open>decompress\<close> of any engine, told the original size, when it was.\<close>

theorem compress_adaptive_restores:
  assumes "sound_lz4 lz" and "length input < 2 ^ 31"
    and "compress_adaptive (Some lz) input mode e = (e', Inr (out, compressed))"
  shows "(if compressed then snd (decompress (Some lz) out (length input) e1) else Inr out) = Inr input"
proof (cases compressed)
  case True
  then obtain e2 where "compress (Some lz) input e = (e2, Inr out)"
    using assms(3) by (auto simp: compress_adaptive_def split: if_splits prod.splits sum.splits)
  then show ?thesis using compress_restores assms(1,2) True by simp
next
  case False
  then show ?thesis using assms(3) by (auto simp: compress_adaptive_def split: if_splits prod.splits sum.splits)
qed

theorem compress_adaptive_restores_witness:
  "snd (compress_adaptive (Some run_lz4) (replicate 5 7) Mode_adaptive (new_engine Level_high)) = Inr ([7], True) \<and>
   snd (decompress (Some run_lz4) [7] 5 (new_engine Level_default)) = Inr (replicate 5 7)"
proof -
  have "\<not> is_precompressed_format (replicate 5 7)"
    by (simp add: is_precompressed_format_def)
  moreover have "int_of_size 5 = 5" using int_of_size_small [of 5] by simp
  ultimately have "\<exists>e'. compress_adaptive (Some run_lz4) (replicate 5 7) Mode_adaptive (new_engine Level_high) = (e', Inr ([7], True))"
    by (simp add: compress_adaptive_def is_compressible_def compress_def new_engine_def Let_def run_lz4_def)
  then obtain e' where r: "compress_adaptive (Some run_lz4) (replicate 5 7) Mode_adaptive (new_engine Level_high) = (e', Inr ([7], True))"
    by blast
  show ?thesis
    using compress_adaptive_restores [OF sound_run_lz4 _ r, of "new_engine Level_default"] r by simp
qed

end
