(* ===== verification/Server_Pipeline.thy ===== *)
theory Server_Pipeline
  imports Aes_Gcm_Engine Compression_Engine Bandwidth_Limiter File_System
begin

text \<open>
  server/server_pipeline.h, server/pipeline_jobs.h and their sources: the stages an uploaded chunk
  (decompress, decrypt, verify, write) and a requested chunk (read, encrypt, compress, send) go
  through. Every stage is a job in the thread pool, which is not part of the repository: the pool
  is the list of jobs that wait, any of which may run next; which jobs it accepts and what stopping
  it leaves are parameters. A job runs as one step. The callbacks are told the recorded events.
  The queues of the stages are created but no job is ever put into one, so only whether they exist
  is modelled: the six plain ones always, the two for encryption when it is configured.
\<close>

section \<open>Stages, configuration and statistics\<close>

datatype pipeline_stage =
    Network_recv | Decompress_stage | Decrypt_stage | Chunk_verify | File_write | Network_send | File_read
  | Encrypt_stage | Compress_stage

fun pipeline_stage_to_string :: "pipeline_stage \<Rightarrow> string" where
  "pipeline_stage_to_string Network_recv = ''network_recv''"
| "pipeline_stage_to_string Decompress_stage = ''decompress''"
| "pipeline_stage_to_string Decrypt_stage = ''decrypt''"
| "pipeline_stage_to_string Chunk_verify = ''chunk_verify''"
| "pipeline_stage_to_string File_write = ''file_write''"
| "pipeline_stage_to_string Network_send = ''network_send''"
| "pipeline_stage_to_string File_read = ''file_read''"
| "pipeline_stage_to_string Encrypt_stage = ''encrypt''"
| "pipeline_stage_to_string Compress_stage = ''compress''"

record pipeline_config =
  io_workers :: u64
  compression_workers :: u64
  network_workers :: u64
  encryption_workers :: u64
  queue_limit :: u64
  max_memory_per_transfer :: u64
  send_bandwidth_limit :: u64
  recv_bandwidth_limit :: u64
  enable_encryption :: bool

definition default_pipeline_config :: pipeline_config where
  "default_pipeline_config =
     \<lparr>io_workers = 2, compression_workers = 4, network_workers = 2, encryption_workers = 2, queue_limit = 64,
      max_memory_per_transfer = 32 * 1024 * 1024, send_bandwidth_limit = 0, recv_bandwidth_limit = 0,
      enable_encryption = False\<rparr>"

definition pipeline_auto_detect :: "u32 \<Rightarrow> pipeline_config" where
  "pipeline_auto_detect hardware =
     (let hw = (if hardware = 0 then 4 else hardware)
      in default_pipeline_config
           \<lparr>compression_workers := ucast (max 2 (hw div 2)), io_workers := ucast (max 2 (hw div 4)),
            network_workers := ucast (max 2 (hw div 4)), queue_limit := 64,
            max_memory_per_transfer := 32 * 1024 * 1024\<rparr>)"

definition pipeline_config_valid :: "pipeline_config \<Rightarrow> bool" where
  "pipeline_config_valid c \<longleftrightarrow>
     io_workers c > 0 \<and> compression_workers c > 0 \<and> network_workers c > 0 \<and> queue_limit c > 0 \<and>
     max_memory_per_transfer c > 0"

record pipeline_stats =
  chunks_processed :: u64
  bytes_processed :: u64
  compression_saved_bytes :: u64
  stalls_detected :: u64
  backpressure_events :: u64
  chunks_encrypted :: u64
  chunks_decrypted :: u64
  encryption_bytes :: u64

definition no_pipeline_stats :: pipeline_stats where
  "no_pipeline_stats =
     \<lparr>chunks_processed = 0, bytes_processed = 0, compression_saved_bytes = 0, stalls_detected = 0,
      backpressure_events = 0, chunks_encrypted = 0, chunks_decrypted = 0, encryption_bytes = 0\<rparr>"

section \<open>Chunks, jobs and the pipeline\<close>

record pipeline_chunk =
  pc_id :: transfer_id
  pc_index :: u64
  pc_data :: bytes
  pc_checksum :: u32
  pc_compressed :: bool
  pc_original_size :: u64
  pc_encrypted :: bool
  pc_metadata :: "encryption_metadata option"

definition pipeline_chunk_of :: "chunk \<Rightarrow> pipeline_chunk" where
  "pipeline_chunk_of c =
     \<lparr>pc_id = h_id (header c), pc_index = chunk_index (header c), pc_data = data c, pc_checksum = checksum (header c),
      pc_compressed = chunk_is_compressed c, pc_original_size = ucast (original_size (header c)),
      pc_encrypted = False, pc_metadata = None\<rparr>"

datatype pipeline_job =
    Decompress_job pipeline_chunk u64
  | Decrypt_job pipeline_chunk u64
  | Verify_job pipeline_chunk
  | Write_job pipeline_chunk
  | Read_job transfer_id u64 path u64 u64
  | Encrypt_job pipeline_chunk u64
  | Compress_job pipeline_chunk u64
  | Send_job pipeline_chunk

datatype job_error = Operation_canceled | Job_execution_failed | Queue_full

type_synonym job_result = "job_error + unit"

datatype pipeline_event =
    Stage_complete pipeline_stage pipeline_chunk
  | Stage_error pipeline_stage
  | Upload_complete transfer_id u64
  | Download_ready pipeline_chunk

record pipeline =
  pl_config :: pipeline_config
  pl_running :: bool
  pl_stats :: pipeline_stats
  compression_engines :: "engine list"
  encryption_engines :: "gcm_engine list"
  encryption_enabled :: bool
  send_limiter :: "limiter option"
  recv_limiter :: "limiter option"
  next_worker_id :: u64
  pool :: "pipeline_job list"
  pl_events :: "pipeline_event list"

text \<open>What the pipeline runs on: the libraries, whether encryption is compiled in, the files, the thread pool (the
  jobs it accepts, those that were cancelled, whether it starts, what is left waiting when it is stopped), the clock, and for
  a waiting \<open>acquire\<close> the number of its rounds and the clock in each.\<close>

record pipeline_env =
  pe_lz4 :: "lz4 option"
  pe_ssl :: openssl
  encryption_built :: bool
  pe_io :: io_env
  pe_files :: filesystem
  pool_accepts :: "pipeline_job \<Rightarrow> bool"
  job_cancelled :: "pipeline_job \<Rightarrow> bool"
  pool_starts :: bool
  pool_stop :: "bool \<Rightarrow> pipeline_job list \<Rightarrow> pipeline_job list"
  pe_now :: int
  acquire_fuel :: nat
  acquire_clock :: "nat \<Rightarrow> int"
  acquire_wakes :: "nat \<Rightarrow> int list"

definition report :: "pipeline_event \<Rightarrow> pipeline \<Rightarrow> pipeline" where
  "report ev s = s\<lparr>pl_events := pl_events s @ [ev]\<rparr>"

definition count :: "(pipeline_stats \<Rightarrow> pipeline_stats) \<Rightarrow> pipeline \<Rightarrow> pipeline" where
  "count f s = s\<lparr>pl_stats := f (pl_stats s)\<rparr>"

definition enqueue :: "pipeline_env \<Rightarrow> pipeline_job \<Rightarrow> pipeline \<Rightarrow> pipeline \<times> job_result" where
  "enqueue env j s = (if pool_accepts env j then (s\<lparr>pool := pool s @ [j]\<rparr>, Inr ()) else (s, Inl Queue_full))"

text \<open>The engine of a worker.\<close>

definition worker_slot :: "u64 \<Rightarrow> 'a list \<Rightarrow> nat" where
  "worker_slot w es = unat w mod length es"

section \<open>The jobs\<close>

text \<open>\<open>acquire\<close> on a limiter that is there; \<open>None\<close> if it does not return.\<close>

definition wait_for_bandwidth :: "pipeline_env \<Rightarrow> nat \<Rightarrow> limiter option \<Rightarrow> limiter option option" where
  "wait_for_bandwidth env n bw =
     (case bw of
        None \<Rightarrow> Some None
      | Some l \<Rightarrow> map_option Some (acquire (acquire_fuel env) (word_of_nat n) (acquire_clock env) (acquire_wakes env) l))"

definition decompress_work :: "pipeline_env \<Rightarrow> pipeline_chunk \<Rightarrow> u64 \<Rightarrow> pipeline \<Rightarrow> pipeline \<times> job_result" where
  "decompress_work env c w s =
     (let forward = (\<lambda>c s.
            let s = report (Stage_complete Decompress_stage c) s
            in if encryption_enabled s \<and> pc_encrypted c then enqueue env (Decrypt_job c w) s
               else enqueue env (Verify_job c) s)
      in if \<not> pc_compressed c then forward c s
         else
           let k = worker_slot w (compression_engines s)
           in case decompress (pe_lz4 env) (pc_data c) (unat (pc_original_size c)) (compression_engines s ! k) of
                (e, Inl err) \<Rightarrow>
                  (report (Stage_error Decompress_stage) (s\<lparr>compression_engines := (compression_engines s)[k := e]\<rparr>),
                   Inl Job_execution_failed)
              | (e, Inr out) \<Rightarrow>
                  forward (c\<lparr>pc_data := out, pc_compressed := False\<rparr>)
                    (count (\<lambda>st. st\<lparr>compression_saved_bytes :=
                              compression_saved_bytes st + (pc_original_size c - word_of_nat (length out))\<rparr>)
                       (s\<lparr>compression_engines := (compression_engines s)[k := e]\<rparr>)))"

definition decrypt_work :: "pipeline_env \<Rightarrow> pipeline_chunk \<Rightarrow> u64 \<Rightarrow> pipeline \<Rightarrow> pipeline \<times> job_result" where
  "decrypt_work env c w s =
     (let forward = (\<lambda>c s. enqueue env (Verify_job c) (report (Stage_complete Decrypt_stage c) s));
          k = worker_slot w (encryption_engines s)
      in if \<not> encryption_built env then forward (c\<lparr>pc_encrypted := False\<rparr>) s
         else case pc_metadata c of
                None \<Rightarrow> forward c s
              | Some md \<Rightarrow>
                  if encryption_engines s = [] \<or> \<not> has_key (encryption_engines s ! k) then forward c s
                  else case decrypt_chunk (pe_ssl env) (pc_data c) md (pc_index c) (encryption_engines s ! k) of
                         (e, Inl err) \<Rightarrow>
                           (report (Stage_error Decrypt_stage) (s\<lparr>encryption_engines := (encryption_engines s)[k := e]\<rparr>),
                            Inl Job_execution_failed)
                       | (e, Inr r) \<Rightarrow>
                           forward (c\<lparr>pc_data := dr_plaintext r, pc_encrypted := False, pc_metadata := None\<rparr>)
                             (count (\<lambda>st. st\<lparr>chunks_decrypted := chunks_decrypted st + 1\<rparr>)
                                (s\<lparr>encryption_engines := (encryption_engines s)[k := e]\<rparr>)))"

definition verify_work :: "pipeline_env \<Rightarrow> pipeline_chunk \<Rightarrow> pipeline \<Rightarrow> pipeline \<times> job_result" where
  "verify_work env c s =
     (if crc32 (pc_data c) \<noteq> pc_checksum c then (report (Stage_error Chunk_verify) s, Inl Job_execution_failed)
      else enqueue env (Write_job c)
             (report (Stage_complete Chunk_verify c)
                (count (\<lambda>st. st\<lparr>chunks_processed := chunks_processed st + 1,
                               bytes_processed := bytes_processed st + word_of_nat (length (pc_data c))\<rparr>) s)))"

definition write_work :: "pipeline_chunk \<Rightarrow> pipeline \<Rightarrow> pipeline \<times> job_result" where
  "write_work c s =
     (report (Upload_complete (pc_id c) (word_of_nat (length (pc_data c)))) (report (Stage_complete File_write c) s), Inr ())"

definition read_work ::
  "pipeline_env \<Rightarrow> transfer_id \<Rightarrow> u64 \<Rightarrow> path \<Rightarrow> u64 \<Rightarrow> u64 \<Rightarrow> pipeline \<Rightarrow> pipeline \<times> job_result" where
  "read_work env i idx p off n s =
     (case fs_read (pe_io env) (pe_files env) p of
        None \<Rightarrow> (report (Stage_error File_read) s, Inl Job_execution_failed)
      | Some content \<Rightarrow>
          if \<not> seek_ok off then (report (Stage_error File_read) s, Inl Job_execution_failed)
          else
            let d = take (unat n) (drop (unat off) content);
                c = \<lparr>pc_id = i, pc_index = idx, pc_data = d, pc_checksum = crc32 d, pc_compressed = False,
                     pc_original_size = word_of_nat (length d), pc_encrypted = False, pc_metadata = None\<rparr>;
                s = report (Stage_complete File_read c) s
            in if encryption_enabled s then enqueue env (Encrypt_job c idx) s else enqueue env (Compress_job c idx) s)"

definition encrypt_work :: "pipeline_env \<Rightarrow> pipeline_chunk \<Rightarrow> u64 \<Rightarrow> pipeline \<Rightarrow> pipeline \<times> job_result" where
  "encrypt_work env c w s =
     (let forward = (\<lambda>c s. enqueue env (Compress_job c w) (report (Stage_complete Encrypt_stage c) s));
          k = worker_slot w (encryption_engines s)
      in if \<not> encryption_built env \<or> encryption_engines s = [] \<or> \<not> has_key (encryption_engines s ! k) then forward c s
         else case encrypt_chunk (pe_ssl env) (pc_data c) (pc_index c) (encryption_engines s ! k) of
                (e, Inl err) \<Rightarrow>
                  (report (Stage_error Encrypt_stage) (s\<lparr>encryption_engines := (encryption_engines s)[k := e]\<rparr>),
                   Inl Job_execution_failed)
              | (e, Inr r) \<Rightarrow>
                  forward (c\<lparr>pc_data := er_ciphertext r, pc_encrypted := True, pc_metadata := Some (er_metadata r)\<rparr>)
                    (count (\<lambda>st. st\<lparr>chunks_encrypted := chunks_encrypted st + 1,
                              encryption_bytes := encryption_bytes st + word_of_nat (length (er_ciphertext r))\<rparr>)
                       (s\<lparr>encryption_engines := (encryption_engines s)[k := e]\<rparr>)))"

definition compress_work :: "pipeline_env \<Rightarrow> pipeline_chunk \<Rightarrow> u64 \<Rightarrow> pipeline \<Rightarrow> pipeline \<times> job_result" where
  "compress_work env c w s =
     (let forward = (\<lambda>c s. enqueue env (Send_job c) (report (Stage_complete Compress_stage c) s));
          k = worker_slot w (compression_engines s)
      in if \<not> is_compressible (pe_lz4 env) (pc_data c) then forward c s
         else case compress (pe_lz4 env) (pc_data c) (compression_engines s ! k) of
                (e, Inl err) \<Rightarrow> forward c (s\<lparr>compression_engines := (compression_engines s)[k := e]\<rparr>)
              | (e, Inr out) \<Rightarrow>
                  let s = s\<lparr>compression_engines := (compression_engines s)[k := e]\<rparr>
                  in if length out < length (pc_data c)
                     then forward (c\<lparr>pc_original_size := word_of_nat (length (pc_data c)), pc_data := out, pc_compressed := True\<rparr>)
                            (count (\<lambda>st. st\<lparr>compression_saved_bytes := compression_saved_bytes st +
                                      (word_of_nat (length (pc_data c)) - word_of_nat (length out))\<rparr>) s)
                     else forward c s)"

definition send_work :: "pipeline_env \<Rightarrow> pipeline_chunk \<Rightarrow> pipeline \<Rightarrow> (pipeline \<times> job_result) option" where
  "send_work env c s =
     (case wait_for_bandwidth env (length (pc_data c)) (send_limiter s) of
        None \<Rightarrow> None
      | Some bw \<Rightarrow>
          Some (report (Download_ready c)
                  (report (Stage_complete Network_send c)
                     (count (\<lambda>st. st\<lparr>chunks_processed := chunks_processed st + 1,
                                    bytes_processed := bytes_processed st + word_of_nat (length (pc_data c))\<rparr>)
                        (s\<lparr>send_limiter := bw\<rparr>))), Inr ()))"

text \<open>\<open>do_work\<close> of each class; \<open>None\<close> for a job that waits for ever.\<close>

definition do_work :: "pipeline_env \<Rightarrow> pipeline_job \<Rightarrow> pipeline \<Rightarrow> (pipeline \<times> job_result) option" where
  "do_work env j s =
     (if job_cancelled env j then Some (s, Inl Operation_canceled)
      else if \<not> pl_running s then Some (s, Inr ())
      else case j of
             Decompress_job c w \<Rightarrow> Some (decompress_work env c w s)
           | Decrypt_job c w \<Rightarrow> Some (decrypt_work env c w s)
           | Verify_job c \<Rightarrow> Some (verify_work env c s)
           | Write_job c \<Rightarrow> Some (write_work c s)
           | Read_job i idx p off n \<Rightarrow> Some (read_work env i idx p off n s)
           | Encrypt_job c w \<Rightarrow> Some (encrypt_work env c w s)
           | Compress_job c w \<Rightarrow> Some (compress_work env c w s)
           | Send_job c \<Rightarrow> send_work env c s)"

section \<open>The operations\<close>

definition limiter_for :: "pipeline_env \<Rightarrow> u64 \<Rightarrow> limiter option" where
  "limiter_for env rate = (if rate > 0 then Some (new_limiter rate (pe_now env)) else None)"

definition create_pipeline :: "pipeline_env \<Rightarrow> pipeline_config \<Rightarrow> pipeline result" where
  "create_pipeline env cfg =
     (if \<not> pipeline_config_valid cfg then Inl Invalid_configuration
      else Inr \<lparr>pl_config = cfg, pl_running = False, pl_stats = no_pipeline_stats,
                compression_engines = replicate (unat (compression_workers cfg)) (new_engine Level_default),
                encryption_engines =
                  (if enable_encryption cfg \<and> encryption_built env
                   then replicate (unat (encryption_workers cfg)) (create_gcm_engine default_gcm_config) else []),
                encryption_enabled = enable_encryption cfg,
                send_limiter = limiter_for env (send_bandwidth_limit cfg),
                recv_limiter = limiter_for env (recv_bandwidth_limit cfg),
                next_worker_id = 0, pool = [], pl_events = []\<rparr>)"

definition start_pipeline :: "pipeline_env \<Rightarrow> pipeline \<Rightarrow> pipeline \<times> unit result" where
  "start_pipeline env s =
     (if pl_running s then (s, Inl Already_initialized)
      else if \<not> pool_starts env then (s\<lparr>pl_running := False\<rparr>, Inl Internal_error)
      else (s\<lparr>pl_running := True\<rparr>, Inr ()))"

definition stop_pipeline :: "pipeline_env \<Rightarrow> bool \<Rightarrow> pipeline \<Rightarrow> pipeline \<times> unit result" where
  "stop_pipeline env wait_for_completion s =
     (if \<not> pl_running s then (s, Inl Not_initialized)
      else (s\<lparr>pl_running := False, pool := pool_stop env (\<not> wait_for_completion) (pool s)\<rparr>, Inr ()))"

definition get_worker_id :: "pipeline \<Rightarrow> pipeline \<times> u64" where
  "get_worker_id s = (s\<lparr>next_worker_id := next_worker_id s + 1\<rparr>, next_worker_id s)"

definition enqueue_or_count :: "pipeline_env \<Rightarrow> pipeline_job \<Rightarrow> pipeline \<Rightarrow> pipeline \<times> unit result" where
  "enqueue_or_count env j s =
     (case enqueue env j s of
        (s, Inl _) \<Rightarrow> (count (\<lambda>st. st\<lparr>backpressure_events := backpressure_events st + 1\<rparr>) s, Inl Internal_error)
      | (s, Inr _) \<Rightarrow> (s, Inr ()))"

definition submit_upload_chunk :: "pipeline_env \<Rightarrow> pipeline_chunk \<Rightarrow> pipeline \<Rightarrow> (pipeline \<times> unit result) option" where
  "submit_upload_chunk env c s =
     (if \<not> pl_running s then Some (s, Inl Not_initialized)
      else case wait_for_bandwidth env (length (pc_data c)) (recv_limiter s) of
             None \<Rightarrow> None
           | Some bw \<Rightarrow>
               (case get_worker_id (s\<lparr>recv_limiter := bw\<rparr>) of
                  (s, w) \<Rightarrow> Some (enqueue_or_count env (Decompress_job c w) s)))"

definition try_submit_upload_chunk :: "pipeline_env \<Rightarrow> pipeline_chunk \<Rightarrow> pipeline \<Rightarrow> pipeline \<times> bool" where
  "try_submit_upload_chunk env c s =
     (if \<not> pl_running s then (s, False)
      else
        let (s, granted) =
              (case recv_limiter s of
                 None \<Rightarrow> (s, True)
               | Some l \<Rightarrow>
                   (case try_acquire (word_of_nat (length (pc_data c))) (pe_now env) l of
                      (l, ok) \<Rightarrow> (s\<lparr>recv_limiter := Some l\<rparr>, ok)))
        in if \<not> granted then (s, False)
           else case get_worker_id s of
                  (s, w) \<Rightarrow> (case enqueue_or_count env (Decompress_job c w) s of (s, r) \<Rightarrow> (s, \<not> isl r)))"

definition submit_download_request ::
  "pipeline_env \<Rightarrow> transfer_id \<Rightarrow> u64 \<Rightarrow> path \<Rightarrow> u64 \<Rightarrow> u64 \<Rightarrow> pipeline \<Rightarrow> pipeline \<times> unit result" where
  "submit_download_request env i idx p off n s =
     (if \<not> pl_running s then (s, Inl Not_initialized) else enqueue_or_count env (Read_job i idx p off n) s)"

definition reset_pipeline_stats :: "pipeline \<Rightarrow> pipeline" where
  "reset_pipeline_stats s = s\<lparr>pl_stats := no_pipeline_stats\<rparr>"

definition queue_sizes :: "pipeline \<Rightarrow> (pipeline_stage \<times> nat) list" where
  "queue_sizes s =
     [(Decompress_stage, 0), (Chunk_verify, 0), (File_write, 0), (File_read, 0), (Compress_stage, 0), (Network_send, 0)] @
     (if encryption_enabled s then [(Decrypt_stage, 0), (Encrypt_stage, 0)] else [])"

definition change_limit :: "pipeline_env \<Rightarrow> u64 \<Rightarrow> limiter option \<Rightarrow> limiter option" where
  "change_limit env rate bw =
     (if rate > 0
      then (case bw of
              Some l \<Rightarrow> Some (set_limit rate (pe_now env) l)
            | None \<Rightarrow> Some (new_limiter rate (pe_now env)))
      else map_option disable bw)"

definition set_send_bandwidth_limit :: "pipeline_env \<Rightarrow> u64 \<Rightarrow> pipeline \<Rightarrow> pipeline" where
  "set_send_bandwidth_limit env rate s =
     s\<lparr>send_limiter := change_limit env rate (send_limiter s),
       pl_config := (pl_config s)\<lparr>send_bandwidth_limit := rate\<rparr>\<rparr>"

definition set_recv_bandwidth_limit :: "pipeline_env \<Rightarrow> u64 \<Rightarrow> pipeline \<Rightarrow> pipeline" where
  "set_recv_bandwidth_limit env rate s =
     s\<lparr>recv_limiter := change_limit env rate (recv_limiter s),
       pl_config := (pl_config s)\<lparr>recv_bandwidth_limit := rate\<rparr>\<rparr>"


section \<open>What a pipeline can do\<close>

text \<open>Any waiting job may be the next to run; calls and jobs come in any order, each in its own environment.\<close>

inductive run_step :: "pipeline \<Rightarrow> pipeline \<Rightarrow> bool" where
  run: "pool s = js @ j # js' \<Longrightarrow> do_work env j (s\<lparr>pool := js @ js'\<rparr>) = Some (s', r) \<Longrightarrow> run_step s s'"

inductive pipeline_step :: "pipeline \<Rightarrow> pipeline \<Rightarrow> bool" where
  job: "run_step s s' \<Longrightarrow> pipeline_step s s'"
| upload: "submit_upload_chunk env c s = Some (s', r) \<Longrightarrow> pipeline_step s s'"
| try_upload: "try_submit_upload_chunk env c s = (s', ok) \<Longrightarrow> pipeline_step s s'"
| download: "submit_download_request env i idx p off n s = (s', r) \<Longrightarrow> pipeline_step s s'"
| start: "start_pipeline env s = (s', r) \<Longrightarrow> pipeline_step s s'"
| stop: "set (pool_stop env (\<not> wait) (pool s)) \<subseteq> set (pool s) \<Longrightarrow> stop_pipeline env wait s = (s', r) \<Longrightarrow> pipeline_step s s'"
| send_limit: "pipeline_step s (set_send_bandwidth_limit env rate s)"
| recv_limit: "pipeline_step s (set_recv_bandwidth_limit env rate s)"
| reset: "pipeline_step s (reset_pipeline_stats s)"

text \<open>A chunk as it was read, or compressed since.\<close>

definition sent_plain :: "pipeline_chunk \<Rightarrow> pipeline_chunk \<Rightarrow> bool" where
  "sent_plain c0 c \<longleftrightarrow>
     c = c0 \<or>
     (\<exists>lib e e' out. compress lib (pc_data c0) e = (e', Inr out) \<and>
        c = c0\<lparr>pc_original_size := word_of_nat (length (pc_data c0)), pc_data := out, pc_compressed := True\<rparr>)"

definition sent_as_read :: "pipeline_event set \<Rightarrow> pipeline_chunk \<Rightarrow> bool" where
  "sent_as_read evs c \<longleftrightarrow> (\<exists>c0. Stage_complete File_read c0 \<in> evs \<and> \<not> pc_encrypted c0 \<and> sent_plain c0 c)"

definition written :: "pipeline_event set \<Rightarrow> transfer_id \<Rightarrow> u64 \<Rightarrow> bool" where
  "written evs i n \<longleftrightarrow>
     (\<exists>c. Stage_complete File_write c \<in> evs \<and> crc32 (pc_data c) = pc_checksum c \<and> pc_id c = i \<and>
        n = word_of_nat (length (pc_data c)))"

fun job_ok :: "pipeline_event set \<Rightarrow> pipeline_job \<Rightarrow> bool" where
  "job_ok evs (Write_job c) \<longleftrightarrow> crc32 (pc_data c) = pc_checksum c"
| "job_ok evs (Encrypt_job c w) \<longleftrightarrow> Stage_complete File_read c \<in> evs \<and> \<not> pc_encrypted c"
| "job_ok evs (Compress_job c w) \<longleftrightarrow> Stage_complete File_read c \<in> evs \<and> \<not> pc_encrypted c"
| "job_ok evs (Send_job c) \<longleftrightarrow> sent_as_read evs c"
| "job_ok evs j \<longleftrightarrow> True"

fun event_ok :: "pipeline_event set \<Rightarrow> pipeline_event \<Rightarrow> bool" where
  "event_ok evs (Download_ready c) \<longleftrightarrow> sent_as_read evs c"
| "event_ok evs (Upload_complete i n) \<longleftrightarrow> written evs i n"
| "event_ok evs ev \<longleftrightarrow> True"

definition pipeline_inv :: "pipeline \<Rightarrow> bool" where
  "pipeline_inv s \<longleftrightarrow>
     list_all (\<lambda>e. \<not> has_key e) (encryption_engines s) \<and> chunks_encrypted (pl_stats s) = 0 \<and>
     list_all (job_ok (set (pl_events s))) (pool s) \<and> list_all (event_ok (set (pl_events s))) (pl_events s)"

lemma sent_as_readI:
  assumes "Stage_complete File_read c \<in> evs" and "\<not> pc_encrypted c"
  shows "sent_as_read evs c"
    and "compress lib (pc_data c) e = (e', Inr out) \<Longrightarrow>
      sent_as_read evs (c\<lparr>pc_original_size := word_of_nat (length (pc_data c)), pc_data := out, pc_compressed := True\<rparr>)"
  using assms unfolding sent_as_read_def sent_plain_def by blast+

lemma sent_as_read_mono: "sent_as_read evs c \<Longrightarrow> evs \<subseteq> evs' \<Longrightarrow> sent_as_read evs' c"
  by (auto simp: sent_as_read_def)

lemma job_ok_mono: "job_ok evs j \<Longrightarrow> evs \<subseteq> evs' \<Longrightarrow> job_ok evs' j"
  by (cases j) (auto intro: sent_as_read_mono)

lemma event_ok_mono: "event_ok evs ev \<Longrightarrow> evs \<subseteq> evs' \<Longrightarrow> event_ok evs' ev"
  by (cases ev) (auto simp: written_def intro: sent_as_read_mono)

lemma inv_report: "pipeline_inv s \<Longrightarrow> event_ok (insert ev (set (pl_events s))) ev \<Longrightarrow> pipeline_inv (report ev s)"
  by (auto simp: pipeline_inv_def report_def list_all_iff intro: job_ok_mono event_ok_mono)

lemma inv_enqueue: "pipeline_inv s \<Longrightarrow> job_ok (set (pl_events s)) j \<Longrightarrow> pipeline_inv (fst (enqueue env j s))"
  by (simp add: pipeline_inv_def enqueue_def)

lemma inv_count:
  "pipeline_inv s \<Longrightarrow> (\<And>st. chunks_encrypted (f st) = chunks_encrypted st) \<Longrightarrow> pipeline_inv (count f s)"
  by (simp add: pipeline_inv_def count_def)

lemma inv_frame [simp]:
  "pipeline_inv (s\<lparr>compression_engines := es\<rparr>) = pipeline_inv s"
  "pipeline_inv (s\<lparr>send_limiter := l\<rparr>) = pipeline_inv s"
  "pipeline_inv (s\<lparr>recv_limiter := l\<rparr>) = pipeline_inv s"
  "pipeline_inv (s\<lparr>next_worker_id := w\<rparr>) = pipeline_inv s"
  "pipeline_inv (s\<lparr>pl_running := b\<rparr>) = pipeline_inv s"
  "pipeline_inv (s\<lparr>pl_config := c\<rparr>) = pipeline_inv s"
  by (simp_all add: pipeline_inv_def)

lemma events_simps [simp]:
  "pl_events (report ev s) = pl_events s @ [ev]" "pl_events (count f s) = pl_events s"
  "pl_events (fst (enqueue env j s)) = pl_events s"
  "pool (report ev s) = pool s" "pool (count f s) = pool s"
  "pl_running (report ev s) = pl_running s" "pl_running (count f s) = pl_running s"
  "encryption_engines (report ev s) = encryption_engines s" "encryption_engines (count f s) = encryption_engines s"
  "encryption_enabled (report ev s) = encryption_enabled s" "encryption_enabled (count f s) = encryption_enabled s"
  "compression_engines (report ev s) = compression_engines s" "compression_engines (count f s) = compression_engines s"
  "send_limiter (report ev s) = send_limiter s" "send_limiter (count f s) = send_limiter s"
  by (simp_all add: report_def count_def enqueue_def)

lemma inv_unkeyed: "pipeline_inv s \<Longrightarrow> encryption_engines s \<noteq> [] \<Longrightarrow> \<not> has_key (encryption_engines s ! worker_slot w (encryption_engines s))"
  by (simp add: pipeline_inv_def worker_slot_def list_all_length)

lemma inv_upload_work:
  assumes "pipeline_inv s"
  shows "pipeline_inv (fst (decompress_work env c w s))" "pipeline_inv (fst (decrypt_work env c w s))"
    "pipeline_inv (fst (verify_work env c s))" "crc32 (pc_data c) = pc_checksum c \<Longrightarrow> pipeline_inv (fst (write_work c s))"
  using assms inv_unkeyed [OF assms]
  by (auto simp: decompress_work_def decrypt_work_def verify_work_def write_work_def Let_def written_def
      intro!: inv_report inv_enqueue inv_count split: prod.split sum.split option.split)

lemma inv_download_work:
  assumes "pipeline_inv s"
  shows "pipeline_inv (fst (read_work env i idx p off n s))"
    "job_ok (set (pl_events s)) (Encrypt_job c w) \<Longrightarrow> pipeline_inv (fst (encrypt_work env c w s))"
    "job_ok (set (pl_events s)) (Compress_job c w) \<Longrightarrow> pipeline_inv (fst (compress_work env c w s))"
    "job_ok (set (pl_events s)) (Send_job c) \<Longrightarrow> send_work env c s = Some (s', r) \<Longrightarrow> pipeline_inv s'"
  using assms inv_unkeyed [OF assms]
  by (auto simp: read_work_def encrypt_work_def compress_work_def send_work_def Let_def
      intro!: inv_report inv_enqueue inv_count intro: sent_as_readI sent_as_read_mono
      split: prod.split sum.split option.split option.splits)

lemma inv_do_work:
  assumes "pipeline_inv s" and "job_ok (set (pl_events s)) j" and "do_work env j s = Some (s', r)"
  shows "pipeline_inv s'"
  using assms inv_upload_work [OF assms(1)] inv_download_work [OF assms(1)]
  by (cases j) (auto simp: do_work_def split: if_splits dest!: arg_cong [where f = fst])

lemma inv_enqueue_or_count:
  "pipeline_inv s \<Longrightarrow> job_ok (set (pl_events s)) j \<Longrightarrow> pipeline_inv (fst (enqueue_or_count env j s))"
  using inv_enqueue [of s j env] by (auto simp: enqueue_or_count_def intro: inv_count split: prod.split sum.split)

lemma inv_step: "pipeline_step s s' \<Longrightarrow> pipeline_inv s \<Longrightarrow> pipeline_inv s'"
proof (induction rule: pipeline_step.induct)
  case (job s s')
  then obtain js j js' env r where p: "pool s = js @ j # js'" "do_work env j (s\<lparr>pool := js @ js'\<rparr>) = Some (s', r)"
    by (auto elim: run_step.cases)
  have "pipeline_inv (s\<lparr>pool := js @ js'\<rparr>)" "job_ok (set (pl_events s)) j"
    using job.prems p(1) by (auto simp: pipeline_inv_def)
  then show ?case using inv_do_work [OF _ _ p(2)] by simp
next
  case (upload env c s s' r)
  then show ?case
    using inv_enqueue_or_count [where j = "Decompress_job c w" for w]
    by (fastforce simp: submit_upload_chunk_def get_worker_id_def split: if_splits option.splits dest!: arg_cong [where f = fst])
next
  case (try_upload env c s s' ok)
  then show ?case
    using inv_enqueue_or_count [where j = "Decompress_job c w" for w]
    by (fastforce simp: try_submit_upload_chunk_def get_worker_id_def Let_def split: if_splits option.splits prod.splits
        dest!: arg_cong [where f = fst])
next
  case (download env i idx p off n s s' r)
  then show ?case
    using inv_enqueue_or_count [where j = "Read_job i idx p off n"]
    by (fastforce simp: submit_download_request_def split: if_splits dest!: arg_cong [where f = fst])
next
  case (stop env wait s s' r)
  then show ?case by (auto simp: stop_pipeline_def pipeline_inv_def list_all_iff split: if_splits)
next
  case (reset s)
  then show ?case by (simp add: pipeline_inv_def reset_pipeline_stats_def no_pipeline_stats_def)
qed (auto simp: start_pipeline_def set_send_bandwidth_limit_def set_recv_bandwidth_limit_def split: if_splits)

lemma inv_steps: "pipeline_step\<^sup>*\<^sup>* s s' \<Longrightarrow> pipeline_inv s \<Longrightarrow> pipeline_inv s'"
  by (induction rule: rtranclp_induct) (auto intro: inv_step)

lemma inv_create: "create_pipeline env cfg = Inr s \<Longrightarrow> pipeline_inv s"
  by (auto simp: create_pipeline_def pipeline_inv_def no_pipeline_stats_def list_all_iff has_key_def create_gcm_engine_def
      split: if_splits)


text \<open>A pipeline never encrypts, whatever its configuration says: its engines get no key, and what it hands over for
  sending is a chunk as it was read from the file, or compressed.\<close>

theorem sent_chunks_never_encrypted:
  assumes "create_pipeline env cfg = Inr s0" and "pipeline_step\<^sup>*\<^sup>* s0 s"
  shows "chunks_encrypted (pl_stats s) = 0 \<and>
         (\<forall>c. Download_ready c \<in> set (pl_events s) \<longrightarrow>
            \<not> pc_encrypted c \<and>
            (\<exists>c0. Stage_complete File_read c0 \<in> set (pl_events s) \<and>
               (c = c0 \<or> (\<exists>lib e e'. pc_compressed c \<and> compress lib (pc_data c0) e = (e', Inr (pc_data c))))))"
proof -
  have inv: "pipeline_inv s" using inv_steps [OF assms(2) inv_create [OF assms(1)]] .
  have "sent_as_read (set (pl_events s)) c" if "Download_ready c \<in> set (pl_events s)" for c
    using inv that by (force simp: pipeline_inv_def list_all_iff)
  then show ?thesis
    using inv unfolding pipeline_inv_def sent_as_read_def sent_plain_def by fastforce
qed

section \<open>Stopping and waiting\<close>

lemma stopped_run:
  assumes "run_step s s'" and "\<not> pl_running s"
  shows "\<not> pl_running s' \<and> pl_events s' = pl_events s"
  using assms by (auto elim!: run_step.cases simp: do_work_def split: if_splits)

lemma stopped_runs: "run_step\<^sup>*\<^sup>* s s' \<Longrightarrow> \<not> pl_running s \<Longrightarrow> \<not> pl_running s' \<and> pl_events s' = pl_events s"
  by (induction rule: rtranclp_induct) (auto dest: stopped_run)

text \<open>A chunk that was accepted is lost, without any event, when the pipeline is stopped before its jobs ran, also
  when \<open>stop\<close> was asked to wait for completion: the jobs that are run while it waits do nothing.\<close>

theorem accepted_chunk_lost_on_stop:
  assumes "submit_upload_chunk env c s = Some (s1, Inr ())" and "stop_pipeline env' wait_for_completion s1 = (s2, Inr ())"
    and "run_step\<^sup>*\<^sup>* s2 s3"
  shows "pl_events s3 = pl_events s"
proof -
  have "pl_events s1 = pl_events s"
    using assms(1) by (auto simp: submit_upload_chunk_def enqueue_or_count_def get_worker_id_def enqueue_def
        split: if_splits option.splits)
  moreover have "pl_events s2 = pl_events s1" "\<not> pl_running s2"
    using assms(2) by (auto simp: stop_pipeline_def split: if_splits)
  ultimately show ?thesis using stopped_runs [OF assms(3)] by simp
qed

text \<open>The number of jobs a job still leads to.\<close>

fun job_rank :: "pipeline_job \<Rightarrow> nat" where
  "job_rank (Decompress_job c w) = 4"
| "job_rank (Decrypt_job c w) = 3"
| "job_rank (Verify_job c) = 2"
| "job_rank (Write_job c) = 1"
| "job_rank (Read_job i idx p off n) = 4"
| "job_rank (Encrypt_job c w) = 3"
| "job_rank (Compress_job c w) = 2"
| "job_rank (Send_job c) = 1"

definition work_left :: "pipeline \<Rightarrow> nat" where
  "work_left s = sum_list (map job_rank (pool s))"


lemma work_frame [simp]:
  "work_left (report ev s) = work_left s" "work_left (count f s) = work_left s"
  "work_left (s\<lparr>compression_engines := es\<rparr>) = work_left s" "work_left (s\<lparr>encryption_engines := gs\<rparr>) = work_left s"
  "work_left (s\<lparr>send_limiter := l\<rparr>) = work_left s"
  by (simp_all add: work_left_def report_def count_def)




text \<open>With a send limit below the size of a chunk the worker that sends it waits for ever.\<close>

theorem small_send_limit_blocks_worker:
  assumes "send_limiter s = None" and "rate > 0"
    and "length (pc_data c) < 2 ^ 63" and "unat rate * 1000001 \<le> length (pc_data c) * 1000000"
    and "pl_running s" and "\<not> job_cancelled env' (Send_job c)"
  shows "do_work env' (Send_job c) (set_send_bandwidth_limit env rate s) = None"
proof -
  let ?l = "new_limiter rate (pe_now env)" and ?n = "word_of_nat (length (pc_data c)) :: u64"
  have n: "unat ?n = length (pc_data c)"
    using assms(3) by (intro unat_u64_of_nat) simp
  have "bucket_inv ?l" "bl_enabled ?l" using assms(2) by (simp_all add: bucket_inv_new) (simp add: new_limiter_def)
  moreover have "(of_nat (unat rate * 1000001) :: rat) \<le> of_nat (unat ?n * 1000000)"
    using assms(4) by (simp only: of_nat_le_iff n)
  then have "rat_of_size (bytes_per_second ?l) * 1000001 \<le> rat_of_size ?n * 1000000"
    by (simp add: rat_of_size_def new_limiter_def n)
  moreover have "length (pc_data c) \<noteq> 0" using assms(2,4) by (auto simp: unat_eq_zero)
  then have "?n \<noteq> 0" using n by auto
  ultimately have "acquire fuel ?n clk wakes ?l = None" for fuel clk wakes
    using oversized_rounds [of ?l ?n] by (simp add: acquire_def)
  then show ?thesis
    using assms(1,2,5,6)
    by (simp add: do_work_def send_work_def wait_for_bandwidth_def set_send_bandwidth_limit_def change_limit_def)
qed

section \<open>From one pipeline to another\<close>

text \<open>Jobs in the order they were accepted.\<close>

fun run_jobs :: "nat \<Rightarrow> pipeline_env \<Rightarrow> pipeline \<Rightarrow> pipeline option" where
  "run_jobs 0 env s = Some s"
| "run_jobs (Suc n) env s =
     (case pool s of
        [] \<Rightarrow> Some s
      | j # js \<Rightarrow> (case do_work env j (s\<lparr>pool := js\<rparr>) of None \<Rightarrow> None | Some (s', r) \<Rightarrow> run_jobs n env s'))"

lemma run_jobs_idle: "pool s = [] \<Longrightarrow> run_jobs n env s = Some s"
  by (cases n) simp_all

lemma run_jobs_step:
  "pool s = j # js \<Longrightarrow> do_work env j (s\<lparr>pool := js\<rparr>) = Some (s', r) \<Longrightarrow> run_jobs (Suc n) env s = run_jobs n env s'"
  by simp

definition undisturbed :: "pipeline_env \<Rightarrow> bool" where
  "undisturbed env \<longleftrightarrow> pool_accepts env = (\<lambda>j. True) \<and> job_cancelled env = (\<lambda>j. False)"

definition idle_pipeline :: "pipeline \<Rightarrow> bool" where
  "idle_pipeline s \<longleftrightarrow>
     pl_running s \<and> pool s = [] \<and> send_limiter s = None \<and> recv_limiter s = None \<and>
     list_all (\<lambda>e. \<not> has_key e) (encryption_engines s)"

lemma keyless_slot:
  "list_all (\<lambda>e. \<not> has_key e) es \<Longrightarrow> es = [] \<or> \<not> has_key (es ! worker_slot w es)"
  by (cases "es = []") (auto simp: worker_slot_def list_all_length)

text \<open>A chunk from which decompression restores another.\<close>

definition restores :: "lz4 \<Rightarrow> pipeline_chunk \<Rightarrow> pipeline_chunk \<Rightarrow> bool" where
  "restores lz c c2 \<longleftrightarrow>
     pc_id c2 = pc_id c \<and> pc_index c2 = pc_index c \<and> pc_checksum c2 = pc_checksum c \<and> \<not> pc_encrypted c2 \<and>
     (if pc_compressed c2 then \<forall>e. snd (decompress (Some lz) (pc_data c2) (unat (pc_original_size c2)) e) = Inr (pc_data c)
      else pc_data c2 = pc_data c)"

lemma compress_work_restores:
  assumes "pe_lz4 env = Some lz" and "sound_lz4 lz" and "length (pc_data c) < 2 ^ 31"
    and "\<not> pc_compressed c" and "\<not> pc_encrypted c"
  shows "\<exists>c2 s2. compress_work env c w s = enqueue env (Send_job c2) s2 \<and> pool s2 = pool s \<and> pl_running s2 = pl_running s \<and>
           send_limiter s2 = send_limiter s \<and> restores lz c c2"
proof -
  have n: "unat (word_of_nat (length (pc_data c)) :: u64) = length (pc_data c)"
    using assms(3) by (intro unat_u64_of_nat) simp
  obtain e r where comp: "compress (Some lz) (pc_data c) (compression_engines s ! worker_slot w (compression_engines s)) = (e, r)"
    by fastforce
  have "restores lz c (c\<lparr>pc_original_size := word_of_nat (length (pc_data c)), pc_data := out, pc_compressed := True\<rparr>)"
    if "r = Inr out" for out
    using compress_restores [OF assms(2,3) comp [unfolded that]] assms(5) by (simp add: restores_def n)
  moreover have "restores lz c c" using assms(4,5) by (simp add: restores_def)
  ultimately show ?thesis
    by (cases r) (force simp: compress_work_def assms(1) comp Let_def)+
qed

lemma download_run:
  assumes "undisturbed env" and "idle_pipeline s"
    and "pe_lz4 env = Some lz" and "sound_lz4 lz" and "unat n < 2 ^ 31"
    and "fs_read (pe_io env) (pe_files env) p = Some content" and "seek_ok off"
  shows "\<exists>s2 c c2. run_jobs 4 env (fst (submit_download_request env i idx p off n s)) = Some s2 \<and>
           last (pl_events s2) = Download_ready c2 \<and> Download_ready c2 \<in> set (pl_events s2) \<and> restores lz c c2 \<and> pc_id c = i \<and> pc_index c = idx \<and>
           pc_data c = take (unat n) (drop (unat off) content) \<and> pc_checksum c = crc32 (pc_data c)"
proof -
  note env = assms(1) [unfolded undisturbed_def]
  let ?d = "take (unat n) (drop (unat off) content)"
  define c where "c = \<lparr>pc_id = i, pc_index = idx, pc_data = ?d, pc_checksum = crc32 ?d, pc_compressed = False,
     pc_original_size = word_of_nat (length ?d), pc_encrypted = False, pc_metadata = None\<rparr>"
  have compress_then_send: "\<exists>s2 c2. run_jobs (Suc (Suc k)) env t = Some s2 \<and> last (pl_events s2) = Download_ready c2 \<and>
      Download_ready c2 \<in> set (pl_events s2) \<and> restores lz c c2"
    if t: "pool t = [Compress_job c idx]" "pl_running t" "send_limiter t = None" for t k
  proof -
    have len: "length (pc_data c) < 2 ^ 31" and flags: "\<not> pc_compressed c" "\<not> pc_encrypted c"
      using assms(5) by (simp_all add: c_def)
    obtain c2 t2 where "compress_work env c idx (t\<lparr>pool := []\<rparr>) = enqueue env (Send_job c2) t2" "pool t2 = []" "pl_running t2"
      "send_limiter t2 = None" "restores lz c c2"
      using compress_work_restores [OF assms(3,4) len flags, of idx "t\<lparr>pool := []\<rparr>"] t by auto
    with t env show ?thesis
      by (auto simp: do_work_def enqueue_def send_work_def wait_for_bandwidth_def run_jobs_idle report_def count_def)
  qed
  have read: "read_work env i idx p off n t =
      enqueue env (if encryption_enabled t then Encrypt_job c idx else Compress_job c idx) (report (Stage_complete File_read c) t)" for t
    using assms(6,7) by (simp add: read_work_def c_def Let_def)
  have encrypt: "encrypt_work env c idx t = enqueue env (Compress_job c idx) (report (Stage_complete Encrypt_stage c) t)"
    if "list_all (\<lambda>e. \<not> has_key e) (encryption_engines t)" for t
    using keyless_slot [OF that, of idx] by (auto simp: encrypt_work_def Let_def)
  have idle: "pl_running s" "pool s = []" "send_limiter s = None" "list_all (\<lambda>e. \<not> has_key e) (encryption_engines s)"
    using assms(2) by (simp_all add: idle_pipeline_def)
  define s1 where "s1 = s\<lparr>pool := [Read_job i idx p off n]\<rparr>"
  have s1: "fst (submit_download_request env i idx p off n s) = s1"
    using env idle by (simp add: submit_download_request_def enqueue_or_count_def enqueue_def s1_def)
  define t where "t = (if encryption_enabled s then Encrypt_job c idx else Compress_job c idx)"
  define s2 where "s2 = report (Stage_complete File_read c) (s\<lparr>pool := []\<rparr>)"
  have r1: "run_jobs (Suc k) env s1 = run_jobs k env (s2\<lparr>pool := [t]\<rparr>)" for k
  proof -
    have "pool s1 = Read_job i idx p off n # []" by (simp add: s1_def)
    moreover have "do_work env (Read_job i idx p off n) (s1\<lparr>pool := []\<rparr>) = Some (s2\<lparr>pool := [t]\<rparr>, Inr ())"
      using env idle by (simp add: do_work_def read enqueue_def s1_def s2_def t_def)
    ultimately show ?thesis by (rule run_jobs_step)
  qed
  have "\<exists>s2 c2. run_jobs (Suc (Suc (Suc (Suc 0)))) env s1 = Some s2 \<and> last (pl_events s2) = Download_ready c2 \<and>
      Download_ready c2 \<in> set (pl_events s2) \<and> restores lz c c2"
  proof (cases "encryption_enabled s")
    case True
    have "run_jobs (Suc k) env (s2\<lparr>pool := [t]\<rparr>) =
        run_jobs k env ((report (Stage_complete Encrypt_stage c) s2)\<lparr>pool := [Compress_job c idx]\<rparr>)" for k
    proof -
      have "pool (s2\<lparr>pool := [t]\<rparr>) = Encrypt_job c idx # []" by (simp add: t_def True)
      moreover have "do_work env (Encrypt_job c idx) (s2\<lparr>pool := [t], pool := []\<rparr>) =
          Some ((report (Stage_complete Encrypt_stage c) s2)\<lparr>pool := [Compress_job c idx]\<rparr>, Inr ())"
        using env idle encrypt [of "s2\<lparr>pool := []\<rparr>"] by (simp add: do_work_def enqueue_def s2_def report_def)
      ultimately show ?thesis by (rule run_jobs_step)
    qed
    then show ?thesis using compress_then_send idle by (simp add: r1 s2_def report_def del: run_jobs.simps)
  next
    case False
    then show ?thesis using compress_then_send idle by (simp add: r1 s2_def report_def t_def del: run_jobs.simps)
  qed
  then show ?thesis by (force simp: c_def s1 eval_nat_numeral simp del: run_jobs.simps)
qed

lemma upload_run:
  assumes "undisturbed env" and "idle_pipeline s" and "pe_lz4 env = Some lz" and "restores lz c c2"
    and "pc_checksum c = crc32 (pc_data c)"
  shows "\<exists>s1 s2 c'. submit_upload_chunk env c2 s = Some (s1, Inr ()) \<and> pool s1 = [Decompress_job c2 (next_worker_id s)] \<and>
           pl_running s1 \<and> run_jobs 3 env s1 = Some s2 \<and>
           Upload_complete (pc_id c) (word_of_nat (length (pc_data c))) \<in> set (pl_events s2) \<and>
           Stage_complete File_write c' \<in> set (pl_events s2) \<and> pc_id c' = pc_id c \<and> pc_index c' = pc_index c \<and> pc_data c' = pc_data c"
proof -
  note env = assms(1) [unfolded undisturbed_def]
  define s1 where "s1 = s\<lparr>next_worker_id := next_worker_id s + 1, pool := [Decompress_job c2 (next_worker_id s)]\<rparr>"
  have sub: "submit_upload_chunk env c2 s = Some (s1, Inr ())"
    using assms(2) env
    by (simp add: submit_upload_chunk_def idle_pipeline_def wait_for_bandwidth_def get_worker_id_def enqueue_or_count_def enqueue_def s1_def)
  have "\<exists>c' t. pc_id c' = pc_id c \<and> pc_index c' = pc_index c \<and> pc_data c' = pc_data c \<and> pc_checksum c' = pc_checksum c \<and>
      decompress_work env c2 w (s1\<lparr>pool := []\<rparr>) = enqueue env (Verify_job c') t \<and> pool t = [] \<and> pl_running t" for w
  proof (cases "pc_compressed c2")
    case True
    let ?e = "compression_engines s1 ! worker_slot w (compression_engines s1)"
    have "snd (decompress (Some lz) (pc_data c2) (unat (pc_original_size c2)) ?e) = Inr (pc_data c)"
      using assms(4) True by (simp add: restores_def)
    then obtain e where "decompress (Some lz) (pc_data c2) (unat (pc_original_size c2)) ?e = (e, Inr (pc_data c))"
      by (cases "decompress (Some lz) (pc_data c2) (unat (pc_original_size c2)) ?e") simp
    then show ?thesis
      using assms(2-4) True
      by (intro exI [of _ "c2\<lparr>pc_data := pc_data c, pc_compressed := False\<rparr>"])
         (auto simp: decompress_work_def restores_def Let_def s1_def idle_pipeline_def)
  next
    case False
    then show ?thesis
      using assms(2-4)
      by (intro exI [of _ c2]) (auto simp: decompress_work_def restores_def Let_def s1_def idle_pipeline_def)
  qed
  then obtain c' t where c': "pc_id c' = pc_id c" "pc_index c' = pc_index c" "pc_data c' = pc_data c" "pc_checksum c' = pc_checksum c"
    "decompress_work env c2 (next_worker_id s) (s1\<lparr>pool := []\<rparr>) = enqueue env (Verify_job c') t" "pool t = []" "pl_running t" by blast
  have s1: "pl_running s1" "pool s1 = [Decompress_job c2 (next_worker_id s)]" using assms(2) by (simp_all add: s1_def idle_pipeline_def)
  then have "\<exists>s2. run_jobs 3 env s1 = Some s2 \<and> Stage_complete File_write c' \<in> set (pl_events s2) \<and>
      Upload_complete (pc_id c) (word_of_nat (length (pc_data c))) \<in> set (pl_events s2)"
    using c' env assms(5)
    by (simp add: do_work_def verify_work_def write_work_def enqueue_def report_def count_def eval_nat_numeral)
  then show ?thesis using sub c'(1-3) s1 by blast
qed

text \<open>C30: what a pipeline reads from a file and hands over for sending, another pipeline writes as the same bytes under the
  same identifier and index, with or without encryption in the configurations, at whatever compression.\<close>

theorem download_then_upload_restores:
  assumes "undisturbed env" and "idle_pipeline s" and "undisturbed env'" and "idle_pipeline t"
    and "pe_lz4 env = Some lz" and "pe_lz4 env' = Some lz" and "sound_lz4 lz" and "unat n < 2 ^ 31"
    and "fs_read (pe_io env) (pe_files env) p = Some content" and "seek_ok off"
  shows "\<exists>s2 c t1 t2 c'. run_jobs 4 env (fst (submit_download_request env i idx p off n s)) = Some s2 \<and>
           last (pl_events s2) = Download_ready c \<and> submit_upload_chunk env' c t = Some (t1, Inr ()) \<and>
           run_jobs 3 env' t1 = Some t2 \<and> Stage_complete File_write c' \<in> set (pl_events t2) \<and>
           pc_id c' = i \<and> pc_index c' = idx \<and> pc_data c' = take (unat n) (drop (unat off) content)"
  using download_run [OF assms(1,2,5,7,8,9,10), of i idx] upload_run [OF assms(3,4,6)] by metis

section \<open>Witnesses\<close>

lemma run_jobs_steps: "run_jobs n env s = Some s' \<Longrightarrow> run_step\<^sup>*\<^sup>* s s'"
proof (induction n arbitrary: s)
  case (Suc n)
  show ?case
  proof (cases "pool s")
    case (Cons j js)
    with Suc.prems obtain s1 r where "do_work env j (s\<lparr>pool := js\<rparr>) = Some (s1, r)" "run_jobs n env s1 = Some s'"
      by (auto split: option.splits prod.splits)
    then show ?thesis using Suc.IH run_step.run [of s "[]" j js env s1 r] Cons by (auto intro: converse_rtranclp_into_rtranclp)
  qed (use Suc.prems in simp)
qed simp

lemma run_steps_pipeline: "run_step\<^sup>*\<^sup>* s s' \<Longrightarrow> pipeline_step\<^sup>*\<^sup>* s s'"
  by (induction rule: rtranclp_induct) (auto intro: pipeline_step.job rtranclp.rtrancl_into_rtrancl)

definition toy_env :: pipeline_env where
  "toy_env =
     \<lparr>pe_lz4 = Some run_lz4, pe_ssl = toy_ssl, encryption_built = True, pe_io = reliable, pe_files = [''f'' \<mapsto> [1, 2, 3]],
      pool_accepts = (\<lambda>j. True), job_cancelled = (\<lambda>j. False), pool_starts = True, pool_stop = (\<lambda>b js. js), pe_now = 0,
      acquire_fuel = 0, acquire_clock = (\<lambda>k. 0), acquire_wakes = (\<lambda>k. [])\<rparr>"

definition toy_created :: pipeline where
  "toy_created = (case create_pipeline toy_env (default_pipeline_config\<lparr>enable_encryption := True\<rparr>) of Inr s \<Rightarrow> s)"

definition toy_started :: pipeline where
  "toy_started = fst (start_pipeline toy_env toy_created)"

definition toy_chunk :: "bytes \<Rightarrow> pipeline_chunk" where
  "toy_chunk d =
     \<lparr>pc_id = null_id, pc_index = 0, pc_data = d, pc_checksum = crc32 d, pc_compressed = False, pc_original_size = 0,
      pc_encrypted = False, pc_metadata = None\<rparr>"

lemma toy_created: "create_pipeline toy_env (default_pipeline_config\<lparr>enable_encryption := True\<rparr>) = Inr toy_created"
  by (simp add: toy_created_def create_pipeline_def pipeline_config_valid_def default_pipeline_config_def)

lemma created_pipeline:
  "create_pipeline env cfg = Inr s \<Longrightarrow> \<not> pl_running s \<and> pool s = [] \<and> pl_events s = [] \<and>
     send_limiter s = limiter_for env (send_bandwidth_limit cfg) \<and> recv_limiter s = limiter_for env (recv_bandwidth_limit cfg)"
  by (auto simp: create_pipeline_def split: if_splits)

lemma toy_start: "start_pipeline toy_env toy_created = (toy_started, Inr ())"
  using created_pipeline [OF toy_created] by (simp add: toy_started_def start_pipeline_def toy_env_def)

lemma toy_idle: "idle_pipeline toy_started" "undisturbed toy_env" "pl_events toy_started = []" "send_limiter toy_started = None"
proof -
  have s: "pool toy_created = []" "pl_events toy_created = []" "send_limiter toy_created = None" "recv_limiter toy_created = None"
    "\<not> pl_running toy_created"
    using created_pipeline [OF toy_created] by (simp_all add: limiter_for_def default_pipeline_config_def)
  have k: "list_all (\<lambda>e. \<not> has_key e) (encryption_engines toy_created)"
    using inv_create [OF toy_created] by (simp add: pipeline_inv_def)
  have t: "toy_started = toy_created\<lparr>pl_running := True\<rparr>"
    using s by (simp add: toy_started_def start_pipeline_def toy_env_def)
  show "idle_pipeline toy_started" "pl_events toy_started = []" "send_limiter toy_started = None"
    unfolding t using s k by (simp_all add: idle_pipeline_def)
  show "undisturbed toy_env" by (simp add: undisturbed_def toy_env_def)
qed

lemma toy_running: "pl_running toy_started"
  using toy_idle(1) by (simp add: idle_pipeline_def)

lemma toy_uploaded:
  "\<exists>s1 s2. submit_upload_chunk toy_env (toy_chunk d) toy_started = Some (s1, Inr ()) \<and>
     pool s1 = [Decompress_job (toy_chunk d) (next_worker_id toy_started)] \<and> pl_running s1 \<and>
     run_jobs 3 toy_env s1 = Some s2 \<and> Upload_complete null_id (word_of_nat (length d)) \<in> set (pl_events s2)"
proof -
  have "pe_lz4 toy_env = Some run_lz4" "restores run_lz4 (toy_chunk d) (toy_chunk d)" "pc_checksum (toy_chunk d) = crc32 (pc_data (toy_chunk d))"
    by (simp_all add: toy_env_def restores_def toy_chunk_def)
  moreover have "pc_id (toy_chunk d) = null_id" "pc_data (toy_chunk d) = d" by (simp_all add: toy_chunk_def)
  ultimately show ?thesis using upload_run [OF toy_idle(2,1)] by metis
qed

lemma toy_steps: "run_step\<^sup>*\<^sup>* s1 s2 \<Longrightarrow> pipeline_step\<^sup>*\<^sup>* toy_started s1 \<Longrightarrow> pipeline_step\<^sup>*\<^sup>* toy_created s2"
  using pipeline_step.start [OF toy_start] run_steps_pipeline by (meson converse_rtranclp_into_rtranclp rtranclp_trans)


theorem sent_chunks_never_encrypted_witness:
  "\<exists>s c. pipeline_step\<^sup>*\<^sup>* toy_created s \<and> Download_ready c \<in> set (pl_events s) \<and> \<not> pc_encrypted c \<and>
     chunks_encrypted (pl_stats s) = 0"
proof -
  let ?s1 = "fst (submit_download_request toy_env null_id 0 ''f'' 0 3 toy_started)"
  have "seek_ok 0" "unat (3 :: u64) < 2 ^ 31" "fs_read (pe_io toy_env) (pe_files toy_env) ''f'' = Some [1, 2, 3]"
    "pe_lz4 toy_env = Some run_lz4"
    by (simp_all add: seek_ok_def fs_read_def toy_env_def)
  then obtain s2 c where r: "run_jobs 4 toy_env ?s1 = Some s2" "Download_ready c \<in> set (pl_events s2)"
    using download_run [OF toy_idle(2,1) _ sound_run_lz4] by metis
  have "pipeline_step\<^sup>*\<^sup>* toy_created s2"
    using toy_steps [OF run_jobs_steps [OF r(1)]] pipeline_step.download [OF surjective_pairing] by blast
  then show ?thesis using sent_chunks_never_encrypted [OF toy_created] r(2) by blast
qed

theorem accepted_chunk_lost_on_stop_witness:
  "\<exists>s1 s2 s3. submit_upload_chunk toy_env (toy_chunk [8]) toy_started = Some (s1, Inr ()) \<and>
     stop_pipeline toy_env True s1 = (s2, Inr ()) \<and> run_jobs 4 toy_env s2 = Some s3 \<and> pool s3 = [] \<and> pl_events s3 = []"
proof -
  obtain s1 where s1: "submit_upload_chunk toy_env (toy_chunk [8]) toy_started = Some (s1, Inr ())"
    "pool s1 = [Decompress_job (toy_chunk [8]) (next_worker_id toy_started)]" "pl_running s1"
    using toy_uploaded [of "[8]"] by auto
  obtain s2 where s2: "stop_pipeline toy_env True s1 = (s2, Inr ())" "pool s2 = [Decompress_job (toy_chunk [8]) (next_worker_id toy_started)]" "\<not> pl_running s2"
    using s1 by (simp add: stop_pipeline_def toy_env_def)
  then obtain s3 where s3: "run_jobs 4 toy_env s2 = Some s3" "pool s3 = []"
    using run_jobs_step [of s2 _ "[]"] by (simp add: do_work_def toy_env_def numeral_eq_Suc)
  show ?thesis
    using accepted_chunk_lost_on_stop [OF s1(1) s2(1) run_jobs_steps [OF s3(1)]] s1(1) s2(1) s3 toy_idle(3) by auto
qed


theorem small_send_limit_blocks_worker_witness:
  "do_work toy_env (Send_job (toy_chunk [1, 2])) (set_send_bandwidth_limit toy_env 1 toy_started) = None"
  by (rule small_send_limit_blocks_worker [OF toy_idle(4)])
     (simp_all add: toy_chunk_def toy_running toy_env_def)

theorem download_then_upload_restores_witness:
  "\<exists>s2 c t1 t2 c'. run_jobs 4 toy_env (fst (submit_download_request toy_env null_id 0 ''f'' 1 5 toy_started)) = Some s2 \<and>
     last (pl_events s2) = Download_ready c \<and> submit_upload_chunk toy_env c toy_started = Some (t1, Inr ()) \<and>
     run_jobs 3 toy_env t1 = Some t2 \<and> Stage_complete File_write c' \<in> set (pl_events t2) \<and> pc_data c' = [2, 3]"
proof -
  have "seek_ok 1" "unat (5 :: u64) < 2 ^ 31" "fs_read (pe_io toy_env) (pe_files toy_env) ''f'' = Some [1, 2, 3]"
    "pe_lz4 toy_env = Some run_lz4"
    by (simp_all add: seek_ok_def fs_read_def toy_env_def)
  moreover have "take (unat (5 :: u64)) (drop (unat (1 :: u64)) [1, 2, 3]) = [2 :: u8, 3]" by simp
  ultimately show ?thesis
    using download_then_upload_restores [OF toy_idle(2,1) toy_idle(2,1) _ _ sound_run_lz4, of 5 "''f''" "[1, 2, 3]" 1 null_id 0] by metis
qed

end
