(* ===== verification/Protocol_Types.thy ===== *)
theory Protocol_Types
  imports Transfer_Id Error_Codes Complex_Main
begin

text \<open>
  core/protocol_types.h and core/transfer_types.h: the protocol version with its encoding and order,
  message types, capability and option bits, the payloads of the messages, and the descriptions of
  transfers, sessions and end points. The repository defines no serialisation of the payloads.
  \<open>double\<close> is rational; times are integers.
\<close>

section \<open>Protocol version\<close>

definition protocol_magic :: u32 where "protocol_magic = 0x46545331"

datatype protocol_version = Version (v_major: u8) (v_minor: u8) (v_patch: u8) (v_build: u8)

definition to_uint32 :: "protocol_version \<Rightarrow> u32" where
  "to_uint32 v =
     push_bit 24 (ucast (v_major v)) OR push_bit 16 (ucast (v_minor v)) OR push_bit 8 (ucast (v_patch v)) OR
     ucast (v_build v)"

definition from_uint32 :: "u32 \<Rightarrow> protocol_version" where
  "from_uint32 w =
     Version (ucast (drop_bit 24 w AND 0xFF)) (ucast (drop_bit 16 w AND 0xFF)) (ucast (drop_bit 8 w AND 0xFF))
       (ucast (w AND 0xFF))"

definition version_to_string :: "protocol_version \<Rightarrow> string" where
  "version_to_string v =
     dec_digits (unat (v_major v)) @ ''.'' @ dec_digits (unat (v_minor v)) @ ''.'' @ dec_digits (unat (v_patch v)) @ ''.'' @
     dec_digits (unat (v_build v))"

definition default_version :: protocol_version where "default_version = Version 0 2 0 0"
definition current_protocol_version :: protocol_version where "current_protocol_version = Version 0 2 0 0"

lemma and_255: "w AND (255 :: u32) = take_bit 8 w"
proof -
  have "mask 8 = (255 :: u32)" by (simp add: mask_eq_exp_minus_1)
  then show ?thesis by (simp add: take_bit_eq_mask)
qed

lemma u8_high: "8 \<le> n \<Longrightarrow> \<not> bit (x :: u8) n"
  by (auto dest: bit_imp_le_length)

lemma from_to_uint32: "from_uint32 (to_uint32 v) = v"
  by (cases v) (auto simp: from_uint32_def to_uint32_def and_255 bit_simps u8_high intro!: bit_word_eqI)

lemma to_from_uint32: "to_uint32 (from_uint32 w) = w"
proof (rule bit_word_eqI)
  fix n
  assume n: "n < LENGTH(32)"
  then consider "n < 8" | "8 \<le> n" "n < 16" | "16 \<le> n" "n < 24" | "24 \<le> n" "n < 32" by fastforce
  then show "bit (to_uint32 (from_uint32 w)) n \<longleftrightarrow> bit w n"
    by cases (auto simp: from_uint32_def to_uint32_def and_255 bit_simps)
qed

text \<open>The order of the versions is the one of their codes.\<close>

instantiation protocol_version :: linorder
begin

definition less_eq_protocol_version :: "protocol_version \<Rightarrow> protocol_version \<Rightarrow> bool" where
  "v \<le> w \<longleftrightarrow> to_uint32 v \<le> to_uint32 w"

definition less_protocol_version :: "protocol_version \<Rightarrow> protocol_version \<Rightarrow> bool" where
  "v < w \<longleftrightarrow> to_uint32 v < to_uint32 w"

instance
proof
  fix v w :: protocol_version
  show "v \<le> w \<Longrightarrow> w \<le> v \<Longrightarrow> v = w"
    by (metis antisym from_to_uint32 less_eq_protocol_version_def)
qed (auto simp: less_eq_protocol_version_def less_protocol_version_def)

end

section \<open>Message types and bits\<close>

datatype message_type =
    Mt_connect
  | Mt_connect_ack
  | Mt_disconnect
  | Mt_heartbeat
  | Mt_heartbeat_ack
  | Mt_upload_request
  | Mt_upload_accept
  | Mt_upload_reject
  | Mt_upload_complete
  | Mt_upload_ack
  | Mt_chunk_data
  | Mt_chunk_ack
  | Mt_chunk_nack
  | Mt_resume_request
  | Mt_resume_response
  | Mt_transfer_cancel
  | Mt_transfer_pause
  | Mt_transfer_resume
  | Mt_transfer_verify
  | Mt_download_request
  | Mt_download_accept
  | Mt_download_reject
  | Mt_download_complete
  | Mt_download_ack
  | Mt_list_request
  | Mt_list_response
  | Mt_error

fun message_type_code :: "message_type \<Rightarrow> u8" where
  "message_type_code Mt_connect = 0x01"
| "message_type_code Mt_connect_ack = 0x02"
| "message_type_code Mt_disconnect = 0x03"
| "message_type_code Mt_heartbeat = 0x04"
| "message_type_code Mt_heartbeat_ack = 0x05"
| "message_type_code Mt_upload_request = 0x10"
| "message_type_code Mt_upload_accept = 0x11"
| "message_type_code Mt_upload_reject = 0x12"
| "message_type_code Mt_upload_complete = 0x13"
| "message_type_code Mt_upload_ack = 0x14"
| "message_type_code Mt_chunk_data = 0x20"
| "message_type_code Mt_chunk_ack = 0x21"
| "message_type_code Mt_chunk_nack = 0x22"
| "message_type_code Mt_resume_request = 0x30"
| "message_type_code Mt_resume_response = 0x31"
| "message_type_code Mt_transfer_cancel = 0x40"
| "message_type_code Mt_transfer_pause = 0x41"
| "message_type_code Mt_transfer_resume = 0x42"
| "message_type_code Mt_transfer_verify = 0x43"
| "message_type_code Mt_download_request = 0x50"
| "message_type_code Mt_download_accept = 0x51"
| "message_type_code Mt_download_reject = 0x52"
| "message_type_code Mt_download_complete = 0x53"
| "message_type_code Mt_download_ack = 0x54"
| "message_type_code Mt_list_request = 0x60"
| "message_type_code Mt_list_response = 0x61"
| "message_type_code Mt_error = 0xFF"

fun message_type_to_string :: "message_type \<Rightarrow> string" where
  "message_type_to_string Mt_connect = ''CONNECT''"
| "message_type_to_string Mt_connect_ack = ''CONNECT_ACK''"
| "message_type_to_string Mt_disconnect = ''DISCONNECT''"
| "message_type_to_string Mt_heartbeat = ''HEARTBEAT''"
| "message_type_to_string Mt_heartbeat_ack = ''HEARTBEAT_ACK''"
| "message_type_to_string Mt_upload_request = ''UPLOAD_REQUEST''"
| "message_type_to_string Mt_upload_accept = ''UPLOAD_ACCEPT''"
| "message_type_to_string Mt_upload_reject = ''UPLOAD_REJECT''"
| "message_type_to_string Mt_upload_complete = ''UPLOAD_COMPLETE''"
| "message_type_to_string Mt_upload_ack = ''UPLOAD_ACK''"
| "message_type_to_string Mt_chunk_data = ''CHUNK_DATA''"
| "message_type_to_string Mt_chunk_ack = ''CHUNK_ACK''"
| "message_type_to_string Mt_chunk_nack = ''CHUNK_NACK''"
| "message_type_to_string Mt_resume_request = ''RESUME_REQUEST''"
| "message_type_to_string Mt_resume_response = ''RESUME_RESPONSE''"
| "message_type_to_string Mt_transfer_cancel = ''TRANSFER_CANCEL''"
| "message_type_to_string Mt_transfer_pause = ''TRANSFER_PAUSE''"
| "message_type_to_string Mt_transfer_resume = ''TRANSFER_RESUME''"
| "message_type_to_string Mt_transfer_verify = ''TRANSFER_VERIFY''"
| "message_type_to_string Mt_download_request = ''DOWNLOAD_REQUEST''"
| "message_type_to_string Mt_download_accept = ''DOWNLOAD_ACCEPT''"
| "message_type_to_string Mt_download_reject = ''DOWNLOAD_REJECT''"
| "message_type_to_string Mt_download_complete = ''DOWNLOAD_COMPLETE''"
| "message_type_to_string Mt_download_ack = ''DOWNLOAD_ACK''"
| "message_type_to_string Mt_list_request = ''LIST_REQUEST''"
| "message_type_to_string Mt_list_response = ''LIST_RESPONSE''"
| "message_type_to_string Mt_error = ''ERROR''"

definition cap_none :: u32 where "cap_none = 0"
definition cap_compression :: u32 where "cap_compression = push_bit 0 1"
definition cap_resume :: u32 where "cap_resume = push_bit 1 1"
definition cap_batch_transfer :: u32 where "cap_batch_transfer = push_bit 2 1"
definition cap_quic_support :: u32 where "cap_quic_support = push_bit 3 1"
definition cap_auto_reconnect :: u32 where "cap_auto_reconnect = push_bit 4 1"
definition cap_encryption :: u32 where "cap_encryption = push_bit 5 1"

definition capabilities_or :: "u32 \<Rightarrow> u32 \<Rightarrow> u32" where "capabilities_or a b = a OR b"
definition capabilities_and :: "u32 \<Rightarrow> u32 \<Rightarrow> u32" where "capabilities_and a b = a AND b"

definition has_capability :: "u32 \<Rightarrow> u32 \<Rightarrow> bool" where
  "has_capability caps cap \<longleftrightarrow> caps AND cap \<noteq> 0"

definition opt_none :: u32 where "opt_none = 0"
definition opt_overwrite_existing :: u32 where "opt_overwrite_existing = push_bit 0 1"
definition opt_verify_checksum :: u32 where "opt_verify_checksum = push_bit 1 1"
definition opt_preserve_timestamp :: u32 where "opt_preserve_timestamp = push_bit 2 1"
definition opt_encrypted :: u32 where "opt_encrypted = push_bit 3 1"

definition options_or :: "u32 \<Rightarrow> u32 \<Rightarrow> u32" where "options_or a b = a OR b"
definition options_and :: "u32 \<Rightarrow> u32 \<Rightarrow> u32" where "options_and a b = a AND b"

definition has_option :: "u32 \<Rightarrow> u32 \<Rightarrow> bool" where
  "has_option opts opt \<longleftrightarrow> opts AND opt \<noteq> 0"

datatype wire_compression_mode = Wire_uncompressed | Wire_lz4 | Wire_adaptive
datatype wire_encryption_algorithm = Wire_unencrypted | Wire_aes_256_gcm | Wire_chacha20_poly1305
datatype list_sort_field = Sort_name | Sort_size | Sort_time
datatype list_sort_order = Sort_ascending | Sort_descending

section \<open>Message payloads\<close>

record msg_connect =
  mc_version :: protocol_version
  mc_capabilities :: u32
  mc_client_id :: bytes

record msg_connect_ack =
  mca_version :: protocol_version
  mca_capabilities :: u32
  mca_session_id :: bytes
  mca_max_chunk_size :: u32
  mca_max_file_size :: u64
  mca_server_name :: string

record msg_disconnect =
  md_reason_code :: "32 word"
  md_message :: string

record msg_heartbeat =
  mh_timestamp :: u64
  mh_sequence :: u32

record msg_upload_request =
  mur_transfer_id :: bytes
  mur_filename :: string
  mur_file_size :: u64
  mur_sha256_hash :: bytes
  mur_compression :: wire_compression_mode
  mur_encryption :: wire_encryption_algorithm
  mur_options :: u32
  mur_resume_from :: u64

record msg_upload_accept =
  mua_transfer_id :: bytes
  mua_compression :: wire_compression_mode
  mua_encryption :: wire_encryption_algorithm
  mua_chunk_size :: u32
  mua_resume_offset :: u64

record msg_upload_reject =
  muj_transfer_id :: bytes
  muj_reason_code :: "32 word"
  muj_message :: string

record msg_upload_complete =
  muc_transfer_id :: bytes
  muc_total_chunks :: u64
  muc_bytes_sent :: u64
  muc_bytes_on_wire :: u64

record msg_upload_ack =
  muk_transfer_id :: bytes
  muk_verified :: u8
  muk_stored_path :: string

record msg_download_request =
  mdr_transfer_id :: bytes
  mdr_filename :: string
  mdr_compression :: wire_compression_mode
  mdr_encryption :: wire_encryption_algorithm
  mdr_resume_from :: u64

record msg_download_accept =
  mda_transfer_id :: bytes
  mda_file_size :: u64
  mda_sha256_hash :: bytes
  mda_compression :: wire_compression_mode
  mda_encryption :: wire_encryption_algorithm
  mda_chunk_size :: u32
  mda_total_chunks :: u64
  mda_resume_offset :: u64
  mda_modified_time :: u64

record msg_download_reject =
  mdj_transfer_id :: bytes
  mdj_reason_code :: "32 word"
  mdj_message :: string

record msg_download_complete =
  mdc_transfer_id :: bytes
  mdc_total_chunks :: u64
  mdc_bytes_sent :: u64
  mdc_bytes_on_wire :: u64

record msg_download_ack =
  mdk_transfer_id :: bytes
  mdk_verified :: u8
  mdk_bytes_received :: u64

record msg_list_request =
  mlr_request_id :: bytes
  mlr_pattern :: string
  mlr_offset :: u32
  mlr_limit :: u32
  mlr_sort_by :: list_sort_field
  mlr_sort_order :: list_sort_order

record file_entry =
  fe_filename :: string
  fe_file_size :: u64
  fe_sha256_hash :: bytes
  fe_created_time :: u64
  fe_modified_time :: u64

record msg_list_response =
  mls_request_id :: bytes
  mls_total_count :: u32
  mls_returned_count :: u32
  mls_has_more :: u8
  mls_entries :: "file_entry list"

record msg_chunk_ack =
  mka_transfer_id :: bytes
  mka_chunk_index :: u64

record msg_chunk_nack =
  mkn_transfer_id :: bytes
  mkn_chunk_index :: u64
  mkn_reason_code :: "32 word"
  mkn_reserved :: u32

record msg_resume_request =
  mrr_transfer_id :: bytes
  mrr_file_hash :: bytes
  mrr_last_chunk_index :: u64

record msg_resume_response =
  mrs_transfer_id :: bytes
  mrs_can_resume :: u8
  mrs_resume_from_chunk :: u64
  mrs_resume_from_offset :: u64
  mrs_missing_chunks :: "u64 list"

record msg_transfer_cancel =
  mtc_transfer_id :: bytes
  mtc_reason_code :: "32 word"
  mtc_message :: string

record msg_transfer_pause =
  mtp_transfer_id :: bytes

record msg_transfer_resume =
  mtr_transfer_id :: bytes

record msg_transfer_verify =
  mtv_transfer_id :: bytes
  mtv_verified :: u8
  mtv_computed_hash :: bytes

record msg_error =
  me_error_code :: "32 word"
  me_message :: string
  me_related_id :: bytes

record frame_header =
  fh_prefix :: u32
  fh_type :: message_type
  fh_payload_length :: u32

section \<open>Transfers\<close>

datatype transfer_direction = Direction_upload | Direction_download

fun transfer_direction_to_string :: "transfer_direction \<Rightarrow> string" where
  "transfer_direction_to_string Direction_upload = ''upload''"
| "transfer_direction_to_string Direction_download = ''download''"

datatype wire_transfer_state =
    Ts_idle | Ts_initializing | Ts_transferring | Ts_paused | Ts_verifying | Ts_completing | Ts_completed | Ts_failed
  | Ts_cancelled

fun wire_transfer_state_to_string :: "wire_transfer_state \<Rightarrow> string" where
  "wire_transfer_state_to_string Ts_idle = ''idle''"
| "wire_transfer_state_to_string Ts_initializing = ''initializing''"
| "wire_transfer_state_to_string Ts_transferring = ''transferring''"
| "wire_transfer_state_to_string Ts_paused = ''paused''"
| "wire_transfer_state_to_string Ts_verifying = ''verifying''"
| "wire_transfer_state_to_string Ts_completing = ''completing''"
| "wire_transfer_state_to_string Ts_completed = ''completed''"
| "wire_transfer_state_to_string Ts_failed = ''failed''"
| "wire_transfer_state_to_string Ts_cancelled = ''cancelled''"

definition is_terminal_state :: "wire_transfer_state \<Rightarrow> bool" where
  "is_terminal_state s \<longleftrightarrow> s = Ts_completed \<or> s = Ts_failed \<or> s = Ts_cancelled"

definition is_active_state :: "wire_transfer_state \<Rightarrow> bool" where
  "is_active_state s \<longleftrightarrow> s = Ts_initializing \<or> s = Ts_transferring \<or> s = Ts_verifying \<or> s = Ts_completing"

record detailed_file_info =
  dfi_name :: string
  dfi_size :: u64
  dfi_sha256_hash :: string
  dfi_created_time :: int
  dfi_modified_time :: int
  dfi_permissions :: u32
  compressible_hint :: bool

definition default_file_info :: detailed_file_info where
  "default_file_info =
     \<lparr>dfi_name = [], dfi_size = 0, dfi_sha256_hash = [], dfi_created_time = 0, dfi_modified_time = 0, dfi_permissions = 0,
      compressible_hint = True\<rparr>"

record detailed_transfer_progress =
  dtp_id :: transfer_id
  dtp_direction :: transfer_direction
  dtp_state :: wire_transfer_state
  dtp_bytes_transferred :: u64
  dtp_bytes_on_wire :: u64
  dtp_total_bytes :: u64
  dtp_chunks_transferred :: u64
  dtp_total_chunks :: u64
  dtp_transfer_rate :: rat
  dtp_average_rate :: rat
  dtp_compression_ratio :: rat
  dtp_elapsed_time :: int
  dtp_estimated_remaining :: int
  dtp_retry_count :: u64

definition default_transfer_progress :: detailed_transfer_progress where
  "default_transfer_progress =
     \<lparr>dtp_id = null_id, dtp_direction = Direction_upload, dtp_state = Ts_idle, dtp_bytes_transferred = 0,
      dtp_bytes_on_wire = 0, dtp_total_bytes = 0, dtp_chunks_transferred = 0, dtp_total_chunks = 0, dtp_transfer_rate = 0,
      dtp_average_rate = 0, dtp_compression_ratio = 1, dtp_elapsed_time = 0, dtp_estimated_remaining = 0,
      dtp_retry_count = 0\<rparr>"

definition dtp_completion_percentage :: "detailed_transfer_progress \<Rightarrow> rat" where
  "dtp_completion_percentage p =
     (if dtp_total_bytes p = 0 then 0
      else of_nat (unat (dtp_bytes_transferred p)) / of_nat (unat (dtp_total_bytes p)) * 100)"

definition dtp_is_complete :: "detailed_transfer_progress \<Rightarrow> bool" where
  "dtp_is_complete p \<longleftrightarrow> dtp_state p = Ts_completed"

definition dtp_is_active :: "detailed_transfer_progress \<Rightarrow> bool" where
  "dtp_is_active p = is_active_state (dtp_state p)"

record transfer_error =
  te_code :: transfer_error_code
  te_message :: string

definition no_transfer_error :: transfer_error where
  "no_transfer_error = \<lparr>te_code = Te_success, te_message = []\<rparr>"

definition transfer_error_of :: "transfer_error_code \<Rightarrow> transfer_error" where
  "transfer_error_of c = \<lparr>te_code = c, te_message = te_to_string c\<rparr>"

definition transfer_error_set :: "transfer_error \<Rightarrow> bool" where
  "transfer_error_set e \<longleftrightarrow> te_code e \<noteq> Te_success"

definition te_is_retryable :: "transfer_error \<Rightarrow> bool" where
  "te_is_retryable e = is_retryable (te_value (te_code e))"

record detailed_transfer_result =
  dtr_id :: transfer_id
  dtr_direction :: transfer_direction
  dtr_local_path :: string
  dtr_remote_name :: string
  dtr_bytes_transferred :: u64
  dtr_bytes_on_wire :: u64
  dtr_verified :: bool
  dtr_error :: "transfer_error option"
  dtr_elapsed_time :: int
  dtr_completed_at :: int

definition dtr_success :: "detailed_transfer_result \<Rightarrow> bool" where
  "dtr_success r \<longleftrightarrow> dtr_error r = None"

definition dtr_compression_ratio :: "detailed_transfer_result \<Rightarrow> rat" where
  "dtr_compression_ratio r =
     (if dtr_bytes_transferred r = 0 then 1
      else of_nat (unat (dtr_bytes_on_wire r)) / of_nat (unat (dtr_bytes_transferred r)))"

definition dtr_average_speed :: "detailed_transfer_result \<Rightarrow> rat" where
  "dtr_average_speed r =
     (if dtr_elapsed_time r = 0 then 0
      else of_nat (unat (dtr_bytes_transferred r)) / (of_int (dtr_elapsed_time r) / 1000))"

section \<open>End points, sessions and resumption\<close>

record endpoint =
  ep_host :: string
  ep_port :: u16

definition any_endpoint :: "u16 \<Rightarrow> endpoint" where
  "any_endpoint p = \<lparr>ep_host = ''0.0.0.0'', ep_port = p\<rparr>"

definition endpoint_to_string :: "endpoint \<Rightarrow> string" where
  "endpoint_to_string e = ep_host e @ '':'' @ dec_digits (unat (ep_port e))"

definition endpoint_is_valid :: "endpoint \<Rightarrow> bool" where
  "endpoint_is_valid e \<longleftrightarrow> ep_host e \<noteq> [] \<and> ep_port e \<noteq> 0"

record session_info =
  si_session_id :: transfer_id
  si_server_endpoint :: endpoint
  si_connected_at :: int
  si_bytes_uploaded :: u64
  si_bytes_downloaded :: u64
  si_files_uploaded :: u32
  si_files_downloaded :: u32

record resume_state =
  rs_id :: transfer_id
  rs_direction :: transfer_direction
  rs_local_path :: string
  rs_remote_name :: string
  rs_file_hash :: string
  rs_file_size :: u64
  rs_last_chunk_index :: u64
  rs_last_offset :: u64
  rs_saved_at :: int
  rs_missing_chunks :: "u64 list"

definition can_resume :: "resume_state \<Rightarrow> bool" where
  "can_resume r \<longleftrightarrow> \<not> is_null (rs_id r) \<and> rs_file_size r > 0"

definition bytes_remaining :: "resume_state \<Rightarrow> u64" where
  "bytes_remaining r = (if rs_file_size r > rs_last_offset r then rs_file_size r - rs_last_offset r else 0)"

section \<open>Properties\<close>

lemma unat_to_uint32:
  "unat (to_uint32 v) =
     unat (v_major v) * 2 ^ 24 + unat (v_minor v) * 2 ^ 16 + unat (v_patch v) * 2 ^ 8 + unat (v_build v)"
proof -
  let ?a = "ucast (v_major v) :: u32" and ?b = "ucast (v_minor v) :: u32" and ?c = "ucast (v_patch v) :: u32"
    and ?d = "ucast (v_build v) :: u32"
  have high: "\<not> bit (ucast (x :: u8) :: u32) n" if "8 \<le> n" for x n
    using that by (auto simp: bit_simps dest: bit_imp_le_length)
  have "push_bit 8 ?c OR ?d = push_bit 8 ?c + ?d"
    by (rule disjunctive_add [symmetric]) (use high in \<open>auto simp: bit_simps not_le\<close>)
  moreover have "push_bit 16 ?b OR (push_bit 8 ?c OR ?d) = push_bit 16 ?b + (push_bit 8 ?c OR ?d)"
    by (rule disjunctive_add [symmetric]) (use high in \<open>auto simp: bit_simps not_le\<close>)
  moreover have "push_bit 24 ?a OR (push_bit 16 ?b OR (push_bit 8 ?c OR ?d)) = push_bit 24 ?a + (push_bit 16 ?b OR (push_bit 8 ?c OR ?d))"
    by (rule disjunctive_add [symmetric]) (use high in \<open>auto simp: bit_simps not_le\<close>)
  ultimately have "to_uint32 v = ?a * 2 ^ 24 + (?b * 2 ^ 16 + (?c * 2 ^ 8 + ?d))"
    by (simp add: to_uint32_def or.assoc push_bit_eq_mult)
  moreover have up: "unat (ucast (x :: u8) :: u32) = unat x" for x
    using unat_u8_less [of x] by (simp add: unsigned_ucast_eq take_bit_nat_eq_self)
  moreover have "unat (v_major v) < 256" "unat (v_minor v) < 256" "unat (v_patch v) < 256" "unat (v_build v) < 256"
    using unat_u8_less by blast+
  ultimately show ?thesis
    by (simp add: unat_word_ariths)
qed

lemma byte_less: "x < 256 \<Longrightarrow> y < 256 \<Longrightarrow> a * 256 + x < b * 256 + y \<longleftrightarrow> a < b \<or> a = b \<and> x < (y :: nat)"
  and byte_eq: "x < 256 \<Longrightarrow> y < 256 \<Longrightarrow> a * 256 + x = b * 256 + y \<longleftrightarrow> a = b \<and> x = (y :: nat)"
  by (cases a b rule: linorder_cases; auto)+

text \<open>A version is recovered from its 32-bit code, and versions are ordered as their four numbers are.\<close>

theorem version_code_order:
  "from_uint32 (to_uint32 v) = v \<and> to_uint32 (from_uint32 c) = c \<and>
   (v < w \<longleftrightarrow>
      v_major v < v_major w \<or>
      v_major v = v_major w \<and>
        (v_minor v < v_minor w \<or>
         v_minor v = v_minor w \<and>
           (v_patch v < v_patch w \<or> v_patch v = v_patch w \<and> v_build v < v_build w)))"
proof -
  have b: "unat (v_minor x) < 256" "unat (v_patch x) < 256" "unat (v_build x) < 256" for x
    using unat_u8_less by blast+
  have code: "unat (to_uint32 x) =
      ((unat (v_major x) * 256 + unat (v_minor x)) * 256 + unat (v_patch x)) * 256 + unat (v_build x)" for x
    by (simp add: unat_to_uint32)
  have "v < w \<longleftrightarrow> unat (to_uint32 v) < unat (to_uint32 w)"
    by (simp add: less_protocol_version_def word_less_nat_alt)
  then have "v < w \<longleftrightarrow>
      v_major v < v_major w \<or>
      v_major v = v_major w \<and>
        (v_minor v < v_minor w \<or>
         v_minor v = v_minor w \<and>
           (v_patch v < v_patch w \<or> v_patch v = v_patch w \<and> v_build v < v_build w))"
    unfolding code word_less_nat_alt word_unat_eq_iff
    by (simp only: byte_less [OF b(1) b(1)] byte_less [OF b(2) b(2)]
        byte_less [OF b(3) b(3)] byte_eq [OF b(1) b(1)] byte_eq [OF b(2) b(2)]) blast
  then show ?thesis by (intro conjI from_to_uint32 to_from_uint32)
qed

end
