(* ===== verification/File_Transfer_Server.thy ===== *)
theory File_Transfer_Server
  imports Quota_Manager Protocol_Types
begin

text \<open>
  server/server_types.h, server/file_transfer_server.h and server/file_transfer_server.cpp: the
  configuration of a server with its builder, starting and stopping, and the admission of uploads
  by the quota manager. The messaging server of the network library is a parameter (whether it
  starts and stops). The storage directory is what it was when the server was built; what the
  quota manager finds out about it is the parameter \<open>host\<close>. The cloud storage and credential
  objects of the configuration are only known to be there or not. The repository registers
  callbacks and keeps a client table but contains no code that uses either.
\<close>

section \<open>Types\<close>

datatype server_state = Server_stopped | Server_starting | Server_running | Server_stopping

fun server_state_to_string :: "server_state \<Rightarrow> string" where
  "server_state_to_string Server_stopped = ''stopped''"
| "server_state_to_string Server_starting = ''starting''"
| "server_state_to_string Server_running = ''running''"
| "server_state_to_string Server_stopping = ''stopping''"

record server_client =
  sc_id :: u64
  sc_address :: string
  sc_port :: u16

datatype storage_mode = Local_only | Cloud_only | Hybrid

fun storage_mode_to_string :: "storage_mode \<Rightarrow> string" where
  "storage_mode_to_string Local_only = ''local_only''"
| "storage_mode_to_string Cloud_only = ''cloud_only''"
| "storage_mode_to_string Hybrid = ''hybrid''"

record cloud_storage_server_config =
  has_cloud_storage :: bool
  has_credentials :: bool
  key_prefix :: string
  replicate_writes :: bool
  fallback_reads :: bool
  enable_cache :: bool
  max_cache_size :: u64
  cache_directory :: path

definition default_cloud_config :: cloud_storage_server_config where
  "default_cloud_config =
     \<lparr>has_cloud_storage = False, has_credentials = False, key_prefix = [], replicate_writes = True, fallback_reads = True,
      enable_cache = True, max_cache_size = 1 * 1024 * 1024 * 1024, cache_directory = []\<rparr>"

record server_config =
  storage_directory :: path
  max_connections :: u64
  sv_max_file_size :: u64
  storage_quota :: u64
  sv_chunk_size :: u64
  sv_enable_encryption :: bool
  require_encryption :: bool
  encryption_password :: string
  encryption_key :: bytes
  sv_storage :: storage_mode
  cloud_config :: "cloud_storage_server_config option"

definition default_server_config :: server_config where
  "default_server_config =
     \<lparr>storage_directory = [], max_connections = 100, sv_max_file_size = 10 * 1024 * 1024 * 1024,
      storage_quota = 100 * 1024 * 1024 * 1024, sv_chunk_size = 256 * 1024, sv_enable_encryption = False,
      require_encryption = False, encryption_password = [], encryption_key = [], sv_storage = Local_only,
      cloud_config = None\<rparr>"

definition has_cloud :: "server_config \<Rightarrow> bool" where
  "has_cloud c \<longleftrightarrow> (case cloud_config c of None \<Rightarrow> False | Some cc \<Rightarrow> has_cloud_storage cc)"

definition server_config_valid :: "server_config \<Rightarrow> bool" where
  "server_config_valid c =
     (if max_connections c = 0 then False
      else case sv_storage c of
             Local_only \<Rightarrow> storage_directory c \<noteq> []
           | Cloud_only \<Rightarrow> has_cloud c
           | Hybrid \<Rightarrow> storage_directory c \<noteq> [] \<and> has_cloud c)"

record server_statistics =
  total_bytes_received :: u64
  total_bytes_sent :: u64
  total_files_uploaded :: u64
  total_files_downloaded :: u64
  active_connections :: u64
  active_transfers :: u64
  active_uploads :: u64
  active_downloads :: u64
  sv_uptime :: int

definition no_server_statistics :: server_statistics where
  "no_server_statistics =
     \<lparr>total_bytes_received = 0, total_bytes_sent = 0, total_files_uploaded = 0, total_files_downloaded = 0,
      active_connections = 0, active_transfers = 0, active_uploads = 0, active_downloads = 0, sv_uptime = 0\<rparr>"

record storage_stats =
  total_capacity :: u64
  used_size :: u64
  available_size :: u64
  ss_file_count :: u64

definition storage_usage_percent :: "storage_stats \<Rightarrow> rat" where
  "storage_usage_percent s =
     (if total_capacity s = 0 then 0 else of_nat (unat (used_size s)) / of_nat (unat (total_capacity s)) * 100)"

record upload_request =
  ur_filename :: string
  ur_file_size :: u64
  ur_total_chunks :: u64
  ur_sha256_hash :: string
  ur_client :: u64

record download_request =
  dr_filename :: string
  dr_client :: u64

record server_transfer_result =
  tr_success :: bool
  tr_filename :: string
  tr_bytes_transferred :: u64
  tr_error_message :: string

record server_transfer_progress =
  tp_filename :: string
  tp_bytes_transferred :: u64
  tp_total_bytes :: u64
  tp_percentage :: rat

section \<open>The builder\<close>

definition with_storage_directory :: "path \<Rightarrow> server_config \<Rightarrow> server_config" where
  "with_storage_directory d c = c\<lparr>storage_directory := d\<rparr>"

definition with_max_connections :: "u64 \<Rightarrow> server_config \<Rightarrow> server_config" where
  "with_max_connections n c = c\<lparr>max_connections := n\<rparr>"

definition with_max_file_size :: "u64 \<Rightarrow> server_config \<Rightarrow> server_config" where
  "with_max_file_size n c = c\<lparr>sv_max_file_size := n\<rparr>"

definition with_storage_quota :: "u64 \<Rightarrow> server_config \<Rightarrow> server_config" where
  "with_storage_quota n c = c\<lparr>storage_quota := n\<rparr>"

definition with_server_chunk_size :: "u64 \<Rightarrow> server_config \<Rightarrow> server_config" where
  "with_server_chunk_size n c = c\<lparr>sv_chunk_size := n\<rparr>"

definition with_storage_mode :: "storage_mode \<Rightarrow> server_config \<Rightarrow> server_config" where
  "with_storage_mode m c = c\<lparr>sv_storage := m\<rparr>"

definition on_cloud_config ::
  "(cloud_storage_server_config \<Rightarrow> cloud_storage_server_config) \<Rightarrow> server_config \<Rightarrow> server_config" where
  "on_cloud_config f c =
     c\<lparr>cloud_config := Some (f (case cloud_config c of None \<Rightarrow> default_cloud_config | Some cc \<Rightarrow> cc))\<rparr>"

definition with_cloud_storage :: "bool \<Rightarrow> server_config \<Rightarrow> server_config" where
  "with_cloud_storage there = on_cloud_config (\<lambda>cc. cc\<lparr>has_cloud_storage := there\<rparr>)"

definition with_cloud_credentials :: "bool \<Rightarrow> server_config \<Rightarrow> server_config" where
  "with_cloud_credentials there = on_cloud_config (\<lambda>cc. cc\<lparr>has_credentials := there\<rparr>)"

definition with_cloud_key_prefix :: "string \<Rightarrow> server_config \<Rightarrow> server_config" where
  "with_cloud_key_prefix p = on_cloud_config (\<lambda>cc. cc\<lparr>key_prefix := p\<rparr>)"

definition with_cloud_replication :: "bool \<Rightarrow> server_config \<Rightarrow> server_config" where
  "with_cloud_replication on = on_cloud_config (\<lambda>cc. cc\<lparr>replicate_writes := on\<rparr>)"

definition with_cloud_fallback :: "bool \<Rightarrow> server_config \<Rightarrow> server_config" where
  "with_cloud_fallback on = on_cloud_config (\<lambda>cc. cc\<lparr>fallback_reads := on\<rparr>)"

definition with_cloud_cache :: "bool \<Rightarrow> u64 \<Rightarrow> server_config \<Rightarrow> server_config" where
  "with_cloud_cache on n = on_cloud_config (\<lambda>cc. cc\<lparr>enable_cache := on, max_cache_size := n\<rparr>)"

definition with_cloud_cache_directory :: "path \<Rightarrow> server_config \<Rightarrow> server_config" where
  "with_cloud_cache_directory d = on_cloud_config (\<lambda>cc. cc\<lparr>cache_directory := d\<rparr>)"

text \<open>What the builder and the server meet: which directories exist and can be created, the directory for temporary
  files, whether the storage path is a directory and what it holds; and the values that happen to be in the storage
  statistics, whose members have no initial value.\<close>

record server_host =
  dir_exists :: "path \<Rightarrow> bool"
  dir_create_ok :: "path \<Rightarrow> bool"
  temp_directory :: path
  is_directory :: "path \<Rightarrow> bool"
  dir_contents :: "path \<Rightarrow> storage_dir"
  uninitialised_stats :: storage_stats

definition ensure_directory :: "server_host \<Rightarrow> path \<Rightarrow> unit result" where
  "ensure_directory host d =
     (if dir_exists host d then Inr () else if dir_create_ok host d then Inr () else Inl File_access_denied)"

definition with_default_cache :: "server_host \<Rightarrow> server_config \<Rightarrow> server_config" where
  "with_default_cache host c =
     (case cloud_config c of
        None \<Rightarrow> c
      | Some cc \<Rightarrow>
          if cache_directory cc = []
          then c\<lparr>cloud_config := Some (cc\<lparr>cache_directory := path_append (temp_directory host) ''file_trans_cache''\<rparr>)\<rparr>
          else c)"

definition needs_cache :: "server_config \<Rightarrow> bool" where
  "needs_cache c \<longleftrightarrow>
     sv_storage c \<in> {Cloud_only, Hybrid} \<and> (case cloud_config c of None \<Rightarrow> False | Some cc \<Rightarrow> enable_cache cc)"

section \<open>The server\<close>

record server =
  sv_config :: server_config
  sv_state :: server_state
  listen_port :: u16
  sv_statistics :: server_statistics
  sv_storage_stats :: storage_stats
  quota_mgr :: "quota_manager option"
  sv_clients :: "(u64 \<times> server_client) list"

definition create_server_quota :: "server_host \<Rightarrow> server_config \<Rightarrow> quota_manager result" where
  "create_server_quota host c =
     (let d = storage_directory c
      in create_quota_manager (dir_exists host d) (dir_create_ok host d) (is_directory host d) (dir_contents host d)
           (storage_quota c))"

definition scan_storage :: "storage_dir \<Rightarrow> u64 \<Rightarrow> storage_stats" where
  "scan_storage d quota =
     (let used = fold (\<lambda>f n. n + df_size f) (sd_files d) 0
      in \<lparr>total_capacity = quota, used_size = used, available_size = quota - used,
          ss_file_count = word_of_nat (length (sd_files d))\<rparr>)"

definition make_server :: "server_host \<Rightarrow> server_config \<Rightarrow> server" where
  "make_server host c =
     (let (qm, st) =
        (case create_server_quota host c of
           Inr q \<Rightarrow>
             let u = current_usage q
             in (Some (set_max_file_size (sv_max_file_size c) q),
                 \<lparr>total_capacity = total_quota u, used_size = used_bytes u, available_size = available_bytes u,
                  ss_file_count = file_count u\<rparr>)
         | Inl _ \<Rightarrow>
             (None, if dir_exists host (storage_directory c) then scan_storage (dir_contents host (storage_directory c)) (storage_quota c)
                    else uninitialised_stats host))
      in \<lparr>sv_config = c, sv_state = Server_stopped, listen_port = 0, sv_statistics = no_server_statistics,
          sv_storage_stats = st, quota_mgr = qm, sv_clients = []\<rparr>)"

definition build_server :: "server_host \<Rightarrow> server_config \<Rightarrow> server result" where
  "build_server host c =
     (if \<not> server_config_valid c then Inl Invalid_configuration
      else if sv_storage c \<noteq> Cloud_only \<and> storage_directory c \<noteq> [] \<and>
              ensure_directory host (storage_directory c) \<noteq> Inr () then Inl File_access_denied
      else if \<not> needs_cache c then Inr (make_server host c)
      else
        let c = with_default_cache host c;
            d = (case cloud_config c of None \<Rightarrow> [] | Some cc \<Rightarrow> cache_directory cc)
        in if ensure_directory host d \<noteq> Inr () then Inl File_access_denied else Inr (make_server host c))"

definition start_server :: "bool \<Rightarrow> endpoint \<Rightarrow> server \<Rightarrow> server \<times> unit result" where
  "start_server network_ok ep s =
     (if sv_state s \<noteq> Server_stopped then (s, Inl Already_initialized)
      else
        let s = s\<lparr>sv_state := Server_starting, listen_port := ep_port ep\<rparr>
        in if \<not> network_ok then (s\<lparr>sv_state := Server_stopped\<rparr>, Inl Internal_error)
           else (s\<lparr>sv_state := Server_running\<rparr>, Inr ()))"

definition stop_server :: "bool \<Rightarrow> server \<Rightarrow> server \<times> unit result" where
  "stop_server network_ok s =
     (if sv_state s \<noteq> Server_running then (s, Inl Not_initialized)
      else
        let s = s\<lparr>sv_state := Server_stopping\<rparr>
        in if \<not> network_ok then (s\<lparr>sv_state := Server_running\<rparr>, Inl Internal_error)
           else (s\<lparr>sv_state := Server_stopped, listen_port := 0\<rparr>, Inr ()))"

definition server_is_running :: "server \<Rightarrow> bool" where
  "server_is_running s \<longleftrightarrow> sv_state s = Server_running"

definition get_server_statistics :: "server \<Rightarrow> server_statistics" where
  "get_server_statistics s = (sv_statistics s)\<lparr>active_connections := word_of_nat (length (sv_clients s))\<rparr>"

text \<open>\<open>None\<close> dereferences a null pointer.\<close>

definition get_quota_manager :: "server_host \<Rightarrow> server \<Rightarrow> server \<times> quota_manager option" where
  "get_quota_manager host s =
     (case quota_mgr s of
        Some q \<Rightarrow> (s, Some q)
      | None \<Rightarrow>
          (case create_server_quota host (sv_config s) of
             Inl _ \<Rightarrow> (s, None)
           | Inr q \<Rightarrow>
               let q = set_max_file_size (sv_max_file_size (sv_config s)) q
               in (s\<lparr>quota_mgr := Some q\<rparr>, Some q)))"

definition get_quota_usage :: "server \<Rightarrow> quota_usage" where
  "get_quota_usage s =
     (case quota_mgr s of
        Some q \<Rightarrow> current_usage q
      | None \<Rightarrow>
          let st = sv_storage_stats s
          in \<lparr>total_quota = total_capacity st, used_bytes = used_size st, available_bytes = available_size st,
              usage_percent = (if total_capacity st > 0 then percent_of (used_size st) (total_capacity st) else 0),
              file_count = ss_file_count st\<rparr>)"

definition check_upload_allowed :: "u64 \<Rightarrow> server \<Rightarrow> unit result" where
  "check_upload_allowed n s =
     (case quota_mgr s of
        Some q \<Rightarrow>
          (case check_file_size n q of
             Inl e \<Rightarrow> Inl e
           | Inr _ \<Rightarrow> (case check_quota n q of Inl e \<Rightarrow> Inl e | Inr _ \<Rightarrow> Inr ()))
      | None \<Rightarrow>
          if sv_max_file_size (sv_config s) > 0 \<and> n > sv_max_file_size (sv_config s) then Inl File_too_large
          else if used_size (sv_storage_stats s) + n > total_capacity (sv_storage_stats s) then Inl Quota_exceeded
          else Inr ())"

definition on_server_quota_warning :: "bool \<Rightarrow> server \<Rightarrow> server" where
  "on_server_quota_warning cb s = s\<lparr>quota_mgr := map_option (on_quota_warning cb) (quota_mgr s)\<rparr>"

definition on_server_quota_exceeded :: "bool \<Rightarrow> server \<Rightarrow> server" where
  "on_server_quota_exceeded cb s = s\<lparr>quota_mgr := map_option (on_quota_exceeded cb) (quota_mgr s)\<rparr>"

section \<open>Properties\<close>

datatype server_call = Start bool endpoint | Stop bool

definition server_step :: "server_call \<Rightarrow> server \<Rightarrow> server" where
  "server_step c s = (case c of Start ok ep \<Rightarrow> fst (start_server ok ep s) | Stop ok \<Rightarrow> fst (stop_server ok s))"

text \<open>The port of the last start that was attempted while the server was stopped, unless a stop came after it.\<close>

definition port_after :: "server_call \<Rightarrow> server \<Rightarrow> u16" where
  "port_after c s =
     (case c of
        Start ok ep \<Rightarrow> if sv_state s = Server_stopped then ep_port ep else listen_port s
      | Stop ok \<Rightarrow> if sv_state s = Server_running \<and> ok then 0 else listen_port s)"

lemma server_step_state:
  assumes "sv_state s \<in> {Server_stopped, Server_running}"
  shows "sv_state (server_step c s) \<in> {Server_stopped, Server_running}" and "listen_port (server_step c s) = port_after c s"
    and "sv_state s = Server_running \<Longrightarrow> sv_state (server_step c s) = Server_running \<longleftrightarrow> c \<noteq> Stop True"
    and "sv_state s = Server_stopped \<Longrightarrow> sv_state (server_step c s) = Server_running \<longleftrightarrow> (\<exists>ep. c = Start True ep)"
    and "quota_mgr (server_step c s) = quota_mgr s" and "sv_config (server_step c s) = sv_config s"
proof -
  show "sv_state (server_step c s) \<in> {Server_stopped, Server_running}" and "listen_port (server_step c s) = port_after c s"
    using assms by (cases c; auto simp: server_step_def start_server_def stop_server_def port_after_def Let_def)+
  show "sv_state s = Server_running \<Longrightarrow> sv_state (server_step c s) = Server_running \<longleftrightarrow> c \<noteq> Stop True"
    by (cases c; simp add: server_step_def start_server_def stop_server_def Let_def)
  show "sv_state s = Server_stopped \<Longrightarrow> sv_state (server_step c s) = Server_running \<longleftrightarrow> (\<exists>ep. c = Start True ep)"
    by (cases c; simp add: server_step_def start_server_def stop_server_def Let_def)
  show "quota_mgr (server_step c s) = quota_mgr s" and "sv_config (server_step c s) = sv_config s"
    by (cases c; simp add: server_step_def start_server_def stop_server_def Let_def)+
qed

lemma server_steps_state:
  "sv_state s \<in> {Server_stopped, Server_running} \<Longrightarrow>
     sv_state (fold server_step cs s) \<in> {Server_stopped, Server_running} \<and> quota_mgr (fold server_step cs s) = quota_mgr s \<and>
     sv_config (fold server_step cs s) = sv_config s"
proof (induction cs arbitrary: s)
  case (Cons c cs)
  show ?case using Cons.IH [OF server_step_state(1) [OF Cons.prems]] server_step_state(5,6) [OF Cons.prems] by simp
qed simp

lemma built_stopped: "build_server host c = Inr s \<Longrightarrow> sv_state s = Server_stopped \<and> (\<exists>c'. s = make_server host c')"
  by (auto simp: build_server_def make_server_def Let_def split: if_splits sum.splits prod.splits)

text \<open>After any history of starts and stops, failing or not, a server is stopped or running; the next call starts or
  stops it exactly when the state asks for it and the network library succeeds, and leaves the port of a failed start
  behind.\<close>

theorem server_lifecycle:
  assumes "build_server host c = Inr s0" and "s = fold server_step cs s0"
  shows "sv_state s \<in> {Server_stopped, Server_running} \<and>
         (sv_state (server_step a s) = Server_running \<longleftrightarrow>
            (if sv_state s = Server_running then a \<noteq> Stop True else \<exists>ep. a = Start True ep)) \<and>
         (\<forall>ep. sv_state s = Server_stopped \<longrightarrow> listen_port (fst (start_server False ep s)) = ep_port ep)"
proof -
  have st: "sv_state s \<in> {Server_stopped, Server_running}"
    using server_steps_state [of s0 cs] built_stopped [OF assms(1)] assms(2) by simp
  then show ?thesis using server_step_state(3,4) [OF st] by (auto simp: start_server_def)
qed




text \<open>A server for cloud storage only decides on uploads by statistics that were never given a value.\<close>

theorem cloud_only_admission_uninitialised:
  assumes "build_server host c = Inr s" and "sv_storage c = Cloud_only" and "storage_directory c = []"
    and "\<not> dir_exists host []" and "\<not> dir_create_ok host []" and "n \<le> sv_max_file_size c"
  shows "check_upload_allowed n s =
           (if used_size (uninitialised_stats host) + n > total_capacity (uninitialised_stats host)
            then Inl Quota_exceeded else Inr ())"
proof -
  obtain c' where s: "s = make_server host c'" "storage_directory c' = []" "sv_max_file_size c' = sv_max_file_size c"
    using assms(1,3)
    by (auto simp: build_server_def with_default_cache_def Let_def split: if_splits option.splits)
  have "create_server_quota host c' = Inl File_access_denied"
    using assms(4,5) by (simp add: create_server_quota_def create_quota_manager_def s(2))
  then show ?thesis
    using assms(4) s leD [OF assms(6)] by (simp add: check_upload_allowed_def make_server_def Let_def)
qed

section \<open>Witnesses\<close>

definition toy_host :: server_host where
  "toy_host =
     \<lparr>dir_exists = (\<lambda>p. p = ''d''), dir_create_ok = (\<lambda>p. p \<noteq> []), temp_directory = ''/tmp'', is_directory = (\<lambda>p. p = ''d''),
      dir_contents = (\<lambda>p. \<lparr>sd_exists = True, sd_files = [\<lparr>df_path = ''d/x'', df_size = 60, df_time = 0\<rparr>], sd_space = None\<rparr>),
      uninitialised_stats = \<lparr>total_capacity = 5, used_size = 0, available_size = 0, ss_file_count = 0\<rparr>\<rparr>"

definition toy_server_config :: server_config where
  "toy_server_config = with_storage_quota 100 (with_storage_directory ''d'' default_server_config)"

definition toy_cloud_config :: server_config where
  "toy_cloud_config = with_storage_mode Cloud_only (with_cloud_storage True default_server_config)"

lemmas toy_server_simps = toy_host_def toy_server_config_def toy_cloud_config_def with_storage_quota_def with_storage_directory_def
  with_storage_mode_def with_cloud_storage_def on_cloud_config_def default_server_config_def default_cloud_config_def

lemma toy_built: "build_server toy_host toy_server_config = Inr (make_server toy_host toy_server_config)"
  by (simp add: build_server_def server_config_valid_def ensure_directory_def needs_cache_def toy_server_simps)

lemma toy_cloud_built: "\<exists>s. build_server toy_host toy_cloud_config = Inr s"
  by (simp add: build_server_def server_config_valid_def ensure_directory_def needs_cache_def toy_server_simps has_cloud_def
      with_default_cache_def path_append_def Let_def)

theorem server_lifecycle_witness:
  "sv_state (fold server_step [Start True (any_endpoint 80), Stop False] (make_server toy_host toy_server_config)) = Server_running \<and>
   listen_port (fst (start_server False (any_endpoint 7) (make_server toy_host toy_server_config))) = 7"
  using server_lifecycle [OF toy_built, of _ "[Start True (any_endpoint 80)]" "Stop False"]
    server_lifecycle [OF toy_built, of _ "[]"] built_stopped [OF toy_built]
  by (simp add: server_step_def start_server_def any_endpoint_def)


theorem cloud_only_admission_uninitialised_witness:
  "\<exists>s. build_server toy_host toy_cloud_config = Inr s \<and> check_upload_allowed 6 s = Inl Quota_exceeded"
proof -
  obtain s where s: "build_server toy_host toy_cloud_config = Inr s" using toy_cloud_built by blast
  have "check_upload_allowed 6 s =
      (if used_size (uninitialised_stats toy_host) + 6 > total_capacity (uninitialised_stats toy_host) then Inl Quota_exceeded else Inr ())"
    by (rule cloud_only_admission_uninitialised [OF s]) (simp_all add: toy_server_simps)
  then show ?thesis using s by (simp add: toy_host_def)
qed

end
