(* ===== verification/Cloud_Time.thy ===== *)
theory Cloud_Time
  imports Complex_Main Prelude
begin

text \<open>
  The time functions of cloud/cloud_utils.cpp and the time parsers of the storage backends: broken-down
  UTC time as \<open>gmtime_r\<close> and \<open>timegm\<close> of the C library compute it in the proleptic Gregorian
  calendar, the formats of \<open>std::put_time\<close> that the program prints, and \<open>std::get_time\<close> with the
  conversions it parses (those of POSIX \<open>strptime\<close>, in the C locale). A reading of the clock is the
  number of seconds since 1970, an argument.
\<close>

record tm =
  tm_year :: int
  tm_mon :: int
  tm_mday :: int
  tm_hour :: int
  tm_min :: int
  tm_sec :: int

section \<open>The calendar\<close>

text \<open>The days since 1970-01-01 of a date and back; a year of the computation starts in March.\<close>

definition days_from_civil :: "int \<Rightarrow> int \<Rightarrow> int \<Rightarrow> int" where
  "days_from_civil y m d =
     (let y = (if m \<le> 2 then y - 1 else y);
          era = y div 400; yoe = y - era * 400;
          doy = (153 * (if m > 2 then m - 3 else m + 9) + 2) div 5 + d - 1;
          doe = yoe * 365 + yoe div 4 - yoe div 100 + doy
      in era * 146097 + doe - 719468)"

definition civil_from_days :: "int \<Rightarrow> int \<times> int \<times> int" where
  "civil_from_days z =
     (let z = z + 719468; era = z div 146097; doe = z - era * 146097;
          yoe = (doe - doe div 1460 + doe div 36524 - doe div 146096) div 365;
          doy = doe - (365 * yoe + yoe div 4 - yoe div 100);
          mp = (5 * doy + 2) div 153;
          d = doy - (153 * mp + 2) div 5 + 1;
          m = (if mp < 10 then mp + 3 else mp - 9)
      in (yoe + era * 400 + (if m \<le> 2 then 1 else 0), m, d))"

definition gmtime :: "int \<Rightarrow> tm" where
  "gmtime t =
     (case civil_from_days (t div 86400) of
        (y, m, d) \<Rightarrow>
          let s = t mod 86400
          in \<lparr>tm_year = y, tm_mon = m, tm_mday = d, tm_hour = s div 3600, tm_min = s mod 3600 div 60, tm_sec = s mod 60\<rparr>)"

definition timegm :: "tm \<Rightarrow> int" where
  "timegm t =
     days_from_civil (tm_year t) (tm_mon t) (tm_mday t) * 86400 + tm_hour t * 3600 + tm_min t * 60 + tm_sec t"

definition weekday :: "int \<Rightarrow> nat" where
  "weekday t = nat ((t div 86400 + 4) mod 7)"

section \<open>Printed times\<close>

definition day_names :: "string list" where
  "day_names = [''Sunday'', ''Monday'', ''Tuesday'', ''Wednesday'', ''Thursday'', ''Friday'', ''Saturday'']"

definition month_names :: "string list" where
  "month_names =
     [''January'', ''February'', ''March'', ''April'', ''May'', ''June'', ''July'', ''August'', ''September'',
      ''October'', ''November'', ''December'']"

definition two_digits :: "int \<Rightarrow> string" where
  "two_digits n = [char_of (48 + nat n div 10), char_of (48 + nat n mod 10)]"

definition iso_basic_date :: "tm \<Rightarrow> string" where
  "iso_basic_date t = dec_int (tm_year t) @ two_digits (tm_mon t) @ two_digits (tm_mday t)"

text \<open>\<open>get_iso8601_time\<close>, \<open>get_date_stamp\<close>, \<open>get_rfc3339_time\<close> and \<open>get_rfc1123_time\<close> at the time \<open>now\<close>.\<close>

definition get_iso8601_time :: "int \<Rightarrow> string" where
  "get_iso8601_time now =
     (let t = gmtime now
      in iso_basic_date t @ ''T'' @ two_digits (tm_hour t) @ two_digits (tm_min t) @ two_digits (tm_sec t) @ ''Z'')"

definition get_date_stamp :: "int \<Rightarrow> string" where
  "get_date_stamp now = iso_basic_date (gmtime now)"

definition clock_time :: "tm \<Rightarrow> string" where
  "clock_time t = two_digits (tm_hour t) @ '':'' @ two_digits (tm_min t) @ '':'' @ two_digits (tm_sec t)"

definition get_rfc3339_time :: "int \<Rightarrow> string" where
  "get_rfc3339_time now =
     (let t = gmtime now
      in dec_int (tm_year t) @ ''-'' @ two_digits (tm_mon t) @ ''-'' @ two_digits (tm_mday t) @ ''T'' @ clock_time t @ ''Z'')"

definition get_rfc1123_time :: "int \<Rightarrow> string" where
  "get_rfc1123_time now =
     (let t = gmtime now
      in take 3 (day_names ! weekday now) @ '', '' @ two_digits (tm_mday t) @ '' '' @
         take 3 (month_names ! nat (tm_mon t - 1)) @ '' '' @ dec_int (tm_year t) @ '' '' @ clock_time t @ '' GMT'')"

definition get_future_rfc3339_time :: "int \<Rightarrow> int \<Rightarrow> string" where
  "get_future_rfc3339_time now duration = get_rfc3339_time (now + duration)"

definition get_future_iso8601_time :: "int \<Rightarrow> int \<Rightarrow> string" where
  "get_future_iso8601_time now duration = get_rfc3339_time (now + duration)"

section \<open>Parsed times\<close>

text \<open>The conversions of the two formats: names, decimal fields with their ranges, and literal text.\<close>

datatype time_item = Day_name | Month_name | Day_of_month | Month_number | Year_number | Hour_number
  | Minute_number | Second_number | Literal char

text \<open>At most \<open>n\<close> digits, at least one.\<close>

definition parse_digits :: "nat \<Rightarrow> string \<Rightarrow> (int \<times> string) option" where
  "parse_digits n s =
     (let ds = takeWhile is_digit (take n s)
      in if ds = [] then None
         else Some (foldl (\<lambda>v c. 10 * v + (int (of_char c) - 48)) 0 ds, drop (length ds) s))"

definition parse_range :: "nat \<Rightarrow> int \<Rightarrow> int \<Rightarrow> string \<Rightarrow> (int \<times> string) option" where
  "parse_range n lo hi s =
     (case parse_digits n s of
        Some (v, r) \<Rightarrow> if lo \<le> v \<and> v \<le> hi then Some (v, r) else None
      | None \<Rightarrow> None)"

definition lower_case :: "char \<Rightarrow> char" where
  "lower_case c = (let n = of_char c :: nat in if 65 \<le> n \<and> n \<le> 90 then char_of (n + 32) else c)"

text \<open>A name in full or its first three letters, ignoring case; the index of the name and the rest.\<close>

fun parse_name :: "nat \<Rightarrow> string list \<Rightarrow> string \<Rightarrow> (nat \<times> string) option" where
  "parse_name i [] s = None"
| "parse_name i (n # ns) s =
     (let matches = (\<lambda>p. map lower_case (take (length p) s) = map lower_case p)
      in if matches n then Some (i, drop (length n) s)
         else if matches (take 3 n) then Some (i, drop 3 s)
         else parse_name (Suc i) ns s)"

definition parse_item :: "time_item \<Rightarrow> tm \<Rightarrow> string \<Rightarrow> (tm \<times> string) option" where
  "parse_item it t s =
     (let field = (\<lambda>n lo hi upd. map_option (\<lambda>(v, r). (upd v, r)) (parse_range n lo hi s))
      in case it of
           Day_name \<Rightarrow> map_option (\<lambda>(_, r). (t, r)) (parse_name 0 day_names s)
         | Month_name \<Rightarrow> map_option (\<lambda>(i, r). (t\<lparr>tm_mon := int i + 1\<rparr>, r)) (parse_name 0 month_names s)
         | Day_of_month \<Rightarrow> field 2 1 31 (\<lambda>v. t\<lparr>tm_mday := v\<rparr>)
         | Month_number \<Rightarrow> field 2 1 12 (\<lambda>v. t\<lparr>tm_mon := v\<rparr>)
         | Year_number \<Rightarrow> field 4 0 9999 (\<lambda>v. t\<lparr>tm_year := v\<rparr>)
         | Hour_number \<Rightarrow> field 2 0 23 (\<lambda>v. t\<lparr>tm_hour := v\<rparr>)
         | Minute_number \<Rightarrow> field 2 0 59 (\<lambda>v. t\<lparr>tm_min := v\<rparr>)
         | Second_number \<Rightarrow> field 2 0 60 (\<lambda>v. t\<lparr>tm_sec := v\<rparr>)
         | Literal c \<Rightarrow>
             if is_space c then Some (t, dropWhile is_space s)
             else if s \<noteq> [] \<and> hd s = c then Some (t, tl s) else None)"

fun get_time :: "time_item list \<Rightarrow> tm \<Rightarrow> string \<Rightarrow> tm option" where
  "get_time [] t s = Some t"
| "get_time (it # its) t s =
     (case parse_item it t s of Some (t', r) \<Rightarrow> get_time its t' r | None \<Rightarrow> None)"

definition clock_items :: "time_item list" where
  "clock_items = [Hour_number, Literal CHR '':'', Minute_number, Literal CHR '':'', Second_number]"

definition zero_tm :: tm where
  "zero_tm = \<lparr>tm_year = 1900, tm_mon = 1, tm_mday = 0, tm_hour = 0, tm_min = 0, tm_sec = 0\<rparr>"

text \<open>\<open>%a, %d %b %Y %H:%M:%S\<close> of an HTTP date and \<open>%Y-%m-%dT%H:%M:%S\<close> of a listing.\<close>

definition parse_http_date :: "string \<Rightarrow> int option" where
  "parse_http_date s =
     map_option timegm
       (get_time ([Day_name, Literal CHR '','', Literal CHR '' '', Day_of_month, Literal CHR '' '', Month_name,
                   Literal CHR '' '', Year_number, Literal CHR '' ''] @ clock_items) zero_tm s)"

definition parse_iso_date :: "string \<Rightarrow> int option" where
  "parse_iso_date s =
     map_option timegm
       (get_time ([Year_number, Literal CHR ''-'', Month_number, Literal CHR ''-'', Day_of_month, Literal CHR ''T''] @
                  clock_items) zero_tm s)"

section \<open>Dates and days\<close>

lemma century_of_day:
  fixes doe :: int
  assumes q: "36524 * q \<le> doe" "doe < 36524 * q + 36524" and a: "1460 * a \<le> doe" "doe < 1460 * a + 1460"
    and qe: "q = 0 \<and> e = 0 \<or> q = 1 \<and> e = 0 \<or> q = 2 \<and> e = 0 \<or> q = 3 \<and> e = 0 \<or> q = 4 \<and> e = 1"
    and doe: "doe < 146097" "146096 * e \<le> doe"
  shows "36500 * (q - e) \<le> doe - a + q - e \<and> doe - a + q - e < 36500 * (q - e) + 36500"
proof (rule conjI)
  show "36500 * (q - e) \<le> doe - a + q - e" 
    using qe q a doe by (elim disjE conjE) (simp; linarith)+
  show "doe - a + q - e < 36500 * (q - e) + 36500"
    using qe q a doe by (elim disjE conjE) (simp; linarith)+
qed

lemma div_bounds:
  fixes n x :: int
  assumes "0 < n"
  shows "n * (x div n) \<le> x" "x < n * (x div n) + n"
proof -
  have "n * (x div n) + x mod n = x" by simp
  then show "n * (x div n) \<le> x" "x < n * (x div n) + n"
    using assms pos_mod_bound [of n x] pos_mod_sign [of n x] by linarith+
qed

lemma doy_bounds:
  fixes doe :: int
  assumes "0 \<le> doe" "doe < 146097" and y: "yoe = (doe - doe div 1460 + doe div 36524 - doe div 146096) div 365"
    and d: "doy = doe - (365 * yoe + yoe div 4 - yoe div 100)"
  shows "0 \<le> doy \<and> doy \<le> 365 \<and> 0 \<le> yoe \<and> yoe < 400"
proof -
  define q a e f h where "q = doe div 36524" and "a = doe div 1460" and "e = doe div 146096"
    and "f = yoe div 4" and "h = yoe div 100"
  have q: "36524 * q \<le> doe" "doe < 36524 * q + 36524" and a: "1460 * a \<le> doe" "doe < 1460 * a + 1460"
    and e: "146096 * e \<le> doe" "doe < 146096 * e + 146096"
    unfolding q_def a_def e_def by (simp_all only: div_bounds zero_less_numeral)
  have yy: "365 * yoe \<le> doe - a + q - e" "doe - a + q - e < 365 * yoe + 365"
    unfolding y a_def [symmetric] q_def [symmetric] e_def [symmetric]
    by (simp_all only: div_bounds zero_less_numeral)
  have f: "4 * f \<le> yoe" "yoe < 4 * f + 4" and h: "100 * h \<le> yoe" "yoe < 100 * h + 100"
    unfolding f_def h_def by (simp_all only: div_bounds zero_less_numeral)
  have qe: "q = 0 \<and> e = 0 \<or> q = 1 \<and> e = 0 \<or> q = 2 \<and> e = 0 \<or> q = 3 \<and> e = 0 \<or> q = 4 \<and> e = 1"
  proof -
    have "0 \<le> q" "q \<le> 4" "0 \<le> e" "e \<le> 1" using q e assms(1,2) by linarith+
    then have "q \<in> {0, 1, 2, 3, 4}" "e = 0 \<or> e = 1" by auto
    then show ?thesis using q e assms(1,2) by (elim insertE disjE emptyE) simp_all
  qed
  note c = century_of_day [OF q a qe assms(2) e(1)]
  have "100 * (q - e) \<le> yoe" using c yy(2) by linarith
  moreover have "yoe < 100 * (q - e) + 100" using c yy(1) by linarith
  ultimately have "100 * h < 100 * (q - e + 1)" "100 * (q - e) < 100 * (h + 1)" using h by simp_all
  then have eh: "h = q - e" by simp
  have yoe: "0 \<le> yoe \<and> yoe < 400" using qe eh h by (elim disjE conjE) simp_all
  have "q \<le> a" using q a qe by linarith
  moreover have "a \<le> 100" using a assms(2) by linarith
  moreover have "0 \<le> q" "0 \<le> e" "e \<le> 1" "q \<le> 4" using qe by auto
  ultimately have af: "0 \<le> a - f" "a - f \<le> 1" using a yy f by linarith+
  have "doy = doe - 365 * yoe - f + h" using d f_def h_def by simp
  then show ?thesis using eh yy af yoe by linarith
qed

lemma civil_bounds:
  assumes "civil_from_days z = (y, m, d)"
  shows "1 \<le> m" "m \<le> 12" "1 \<le> d" "d \<le> 31" "days_from_civil y m d = z"
proof -
  define doe yoe where "doe = z + 719468 - (z + 719468) div 146097 * 146097"
    and "yoe = (doe - doe div 1460 + doe div 36524 - doe div 146096) div 365"
  define doy mp where "doy = doe - (365 * yoe + yoe div 4 - yoe div 100)" and "mp = (5 * doy + 2) div 153"
  have "0 \<le> doe" "doe < 146097"
    using div_bounds [of 146097 "z + 719468"] by (simp_all add: doe_def mult.commute)
  then have b: "0 \<le> doy" "doy \<le> 365" "0 \<le> yoe" "yoe < 400"
    using doy_bounds [OF _ _ yoe_def doy_def] by simp_all
  have mp': "153 * mp \<le> 5 * doy + 2" "5 * doy + 2 < 153 * mp + 153"
    unfolding mp_def by (simp_all only: div_bounds zero_less_numeral)
  have mp: "0 \<le> mp" "mp \<le> 11" using mp' b by linarith+
  define k where "k = (153 * mp + 2) div 5"
  have dd: "5 * k \<le> 153 * mp + 2" "153 * mp + 2 < 5 * k + 5"
    unfolding k_def by (simp_all only: div_bounds zero_less_numeral)
  have eqs: "m = (if mp < 10 then mp + 3 else mp - 9)" "d = doy - k + 1"
    "y = yoe + (z + 719468) div 146097 * 400 + (if m \<le> 2 then 1 else 0)"
    using assms
    unfolding civil_from_days_def Let_def doe_def [symmetric] yoe_def [symmetric] doy_def [symmetric] mp_def [symmetric]
      k_def [symmetric]
    by (simp_all only: prod.inject) blast+
  show "1 \<le> m" "m \<le> 12" using mp eqs(1) by (auto split: if_splits)
  show "1 \<le> d" "d \<le> 31" unfolding eqs(2) using mp' dd by linarith+
  have era: "(if m \<le> 2 then y - 1 else y) = yoe + (z + 719468) div 146097 * 400" using eqs(3) by simp
  have mon: "(if 2 < m then m - 3 else m + 9) = mp" using mp eqs(1) by auto
  have "(yoe + (z + 719468) div 146097 * 400) div 400 = (z + 719468) div 146097" using b by simp
  then show "days_from_civil y m d = z"
    unfolding days_from_civil_def Let_def era mon by (simp add: eqs(2) k_def doy_def doe_def)
qed

lemma gmtime_fields:
  "0 \<le> tm_hour (gmtime t)" "tm_hour (gmtime t) \<le> 23" "0 \<le> tm_min (gmtime t)" "tm_min (gmtime t) \<le> 59"
  "0 \<le> tm_sec (gmtime t)" "tm_sec (gmtime t) \<le> 59" "1 \<le> tm_mon (gmtime t)" "tm_mon (gmtime t) \<le> 12"
  "1 \<le> tm_mday (gmtime t)" "tm_mday (gmtime t) \<le> 31"
  using civil_bounds [of "t div 86400"]
  by (auto simp: gmtime_def Let_def split: prod.splits)

lemma timegm_gmtime: "timegm (gmtime t) = t"
proof -
  obtain y m d where c: "civil_from_days (t div 86400) = (y, m, d)" by (cases "civil_from_days (t div 86400)") auto
  have "t mod 86400 div 3600 * 3600 + (t mod 86400 mod 3600 div 60 * 60 + t mod 86400 mod 3600 mod 60) = t mod 86400"
    by (simp only: div_mult_mod_eq)
  moreover have "t mod 86400 mod 3600 mod 60 = t mod 86400 mod 60"
    by (rule mod_mod_cancel) simp
  moreover have "t div 86400 * 86400 + t mod 86400 = t" by (rule div_mult_mod_eq)
  ultimately have "t div 86400 * 86400 + t mod 86400 div 3600 * 3600 + t mod 86400 mod 3600 div 60 * 60 + t mod 86400 mod 60 = t"
    by (simp only: add.assoc)
  then show ?thesis
    unfolding timegm_def gmtime_def c Let_def by (simp only: prod.case tm.select_convs civil_bounds(5) [OF c])
qed

section \<open>A printed time is parsed back\<close>

lemma is_digit_char [simp]: "n < 10 \<Longrightarrow> is_digit (char_of (48 + n))" "n < 10 \<Longrightarrow> of_char (char_of (48 + n) :: char) = 48 + n"
  for n :: nat
  by (simp_all add: is_digit_def)

lemma parse_two_digits [simp]:
  "lo \<le> n \<Longrightarrow> n \<le> hi \<Longrightarrow> 0 \<le> n \<Longrightarrow> n \<le> 99 \<Longrightarrow> parse_range 2 lo hi (two_digits n @ r) = Some (n, r)"
proof -
  assume n: "lo \<le> n" "n \<le> hi" "0 \<le> n" "n \<le> 99"
  then have d: "nat n div 10 < 10" "nat n mod 10 < 10" by auto
  have "10 * int (nat n div 10) + int (nat n mod 10) = int (nat n)"
    using mult_div_mod_eq [of 10 "nat n"] by (metis of_nat_add of_nat_mult of_nat_numeral)
  then show ?thesis using d n by (simp add: parse_range_def parse_digits_def two_digits_def Let_def)
qed

lemma parse_year [simp]: "1000 \<le> y \<Longrightarrow> y \<le> 9999 \<Longrightarrow> parse_range 4 0 9999 (dec_int y @ r) = Some (y, r)"
proof -
  assume y: "1000 \<le> y" "y \<le> 9999"
  define n where "n = nat y"
  have n: "1000 \<le> n" "n \<le> 9999" "y = int n" using y by (auto simp: n_def)
  define a b c d where "a = n div 10 div 10 div 10" and "b = n div 10 div 10 mod 10" and "c = n div 10 mod 10" and "d = n mod 10"
  have "a * 10 + b = n div 10 div 10" "n div 10 div 10 * 10 + c = n div 10" "n div 10 * 10 + d = n"
    by (simp_all only: a_def b_def c_def d_def div_mult_mod_eq)
  then have v: "n = 1000 * a + 100 * b + 10 * c + d" and parts: "10 \<le> n div 10 div 10" "10 \<le> n div 10" "10 \<le> n"
    using n by simp_all
  have "b < 10" "c < 10" "d < 10" by (simp_all add: b_def c_def d_def)
  moreover from this have "1 \<le> a" "a < 10" using n v by simp_all
  moreover have "dec_digits n = [char_of (48 + a), char_of (48 + b), char_of (48 + c), char_of (48 + d)]"
    using parts calculation
    by (simp add: dec_digits.simps [of n] dec_digits.simps [of "n div 10"] dec_digits.simps [of "n div 10 div 10"]
      dec_digits.simps [of a] flip: a_def b_def c_def d_def)
  moreover have "dec_int y = dec_digits n" using y by (simp add: dec_int_def n_def)
  moreover have "int (1000 * a + 100 * b + 10 * c + d) = y" using n(3) v by simp
  ultimately show ?thesis
    using y by (simp add: parse_range_def parse_digits_def Let_def)
qed

lemma dropWhile_space [simp]: "\<not> is_space c \<Longrightarrow> dropWhile is_space (c # s) = c # s"
  by simp

lemma two_digits_not_space [simp]: "0 \<le> n \<Longrightarrow> n \<le> 99 \<Longrightarrow> dropWhile is_space (two_digits n @ r) = two_digits n @ r"
proof -
  assume "0 \<le> n" "n \<le> 99"
  then have "nat n div 10 < 10" by auto
  then show ?thesis by (simp add: two_digits_def is_space_def)
qed

lemma parse_day_name: "i < 7 \<Longrightarrow> parse_name 0 day_names (take 3 (day_names ! i) @ CHR '','' # r) = Some (i, CHR '','' # r)"
proof -
  assume "i < 7"
  then have "i = 0 \<or> i = 1 \<or> i = 2 \<or> i = 3 \<or> i = 4 \<or> i = 5 \<or> i = 6" by arith
  then show ?thesis by (elim disjE) (simp_all add: day_names_def lower_case_def)
qed

lemma parse_month_name:
  "i < 12 \<Longrightarrow> parse_name 0 month_names (take 3 (month_names ! i) @ CHR '' '' # r) = Some (i, CHR '' '' # r)"
proof -
  assume "i < 12"
  then have "i = 0 \<or> i = 1 \<or> i = 2 \<or> i = 3 \<or> i = 4 \<or> i = 5 \<or> i = 6 \<or> i = 7 \<or> i = 8 \<or> i = 9 \<or> i = 10 \<or> i = 11"
    by arith
  then show ?thesis by (elim disjE) (simp_all add: month_names_def lower_case_def)
qed

lemma year_not_space [simp]: "0 \<le> y \<Longrightarrow> dropWhile is_space (dec_int y @ r) = dec_int y @ r"
proof -
  assume y: "0 \<le> y"
  obtain c cs where cs: "dec_digits (nat y) = c # cs" by (cases "dec_digits (nat y)") auto
  then have "is_digit c" using is_digit_dec_digits [of c "nat y"] by simp
  then show ?thesis using y cs by (auto simp: dec_int_def is_digit_def is_space_def)
qed

lemma month_not_space [simp]:
  "i < 12 \<Longrightarrow> dropWhile is_space (take 3 (month_names ! i) @ r) = take 3 (month_names ! i) @ r"
proof -
  assume "i < 12"
  then have "i = 0 \<or> i = 1 \<or> i = 2 \<or> i = 3 \<or> i = 4 \<or> i = 5 \<or> i = 6 \<or> i = 7 \<or> i = 8 \<or> i = 9 \<or> i = 10 \<or> i = 11"
    by arith
  then show ?thesis by (elim disjE) (simp_all add: month_names_def is_space_def)
qed

lemma get_clock:
  "0 \<le> h \<Longrightarrow> h \<le> 23 \<Longrightarrow> 0 \<le> mi \<Longrightarrow> mi \<le> 59 \<Longrightarrow> 0 \<le> sec \<Longrightarrow> sec \<le> 59 \<Longrightarrow>
   get_time clock_items t (two_digits h @ CHR '':'' # two_digits mi @ CHR '':'' # two_digits sec @ r) =
     Some (t\<lparr>tm_hour := h, tm_min := mi, tm_sec := sec\<rparr>)"
  by (simp add: clock_items_def parse_item_def is_space_def)

lemma timegm_fields:
  "timegm (t\<lparr>tm_mday := tm_mday s, tm_mon := tm_mon s, tm_year := tm_year s, tm_hour := tm_hour s, tm_min := tm_min s,
     tm_sec := tm_sec s\<rparr>) = timegm s"
  "timegm (t\<lparr>tm_year := tm_year s, tm_mon := tm_mon s, tm_mday := tm_mday s, tm_hour := tm_hour s, tm_min := tm_min s,
     tm_sec := tm_sec s\<rparr>) = timegm s"
  by (simp_all add: timegm_def)

lemmas time_text_simps = clock_time_def Let_def parse_item_def is_space_def parse_day_name parse_month_name
  timegm_gmtime timegm_fields get_clock

text \<open>C35: a time printed as an HTTP date, or in the format of a listing, is parsed back to the same second, in the years
  1000 to 9999: the calendar computation of one direction undoes that of the other, and every field is read as it is
  written.
\<close>

theorem http_date_roundtrip:
  assumes "1000 \<le> tm_year (gmtime t)" "tm_year (gmtime t) \<le> 9999"
  shows "parse_http_date (get_rfc1123_time t) = Some t \<and> parse_iso_date (get_rfc3339_time t) = Some t"
proof (rule conjI)
  have wd: "weekday t < 7" by (simp add: weekday_def nat_less_iff)
  have mo: "nat (tm_mon (gmtime t) - 1) < 12" using gmtime_fields [of t] by simp
  show "parse_http_date (get_rfc1123_time t) = Some t"
    using gmtime_fields [of t] assms wd mo
    by (simp add: parse_http_date_def get_rfc1123_time_def time_text_simps)
  show "parse_iso_date (get_rfc3339_time t) = Some t"
    using gmtime_fields [of t] assms by (simp add: parse_iso_date_def get_rfc3339_time_def time_text_simps)
qed

theorem http_date_roundtrip_witness:
  "parse_http_date (get_rfc1123_time 784111777) = Some 784111777 \<and>
   parse_iso_date (get_rfc3339_time 784111777) = Some 784111777"
  by (rule http_date_roundtrip; code_simp)

lemma http_date_of_the_rfc:
  "get_rfc1123_time 784111777 = ''Sun, 06 Nov 1994 08:49:37 GMT''"
  by code_simp

end
