(* ===== verification/Cloud_Http.thy ===== *)
theory Cloud_Http
  imports Cloud_Types Cloud_Time "HOL-Library.List_Lexorder" "HOL-Library.Char_ord"
begin

text \<open>
  What the storage backends send: requests and responses of the HTTP client, header maps (\<open>std::map\<close>,
  kept in the order of their keys), the addresses that cloud/s3_storage.cpp builds and its signatures
  (AWS Signature Version 4). The HTTP client is a library that is not in the repository: \<open>ce_http\<close> takes a
  request to a new world and a response, \<open>None\<close> if the request failed. OpenSSL's digests, the random
  device, the clock (each reading may be later than the one before) and the credentials that the
  provider returns belong to the environment, as do the two build switches.
\<close>

section \<open>Requests and the environment\<close>

type_synonym headers = "(string \<times> string) list"

fun header_put :: "string \<Rightarrow> string \<Rightarrow> headers \<Rightarrow> headers" where
  "header_put k v [] = [(k, v)]"
| "header_put k v ((k', v') # hs) =
     (if k = k' then (k, v) # hs
      else if k < k' then (k, v) # (k', v') # hs
      else (k', v') # header_put k v hs)"

definition header_puts :: "(string \<times> string) list \<Rightarrow> headers \<Rightarrow> headers" where
  "header_puts kvs hs = foldl (\<lambda>m (k, v). header_put k v m) hs kvs"

record http_request =
  rq_method :: string
  rq_url :: string
  rq_headers :: headers
  rq_body :: bytes

record http_response =
  rs_status :: int
  rs_get_header :: "string \<Rightarrow> string option"
  rs_body :: bytes

definition get_body_string :: "http_response \<Rightarrow> string" where
  "get_body_string r = bytes_text (rs_body r)"

record 'w cloud_env =
  ce_network :: bool
  ce_encryption :: bool
  ce_http :: "http_request \<Rightarrow> 'w \<Rightarrow> 'w \<times> http_response option"
  ce_now :: "'w \<Rightarrow> 'w \<times> int"
  ce_random :: "nat \<Rightarrow> 'w \<Rightarrow> 'w \<times> bytes"
  ce_credentials :: "'w \<Rightarrow> any_credentials option"
  ce_sha256 :: "bytes \<Rightarrow> bytes"
  ce_hmac_sha256 :: "bytes \<Rightarrow> bytes \<Rightarrow> bytes"

text \<open>\<open>sha256\<close> and \<open>hmac_sha256\<close> of cloud/cloud_utils.cpp; without OpenSSL they return 32 zero bytes.\<close>

definition sha256_of :: "'w cloud_env \<Rightarrow> bytes \<Rightarrow> bytes" where
  "sha256_of env d = (if ce_encryption env then ce_sha256 env d else replicate 32 0)"

definition hmac_of :: "'w cloud_env \<Rightarrow> bytes \<Rightarrow> string \<Rightarrow> bytes" where
  "hmac_of env k d = (if ce_encryption env then ce_hmac_sha256 env k (text_bytes d) else replicate 32 0)"

definition payload_hash_of :: "'w cloud_env \<Rightarrow> bytes \<Rightarrow> string" where
  "payload_hash_of env d = bytes_to_hex (sha256_of env d)"

section \<open>Addresses\<close>

record s3_endpoint_info =
  ei_host :: string
  ei_port :: string
  ei_use_ssl :: bool

definition build_s3_url :: "string \<Rightarrow> bool \<Rightarrow> string \<Rightarrow> string \<Rightarrow> string" where
  "build_s3_url host ssl path query =
     (if ssl then ''https://'' else ''http://'') @ host @ path @ (if query \<noteq> [] then ''?'' @ query else [])"

definition strip_scheme :: "string \<Rightarrow> bool \<times> string" where
  "strip_scheme url =
     (if take 8 url = ''https://'' then (True, drop 8 url)
      else if take 7 url = ''http://'' then (False, drop 7 url)
      else (True, url))"

definition parse_endpoint :: "string \<Rightarrow> s3_endpoint_info" where
  "parse_endpoint endpoint =
     (case strip_scheme endpoint of
        (ssl, url) \<Rightarrow>
          let before_colon = takeWhile (\<lambda>c. c \<noteq> CHR '':'') url
          in if CHR '':'' \<in> set url \<and> CHR ''/'' \<notin> set before_colon
             then \<lparr>ei_host = before_colon,
                   ei_port = takeWhile (\<lambda>c. c \<noteq> CHR ''/'') (drop (length before_colon + 1) url), ei_use_ssl = ssl\<rparr>
             else \<lparr>ei_host = takeWhile (\<lambda>c. c \<noteq> CHR ''/'') url, ei_port = (if ssl then ''443'' else ''80''), ei_use_ssl = ssl\<rparr>)"

definition s3_host :: "s3_config \<Rightarrow> string" where
  "s3_host cfg =
     (case sc_endpoint cfg of
        Some e \<Rightarrow> ei_host (parse_endpoint e)
      | None \<Rightarrow>
          if s3_use_transfer_acceleration cfg then sc_bucket cfg @ ''.s3-accelerate.amazonaws.com''
          else if sc_use_path_style cfg then ''s3.'' @ sc_region cfg @ ''.amazonaws.com''
          else sc_bucket cfg @ ''.s3.'' @ sc_region cfg @ ''.amazonaws.com'')"

definition s3_path :: "s3_config \<Rightarrow> string \<Rightarrow> string" where
  "s3_path cfg key =
     (if sc_use_path_style cfg \<and> sc_endpoint cfg = None then ''/'' @ sc_bucket cfg @ ''/'' @ key else ''/'' @ key)"

section \<open>Signatures\<close>

fun join_with :: "string \<Rightarrow> string list \<Rightarrow> string" where
  "join_with sep [] = []"
| "join_with sep [x] = x"
| "join_with sep (x # y # ys) = x @ sep @ join_with sep (y # ys)"

definition line_end :: string where
  "line_end = [CHR 0x0A]"

definition canonical_request :: "string \<Rightarrow> string \<Rightarrow> string \<Rightarrow> headers \<Rightarrow> string list \<Rightarrow> string \<Rightarrow> string" where
  "canonical_request method uri query hs header_names payload =
     method @ line_end @ url_encode uri False @ line_end @ query @ line_end @
     concat (map (\<lambda>(k, v). k @ '':'' @ v @ line_end) hs) @ line_end @ join_with '';'' header_names @ line_end @ payload"

definition signature_algorithm :: string where
  "signature_algorithm = ''AWS4-HMAC-SHA256''"

definition credential_scope :: "string \<Rightarrow> string \<Rightarrow> string" where
  "credential_scope date region = date @ ''/'' @ region @ ''/s3/aws4_request''"

definition string_to_sign :: "'w cloud_env \<Rightarrow> string \<Rightarrow> string \<Rightarrow> string \<Rightarrow> string" where
  "string_to_sign env amz_date scope request =
     signature_algorithm @ line_end @ amz_date @ line_end @ scope @ line_end @ payload_hash_of env (text_bytes request)"

definition sign_string :: "'w cloud_env \<Rightarrow> string \<Rightarrow> string \<Rightarrow> string \<Rightarrow> string \<Rightarrow> string" where
  "sign_string env secret date region s =
     (let k_date = hmac_of env (text_bytes (''AWS4'' @ secret)) date;
          k_region = hmac_of env k_date region;
          k_service = hmac_of env k_region ''s3'';
          k_signing = hmac_of env k_service ''aws4_request''
      in bytes_to_hex (hmac_of env k_signing s))"

definition lower_headers :: "headers \<Rightarrow> headers" where
  "lower_headers hs = header_puts (map (\<lambda>(k, v). (map to_lower k, v)) hs) []"

definition create_authorization_header ::
  "'w cloud_env \<Rightarrow> string \<Rightarrow> string \<Rightarrow> string \<Rightarrow> string \<Rightarrow> headers \<Rightarrow> string \<Rightarrow> 'w \<Rightarrow> 'w \<times> string" where
  "create_authorization_header env region method uri query hs payload w =
     (if \<not> ce_encryption env then (w, [])
      else case ce_credentials env w of
             Some (Static c) \<Rightarrow>
               (case ce_now env w of
                  (w, t1) \<Rightarrow>
                    (case ce_now env w of
                       (w, t2) \<Rightarrow>
                         let date = get_date_stamp t1; amz_date = get_iso8601_time t2;
                             sent = lower_headers hs; header_names = map fst sent;
                             scope = credential_scope date region;
                             s = string_to_sign env amz_date scope (canonical_request method uri query sent header_names payload)
                         in (w, signature_algorithm @ '' Credential='' @ access_key_id c @ ''/'' @ scope @ '', SignedHeaders='' @
                              join_with '';'' header_names @ '', Signature='' @
                              sign_string env (secret_access_key c) date region s)))
           | _ \<Rightarrow> (w, []))"

text \<open>
  The headers and the request as every operation builds them: the time of the header is read first, then the
  signature reads the clock again; \<open>extra\<close> are the headers of the operation.
\<close>

definition signed_request ::
  "'w cloud_env \<Rightarrow> s3_config \<Rightarrow> string \<Rightarrow> string \<Rightarrow> string \<Rightarrow> string \<Rightarrow> (string \<times> string) list \<Rightarrow> bytes \<Rightarrow> 'w \<Rightarrow>
   'w \<times> http_request" where
  "signed_request env cfg method path query payload extra body w =
     (case ce_now env w of
        (w, t) \<Rightarrow>
          let hs = header_puts ([(''Host'', s3_host cfg), (''x-amz-date'', get_iso8601_time t),
                                 (''x-amz-content-sha256'', payload)] @ extra) []
          in case create_authorization_header env (sc_region cfg) method path query hs payload w of
               (w, auth) \<Rightarrow>
                 (w, \<lparr>rq_method = method, rq_url = build_s3_url (s3_host cfg) (sc_use_ssl cfg) path query,
                      rq_headers = (if auth \<noteq> [] then header_put ''Authorization'' auth hs else hs), rq_body = body\<rparr>))"

definition has_http_client :: "'w cloud_env \<Rightarrow> s3_config \<Rightarrow> bool" where
  "has_http_client env cfg \<longleftrightarrow> ce_network env \<and> sc_endpoint cfg \<noteq> None"

text \<open>\<open>send_request\<close>: GET, DELETE and HEAD carry no body.\<close>

definition send_request ::
  "'w cloud_env \<Rightarrow> s3_config \<Rightarrow> string \<Rightarrow> string \<Rightarrow> string \<Rightarrow> bytes \<Rightarrow> (string \<times> string) list \<Rightarrow> 'w \<Rightarrow>
   'w \<times> http_response result" where
  "send_request env cfg method path query body extra w =
     (if \<not> has_http_client env cfg then (w, Inl Not_initialized)
      else case signed_request env cfg method path query (payload_hash_of env body)
                  ((if body \<noteq> [] then [(''Content-Length'', dec_digits (length body))] else []) @ extra)
                  (if method = ''PUT'' \<or> method = ''POST'' then body else []) w of
             (w, rq) \<Rightarrow>
               if method \<in> {''GET'', ''PUT'', ''POST'', ''DELETE'', ''HEAD''}
               then (case ce_http env rq w of
                       (w, None) \<Rightarrow> (w, Inl Connection_failed)
                     | (w, Some r) \<Rightarrow> (w, Inr r))
               else (w, Inl Internal_error))"

section \<open>Facts\<close>

lemma header_put_lookup: "map_of (header_put k v hs) = (map_of hs)(k \<mapsto> v)"
  by (induction k v hs rule: header_put.induct) (auto simp: fun_eq_iff)

lemma set_keys_header_put: "set (map fst (header_put k v hs)) = insert k (set (map fst hs))"
  by (induction k v hs rule: header_put.induct) auto

lemma sorted_header_put:
  "sorted_wrt (<) (map fst hs) \<Longrightarrow> sorted_wrt (<) (map fst (header_put k v hs))"
proof (induction k v hs rule: header_put.induct)
  case (2 k v k' v' hs)
  then show ?case using set_keys_header_put [of k v hs] by (auto simp: not_less le_less) 
qed simp

lemma header_puts_simps [simp]:
  "header_puts [] hs = hs" "header_puts ((k, v) # kvs) hs = header_puts kvs (header_put k v hs)"
  by (simp_all add: header_puts_def)

lemma header_puts_append: "header_puts (xs @ ys) hs = header_puts ys (header_puts xs hs)"
  by (simp add: header_puts_def)

lemma sorted_header_puts: "sorted_wrt (<) (map fst hs) \<Longrightarrow> sorted_wrt (<) (map fst (header_puts kvs hs))"
  by (induction kvs arbitrary: hs) (auto simp: sorted_header_put)

lemma set_keys_header_puts: "set (map fst (header_puts kvs hs)) = set (map fst kvs) \<union> set (map fst hs)"
  by (induction kvs arbitrary: hs) (force simp del: set_map simp: set_keys_header_put)+

lemma header_puts_lookup: "map_of (header_puts kvs hs) = map_of hs ++ map_of (rev kvs)"
  by (induction kvs arbitrary: hs) (auto simp: header_put_lookup map_add_def fun_eq_iff split: option.splits)

lemma url_of_signed_request [simp]:
  "rq_url (snd (signed_request env cfg method path query payload extra body w)) =
     build_s3_url (s3_host cfg) (sc_use_ssl cfg) path query"
  "rq_method (snd (signed_request env cfg method path query payload extra body w)) = method"
  "rq_body (snd (signed_request env cfg method path query payload extra body w)) = body"
  by (simp_all add: signed_request_def Let_def split: prod.splits)

end
