(* ===== verification/S3_Upload_Stream.thy ===== *)
theory S3_Upload_Stream
  imports Cloud_Http
begin

text \<open>
  The multipart upload stream of cloud/s3_storage.cpp (\<open>s3_upload_stream\<close>). \<open>write\<close> cuts the data into parts and
  starts a thread for each; the futures of the threads that have not been collected are the pending parts.
  When a thread does its work is decided by a schedule: each entry lists the pending parts (by their place)
  whose requests are carried out at that point, in that order; \<open>None\<close> means that the schedule ended before the
  call returned. The part counter is unbounded (an \<open>int\<close> in the source, S3 allows 10000 parts). The buffer
  never grows past the part size, so the space left in it is computed without wrap-around.
\<close>

section \<open>State\<close>

text \<open>A future: the thread has its data to send, the result is there, or the result has been taken.\<close>

datatype part_future = Running bytes | Ready "string result" | Taken

type_synonym pending_part = "nat \<times> part_future"

record s3_upload_stream =
  us_key :: string
  us_config :: s3_config
  us_upload_id :: string
  us_completed_parts :: "(nat \<times> string) list"
  us_current_part_number :: nat
  us_part_buffer :: bytes
  us_bytes_written :: u64
  us_finalized :: bool
  us_aborted :: bool
  us_initialized :: bool
  us_pending_uploads :: "pending_part list"

definition new_upload_stream :: "string \<Rightarrow> s3_config \<Rightarrow> s3_upload_stream" where
  "new_upload_stream key cfg =
     \<lparr>us_key = key, us_config = cfg, us_upload_id = [], us_completed_parts = [], us_current_part_number = 1,
      us_part_buffer = [], us_bytes_written = 0, us_finalized = False, us_aborted = False, us_initialized = False,
      us_pending_uploads = []\<rparr>"

section \<open>Requests\<close>

definition quote_mark :: string where
  "quote_mark = [CHR 0x22]"

definition in_quotes :: "string \<Rightarrow> string" where
  "in_quotes s = quote_mark @ s @ quote_mark"

definition build_complete_multipart_xml :: "(nat \<times> string) list \<Rightarrow> string" where
  "build_complete_multipart_xml parts =
     ''<?xml version='' @ in_quotes ''1.0'' @ '' encoding='' @ in_quotes ''UTF-8'' @ ''?>'' @ line_end @
     ''<CompleteMultipartUpload xmlns='' @ in_quotes ''http://s3.amazonaws.com/doc/2006-03-01/'' @ ''>'' @ line_end @
     concat (map (\<lambda>(n, etag). ''  <Part>'' @ line_end @ ''    <PartNumber>'' @ dec_digits n @ ''</PartNumber>'' @ line_end @
       ''    <ETag>'' @ etag @ ''</ETag>'' @ line_end @ ''  </Part>'' @ line_end) parts) @
     ''</CompleteMultipartUpload>''"

definition simulate_initiate :: "'w cloud_env \<Rightarrow> s3_upload_stream \<Rightarrow> 'w \<Rightarrow> s3_upload_stream \<times> 'w \<times> string result" where
  "simulate_initiate env s w =
     (case ce_random env 16 w of
        (w, bs) \<Rightarrow> (s\<lparr>us_upload_id := bytes_to_hex bs, us_initialized := True\<rparr>, w, Inr (bytes_to_hex bs)))"

definition initiate_multipart_upload ::
  "'w cloud_env \<Rightarrow> s3_upload_stream \<Rightarrow> 'w \<Rightarrow> s3_upload_stream \<times> 'w \<times> string result" where
  "initiate_multipart_upload env s w =
     (let cfg = us_config s
      in if \<not> has_http_client env cfg then simulate_initiate env s w
         else case signed_request env cfg ''POST'' (s3_path cfg (us_key s)) ''uploads='' (payload_hash_of env [])
                     [(''Content-Type'', detect_content_type (us_key s))] [] w of
                (w, rq) \<Rightarrow>
                  (case ce_http env rq w of
                     (w, None) \<Rightarrow> simulate_initiate env s w
                   | (w, Some r) \<Rightarrow>
                       if rs_status r \<noteq> 200 then (s, w, Inl Internal_error)
                       else case extract_xml_element (get_body_string r) ''UploadId'' of
                              Some i \<Rightarrow> (s\<lparr>us_upload_id := i, us_initialized := True\<rparr>, w, Inr i)
                            | None \<Rightarrow> simulate_initiate env s w))"

definition part_query :: "nat \<Rightarrow> string \<Rightarrow> string" where
  "part_query n upload_id = ''partNumber='' @ dec_digits n @ ''&uploadId='' @ upload_id"

text \<open>\<open>upload_part\<close> reads nothing that changes while a stream is in use but its arguments.\<close>

definition upload_part ::
  "'w cloud_env \<Rightarrow> s3_config \<Rightarrow> string \<Rightarrow> string \<Rightarrow> nat \<Rightarrow> bytes \<Rightarrow> 'w \<Rightarrow> 'w \<times> string result" where
  "upload_part env cfg key upload_id n data w =
     (let local_etag = in_quotes (payload_hash_of env data)
      in if \<not> has_http_client env cfg then (w, Inr local_etag)
         else case signed_request env cfg ''PUT'' (s3_path cfg key) (part_query n upload_id) (payload_hash_of env data)
                     [(''Content-Length'', dec_digits (length data))] data w of
                (w, rq) \<Rightarrow>
                  (case ce_http env rq w of
                     (w, None) \<Rightarrow> (w, Inr local_etag)
                   | (w, Some r) \<Rightarrow>
                       if rs_status r = 200
                       then (w, Inr (case rs_get_header r ''ETag'' of Some e \<Rightarrow> e | None \<Rightarrow> local_etag))
                       else (w, Inl Internal_error)))"

definition drop_quotes :: "string \<Rightarrow> string" where
  "drop_quotes e =
     (let e = (if e \<noteq> [] \<and> hd e = CHR 0x22 then tl e else e)
      in if e \<noteq> [] \<and> last e = CHR 0x22 then butlast e else e)"

definition local_upload_result :: "s3_upload_stream \<Rightarrow> upload_result" where
  "local_upload_result s =
     (new_upload_result (us_key s)
        (in_quotes (concat (map (\<lambda>(n, e). drop_quotes e) (us_completed_parts s)) @ ''-'' @ dec_digits (length (us_completed_parts s))))
        (us_bytes_written s))\<lparr>ur_upload_id := Some (us_upload_id s)\<rparr>"

definition complete_multipart_upload ::
  "'w cloud_env \<Rightarrow> s3_upload_stream \<Rightarrow> 'w \<Rightarrow> s3_upload_stream \<times> 'w \<times> upload_result result" where
  "complete_multipart_upload env s w =
     (let s = s\<lparr>us_completed_parts := sort_key fst (us_completed_parts s)\<rparr>; cfg = us_config s
      in if \<not> has_http_client env cfg then (s, w, Inr (local_upload_result s))
         else let xml = build_complete_multipart_xml (us_completed_parts s)
              in case signed_request env cfg ''POST'' (s3_path cfg (us_key s)) (''uploadId='' @ us_upload_id s)
                        (payload_hash_of env (text_bytes xml))
                        [(''Content-Type'', ''application/xml''), (''Content-Length'', dec_digits (length xml))]
                        (text_bytes xml) w of
                   (w, rq) \<Rightarrow>
                     (case ce_http env rq w of
                        (w, None) \<Rightarrow> (s, w, Inr (local_upload_result s))
                      | (w, Some r) \<Rightarrow>
                          if rs_status r = 200
                          then (s, w, Inr ((new_upload_result (us_key s)
                                             (case extract_xml_element (get_body_string r) ''ETag'' of Some e \<Rightarrow> e | None \<Rightarrow> [])
                                             (us_bytes_written s))\<lparr>ur_upload_id := Some (us_upload_id s)\<rparr>))
                          else (s, w, Inl Internal_error)))"

definition abort_multipart_upload :: "'w cloud_env \<Rightarrow> s3_upload_stream \<Rightarrow> 'w \<Rightarrow> s3_upload_stream \<times> 'w" where
  "abort_multipart_upload env s w =
     (let cfg = us_config s; closed = s\<lparr>us_aborted := True\<rparr>
      in if \<not> has_http_client env cfg \<or> us_upload_id s = [] then (closed, w)
         else case signed_request env cfg ''DELETE'' (s3_path cfg (us_key s)) (''uploadId='' @ us_upload_id s)
                     (payload_hash_of env []) [] [] w of
                (w, rq) \<Rightarrow> (closed, fst (ce_http env rq w)))"

text \<open>The constructor ignores the result of \<open>initiate_multipart_upload\<close>; the destructor aborts what is open.\<close>

definition open_upload_stream :: "'w cloud_env \<Rightarrow> string \<Rightarrow> s3_config \<Rightarrow> 'w \<Rightarrow> s3_upload_stream \<times> 'w" where
  "open_upload_stream env key cfg w =
     (case initiate_multipart_upload env (new_upload_stream key cfg) w of (s, w, _) \<Rightarrow> (s, w))"

definition destroy_upload_stream :: "'w cloud_env \<Rightarrow> s3_upload_stream \<Rightarrow> 'w \<Rightarrow> 'w" where
  "destroy_upload_stream env s w =
     (if \<not> us_finalized s \<and> \<not> us_aborted s then snd (abort_multipart_upload env s w) else w)"

section \<open>Pending parts\<close>

definition run_part :: "'w cloud_env \<Rightarrow> nat \<Rightarrow> s3_upload_stream \<times> 'w \<Rightarrow> s3_upload_stream \<times> 'w" where
  "run_part env i sw =
     (case sw of
        (s, w) \<Rightarrow>
          if i < length (us_pending_uploads s)
          then (case us_pending_uploads s ! i of
                  (n, Running d) \<Rightarrow>
                    (case upload_part env (us_config s) (us_key s) (us_upload_id s) n d w of
                       (w, r) \<Rightarrow> (s\<lparr>us_pending_uploads := (us_pending_uploads s)[i := (n, Ready r)]\<rparr>, w))
                | _ \<Rightarrow> (s, w))
          else (s, w))"

definition run_parts :: "'w cloud_env \<Rightarrow> nat list \<Rightarrow> s3_upload_stream \<times> 'w \<Rightarrow> s3_upload_stream \<times> 'w" where
  "run_parts env is sw = foldl (\<lambda>sw i. run_part env i sw) sw is"

fun is_running :: "pending_part \<Rightarrow> bool" where
  "is_running (n, Running d) = True"
| "is_running _ = False"

definition get_active_upload_count :: "s3_upload_stream \<Rightarrow> nat" where
  "get_active_upload_count s = length (filter is_running (us_pending_uploads s))"

text \<open>The parts that stay pending, those that are completed now, and the result.\<close>

fun collect_parts :: "pending_part list \<Rightarrow> pending_part list \<times> (nat \<times> string) list \<times> unit result" where
  "collect_parts [] = ([], [], Inr ())"
| "collect_parts ((n, Taken) # ps) = collect_parts ps"
| "collect_parts ((n, Ready (Inl e)) # ps) = ((n, Taken) # ps, [], Inl e)"
| "collect_parts ((n, Ready (Inr etag)) # ps) =
     (case collect_parts ps of (ps', cs, r) \<Rightarrow> (ps', (n, etag) # cs, r))"
| "collect_parts ((n, Running d) # ps) =
     (case collect_parts ps of (ps', cs, r) \<Rightarrow> ((n, Running d) # ps', cs, r))"

definition collect_completed_uploads :: "s3_upload_stream \<Rightarrow> s3_upload_stream \<times> unit result" where
  "collect_completed_uploads s =
     (case collect_parts (us_pending_uploads s) of
        (ps, cs, r) \<Rightarrow> (s\<lparr>us_pending_uploads := ps, us_completed_parts := us_completed_parts s @ cs\<rparr>, r))"

text \<open>\<open>future.get()\<close> waits for the thread: what has not run yet runs now.\<close>

fun wait_parts ::
  "'w cloud_env \<Rightarrow> s3_upload_stream \<Rightarrow> pending_part list \<Rightarrow> 'w \<Rightarrow>
   pending_part list \<times> (nat \<times> string) list \<times> 'w \<times> unit result" where
  "wait_parts env s [] w = ([], [], w, Inr ())"
| "wait_parts env s ((n, f) # ps) w =
     (let (w, r) = (case f of
                      Running d \<Rightarrow>
                        (case upload_part env (us_config s) (us_key s) (us_upload_id s) n d w of (w, r) \<Rightarrow> (w, Some r))
                    | Ready r \<Rightarrow> (w, Some r)
                    | Taken \<Rightarrow> (w, None))
      in case r of
           Some (Inl e) \<Rightarrow> ((n, Taken) # ps, [], w, Inl e)
         | Some (Inr etag) \<Rightarrow>
             (case wait_parts env s ps w of (ps', cs, w, q) \<Rightarrow> ((n, Taken) # ps', (n, etag) # cs, w, q))
         | None \<Rightarrow> (case wait_parts env s ps w of (ps', cs, w, q) \<Rightarrow> ((n, Taken) # ps', cs, w, q)))"

definition wait_all_uploads :: "'w cloud_env \<Rightarrow> s3_upload_stream \<Rightarrow> 'w \<Rightarrow> s3_upload_stream \<times> 'w \<times> unit result" where
  "wait_all_uploads env s w =
     (case wait_parts env s (us_pending_uploads s) w of
        (ps, cs, w, r) \<Rightarrow>
          (s\<lparr>us_pending_uploads := (case r of Inl _ \<Rightarrow> ps | Inr _ \<Rightarrow> []), us_completed_parts := us_completed_parts s @ cs\<rparr>, w, r))"

type_synonym schedule = "nat list list"

fun wait_for_slot ::
  "'w cloud_env \<Rightarrow> schedule \<Rightarrow> s3_upload_stream \<Rightarrow> 'w \<Rightarrow> (s3_upload_stream \<times> 'w \<times> schedule \<times> unit result) option" where
  "wait_for_slot env [] s w =
     (if get_active_upload_count s \<ge> mp_max_concurrent_parts (sc_multipart (us_config s)) then None else Some (s, w, [], Inr ()))"
| "wait_for_slot env (is # sch) s w =
     (if get_active_upload_count s \<ge> mp_max_concurrent_parts (sc_multipart (us_config s))
      then (case run_parts env is (s, w) of
              (s, w) \<Rightarrow>
                (case collect_completed_uploads s of
                   (s, Inl e) \<Rightarrow> Some (s, w, sch, Inl e)
                 | (s, Inr _) \<Rightarrow> wait_for_slot env sch s w))
      else Some (s, w, is # sch, Inr ()))"

section \<open>The stream\<close>

definition upload_part_async :: "s3_upload_stream \<Rightarrow> s3_upload_stream" where
  "upload_part_async s =
     s\<lparr>us_pending_uploads := us_pending_uploads s @ [(us_current_part_number s, Running (us_part_buffer s))],
       us_current_part_number := us_current_part_number s + 1, us_part_buffer := []\<rparr>"

text \<open>The buffer is full: wait for a slot, collect, start the upload.\<close>

definition flush_part ::
  "'w cloud_env \<Rightarrow> schedule \<Rightarrow> s3_upload_stream \<Rightarrow> 'w \<Rightarrow> (s3_upload_stream \<times> 'w \<times> schedule \<times> unit result) option" where
  "flush_part env sch s w =
     (case sch of
        [] \<Rightarrow> None
      | is # sch \<Rightarrow>
          (case run_parts env is (s, w) of
             (s, w) \<Rightarrow>
               (case wait_for_slot env sch s w of
                  None \<Rightarrow> None
                | Some (s, w, sch, Inl e) \<Rightarrow> Some (s, w, sch, Inl e)
                | Some (s, w, sch, Inr _) \<Rightarrow>
                    (case collect_completed_uploads s of
                       (s, Inl e) \<Rightarrow> Some (s, w, sch, Inl e)
                     | (s, Inr _) \<Rightarrow> Some (upload_part_async s, w, sch, Inr ())))))"

lemma wait_for_slot_schedule: "wait_for_slot env sch s w = Some (s', w', sch', r) \<Longrightarrow> length sch' \<le> length sch"
  by (induction env sch s w rule: wait_for_slot.induct) (auto intro: le_SucI split: if_splits prod.splits sum.splits)

lemma flush_part_schedule: "flush_part env sch s w = Some (s', w', sch', r) \<Longrightarrow> length sch' < length sch"
  by (auto simp: flush_part_def dest!: wait_for_slot_schedule
      split: list.splits prod.splits option.splits sum.splits)

definition fill_buffer :: "bytes \<Rightarrow> s3_upload_stream \<Rightarrow> s3_upload_stream" where
  "fill_buffer data s =
     s\<lparr>us_part_buffer := us_part_buffer s @
        take (unat (mp_part_size (sc_multipart (us_config s))) - length (us_part_buffer s)) data\<rparr>"

definition left_over :: "bytes \<Rightarrow> s3_upload_stream \<Rightarrow> bytes" where
  "left_over data s = drop (unat (mp_part_size (sc_multipart (us_config s))) - length (us_part_buffer s)) data"

definition buffer_full :: "s3_upload_stream \<Rightarrow> bool" where
  "buffer_full s \<longleftrightarrow> length (us_part_buffer s) \<ge> unat (mp_part_size (sc_multipart (us_config s)))"

function upload_write_loop ::
  "'w cloud_env \<Rightarrow> schedule \<Rightarrow> bytes \<Rightarrow> s3_upload_stream \<Rightarrow> 'w \<Rightarrow>
   (s3_upload_stream \<times> 'w \<times> schedule \<times> unit result) option" where
  "upload_write_loop env sch data s w =
     (if data = [] then Some (s, w, sch, Inr ())
      else let s' = fill_buffer data s; rest = left_over data s
           in if buffer_full s'
              then (case flush_part env sch s' w of
                      None \<Rightarrow> None
                    | Some (s', w, sch', Inl e) \<Rightarrow> Some (s', w, sch', Inl e)
                    | Some (s', w, sch', Inr _) \<Rightarrow> upload_write_loop env sch' rest s' w)
              else upload_write_loop env sch rest s' w)"
  by pat_completeness auto
termination
proof (relation "measures [\<lambda>(env, sch, data, s, w). length sch, \<lambda>(env, sch, data, s, w). length data]", goal_cases)
  case (3 env sch data s w s' rest)
  then show ?case
    by (cases "length data \<le> unat (mp_part_size (sc_multipart (us_config s))) - length (us_part_buffer s)")
      (auto simp: fill_buffer_def left_over_def buffer_full_def)
qed (auto dest: flush_part_schedule)

declare upload_write_loop.simps [simp del]

definition upload_write ::
  "'w cloud_env \<Rightarrow> schedule \<Rightarrow> bytes \<Rightarrow> s3_upload_stream \<Rightarrow> 'w \<Rightarrow>
   (s3_upload_stream \<times> 'w \<times> schedule \<times> nat result) option" where
  "upload_write env sch data s w =
     (if us_finalized s \<or> us_aborted s then Some (s, w, sch, Inl Internal_error)
      else case upload_write_loop env sch data s w of
             None \<Rightarrow> None
           | Some (s, w, sch, Inl e) \<Rightarrow> Some (s, w, sch, Inl e)
           | Some (s, w, sch, Inr _) \<Rightarrow>
               Some (s\<lparr>us_bytes_written := us_bytes_written s + word_of_nat (length data)\<rparr>, w, sch, Inr (length data)))"

text \<open>\<open>is\<close>: the parts that finish while the last one is sent.\<close>

definition upload_finalize ::
  "'w cloud_env \<Rightarrow> nat list \<Rightarrow> s3_upload_stream \<Rightarrow> 'w \<Rightarrow> s3_upload_stream \<times> 'w \<times> upload_result result" where
  "upload_finalize env is s w =
     (if us_finalized s \<or> us_aborted s then (s, w, Inl Internal_error)
      else let (s, w, r) =
                 (if us_part_buffer s = [] then (s, w, Inr ())
                  else case upload_part env (us_config s) (us_key s) (us_upload_id s) (us_current_part_number s) (us_part_buffer s) w of
                         (w, Inl e) \<Rightarrow> (s, w, Inl e)
                       | (w, Inr etag) \<Rightarrow>
                           (s\<lparr>us_completed_parts := us_completed_parts s @ [(us_current_part_number s, etag)]\<rparr>, w, Inr ()))
           in case r of
                Inl e \<Rightarrow> (case abort_multipart_upload env s w of (s, w) \<Rightarrow> (s, w, Inl e))
              | Inr _ \<Rightarrow>
                  (case run_parts env is (s, w) of
                     (s, w) \<Rightarrow>
                       (case wait_all_uploads env s w of
                          (s, w, Inl e) \<Rightarrow> (case abort_multipart_upload env s w of (s, w) \<Rightarrow> (s, w, Inl e))
                        | (s, w, Inr _) \<Rightarrow> complete_multipart_upload env (s\<lparr>us_finalized := True\<rparr>) w)))"

definition upload_abort :: "'w cloud_env \<Rightarrow> s3_upload_stream \<Rightarrow> 'w \<Rightarrow> s3_upload_stream \<times> 'w" where
  "upload_abort env s w = (if us_aborted s then (s, w) else abort_multipart_upload env s w)"

definition upload_id_of :: "s3_upload_stream \<Rightarrow> string option" where
  "upload_id_of s = (if us_upload_id s \<noteq> [] then Some (us_upload_id s) else None)"

end
