(* ===== verification/S3_Stream_Facts.thy ===== *)
theory S3_Stream_Facts
  imports S3_Upload_Stream "HOL-Library.Multiset" "HOL-Library.Sublist"
begin

text \<open>
  What the multipart upload stream guarantees. The requests are recorded: \<open>logged env\<close> behaves as \<open>env\<close> and
  keeps the list of the exchanges. The invariant \<open>stream_inv\<close> relates the parts of a stream to the data that
  was cut off for them and to the exchanges that acknowledged them; the last section says when \<open>write\<close>
  returns, and when it never does.
\<close>

section \<open>Recorded exchanges\<close>

type_synonym exchange = "http_request \<times> http_response option"

definition logged :: "'w cloud_env \<Rightarrow> ('w \<times> exchange list) cloud_env" where
  "logged env =
     \<lparr>ce_network = ce_network env, ce_encryption = ce_encryption env,
      ce_http = (\<lambda>rq (w, l). case ce_http env rq w of (w, r) \<Rightarrow> ((w, l @ [(rq, r)]), r)),
      ce_now = (\<lambda>(w, l). case ce_now env w of (w, t) \<Rightarrow> ((w, l), t)),
      ce_random = (\<lambda>n (w, l). case ce_random env n w of (w, bs) \<Rightarrow> ((w, l), bs)),
      ce_credentials = (\<lambda>(w, l). ce_credentials env w),
      ce_sha256 = ce_sha256 env, ce_hmac_sha256 = ce_hmac_sha256 env\<rparr>"

lemma logged_simps [simp]:
  "has_http_client (logged env) cfg = has_http_client env cfg"
  "payload_hash_of (logged env) d = payload_hash_of env d"
  by (simp_all add: has_http_client_def payload_hash_of_def sha256_of_def logged_def)

lemma logged_now: "ce_now (logged env) wl = (wl', t) \<Longrightarrow> snd wl' = snd wl"
  by (auto simp: logged_def split: prod.splits)

lemma logged_random: "ce_random (logged env) n wl = (wl', t) \<Longrightarrow> snd wl' = snd wl"
  by (auto simp: logged_def split: prod.splits)

lemma logged_http: "ce_http (logged env) rq wl = (wl', r) \<Longrightarrow> snd wl' = snd wl @ [(rq, r)]"
  by (auto simp: logged_def split: prod.splits)

lemma logged_authorization:
  "create_authorization_header (logged env) reg m u q hs p wl = (wl', a) \<Longrightarrow> snd wl' = snd wl"
  by (auto simp: create_authorization_header_def Let_def dest!: logged_now split: if_splits option.splits any_credentials.splits prod.splits)

lemma logged_request:
  assumes "signed_request (logged env) cfg m p q pl ex b wl = (wl', rq)"
  shows "snd wl' = snd wl \<and> rq_method rq = m \<and> rq_url rq = build_s3_url (s3_host cfg) (sc_use_ssl cfg) p q \<and> rq_body rq = b"
  using assms
  by (auto simp: signed_request_def Let_def dest!: logged_now logged_authorization split: prod.splits)

definition part_url :: "s3_config \<Rightarrow> string \<Rightarrow> string \<Rightarrow> nat \<Rightarrow> string" where
  "part_url cfg key i n = build_s3_url (s3_host cfg) (sc_use_ssl cfg) (s3_path cfg key) (part_query n i)"

text \<open>
  An exchange accounts for a part: the server took it and its entity tag is \<open>e\<close>, or the request failed and
  \<open>e\<close> is made up from the digest of the data.
\<close>

definition accounts_for :: "'w cloud_env \<Rightarrow> bytes \<Rightarrow> string \<Rightarrow> http_response option \<Rightarrow> bool" where
  "accounts_for env d e answer \<longleftrightarrow>
     (case answer of
        None \<Rightarrow> e = in_quotes (payload_hash_of env d)
      | Some r \<Rightarrow>
          rs_status r = 200 \<and>
          e = (case rs_get_header r ''ETag'' of Some e \<Rightarrow> e | None \<Rightarrow> in_quotes (payload_hash_of env d)))"

definition part_sent ::
  "'w cloud_env \<Rightarrow> s3_config \<Rightarrow> string \<Rightarrow> string \<Rightarrow> exchange list \<Rightarrow> nat \<Rightarrow> bytes \<Rightarrow> string \<Rightarrow> bool" where
  "part_sent env cfg key i hist n d e \<longleftrightarrow>
     (\<exists>(rq, answer) \<in> set hist.
        rq_method rq = ''PUT'' \<and> rq_url rq = part_url cfg key i n \<and> rq_body rq = d \<and> accounts_for env d e answer)"

lemma part_sent_mono: "part_sent env cfg key i l n d e \<Longrightarrow> prefix l l' \<Longrightarrow> part_sent env cfg key i l' n d e"
  by (auto simp: part_sent_def prefix_def)

lemma upload_part_sent:
  assumes "upload_part (logged env) cfg key i n d wl = (wl', r)" "has_http_client env cfg"
  shows "prefix (snd wl) (snd wl') \<and> (\<forall>e. r = Inr e \<longrightarrow> part_sent env cfg key i (snd wl') n d e)"
  using assms
  by (auto simp: upload_part_def Let_def part_sent_def part_url_def accounts_for_def
      dest!: logged_request logged_http split: prod.splits option.splits if_splits)

section \<open>The parts of a stream\<close>

definition first_numbers :: "nat \<Rightarrow> nat multiset" where
  "first_numbers k = mset [1..<k + 1]"

lemma first_numbers_Suc: "first_numbers (Suc k) = add_mset (Suc k) (first_numbers k)"
  by (simp add: first_numbers_def)

fun pending_ok ::
  "'w cloud_env \<Rightarrow> s3_config \<Rightarrow> string \<Rightarrow> string \<Rightarrow> exchange list \<Rightarrow> bytes list \<Rightarrow> pending_part \<Rightarrow> bool" where
  "pending_ok env cfg key i hist ds (n, Running d) = (d = ds ! (n - 1))"
| "pending_ok env cfg key i hist ds (n, Ready (Inl err)) = True"
| "pending_ok env cfg key i hist ds (n, Ready (Inr e)) = part_sent env cfg key i hist n (ds ! (n - 1)) e"
| "pending_ok env cfg key i hist ds (n, Taken) = False"

definition parts_inv ::
  "'w cloud_env \<Rightarrow> s3_config \<Rightarrow> string \<Rightarrow> string \<Rightarrow> exchange list \<Rightarrow> bytes list \<Rightarrow> s3_upload_stream \<Rightarrow> bool" where
  "parts_inv env cfg key i hist ds s \<longleftrightarrow>
     us_config s = cfg \<and> us_key s = key \<and> us_upload_id s = i \<and> \<not> us_finalized s \<and> \<not> us_aborted s \<and>
     mset (map fst (us_completed_parts s)) + mset (map fst (us_pending_uploads s)) = first_numbers (length ds) \<and>
     (\<forall>(n, e) \<in> set (us_completed_parts s). part_sent env cfg key i hist n (ds ! (n - 1)) e) \<and>
     (\<forall>p \<in> set (us_pending_uploads s). pending_ok env cfg key i hist ds p)"

definition stream_inv ::
  "'w cloud_env \<Rightarrow> s3_config \<Rightarrow> string \<Rightarrow> string \<Rightarrow> exchange list \<Rightarrow> bytes list \<Rightarrow> s3_upload_stream \<Rightarrow> bool" where
  "stream_inv env cfg key i hist ds s \<longleftrightarrow>
     parts_inv env cfg key i hist ds s \<and> us_current_part_number s = length ds + 1 \<and>
     (\<forall>d \<in> set ds. length d = unat (mp_part_size (sc_multipart cfg))) \<and>
     length (us_part_buffer s) \<le> unat (mp_part_size (sc_multipart cfg))"

text \<open>What the calls that wait for parts leave alone.\<close>

definition same_buffer :: "s3_upload_stream \<Rightarrow> s3_upload_stream \<Rightarrow> bool" where
  "same_buffer s s' \<longleftrightarrow>
     us_part_buffer s' = us_part_buffer s \<and> us_current_part_number s' = us_current_part_number s"

lemma same_buffer_refl [simp]: "same_buffer s s"
  by (simp add: same_buffer_def)

lemma same_buffer_trans: "same_buffer s t \<Longrightarrow> same_buffer t u \<Longrightarrow> same_buffer s u"
  by (simp add: same_buffer_def)

lemma stream_inv_parts: "stream_inv env cfg key i l ds s \<Longrightarrow> parts_inv env cfg key i l ds s"
  by (simp add: stream_inv_def)

lemma pending_ok_mono:
  "pending_ok env cfg key i l ds p \<Longrightarrow> prefix l l' \<Longrightarrow> pending_ok env cfg key i l' ds p"
  by (induction env cfg key i l ds p rule: pending_ok.induct) (auto intro: part_sent_mono)

lemma pending_ok_ext:
  "pending_ok env cfg key i l ds p \<Longrightarrow> fst p - 1 < length ds \<Longrightarrow> pending_ok env cfg key i l (ds @ es) p"
  by (induction env cfg key i l ds p rule: pending_ok.induct) (simp_all add: nth_append)

lemma parts_inv_mono:
  "parts_inv env cfg key i l ds s \<Longrightarrow> prefix l l' \<Longrightarrow> parts_inv env cfg key i l' ds s"
  by (fastforce simp: parts_inv_def intro: part_sent_mono pending_ok_mono)

lemma run_part_inv:
  assumes inv: "parts_inv env cfg key i (snd wl) ds s" and client: "has_http_client env cfg"
    and run: "run_part (logged env) k (s, wl) = (s', wl')"
  shows "parts_inv env cfg key i (snd wl') ds s' \<and> prefix (snd wl) (snd wl') \<and> same_buffer s s'"
proof (cases "k < length (us_pending_uploads s) \<and> is_running (us_pending_uploads s ! k)")
  case False
  then have "s' = s" "wl' = wl"
    using run by (auto simp: run_part_def split: prod.splits part_future.splits if_splits)
  then show ?thesis using inv by simp
next
  case True
  then obtain n d where nd: "us_pending_uploads s ! k = (n, Running d)" and k: "k < length (us_pending_uploads s)"
    by (auto elim: is_running.elims)
  obtain r where up: "upload_part (logged env) cfg key i n d wl = (wl', r)"
    and s': "s' = s\<lparr>us_pending_uploads := (us_pending_uploads s)[k := (n, Ready r)]\<rparr>"
    using run nd k inv by (auto simp: run_part_def parts_inv_def split: prod.splits)
  note sent = upload_part_sent [OF up client]
  have "d = ds ! (n - 1)"
    using inv nth_mem [OF k] by (fastforce simp: parts_inv_def nd)
  then have "pending_ok env cfg key i (snd wl') ds (n, Ready r)" using sent by (cases r) auto
  moreover have "map fst ((us_pending_uploads s)[k := (n, Ready r)]) = map fst (us_pending_uploads s)"
    using nd k by (simp add: map_update list_update_same_conv)
  ultimately show ?thesis
    using parts_inv_mono [OF inv, of "snd wl'"] sent
    by (auto simp: s' parts_inv_def same_buffer_def simp del: map_update dest!: set_update_subset_insert [THEN subsetD])
qed

lemma run_parts_inv:
  assumes "parts_inv env cfg key i (snd wl) ds s" "has_http_client env cfg"
    and "run_parts (logged env) is (s, wl) = (s', wl')"
  shows "parts_inv env cfg key i (snd wl') ds s' \<and> prefix (snd wl) (snd wl') \<and> same_buffer s s'"
  using assms
proof (induction "is" arbitrary: s wl)
  case (Cons k ks)
  obtain s1 wl1 where run: "run_part (logged env) k (s, wl) = (s1, wl1)" by (rule prod.exhaust)
  note step = run_part_inv [OF Cons.prems(1,2) run]
  have "run_parts (logged env) ks (s1, wl1) = (s', wl')" using Cons.prems(3) run by (simp add: run_parts_def)
  from Cons.IH [OF _ Cons.prems(2) this] step show ?case by (auto intro: prefix_order.trans same_buffer_trans)
qed (simp add: run_parts_def)

lemma collect_parts_ok:
  assumes "collect_parts ps = (ps', cs, Inr u)" "\<forall>p \<in> set ps. pending_ok env cfg key i l ds p"
  shows "mset (map fst ps) = mset (map fst cs) + mset (map fst ps') \<and> set ps' \<subseteq> set ps \<and>
    (\<forall>(n, e) \<in> set cs. part_sent env cfg key i l n (ds ! (n - 1)) e)"
  using assms
  by (induction ps arbitrary: ps' cs rule: collect_parts.induct) (auto split: prod.splits)

lemma collect_inv:
  assumes inv: "parts_inv env cfg key i l ds s" and coll: "collect_completed_uploads s = (s', Inr u)"
  shows "parts_inv env cfg key i l ds s' \<and> same_buffer s s'"
proof -
  obtain ps cs where c: "collect_parts (us_pending_uploads s) = (ps, cs, Inr u)"
    and s': "s' = s\<lparr>us_pending_uploads := ps, us_completed_parts := us_completed_parts s @ cs\<rparr>"
    using coll by (auto simp: collect_completed_uploads_def split: prod.splits)
  have "\<forall>p \<in> set (us_pending_uploads s). pending_ok env cfg key i l ds p" using inv by (simp add: parts_inv_def)
  from collect_parts_ok [OF c this] inv show ?thesis by (auto simp: parts_inv_def s' same_buffer_def ac_simps)
qed

lemma wait_for_slot_inv:
  assumes "wait_for_slot (logged env) sch s wl = Some (s', wl', sch', Inr u)"
    "parts_inv env cfg key i (snd wl) ds s" "has_http_client env cfg"
  shows "parts_inv env cfg key i (snd wl') ds s' \<and> prefix (snd wl) (snd wl') \<and> same_buffer s s'"
  using assms
proof (induction sch arbitrary: s wl)
  case (Cons ks sch)
  show ?case
  proof (cases "get_active_upload_count s \<ge> mp_max_concurrent_parts (sc_multipart (us_config s))")
    case True
    obtain s1 wl1 where run: "run_parts (logged env) ks (s, wl) = (s1, wl1)" by (rule prod.exhaust)
    obtain s2 v where coll: "collect_completed_uploads s1 = (s2, Inr v)"
      and rec: "wait_for_slot (logged env) sch s2 wl1 = Some (s', wl', sch', Inr u)"
      using Cons.prems(1) True run by (auto split: prod.splits sum.splits)
    note step = run_parts_inv [OF Cons.prems(2,3) run]
    with Cons.IH [OF rec _ Cons.prems(3)] collect_inv [OF _ coll] show ?thesis
      by (blast intro: prefix_order.trans same_buffer_trans)
  qed (use Cons.prems in auto)
qed (auto split: if_splits)

lemma numbers_below:
  assumes "parts_inv env cfg key i l ds s" "n \<in> set (map fst (us_completed_parts s)) \<union> set (map fst (us_pending_uploads s))"
  shows "1 \<le> n" "n - 1 < length ds"
proof -
  have "n \<in># mset (map fst (us_completed_parts s)) + mset (map fst (us_pending_uploads s))" using assms(2) by auto
  moreover have "mset (map fst (us_completed_parts s)) + mset (map fst (us_pending_uploads s)) = first_numbers (length ds)"
    using assms(1) by (simp add: parts_inv_def)
  ultimately have "n \<in># first_numbers (length ds)" by (simp only:)
  then show "1 \<le> n" "n - 1 < length ds" by (auto simp: first_numbers_def)
qed

text \<open>One more part: acknowledged (\<open>cs\<close>) or pending (\<open>ps\<close>).\<close>

lemma add_part:
  assumes inv: "parts_inv env cfg key i l ds s"
    and num: "map fst cs @ map fst ps = [length ds + 1]"
    and cs: "\<forall>(n, e) \<in> set cs. part_sent env cfg key i l n d e"
    and ps: "\<forall>p \<in> set ps. pending_ok env cfg key i l (ds @ [d]) p"
  shows "parts_inv env cfg key i l (ds @ [d])
    (s\<lparr>us_completed_parts := us_completed_parts s @ cs, us_pending_uploads := us_pending_uploads s @ ps\<rparr>)"
proof -
  have old: "pending_ok env cfg key i l (ds @ [d]) p" if p: "p \<in> set (us_pending_uploads s)" for p
  proof (rule pending_ok_ext)
    show "pending_ok env cfg key i l ds p" using inv p by (simp add: parts_inv_def)
    show "fst p - 1 < length ds" by (rule numbers_below(2) [OF inv]) (use p in auto)
  qed
  have acked: "part_sent env cfg key i l n ((ds @ [d]) ! (n - 1)) e" if p: "(n, e) \<in> set (us_completed_parts s)" for n e
  proof -
    have "part_sent env cfg key i l n (ds ! (n - 1)) e" using inv p by (simp add: parts_inv_def) blast
    moreover have "n - 1 < length ds" by (rule numbers_below(2) [OF inv]) (use p in force)
    ultimately show ?thesis by (simp add: nth_append)
  qed
  have new: "part_sent env cfg key i l n ((ds @ [d]) ! (n - 1)) e" if p: "(n, e) \<in> set cs" for n e
  proof -
    have "n \<in> set (map fst cs @ map fst ps)" using p by force
    then have "n = length ds + 1" using num by simp
    then show ?thesis using cs p by (auto simp: nth_append)
  qed
  have "mset (map fst cs) + mset (map fst ps) = {#Suc (length ds)#}"
    using num by (metis One_nat_def add.right_neutral add_Suc_right mset_append mset_single_iff_right)
  then have "mset (map fst (us_completed_parts s @ cs)) + mset (map fst (us_pending_uploads s @ ps)) = first_numbers (length (ds @ [d]))"
    using inv by (simp add: parts_inv_def first_numbers_Suc ac_simps)
  then show ?thesis using inv old acked new ps by (auto simp: parts_inv_def)
qed

lemma flush_partE:
  assumes "flush_part env sch s w = Some (s', w', sch', Inr u)"
  obtains ks sch1 s1 w1 s2 w2 v s3 v' where "sch = ks # sch1" "run_parts env ks (s, w) = (s1, w1)"
    "wait_for_slot env sch1 s1 w1 = Some (s2, w2, sch', Inr v)" "collect_completed_uploads s2 = (s3, Inr v')"
    "s' = upload_part_async s3" "w' = w2"
  using assms by (fastforce simp: flush_part_def split: list.splits prod.splits option.splits sum.splits)

lemma flush_part_inv:
  assumes flush: "flush_part (logged env) sch s wl = Some (s', wl', sch', Inr u)"
    and inv: "stream_inv env cfg key i (snd wl) ds s" and client: "has_http_client env cfg" and full: "buffer_full s"
  shows "stream_inv env cfg key i (snd wl') (ds @ [us_part_buffer s]) s' \<and> prefix (snd wl) (snd wl') \<and> us_part_buffer s' = []"
proof -
  obtain ks sch1 s1 wl1 s2 wl2 v s3 v' where run: "sch = ks # sch1" "run_parts (logged env) ks (s, wl) = (s1, wl1)"
    and slot: "wait_for_slot (logged env) sch1 s1 wl1 = Some (s2, wl2, sch', Inr v)"
    and coll: "collect_completed_uploads s2 = (s3, Inr v')" and s': "s' = upload_part_async s3" "wl' = wl2"
    using flush by (rule flush_partE)
  note r = run_parts_inv [OF stream_inv_parts [OF inv] client run(2)]
  note w = wait_for_slot_inv [OF slot conjunct1 [OF r] client]
  note c = collect_inv [OF conjunct1 [OF w] coll]
  have pre: "prefix (snd wl) (snd wl2)" using r w by (auto intro: prefix_order.trans)
  have buf: "same_buffer s s3" using r w c by (auto intro: same_buffer_trans)
  have len: "length (us_part_buffer s) = unat (mp_part_size (sc_multipart cfg))"
    using inv full by (simp add: stream_inv_def parts_inv_def buffer_full_def)
  have "parts_inv env cfg key i (snd wl2) (ds @ [us_part_buffer s]) s'"
    using add_part [where d = "us_part_buffer s" and cs = "[]" and ps = "[(us_current_part_number s, Running (us_part_buffer s))]",
        OF conjunct1 [OF c]] buf inv
    by (simp add: s' upload_part_async_def same_buffer_def stream_inv_def parts_inv_def)
  then show ?thesis
    using inv pre buf len by (auto simp: stream_inv_def s' upload_part_async_def same_buffer_def)
qed

lemma fill_buffer_inv:
  assumes "stream_inv env cfg key i l ds s"
  shows "stream_inv env cfg key i l ds (fill_buffer data s)"
    and "us_part_buffer (fill_buffer data s) @ left_over data s = us_part_buffer s @ data"
  using assms by (auto simp: stream_inv_def parts_inv_def fill_buffer_def left_over_def)

lemma upload_write_loop_inv:
  assumes "upload_write_loop (logged env) sch data s wl = Some (s', wl', sch', Inr u)"
    "stream_inv env cfg key i (snd wl) ds s" "has_http_client env cfg"
  shows "\<exists>es. stream_inv env cfg key i (snd wl') (ds @ es) s' \<and> prefix (snd wl) (snd wl') \<and>
    concat es @ us_part_buffer s' = us_part_buffer s @ data"
  using assms
proof (induction "logged env" sch data s wl arbitrary: ds rule: upload_write_loop.induct)
  case (1 sch data s wl)
  let ?f = "fill_buffer data s" and ?r = "left_over data s"
  show ?case
  proof (cases "data = []")
    case True
    with "1.prems" show ?thesis by (auto simp: upload_write_loop.simps intro: exI [of _ "[]"])
  next
    case False
    note fill = fill_buffer_inv [OF "1.prems"(2), of data]
    show ?thesis
    proof (cases "buffer_full ?f")
      case True
      obtain s1 wl1 sch1 v where flush: "flush_part (logged env) sch ?f wl = Some (s1, wl1, sch1, Inr v)"
        and rec: "upload_write_loop (logged env) sch1 ?r s1 wl1 = Some (s', wl', sch', Inr u)"
        using "1.prems"(1) False True
        by (subst (asm) upload_write_loop.simps) (fastforce simp: Let_def split: option.splits sum.splits)
      note step = flush_part_inv [OF flush fill(1) "1.prems"(3) True]
      obtain es where "stream_inv env cfg key i (snd wl') ((ds @ [us_part_buffer ?f]) @ es) s'" "prefix (snd wl1) (snd wl')"
        "concat es @ us_part_buffer s' = us_part_buffer s1 @ ?r"
        using "1.hyps"(1) [OF False refl refl True flush refl refl refl refl rec _ "1.prems"(3)] step by blast
      with step fill(2) show ?thesis by (intro exI [of _ "us_part_buffer ?f # es"]) (auto intro: prefix_order.trans)
    next
      case notfull: False
      have "upload_write_loop (logged env) sch ?r ?f wl = Some (s', wl', sch', Inr u)"
        using "1.prems"(1) False notfull by (subst (asm) upload_write_loop.simps) (simp add: Let_def)
      from "1.hyps"(2) [OF False refl refl notfull this fill(1) "1.prems"(3)] fill(2) show ?thesis by auto
    qed
  qed
qed

text \<open>A client that opens a stream, writes until a call fails, and finalizes.\<close>

fun write_all :: "'w cloud_env \<Rightarrow> (schedule \<times> bytes) list \<Rightarrow> s3_upload_stream \<Rightarrow> 'w \<Rightarrow> (s3_upload_stream \<times> 'w) option" where
  "write_all env [] s w = Some (s, w)"
| "write_all env ((sch, d) # ws) s w =
     (case upload_write env sch d s w of
        Some (s, w, _, Inr _) \<Rightarrow> write_all env ws s w
      | _ \<Rightarrow> None)"

lemma stream_inv_bytes_written [simp]:
  "stream_inv env cfg key i l ds (s\<lparr>us_bytes_written := n\<rparr>) = stream_inv env cfg key i l ds s"
  by (simp add: stream_inv_def parts_inv_def)

lemma write_all_inv:
  assumes "write_all (logged env) ws s wl = Some (s', wl')" "stream_inv env cfg key i (snd wl) ds s" "has_http_client env cfg"
  shows "\<exists>es. stream_inv env cfg key i (snd wl') (ds @ es) s' \<and> prefix (snd wl) (snd wl') \<and>
    concat es @ us_part_buffer s' = us_part_buffer s @ concat (map snd ws)"
  using assms
proof (induction "logged env" ws s wl arbitrary: ds rule: write_all.induct)
  case (2 sch d ws s wl)
  obtain s1 wl1 sch1 n where wr: "upload_write (logged env) sch d s wl = Some (s1, wl1, sch1, Inr n)"
    and rec: "write_all (logged env) ws s1 wl1 = Some (s', wl')"
    using "2.prems"(1) by (auto split: option.splits prod.splits sum.splits)
  obtain s2 u where loop: "upload_write_loop (logged env) sch d s wl = Some (s2, wl1, sch1, Inr u)"
    and s1: "s1 = s2\<lparr>us_bytes_written := us_bytes_written s2 + word_of_nat (length d)\<rparr>"
    using wr by (auto simp: upload_write_def split: if_splits option.splits prod.splits sum.splits)
  obtain es where es: "stream_inv env cfg key i (snd wl1) (ds @ es) s2" "prefix (snd wl) (snd wl1)"
    "concat es @ us_part_buffer s2 = us_part_buffer s @ d"
    using upload_write_loop_inv [OF loop "2.prems"(2,3)] by blast
  then obtain fs where "stream_inv env cfg key i (snd wl') ((ds @ es) @ fs) s'" "prefix (snd wl1) (snd wl')"
    "concat fs @ us_part_buffer s' = us_part_buffer s1 @ concat (map snd ws)"
    using "2.hyps" [OF wr refl refl refl refl rec _ "2.prems"(3), of "ds @ es"] by (auto simp: s1)
  with es show ?case by (intro exI [of _ "es @ fs"]) (auto simp: s1 intro: prefix_order.trans)
qed (auto intro: exI [of _ "[]"])

lemma open_stream_inv:
  assumes "open_upload_stream (logged env) key cfg wl = (s, wl')"
  shows "stream_inv env cfg key (us_upload_id s) (snd wl') [] s \<and> us_part_buffer s = []"
proof -
  have "us_config s = cfg \<and> us_key s = key \<and> \<not> us_finalized s \<and> \<not> us_aborted s \<and> us_current_part_number s = 1 \<and>
    us_completed_parts s = [] \<and> us_pending_uploads s = [] \<and> us_part_buffer s = []"
    using assms
    by (auto simp: open_upload_stream_def initiate_multipart_upload_def simulate_initiate_def new_upload_stream_def Let_def
        split: prod.splits if_splits option.splits)
  then show ?thesis by (simp add: stream_inv_def parts_inv_def first_numbers_def)
qed

section \<open>A small service\<close>

text \<open>For the witnesses: a service that accepts every request, and parts of two bytes, one at a time.\<close>

definition toy_cloud :: "unit cloud_env" where
  "toy_cloud =
     \<lparr>ce_network = True, ce_encryption = True,
      ce_http = (\<lambda>rq w. (w, Some \<lparr>rs_status = 200, rs_get_header = (\<lambda>h. None), rs_body = text_bytes ''<UploadId>u</UploadId>''\<rparr>)),
      ce_now = (\<lambda>w. (w, 0)), ce_random = (\<lambda>n w. (w, replicate n 0)), ce_credentials = (\<lambda>w. None),
      ce_sha256 = (\<lambda>d. []), ce_hmac_sha256 = (\<lambda>k d. [])\<rparr>"

definition toy_config :: s3_config where
  "toy_config = default_s3_config
     \<lparr>sc_bucket := ''b'', sc_endpoint := Some ''http://h'',
      sc_multipart := default_multipart_config\<lparr>mp_part_size := 2, mp_max_concurrent_parts := 1\<rparr>\<rparr>"

lemma toy_config_simps [simp]:
  "sc_multipart toy_config = default_multipart_config\<lparr>mp_part_size := 2, mp_max_concurrent_parts := 1\<rparr>"
  "sc_endpoint toy_config = Some ''http://h''"
  by (simp_all add: toy_config_def)

section \<open>What finalize sends\<close>

lemma wait_parts_sent:
  assumes "wait_parts (logged env) s ps wl = (ps', cs, wl', Inr u)" "has_http_client env (us_config s)"
    "\<forall>p \<in> set ps. pending_ok env (us_config s) (us_key s) (us_upload_id s) (snd wl) ds p"
  shows "prefix (snd wl) (snd wl') \<and> map fst cs = map fst ps \<and>
    (\<forall>(n, e) \<in> set cs. part_sent env (us_config s) (us_key s) (us_upload_id s) (snd wl') n (ds ! (n - 1)) e)"
  using assms
proof (induction ps arbitrary: ps' cs wl)
  case (Cons p ps)
  obtain n f where p: "p = (n, f)" by (rule prod.exhaust)
  let ?sent = "\<lambda>wl n d e. part_sent env (us_config s) (us_key s) (us_upload_id s) (snd wl) n d e"
  obtain wl1 e ps1 cs1 where rec: "wait_parts (logged env) s ps wl1 = (ps1, cs1, wl', Inr u)" and cs: "cs = (n, e) # cs1"
    and first: "prefix (snd wl) (snd wl1)" "?sent wl1 n (ds ! (n - 1)) e"
  proof (cases f)
    case (Running d)
    obtain wl1 e where up: "upload_part (logged env) (us_config s) (us_key s) (us_upload_id s) n d wl = (wl1, Inr e)"
      using Cons.prems(1) p Running by (auto split: prod.splits sum.splits)
    with that [of wl1] Cons.prems p Running upload_part_sent [OF up Cons.prems(2)] show thesis
      by (auto simp del: split_paired_All split_paired_Ex split: prod.splits)
  next
    case (Ready r)
    with Cons.prems p obtain e where "r = Inr e" by (auto split: sum.splits)
    with that [of wl] Cons.prems p Ready show thesis by (auto split: prod.splits)
  qed (use Cons.prems p in auto)
  have "\<forall>p \<in> set ps. pending_ok env (us_config s) (us_key s) (us_upload_id s) (snd wl1) ds p"
    using Cons.prems(3) first(1) by (auto intro: pending_ok_mono)
  from Cons.IH [OF rec Cons.prems(2) this] first cs p show ?case
    by (auto intro: prefix_order.trans part_sent_mono)
qed simp

lemma wait_all_sent:
  assumes inv: "parts_inv env cfg key i (snd wl) ds s" and client: "has_http_client env cfg"
    and wait: "wait_all_uploads (logged env) s wl = (s', wl', Inr u)"
  shows "prefix (snd wl) (snd wl') \<and> mset (map fst (us_completed_parts s')) = first_numbers (length ds) \<and>
    (\<forall>(n, e) \<in> set (us_completed_parts s'). part_sent env cfg key i (snd wl') n (ds ! (n - 1)) e) \<and>
    us_config s' = cfg \<and> us_key s' = key \<and> us_upload_id s' = i"
proof -
  obtain ps cs where w: "wait_parts (logged env) s (us_pending_uploads s) wl = (ps, cs, wl', Inr u)"
    and s': "s' = s\<lparr>us_pending_uploads := [], us_completed_parts := us_completed_parts s @ cs\<rparr>"
    using wait by (auto simp: wait_all_uploads_def split: prod.splits sum.splits)
  have c: "us_config s = cfg" "us_key s = key" "us_upload_id s = i" using inv by (auto simp: parts_inv_def)
  have ok: "\<forall>p \<in> set (us_pending_uploads s). pending_ok env cfg key i (snd wl) ds p" using inv by (simp add: parts_inv_def)
  note sent = wait_parts_sent [OF w, unfolded c, OF client ok]
  then show ?thesis
    using inv by (auto simp: s' parts_inv_def simp flip: mset_map intro: part_sent_mono)
qed

lemma sort_by_number:
  assumes "mset (map fst cs) = first_numbers k"
  shows "sort_key fst cs = zip [1..<k + 1] (map snd (sort_key fst cs))" "length (sort_key fst cs) = k"
proof -
  have "sort (map fst cs) = [1..<k + 1]"
    using assms by (intro properties_for_sort) (simp_all only: first_numbers_def sorted_upt)
  then have "map fst (sort_key fst cs) = [1..<k + 1]"
    by (metis sort_key_def sorted_sort_key properties_for_sort mset_map mset_sort)
  then show "sort_key fst cs = zip [1..<k + 1] (map snd (sort_key fst cs))" by (metis zip_map_fst_snd)
  show "length (sort_key fst cs) = k"
    using arg_cong [OF assms, of size] by (simp add: first_numbers_def flip: size_mset)
qed

text \<open>The data of the parts: all but the last have the part size.\<close>

definition cut_in_parts :: "nat \<Rightarrow> bytes list \<Rightarrow> bool" where
  "cut_in_parts n ds \<longleftrightarrow> (\<forall>d \<in> set (butlast ds). length d = n) \<and> (\<forall>d \<in> set ds. length d \<le> n)"

definition complete_sent ::
  "s3_config \<Rightarrow> string \<Rightarrow> string \<Rightarrow> string list \<Rightarrow> exchange \<Rightarrow> bool" where
  "complete_sent cfg key i es x \<longleftrightarrow>
     rq_method (fst x) = ''POST'' \<and>
     rq_url (fst x) = build_s3_url (s3_host cfg) (sc_use_ssl cfg) (s3_path cfg key) (''uploadId='' @ i) \<and>
     rq_body (fst x) = text_bytes (build_complete_multipart_xml (zip [1..<length es + 1] es)) \<and>
     (\<forall>r. snd x = Some r \<longrightarrow> rs_status r = 200)"

lemma complete_lists_parts:
  assumes "complete_multipart_upload (logged env) s wl = (s', wl', Inr res)" "has_http_client env (us_config s)"
    and numbers: "mset (map fst (us_completed_parts s)) = first_numbers k"
  shows "prefix (snd wl) (snd wl') \<and> snd wl' \<noteq> [] \<and>
    complete_sent (us_config s) (us_key s) (us_upload_id s) (map snd (sort_key fst (us_completed_parts s))) (last (snd wl'))"
proof -
  let ?cs = "sort_key fst (us_completed_parts s)"
  have cs: "zip [1..<length (map snd ?cs) + 1] (map snd ?cs) = ?cs"
    using sort_by_number [OF numbers] by simp
  obtain wl1 rq a where rq: "signed_request (logged env) (us_config s) ''POST'' (s3_path (us_config s) (us_key s))
      (''uploadId='' @ us_upload_id s) (payload_hash_of env (text_bytes (build_complete_multipart_xml ?cs)))
      [(''Content-Type'', ''application/xml''), (''Content-Length'', dec_digits (length (build_complete_multipart_xml ?cs)))]
      (text_bytes (build_complete_multipart_xml ?cs)) wl = (wl1, rq)"
    and http: "ce_http (logged env) rq wl1 = (wl', a)" and ok: "\<forall>r. a = Some r \<longrightarrow> rs_status r = 200"
    using assms(1,2) by (auto simp: complete_multipart_upload_def Let_def split: prod.splits option.splits if_splits)
  show ?thesis
    using logged_request [OF rq] logged_http [OF http] ok unfolding complete_sent_def cs by simp
qed

text \<open>C32: when a client with a connection has written its data to a stream and \<open>finalize\<close> returns a result, the data was
  cut into parts of the configured size (the last may be shorter), each part was sent to the address of its number
  and accounted for, and the last request of the stream lists exactly these parts, numbered from 1 in the
  order of the data, with the entity tags they were accounted for with, whatever order the uploads finished in.
\<close>

theorem finished_upload_lists_every_part:
  assumes client: "has_http_client env cfg"
    and opened: "open_upload_stream (logged env) key cfg (w, []) = (s0, wl0)"
    and written: "write_all (logged env) ws s0 wl0 = Some (s1, wl1)"
    and finished: "upload_finalize (logged env) is s1 wl1 = (s2, (w', hist), Inr res)"
  shows "\<exists>ds es. concat ds = concat (map snd ws) \<and> length es = length ds \<and>
    cut_in_parts (unat (mp_part_size (sc_multipart cfg))) ds \<and>
    (\<forall>k < length ds. part_sent env cfg key (us_upload_id s0) hist (k + 1) (ds ! k) (es ! k)) \<and>
    hist \<noteq> [] \<and> complete_sent cfg key (us_upload_id s0) es (last hist)"
proof -
  let ?i = "us_upload_id s0"
  obtain ds where inv: "stream_inv env cfg key ?i (snd wl1) ds s1" and data: "concat ds @ us_part_buffer s1 = concat (map snd ws)"
    using write_all_inv [OF written] open_stream_inv [OF opened] client by fastforce
  have sizes: "\<forall>d \<in> set ds. length d = unat (mp_part_size (sc_multipart cfg))"
    "length (us_part_buffer s1) \<le> unat (mp_part_size (sc_multipart cfg))" using inv by (simp_all add: stream_inv_def)
  have cfg: "us_config s1 = cfg" "us_key s1 = key" "us_upload_id s1 = ?i" "us_current_part_number s1 = length ds + 1"
    "\<not> us_finalized s1" "\<not> us_aborted s1" using inv by (auto simp: stream_inv_def parts_inv_def)
  obtain s3 wl3 where last: "(if us_part_buffer s1 = [] then s3 = s1 \<and> wl3 = wl1
      else \<exists>e. upload_part (logged env) cfg key ?i (length ds + 1) (us_part_buffer s1) wl1 = (wl3, Inr e) \<and>
        s3 = s1\<lparr>us_completed_parts := us_completed_parts s1 @ [(length ds + 1, e)]\<rparr>)"
    and rest: "\<exists>s4 wl4 s5 wl5 u. run_parts (logged env) is (s3, wl3) = (s4, wl4) \<and>
      wait_all_uploads (logged env) s4 wl4 = (s5, wl5, Inr u) \<and>
      complete_multipart_upload (logged env) (s5\<lparr>us_finalized := True\<rparr>) wl5 = (s2, (w', hist), Inr res)"
    using finished cfg
    by (auto simp: upload_finalize_def simp del: split_paired_All split_paired_Ex split: prod.splits sum.splits if_splits)
  define es where "es = ds @ (if us_part_buffer s1 = [] then [] else [us_part_buffer s1])"
  have inv3: "parts_inv env cfg key ?i (snd wl3) es s3"
  proof (cases "us_part_buffer s1 = []")
    case False
    then obtain e where up: "upload_part (logged env) cfg key ?i (length ds + 1) (us_part_buffer s1) wl1 = (wl3, Inr e)"
      and s3: "s3 = s1\<lparr>us_completed_parts := us_completed_parts s1 @ [(length ds + 1, e)]\<rparr>" using last by auto
    from add_part [OF parts_inv_mono [OF stream_inv_parts [OF inv]], of "snd wl3" "[(length ds + 1, e)]" "[]"]
    show ?thesis using upload_part_sent [OF up client] False by (simp add: s3 es_def)
  qed (use last inv in \<open>simp add: es_def stream_inv_def\<close>)
  obtain s4 wl4 s5 wl5 u where run: "run_parts (logged env) is (s3, wl3) = (s4, wl4)"
    and wait: "wait_all_uploads (logged env) s4 wl4 = (s5, wl5, Inr u)"
    and compl: "complete_multipart_upload (logged env) (s5\<lparr>us_finalized := True\<rparr>) wl5 = (s2, (w', hist), Inr res)"
    using rest by blast
  note sent = wait_all_sent [OF conjunct1 [OF run_parts_inv [OF inv3 client run]] client wait]
  let ?cs = "sort_key fst (us_completed_parts s5)"
  have compl': "prefix (snd wl5) hist \<and> hist \<noteq> [] \<and> complete_sent cfg key ?i (map snd ?cs) (last hist)"
    using complete_lists_parts [OF compl, of "length es"] sent client by simp
  have sort: "?cs = zip [1..<length es + 1] (map snd ?cs)" "length ?cs = length es"
    using sort_by_number [of "us_completed_parts s5" "length es"] sent by auto
  have "part_sent env cfg key ?i hist (k + 1) (es ! k) (map snd ?cs ! k)" if "k < length es" for k
  proof -
    have "?cs ! k = (k + 1, map snd ?cs ! k)" using that sort by (metis add.commute length_map length_upt add_diff_cancel_right' nth_upt nth_zip less_diff_conv)
    then have "(k + 1, map snd ?cs ! k) \<in> set (us_completed_parts s5)" using that sort(2) by (metis nth_mem set_sort)
    then show ?thesis using sent compl' by (fastforce intro: part_sent_mono)
  qed
  moreover have "cut_in_parts (unat (mp_part_size (sc_multipart cfg))) es"
    using sizes by (auto simp: cut_in_parts_def es_def butlast_append dest: in_set_butlastD)
  ultimately show ?thesis
    using compl' data sort(2) by (intro exI [of _ es] exI [of _ "map snd ?cs"]) (auto simp: es_def)
qed

lemma toy_client: "has_http_client toy_cloud toy_config"
  by (simp add: has_http_client_def toy_cloud_def)

section \<open>When write returns\<close>

lemma run_part_frame:
  assumes "run_part env i (s, w) = (s', w')"
  shows "us_config s' = us_config s \<and> length (us_pending_uploads s') = length (us_pending_uploads s) \<and>
    us_part_buffer s' = us_part_buffer s \<and>
    (us_pending_uploads s \<noteq> [] \<and> (i = 0 \<or> \<not> is_running (us_pending_uploads s ! 0)) \<longrightarrow> \<not> is_running (us_pending_uploads s' ! 0))"
proof (cases "i < length (us_pending_uploads s)")
  case True
  obtain n f where nf: "us_pending_uploads s ! i = (n, f)" by (rule prod.exhaust)
  show ?thesis
  proof (cases f)
    case (Running d)
    then obtain r where "s' = s\<lparr>us_pending_uploads := (us_pending_uploads s)[i := (n, Ready r)]\<rparr>"
      using assms True nf by (auto simp: run_part_def split: prod.splits)
    then show ?thesis using True by (cases i) auto
  qed (use assms True nf in \<open>auto simp: run_part_def elim: is_running.elims\<close>)
qed (use assms in \<open>auto simp: run_part_def\<close>)

lemma run_parts_frame:
  assumes "run_parts env is (s, w) = (s', w')"
  shows "us_config s' = us_config s \<and> length (us_pending_uploads s') = length (us_pending_uploads s) \<and>
    us_part_buffer s' = us_part_buffer s \<and>
    (us_pending_uploads s \<noteq> [] \<and> (0 \<in> set is \<or> \<not> is_running (us_pending_uploads s ! 0)) \<longrightarrow> \<not> is_running (us_pending_uploads s' ! 0))"
  using assms
proof (induction "is" arbitrary: s w)
  case (Cons k ks)
  obtain s1 w1 where run: "run_part env k (s, w) = (s1, w1)" by (rule prod.exhaust)
  have "run_parts env ks (s1, w1) = (s', w')" using Cons.prems run by (simp add: run_parts_def)
  from Cons.IH [OF this] run_part_frame [OF run] show ?case by (auto simp flip: length_greater_0_conv)
qed (simp add: run_parts_def)

lemma collect_parts_length:
  "collect_parts ps = (ps', cs, r) \<Longrightarrow> length ps' \<le> length ps"
  by (induction ps arbitrary: ps' cs rule: collect_parts.induct) (auto split: prod.splits intro: le_SucI)

lemma collect_parts_shorter:
  "collect_parts ps = (ps', cs, Inr u) \<Longrightarrow> ps \<noteq> [] \<Longrightarrow> \<not> is_running (ps ! 0) \<Longrightarrow> length ps' < length ps"
  by (cases ps rule: collect_parts.cases) (auto split: prod.splits dest: collect_parts_length)

lemma collect_frame:
  assumes "collect_completed_uploads s = (s', r)"
  shows "us_config s' = us_config s \<and> length (us_pending_uploads s') \<le> length (us_pending_uploads s) \<and>
    us_part_buffer s' = us_part_buffer s \<and>
    (r = Inr u \<and> us_pending_uploads s \<noteq> [] \<and> \<not> is_running (us_pending_uploads s ! 0) \<longrightarrow>
       length (us_pending_uploads s') < length (us_pending_uploads s))"
  using assms
  by (auto simp: collect_completed_uploads_def dest: collect_parts_length collect_parts_shorter split: prod.splits)

definition fair_schedule :: "schedule \<Rightarrow> bool" where
  "fair_schedule sch \<longleftrightarrow> (\<forall>is \<in> set sch. 0 \<in> set is)"

lemma fair_schedule_simps [simp]: "fair_schedule []" "fair_schedule (is # sch) \<longleftrightarrow> 0 \<in> set is \<and> fair_schedule sch"
  by (auto simp: fair_schedule_def)

abbreviation max_parts :: "s3_upload_stream \<Rightarrow> nat" where
  "max_parts s \<equiv> mp_max_concurrent_parts (sc_multipart (us_config s))"

abbreviation part_size_of :: "s3_upload_stream \<Rightarrow> nat" where
  "part_size_of s \<equiv> unat (mp_part_size (sc_multipart (us_config s)))"

lemma wait_for_slot_returns:
  assumes "fair_schedule sch" "max_parts s > 0" "length sch \<ge> length (us_pending_uploads s)"
  shows "\<exists>s' w' sch' r. wait_for_slot env sch s w = Some (s', w', sch', r) \<and> us_config s' = us_config s \<and>
    us_part_buffer s' = us_part_buffer s \<and> fair_schedule sch' \<and>
    (\<not> isl r \<longrightarrow> length sch' + length (us_pending_uploads s) \<ge> length sch + length (us_pending_uploads s'))"
  using assms
proof (induction sch arbitrary: s w)
  case Nil
  then show ?case by (auto simp: get_active_upload_count_def)
next
  case (Cons ks sch)
  show ?case
  proof (cases "get_active_upload_count s \<ge> max_parts s")
    case True
    have ne: "us_pending_uploads s \<noteq> []" using True Cons.prems(2) by (auto simp: get_active_upload_count_def)
    obtain s1 w1 s2 r where run: "run_parts env ks (s, w) = (s1, w1)" and coll: "collect_completed_uploads s1 = (s2, r)"
      by (metis prod.exhaust)
    note frame = run_parts_frame [OF run] collect_frame [OF coll]
    show ?thesis
    proof (cases r)
      case (Inl e)
      then show ?thesis using True run coll frame Cons.prems by simp
    next
      case (Inr u)
      have "length (us_pending_uploads s2) < length (us_pending_uploads s)"
        using frame(1) frame(2) [of u] ne Cons.prems(1) Inr by (auto simp flip: length_greater_0_conv)
      then show ?thesis
        using Cons.IH [of s2 w1] True run coll frame Inr Cons.prems by fastforce
    qed
  qed (use Cons.prems in auto)
qed

lemma flush_part_returns:
  assumes fair: "fair_schedule sch" and slots: "max_parts s > 0" and len: "length sch > length (us_pending_uploads s)"
  shows "\<exists>s' w' sch' r. flush_part env sch s w = Some (s', w', sch', r) \<and> us_config s' = us_config s \<and> fair_schedule sch' \<and>
    (\<not> isl r \<longrightarrow> us_part_buffer s' = [] \<and>
       length sch' + length (us_pending_uploads s) + 2 \<ge> length sch + length (us_pending_uploads s'))"
proof -
  obtain ks sch1 where sch: "sch = ks # sch1" using len by (cases sch) auto
  obtain s1 w1 where run: "run_parts env ks (s, w) = (s1, w1)" by (rule prod.exhaust)
  note frame = run_parts_frame [OF run]
  obtain s2 w2 sch2 r where slot: "wait_for_slot env sch1 s1 w1 = Some (s2, w2, sch2, r)" "us_config s2 = us_config s"
      "fair_schedule sch2" "\<not> isl r \<longrightarrow> length sch2 + length (us_pending_uploads s1) \<ge> length sch1 + length (us_pending_uploads s2)"
    using wait_for_slot_returns [of sch1 s1 env w1] fair slots len frame sch by auto
  show ?thesis
  proof (cases r)
    case (Inl e)
    then show ?thesis using slot by (simp add: flush_part_def sch run)
  next
    case (Inr u)
    obtain s3 q where coll: "collect_completed_uploads s2 = (s3, q)" by (rule prod.exhaust)
    show ?thesis
      using slot frame collect_frame [OF coll] Inr
      by (cases q) (auto simp: flush_part_def sch run coll upload_part_async_def)
  qed
qed

lemma wait_for_slot_config: "wait_for_slot env sch s w = Some (s', w', sch', r) \<Longrightarrow> us_config s' = us_config s"
proof (induction sch arbitrary: s w)
  case (Cons ks sch)
  obtain s1 w1 s2 q where run: "run_parts env ks (s, w) = (s1, w1)" "collect_completed_uploads s1 = (s2, q)"
    by (metis prod.exhaust)
  then show ?case
    using Cons.IH [of s2 w1] Cons.prems run_parts_frame [OF run(1)] collect_frame [OF run(2)]
    by (cases q) (auto split: if_splits)
qed (auto split: if_splits)

lemma flush_part_config: "flush_part env sch s w = Some (s', w', sch', Inr u) \<Longrightarrow> us_config s' = us_config s"
  by (erule flush_partE) (auto simp: upload_part_async_def dest!: run_parts_frame wait_for_slot_config collect_frame)

text \<open>The number of times the buffer fills up.\<close>

definition flushes :: "s3_upload_stream \<Rightarrow> bytes \<Rightarrow> nat" where
  "flushes s data = (length (us_part_buffer s) + length data) div part_size_of s"

lemma upload_write_loop_returns:
  assumes "fair_schedule sch" "max_parts s > 0" "part_size_of s > 0" "length (us_part_buffer s) < part_size_of s"
    "length sch \<ge> length (us_pending_uploads s) + 2 * flushes s data"
  shows "upload_write_loop env sch data s w \<noteq> None"
  using assms
proof (induction env sch data s w rule: upload_write_loop.induct)
  case (1 env sch data s w)
  let ?f = "fill_buffer data s" and ?r = "left_over data s"
  show ?case
  proof (cases "data = [] \<or> \<not> buffer_full ?f")
    case True
    have "?r = []" if "\<not> buffer_full ?f"
      using that by (auto simp: buffer_full_def fill_buffer_def left_over_def split: if_splits)
    then show ?thesis using True by (subst upload_write_loop.simps) (auto simp: Let_def upload_write_loop.simps [of _ _ "[]"])
  next
    case False
    have frame: "us_config ?f = us_config s" "us_pending_uploads ?f = us_pending_uploads s" by (simp_all add: fill_buffer_def)
    have len: "length (us_part_buffer s) + length data = part_size_of s + length ?r"
      using False "1.prems"(4) by (auto simp: buffer_full_def fill_buffer_def left_over_def)
    then have n: "flushes s data = Suc (length ?r div part_size_of s)" using "1.prems"(3) by (simp add: flushes_def)
    obtain s1 w1 sch1 r where flush: "flush_part env sch ?f w = Some (s1, w1, sch1, r)" "us_config s1 = us_config s"
        "fair_schedule sch1"
        "\<not> isl r \<longrightarrow> us_part_buffer s1 = [] \<and> length sch1 + length (us_pending_uploads s) + 2 \<ge> length sch + length (us_pending_uploads s1)"
      using flush_part_returns [of sch ?f env w] "1.prems" n frame by auto
    show ?thesis
    proof (cases r)
      case (Inl e)
      then show ?thesis using False flush(1) by (subst upload_write_loop.simps) (simp add: Let_def)
    next
      case (Inr u)
      have "upload_write_loop env sch1 ?r s1 w1 \<noteq> None"
        using "1.IH"(1) [of ?f ?r "(s1, w1, sch1, r)" s1 "(w1, sch1, r)" w1 "(sch1, r)" sch1 r u] False flush Inr "1.prems" n
        by (auto simp: flushes_def)
      then show ?thesis using False flush(1) Inr by (subst upload_write_loop.simps) (simp add: Let_def)
    qed
  qed
qed

text \<open>A service that takes every part, and a stream none of whose parts has failed.\<close>

definition accepts_parts :: "'w cloud_env \<Rightarrow> bool" where
  "accepts_parts env \<longleftrightarrow> (\<forall>cfg key i n d w. \<not> isl (snd (upload_part env cfg key i n d w)))"

fun part_failed :: "pending_part \<Rightarrow> bool" where
  "part_failed (n, Ready (Inl e)) = True"
| "part_failed _ = False"

definition none_failed :: "s3_upload_stream \<Rightarrow> bool" where
  "none_failed s \<longleftrightarrow> (\<forall>p \<in> set (us_pending_uploads s). \<not> part_failed p)"

lemma accepted: "accepts_parts env \<Longrightarrow> \<exists>w' e. upload_part env cfg key i n d w = (w', Inr e)"
  unfolding accepts_parts_def by (metis isl_def prod.collapse sum.collapse(2))

lemma run_part_none_failed:
  assumes "accepts_parts env" "none_failed s" "run_part env i (s, w) = (s', w')"
  shows "none_failed s'"
proof (cases "i < length (us_pending_uploads s) \<and> is_running (us_pending_uploads s ! i)")
  case True
  then obtain n d where nd: "us_pending_uploads s ! i = (n, Running d)" by (auto elim: is_running.elims)
  obtain w1 e where "upload_part env (us_config s) (us_key s) (us_upload_id s) n d w = (w1, Inr e)"
    using accepted [OF assms(1)] by blast
  then show ?thesis
    using assms(2,3) True nd by (auto simp: run_part_def none_failed_def dest!: set_update_subset_insert [THEN subsetD])
qed (use assms in \<open>auto simp: run_part_def split: if_splits prod.splits part_future.splits\<close>)

lemma run_parts_none_failed:
  assumes "accepts_parts env" "none_failed s" "run_parts env is (s, w) = (s', w')"
  shows "none_failed s'"
  using assms
proof (induction "is" arbitrary: s w)
  case (Cons k ks)
  obtain s1 w1 where run: "run_part env k (s, w) = (s1, w1)" by (rule prod.exhaust)
  have "run_parts env ks (s1, w1) = (s', w')" using Cons.prems(3) run by (simp add: run_parts_def)
  with Cons.IH Cons.prems(1) run_part_none_failed [OF Cons.prems(1,2) run] show ?case by blast
qed (simp add: run_parts_def)

lemma collect_parts_none_failed:
  "collect_parts ps = (ps', cs, r) \<Longrightarrow> \<forall>p \<in> set ps. \<not> part_failed p \<Longrightarrow> r = Inr () \<and> set ps' \<subseteq> set ps"
  by (induction ps arbitrary: ps' cs rule: collect_parts.induct) (auto split: prod.splits)

lemma collect_none_failed:
  assumes "collect_completed_uploads s = (s', r)" "none_failed s"
  shows "r = Inr () \<and> none_failed s'"
  using assms by (auto simp: collect_completed_uploads_def none_failed_def split: prod.splits dest!: collect_parts_none_failed)

lemma wait_for_slot_none_failed:
  assumes "accepts_parts env" "none_failed s" "wait_for_slot env sch s w = Some (s', w', sch', r)"
  shows "r = Inr () \<and> none_failed s'"
  using assms
proof (induction sch arbitrary: s w)
  case (Cons ks sch)
  obtain s1 w1 s2 q where run: "run_parts env ks (s, w) = (s1, w1)" and coll: "collect_completed_uploads s1 = (s2, q)"
    by (metis prod.exhaust)
  have "q = Inr () \<and> none_failed s2" using collect_none_failed [OF coll run_parts_none_failed [OF Cons.prems(1,2) run]] .
  then show ?case using Cons run coll by (auto split: if_splits)
qed (auto split: if_splits)

lemma flush_part_none_failed:
  assumes acc: "accepts_parts env" and ok: "none_failed s" and flush: "flush_part env sch s w = Some (s', w', sch', r)"
  shows "r = Inr () \<and> none_failed s'"
proof -
  obtain ks sch1 s1 w1 where sch: "sch = ks # sch1" and run: "run_parts env ks (s, w) = (s1, w1)"
    using flush by (cases sch) (auto simp: flush_part_def intro: prod.exhaust)
  obtain s2 w2 sch2 q where slot: "wait_for_slot env sch1 s1 w1 = Some (s2, w2, sch2, q)"
    using flush sch run by (auto simp: flush_part_def split: option.splits)
  note q = wait_for_slot_none_failed [OF acc run_parts_none_failed [OF acc ok run] slot]
  obtain s3 q' where coll: "collect_completed_uploads s2 = (s3, q')" by (rule prod.exhaust)
  then show ?thesis
    using flush sch run slot q collect_none_failed [OF coll]
    by (auto simp: flush_part_def none_failed_def upload_part_async_def)
qed

lemma upload_write_loop_none_failed:
  assumes "accepts_parts env" "none_failed s" "upload_write_loop env sch data s w = Some (s', w', sch', r)"
  shows "r = Inr () \<and> none_failed s'"
  using assms
proof (induction env sch data s w rule: upload_write_loop.induct)
  case (1 env sch data s w)
  have f: "none_failed (fill_buffer data s)" using "1.prems"(2) by (simp add: none_failed_def fill_buffer_def)
  show ?case
  proof (cases "data \<noteq> [] \<and> buffer_full (fill_buffer data s)")
    case True
    obtain s1 w1 sch1 q where flush: "flush_part env sch (fill_buffer data s) w = Some (s1, w1, sch1, q)"
      using "1.prems"(3) True by (subst (asm) upload_write_loop.simps) (auto simp: Let_def split: option.splits)
    note q = flush_part_none_failed [OF "1.prems"(1) f flush]
    show ?thesis
      using "1.IH"(1) [of _ _ "(s1, w1, sch1, q)" s1 "(w1, sch1, q)" w1 "(sch1, q)" sch1 q "()"] "1.prems" True flush q
      by (subst (asm) (2) upload_write_loop.simps) (simp add: Let_def)
  next
    case False
    show ?thesis
    proof (cases "data = []")
      case nonempty: False
      with False have "upload_write_loop env sch (left_over data s) (fill_buffer data s) w = Some (s', w', sch', r)"
        using "1.prems"(3) by (subst (asm) upload_write_loop.simps) (simp add: Let_def)
      with "1.IH"(2) [OF nonempty refl refl _ "1.prems"(1) f] False nonempty show ?thesis by blast
    qed (use "1.prems" in \<open>simp add: upload_write_loop.simps\<close>)
  qed
qed

text \<open>C33: \<open>write\<close> returns when parts and slots are positive and the pending parts keep finishing: a schedule that finishes
  the oldest pending part at every step needs two steps for each part that the call fills and one for each part that was
  pending before. If the service takes every part, the call takes all the data.
\<close>

theorem write_returns:
  assumes "fair_schedule sch" "max_parts s > 0" "part_size_of s > 0" "length (us_part_buffer s) < part_size_of s"
    and "length sch \<ge> length (us_pending_uploads s) + 2 * flushes s data"
  shows "\<exists>s' w' sch' r. upload_write env sch data s w = Some (s', w', sch', r) \<and>
    (accepts_parts env \<and> none_failed s \<and> \<not> us_finalized s \<and> \<not> us_aborted s \<longrightarrow> r = Inr (length data))"
proof (cases "upload_write_loop env sch data s w")
  case None
  with upload_write_loop_returns [OF assms, of env w] show ?thesis by simp
next
  case (Some x)
  obtain s1 w1 sch1 r where x: "x = (s1, w1, sch1, r)" by (cases x) auto
  show ?thesis
    using upload_write_loop_none_failed [of env s sch data w s1 w1 sch1 r] Some x
    by (cases r) (auto simp: upload_write_def)
qed

theorem write_returns_witness:
  "\<exists>s' w' sch' r. upload_write toy_cloud [[0], [0], [0], [0]] [1, 2, 3, 4, 5] (new_upload_stream ''k'' toy_config) () = Some (s', w', sch', r) \<and>
    (accepts_parts toy_cloud \<and> none_failed (new_upload_stream ''k'' toy_config) \<and> \<not> us_finalized (new_upload_stream ''k'' toy_config) \<and>
     \<not> us_aborted (new_upload_stream ''k'' toy_config) \<longrightarrow> r = Inr (length [1, 2, 3, 4, 5 :: u8]))"
  by (rule write_returns) (simp_all add: new_upload_stream_def flushes_def default_multipart_config_def)

lemma wait_parts_none_failed:
  assumes "accepts_parts env" "\<forall>p \<in> set ps. \<not> part_failed p" "wait_parts env s ps w = (ps', cs, w', r)"
  shows "r = Inr ()"
  using assms
proof (induction ps arbitrary: w ps' cs w' r)
  case (Cons p ps)
  obtain n f where p: "p = (n, f)" by (rule prod.exhaust)
  have "\<exists>w1 e. \<forall>d. f = Running d \<longrightarrow> upload_part env (us_config s) (us_key s) (us_upload_id s) n d w = (w1, Inr e)"
    using accepted [OF Cons.prems(1)] by (cases f) auto
  then obtain w1 e where up: "\<And>d. f = Running d \<Longrightarrow> upload_part env (us_config s) (us_key s) (us_upload_id s) n d w = (w1, Inr e)"
    by blast
  obtain ps1 cs1 w2 q where rec: "wait_parts env s ps (if is_running p then w1 else w) = (ps1, cs1, w2, q)"
    by (metis prod.exhaust)
  have "q = Inr ()" using Cons.IH [OF Cons.prems(1) _ rec] Cons.prems(2) by simp
  moreover have "r = q"
    using Cons.prems(2,3) p up rec by (cases f) (auto split: sum.splits prod.splits)
  ultimately show ?case by simp
qed simp

lemma finalize_accepted:
  assumes acc: "accepts_parts env" and ok: "none_failed s" and opened: "\<not> us_finalized s" "\<not> us_aborted s"
    and complete: "\<And>s w. \<not> isl (snd (snd (complete_multipart_upload env s w)))"
  shows "\<not> isl (snd (snd (upload_finalize env is s w)))"
proof -
  obtain w1 e where up: "upload_part env (us_config s) (us_key s) (us_upload_id s) (us_current_part_number s) (us_part_buffer s) w = (w1, Inr e)"
    using accepted [OF acc] by blast
  let ?s = "if us_part_buffer s = [] then s else s\<lparr>us_completed_parts := us_completed_parts s @ [(us_current_part_number s, e)]\<rparr>"
  obtain s2 w2 where run: "run_parts env is (?s, if us_part_buffer s = [] then w else w1) = (s2, w2)" by (rule prod.exhaust)
  have ok2: "none_failed s2" by (rule run_parts_none_failed [OF acc _ run]) (use ok in \<open>simp add: none_failed_def\<close>)
  obtain s3 w3 r where wait: "wait_all_uploads env s2 w2 = (s3, w3, r)" by (metis prod.exhaust)
  have "r = Inr ()"
    using wait_parts_none_failed [OF acc] ok2 wait by (auto simp: wait_all_uploads_def none_failed_def split: prod.splits)
  then show ?thesis
    using opened up run wait complete by (auto simp: upload_finalize_def)
qed

lemma toy_accepts: "accepts_parts (logged toy_cloud)" "\<not> isl (snd (snd (complete_multipart_upload (logged toy_cloud) s w)))"
  by (auto simp: accepts_parts_def upload_part_def complete_multipart_upload_def logged_def toy_cloud_def Let_def split: prod.splits)

lemma toy_upload:
  "\<exists>s0 wl0 s1 wl1 s2 hist res.
     open_upload_stream (logged toy_cloud) ''k'' toy_config ((), []) = (s0, wl0) \<and>
     write_all (logged toy_cloud) [([[0], [0]], [1, 2, 3])] s0 wl0 = Some (s1, wl1) \<and>
     upload_finalize (logged toy_cloud) [] s1 wl1 = (s2, ((), hist), Inr res)"
proof -
  obtain s0 wl0 where opened: "open_upload_stream (logged toy_cloud) ''k'' toy_config ((), []) = (s0, wl0)" by (rule prod.exhaust)
  note inv = open_stream_inv [OF opened]
  have s0: "us_config s0 = toy_config" "\<not> us_finalized s0" "\<not> us_aborted s0" "us_part_buffer s0 = []" "us_pending_uploads s0 = []"
    using inv by (auto simp: stream_inv_def parts_inv_def first_numbers_def)
  then have ok: "none_failed s0" by (simp add: none_failed_def)
  obtain s1 wl1 sch1 r where wr: "upload_write (logged toy_cloud) [[0], [0]] [1, 2, 3] s0 wl0 = Some (s1, wl1, sch1, r)" "r = Inr 3"
    using write_returns [of "[[0], [0]]" s0 "[1, 2, 3]" "logged toy_cloud" wl0] s0 ok toy_accepts(1)
    by (auto simp: flushes_def default_multipart_config_def)
  then have written: "write_all (logged toy_cloud) [([[0], [0]], [1, 2, 3])] s0 wl0 = Some (s1, wl1)" by simp
  obtain s' where loop: "upload_write_loop (logged toy_cloud) [[0], [0]] [1, 2, 3] s0 wl0 = Some (s', wl1, sch1, Inr ())"
    and s1: "s1 = s'\<lparr>us_bytes_written := us_bytes_written s' + 3\<rparr>"
    using wr s0 by (auto simp: upload_write_def split: option.splits sum.splits)
  have "none_failed s1" using upload_write_loop_none_failed [OF toy_accepts(1) ok loop] by (simp add: s1 none_failed_def)
  moreover obtain ds where "stream_inv toy_cloud toy_config ''k'' (us_upload_id s0) (snd wl1) ds s1"
    using write_all_inv [OF written conjunct1 [OF inv] toy_client] by auto
  ultimately have "\<not> isl (snd (snd (upload_finalize (logged toy_cloud) [] s1 wl1)))"
    by (intro finalize_accepted toy_accepts) (auto simp: stream_inv_def parts_inv_def)
  then obtain s2 wl2 res where fin: "upload_finalize (logged toy_cloud) [] s1 wl1 = (s2, wl2, Inr res)"
    by (metis prod.collapse sum.collapse(2))
  obtain hist where "wl2 = ((), hist)" by (cases wl2) auto
  with opened written fin show ?thesis by blast
qed

theorem finished_upload_lists_every_part_witness:
  "\<exists>i hist ds es. concat ds = [1, 2, 3] \<and> length es = length ds \<and> cut_in_parts 2 ds \<and>
    (\<forall>k < length ds. part_sent toy_cloud toy_config ''k'' i hist (k + 1) (ds ! k) (es ! k)) \<and>
    hist \<noteq> [] \<and> complete_sent toy_config ''k'' i es (last hist)"
proof -
  obtain s0 wl0 s1 wl1 s2 hist res where
    steps: "open_upload_stream (logged toy_cloud) ''k'' toy_config ((), []) = (s0, wl0)"
      "write_all (logged toy_cloud) [([[0], [0]], [1, 2, 3])] s0 wl0 = Some (s1, wl1)"
      "upload_finalize (logged toy_cloud) [] s1 wl1 = (s2, ((), hist), Inr res)"
    using toy_upload by blast
  from finished_upload_lists_every_part [OF toy_client steps] show ?thesis by auto
qed

section \<open>When write never succeeds\<close>

lemma no_slots: "max_parts s = 0 \<Longrightarrow> wait_for_slot env sch s w \<noteq> Some (s', w', sch', Inr u)"
proof (induction sch arbitrary: s w)
  case (Cons ks sch)
  obtain s1 w1 s2 r where run: "run_parts env ks (s, w) = (s1, w1)" "collect_completed_uploads s1 = (s2, r)"
    by (metis prod.exhaust)
  then show ?case
    using Cons.IH [of s2 w1] Cons.prems run_parts_frame [OF run(1)] collect_frame [OF run(2)] by (cases r) auto
qed simp

lemma flush_needs_slots: "max_parts s = 0 \<Longrightarrow> flush_part env sch s w \<noteq> Some (s', w', sch', Inr u)"
  by (auto elim!: flush_partE dest!: run_parts_frame simp: no_slots)

lemma empty_parts_forever:
  assumes "part_size_of s = 0" "data \<noteq> []"
  shows "upload_write_loop env sch data s w \<noteq> Some (s', w', sch', Inr u)"
  using assms
proof (induction env sch data s w rule: upload_write_loop.induct)
  case (1 env sch data s w)
  have f: "left_over data s = data" "buffer_full (fill_buffer data s)" "us_config (fill_buffer data s) = us_config s"
    using "1.prems"(1) by (simp_all add: left_over_def buffer_full_def fill_buffer_def)
  show ?case
  proof (cases "flush_part env sch (fill_buffer data s) w")
    case (Some x)
    obtain s1 w1 sch1 r where x: "x = (s1, w1, sch1, r)" by (cases x) auto
    show ?thesis
    proof (cases r)
      case (Inr v)
      have "us_config s1 = us_config s" using flush_part_config [of env sch "fill_buffer data s" w s1 w1 sch1 v] Some x Inr f by simp
      then show ?thesis
        using "1.IH"(1) [of _ _ "(s1, w1, sch1, r)" s1 "(w1, sch1, r)" w1 "(sch1, r)" sch1 r v] "1.prems" f Some x Inr
        by (subst upload_write_loop.simps) (simp add: Let_def)
    qed (use "1.prems" Some x f in \<open>subst upload_write_loop.simps, simp add: Let_def\<close>)
  qed (use "1.prems" f in \<open>subst upload_write_loop.simps, simp add: Let_def\<close>)
qed

text \<open>A multipart configuration with parts of size 0, or without a slot for a concurrent part, is accepted, and then
  no schedule lets \<open>write\<close> succeed once there is data for a part: it starts empty parts or waits for a slot for ever, or
  fails.
\<close>

theorem write_without_parts_or_slots:
  assumes "part_size_of s = 0 \<and> data \<noteq> [] \<or>
    max_parts s = 0 \<and> data \<noteq> [] \<and> part_size_of s \<le> length (us_part_buffer s) + length data"
  shows "upload_write env sch data s w \<noteq> Some (s', w', sch', Inr n)"
proof -
  have "upload_write_loop env sch data s w \<noteq> Some (t, w2, sch2, Inr u)" for t w2 sch2 u
    using assms
  proof (elim disjE)
    assume "part_size_of s = 0 \<and> data \<noteq> []"
    then show ?thesis by (intro empty_parts_forever) simp_all
  next
    assume m: "max_parts s = 0 \<and> data \<noteq> [] \<and> part_size_of s \<le> length (us_part_buffer s) + length data"
    then have full: "buffer_full (fill_buffer data s)" "max_parts (fill_buffer data s) = 0"
      by (auto simp: buffer_full_def fill_buffer_def)
    show ?thesis
    proof (cases "flush_part env sch (fill_buffer data s) w")
      case (Some x)
      with flush_needs_slots [OF full(2), of env sch w] obtain s1 w1 sch1 e where "x = (s1, w1, sch1, Inl e)"
        by (cases x rule: prod_cases4) (metis sum.exhaust)
      with m full Some show ?thesis by (subst upload_write_loop.simps) (simp add: Let_def)
    qed (use m full in \<open>subst upload_write_loop.simps, simp add: Let_def\<close>)
  qed
  then show ?thesis by (auto simp: upload_write_def split: option.splits prod.splits sum.splits)
qed

theorem write_without_parts_or_slots_witness:
  "\<forall>sch s' w' sch' n. upload_write toy_cloud sch [1] (new_upload_stream ''k'' (toy_config\<lparr>sc_multipart := default_multipart_config\<lparr>mp_part_size := 0\<rparr>\<rparr>)) ()
     \<noteq> Some (s', w', sch', Inr n)"
  by (intro allI write_without_parts_or_slots) (simp add: new_upload_stream_def)

end
