(* ===== verification/S3_Storage.thy ===== *)
theory S3_Storage
  imports S3_Stream_Facts File_System
begin

text \<open>
  The S3 backend of cloud/s3_storage.cpp: the state of \<open>s3_storage::impl\<close> and its operations, each a function of the
  storage, the world of the services and, for the file operations, the file system. \<open>upload\<close> takes a schedule for the
  threads of its stream; \<open>None\<close> means that it has not returned. \<open>get_metadata\<close> and \<open>list_objects\<close> parse sizes with
  \<open>std::stoull\<close>, whose exceptions nobody catches: there \<open>None\<close> is the exception. The \<open>_async\<close> operations run the same
  functions on a thread; progress callbacks are stored and never called, so they are left out, as is the creation of
  parent directories. A state callback sees \<open>st_notified\<close>.
\<close>

section \<open>State\<close>

record s3_storage =
  st_config :: s3_config
  st_state :: cloud_storage_state
  st_stats :: cloud_storage_statistics
  st_connected_at :: int
  st_notified :: "cloud_storage_state list"

definition set_storage_state :: "cloud_storage_state \<Rightarrow> s3_storage \<Rightarrow> s3_storage" where
  "set_storage_state new s = s\<lparr>st_state := new, st_notified := st_notified s @ [new]\<rparr>"

definition change_stats :: "(cloud_storage_statistics \<Rightarrow> cloud_storage_statistics) \<Rightarrow> s3_storage \<Rightarrow> s3_storage" where
  "change_stats f s = s\<lparr>st_stats := f (st_stats s)\<rparr>"

definition update_upload_stats :: "u64 \<Rightarrow> s3_storage \<Rightarrow> s3_storage" where
  "update_upload_stats n =
     change_stats (\<lambda>t. t\<lparr>cst_bytes_uploaded := cst_bytes_uploaded t + n, cst_upload_count := cst_upload_count t + 1\<rparr>)"

definition update_download_stats :: "u64 \<Rightarrow> s3_storage \<Rightarrow> s3_storage" where
  "update_download_stats n =
     change_stats (\<lambda>t. t\<lparr>cst_bytes_downloaded := cst_bytes_downloaded t + n, cst_download_count := cst_download_count t + 1\<rparr>)"

definition update_list_stats :: "s3_storage \<Rightarrow> s3_storage" where
  "update_list_stats = change_stats (\<lambda>t. t\<lparr>cst_list_count := cst_list_count t + 1\<rparr>)"

definition update_delete_stats :: "s3_storage \<Rightarrow> s3_storage" where
  "update_delete_stats = change_stats (\<lambda>t. t\<lparr>cst_delete_count := cst_delete_count t + 1\<rparr>)"

definition update_error_stats :: "s3_storage \<Rightarrow> s3_storage" where
  "update_error_stats = change_stats (\<lambda>t. t\<lparr>cst_errors := cst_errors t + 1\<rparr>)"

text \<open>\<open>s3_storage::create\<close>; \<open>there\<close>: whether a credential provider is passed.\<close>

definition s3_create :: "s3_config \<Rightarrow> bool \<Rightarrow> s3_storage option" where
  "s3_create cfg there =
     (if sc_bucket cfg = [] \<or> sc_region cfg = [] \<and> sc_endpoint cfg = None \<or> \<not> there then None
      else Some \<lparr>st_config = cfg, st_state = Cs_disconnected, st_stats = zero_cloud_statistics, st_connected_at = 0,
                 st_notified = []\<rparr>)"

definition is_connected :: "s3_storage \<Rightarrow> bool" where
  "is_connected s \<longleftrightarrow> st_state s = Cs_connected"

section \<open>Connection\<close>

definition bucket_path :: "s3_config \<Rightarrow> string" where
  "bucket_path cfg = (if sc_use_path_style cfg then ''/'' @ sc_bucket cfg else ''/'')"

definition connect_failed :: "s3_storage \<Rightarrow> 'w \<Rightarrow> s3_storage \<times> 'w \<times> unit result" where
  "connect_failed s w = (set_storage_state Cs_error s, w, Inl Internal_error)"

text \<open>\<open>now\<close>: the steady clock. A request that fails leaves the storage connected.\<close>

definition s3_connect :: "'w cloud_env \<Rightarrow> int \<Rightarrow> s3_storage \<Rightarrow> 'w \<Rightarrow> s3_storage \<times> 'w \<times> unit result" where
  "s3_connect env now s w =
     (let s = set_storage_state Cs_connecting s;
          succeed = (\<lambda>w. (set_storage_state Cs_connected (s\<lparr>st_connected_at := now, st_stats := (st_stats s)\<lparr>cst_connected_at := now\<rparr>\<rparr>),
                            w, Inr ()))
      in if ce_credentials env w = None then connect_failed s w
         else if \<not> ce_network env then succeed w
         else case send_request env (st_config s) ''HEAD'' (bucket_path (st_config s)) [] [] [] w of
                (w, Inl _) \<Rightarrow> succeed w
              | (w, Inr r) \<Rightarrow> if rs_status r = 200 then succeed w else connect_failed s w)"

definition s3_disconnect :: "s3_storage \<Rightarrow> s3_storage \<times> unit result" where
  "s3_disconnect s = (set_storage_state Cs_disconnected s, Inr ())"

section \<open>Uploads\<close>

definition s3_upload_single ::
  "'w cloud_env \<Rightarrow> string \<Rightarrow> bytes \<Rightarrow> s3_storage \<Rightarrow> 'w \<Rightarrow> s3_storage \<times> 'w \<times> upload_result result" where
  "s3_upload_single env key data s w =
     (let cfg = st_config s; local_etag = in_quotes (payload_hash_of env data);
          succeed = (\<lambda>etag w. (update_upload_stats (word_of_nat (length data)) s, w,
                               Inr (new_upload_result key etag (word_of_nat (length data)))))
      in if \<not> ce_network env then succeed local_etag w
         else case send_request env cfg ''PUT'' (s3_path cfg key) [] data [(''Content-Type'', detect_content_type key)] w of
                (w, Inr r) \<Rightarrow>
                  if rs_status r \<noteq> 200 \<and> rs_status r \<noteq> 201 then (update_error_stats s, w, Inl Internal_error)
                  else succeed (case rs_get_header r ''ETag'' of Some e \<Rightarrow> e | None \<Rightarrow> local_etag) w
              | (w, Inl _) \<Rightarrow> succeed local_etag w)"

definition s3_upload_multipart ::
  "'w cloud_env \<Rightarrow> schedule \<Rightarrow> nat list \<Rightarrow> string \<Rightarrow> bytes \<Rightarrow> s3_storage \<Rightarrow> 'w \<Rightarrow> (s3_storage \<times> 'w \<times> upload_result result) option" where
  "s3_upload_multipart env sch is key data s w =
     (case open_upload_stream env key (st_config s) w of
        (u, w) \<Rightarrow>
          (case upload_write env sch data u w of
             None \<Rightarrow> None
           | Some (u, w, _, Inl e) \<Rightarrow>
               (case upload_abort env u w of
                  (u, w) \<Rightarrow> Some (update_error_stats s, destroy_upload_stream env u w, Inl e))
           | Some (u, w, _, Inr _) \<Rightarrow>
               (case upload_finalize env is u w of
                  (u, w, r) \<Rightarrow>
                    Some ((case r of Inl _ \<Rightarrow> update_error_stats s
                           | Inr _ \<Rightarrow> update_upload_stats (word_of_nat (length data)) s),
                          destroy_upload_stream env u w, r))))"

definition use_multipart :: "s3_config \<Rightarrow> bytes \<Rightarrow> bool" where
  "use_multipart cfg data \<longleftrightarrow>
     mp_enabled (sc_multipart cfg) \<and> length data \<ge> unat (mp_threshold (sc_multipart cfg))"

text \<open>The options of the transfer are not used.\<close>

definition s3_upload ::
  "'w cloud_env \<Rightarrow> schedule \<Rightarrow> nat list \<Rightarrow> string \<Rightarrow> bytes \<Rightarrow> s3_storage \<Rightarrow> 'w \<Rightarrow> (s3_storage \<times> 'w \<times> upload_result result) option" where
  "s3_upload env sch is key data s w =
     (if \<not> is_connected s then Some (s, w, Inl Not_initialized)
      else if use_multipart (st_config s) data then s3_upload_multipart env sch is key data s w
      else Some (s3_upload_single env key data s w))"

definition s3_upload_file ::
  "'w cloud_env \<Rightarrow> io_env \<Rightarrow> filesystem \<Rightarrow> schedule \<Rightarrow> nat list \<Rightarrow> path \<Rightarrow> string \<Rightarrow> s3_storage \<Rightarrow> 'w \<Rightarrow>
   (s3_storage \<times> 'w \<times> upload_result result) option" where
  "s3_upload_file env io fs sch is local_path key s w =
     (if \<not> is_connected s then Some (s, w, Inl Not_initialized)
      else if \<not> fs_exists fs local_path then Some (s, w, Inl File_not_found)
      else case fs_read io fs local_path of
             None \<Rightarrow> Some (s, w, Inl File_access_denied)
           | Some data \<Rightarrow> s3_upload env sch is key data s w)"

section \<open>Downloads\<close>

definition s3_download :: "'w cloud_env \<Rightarrow> string \<Rightarrow> s3_storage \<Rightarrow> 'w \<Rightarrow> s3_storage \<times> 'w \<times> bytes result" where
  "s3_download env key s w =
     (let cfg = st_config s
      in if \<not> is_connected s then (s, w, Inl Not_initialized)
         else if \<not> ce_network env then (update_download_stats 0 s, w, Inr [])
         else case send_request env cfg ''GET'' (s3_path cfg key) [] [] [] w of
                (w, Inl e) \<Rightarrow> (update_error_stats s, w, Inl e)
              | (w, Inr r) \<Rightarrow>
                  if rs_status r = 404 then (s, w, Inl File_not_found)
                  else if rs_status r \<noteq> 200 then (update_error_stats s, w, Inl Internal_error)
                  else (update_download_stats (word_of_nat (length (rs_body r))) s, w, Inr (rs_body r)))"

definition s3_download_file ::
  "'w cloud_env \<Rightarrow> io_env \<Rightarrow> string \<Rightarrow> path \<Rightarrow> s3_storage \<Rightarrow> 'w \<Rightarrow> filesystem \<Rightarrow>
   s3_storage \<times> 'w \<times> filesystem \<times> download_result result" where
  "s3_download_file env io key local_path s w fs =
     (if \<not> is_connected s then (s, w, fs, Inl Not_initialized)
      else case s3_download env key s w of
             (s, w, Inl e) \<Rightarrow> (s, w, fs, Inl e)
           | (s, w, Inr data) \<Rightarrow>
               if open_write_fails io local_path then (s, w, fs, Inl File_access_denied)
               else if write_fails io local_path then (s, w, fs(local_path \<mapsto> []), Inl File_write_error)
               else (s, w, fs(local_path \<mapsto> data),
                     Inr \<lparr>dr_key = key, dr_bytes_downloaded = word_of_nat (length data),
                          dr_metadata = (new_object_metadata key)\<lparr>cm_size := word_of_nat (length data)\<rparr>\<rparr>))"

section \<open>Deleting and looking up\<close>

definition s3_delete_object :: "'w cloud_env \<Rightarrow> string \<Rightarrow> s3_storage \<Rightarrow> 'w \<Rightarrow> s3_storage \<times> 'w \<times> delete_result result" where
  "s3_delete_object env key s w =
     (let cfg = st_config s
      in if \<not> is_connected s then (s, w, Inl Not_initialized)
         else if \<not> ce_network env then (update_delete_stats s, w, Inr (new_delete_result key))
         else case send_request env cfg ''DELETE'' (s3_path cfg key) [] [] [] w of
                (w, Inl e) \<Rightarrow> (update_error_stats s, w, Inl e)
              | (w, Inr r) \<Rightarrow>
                  if rs_status r \<noteq> 204 \<and> rs_status r \<noteq> 200 then (update_error_stats s, w, Inl Internal_error)
                  else (update_delete_stats s, w, Inr (new_delete_result key)))"

fun delete_each :: "'w cloud_env \<Rightarrow> string list \<Rightarrow> s3_storage \<Rightarrow> 'w \<Rightarrow> s3_storage \<times> 'w \<times> delete_result list" where
  "delete_each env [] s w = (s, w, [])"
| "delete_each env (key # keys) s w =
     (case s3_delete_object env key s w of
        (s, w, r) \<Rightarrow>
          (case delete_each env keys s w of
             (s, w, rs) \<Rightarrow> (s, w, case r of Inl _ \<Rightarrow> rs | Inr d \<Rightarrow> d # rs)))"

definition s3_delete_objects ::
  "'w cloud_env \<Rightarrow> string list \<Rightarrow> s3_storage \<Rightarrow> 'w \<Rightarrow> s3_storage \<times> 'w \<times> delete_result list result" where
  "s3_delete_objects env keys s w =
     (if \<not> is_connected s then (s, w, Inl Not_initialized)
      else case delete_each env keys s w of (s, w, rs) \<Rightarrow> (s, w, Inr rs))"

definition s3_exists :: "'w cloud_env \<Rightarrow> string \<Rightarrow> s3_storage \<Rightarrow> 'w \<Rightarrow> s3_storage \<times> 'w \<times> bool result" where
  "s3_exists env key s w =
     (let cfg = st_config s
      in if \<not> is_connected s then (s, w, Inl Not_initialized)
         else if \<not> ce_network env then (s, w, Inr False)
         else case send_request env cfg ''HEAD'' (s3_path cfg key) [] [] [] w of
                (w, Inl e) \<Rightarrow> (s, w, Inl e)
              | (w, Inr r) \<Rightarrow>
                  if rs_status r = 200 then (s, w, Inr True)
                  else if rs_status r = 404 then (s, w, Inr False)
                  else (s, w, Inl Internal_error))"

text \<open>The fields of an answer; \<open>None\<close> if the length is not a number that \<open>std::stoull\<close> accepts.\<close>

definition size_field :: "string option \<Rightarrow> cloud_object_metadata \<Rightarrow> cloud_object_metadata option" where
  "size_field t m =
     (case t of
        None \<Rightarrow> Some m
      | Some t \<Rightarrow> (case stoull 10 t of Some n \<Rightarrow> Some (m\<lparr>cm_size := word_of_nat n\<rparr>) | None \<Rightarrow> None))"

definition etag_field :: "string option \<Rightarrow> cloud_object_metadata \<Rightarrow> cloud_object_metadata" where
  "etag_field t m = (case t of Some e \<Rightarrow> m\<lparr>cm_etag := e\<rparr> | None \<Rightarrow> m)"

definition date_field :: "(string \<Rightarrow> int option) \<Rightarrow> string option \<Rightarrow> cloud_object_metadata \<Rightarrow> cloud_object_metadata" where
  "date_field parse t m =
     (case Option.bind t parse of Some d \<Rightarrow> m\<lparr>cm_last_modified := d\<rparr> | None \<Rightarrow> m)"

definition metadata_of_response :: "string \<Rightarrow> http_response \<Rightarrow> cloud_object_metadata option" where
  "metadata_of_response key r =
     (case size_field (rs_get_header r ''Content-Length'') (new_object_metadata key) of
        None \<Rightarrow> None
      | Some m \<Rightarrow>
          Some (date_field parse_http_date (rs_get_header r ''Last-Modified'')
                  (etag_field (rs_get_header r ''ETag'')
                     (m\<lparr>cm_content_type :=
                          (case rs_get_header r ''Content-Type'' of Some t \<Rightarrow> t | None \<Rightarrow> detect_content_type key)\<rparr>))))"

definition s3_get_metadata ::
  "'w cloud_env \<Rightarrow> string \<Rightarrow> s3_storage \<Rightarrow> 'w \<Rightarrow> (s3_storage \<times> 'w \<times> cloud_object_metadata result) option" where
  "s3_get_metadata env key s w =
     (let cfg = st_config s
      in if \<not> is_connected s then Some (s, w, Inl Not_initialized)
         else if \<not> ce_network env
         then Some (s, w, Inr ((new_object_metadata key)\<lparr>cm_content_type := detect_content_type key\<rparr>))
         else case send_request env cfg ''HEAD'' (s3_path cfg key) [] [] [] w of
                (w, Inl e) \<Rightarrow> Some (s, w, Inl e)
              | (w, Inr r) \<Rightarrow>
                  if rs_status r = 404 then Some (s, w, Inl File_not_found)
                  else if rs_status r \<noteq> 200 then Some (s, w, Inl Internal_error)
                  else map_option (\<lambda>m. (s, w, Inr m)) (metadata_of_response key r))"

section \<open>Listing\<close>

definition optional_param :: "string \<Rightarrow> string option \<Rightarrow> string" where
  "optional_param name v = (case v of Some x \<Rightarrow> ''&'' @ name @ ''='' @ url_encode x True | None \<Rightarrow> [])"

definition list_query :: "list_objects_options \<Rightarrow> string" where
  "list_query opts =
     ''list-type=2'' @ optional_param ''prefix'' (lq_prefix opts) @ optional_param ''delimiter'' (lq_delimiter opts) @
     (if lq_max_keys opts > 0 then ''&max-keys='' @ dec_digits (lq_max_keys opts) else []) @
     optional_param ''continuation-token'' (lq_token opts)"

lemma find_sub_length: "find_sub p s = Some t \<Longrightarrow> length t \<le> length s \<and> take (length p) t = p"
  by (induction p s rule: find_sub.induct) (auto split: if_splits)

text \<open>The blocks \<open><tag> ... </tag>\<close>; each search starts one character after the last closing tag began.\<close>

function xml_blocks :: "string \<Rightarrow> string \<Rightarrow> string list" where
  "xml_blocks tag xml =
     (case find_sub (''<'' @ tag @ ''>'') xml of
        None \<Rightarrow> []
      | Some r \<Rightarrow>
          (case find_sub (''</'' @ tag @ ''>'') r of
             None \<Rightarrow> []
           | Some t \<Rightarrow> take (length r - length t + length (''</'' @ tag @ ''>'')) r # xml_blocks tag (drop 1 t)))"
  by pat_completeness auto
termination
proof (relation "measure (\<lambda>(tag, xml). length xml)", goal_cases)
  case (2 tag xml r t)
  from find_sub_length [OF 2(1)] find_sub_length [OF 2(2)] show ?case by (cases t) auto
qed simp

declare xml_blocks.simps [simp del]

definition object_of_block :: "string \<Rightarrow> cloud_object_metadata option" where
  "object_of_block xml =
     (let m = new_object_metadata (case extract_xml_element xml ''Key'' of Some k \<Rightarrow> k | None \<Rightarrow> [])
      in case size_field (extract_xml_element xml ''Size'') m of
           None \<Rightarrow> None
         | Some m \<Rightarrow>
             Some (date_field parse_iso_date (extract_xml_element xml ''LastModified'')
                     (etag_field (extract_xml_element xml ''ETag'') m)))"

fun all_some :: "'a option list \<Rightarrow> 'a list option" where
  "all_some [] = Some []"
| "all_some (None # xs) = None"
| "all_some (Some x # xs) = map_option ((#) x) (all_some xs)"

definition parse_listing :: "string \<Rightarrow> list_objects_result option" where
  "parse_listing xml =
     (case all_some (map object_of_block (xml_blocks ''Contents'' xml)) of
        None \<Rightarrow> None
      | Some objs \<Rightarrow>
          Some \<lparr>lr_objects = objs,
                lr_common_prefixes =
                  List.map_filter (\<lambda>b. extract_xml_element b ''Prefix'') (xml_blocks ''CommonPrefixes'' xml),
                lr_is_truncated = (extract_xml_element xml ''IsTruncated'' = Some ''true''),
                lr_token = extract_xml_element xml ''NextContinuationToken'', lr_total_count = None\<rparr>)"

definition s3_list_objects ::
  "'w cloud_env \<Rightarrow> list_objects_options \<Rightarrow> s3_storage \<Rightarrow> 'w \<Rightarrow> (s3_storage \<times> 'w \<times> list_objects_result result) option" where
  "s3_list_objects env opts s w =
     (let cfg = st_config s
      in if \<not> is_connected s then Some (s, w, Inl Not_initialized)
         else if \<not> ce_network env
         then Some (update_list_stats s, w, Inr \<lparr>lr_objects = [], lr_common_prefixes = [], lr_is_truncated = False,
                                                 lr_token = None, lr_total_count = None\<rparr>)
         else case send_request env cfg ''GET'' (bucket_path cfg) (list_query opts) [] [] w of
                (w, Inl e) \<Rightarrow> Some (update_error_stats s, w, Inl e)
              | (w, Inr r) \<Rightarrow>
                  if rs_status r \<noteq> 200 then Some (update_error_stats s, w, Inl Internal_error)
                  else map_option (\<lambda>l. (update_list_stats s, w, Inr l)) (parse_listing (get_body_string r)))"

section \<open>Copying\<close>

definition s3_copy_object ::
  "'w cloud_env \<Rightarrow> string \<Rightarrow> string \<Rightarrow> s3_storage \<Rightarrow> 'w \<Rightarrow> s3_storage \<times> 'w \<times> cloud_object_metadata result" where
  "s3_copy_object env source_key dest_key s w =
     (let cfg = st_config s; copy_source = ''/'' @ sc_bucket cfg @ ''/'' @ source_key
      in if \<not> is_connected s then (s, w, Inl Not_initialized)
         else if \<not> ce_network env then (s, w, Inr (new_object_metadata dest_key))
         else case send_request env cfg ''PUT'' (s3_path cfg dest_key) [] [] [(''x-amz-copy-source'', url_encode copy_source False)] w of
                (w, Inl e) \<Rightarrow> (update_error_stats s, w, Inl e)
              | (w, Inr r) \<Rightarrow>
                  if rs_status r \<noteq> 200 then (update_error_stats s, w, Inl Internal_error)
                  else (s, w, Inr (date_field parse_iso_date (extract_xml_element (get_body_string r) ''LastModified'')
                                     (etag_field (extract_xml_element (get_body_string r) ''ETag'')
                                        (new_object_metadata dest_key)))))"

section \<open>Streams, addresses and statistics\<close>

definition s3_create_upload_stream :: "'w cloud_env \<Rightarrow> string \<Rightarrow> s3_storage \<Rightarrow> 'w \<Rightarrow> s3_upload_stream option \<times> 'w" where
  "s3_create_upload_stream env key s w =
     (if \<not> is_connected s then (None, w)
      else case open_upload_stream env key (st_config s) w of (u, w) \<Rightarrow> (Some u, w))"

text \<open>The download stream sends no request: \<open>read\<close> returns 0 bytes, and there is never more to read.\<close>

record s3_download_stream =
  ds_metadata :: cloud_object_metadata
  ds_bytes_read :: u64
  ds_total_size :: u64

definition open_download_stream :: "string \<Rightarrow> s3_download_stream" where
  "open_download_stream key =
     \<lparr>ds_metadata = (new_object_metadata key)\<lparr>cm_content_type := detect_content_type key\<rparr>, ds_bytes_read = 0, ds_total_size = 0\<rparr>"

definition download_read :: "nat \<Rightarrow> s3_download_stream \<Rightarrow> s3_download_stream \<times> bytes result" where
  "download_read n d = (d, Inr [])"

definition download_has_more :: "s3_download_stream \<Rightarrow> bool" where
  "download_has_more d \<longleftrightarrow> ds_bytes_read d < ds_total_size d"

definition s3_create_download_stream :: "string \<Rightarrow> s3_storage \<Rightarrow> s3_download_stream option" where
  "s3_create_download_stream key s = (if is_connected s then Some (open_download_stream key) else None)"

definition s3_reset_statistics :: "s3_storage \<Rightarrow> s3_storage" where
  "s3_reset_statistics s = s\<lparr>st_stats := zero_cloud_statistics\<lparr>cst_connected_at := st_connected_at s\<rparr>\<rparr>"

definition s3_endpoint_url :: "s3_storage \<Rightarrow> string" where
  "s3_endpoint_url s =
     (case sc_endpoint (st_config s) of
        Some e \<Rightarrow> e
      | None \<Rightarrow> (if sc_use_ssl (st_config s) then ''https'' else ''http'') @ ''://'' @ s3_host (st_config s))"

section \<open>Signed addresses\<close>

text \<open>The names to sign in the order they are added, with their values; a repeated name keeps its last value.\<close>

definition presigned_headers :: "string \<Rightarrow> presigned_url_options \<Rightarrow> (string \<times> string) list" where
  "presigned_headers host opts =
     (''host'', host) #
     (if pu_method opts \<noteq> ''PUT'' then []
      else (case pu_server_side_encryption opts of
              None \<Rightarrow> []
            | Some sse \<Rightarrow>
                (''x-amz-server-side-encryption'', sse) #
                (case pu_kms_key_id opts of
                   Some k \<Rightarrow> if sse = ''aws:kms'' then [(''x-amz-server-side-encryption-aws-kms-key-id'', k)] else []
                 | None \<Rightarrow> [])) @
           (case pu_storage_class opts of Some c \<Rightarrow> [(''x-amz-storage-class'', c)] | None \<Rightarrow> []) @
           (case pu_content_type opts of Some c \<Rightarrow> [(''content-type'', c)] | None \<Rightarrow> []) @
           map (\<lambda>(k, v). (map to_lower (''x-amz-meta-'' @ k), v)) (pu_custom_metadata opts))"

definition presigned_query :: "presigned_url_options \<Rightarrow> string \<Rightarrow> string \<Rightarrow> string \<Rightarrow> string" where
  "presigned_query opts credential amz_date header_names =
     ''X-Amz-Algorithm='' @ signature_algorithm @ ''&X-Amz-Credential='' @ url_encode credential True @
     ''&X-Amz-Date='' @ amz_date @ ''&X-Amz-Expires='' @ dec_int (pu_expiration opts) @
     ''&X-Amz-SignedHeaders='' @ url_encode header_names True @
     (if pu_method opts = ''GET''
      then optional_param ''response-content-type'' (pu_response_content_type opts) @
           optional_param ''response-content-disposition'' (pu_response_content_disposition opts)
      else [])"

definition s3_generate_presigned_url ::
  "'w cloud_env \<Rightarrow> string \<Rightarrow> presigned_url_options \<Rightarrow> s3_storage \<Rightarrow> 'w \<Rightarrow> 'w \<times> string result" where
  "s3_generate_presigned_url env key opts s w =
     (case ce_credentials env w of
        Some (Static c) \<Rightarrow>
          if \<not> ce_encryption env then (w, Inl Internal_error)
          else (case ce_now env w of
             (w, t1) \<Rightarrow>
               (case ce_now env w of
                  (w, t2) \<Rightarrow>
                    let cfg = st_config s; date = get_date_stamp t1; amz_date = get_iso8601_time t2;
                        host = s3_host cfg; uri = s3_path cfg key; hs = presigned_headers host opts;
                        names = sort (map fst hs); scope = credential_scope date (sc_region cfg);
                        query = presigned_query opts (access_key_id c @ ''/'' @ scope) amz_date (join_with '';'' names);
                        request = canonical_request (pu_method opts) uri query
                                    (map (\<lambda>n. (n, the (map_of (header_puts hs []) n))) names) names ''UNSIGNED-PAYLOAD'';
                        signature = sign_string env (secret_access_key c) date (sc_region cfg) (string_to_sign env amz_date scope request)
                    in (w, Inr ((if sc_use_ssl cfg then ''https'' else ''http'') @ ''://'' @ host @ uri @ ''?'' @ query @
                                ''&X-Amz-Signature='' @ signature))))
      | _ \<Rightarrow> (w, Inl Internal_error))"

section \<open>Without a connection nothing is sent\<close>

text \<open>Before \<open>connect\<close> has succeeded and after \<open>disconnect\<close>, every operation on objects fails with \<open>not_initialized\<close>
  and leaves the storage, its statistics and the services as they are: no request is sent and no clock is read.
\<close>

theorem disconnected_storage_is_inert:
  assumes "\<not> is_connected s"
  shows "s3_upload env sch is key data s w = Some (s, w, Inl Not_initialized) \<and>
    s3_upload_file env io fs sch is p key s w = Some (s, w, Inl Not_initialized) \<and>
    s3_download env key s w = (s, w, Inl Not_initialized) \<and>
    s3_download_file env io key p s w fs = (s, w, fs, Inl Not_initialized) \<and>
    s3_delete_object env key s w = (s, w, Inl Not_initialized) \<and>
    s3_delete_objects env keys s w = (s, w, Inl Not_initialized) \<and>
    s3_exists env key s w = (s, w, Inl Not_initialized) \<and>
    s3_get_metadata env key s w = Some (s, w, Inl Not_initialized) \<and>
    s3_list_objects env opts s w = Some (s, w, Inl Not_initialized) \<and>
    s3_copy_object env key key' s w = (s, w, Inl Not_initialized) \<and>
    s3_create_upload_stream env key s w = (None, w) \<and> s3_create_download_stream key s = None"
  using assms
  by (simp add: s3_upload_def s3_upload_file_def s3_download_def s3_download_file_def s3_delete_object_def
      s3_delete_objects_def s3_exists_def s3_get_metadata_def s3_list_objects_def s3_copy_object_def
      s3_create_upload_stream_def s3_create_download_stream_def Let_def)

definition toy_storage :: "bool \<Rightarrow> s3_storage" where
  "toy_storage c =
     \<lparr>st_config = toy_config, st_state = (if c then Cs_connected else Cs_disconnected),
      st_stats = zero_cloud_statistics, st_connected_at = 0, st_notified = []\<rparr>"

lemma toy_storage_simps [simp]:
  "is_connected (toy_storage c) = c" "st_config (toy_storage c) = toy_config"
  by (simp_all add: toy_storage_def is_connected_def)

theorem disconnected_storage_is_inert_witness:
  "s3_upload toy_cloud [] [] ''k'' [1] (toy_storage False) () = Some (toy_storage False, (), Inl Not_initialized)"
  using disconnected_storage_is_inert [of "toy_storage False" toy_cloud "[]" "[]" "''k''" "[1]" "()"] by simp

section \<open>What is uploaded is downloaded\<close>

text \<open>
  A service that keeps objects by their address: a PUT that it accepts stores the body (a PUT with a copy source
  is another operation), a GET that it answers with 200 returns the object, with 404 says that there is none, and
  neither other requests of these methods nor the clock change the objects.
\<close>

definition object_service :: "'w cloud_env \<Rightarrow> ('w \<Rightarrow> string \<Rightarrow> bytes option) \<Rightarrow> bool" where
  "object_service env obj \<longleftrightarrow>
     (\<forall>w. obj (fst (ce_now env w)) = obj w) \<and>
     (\<forall>rq w w' r. ce_http env rq w = (w', Some r) \<longrightarrow>
        (rq_method rq = ''PUT'' \<and> map_of (rq_headers rq) ''x-amz-copy-source'' = None \<and> rs_status r \<in> {200, 201} \<longrightarrow>
           obj w' = (obj w)(rq_url rq \<mapsto> rq_body rq)) \<and>
        (rq_method rq = ''GET'' \<and> rs_status r = 200 \<longrightarrow> obj w (rq_url rq) = Some (rs_body r)) \<and>
        (rq_method rq = ''GET'' \<and> rs_status r = 404 \<longrightarrow> obj w (rq_url rq) = None))"

definition reachable_service :: "'w cloud_env \<Rightarrow> bool" where
  "reachable_service env \<longleftrightarrow> (\<forall>rq w. snd (ce_http env rq w) \<noteq> None)"

lemma authorization_keeps_objects:
  "\<forall>w. obj (fst (ce_now env w)) = obj w \<Longrightarrow> obj (fst (create_authorization_header env reg m u q hs p w)) = obj w"
  by (simp add: create_authorization_header_def Let_def split: option.splits any_credentials.splits prod.splits) (metis fst_conv)

lemma signed_request_facts:
  assumes "\<forall>w. obj (fst (ce_now env w)) = obj w" "signed_request env cfg m p q pl ex b w = (w', rq)"
  shows "obj w' = obj w \<and> rq_method rq = m \<and> rq_url rq = build_s3_url (s3_host cfg) (sc_use_ssl cfg) p q \<and> rq_body rq = b \<and>
    set (map fst (rq_headers rq)) \<subseteq> {''Host'', ''x-amz-date'', ''x-amz-content-sha256'', ''Authorization''} \<union> set (map fst ex)"
proof -
  obtain w1 t where now: "ce_now env w = (w1, t)" by (rule prod.exhaust)
  let ?hs = "header_puts ([(''Host'', s3_host cfg), (''x-amz-date'', get_iso8601_time t), (''x-amz-content-sha256'', pl)] @ ex) []"
  obtain w2 auth where a: "create_authorization_header env (sc_region cfg) m p q ?hs pl w1 = (w2, auth)" by (rule prod.exhaust)
  have "obj w1 = obj w" using assms(1) now by (metis fst_conv)
  moreover have "obj w2 = obj w1" using authorization_keeps_objects [OF assms(1)] a by (metis fst_conv)
  moreover have "set (map fst ?hs) = {''Host'', ''x-amz-date'', ''x-amz-content-sha256''} \<union> set (map fst ex)"
    unfolding set_keys_header_puts by simp
  moreover have "w' = w2 \<and> rq = \<lparr>rq_method = m, rq_url = build_s3_url (s3_host cfg) (sc_use_ssl cfg) p q,
      rq_headers = (if auth \<noteq> [] then header_put ''Authorization'' auth ?hs else ?hs), rq_body = b\<rparr>"
    using assms(2) now a unfolding signed_request_def Let_def by auto
  ultimately show ?thesis by (simp only: http_request.select_convs split: if_split) (use set_keys_header_put [of "''Authorization''" auth ?hs] in auto)
qed

lemma put_stores:
  assumes service: "object_service env obj" and client: "has_http_client env cfg"
    and put: "send_request env cfg ''PUT'' p q data [(''Content-Type'', t)] w = (w', Inr r)" and ok: "rs_status r = 200 \<or> rs_status r = 201"
  shows "obj w' = (obj w)(build_s3_url (s3_host cfg) (sc_use_ssl cfg) p q \<mapsto> data)"
proof -
  have now: "\<forall>w. obj (fst (ce_now env w)) = obj w" using service by (simp add: object_service_def)
  obtain w1 rq where rq: "signed_request env cfg ''PUT'' p q (payload_hash_of env data)
      ((if data \<noteq> [] then [(''Content-Length'', dec_digits (length data))] else []) @ [(''Content-Type'', t)]) data w = (w1, rq)"
    by (rule prod.exhaust)
  note facts = signed_request_facts [OF now rq]
  have http: "ce_http env rq w1 = (w', Some r)" using put client rq by (auto simp: send_request_def split: prod.splits option.splits)
  have "''x-amz-copy-source'' \<notin> fst ` set (rq_headers rq)" using facts by (auto split: if_splits)
  then have "map_of (rq_headers rq) ''x-amz-copy-source'' = None" by (simp add: map_of_eq_None_iff)
  then show ?thesis using service http facts ok unfolding object_service_def by fastforce
qed

lemma get_returns:
  assumes service: "object_service env obj" and client: "has_http_client env cfg"
    and get: "send_request env cfg ''GET'' p q [] [] w = (w', Inr r)"
  shows "(rs_status r = 200 \<longrightarrow> obj w (build_s3_url (s3_host cfg) (sc_use_ssl cfg) p q) = Some (rs_body r)) \<and>
    (rs_status r = 404 \<longrightarrow> obj w (build_s3_url (s3_host cfg) (sc_use_ssl cfg) p q) = None)"
proof -
  have now: "\<forall>w. obj (fst (ce_now env w)) = obj w" using service by (simp add: object_service_def)
  obtain w1 rq where rq: "signed_request env cfg ''GET'' p q (payload_hash_of env []) [] [] w = (w1, rq)" by (rule prod.exhaust)
  have "ce_http env rq w1 = (w', Some r)" using get client rq by (auto simp: send_request_def split: prod.splits option.splits)
  then show ?thesis using service signed_request_facts [OF now rq] unfolding object_service_def by metis
qed

lemma reachable_request:
  assumes "reachable_service env" "has_http_client env cfg" "m = ''GET'' \<or> m = ''PUT''"
  shows "\<exists>w' r. send_request env cfg m p q body ex w = (w', Inr r)"
proof -
  obtain w1 rq where rq: "signed_request env cfg m p q (payload_hash_of env body)
      ((if body \<noteq> [] then [(''Content-Length'', dec_digits (length body))] else []) @ ex)
      (if m = ''PUT'' \<or> m = ''POST'' then body else []) w = (w1, rq)" by (rule prod.exhaust)
  obtain w2 r where "ce_http env rq w1 = (w2, Some r)"
    using assms(1) unfolding reachable_service_def by (metis option.exhaust prod.collapse)
  then show ?thesis using rq assms(2,3) unfolding send_request_def by auto
qed

lemma dead_request:
  assumes "has_http_client env cfg \<Longrightarrow> \<forall>rq w. snd (ce_http env rq w) = None"
  shows "\<exists>w' e. send_request env cfg m p q body ex w = (w', Inl e)"
proof (cases "has_http_client env cfg")
  case True
  obtain w1 rq where rq: "signed_request env cfg m p q (payload_hash_of env body)
      ((if body \<noteq> [] then [(''Content-Length'', dec_digits (length body))] else []) @ ex)
      (if m = ''PUT'' \<or> m = ''POST'' then body else []) w = (w1, rq)" by (rule prod.exhaust)
  obtain w2 where "ce_http env rq w1 = (w2, None)" using assms [OF True] by (metis prod.collapse)
  then show ?thesis using rq True unfolding send_request_def by auto
qed (simp add: send_request_def)

lemma bucket_not_in_address:
  assumes "sc_endpoint cfg \<noteq> None"
  shows "s3_host (cfg\<lparr>sc_bucket := b\<rparr>) = s3_host cfg" "s3_path (cfg\<lparr>sc_bucket := b\<rparr>) key = s3_path cfg key"
  using assms by (auto simp: s3_host_def s3_path_def)

text \<open>C34: with a service that can be reached, an object that a single request uploaded is what a later download of its key
  returns; the download never says that it is missing. This holds for a storage of any bucket at the same endpoint: once
  an endpoint is configured the bucket is in no address, so two buckets share their objects.
\<close>

theorem uploaded_object_is_downloaded:
  assumes service: "object_service env obj" and reachable: "reachable_service env" and client: "has_http_client env (st_config s)"
    and up: "s3_upload env sch is key data s w = Some (s1, w1, Inr u)" and single: "\<not> use_multipart (st_config s) data"
    and other: "is_connected t" "st_config t = (st_config s)\<lparr>sc_bucket := b\<rparr>"
    and down: "s3_download env key t w1 = (t2, w2, r)"
  shows "r \<noteq> Inl File_not_found \<and> (\<forall>d. r = Inr d \<longrightarrow> d = data)"
proof -
  let ?url = "build_s3_url (s3_host (st_config s)) (sc_use_ssl (st_config s)) (s3_path (st_config s) key) []"
  have endpoint: "sc_endpoint (st_config s) \<noteq> None" "ce_network env" using client by (simp_all add: has_http_client_def)
  have "s3_upload_single env key data s w = (s1, w1, Inr u)" using up single by (auto simp: s3_upload_def split: if_splits)
  moreover obtain w3 r1 where "send_request env (st_config s) ''PUT'' (s3_path (st_config s) key) [] data
      [(''Content-Type'', detect_content_type key)] w = (w3, Inr r1)"
    using reachable_request [OF reachable client] by blast
  ultimately have "send_request env (st_config s) ''PUT'' (s3_path (st_config s) key) [] data
      [(''Content-Type'', detect_content_type key)] w = (w1, Inr r1)" "rs_status r1 = 200 \<or> rs_status r1 = 201"
    using endpoint(2) by (auto simp: s3_upload_single_def Let_def split: if_splits)
  then have stored: "obj w1 ?url = Some data" using put_stores [OF service client] by simp
  have client': "has_http_client env (st_config t)" using client other by (simp add: has_http_client_def)
  obtain w4 r2 where get: "send_request env (st_config t) ''GET'' (s3_path (st_config t) key) [] [] [] w1 = (w4, Inr r2)"
    using reachable_request [OF reachable client'] by blast
  have "(rs_status r2 = 200 \<longrightarrow> obj w1 ?url = Some (rs_body r2)) \<and> (rs_status r2 = 404 \<longrightarrow> obj w1 ?url = None)"
    using get_returns [OF service client' get] bucket_not_in_address [OF endpoint(1)] other by simp
  then show ?thesis
    using down get stored other(1) endpoint(2) by (auto simp: s3_download_def Let_def split: if_splits)
qed

definition toy_objects :: "(string \<Rightarrow> bytes option) cloud_env" where
  "toy_objects =
     \<lparr>ce_network = True, ce_encryption = False,
      ce_http = (\<lambda>rq w.
        if rq_method rq = ''PUT'' then (w(rq_url rq \<mapsto> rq_body rq), Some \<lparr>rs_status = 200, rs_get_header = (\<lambda>h. None), rs_body = []\<rparr>)
        else (w, Some (case w (rq_url rq) of
                         Some d \<Rightarrow> \<lparr>rs_status = 200, rs_get_header = (\<lambda>h. None), rs_body = d\<rparr>
                       | None \<Rightarrow> \<lparr>rs_status = 404, rs_get_header = (\<lambda>h. None), rs_body = []\<rparr>))),
      ce_now = (\<lambda>w. (w, 0)), ce_random = (\<lambda>n w. (w, replicate n 0)), ce_credentials = (\<lambda>w. None),
      ce_sha256 = (\<lambda>d. []), ce_hmac_sha256 = (\<lambda>k d. [])\<rparr>"

lemma toy_object_service: "object_service toy_objects id" "reachable_service toy_objects" "has_http_client toy_objects toy_config"
  by (auto simp: object_service_def reachable_service_def has_http_client_def toy_objects_def split: option.splits)

lemma toy_put: "ce_http toy_objects rq w = (w', Some r) \<Longrightarrow> rq_method rq = ''PUT'' \<Longrightarrow> rs_status r = 200"
  "fst (ce_now toy_objects w) = w"
  by (auto simp: toy_objects_def)

lemma toy_single: "\<not> use_multipart toy_config [1, 2]"
  by (simp add: use_multipart_def default_multipart_config_def)

theorem uploaded_object_is_downloaded_witness:
  "\<exists>s1 w1 u. s3_upload toy_objects [] [] ''k'' [1, 2] (toy_storage True) Map.empty = Some (s1, w1, Inr u) \<and>
    (\<forall>t2 w2 r. s3_download toy_objects ''k'' ((toy_storage True)\<lparr>st_config := toy_config\<lparr>sc_bucket := ''other''\<rparr>\<rparr>) w1 = (t2, w2, r) \<longrightarrow>
       r \<noteq> Inl File_not_found \<and> (\<forall>d. r = Inr d \<longrightarrow> d = [1, 2]))"
proof -
  let ?t = "(toy_storage True)\<lparr>st_config := toy_config\<lparr>sc_bucket := ''other''\<rparr>\<rparr>"
  let ?put = "send_request toy_objects toy_config ''PUT'' (s3_path toy_config ''k'') [] [1, 2] [(''Content-Type'', detect_content_type ''k'')] Map.empty"
  obtain w3 r where put: "?put = (w3, Inr r)" using reachable_request [OF toy_object_service(2,3)] by blast
  then have "rs_status r = 200"
    using signed_request_facts [of id toy_objects] by (auto simp: send_request_def toy_put split: if_splits prod.splits option.splits)
  then have "\<not> isl (snd (snd (s3_upload_single toy_objects ''k'' [1, 2] (toy_storage True) Map.empty)))"
    using put by (simp add: s3_upload_single_def Let_def)
  then obtain s1 w1 u where up: "s3_upload toy_objects [] [] ''k'' [1, 2] (toy_storage True) Map.empty = Some (s1, w1, Inr u)"
    using toy_single by (auto simp: s3_upload_def) (metis prod.collapse sum.collapse(2))
  have client: "has_http_client toy_objects (st_config (toy_storage True))" and single: "\<not> use_multipart (st_config (toy_storage True)) [1, 2]"
    using toy_object_service(3) toy_single by simp_all
  have t: "is_connected ?t" "st_config ?t = (st_config (toy_storage True))\<lparr>sc_bucket := ''other''\<rparr>"
    by (simp_all add: is_connected_def toy_storage_def)
  show ?thesis
    using uploaded_object_is_downloaded [OF toy_object_service(1,2) client up single t] up by blast
qed

text \<open>An upload by a single request is reported as a success, with the length of the data and an entity tag, when no
  request can be sent (no endpoint is configured) or none is answered: nothing is stored anywhere, and the download of
  the same key fails.
\<close>

theorem unsent_upload_reports_success:
  assumes "ce_network env" "is_connected s" "\<not> use_multipart (st_config s) data"
    and dead: "has_http_client env (st_config s) \<Longrightarrow> \<forall>rq w. snd (ce_http env rq w) = None"
  shows "\<exists>s1 w1 u. s3_upload env sch is key data s w = Some (s1, w1, Inr u) \<and> ur_bytes_uploaded u = word_of_nat (length data) \<and>
    (\<exists>s2 w2 e. s3_download env key s1 w1 = (s2, w2, Inl e))"
proof -
  note fails = dead_request [of env "st_config s", OF dead]
  obtain w1 e where put: "send_request env (st_config s) ''PUT'' (s3_path (st_config s) key) [] data
      [(''Content-Type'', detect_content_type key)] w = (w1, Inl e)" using fails by meson
  obtain w2 e2 where "send_request env (st_config s) ''GET'' (s3_path (st_config s) key) [] [] [] w1 = (w2, Inl e2)" using fails by meson
  with put assms show ?thesis
    by (simp add: s3_upload_def s3_upload_single_def s3_download_def update_upload_stats_def change_stats_def is_connected_def
        new_upload_result_def)
qed

theorem unsent_upload_reports_success_witness:
  "\<exists>s1 w1 u. s3_upload (toy_cloud\<lparr>ce_http := (\<lambda>rq w. (w, None))\<rparr>) [] [] ''k'' [1, 2] (toy_storage True) () = Some (s1, w1, Inr u) \<and>
    ur_bytes_uploaded u = word_of_nat (length [1, 2 :: u8]) \<and>
    (\<exists>s2 w2 e. s3_download (toy_cloud\<lparr>ce_http := (\<lambda>rq w. (w, None))\<rparr>) ''k'' s1 w1 = (s2, w2, Inl e))"
  by (rule unsent_upload_reports_success) (use toy_single in \<open>simp_all add: toy_cloud_def\<close>)

section \<open>Deleting several objects\<close>

lemma delete_each_counts:
  assumes "is_connected s" "delete_each env keys s w = (s', w', rs)"
  shows "is_connected s' \<and> subseq (map de_key rs) keys \<and>
    cst_delete_count (st_stats s') = cst_delete_count (st_stats s) + word_of_nat (length rs) \<and>
    cst_errors (st_stats s') = cst_errors (st_stats s) + word_of_nat (length keys - length rs)"
  using assms
proof (induction keys arbitrary: s w s' w' rs)
  case (Cons key keys)
  obtain s1 w1 r where del: "s3_delete_object env key s w = (s1, w1, r)" by (metis prod.exhaust)
  obtain s2 w2 rs1 where rec: "delete_each env keys s1 w1 = (s2, w2, rs1)" by (metis prod.exhaust)
  have one: "is_connected s1 \<and>
      (case r of Inl _ \<Rightarrow> cst_delete_count (st_stats s1) = cst_delete_count (st_stats s) \<and> cst_errors (st_stats s1) = cst_errors (st_stats s) + 1
       | Inr d \<Rightarrow> de_key d = key \<and> cst_delete_count (st_stats s1) = cst_delete_count (st_stats s) + 1 \<and> cst_errors (st_stats s1) = cst_errors (st_stats s))"
    using del Cons.prems(1)
    by (auto simp: s3_delete_object_def update_delete_stats_def update_error_stats_def change_stats_def is_connected_def
        new_delete_result_def Let_def split: if_splits prod.splits sum.splits)
  note ih = Cons.IH [OF conjunct1 [OF one] rec]
  have len: "length rs1 \<le> length keys" using ih by (auto dest: list_emb_length)
  have split: "s' = s2" "rs = (case r of Inl _ \<Rightarrow> rs1 | Inr d \<Rightarrow> d # rs1)" using Cons.prems(2) del rec by auto
  show ?case
    using one ih len by (cases r) (auto simp: split Suc_diff_le)
qed simp

text \<open>\<open>delete_objects\<close> on a connected storage always succeeds, whatever happens to the requests: its result names, in
  order, the keys whose deletion succeeded, and the others are only counted as errors in the statistics.
\<close>

theorem delete_objects_swallows_errors:
  assumes "is_connected s"
  shows "\<exists>s' w' rs. s3_delete_objects env keys s w = (s', w', Inr rs) \<and> subseq (map de_key rs) keys \<and>
    cst_delete_count (st_stats s') = cst_delete_count (st_stats s) + word_of_nat (length rs) \<and>
    cst_errors (st_stats s') = cst_errors (st_stats s) + word_of_nat (length keys - length rs)"
proof -
  obtain s' w' rs where "delete_each env keys s w = (s', w', rs)" by (metis prod.exhaust)
  with delete_each_counts [OF assms this] assms show ?thesis by (simp add: s3_delete_objects_def)
qed

theorem delete_objects_swallows_errors_witness:
  "\<exists>s' w' rs. s3_delete_objects toy_cloud [''a'', ''b''] (toy_storage True) () = (s', w', Inr rs) \<and>
    subseq (map de_key rs) [''a'', ''b''] \<and>
    cst_delete_count (st_stats s') = cst_delete_count (st_stats (toy_storage True)) + word_of_nat (length rs) \<and>
    cst_errors (st_stats s') = cst_errors (st_stats (toy_storage True)) + word_of_nat (length [''a'', ''b''] - length rs)"
  by (rule delete_objects_swallows_errors) simp

section \<open>Reading through a stream\<close>

text \<open>A download stream yields nothing, whatever is stored, and never announces more.\<close>

lemma download_stream_is_empty:
  "s3_create_download_stream key s = Some d \<Longrightarrow> download_read n d = (d, Inr []) \<and> \<not> download_has_more d"
  by (auto simp: s3_create_download_stream_def open_download_stream_def download_read_def download_has_more_def split: if_splits)

end
