(* ===== verification/S3_Credentials.thy ===== *)
theory S3_Credentials
  imports Cloud_Types File_System
begin

text \<open>
  The credential provider of cloud/s3_storage.cpp: credentials from the program, from environment variables
  (\<open>getenv\<close>) or from a profile of the shared credentials file, whose text is parsed line by line; \<open>refresh\<close> and
  \<open>needs_refresh\<close>. The mutex guards single assignments and is left out, as is the state callback; auto refresh
  only stores its settings. The POSIX branches are modelled.
\<close>

type_synonym getenv = "string \<Rightarrow> string option"

record s3_credential_provider =
  cp_type :: credential_type
  cp_credentials :: "static_credentials option"
  cp_state :: credential_state
  cp_auto_refresh_enabled :: bool
  cp_auto_refresh_interval :: int

definition provider_of :: "credential_type \<Rightarrow> static_credentials \<Rightarrow> s3_credential_provider" where
  "provider_of t c =
     \<lparr>cp_type = t, cp_credentials = Some c, cp_state = Cred_valid, cp_auto_refresh_enabled = False, cp_auto_refresh_interval = 60\<rparr>"

definition create_static_provider :: "static_credentials \<Rightarrow> s3_credential_provider option" where
  "create_static_provider c =
     (if access_key_id c = [] \<or> secret_access_key c = [] then None else Some (provider_of Static_credentials c))"

definition create_from_environment :: "getenv \<Rightarrow> s3_credential_provider option" where
  "create_from_environment getenv =
     (case (getenv ''AWS_ACCESS_KEY_ID'', getenv ''AWS_SECRET_ACCESS_KEY'') of
        (Some a, Some s) \<Rightarrow>
          Some (provider_of Environment
            (new_static_credentials
               \<lparr>access_key_id := a, secret_access_key := s, cr_session_token := getenv ''AWS_SESSION_TOKEN'',
                cr_region := (case getenv ''AWS_REGION'' of Some r \<Rightarrow> Some r | None \<Rightarrow> getenv ''AWS_DEFAULT_REGION'')\<rparr>))
      | _ \<Rightarrow> None)"

section \<open>The credentials file\<close>

text \<open>\<open>std::getline\<close> until the stream ends.\<close>

fun file_lines :: "string \<Rightarrow> string \<Rightarrow> string list" where
  "file_lines acc [] = (if acc = [] then [] else [rev acc])"
| "file_lines acc (c # cs) = (if c = CHR 0x0A then rev acc # file_lines [] cs else file_lines (c # acc) cs)"

definition blank :: "char \<Rightarrow> bool" where
  "blank c \<longleftrightarrow> c = CHR '' '' \<or> c = CHR 0x09"

definition blank_or_end :: "char \<Rightarrow> bool" where
  "blank_or_end c \<longleftrightarrow> blank c \<or> c = CHR 0x0D \<or> c = CHR 0x0A"

text \<open>
  \<open>None\<close> for a line of blanks. If the line ends in nothing but blanks and line ends, \<open>find_last_not_of\<close> returns
  \<open>npos\<close>, and the length \<open>npos - start + 1\<close> is 0 for \<open>start = 0\<close> and larger than the line otherwise.
\<close>

definition trim_line :: "string \<Rightarrow> string option" where
  "trim_line line =
     (let body = dropWhile blank line; kept = rev (dropWhile blank_or_end (rev line))
      in if body = [] then None
         else if kept = [] then Some (if body = line then [] else body)
         else Some (drop (length line - length body) kept))"

definition strip_end :: "string \<Rightarrow> string" where
  "strip_end s = rev (dropWhile blank (rev s))"

record profile_scan =
  ps_current_profile :: string
  ps_access_key :: string
  ps_secret_key :: string
  ps_session_token :: string
  ps_found_profile :: bool

definition empty_scan :: profile_scan where
  "empty_scan = \<lparr>ps_current_profile = [], ps_access_key = [], ps_secret_key = [], ps_session_token = [], ps_found_profile = False\<rparr>"

definition scan_setting :: "string \<Rightarrow> string \<Rightarrow> profile_scan \<Rightarrow> profile_scan" where
  "scan_setting key value st =
     (if key = ''aws_access_key_id'' then st\<lparr>ps_access_key := value, ps_found_profile := True\<rparr>
      else if key = ''aws_secret_access_key'' then st\<lparr>ps_secret_key := value\<rparr>
      else if key = ''aws_session_token'' then st\<lparr>ps_session_token := value\<rparr>
      else st)"

definition scan_line :: "string \<Rightarrow> profile_scan \<Rightarrow> string \<Rightarrow> profile_scan" where
  "scan_line profile st line =
     (case trim_line line of
        None \<Rightarrow> st
      | Some l \<Rightarrow>
          if l = [] \<or> hd l = CHR ''#'' \<or> hd l = CHR '';'' then st
          else if hd l = CHR ''['' \<and> last l = CHR '']'' then st\<lparr>ps_current_profile := butlast (tl l)\<rparr>
          else if ps_current_profile st = profile \<and> CHR ''='' \<in> set l
          then let key = takeWhile (\<lambda>c. c \<noteq> CHR ''='') l
               in scan_setting (strip_end key) (dropWhile blank (drop (length key + 1) l)) st
          else st)"

definition scan_profile :: "string \<Rightarrow> string \<Rightarrow> profile_scan" where
  "scan_profile profile text = foldl (scan_line profile) empty_scan (file_lines [] text)"

definition credentials_path :: "getenv \<Rightarrow> string option \<Rightarrow> path option" where
  "credentials_path getenv credentials_file =
     (case credentials_file of
        Some f \<Rightarrow> Some f
      | None \<Rightarrow> map_option (\<lambda>home. path_append (path_append home ''.aws'') ''credentials'') (getenv ''HOME''))"

definition create_from_profile ::
  "getenv \<Rightarrow> io_env \<Rightarrow> filesystem \<Rightarrow> string \<Rightarrow> string option \<Rightarrow> s3_credential_provider option" where
  "create_from_profile getenv io fs profile credentials_file =
     (case credentials_path getenv credentials_file of
        None \<Rightarrow> None
      | Some p \<Rightarrow>
          (case fs_read io fs p of
             None \<Rightarrow> None
           | Some content \<Rightarrow>
               let st = scan_profile profile (bytes_text content)
               in if \<not> ps_found_profile st \<or> ps_access_key st = [] \<or> ps_secret_key st = [] then None
                  else Some (provider_of Profile
                    (new_static_credentials
                       \<lparr>access_key_id := ps_access_key st, secret_access_key := ps_secret_key st,
                        cr_session_token := (if ps_session_token st \<noteq> [] then Some (ps_session_token st) else None)\<rparr>))))"

definition create_default_provider :: "getenv \<Rightarrow> io_env \<Rightarrow> filesystem \<Rightarrow> s3_credential_provider option" where
  "create_default_provider getenv io fs =
     (case create_from_environment getenv of
        Some p \<Rightarrow> Some p
      | None \<Rightarrow> create_from_profile getenv io fs ''default'' None)"

section \<open>Refreshing\<close>

definition take_credentials ::
  "s3_credential_provider option \<Rightarrow> s3_credential_provider \<Rightarrow> s3_credential_provider \<times> bool" where
  "take_credentials new p =
     (case new of
        Some q \<Rightarrow> (p\<lparr>cp_credentials := cp_credentials q, cp_state := Cred_valid\<rparr>, True)
      | None \<Rightarrow> (p, False))"

text \<open>A profile is read again by \<open>create_from_profile()\<close> with its default arguments.\<close>

definition refresh_credentials ::
  "getenv \<Rightarrow> io_env \<Rightarrow> filesystem \<Rightarrow> s3_credential_provider \<Rightarrow> s3_credential_provider \<times> bool" where
  "refresh_credentials getenv io fs p =
     (if cp_type p = Static_credentials then (p, True)
      else if cp_type p = Environment then take_credentials (create_from_environment getenv) p
      else if cp_type p = Profile then take_credentials (create_from_profile getenv io fs ''default'' None) p
      else (p, False))"

definition needs_refresh :: "int \<Rightarrow> int \<Rightarrow> s3_credential_provider \<Rightarrow> bool" where
  "needs_refresh now buffer p =
     (case cp_credentials p of
        None \<Rightarrow> True
      | Some c \<Rightarrow>
          (case time_until_expiration now c of None \<Rightarrow> False | Some t \<Rightarrow> t \<le> buffer))"

definition set_auto_refresh :: "bool \<Rightarrow> int \<Rightarrow> s3_credential_provider \<Rightarrow> s3_credential_provider" where
  "set_auto_refresh enable check_interval p =
     p\<lparr>cp_auto_refresh_enabled := enable, cp_auto_refresh_interval := check_interval\<rparr>"

section \<open>A written file is read back\<close>

text \<open>The usual layout: a section for each profile with its two keys.\<close>

definition section_lines :: "string \<times> string \<times> string \<Rightarrow> string list" where
  "section_lines p =
     (case p of (name, a, s) \<Rightarrow>
        [''['' @ name @ '']'', ''aws_access_key_id = '' @ a, ''aws_secret_access_key = '' @ s, []])"

definition profiles_text :: "(string \<times> string \<times> string) list \<Rightarrow> string" where
  "profiles_text ps = concat (map (\<lambda>l. l @ [CHR 0x0A]) (concat (map section_lines ps)))"

definition plain_word :: "string \<Rightarrow> bool" where
  "plain_word w \<longleftrightarrow> w \<noteq> [] \<and> (\<forall>c \<in> set w. \<not> blank_or_end c)"

lemma file_lines_line: "CHR 0x0A \<notin> set l \<Longrightarrow> file_lines acc (l @ CHR 0x0A # s) = (rev acc @ l) # file_lines [] s"
  by (induction l arbitrary: acc) auto

lemma file_lines_lines:
  "\<forall>l \<in> set ls. CHR 0x0A \<notin> set l \<Longrightarrow> file_lines [] (concat (map (\<lambda>l. l @ [CHR 0x0A]) ls)) = ls"
  by (induction ls) (simp_all add: file_lines_line [of _ "[]", simplified])

lemma trim_clean:
  assumes "l \<noteq> []" "\<not> blank (hd l)" "\<not> blank_or_end (last l)"
  shows "trim_line l = Some l"
proof -
  have "dropWhile blank l = l" using assms(1,2) by (cases l) auto
  moreover have "dropWhile blank_or_end (rev l) = rev l" using assms(1,3) by (cases l rule: rev_cases) auto
  ultimately show ?thesis using assms(1) by (simp add: trim_line_def)
qed

lemma plain_last: "plain_word w \<Longrightarrow> \<not> blank_or_end (last w)"
  by (auto simp: plain_word_def)

lemma scan_header: "scan_line p st (''['' @ name @ '']'') = st\<lparr>ps_current_profile := name\<rparr>"
  by (simp add: scan_line_def trim_clean blank_def blank_or_end_def)

lemma scan_key:
  assumes "plain_word v"
  shows "scan_line p st (''aws_access_key_id = '' @ v) =
      (if ps_current_profile st = p then st\<lparr>ps_access_key := v, ps_found_profile := True\<rparr> else st)"
    "scan_line p st (''aws_secret_access_key = '' @ v) = (if ps_current_profile st = p then st\<lparr>ps_secret_key := v\<rparr> else st)"
proof -
  have v: "v \<noteq> []" "\<not> blank_or_end (last v)" "dropWhile blank v = v"
    using assms by (auto simp: plain_word_def blank_or_end_def neq_Nil_conv)
  show "scan_line p st (''aws_access_key_id = '' @ v) =
      (if ps_current_profile st = p then st\<lparr>ps_access_key := v, ps_found_profile := True\<rparr> else st)"
    "scan_line p st (''aws_secret_access_key = '' @ v) = (if ps_current_profile st = p then st\<lparr>ps_secret_key := v\<rparr> else st)"
    using v trim_clean [of "''aws_access_key_id = '' @ v"] trim_clean [of "''aws_secret_access_key = '' @ v"]
    by (simp_all add: scan_line_def scan_setting_def strip_end_def Let_def blank_def)
qed

lemma scan_empty: "scan_line p st [] = st"
  by (simp add: scan_line_def trim_line_def)

definition scanned :: "string \<Rightarrow> (string \<times> string \<times> string) list \<Rightarrow> profile_scan \<Rightarrow> profile_scan" where
  "scanned p ps st = foldl (scan_line p) st (concat (map section_lines ps))"

lemma scanned_step:
  assumes "plain_word a" "plain_word s"
  shows "scanned p ((n, a, s) # ps) st =
    scanned p ps (if n = p then st\<lparr>ps_current_profile := n, ps_access_key := a, ps_found_profile := True, ps_secret_key := s\<rparr>
                  else st\<lparr>ps_current_profile := n\<rparr>)"
  unfolding scanned_def section_lines_def
  by (simp only: list.map prod.case concat.simps foldl_append foldl.simps scan_header scan_key [OF assms(1)] scan_key [OF assms(2)] scan_empty)
    simp

lemma scanned_others:
  assumes "p \<notin> fst ` set ps" "\<forall>(n, a, s) \<in> set ps. plain_word a \<and> plain_word s"
  shows "\<exists>c. scanned p ps st = st\<lparr>ps_current_profile := c\<rparr>"
  using assms
proof (induction ps arbitrary: st)
  case (Cons x ps)
  obtain n a s where x: "x = (n, a, s)" by (cases x)
  have "scanned p (x # ps) st = scanned p ps (st\<lparr>ps_current_profile := n\<rparr>)"
    using Cons.prems scanned_step [of a s p n ps st] by (auto simp: x)
  with Cons.IH [of "st\<lparr>ps_current_profile := n\<rparr>"] Cons.prems show ?case by auto
next
  case Nil
  show ?case by (rule exI [of _ "ps_current_profile st"]) (simp add: scanned_def)
qed

lemma scanned_found:
  assumes "distinct (map fst ps)" "(p, a, s) \<in> set ps" "\<forall>(n, a, s) \<in> set ps. plain_word a \<and> plain_word s"
  shows "\<exists>c. scanned p ps st = st\<lparr>ps_current_profile := c, ps_access_key := a, ps_found_profile := True, ps_secret_key := s\<rparr>"
  using assms
proof (induction ps arbitrary: st)
  case (Cons x ps)
  obtain n b t where x: "x = (n, b, t)" by (cases x)
  have plain: "plain_word b" "plain_word t" using Cons.prems by (auto simp: x)
  show ?case
  proof (cases "n = p")
    case True
    then have "b = a" "t = s" "p \<notin> fst ` set ps" using Cons.prems by (force simp: x)+
    moreover obtain c where "scanned p ps (st\<lparr>ps_current_profile := n, ps_access_key := a, ps_found_profile := True, ps_secret_key := s\<rparr>) =
        st\<lparr>ps_current_profile := n, ps_access_key := a, ps_found_profile := True, ps_secret_key := s, ps_current_profile := c\<rparr>"
      using scanned_others [of p ps "st\<lparr>ps_current_profile := n, ps_access_key := a, ps_found_profile := True, ps_secret_key := s\<rparr>"]
        Cons.prems(3) calculation(3) by auto
    ultimately show ?thesis
      using scanned_step [OF plain, of p n ps st] True by (intro exI [of _ c]) (simp add: x)
  next
    case False
    then show ?thesis
      using scanned_step [OF plain, of p n ps st] Cons.IH [of "st\<lparr>ps_current_profile := n\<rparr>"] Cons.prems by (auto simp: x)
  qed
qed simp

text \<open>A credentials file with these profiles.\<close>

definition profiles_file :: "(string \<times> string \<times> string) list \<Rightarrow> bytes" where
  "profiles_file ps = text_bytes (profiles_text ps)"

definition good_profiles :: "(string \<times> string \<times> string) list \<Rightarrow> bool" where
  "good_profiles ps \<longleftrightarrow>
     distinct (map fst ps) \<and> (\<forall>(n, a, s) \<in> set ps. CHR 0x0A \<notin> set n \<and> plain_word a \<and> plain_word s)"

lemma profile_is_found:
  assumes good: "good_profiles ps" and p: "(p, a, s) \<in> set ps"
    and path: "credentials_path getenv file = Some f" and read: "fs_read io fs f = Some (profiles_file ps)"
  shows "create_from_profile getenv io fs p file =
    Some (provider_of Profile (new_static_credentials\<lparr>access_key_id := a, secret_access_key := s\<rparr>))"
proof -
  have plain: "\<forall>(n, a, s) \<in> set ps. plain_word a \<and> plain_word s" and dist: "distinct (map fst ps)"
    using good by (auto simp: good_profiles_def)
  have lf: "\<forall>l \<in> set (concat (map section_lines ps)). CHR 0x0A \<notin> set l"
    using good by (fastforce simp: good_profiles_def section_lines_def plain_word_def blank_or_end_def)
  have "scan_profile p (profiles_text ps) = scanned p ps empty_scan"
    by (simp add: scan_profile_def profiles_text_def file_lines_lines [OF lf] scanned_def)
  moreover obtain c where "scanned p ps empty_scan =
      empty_scan\<lparr>ps_current_profile := c, ps_access_key := a, ps_found_profile := True, ps_secret_key := s\<rparr>"
    using scanned_found [OF dist p plain] by blast
  moreover have "a \<noteq> []" "s \<noteq> []" using plain p by (auto simp: plain_word_def)
  ultimately show ?thesis
    using path read
    by (simp add: create_from_profile_def profiles_file_def Let_def empty_scan_def new_static_credentials_def)
qed

text \<open>The provider for a named profile holds that profile's keys, but after a successful \<open>refresh\<close> it holds the keys of the
  profile \<open>default\<close> of the file in the home directory: the name, and the file it was created with, are forgotten.
\<close>

theorem refresh_forgets_profile:
  assumes "good_profiles ps" "(p, a, s) \<in> set ps" "fs_read io fs f = Some (profiles_file ps)"
    and "credentials_path getenv file = Some f" "credentials_path getenv None = Some g"
    and "good_profiles qs" "(''default'', b, t) \<in> set qs" "fs_read io fs g = Some (profiles_file qs)"
  shows "\<exists>c. create_from_profile getenv io fs p file = Some c \<and>
    map_option access_key_id (cp_credentials c) = Some a \<and> map_option secret_access_key (cp_credentials c) = Some s \<and>
    (\<exists>c'. refresh_credentials getenv io fs c = (c', True) \<and>
       map_option access_key_id (cp_credentials c') = Some b \<and> map_option secret_access_key (cp_credentials c') = Some t)"
  using profile_is_found [OF assms(1,2,4,3)] profile_is_found [OF assms(6,7,5,8)]
  by (simp add: refresh_credentials_def take_credentials_def provider_of_def new_static_credentials_def)

theorem refresh_forgets_profile_witness:
  "\<exists>c. create_from_profile (\<lambda>_. Some ''/h'') reliable
      [''/h/.aws/credentials'' \<mapsto> profiles_file [(''work'', ''A'', ''B''), (''default'', ''C'', ''D'')]] ''work'' None = Some c \<and>
    map_option access_key_id (cp_credentials c) = Some ''A'' \<and> map_option secret_access_key (cp_credentials c) = Some ''B'' \<and>
    (\<exists>c'. refresh_credentials (\<lambda>_. Some ''/h'') reliable
        [''/h/.aws/credentials'' \<mapsto> profiles_file [(''work'', ''A'', ''B''), (''default'', ''C'', ''D'')]] c = (c', True) \<and>
       map_option access_key_id (cp_credentials c') = Some ''C'' \<and> map_option secret_access_key (cp_credentials c') = Some ''D'')"
  by (rule refresh_forgets_profile [where f = "''/h/.aws/credentials''" and g = "''/h/.aws/credentials''" and
        ps = "[(''work'', ''A'', ''B''), (''default'', ''C'', ''D'')]" and qs = "[(''work'', ''A'', ''B''), (''default'', ''C'', ''D'')]"])
    (simp_all add: good_profiles_def plain_word_def blank_or_end_def blank_def credentials_path_def path_append_def fs_read_def)

end
