(* ===== verification/Gcs_Json.thy ===== *)
theory Gcs_Json
  imports Cloud_Http Quoted_Text
begin

text \<open>
  The texts that cloud/gcs_storage.cpp reads and writes: object metadata and listings in JSON, service accounts, and
  the token requests (JSON Web Tokens) signed with their keys. RSA signatures come from OpenSSL
  (\<open>ge_rsa_sign\<close>: the text and the key in PEM; \<open>None\<close> if the key cannot be read). \<open>std::mktime\<close> reads a broken-down time in
  the time zone of the process and is a parameter, too.
\<close>

record 'w gcs_env =
  ge_cloud :: "'w cloud_env"
  ge_rsa_sign :: "string \<Rightarrow> string \<Rightarrow> bytes option"
  ge_mktime :: "tm \<Rightarrow> int"

section \<open>Objects\<close>

definition parse_updated :: "'w gcs_env \<Rightarrow> string \<Rightarrow> int option" where
  "parse_updated env s =
     map_option (ge_mktime env)
       (get_time ([Year_number, Literal CHR ''-'', Month_number, Literal CHR ''-'', Day_of_month, Literal CHR ''T''] @
                  clock_items) zero_tm (dropWhile is_space s))"

definition parse_object_metadata :: "'w gcs_env \<Rightarrow> string \<Rightarrow> cloud_object_metadata" where
  "parse_object_metadata env json =
     (let text = (\<lambda>key. case json_value json key of Some v \<Rightarrow> v | None \<Rightarrow> [])
      in (new_object_metadata (text ''name''))
           \<lparr>cm_size := (case Option.bind (json_value json ''size'') (stoull 10) of Some n \<Rightarrow> word_of_nat n | None \<Rightarrow> 0),
            cm_content_type := text ''contentType'',
            cm_etag := text ''etag'',
            cm_last_modified := (case Option.bind (json_value json ''updated'') (parse_updated env) of Some t \<Rightarrow> t | None \<Rightarrow> 0),
            cm_storage_class := json_value json ''storageClass''\<rparr>)"

text \<open>
  From behind an opening brace: the text up to the brace that closes it and what follows, \<open>None\<close> at the end of the text.
  Braces in strings count like any others.
\<close>

fun matching_brace :: "nat \<Rightarrow> string \<Rightarrow> (string \<times> string) option" where
  "matching_brace depth [] = None"
| "matching_brace depth (c # cs) =
     (if c = CHR ''}'' \<and> depth = 1 then Some ([c], cs)
      else map_option (\<lambda>(a, b). (c # a, b))
             (matching_brace (if c = CHR ''{'' then depth + 1 else if c = CHR ''}'' then depth - 1 else depth) cs))"

lemma matching_brace_split: "matching_brace d s = Some (a, b) \<Longrightarrow> s = a @ b \<and> a \<noteq> []"
  by (induction d s arbitrary: a b rule: matching_brace.induct) (force split: if_splits)+

definition array_ends :: "string \<Rightarrow> bool" where
  "array_ends s =
     (case dropWhile (\<lambda>c. c \<noteq> CHR '','' \<and> c \<noteq> CHR '']'') s of c # _ \<Rightarrow> c = CHR '']'' | [] \<Rightarrow> False)"

function object_texts :: "string \<Rightarrow> string list" where
  "object_texts s =
     (case dropWhile (\<lambda>c. c \<noteq> CHR ''{'') s of
        [] \<Rightarrow> []
      | b # r \<Rightarrow>
          (case matching_brace 1 r of
             None \<Rightarrow> []
           | Some (body, rest) \<Rightarrow> (b # body) # (if array_ends rest then [] else object_texts rest)))"
  by pat_completeness auto
termination
proof (relation "measure length", goal_cases)
  case (2 s b r x body rest)
  have "length (dropWhile (\<lambda>c. c \<noteq> CHR ''{'') s) \<le> length s" by (rule length_dropWhile_le)
  with 2 matching_brace_split [of 1 r body rest] show ?case by auto
qed simp

declare object_texts.simps [simp del]

definition parse_list_response :: "'w gcs_env \<Rightarrow> string \<Rightarrow> cloud_object_metadata list \<times> string option" where
  "parse_list_response env json =
     (let token = (case json_value json ''nextPageToken'' of Some t \<Rightarrow> if t \<noteq> [] then Some t else None | None \<Rightarrow> None)
      in case find_sub ([CHR 0x22] @ ''items'' @ [CHR 0x22]) json of
           None \<Rightarrow> ([], token)
         | Some rest \<Rightarrow>
             (case dropWhile (\<lambda>c. c \<noteq> CHR ''['') rest of
                [] \<Rightarrow> ([], token)
              | _ # items \<Rightarrow> (map (parse_object_metadata env) (object_texts items), token)))"

text \<open>The strings of the array \<open>prefixes\<close>, up to the first closing bracket.\<close>

function quoted_strings :: "string \<Rightarrow> string list" where
  "quoted_strings s =
     (case dropWhile (\<lambda>c. c \<noteq> CHR 0x22) s of
        [] \<Rightarrow> []
      | _ # r \<Rightarrow>
          (case dropWhile (\<lambda>c. c \<noteq> CHR 0x22) r of
             [] \<Rightarrow> []
           | _ # rest \<Rightarrow> takeWhile (\<lambda>c. c \<noteq> CHR 0x22) r # quoted_strings rest))"
  by pat_completeness auto
termination
proof (relation "measure length", goal_cases)
  case (2 s q r p rest)
  then show ?case
    using length_dropWhile_le [of "\<lambda>c. c \<noteq> CHR 0x22" s] length_dropWhile_le [of "\<lambda>c. c \<noteq> CHR 0x22" r] by auto
qed simp

declare quoted_strings.simps [simp del]

definition parse_prefixes :: "string \<Rightarrow> string list" where
  "parse_prefixes json =
     (case find_sub ([CHR 0x22] @ ''prefixes'' @ [CHR 0x22]) json of
        None \<Rightarrow> []
      | Some rest \<Rightarrow>
          (case dropWhile (\<lambda>c. c \<noteq> CHR ''['') rest of
             [] \<Rightarrow> []
           | _ # items \<Rightarrow>
               if CHR '']'' \<in> set items then quoted_strings (takeWhile (\<lambda>c. c \<noteq> CHR '']'') items) else []))"

section \<open>Service accounts\<close>

definition json_gap :: "char \<Rightarrow> bool" where
  "json_gap c \<longleftrightarrow> c \<in> {CHR '' '', CHR 0x09, CHR 0x0A, CHR 0x0D, CHR '':''}"

text \<open>What follows the opening quote of the value of a key.\<close>

definition value_start :: "string \<Rightarrow> string \<Rightarrow> string option" where
  "value_start json key =
     (let search = [CHR 0x22] @ key @ [CHR 0x22]
      in case find_sub search json of
           None \<Rightarrow> None
         | Some rest \<Rightarrow>
             (case dropWhile json_gap (drop (length search) rest) of
                c # cs \<Rightarrow> if c = CHR 0x22 then Some cs else None
              | [] \<Rightarrow> None))"

definition extract_json_string :: "string \<Rightarrow> string \<Rightarrow> string option" where
  "extract_json_string json key =
     (case value_start json key of
        None \<Rightarrow> None
      | Some cs \<Rightarrow> if CHR 0x22 \<in> set cs then Some (takeWhile (\<lambda>c. c \<noteq> CHR 0x22) cs) else None)"

text \<open>The private key: five escapes are read, a backslash before anything else stays.\<close>

fun unescape_key :: "string \<Rightarrow> string" where
  "unescape_key [] = []"
| "unescape_key [c] = (if c = CHR 0x22 then [] else [c])"
| "unescape_key (c # d # s) =
     (if c = CHR 0x5C then
        if d = CHR 0x22 \<or> d = CHR 0x5C then d # unescape_key s
        else if d = CHR ''n'' then CHR 0x0A # unescape_key s
        else if d = CHR ''t'' then CHR 0x09 # unescape_key s
        else if d = CHR ''r'' then CHR 0x0D # unescape_key s
        else c # unescape_key (d # s)
      else if c = CHR 0x22 then []
      else c # unescape_key (d # s))"

record service_account_info =
  sa_project_id :: string
  sa_private_key_id :: string
  sa_private_key :: string
  sa_client_email :: string
  sa_client_id :: string
  sa_token_uri :: string
  sa_valid :: bool

definition parse_service_account_json :: "string \<Rightarrow> service_account_info" where
  "parse_service_account_json json =
     (let text = (\<lambda>key. case extract_json_string json key of Some v \<Rightarrow> v | None \<Rightarrow> []);
          private_key = (case value_start json ''private_key'' of Some cs \<Rightarrow> unescape_key cs | None \<Rightarrow> [])
      in \<lparr>sa_project_id = text ''project_id'', sa_private_key_id = text ''private_key_id'', sa_private_key = private_key,
          sa_client_email = text ''client_email'', sa_client_id = text ''client_id'',
          sa_token_uri = (if text ''token_uri'' = [] then ''https://oauth2.googleapis.com/token'' else text ''token_uri''),
          sa_valid = (text ''project_id'' \<noteq> [] \<and> private_key \<noteq> [] \<and> text ''client_email'' \<noteq> [])\<rparr>)"

section \<open>Token requests\<close>

text \<open>A member of a JSON object.\<close>

definition json_member :: "string \<Rightarrow> string \<Rightarrow> string" where
  "json_member name v = [CHR 0x22] @ name @ [CHR 0x22] @ '':'' @ v"

definition json_text :: "string \<Rightarrow> string" where
  "json_text v = [CHR 0x22] @ v @ [CHR 0x22]"

definition jwt_header :: string where
  "jwt_header = ''{'' @ json_member ''alg'' (json_text ''RS256'') @ '','' @ json_member ''typ'' (json_text ''JWT'') @ ''}''"

definition jwt_claim :: "service_account_info \<Rightarrow> string \<Rightarrow> int \<Rightarrow> string" where
  "jwt_claim sa scope now =
     ''{'' @ json_member ''iss'' (json_text (sa_client_email sa)) @ '','' @ json_member ''scope'' (json_text scope) @ '','' @
     json_member ''aud'' (json_text (sa_token_uri sa)) @ '','' @ json_member ''iat'' (dec_int now) @ '','' @
     json_member ''exp'' (dec_int (now + 3600)) @ ''}''"

definition create_jwt :: "'w gcs_env \<Rightarrow> service_account_info \<Rightarrow> string \<Rightarrow> 'w \<Rightarrow> 'w \<times> string option" where
  "create_jwt env sa scope w =
     (case ce_now (ge_cloud env) w of
        (w, now) \<Rightarrow>
          let signing_input =
                base64url_encode (text_bytes jwt_header) @ ''.'' @ base64url_encode (text_bytes (jwt_claim sa scope now))
          in (w, map_option (\<lambda>sig. signing_input @ ''.'' @ base64url_encode sig)
                   (ge_rsa_sign env signing_input (sa_private_key sa))))"


section \<open>A written account is read back\<close>

text \<open>A JSON object with string members in the usual layout; the values are written as they are.\<close>

fun member_pieces :: "(string \<times> string) list \<Rightarrow> string list" where
  "member_pieces [] = []"
| "member_pieces [(n, v)] = [n, '': '', v, [newline] @ ''}'']"
| "member_pieces ((n, v) # m # ms) = [n, '': '', v, '','' @ [newline] @ ''  ''] @ member_pieces (m # ms)"

definition members_text :: "(string \<times> string) list \<Rightarrow> string" where
  "members_text ms = quoted ((''{'' @ [newline] @ ''  '') # member_pieces ms)"

definition escape_key_char :: "char \<Rightarrow> string" where
  "escape_key_char c =
     (if c = backslash then [backslash, backslash]
      else if c = CHR 0x0A then [backslash, CHR ''n'']
      else if c = CHR 0x09 then [backslash, CHR ''t'']
      else if c = CHR 0x0D then [backslash, CHR ''r'']
      else [c])"

definition escape_key :: "string \<Rightarrow> string" where
  "escape_key s = concat (map escape_key_char s)"

definition account_members :: "service_account_info \<Rightarrow> (string \<times> string) list" where
  "account_members sa =
     [(''type'', ''service_account''), (''project_id'', sa_project_id sa), (''private_key_id'', sa_private_key_id sa),
      (''private_key'', escape_key (sa_private_key sa)), (''client_email'', sa_client_email sa),
      (''client_id'', sa_client_id sa), (''token_uri'', sa_token_uri sa)]"

definition member_names :: "string list" where
  "member_names = [''type'', ''project_id'', ''private_key_id'', ''private_key'', ''client_email'', ''client_id'', ''token_uri'']"

text \<open>The fields hold no quotes, none is the name of a member, and what a valid account needs is there.\<close>

definition writable_account :: "service_account_info \<Rightarrow> bool" where
  "writable_account sa \<longleftrightarrow>
     (\<forall>v \<in> set (map snd (account_members sa)). dquote \<notin> set v \<and> v \<notin> set member_names) \<and>
     sa_project_id sa \<noteq> [] \<and> sa_private_key sa \<noteq> [] \<and> sa_client_email sa \<noteq> [] \<and> sa_token_uri sa \<noteq> [] \<and> sa_valid sa"

lemma unescape_escape_key: "dquote \<notin> set s \<Longrightarrow> unescape_key (escape_key s @ dquote # r) = s"
proof (induction s)
  case (Cons c s)
  obtain d t where t: "escape_key s @ dquote # r = d # t" by (cases "escape_key s") auto
  then show ?case using Cons by (auto simp: escape_key_def escape_key_char_def)
next
  case Nil
  show ?case by (cases r) (simp_all add: escape_key_def)
qed

lemma member_pieces_Cons:
  "\<exists>c ps. member_pieces ((n, v) # ms) = [n, '': '', v, c] @ ps \<and> (ms \<noteq> [] \<longrightarrow> c = '','' @ [newline] @ ''  '' \<and> ps = member_pieces ms)"
  by (cases ms) auto

lemma set_member_pieces:
  "set (member_pieces ms) \<subseteq> fst ` set ms \<union> snd ` set ms \<union> {'': '', [newline] @ ''}'', '','' @ [newline] @ ''  ''}"
  by (induction ms rule: member_pieces.induct) auto

lemma member_pieces_append:
  "ms \<noteq> [] \<Longrightarrow> \<exists>ps. member_pieces (ls @ ms) = ps @ member_pieces ms \<and>
     set ps \<subseteq> fst ` set ls \<union> snd ` set ls \<union> {'': '', '','' @ [newline] @ ''  ''}"
proof (induction ls)
  case (Cons l ls)
  obtain n v where l: "l = (n, v)" by (cases l)
  obtain ps where "member_pieces (ls @ ms) = ps @ member_pieces ms"
      "set ps \<subseteq> fst ` set ls \<union> snd ` set ls \<union> {'': '', '','' @ [newline] @ ''  ''}"
    using Cons by blast
  moreover obtain m ms' where "ls @ ms = m # ms'" using Cons.prems by (cases "ls @ ms") auto
  ultimately show ?case by (intro exI [of _ "[n, '': '', v, '','' @ [newline] @ ''  ''] @ ps"]) (auto simp: l)
qed simp

text \<open>The value of a member is found when no earlier name or value is its name.\<close>

lemma value_of_member:
  assumes ms: "ms = ls @ (n, v) # rs" and quotes: "\<forall>(a, b) \<in> set ms. dquote \<notin> set a \<and> dquote \<notin> set b"
    and first: "\<forall>(a, b) \<in> set ls. a \<noteq> n \<and> b \<noteq> n" and n: "n \<notin> {'': '', '','' @ [newline] @ ''  ''}"
  shows "\<exists>r. value_start (members_text ms) n = Some (v @ dquote # r)"
proof -
  obtain ps where ps: "member_pieces ms = ps @ member_pieces ((n, v) # rs)"
      "set ps \<subseteq> fst ` set ls \<union> snd ` set ls \<union> {'': '', '','' @ [newline] @ ''  ''}"
    using member_pieces_append [of "(n, v) # rs" ls] ms by blast
  obtain c qs where qs: "member_pieces ((n, v) # rs) = [n, '': '', v, c] @ qs" using member_pieces_Cons by blast
  have "\<forall>p \<in> set ps. dquote \<notin> set p" "dquote \<notin> set n" using ps(2) quotes ms by fastforce+
  moreover have "n \<notin> set ps" using ps(2) first n by fastforce
  ultimately have "find_key n (members_text ms) = Some (dquote # quoted (n # '': '' # v # c # qs))"
    using find_piece [of "''{'' @ [newline] @ ''  ''" ps n "'': ''" "v # c # qs"] by (simp add: members_text_def ps(1) qs)
  moreover obtain r where "quoted (v # c # qs) = v @ dquote # r" by simp
  ultimately show ?thesis by (simp add: value_start_def find_key_def json_gap_def)
qed

lemma member_name_facts:
  assumes "n \<in> set member_names"
  shows "n \<notin> {'': '', '','' @ [newline] @ ''  ''} \<and> dquote \<notin> set n"
  using assms by (auto simp: member_names_def)

lemma account_value:
  assumes "writable_account sa" "account_members sa = ls @ (n, v) # rs" "n \<notin> fst ` set ls"
  shows "\<exists>r. value_start (members_text (account_members sa)) n = Some (v @ dquote # r)"
proof -
  obtain ms where ms: "account_members sa = ms" by simp
  have "map fst ms = member_names" unfolding ms [symmetric] by (simp add: account_members_def member_names_def)
  then have names: "fst ` set ms = set member_names" by (metis list.set_map)
  have vals: "\<forall>v \<in> snd ` set ms. dquote \<notin> set v \<and> v \<notin> set member_names"
    using assms(1) unfolding writable_account_def ms by simp
  have n: "n \<in> set member_names" using assms(2) unfolding names [symmetric] ms by force
  show ?thesis
    unfolding ms
  proof (rule value_of_member)
    show "ms = ls @ (n, v) # rs" using assms(2) ms by simp
    then show "\<forall>(a, b) \<in> set ls. a \<noteq> n \<and> b \<noteq> n" using vals n assms(3) by force
    have "dquote \<notin> set (fst x) \<and> dquote \<notin> set (snd x)" if "x \<in> set ms" for x
      using imageI [OF that, of fst] imageI [OF that, of snd] vals member_name_facts unfolding names by blast
    then show "\<forall>(a, b) \<in> set ms. dquote \<notin> set a \<and> dquote \<notin> set b" by auto
  qed (use member_name_facts [OF n] in blast)
qed

lemma account_text_value:
  assumes "writable_account sa" "account_members sa = ls @ (n, v) # rs" "n \<notin> fst ` set ls"
  shows "extract_json_string (members_text (account_members sa)) n = Some v"
proof -
  have "dquote \<notin> set v" using assms(1,2) unfolding writable_account_def by force
  then have "takeWhile (\<lambda>c. c \<noteq> dquote) (v @ dquote # r) = v" for r by (induction v) auto
  then show ?thesis using account_value [OF assms] by (auto simp: extract_json_string_def)
qed

text \<open>C38: the file of a service account that is written with its private key escaped is read back: every field, the key with its
  line ends, and that the account is valid. The fields hold no quotes and none is the name of a member, since the reader takes
  the first quoted text that is the name it looks for.
\<close>

theorem service_account_roundtrip:
  assumes "writable_account sa"
  shows "parse_service_account_json (members_text (account_members sa)) = sa"
proof -
  note m = account_members_def [of sa]
  let ?t = "members_text (account_members sa)"
  have "extract_json_string ?t ''project_id'' = Some (sa_project_id sa)"
    by (rule account_text_value [OF assms, of "take 1 (account_members sa)" _ _ "drop 2 (account_members sa)"]) (simp_all add: m)
  moreover have "extract_json_string ?t ''private_key_id'' = Some (sa_private_key_id sa)"
    by (rule account_text_value [OF assms, of "take 2 (account_members sa)" _ _ "drop 3 (account_members sa)"]) (simp_all add: m)
  moreover have "extract_json_string ?t ''client_email'' = Some (sa_client_email sa)"
    by (rule account_text_value [OF assms, of "take 4 (account_members sa)" _ _ "drop 5 (account_members sa)"]) (simp_all add: m)
  moreover have "extract_json_string ?t ''client_id'' = Some (sa_client_id sa)"
    by (rule account_text_value [OF assms, of "take 5 (account_members sa)" _ _ "drop 6 (account_members sa)"]) (simp_all add: m)
  moreover have "extract_json_string ?t ''token_uri'' = Some (sa_token_uri sa)"
    by (rule account_text_value [OF assms, of "take 6 (account_members sa)" _ _ "drop 7 (account_members sa)"]) (simp_all add: m)
  moreover obtain r where "value_start ?t ''private_key'' = Some (escape_key (sa_private_key sa) @ dquote # r)"
    using account_value [OF assms, of "take 3 (account_members sa)" "''private_key''" _ "drop 4 (account_members sa)"] by (auto simp: m)
  moreover have "dquote \<notin> set (sa_private_key sa)"
  proof -
    have "dquote \<notin> set (escape_key (sa_private_key sa))" using assms unfolding writable_account_def m by simp
    then show ?thesis by (auto simp: escape_key_def escape_key_char_def split: if_splits)
  qed
  ultimately show ?thesis
    using assms by (simp add: parse_service_account_json_def unescape_escape_key writable_account_def)
qed

definition sample_account :: service_account_info where
  "sample_account =
     \<lparr>sa_project_id = ''p'', sa_private_key_id = ''1'', sa_private_key = ''-'' @ [newline, backslash] @ ''k'', sa_client_email = ''a@p'',
      sa_client_id = [], sa_token_uri = ''https://t'', sa_valid = True\<rparr>"

theorem service_account_roundtrip_witness:
  "parse_service_account_json (members_text (account_members sample_account)) = sample_account"
  by (rule service_account_roundtrip)
    (simp add: writable_account_def account_members_def member_names_def sample_account_def escape_key_def escape_key_char_def)

end
