(* ===== verification/Gcs_Upload_Stream.thy ===== *)
theory Gcs_Upload_Stream
  imports Gcs_Json S3_Upload_Stream
begin

text \<open>
  The streams of cloud/gcs_storage.cpp. \<open>gcs_upload_stream\<close> cuts the data into chunks and starts a thread for each, like the
  stream of the S3 client, but \<open>upload_chunk\<close> is a stub that only hashes its data: no request is sent, and \<open>finalize\<close> makes up
  the result. The threads run when a schedule lets them: each step of a schedule names the pending
  chunks that finish before the stream looks again; \<open>None\<close> means that the schedule was too short.
  \<open>upload_chunk_async\<close> moves the data into the thread and adds its size afterwards, when it is 0.
\<close>

section \<open>State\<close>

datatype chunk_future = Chunk_running u64 bytes | Chunk_ready "unit result" | Chunk_taken

record gcs_upload_stream =
  gu_object_name :: string
  gu_config :: gcs_config
  gu_upload_id :: string
  gu_buffer :: bytes
  gu_bytes_written :: u64
  gu_bytes_committed :: u64
  gu_finalized :: bool
  gu_aborted :: bool
  gu_pending_uploads :: "(u64 \<times> chunk_future) list"

definition open_gcs_upload_stream :: "'w gcs_env \<Rightarrow> string \<Rightarrow> gcs_config \<Rightarrow> 'w \<Rightarrow> gcs_upload_stream \<times> 'w" where
  "open_gcs_upload_stream env name cfg w =
     (case ce_random (ge_cloud env) 16 w of
        (w, bs) \<Rightarrow>
          (\<lparr>gu_object_name = name, gu_config = cfg, gu_upload_id = bytes_to_hex bs, gu_buffer = [], gu_bytes_written = 0,
            gu_bytes_committed = 0, gu_finalized = False, gu_aborted = False, gu_pending_uploads = []\<rparr>, w))"

section \<open>Chunks\<close>

definition gcs_upload_chunk :: "u64 \<Rightarrow> bytes \<Rightarrow> unit result" where
  "gcs_upload_chunk offset data = Inr ()"

definition run_chunk :: "nat \<Rightarrow> gcs_upload_stream \<Rightarrow> gcs_upload_stream" where
  "run_chunk i u =
     (if i < length (gu_pending_uploads u)
      then (case gu_pending_uploads u ! i of
              (n, Chunk_running off d) \<Rightarrow>
                u\<lparr>gu_pending_uploads := (gu_pending_uploads u)[i := (n, Chunk_ready (gcs_upload_chunk off d))]\<rparr>
            | _ \<Rightarrow> u)
      else u)"

definition run_chunks :: "nat list \<Rightarrow> gcs_upload_stream \<Rightarrow> gcs_upload_stream" where
  "run_chunks is u = foldl (\<lambda>u i. run_chunk i u) u is"

fun chunk_runs :: "u64 \<times> chunk_future \<Rightarrow> bool" where
  "chunk_runs (n, Chunk_running off d) = True"
| "chunk_runs _ = False"

definition gcs_active_upload_count :: "gcs_upload_stream \<Rightarrow> nat" where
  "gcs_active_upload_count u = length (filter chunk_runs (gu_pending_uploads u))"

text \<open>The chunks that stay pending, the new value of \<open>bytes_committed\<close>, and the result.\<close>

fun collect_chunks :: "(u64 \<times> chunk_future) list \<Rightarrow> u64 \<Rightarrow> (u64 \<times> chunk_future) list \<times> u64 \<times> unit result" where
  "collect_chunks [] c = ([], c, Inr ())"
| "collect_chunks ((n, Chunk_taken) # ps) c = collect_chunks ps c"
| "collect_chunks ((n, Chunk_ready (Inl e)) # ps) c = ((n, Chunk_taken) # ps, c, Inl e)"
| "collect_chunks ((n, Chunk_ready (Inr _)) # ps) c = collect_chunks ps (max c n)"
| "collect_chunks ((n, Chunk_running off d) # ps) c =
     (case collect_chunks ps c of (ps', c, r) \<Rightarrow> ((n, Chunk_running off d) # ps', c, r))"

definition gcs_collect_completed :: "gcs_upload_stream \<Rightarrow> gcs_upload_stream \<times> unit result" where
  "gcs_collect_completed u =
     (case collect_chunks (gu_pending_uploads u) (gu_bytes_committed u) of
        (ps, c, r) \<Rightarrow> (u\<lparr>gu_pending_uploads := ps, gu_bytes_committed := c\<rparr>, r))"

text \<open>\<open>future.get()\<close> waits for the thread.\<close>

fun wait_chunks :: "(u64 \<times> chunk_future) list \<Rightarrow> (u64 \<times> chunk_future) list \<times> unit result" where
  "wait_chunks [] = ([], Inr ())"
| "wait_chunks ((n, f) # ps) =
     (case (case f of Chunk_running off d \<Rightarrow> gcs_upload_chunk off d | Chunk_ready r \<Rightarrow> r | Chunk_taken \<Rightarrow> Inr ()) of
        Inl e \<Rightarrow> ((n, Chunk_taken) # ps, Inl e)
      | Inr _ \<Rightarrow> (case wait_chunks ps of (ps', r) \<Rightarrow> ((n, Chunk_taken) # ps', r)))"

definition gcs_wait_all :: "gcs_upload_stream \<Rightarrow> gcs_upload_stream \<times> unit result" where
  "gcs_wait_all u =
     (case wait_chunks (gu_pending_uploads u) of
        (ps, Inl e) \<Rightarrow> (u\<lparr>gu_pending_uploads := ps\<rparr>, Inl e)
      | (ps, Inr _) \<Rightarrow> (u\<lparr>gu_pending_uploads := []\<rparr>, Inr ()))"

definition gcs_slots_taken :: "gcs_upload_stream \<Rightarrow> bool" where
  "gcs_slots_taken u \<longleftrightarrow> gcs_active_upload_count u \<ge> mp_max_concurrent_parts (sc_multipart (gu_config u))"

fun gcs_wait_for_slot ::
  "schedule \<Rightarrow> gcs_upload_stream \<Rightarrow> (gcs_upload_stream \<times> schedule \<times> unit result) option" where
  "gcs_wait_for_slot [] u = (if gcs_slots_taken u then None else Some (u, [], Inr ()))"
| "gcs_wait_for_slot (is # sch) u =
     (if gcs_slots_taken u
      then (case gcs_collect_completed (run_chunks is u) of
              (u, Inl e) \<Rightarrow> Some (u, sch, Inl e)
            | (u, Inr _) \<Rightarrow> gcs_wait_for_slot sch u)
      else Some (u, is # sch, Inr ()))"

definition gcs_upload_chunk_async :: "u64 \<Rightarrow> bytes \<Rightarrow> gcs_upload_stream \<Rightarrow> gcs_upload_stream" where
  "gcs_upload_chunk_async offset data u =
     u\<lparr>gu_pending_uploads := gu_pending_uploads u @ [(offset + 0, Chunk_running offset data)]\<rparr>"

section \<open>Writing\<close>

definition gcs_flush :: "schedule \<Rightarrow> gcs_upload_stream \<Rightarrow> (gcs_upload_stream \<times> schedule \<times> unit result) option" where
  "gcs_flush sch u =
     (case sch of
        [] \<Rightarrow> None
      | is # sch \<Rightarrow>
          (case gcs_wait_for_slot sch (run_chunks is u) of
             None \<Rightarrow> None
           | Some (u, sch, Inl e) \<Rightarrow> Some (u, sch, Inl e)
           | Some (u, sch, Inr _) \<Rightarrow>
               (case gcs_collect_completed u of
                  (u, Inl e) \<Rightarrow> Some (u, sch, Inl e)
                | (u, Inr _) \<Rightarrow>
                    Some ((gcs_upload_chunk_async (gu_bytes_written u) (gu_buffer u) u)\<lparr>gu_buffer := []\<rparr>, sch, Inr ()))))"

lemma gcs_wait_for_slot_schedule: "gcs_wait_for_slot sch u = Some (u', sch', r) \<Longrightarrow> length sch' \<le> length sch"
  by (induction sch u rule: gcs_wait_for_slot.induct) (auto intro: le_SucI split: if_splits prod.splits sum.splits)

lemma gcs_flush_schedule: "gcs_flush sch u = Some (u', sch', r) \<Longrightarrow> length sch' < length sch"
  by (auto simp: gcs_flush_def dest!: gcs_wait_for_slot_schedule split: list.splits prod.splits option.splits sum.splits)

definition gcs_space :: "gcs_upload_stream \<Rightarrow> nat" where
  "gcs_space u = unat (mp_part_size (sc_multipart (gu_config u))) - length (gu_buffer u)"

function gcs_write_loop ::
  "schedule \<Rightarrow> bytes \<Rightarrow> gcs_upload_stream \<Rightarrow> (gcs_upload_stream \<times> schedule \<times> unit result) option" where
  "gcs_write_loop sch data u =
     (if data = [] then Some (u, sch, Inr ())
      else let u' = u\<lparr>gu_buffer := gu_buffer u @ take (gcs_space u) data\<rparr>; rest = drop (gcs_space u) data
           in if gcs_space u' = 0
              then (case gcs_flush sch u' of
                      None \<Rightarrow> None
                    | Some (u', sch', Inl e) \<Rightarrow> Some (u', sch', Inl e)
                    | Some (u', sch', Inr _) \<Rightarrow> gcs_write_loop sch' rest u')
              else gcs_write_loop sch rest u')"
  by pat_completeness auto
termination
proof (relation "measures [\<lambda>(sch, data, u). length sch, \<lambda>(sch, data, u). length data]", goal_cases)
  case (3 sch data u u' rest)
  then show ?case by (cases "gcs_space u") (auto simp: gcs_space_def)
qed (auto dest: gcs_flush_schedule)

declare gcs_write_loop.simps [simp del]

definition gcs_write ::
  "schedule \<Rightarrow> bytes \<Rightarrow> gcs_upload_stream \<Rightarrow> (gcs_upload_stream \<times> schedule \<times> nat result) option" where
  "gcs_write sch data u =
     (if gu_finalized u \<or> gu_aborted u then Some (u, sch, Inl Internal_error)
      else case gcs_write_loop sch data u of
             None \<Rightarrow> None
           | Some (u, sch, Inl e) \<Rightarrow> Some (u, sch, Inl e)
           | Some (u, sch, Inr _) \<Rightarrow>
               Some (u\<lparr>gu_bytes_written := gu_bytes_written u + word_of_nat (length data)\<rparr>, sch, Inr (length data)))"

section \<open>Closing\<close>

definition gcs_finalize_upload :: "'w gcs_env \<Rightarrow> gcs_upload_stream \<Rightarrow> upload_result" where
  "gcs_finalize_upload env u =
     (new_upload_result (gu_object_name u)
        (in_quotes (payload_hash_of (ge_cloud env)
           (text_bytes (gu_object_name u @ '':'' @ dec_digits (unat (gu_bytes_written u))))))
        (gu_bytes_written u))
       \<lparr>ur_upload_id := Some (gu_upload_id u)\<rparr>"

definition gcs_finalize :: "'w gcs_env \<Rightarrow> gcs_upload_stream \<Rightarrow> gcs_upload_stream \<times> upload_result result" where
  "gcs_finalize env u =
     (if gu_finalized u \<or> gu_aborted u then (u, Inl Internal_error)
      else case (if gu_buffer u = [] then Inr ()
                 else gcs_upload_chunk (gu_bytes_written u - word_of_nat (length (gu_buffer u))) (gu_buffer u)) of
             Inl e \<Rightarrow> (u, Inl e)
           | Inr _ \<Rightarrow>
               (case gcs_wait_all u of
                  (u, Inl e) \<Rightarrow> (u, Inl e)
                | (u, Inr _) \<Rightarrow> (u\<lparr>gu_finalized := True\<rparr>, Inr (gcs_finalize_upload env u))))"

definition gcs_abort :: "gcs_upload_stream \<Rightarrow> gcs_upload_stream \<times> unit result" where
  "gcs_abort u = (u\<lparr>gu_aborted := True\<rparr>, Inr ())"

section \<open>Downloading\<close>

record gcs_download_stream =
  gd_object_name :: string
  gd_metadata :: cloud_object_metadata
  gd_bytes_read :: u64
  gd_total_size :: u64

definition open_gcs_download_stream :: "string \<Rightarrow> gcs_download_stream" where
  "open_gcs_download_stream name =
     \<lparr>gd_object_name = name, gd_metadata = (new_object_metadata name)\<lparr>cm_content_type := detect_content_type name\<rparr>,
      gd_bytes_read = 0, gd_total_size = 0\<rparr>"

definition gcs_read :: "nat \<Rightarrow> gcs_download_stream \<Rightarrow> gcs_download_stream \<times> bytes result" where
  "gcs_read n d = (d, Inr [])"

definition gcs_has_more :: "gcs_download_stream \<Rightarrow> bool" where
  "gcs_has_more d \<longleftrightarrow> gd_bytes_read d < gd_total_size d"

end
