(* ===== verification/Gcs_Storage.thy ===== *)
theory Gcs_Storage
  imports Gcs_Upload_Stream File_System
begin

text \<open>
  The Google Cloud Storage backend of cloud/gcs_storage.cpp: the state of \<open>gcs_storage::impl\<close>, its token and its
  operations, each a function of the storage, the world of the services and, for the file operations, the file system.
  With the network the HTTP client is always there. Times are seconds. The \<open>_async\<close> operations run the same functions
  on a thread; progress callbacks are stored and never called; parent directories are not modelled, and a file
  that can be opened is read whole. \<open>gs_notified\<close> is what a state callback sees. Each operation takes the token under its lock.
\<close>

section \<open>State\<close>

record gcs_storage =
  gs_config :: gcs_config
  gs_state :: cloud_storage_state
  gs_stats :: cloud_storage_statistics
  gs_connected_at :: int
  gs_notified :: "cloud_storage_state list"
  gs_access_token :: string
  gs_token_expiry :: int

text \<open>\<open>gcs_storage::create\<close>; \<open>there\<close>: whether a credential provider is passed.\<close>

definition gcs_create :: "gcs_config \<Rightarrow> bool \<Rightarrow> gcs_storage option" where
  "gcs_create cfg there =
     (if sc_bucket cfg = [] \<or> \<not> there then None
      else Some \<lparr>gs_config = cfg, gs_state = Cs_disconnected, gs_stats = zero_cloud_statistics, gs_connected_at = 0,
                 gs_notified = [], gs_access_token = [], gs_token_expiry = 0\<rparr>)"

definition gcs_set_state :: "cloud_storage_state \<Rightarrow> gcs_storage \<Rightarrow> gcs_storage" where
  "gcs_set_state new s = s\<lparr>gs_state := new, gs_notified := gs_notified s @ [new]\<rparr>"

definition gcs_is_connected :: "gcs_storage \<Rightarrow> bool" where
  "gcs_is_connected s \<longleftrightarrow> gs_state s = Cs_connected"

definition gcs_update_upload_stats :: "u64 \<Rightarrow> gcs_storage \<Rightarrow> gcs_storage" where
  "gcs_update_upload_stats n s =
     s\<lparr>gs_stats := (gs_stats s)\<lparr>cst_bytes_uploaded := cst_bytes_uploaded (gs_stats s) + n,
                                cst_upload_count := cst_upload_count (gs_stats s) + 1\<rparr>\<rparr>"

definition gcs_update_download_stats :: "u64 \<Rightarrow> gcs_storage \<Rightarrow> gcs_storage" where
  "gcs_update_download_stats n s =
     s\<lparr>gs_stats := (gs_stats s)\<lparr>cst_bytes_downloaded := cst_bytes_downloaded (gs_stats s) + n,
                                cst_download_count := cst_download_count (gs_stats s) + 1\<rparr>\<rparr>"

definition gcs_update_list_stats :: "gcs_storage \<Rightarrow> gcs_storage" where
  "gcs_update_list_stats s = s\<lparr>gs_stats := (gs_stats s)\<lparr>cst_list_count := cst_list_count (gs_stats s) + 1\<rparr>\<rparr>"

definition gcs_update_delete_stats :: "gcs_storage \<Rightarrow> gcs_storage" where
  "gcs_update_delete_stats s = s\<lparr>gs_stats := (gs_stats s)\<lparr>cst_delete_count := cst_delete_count (gs_stats s) + 1\<rparr>\<rparr>"

definition gcs_update_error_stats :: "gcs_storage \<Rightarrow> gcs_storage" where
  "gcs_update_error_stats s = s\<lparr>gs_stats := (gs_stats s)\<lparr>cst_errors := cst_errors (gs_stats s) + 1\<rparr>\<rparr>"

definition gcs_connect :: "'w gcs_env \<Rightarrow> int \<Rightarrow> gcs_storage \<Rightarrow> 'w \<Rightarrow> gcs_storage \<times> unit result" where
  "gcs_connect env now s w =
     (let s = gcs_set_state Cs_connecting s
      in if ce_credentials (ge_cloud env) w = None then (gcs_set_state Cs_error s, Inl Internal_error)
         else (gcs_set_state Cs_connected
                 (s\<lparr>gs_connected_at := now, gs_stats := (gs_stats s)\<lparr>cst_connected_at := now\<rparr>\<rparr>), Inr ()))"

definition gcs_disconnect :: "gcs_storage \<Rightarrow> gcs_storage \<times> unit result" where
  "gcs_disconnect s = (gcs_set_state Cs_disconnected s, Inr ())"

definition gcs_reset_statistics :: "gcs_storage \<Rightarrow> gcs_storage" where
  "gcs_reset_statistics s = s\<lparr>gs_stats := zero_cloud_statistics\<lparr>cst_connected_at := gs_connected_at s\<rparr>\<rparr>"

section \<open>Tokens\<close>

definition token_scope :: string where
  "token_scope = ''https://www.googleapis.com/auth/devstorage.full_control''"

definition token_request :: "service_account_info \<Rightarrow> string \<Rightarrow> http_request" where
  "token_request sa jwt =
     \<lparr>rq_method = ''POST'', rq_url = sa_token_uri sa,
      rq_headers = [(''Content-Type'', ''application/x-www-form-urlencoded'')],
      rq_body = text_bytes (''grant_type=urn:ietf:params:oauth:grant-type:jwt-bearer&assertion='' @ jwt)\<rparr>"

definition expires_seconds :: "string \<Rightarrow> int" where
  "expires_seconds body =
     (case Option.bind (json_value body ''expires_in'') (sto_signed 64 10) of Some n \<Rightarrow> n | None \<Rightarrow> 3600)"

definition fetch_token :: "'w gcs_env \<Rightarrow> service_account_info \<Rightarrow> gcs_storage \<Rightarrow> 'w \<Rightarrow> gcs_storage \<times> 'w \<times> string result" where
  "fetch_token env sa s w =
     (case create_jwt env sa token_scope w of
        (w, None) \<Rightarrow> (s, w, Inl Internal_error)
      | (w, Some jwt) \<Rightarrow>
          (case ce_http (ge_cloud env) (token_request sa jwt) w of
             (w, None) \<Rightarrow> (s, w, Inl Internal_error)
           | (w, Some r) \<Rightarrow>
               if rs_status r \<noteq> 200 then (s, w, Inl Internal_error)
               else (case json_value (get_body_string r) ''access_token'' of
                       None \<Rightarrow> (s, w, Inl Internal_error)
                     | Some token \<Rightarrow>
                         (case ce_now (ge_cloud env) w of
                            (w, t) \<Rightarrow>
                              (s\<lparr>gs_access_token := token, gs_token_expiry := t + expires_seconds (get_body_string r)\<rparr>,
                               w, Inr token)))))"

definition get_access_token :: "'w gcs_env \<Rightarrow> gcs_storage \<Rightarrow> 'w \<Rightarrow> gcs_storage \<times> 'w \<times> string result" where
  "get_access_token env s w =
     (if \<not> ce_network (ge_cloud env) \<or> \<not> ce_encryption (ge_cloud env) then (s, w, Inl Internal_error)
      else case ce_now (ge_cloud env) w of
             (w, now) \<Rightarrow>
               if gs_access_token s \<noteq> [] \<and> now + 60 < gs_token_expiry s then (s, w, Inr (gs_access_token s))
               else (case ce_credentials (ge_cloud env) w of
                       Some (Gcs c) \<Rightarrow>
                         (case gc_service_account_json c of
                            None \<Rightarrow> (s, w, Inl Internal_error)
                          | Some json \<Rightarrow>
                              if sa_valid (parse_service_account_json json)
                              then fetch_token env (parse_service_account_json json) s w
                              else (s, w, Inl Internal_error))
                     | _ \<Rightarrow> (s, w, Inl Internal_error)))"

section \<open>Addresses and requests\<close>

definition gcs_endpoint :: "gcs_config \<Rightarrow> string" where
  "gcs_endpoint cfg = (case sc_endpoint cfg of Some e \<Rightarrow> e | None \<Rightarrow> ''https://storage.googleapis.com'')"

definition objects_url :: "gcs_config \<Rightarrow> string" where
  "objects_url cfg = gcs_endpoint cfg @ ''/storage/v1/b/'' @ sc_bucket cfg @ ''/o''"

definition gcs_object_url :: "gcs_config \<Rightarrow> string \<Rightarrow> string" where
  "gcs_object_url cfg key = objects_url cfg @ ''/'' @ url_encode key True"

definition media_upload_url :: "gcs_config \<Rightarrow> string \<Rightarrow> string" where
  "media_upload_url cfg key =
     gcs_endpoint cfg @ ''/upload/storage/v1/b/'' @ sc_bucket cfg @ ''/o?uploadType=media&name='' @ url_encode key True"

text \<open>The request of an operation with its token; a missing token or answer counts as an error.\<close>

definition gcs_call ::
  "'w gcs_env \<Rightarrow> string \<Rightarrow> string \<Rightarrow> (string \<times> string) list \<Rightarrow> bytes \<Rightarrow> gcs_storage \<Rightarrow> 'w \<Rightarrow>
   gcs_storage \<times> 'w \<times> http_response result" where
  "gcs_call env method url extra body s w =
     (case get_access_token env s w of
        (s, w, Inl e) \<Rightarrow> (gcs_update_error_stats s, w, Inl e)
      | (s, w, Inr token) \<Rightarrow>
          (case ce_http (ge_cloud env)
                  \<lparr>rq_method = method, rq_url = url,
                   rq_headers = header_puts ((''Authorization'', ''Bearer '' @ token) # extra) [], rq_body = body\<rparr> w of
             (w, None) \<Rightarrow> (gcs_update_error_stats s, w, Inl Internal_error)
           | (w, Some r) \<Rightarrow> (s, w, Inr r)))"

section \<open>Uploads\<close>

definition gcs_use_resumable :: "gcs_config \<Rightarrow> bytes \<Rightarrow> bool" where
  "gcs_use_resumable cfg data \<longleftrightarrow>
     mp_enabled (sc_multipart cfg) \<and> length data \<ge> unat (mp_threshold (sc_multipart cfg))"

definition gcs_upload_media ::
  "'w gcs_env \<Rightarrow> string \<Rightarrow> bytes \<Rightarrow> cloud_transfer_options \<Rightarrow> gcs_storage \<Rightarrow> 'w \<Rightarrow> gcs_storage \<times> 'w \<times> upload_result result" where
  "gcs_upload_media env key data opts s w =
     (let n = word_of_nat (length data)
      in if \<not> ce_network (ge_cloud env)
         then (gcs_update_upload_stats n s, w, Inr (new_upload_result key (in_quotes (payload_hash_of (ge_cloud env) data)) n))
         else case gcs_call env ''POST'' (media_upload_url (gs_config s) key)
                     [(''Content-Type'', case ct_content_type opts of Some t \<Rightarrow> t | None \<Rightarrow> detect_content_type key),
                      (''Content-Length'', dec_digits (length data))] data s w of
                (s, w, Inl e) \<Rightarrow> (s, w, Inl e)
              | (s, w, Inr r) \<Rightarrow>
                  if rs_status r \<noteq> 200 then (gcs_update_error_stats s, w, Inl Internal_error)
                  else (gcs_update_upload_stats n s, w,
                        Inr (new_upload_result key (cm_etag (parse_object_metadata env (get_body_string r))) n)))"

definition gcs_upload_resumable ::
  "'w gcs_env \<Rightarrow> schedule \<Rightarrow> string \<Rightarrow> bytes \<Rightarrow> gcs_storage \<Rightarrow> 'w \<Rightarrow> (gcs_storage \<times> 'w \<times> upload_result result) option" where
  "gcs_upload_resumable env sch key data s w =
     (case open_gcs_upload_stream env key (gs_config s) w of
        (u, w) \<Rightarrow>
          (case gcs_write sch data u of
             None \<Rightarrow> None
           | Some (u, _, Inl e) \<Rightarrow> Some (gcs_update_error_stats s, w, Inl e)
           | Some (u, _, Inr _) \<Rightarrow>
               (case gcs_finalize env u of
                  (u, Inl e) \<Rightarrow> Some (gcs_update_error_stats s, w, Inl e)
                | (u, Inr r) \<Rightarrow> Some (gcs_update_upload_stats (word_of_nat (length data)) s, w, Inr r))))"

definition gcs_upload ::
  "'w gcs_env \<Rightarrow> schedule \<Rightarrow> string \<Rightarrow> bytes \<Rightarrow> cloud_transfer_options \<Rightarrow> gcs_storage \<Rightarrow> 'w \<Rightarrow>
   (gcs_storage \<times> 'w \<times> upload_result result) option" where
  "gcs_upload env sch key data opts s w =
     (if \<not> gcs_is_connected s then Some (s, w, Inl Not_initialized)
      else if gcs_use_resumable (gs_config s) data then gcs_upload_resumable env sch key data s w
      else Some (gcs_upload_media env key data opts s w))"

definition gcs_upload_file ::
  "'w gcs_env \<Rightarrow> io_env \<Rightarrow> filesystem \<Rightarrow> schedule \<Rightarrow> path \<Rightarrow> string \<Rightarrow> cloud_transfer_options \<Rightarrow> gcs_storage \<Rightarrow> 'w \<Rightarrow>
   (gcs_storage \<times> 'w \<times> upload_result result) option" where
  "gcs_upload_file env io fs sch local_path key opts s w =
     (if \<not> gcs_is_connected s then Some (s, w, Inl Not_initialized)
      else if \<not> fs_exists fs local_path then Some (s, w, Inl File_not_found)
      else case fs_read io fs local_path of
             None \<Rightarrow> Some (s, w, Inl File_access_denied)
           | Some data \<Rightarrow> gcs_upload env sch key data opts s w)"

section \<open>Downloads\<close>

text \<open>The answers of the operations that ask for one object.\<close>

definition check_found :: "gcs_storage \<times> 'w \<times> http_response result \<Rightarrow> gcs_storage \<times> 'w \<times> http_response result" where
  "check_found a =
     (case a of
        (s, w, Inl e) \<Rightarrow> (s, w, Inl e)
      | (s, w, Inr r) \<Rightarrow>
          if rs_status r = 404 then (gcs_update_error_stats s, w, Inl File_not_found)
          else if rs_status r \<noteq> 200 then (gcs_update_error_stats s, w, Inl Internal_error)
          else (s, w, Inr r))"

definition gcs_download :: "'w gcs_env \<Rightarrow> string \<Rightarrow> gcs_storage \<Rightarrow> 'w \<Rightarrow> gcs_storage \<times> 'w \<times> bytes result" where
  "gcs_download env key s w =
     (if \<not> gcs_is_connected s then (s, w, Inl Not_initialized)
      else if \<not> ce_network (ge_cloud env) then (gcs_update_download_stats 0 s, w, Inr [])
      else case check_found (gcs_call env ''GET'' (gcs_object_url (gs_config s) key @ ''?alt=media'') [] [] s w) of
             (s, w, Inl e) \<Rightarrow> (s, w, Inl e)
           | (s, w, Inr r) \<Rightarrow> (gcs_update_download_stats (word_of_nat (length (rs_body r))) s, w, Inr (rs_body r)))"

definition gcs_download_file ::
  "'w gcs_env \<Rightarrow> io_env \<Rightarrow> string \<Rightarrow> path \<Rightarrow> gcs_storage \<Rightarrow> 'w \<Rightarrow> filesystem \<Rightarrow>
   gcs_storage \<times> 'w \<times> filesystem \<times> download_result result" where
  "gcs_download_file env io key local_path s w fs =
     (if \<not> gcs_is_connected s then (s, w, fs, Inl Not_initialized)
      else case gcs_download env key s w of
             (s, w, Inl e) \<Rightarrow> (s, w, fs, Inl e)
           | (s, w, Inr data) \<Rightarrow>
               if open_write_fails io local_path then (s, w, fs, Inl File_access_denied)
               else if write_fails io local_path then (s, w, fs(local_path \<mapsto> []), Inl File_write_error)
               else (s, w, fs(local_path \<mapsto> data),
                     Inr \<lparr>dr_key = key, dr_bytes_downloaded = word_of_nat (length data),
                          dr_metadata = (new_object_metadata key)\<lparr>cm_size := word_of_nat (length data)\<rparr>\<rparr>))"

section \<open>Deleting and looking up\<close>

definition gcs_delete_object :: "'w gcs_env \<Rightarrow> string \<Rightarrow> gcs_storage \<Rightarrow> 'w \<Rightarrow> gcs_storage \<times> 'w \<times> delete_result result" where
  "gcs_delete_object env key s w =
     (if \<not> gcs_is_connected s then (s, w, Inl Not_initialized)
      else if \<not> ce_network (ge_cloud env) then (gcs_update_delete_stats s, w, Inr (new_delete_result key))
      else case gcs_call env ''DELETE'' (gcs_object_url (gs_config s) key) [] [] s w of
             (s, w, Inl e) \<Rightarrow> (s, w, Inl e)
           | (s, w, Inr r) \<Rightarrow>
               if rs_status r = 404 then (gcs_update_error_stats s, w, Inl File_not_found)
               else if rs_status r \<noteq> 204 \<and> rs_status r \<noteq> 200 then (gcs_update_error_stats s, w, Inl Internal_error)
               else (gcs_update_delete_stats s, w, Inr (new_delete_result key)))"

fun gcs_delete_each :: "'w gcs_env \<Rightarrow> string list \<Rightarrow> gcs_storage \<Rightarrow> 'w \<Rightarrow> gcs_storage \<times> 'w \<times> delete_result list" where
  "gcs_delete_each env [] s w = (s, w, [])"
| "gcs_delete_each env (key # keys) s w =
     (case gcs_delete_object env key s w of
        (s, w, r) \<Rightarrow>
          (case gcs_delete_each env keys s w of
             (s, w, rs) \<Rightarrow> (s, w, case r of Inl _ \<Rightarrow> rs | Inr d \<Rightarrow> d # rs)))"

definition gcs_delete_objects ::
  "'w gcs_env \<Rightarrow> string list \<Rightarrow> gcs_storage \<Rightarrow> 'w \<Rightarrow> gcs_storage \<times> 'w \<times> delete_result list result" where
  "gcs_delete_objects env keys s w =
     (if \<not> gcs_is_connected s then (s, w, Inl Not_initialized)
      else case gcs_delete_each env keys s w of (s, w, rs) \<Rightarrow> (s, w, Inr rs))"

definition gcs_exists :: "'w gcs_env \<Rightarrow> string \<Rightarrow> gcs_storage \<Rightarrow> 'w \<Rightarrow> gcs_storage \<times> 'w \<times> bool result" where
  "gcs_exists env key s w =
     (if \<not> gcs_is_connected s then (s, w, Inl Not_initialized)
      else if \<not> ce_network (ge_cloud env) then (s, w, Inr False)
      else case gcs_call env ''GET'' (gcs_object_url (gs_config s) key @ ''?fields=name'') [] [] s w of
             (s, w, Inl e) \<Rightarrow> (s, w, Inl e)
           | (s, w, Inr r) \<Rightarrow>
               if rs_status r = 404 then (s, w, Inr False)
               else if rs_status r = 200 then (s, w, Inr True)
               else (gcs_update_error_stats s, w, Inl Internal_error))"

definition gcs_get_metadata :: "'w gcs_env \<Rightarrow> string \<Rightarrow> gcs_storage \<Rightarrow> 'w \<Rightarrow> gcs_storage \<times> 'w \<times> cloud_object_metadata result" where
  "gcs_get_metadata env key s w =
     (if \<not> gcs_is_connected s then (s, w, Inl Not_initialized)
      else if \<not> ce_network (ge_cloud env)
      then (s, w, Inr ((new_object_metadata key)\<lparr>cm_content_type := detect_content_type key\<rparr>))
      else case check_found (gcs_call env ''GET'' (gcs_object_url (gs_config s) key) [] [] s w) of
             (s, w, Inl e) \<Rightarrow> (s, w, Inl e)
           | (s, w, Inr r) \<Rightarrow> (s, w, Inr (parse_object_metadata env (get_body_string r))))"

section \<open>Listing\<close>

definition query_param :: "string \<Rightarrow> string option \<Rightarrow> string list" where
  "query_param name v =
     (case v of Some x \<Rightarrow> if x \<noteq> [] then [name @ ''='' @ url_encode x True] else [] | None \<Rightarrow> [])"

definition gcs_list_url :: "gcs_config \<Rightarrow> list_objects_options \<Rightarrow> string" where
  "gcs_list_url cfg opts =
     objects_url cfg @ ''?'' @
     join_with ''&''
       (query_param ''prefix'' (lq_prefix opts) @ query_param ''delimiter'' (lq_delimiter opts) @
        (if lq_max_keys opts > 0 then [''maxResults='' @ url_encode (dec_digits (lq_max_keys opts)) True] else []) @
        query_param ''pageToken'' (lq_token opts))"

definition gcs_list_objects ::
  "'w gcs_env \<Rightarrow> list_objects_options \<Rightarrow> gcs_storage \<Rightarrow> 'w \<Rightarrow> gcs_storage \<times> 'w \<times> list_objects_result result" where
  "gcs_list_objects env opts s w =
     (if \<not> gcs_is_connected s then (s, w, Inl Not_initialized)
      else if \<not> ce_network (ge_cloud env)
      then (gcs_update_list_stats s, w, Inr \<lparr>lr_objects = [], lr_common_prefixes = [], lr_is_truncated = False,
                                            lr_token = None, lr_total_count = None\<rparr>)
      else case gcs_call env ''GET'' (gcs_list_url (gs_config s) opts) [] [] s w of
             (s, w, Inl e) \<Rightarrow> (s, w, Inl e)
           | (s, w, Inr r) \<Rightarrow>
               if rs_status r \<noteq> 200 then (gcs_update_error_stats s, w, Inl Internal_error)
               else (case parse_list_response env (get_body_string r) of
                       (objs, token) \<Rightarrow>
                         (gcs_update_list_stats s, w,
                          Inr \<lparr>lr_objects = objs, lr_common_prefixes = parse_prefixes (get_body_string r),
                               lr_is_truncated = (token \<noteq> None), lr_token = token, lr_total_count = None\<rparr>)))"

section \<open>Copying and composing\<close>

definition gcs_copy_object ::
  "'w gcs_env \<Rightarrow> string \<Rightarrow> string \<Rightarrow> cloud_transfer_options \<Rightarrow> gcs_storage \<Rightarrow> 'w \<Rightarrow> gcs_storage \<times> 'w \<times> cloud_object_metadata result" where
  "gcs_copy_object env source_key dest_key opts s w =
     (if \<not> gcs_is_connected s then (s, w, Inl Not_initialized)
      else if \<not> ce_network (ge_cloud env) then (s, w, Inr (new_object_metadata dest_key))
      else case check_found (gcs_call env ''POST''
                  (gcs_object_url (gs_config s) source_key @ ''/copyTo/b/'' @ sc_bucket (gs_config s) @ ''/o/'' @
                   url_encode dest_key True)
                  [(''Content-Type'', ''application/json'')]
                  (text_bytes (case ct_content_type opts of
                                 Some t \<Rightarrow> ''{'' @ json_member ''contentType'' (json_text t) @ ''}''
                               | None \<Rightarrow> ''{}'')) s w) of
             (s, w, Inl e) \<Rightarrow> (s, w, Inl e)
           | (s, w, Inr r) \<Rightarrow> (s, w, Inr (parse_object_metadata env (get_body_string r))))"

definition compose_body :: "string list \<Rightarrow> string option \<Rightarrow> string" where
  "compose_body source_keys content_type =
     ''{'' @ json_member ''sourceObjects''
       (''['' @ join_with '','' (map (\<lambda>k. ''{'' @ json_member ''name'' (json_text k) @ ''}'') source_keys) @ '']'') @ '','' @
     json_member ''destination''
       (''{'' @ (case content_type of Some t \<Rightarrow> json_member ''contentType'' (json_text t) | None \<Rightarrow> []) @ ''}'') @ ''}''"

definition compose_objects ::
  "'w gcs_env \<Rightarrow> string list \<Rightarrow> string \<Rightarrow> cloud_transfer_options \<Rightarrow> gcs_storage \<Rightarrow> 'w \<Rightarrow>
   gcs_storage \<times> 'w \<times> cloud_object_metadata result" where
  "compose_objects env source_keys dest_key opts s w =
     (if \<not> gcs_is_connected s then (s, w, Inl Not_initialized)
      else if source_keys = [] \<or> length source_keys > 32 then (s, w, Inl Internal_error)
      else if \<not> ce_network (ge_cloud env) then (s, w, Inr (new_object_metadata dest_key))
      else case gcs_call env ''POST'' (gcs_object_url (gs_config s) dest_key @ ''/compose'')
                  [(''Content-Type'', ''application/json'')] (text_bytes (compose_body source_keys (ct_content_type opts))) s w of
             (s, w, Inl e) \<Rightarrow> (s, w, Inl e)
           | (s, w, Inr r) \<Rightarrow>
               if rs_status r \<noteq> 200 then (gcs_update_error_stats s, w, Inl Internal_error)
               else (s, w, Inr (parse_object_metadata env (get_body_string r))))"

section \<open>Streams, classes and signed addresses\<close>

definition gcs_create_upload_stream :: "'w gcs_env \<Rightarrow> string \<Rightarrow> gcs_storage \<Rightarrow> 'w \<Rightarrow> gcs_upload_stream option \<times> 'w" where
  "gcs_create_upload_stream env key s w =
     (if \<not> gcs_is_connected s then (None, w)
      else case open_gcs_upload_stream env key (gs_config s) w of (u, w) \<Rightarrow> (Some u, w))"

definition gcs_create_download_stream :: "string \<Rightarrow> gcs_storage \<Rightarrow> gcs_download_stream option" where
  "gcs_create_download_stream key s = (if gcs_is_connected s then Some (open_gcs_download_stream key) else None)"

definition set_storage_class :: "string \<Rightarrow> string \<Rightarrow> gcs_storage \<Rightarrow> unit result" where
  "set_storage_class key cls s = (if gcs_is_connected s then Inr () else Inl Not_initialized)"

definition get_storage_class :: "string \<Rightarrow> gcs_storage \<Rightarrow> string result" where
  "get_storage_class key s = (if gcs_is_connected s then Inr ''STANDARD'' else Inl Not_initialized)"

text \<open>The address carries a fixed account and the word \<open>placeholder\<close> instead of a signature.\<close>

definition generate_signed_url ::
  "'w gcs_env \<Rightarrow> string \<Rightarrow> presigned_url_options \<Rightarrow> gcs_storage \<Rightarrow> 'w \<Rightarrow> 'w \<times> string result" where
  "generate_signed_url env key opts s w =
     (if \<not> ce_encryption (ge_cloud env) then (w, Inl Internal_error)
      else case ce_credentials (ge_cloud env) w of
             Some (Gcs c) \<Rightarrow>
               (case ce_now (ge_cloud env) w of
                  (w, _) \<Rightarrow>
                    (case ce_now (ge_cloud env) w of
                       (w, t) \<Rightarrow>
                         (w, Inr (''https://storage.googleapis.com/'' @ sc_bucket (gs_config s) @ ''/'' @ key @
                                  ''?X-Goog-Algorithm=GOOG4-RSA-SHA256&X-Goog-Credential='' @
                                  url_encode ''placeholder@project.iam.gserviceaccount.com'' True @
                                  ''&X-Goog-Date='' @ get_rfc3339_time t @ ''&X-Goog-Expires='' @ dec_int (pu_expiration opts) @
                                  ''&X-Goog-SignedHeaders=host&X-Goog-Signature=placeholder''))))
           | _ \<Rightarrow> (w, Inl Internal_error))"

end
