(* ===== verification/Gcs_Credentials.thy ===== *)
theory Gcs_Credentials
  imports Gcs_Json S3_Credentials
begin

text \<open>
  The credential provider of cloud/gcs_storage.cpp: service accounts from the program, from a file or named by the
  environment, and the project of a machine with a metadata server. The class keeps an access token that no
  operation sets, so it stays empty. Files are read by streams: \<open>None\<close> if the file cannot be opened.
\<close>

record gcs_provider =
  gp_type :: credential_type
  gp_credentials :: gcs_credentials
  gp_state :: credential_state
  gp_auth_type :: string
  gp_service_account_email :: string
  gp_access_token :: string
  gp_token_expiry :: int
  gp_auto_refresh_enabled :: bool
  gp_auto_refresh_interval :: int

text \<open>The two constructors.\<close>

definition provider_with :: "gcs_credentials \<Rightarrow> gcs_provider" where
  "provider_with c =
     \<lparr>gp_type = Service_account, gp_credentials = c, gp_state = Cred_valid, gp_auth_type = ''service-account'',
      gp_service_account_email =
        (case gc_service_account_json c of
           Some json \<Rightarrow>
             if sa_valid (parse_service_account_json json) then sa_client_email (parse_service_account_json json) else []
         | None \<Rightarrow> []),
      gp_access_token = [], gp_token_expiry = 0, gp_auto_refresh_enabled = False, gp_auto_refresh_interval = 60\<rparr>"

definition provider_for_project :: "credential_type \<Rightarrow> string \<Rightarrow> gcs_provider" where
  "provider_for_project t project =
     \<lparr>gp_type = t, gp_credentials = new_gcs_credentials\<lparr>gc_project_id := Some project\<rparr>, gp_state = Cred_uninitialized,
      gp_auth_type = [], gp_service_account_email = [], gp_access_token = [], gp_token_expiry = 0,
      gp_auto_refresh_enabled = False, gp_auto_refresh_interval = 60\<rparr>"

definition create_gcs_provider :: "io_env \<Rightarrow> filesystem \<Rightarrow> gcs_credentials \<Rightarrow> gcs_provider option" where
  "create_gcs_provider io fs c =
     (case (gc_service_account_json c, gc_service_account_file c) of
        (Some _, _) \<Rightarrow> Some (provider_with c)
      | (None, Some f) \<Rightarrow>
          map_option (\<lambda>content. provider_with (c\<lparr>gc_service_account_json := Some (bytes_text content)\<rparr>)) (fs_read io fs f)
      | (None, None) \<Rightarrow> None)"

definition create_from_service_account_json :: "string \<Rightarrow> gcs_provider option" where
  "create_from_service_account_json json =
     (let info = parse_service_account_json json
      in if \<not> sa_valid info then None
         else Some ((provider_for_project Service_account (sa_project_id info))
                      \<lparr>gp_credentials := new_gcs_credentials
                         \<lparr>gc_service_account_json := Some json, gc_project_id := Some (sa_project_id info)\<rparr>,
                       gp_service_account_email := sa_client_email info, gp_auth_type := ''service-account-json'',
                       gp_state := Cred_valid\<rparr>))"

definition create_from_service_account_file :: "io_env \<Rightarrow> filesystem \<Rightarrow> path \<Rightarrow> gcs_provider option" where
  "create_from_service_account_file io fs f =
     Option.bind (fs_read io fs f) (\<lambda>content. create_from_service_account_json (bytes_text content))"

definition gcs_create_from_environment :: "getenv \<Rightarrow> io_env \<Rightarrow> filesystem \<Rightarrow> gcs_provider option" where
  "gcs_create_from_environment getenv io fs =
     (case Option.bind (getenv ''GOOGLE_APPLICATION_CREDENTIALS'') (create_from_service_account_file io fs) of
        Some p \<Rightarrow> Some (p\<lparr>gp_auth_type := ''environment''\<rparr>)
      | None \<Rightarrow>
          map_option
            (\<lambda>project. (provider_for_project Environment project)\<lparr>gp_auth_type := ''environment-metadata'', gp_state := Cred_valid\<rparr>)
            (case getenv ''GOOGLE_CLOUD_PROJECT'' of Some p \<Rightarrow> Some p | None \<Rightarrow> getenv ''GCLOUD_PROJECT''))"

definition gcs_create_default :: "getenv \<Rightarrow> io_env \<Rightarrow> filesystem \<Rightarrow> gcs_provider option" where
  "gcs_create_default getenv io fs =
     (case gcs_create_from_environment getenv io fs of
        Some p \<Rightarrow> Some p
      | None \<Rightarrow>
          (case getenv ''HOME'' of
             None \<Rightarrow> None
           | Some home \<Rightarrow>
               let f = home @ ''/.config/gcloud/application_default_credentials.json''
               in if fs_exists fs f
                  then map_option (\<lambda>p. p\<lparr>gp_auth_type := ''application-default''\<rparr>) (create_from_service_account_file io fs f)
                  else None))"

section \<open>Refreshing\<close>

definition gcs_refresh :: "getenv \<Rightarrow> io_env \<Rightarrow> filesystem \<Rightarrow> gcs_provider \<Rightarrow> gcs_provider \<times> bool" where
  "gcs_refresh getenv io fs p =
     (if gp_type p = Service_account then (p, True)
      else if gp_type p = Environment
      then (case gcs_create_from_environment getenv io fs of
              Some q \<Rightarrow> (p\<lparr>gp_credentials := gp_credentials q, gp_state := Cred_valid\<rparr>, True)
            | None \<Rightarrow> (p, False))
      else (p, False))"

definition gcs_needs_refresh :: "int \<Rightarrow> int \<Rightarrow> gcs_provider \<Rightarrow> bool" where
  "gcs_needs_refresh now buffer p \<longleftrightarrow>
     (case time_until_expiration now (gp_credentials p) of Some t \<Rightarrow> t \<le> buffer | None \<Rightarrow> False) \<or>
     gp_access_token p \<noteq> [] \<and> now + buffer \<ge> gp_token_expiry p"

definition gcs_set_auto_refresh :: "bool \<Rightarrow> int \<Rightarrow> gcs_provider \<Rightarrow> gcs_provider" where
  "gcs_set_auto_refresh enable check_interval p =
     p\<lparr>gp_auto_refresh_enabled := enable, gp_auto_refresh_interval := check_interval\<rparr>"

definition gcs_project_id :: "gcs_provider \<Rightarrow> string" where
  "gcs_project_id p = (case gc_project_id (gp_credentials p) of Some i \<Rightarrow> i | None \<Rightarrow> [])"

end
