(* ===== verification/Gcs_Facts.thy ===== *)
theory Gcs_Facts
  imports Gcs_Storage Gcs_Credentials S3_Stream_Facts
begin

text \<open>
  What the Google Cloud Storage backend guarantees, and what it does not: large objects are reported as uploaded but
  never sent; with a service that keeps its objects, small ones are kept apart by bucket and key; a
  token is used again until a minute before it expires; credentials without a service account connect, but authorise nothing.
\<close>

section \<open>The upload stream never fails and never sends\<close>

fun chunk_fine :: "u64 \<times> chunk_future \<Rightarrow> bool" where
  "chunk_fine (n, Chunk_taken) = False"
| "chunk_fine (n, Chunk_ready r) = (r = Inr ())"
| "chunk_fine (n, Chunk_running off d) = True"

definition chunks_fine :: "gcs_upload_stream \<Rightarrow> bool" where
  "chunks_fine u \<longleftrightarrow> (\<forall>p \<in> set (gu_pending_uploads u). chunk_fine p)"

text \<open>The streams that differ in nothing but what became of their chunks.\<close>

definition same_data :: "gcs_upload_stream \<Rightarrow> gcs_upload_stream \<Rightarrow> bool" where
  "same_data u v \<longleftrightarrow> (\<exists>ps c. v = u\<lparr>gu_pending_uploads := ps, gu_bytes_committed := c\<rparr>)"

lemma same_data_refl [simp]: "same_data u u"
  unfolding same_data_def by (rule exI [of _ "gu_pending_uploads u"], rule exI [of _ "gu_bytes_committed u"]) simp

lemma same_data_trans: "same_data u v \<Longrightarrow> same_data v x \<Longrightarrow> same_data u x"
  unfolding same_data_def by fastforce

lemma same_dataD:
  assumes "same_data u v"
  shows "gu_config v = gu_config u" "gu_buffer v = gu_buffer u" "gu_bytes_written v = gu_bytes_written u"
    "gu_object_name v = gu_object_name u" "gu_upload_id v = gu_upload_id u" "gu_finalized v = gu_finalized u"
    "gu_aborted v = gu_aborted u"
  using assms by (auto simp: same_data_def)

lemma run_chunk_fine:
  assumes "chunks_fine u"
  shows "chunks_fine (run_chunk i u) \<and> same_data u (run_chunk i u) \<and>
    length (gu_pending_uploads (run_chunk i u)) = length (gu_pending_uploads u) \<and>
    (gu_pending_uploads u \<noteq> [] \<and> (i = 0 \<or> \<not> chunk_runs (hd (gu_pending_uploads u))) \<longrightarrow>
       \<not> chunk_runs (hd (gu_pending_uploads (run_chunk i u))))"
proof (cases "i < length (gu_pending_uploads u) \<and> chunk_runs (gu_pending_uploads u ! i)")
  case True
  then obtain n off d where "gu_pending_uploads u ! i = (n, Chunk_running off d)" by (auto elim: chunk_runs.elims)
  let ?ps = "(gu_pending_uploads u)[i := (n, Chunk_ready (Inr ()))]"
  have run: "run_chunk i u = u\<lparr>gu_pending_uploads := ?ps\<rparr>"
    using True \<open>gu_pending_uploads u ! i = _\<close> by (simp add: run_chunk_def gcs_upload_chunk_def)
  have "same_data u (run_chunk i u)"
    unfolding run same_data_def by (rule exI [of _ ?ps], rule exI [of _ "gu_bytes_committed u"]) simp
  moreover have "\<forall>p \<in> set ?ps. chunk_fine p"
    using assms set_update_subset_insert [of "gu_pending_uploads u" i "(n, Chunk_ready (Inr ()))"] by (auto simp: chunks_fine_def)
  moreover have "\<not> chunk_runs (hd ?ps)" if "i = 0 \<or> \<not> chunk_runs (hd (gu_pending_uploads u))"
    using that True by (cases i; cases "gu_pending_uploads u") auto
  ultimately show ?thesis by (simp add: run chunks_fine_def)
next
  case False
  then have "run_chunk i u = u" by (auto simp: run_chunk_def split: prod.splits chunk_future.splits)
  then show ?thesis using False assms by (cases "gu_pending_uploads u") auto
qed

lemma run_chunks_fine:
  assumes "chunks_fine u"
  shows "chunks_fine (run_chunks is u) \<and> same_data u (run_chunks is u) \<and>
    length (gu_pending_uploads (run_chunks is u)) = length (gu_pending_uploads u) \<and>
    (gu_pending_uploads u \<noteq> [] \<and> (0 \<in> set is \<or> \<not> chunk_runs (hd (gu_pending_uploads u))) \<longrightarrow>
       \<not> chunk_runs (hd (gu_pending_uploads (run_chunks is u))))"
  using assms
proof (induction "is" arbitrary: u)
  case (Cons i "is")
  note one = run_chunk_fine [OF Cons.prems, of i]
  note rest = Cons.IH [of "run_chunk i u"]
  have "run_chunks (i # is) u = run_chunks is (run_chunk i u)" by (simp add: run_chunks_def)
  moreover have "gu_pending_uploads u \<noteq> [] \<longleftrightarrow> gu_pending_uploads (run_chunk i u) \<noteq> []"
    using one by (metis length_0_conv)
  moreover have "same_data u (run_chunks is (run_chunk i u))" using one rest same_data_trans by blast
  ultimately show ?case using one rest by auto
qed (simp add: run_chunks_def)

lemma collect_chunks_fine:
  assumes "collect_chunks ps c = (ps', c', r)" "\<forall>p \<in> set ps. chunk_fine p"
  shows "r = Inr () \<and> set ps' \<subseteq> set ps \<and> length ps' \<le> length ps \<and>
    (ps \<noteq> [] \<and> \<not> chunk_runs (hd ps) \<longrightarrow> length ps' < length ps)"
  using assms
  by (induction ps c arbitrary: ps' c' r rule: collect_chunks.induct) (fastforce split: prod.splits)+

lemma collect_fine:
  assumes "chunks_fine u" "gcs_collect_completed u = (u', r)"
  shows "r = Inr () \<and> chunks_fine u' \<and> same_data u u' \<and> length (gu_pending_uploads u') \<le> length (gu_pending_uploads u) \<and>
    (gu_pending_uploads u \<noteq> [] \<and> \<not> chunk_runs (hd (gu_pending_uploads u)) \<longrightarrow>
       length (gu_pending_uploads u') < length (gu_pending_uploads u))"
proof -
  obtain ps c q where coll: "collect_chunks (gu_pending_uploads u) (gu_bytes_committed u) = (ps, c, q)" by (metis prod.exhaust)
  have u': "u' = u\<lparr>gu_pending_uploads := ps, gu_bytes_committed := c\<rparr>" "r = q"
    using assms(2) coll by (simp_all add: gcs_collect_completed_def)
  then have "same_data u u'" unfolding same_data_def by blast
  then show ?thesis
    using collect_chunks_fine [OF coll] assms(1) u' by (auto simp: chunks_fine_def)
qed

abbreviation gcs_slots :: "gcs_upload_stream \<Rightarrow> nat" where
  "gcs_slots u \<equiv> mp_max_concurrent_parts (sc_multipart (gu_config u))"

abbreviation gcs_part_size :: "gcs_upload_stream \<Rightarrow> nat" where
  "gcs_part_size u \<equiv> unat (mp_part_size (sc_multipart (gu_config u)))"

lemma gcs_wait_for_slot_returns:
  assumes "fair_schedule sch" "gcs_slots u > 0" "chunks_fine u" "length sch \<ge> length (gu_pending_uploads u)"
  shows "\<exists>u' sch'. gcs_wait_for_slot sch u = Some (u', sch', Inr ()) \<and> chunks_fine u' \<and> same_data u u' \<and> fair_schedule sch' \<and>
    length sch' + length (gu_pending_uploads u) \<ge> length sch + length (gu_pending_uploads u')"
  using assms
proof (induction sch arbitrary: u)
  case Nil
  then show ?case by (auto simp: gcs_slots_taken_def gcs_active_upload_count_def)
next
  case (Cons ks sch)
  show ?case
  proof (cases "gcs_slots_taken u")
    case True
    obtain u1 q where coll: "gcs_collect_completed (run_chunks ks u) = (u1, q)" by (rule prod.exhaust)
    note run = run_chunks_fine [OF Cons.prems(3), of ks]
    note c = collect_fine [OF conjunct1 [OF run] coll]
    have ne: "gu_pending_uploads u \<noteq> []"
      using True Cons.prems(2) by (auto simp: gcs_slots_taken_def gcs_active_upload_count_def)
    have lens: "length (gu_pending_uploads (run_chunks ks u)) = length (gu_pending_uploads u)" using run by blast
    then have "gu_pending_uploads (run_chunks ks u) \<noteq> []" using ne by (metis length_0_conv)
    moreover have "\<not> chunk_runs (hd (gu_pending_uploads (run_chunks ks u)))" using run ne Cons.prems(1) by simp
    ultimately have less: "length (gu_pending_uploads u1) < length (gu_pending_uploads u)" using c lens by simp
    have same: "same_data u u1" using run c same_data_trans by blast
    then have "gcs_slots u1 > 0" using Cons.prems(2) same_dataD(1) [OF same] by simp
    then obtain u2 sch2 where "gcs_wait_for_slot sch u1 = Some (u2, sch2, Inr ())" "chunks_fine u2" "same_data u1 u2"
        "fair_schedule sch2" "length sch2 + length (gu_pending_uploads u1) \<ge> length sch + length (gu_pending_uploads u2)"
      using Cons.IH [of u1] Cons.prems(1,4) c less by auto
    moreover from this have "same_data u u2" using same same_data_trans by blast
    moreover have "gcs_wait_for_slot (ks # sch) u = gcs_wait_for_slot sch u1" using True coll c by simp
    ultimately show ?thesis using less by (intro exI [of _ u2] exI [of _ sch2]) simp
  qed (use Cons.prems in auto)
qed

lemma gcs_flush_returns:
  assumes "fair_schedule sch" "gcs_slots u > 0" "chunks_fine u" "length sch > length (gu_pending_uploads u)"
  shows "\<exists>u' sch'. gcs_flush sch u = Some (u', sch', Inr ()) \<and> chunks_fine u' \<and> same_data (u\<lparr>gu_buffer := []\<rparr>) u' \<and>
    fair_schedule sch' \<and> length sch' + length (gu_pending_uploads u) + 2 \<ge> length sch + length (gu_pending_uploads u')"
proof -
  obtain ks sch1 where sch: "sch = ks # sch1" using assms(4) by (cases sch) auto
  note run = run_chunks_fine [OF assms(3), of ks]
  have "gcs_slots (run_chunks ks u) > 0" using same_dataD(1) [OF conjunct1 [OF conjunct2 [OF run]]] assms(2) by simp
  then obtain u1 sch2 where slot: "gcs_wait_for_slot sch1 (run_chunks ks u) = Some (u1, sch2, Inr ())" "chunks_fine u1"
      "same_data (run_chunks ks u) u1" "fair_schedule sch2"
      "length sch2 + length (gu_pending_uploads u) \<ge> length sch1 + length (gu_pending_uploads u1)"
    using gcs_wait_for_slot_returns [of sch1 "run_chunks ks u"] run assms sch by auto
  obtain u2 q where coll: "gcs_collect_completed u1 = (u2, q)" by (rule prod.exhaust)
  note c = collect_fine [OF slot(2) coll]
  have "same_data u u2" using same_data_trans [OF conjunct1 [OF conjunct2 [OF run]] same_data_trans [OF slot(3)]] c by blast
  then obtain ps k where u2: "u2 = u\<lparr>gu_pending_uploads := ps, gu_bytes_committed := k\<rparr>" by (auto simp: same_data_def)
  let ?u = "(gcs_upload_chunk_async (gu_bytes_written u2) (gu_buffer u2) u2)\<lparr>gu_buffer := []\<rparr>"
  have "?u = u\<lparr>gu_buffer := [], gu_pending_uploads := gu_pending_uploads ?u, gu_bytes_committed := k\<rparr>"
    by (rule gcs_upload_stream.equality) (simp_all add: gcs_upload_chunk_async_def u2)
  then have "same_data (u\<lparr>gu_buffer := []\<rparr>) ?u" unfolding same_data_def by blast
  moreover have "chunks_fine ?u" using c by (auto simp: chunks_fine_def gcs_upload_chunk_async_def)
  moreover have "gcs_flush sch u = Some (?u, sch2, Inr ())" using slot(1) coll c by (simp add: gcs_flush_def sch)
  ultimately show ?thesis using slot(4,5) c by (auto simp: sch gcs_upload_chunk_async_def)
qed

text \<open>The number of times that the buffer fills up, and what is left in it.\<close>

definition chunk_count :: "gcs_upload_stream \<Rightarrow> bytes \<Rightarrow> nat" where
  "chunk_count u data = (length (gu_buffer u) + length data) div gcs_part_size u"

lemma gcs_write_loop_returns:
  assumes "fair_schedule sch" "gcs_slots u > 0" "chunks_fine u" "length (gu_buffer u) < gcs_part_size u"
    and "length sch \<ge> length (gu_pending_uploads u) + 2 * chunk_count u data"
  shows "\<exists>u' sch' b. gcs_write_loop sch data u = Some (u', sch', Inr ()) \<and> chunks_fine u' \<and> same_data (u\<lparr>gu_buffer := b\<rparr>) u'"
  using assms
proof (induction sch data u rule: gcs_write_loop.induct)
  case (1 sch data u)
  let ?u = "u\<lparr>gu_buffer := gu_buffer u @ take (gcs_space u) data\<rparr>" and ?r = "drop (gcs_space u) data"
  consider "data = []" | "data \<noteq> []" "gcs_space ?u > 0" | "data \<noteq> []" "gcs_space ?u = 0" by auto
  then show ?case
  proof cases
    case 1
    then show ?thesis using "1.prems"(3) by (auto simp: gcs_write_loop.simps intro!: exI [of _ "gu_buffer u"])
  next
    case 2
    then have "?r = []" by (auto simp: gcs_space_def split: if_splits)
    then have "gcs_write_loop sch data u = Some (?u, sch, Inr ())"
      using 2 by (subst gcs_write_loop.simps) (simp add: Let_def gcs_write_loop.simps [of _ "[]"])
    then show ?thesis using "1.prems"(3) by (auto simp: chunks_fine_def intro!: exI [of _ "gu_buffer u @ take (gcs_space u) data"])
  next
    case 3
    have len: "length (gu_buffer u) + length data = gcs_part_size u + length ?r"
      using 3 "1.prems"(4) by (auto simp: gcs_space_def)
    then have n: "chunk_count u data = Suc (length ?r div gcs_part_size u)" using "1.prems"(4) by (simp add: chunk_count_def)
    obtain u1 sch1 where flush: "gcs_flush sch ?u = Some (u1, sch1, Inr ())" "chunks_fine u1" "same_data (?u\<lparr>gu_buffer := []\<rparr>) u1"
        "fair_schedule sch1" "length sch1 + length (gu_pending_uploads u) + 2 \<ge> length sch + length (gu_pending_uploads u1)"
      using gcs_flush_returns [of sch ?u] "1.prems" n by (auto simp: chunks_fine_def)
    have u1: "gu_buffer u1 = []" "gu_config u1 = gu_config u" using same_dataD [OF flush(3)] by simp_all
    then obtain u2 sch2 b where rec: "gcs_write_loop sch1 ?r u1 = Some (u2, sch2, Inr ())" "chunks_fine u2"
        "same_data (u1\<lparr>gu_buffer := b\<rparr>) u2"
      using "1.IH"(1) [of ?u ?r "(u1, sch1, Inr ())" u1 "(sch1, Inr ())" sch1 "Inr ()" "()"] 3 flush "1.prems" n
      by (auto simp: chunk_count_def)
    have "same_data (u\<lparr>gu_buffer := b\<rparr>) u2"
      using flush(3) rec(3) by (fastforce simp: same_data_def)
    then show ?thesis using rec 3 flush(1) by (subst gcs_write_loop.simps) (auto simp: Let_def)
  qed
qed

lemma wait_chunks_fine: "\<forall>p \<in> set ps. chunk_fine p \<Longrightarrow> \<exists>ps'. wait_chunks ps = (ps', Inr ())"
proof (induction ps)
  case (Cons p ps)
  then obtain ps' where "wait_chunks ps = (ps', Inr ())" by auto
  with Cons.prems show ?case by (cases p rule: chunk_fine.cases) (auto simp: gcs_upload_chunk_def)
qed simp


lemma gcs_write_returns:
  assumes "fair_schedule sch" "gcs_slots u > 0" "gcs_part_size u > 0" "length sch \<ge> 2 * (length data div gcs_part_size u)"
    and u: "gu_pending_uploads u = []" "gu_buffer u = []" "\<not> gu_finalized u" "\<not> gu_aborted u" "gu_bytes_written u = 0"
  shows "\<exists>v sch'. gcs_write sch data u = Some (v, sch', Inr (length data)) \<and> chunks_fine v \<and> gu_bytes_written v = word_of_nat (length data) \<and>
    gu_object_name v = gu_object_name u \<and> gu_upload_id v = gu_upload_id u \<and> \<not> gu_finalized v \<and> \<not> gu_aborted v"
proof -
  obtain u' sch' b where "gcs_write_loop sch data u = Some (u', sch', Inr ())" "chunks_fine u'" "same_data (u\<lparr>gu_buffer := b\<rparr>) u'"
    using gcs_write_loop_returns [of sch u data] assms by (auto simp: chunks_fine_def chunk_count_def)
  moreover from this(3) have "gu_bytes_written u' = 0" "gu_object_name u' = gu_object_name u" "gu_upload_id u' = gu_upload_id u"
      "\<not> gu_finalized u'" "\<not> gu_aborted u'"
    using same_dataD [of "u\<lparr>gu_buffer := b\<rparr>" u'] u by simp_all
  ultimately show ?thesis using u by (simp add: gcs_write_def chunks_fine_def)
qed

lemma gcs_finalize_fine:
  assumes "chunks_fine u" "\<not> gu_finalized u" "\<not> gu_aborted u"
  shows "\<exists>v. gcs_finalize env u = (v, Inr (gcs_finalize_upload env u))"
proof -
  obtain ps where "wait_chunks (gu_pending_uploads u) = (ps, Inr ())"
    using wait_chunks_fine assms(1) unfolding chunks_fine_def by blast
  then show ?thesis using assms(2,3)
    by (auto simp: gcs_finalize_def gcs_wait_all_def gcs_upload_chunk_def gcs_finalize_upload_def)
qed

text \<open>C40: an upload of the size from which the stream is used succeeds, counts its bytes and returns an upload id and an entity tag,
  and the only thing it does to the world is to draw the random number of the id: not a single request is sent, not even for
  a token. The entity tag depends on the name and the length alone. (The schedule lets the chunks finish.)
\<close>

theorem resumable_upload_sends_nothing:
  assumes s: "gcs_is_connected s" "gcs_use_resumable (gs_config s) data"
    and parts: "mp_max_concurrent_parts (sc_multipart (gs_config s)) > 0" "mp_part_size (sc_multipart (gs_config s)) > 0"
    and sch: "fair_schedule sch" "length sch \<ge> 2 * (length data div unat (mp_part_size (sc_multipart (gs_config s))))"
    and id: "ce_random (ge_cloud env) 16 w = (w', bs)"
  defines "n \<equiv> word_of_nat (length data) :: u64"
  shows "gcs_upload env sch key data opts s w =
    Some (gcs_update_upload_stats n s, w',
      Inr ((new_upload_result key (in_quotes (payload_hash_of (ge_cloud env) (text_bytes (key @ '':'' @ dec_digits (unat n))))) n)
             \<lparr>ur_upload_id := Some (bytes_to_hex bs)\<rparr>))"
proof -
  define u where "u = fst (open_gcs_upload_stream env key (gs_config s) w)"
  have stream: "open_gcs_upload_stream env key (gs_config s) w = (u, w')" "gu_pending_uploads u = []" "gu_buffer u = []"
      "\<not> gu_finalized u" "\<not> gu_aborted u" "gu_bytes_written u = 0" "gu_config u = gs_config s" "gu_object_name u = key"
      "gu_upload_id u = bytes_to_hex bs"
    using id by (simp_all add: u_def open_gcs_upload_stream_def)
  have pos: "gcs_part_size u > 0" using parts(2) stream(7) by (simp add: unat_gt_0)
  obtain v sch' where wr: "gcs_write sch data u = Some (v, sch', Inr (length data))" "chunks_fine v" "gu_bytes_written v = n"
      "gu_object_name v = key" "gu_upload_id v = bytes_to_hex bs" "\<not> gu_finalized v" "\<not> gu_aborted v"
    using gcs_write_returns [OF sch(1) _ pos, of data] sch(2) parts(1) stream by (auto simp: n_def)
  obtain x where "gcs_finalize env v = (x, Inr (gcs_finalize_upload env v))" using gcs_finalize_fine [OF wr(2,6,7)] by blast
  then show ?thesis
    using s stream(1) wr(1,3,4,5) by (simp add: gcs_upload_def gcs_upload_resumable_def gcs_finalize_upload_def n_def)
qed

definition toy_gcs_config :: gcs_config where
  "toy_gcs_config = default_gcs_config\<lparr>sc_bucket := ''b'', sc_endpoint := Some ''http://h'',
     sc_multipart := default_multipart_config\<lparr>mp_threshold := 4, mp_part_size := 2\<rparr>\<rparr>"

definition toy_gcs_storage :: gcs_storage where
  "toy_gcs_storage =
     \<lparr>gs_config = toy_gcs_config, gs_state = Cs_connected, gs_stats = zero_cloud_statistics, gs_connected_at = 0, gs_notified = [],
      gs_access_token = ''t'', gs_token_expiry = 100\<rparr>"

lemma toy_gcs_simps [simp]:
  "gs_config toy_gcs_storage = toy_gcs_config" "gcs_is_connected toy_gcs_storage" "gs_access_token toy_gcs_storage = ''t''"
  "gs_token_expiry toy_gcs_storage = 100" "sc_bucket toy_gcs_config = ''b''" "gcs_endpoint toy_gcs_config = ''http://h''"
  "mp_max_concurrent_parts (sc_multipart toy_gcs_config) = 4" "mp_part_size (sc_multipart toy_gcs_config) = 2"
  "mp_threshold (sc_multipart toy_gcs_config) = 4" "mp_enabled (sc_multipart toy_gcs_config)"
  by (simp_all add: toy_gcs_storage_def gcs_is_connected_def toy_gcs_config_def default_multipart_config_def gcs_endpoint_def)

definition toy_gcs :: "unit gcs_env" where
  "toy_gcs = \<lparr>ge_cloud = toy_cloud, ge_rsa_sign = (\<lambda>t k. Some []), ge_mktime = timegm\<rparr>"

theorem resumable_upload_sends_nothing_witness:
  "gcs_upload toy_gcs (replicate 4 [0]) ''k'' [1, 2, 3, 4] default_transfer_options toy_gcs_storage () =
    Some (gcs_update_upload_stats (word_of_nat (length [1, 2, 3, 4 :: u8])) toy_gcs_storage, (),
      Inr ((new_upload_result ''k'' (in_quotes (payload_hash_of (ge_cloud toy_gcs)
               (text_bytes (''k'' @ '':'' @ dec_digits (unat (word_of_nat (length [1, 2, 3, 4 :: u8]) :: u64))))))
             (word_of_nat (length [1, 2, 3, 4 :: u8])))
             \<lparr>ur_upload_id := Some (bytes_to_hex (snd (ce_random (ge_cloud toy_gcs) 16 ())))\<rparr>))"
  by (rule resumable_upload_sends_nothing) (simp_all add: gcs_use_resumable_def fair_schedule_def prod_eq_iff)


section \<open>Tokens\<close>

text \<open>A token that the service issued in answer to \<open>rq\<close>, with its expiry.\<close>

definition token_issued :: "'w gcs_env \<Rightarrow> http_request \<Rightarrow> string \<Rightarrow> int \<Rightarrow> bool" where
  "token_issued env rq token expiry \<longleftrightarrow>
     (\<exists>w w' r w1 t. ce_http (ge_cloud env) rq w = (w', Some r) \<and> rs_status r = 200 \<and>
        json_value (get_body_string r) ''access_token'' = Some token \<and>
        ce_now (ge_cloud env) w' = (w1, t) \<and> expiry = t + expires_seconds (get_body_string r))"

lemma fetch_token_result:
  assumes "fetch_token env sa s w = (s', w', r)"
  shows "case r of
      Inl e \<Rightarrow> s' = s
    | Inr t \<Rightarrow> t = gs_access_token s' \<and> (\<exists>jwt. token_issued env (token_request sa jwt) t (gs_token_expiry s'))"
proof -
  obtain w1 j where jwt: "create_jwt env sa token_scope w = (w1, j)" by (rule prod.exhaust)
  show ?thesis
  proof (cases j)
    case (Some jwt')
    obtain w2 a where http: "ce_http (ge_cloud env) (token_request sa jwt') w1 = (w2, a)" by (rule prod.exhaust)
    obtain w3 t where now: "ce_now (ge_cloud env) w2 = (w3, t)" by (rule prod.exhaust)
    show ?thesis
      using assms jwt Some http now unfolding fetch_token_def token_issued_def
      by (cases a) (auto split: if_splits option.splits, blast)
  qed (use assms jwt in \<open>auto simp: fetch_token_def\<close>)
qed

text \<open>The token that an operation uses is either the one that the storage holds, if the clock is more than a minute before its
  expiry (no request is sent for it), or it is new: issued in answer to a request to the token address of the service account
  that the credentials hold, and kept with its expiry. When no token can be had, the storage stays as it is.
\<close>

theorem token_fresh_or_cached:
  assumes "get_access_token env s w = (s', w', r)" "ce_now (ge_cloud env) w = (w1, now)"
  shows "case r of
      Inl e \<Rightarrow> s' = s
    | Inr t \<Rightarrow> t = gs_access_token s' \<and>
        (s' = s \<and> w' = w1 \<and> now + 60 < gs_token_expiry s \<or>
         (\<exists>c json jwt. ce_credentials (ge_cloud env) w1 = Some (Gcs c) \<and> gc_service_account_json c = Some json \<and>
            token_issued env (token_request (parse_service_account_json json) jwt) t (gs_token_expiry s')))"
proof -
  let ?cached = "gs_access_token s \<noteq> [] \<and> now + 60 < gs_token_expiry s"
  consider "?cached" "(s', w', r) = (s, w1, Inr (gs_access_token s))" | e where "r = Inl e" "s' = s"
    | c json where "ce_credentials (ge_cloud env) w1 = Some (Gcs c)" "gc_service_account_json c = Some json"
        "fetch_token env (parse_service_account_json json) s w1 = (s', w', r)"
  proof (cases "ce_network (ge_cloud env) \<and> ce_encryption (ge_cloud env) \<and> \<not> ?cached")
    case True
    then show ?thesis
      using assms that(2,3) by (auto simp: get_access_token_def split: option.splits any_credentials.splits if_splits)
  next
    case False
    then have "ce_network (ge_cloud env) \<and> ce_encryption (ge_cloud env) \<and> ?cached \<and> (s', w', r) = (s, w1, Inr (gs_access_token s)) \<or>
        r = Inl Internal_error \<and> s' = s"
      using assms by (auto simp: get_access_token_def split: if_splits)
    then show ?thesis using that(1,2) by blast
  qed
  then show ?thesis
  proof cases
    case (3 c json)
    then show ?thesis using fetch_token_result [OF 3(3)] by (cases r) auto
  qed auto
qed

section \<open>Objects are kept apart\<close>

text \<open>Names that need no encoding in an address, and what encoding yields.\<close>

definition plain_segment :: "string \<Rightarrow> bool" where
  "plain_segment b \<longleftrightarrow> CHR ''/'' \<notin> set b \<and> CHR ''?'' \<notin> set b"

lemma plain_encoded: "plain_segment (url_encode k True)"
proof -
  have hex: "upper_hex_digit (n div 16) \<noteq> CHR ''/'' \<and> upper_hex_digit (n div 16) \<noteq> CHR ''?'' \<and>
      upper_hex_digit (n mod 16) \<noteq> CHR ''/'' \<and> upper_hex_digit (n mod 16) \<noteq> CHR ''?''" if "n < 256" for n
  proof -
    have "upper_hex_digit m \<noteq> CHR ''/'' \<and> upper_hex_digit m \<noteq> CHR ''?''" if "m < 16" for m
      using hex_val_upper [OF that] by (auto simp: hex_val_def)
    with that show ?thesis by (simp add: less_mult_imp_div_less)
  qed
  have "plain_segment (url_encode_char True c)" for c
    using hex [of "of_char c"] by (auto simp: plain_segment_def url_encode_char_def is_alnum_def Let_def)
  then show ?thesis by (auto simp: plain_segment_def url_encode_def)
qed

lemma url_encode_inj: "url_encode k b = url_encode k' b \<longleftrightarrow> k = k'"
  using url_decode_encode by (metis option.inject)

definition media_url :: "string \<Rightarrow> string \<Rightarrow> string \<Rightarrow> string" where
  "media_url e b n = e @ ''/upload/storage/v1/b/'' @ b @ ''/o?uploadType=media&name='' @ n"

definition content_url :: "string \<Rightarrow> string \<Rightarrow> string \<Rightarrow> string" where
  "content_url e b n = e @ ''/storage/v1/b/'' @ b @ ''/o/'' @ n @ ''?alt=media''"

text \<open>
  A storage service at \<open>e\<close> that keeps its objects (by bucket and encoded name): reading the clock and requests to other
  addresses leave them alone; an upload changes its object only, and has stored the body when it reports success;
  a read changes nothing, returns the object with status 200, and reports 404 only for an object that is not there.
\<close>

definition gcs_service :: "'w gcs_env \<Rightarrow> string \<Rightarrow> ('w \<Rightarrow> string \<Rightarrow> string \<Rightarrow> bytes option) \<Rightarrow> bool" where
  "gcs_service env e obj \<longleftrightarrow>
     (\<forall>w. obj (fst (ce_now (ge_cloud env) w)) = obj w) \<and>
     (\<forall>rq w. take (length e) (rq_url rq) \<noteq> e \<longrightarrow> obj (fst (ce_http (ge_cloud env) rq w)) = obj w) \<and>
     (\<forall>rq w w' r b n. plain_segment b \<and> plain_segment n \<and> ce_http (ge_cloud env) rq w = (w', r) \<longrightarrow>
        (rq_method rq = ''POST'' \<and> rq_url rq = media_url e b n \<longrightarrow>
           (\<forall>b' n'. (b', n') \<noteq> (b, n) \<longrightarrow> obj w' b' n' = obj w b' n') \<and>
           (\<forall>a. r = Some a \<and> rs_status a = 200 \<longrightarrow> obj w' b n = Some (rq_body rq))) \<and>
        (rq_method rq = ''GET'' \<and> rq_url rq = content_url e b n \<longrightarrow>
           obj w' = obj w \<and>
           (\<forall>a. r = Some a \<longrightarrow> (rs_status a = 200 \<longrightarrow> obj w b n = Some (rs_body a)) \<and> (rs_status a = 404 \<longrightarrow> obj w b n = None))))"

text \<open>The tokens come from another address.\<close>

definition tokens_elsewhere :: "'w gcs_env \<Rightarrow> string \<Rightarrow> bool" where
  "tokens_elsewhere env e \<longleftrightarrow>
     (\<forall>w c json. ce_credentials (ge_cloud env) w = Some (Gcs c) \<and> gc_service_account_json c = Some json \<longrightarrow>
        take (length e) (sa_token_uri (parse_service_account_json json)) \<noteq> e)"

lemma token_keeps_objects:
  assumes "gcs_service env e obj" "tokens_elsewhere env e" "get_access_token env s w = (s', w', r)"
  shows "obj w' = obj w \<and> gs_config s' = gs_config s \<and> gs_state s' = gs_state s"
proof -
  have now: "ce_now (ge_cloud env) w = (w1, t) \<Longrightarrow> obj w1 = obj w" for w w1 t
    using assms(1) unfolding gcs_service_def by (metis fst_conv)
  have http: "take (length e) (rq_url rq) \<noteq> e \<Longrightarrow> ce_http (ge_cloud env) rq w = (w1, a) \<Longrightarrow> obj w1 = obj w" for rq w w1 a
    using assms(1) unfolding gcs_service_def by (metis fst_conv)
  have fetch: "obj w2 = obj w1 \<and> gs_config s2 = gs_config s1 \<and> gs_state s2 = gs_state s1"
    if sa: "take (length e) (sa_token_uri sa) \<noteq> e" and "fetch_token env sa s1 w1 = (s2, w2, q)" for sa s1 w1 s2 w2 q
    using that http [of "token_request sa _"]
    by (auto simp: fetch_token_def create_jwt_def token_request_def Let_def dest!: now split: prod.splits option.splits if_splits)
  show ?thesis
    using assms(2,3) unfolding get_access_token_def tokens_elsewhere_def
    by (auto dest!: now fetch [rotated] split: if_splits prod.splits option.splits any_credentials.splits)
qed


lemma token_error:
  assumes "get_access_token env s w = (s', w', Inl e)"
  shows "e = Internal_error"
proof -
  have "fetch_token env sa s w = (s', w', Inl e) \<Longrightarrow> e = Internal_error" for sa s w
    by (auto simp: fetch_token_def split: prod.splits option.splits if_splits)
  then show ?thesis
    using assms by (auto simp: get_access_token_def split: if_splits prod.splits option.splits any_credentials.splits)
qed

lemma gcs_call_objects:
  assumes "gcs_service env e obj" "tokens_elsewhere env e" "gcs_call env m url extra body s w = (s', w', r)"
  shows "obj w' = obj w \<and> r = Inl Internal_error \<or>
    (\<exists>rq w1 a. rq_method rq = m \<and> rq_url rq = url \<and> rq_body rq = body \<and> obj w1 = obj w \<and>
       ce_http (ge_cloud env) rq w1 = (w', a) \<and> r = (case a of None \<Rightarrow> Inl Internal_error | Some x \<Rightarrow> Inr x))"
proof -
  obtain s1 w1 t where token: "get_access_token env s w = (s1, w1, t)" by (metis prod.exhaust)
  note keeps = token_keeps_objects [OF assms(1,2) token]
  show ?thesis
  proof (cases t)
    case (Inl x)
    then show ?thesis using assms(3) token keeps by (auto simp: gcs_call_def dest: token_error)
  next
    case (Inr x)
    let ?rq = "\<lparr>rq_method = m, rq_url = url, rq_headers = header_puts ((''Authorization'', ''Bearer '' @ x) # extra) [], rq_body = body\<rparr>"
    obtain w2 a where "ce_http (ge_cloud env) ?rq w1 = (w2, a)" by (rule prod.exhaust)
    moreover from this have "w2 = w' \<and> r = (case a of None \<Rightarrow> Inl Internal_error | Some x \<Rightarrow> Inr x)"
      using assms(3) token Inr by (auto simp: gcs_call_def split: option.splits)
    ultimately have "ce_http (ge_cloud env) ?rq w1 = (w', a)" "r = (case a of None \<Rightarrow> Inl Internal_error | Some x \<Rightarrow> Inr x)" by auto
    then show ?thesis using keeps by (intro disjI2 exI [of _ ?rq] exI [of _ w1] exI [of _ a]) simp
  qed
qed

lemma media_upload_stores:
  assumes service: "gcs_service env e obj" "tokens_elsewhere env e" and net: "ce_network (ge_cloud env)"
    and cfg: "gcs_endpoint (gs_config s) = e" "sc_bucket (gs_config s) = b" "plain_segment b"
    and up: "gcs_upload_media env key data opts s w = (s', w', r)"
  shows "(\<forall>b' n'. (b', n') \<noteq> (b, url_encode key True) \<longrightarrow> obj w' b' n' = obj w b' n') \<and>
    (\<not> isl r \<longrightarrow> obj w' b (url_encode key True) = Some data)"
proof -
  let ?extra = "[(''Content-Type'', case ct_content_type opts of Some t \<Rightarrow> t | None \<Rightarrow> detect_content_type key),
      (''Content-Length'', dec_digits (length data))]"
  have url: "media_upload_url (gs_config s) key = media_url e b (url_encode key True)"
    using cfg by (simp add: media_upload_url_def media_url_def)
  obtain s1 w1 q where call: "gcs_call env ''POST'' (media_upload_url (gs_config s) key) ?extra data s w = (s1, w1, q)"
    by (metis prod.exhaust)
  have res: "w' = w1" "\<not> isl r \<Longrightarrow> \<exists>x. q = Inr x \<and> rs_status x = 200"
    using up call net by (auto simp: gcs_upload_media_def Let_def split: sum.splits if_splits)
  from gcs_call_objects [OF service call] show ?thesis
  proof (elim disjE exE conjE)
    fix rq w2 a
    assume rq: "rq_method rq = ''POST''" "rq_url rq = media_upload_url (gs_config s) key" "rq_body rq = data" "obj w2 = obj w"
      "ce_http (ge_cloud env) rq w2 = (w1, a)" "q = (case a of None \<Rightarrow> Inl Internal_error | Some x \<Rightarrow> Inr x)"
    then have "(\<forall>b' n'. (b', n') \<noteq> (b, url_encode key True) \<longrightarrow> obj w1 b' n' = obj w b' n') \<and>
        (\<forall>x. a = Some x \<and> rs_status x = 200 \<longrightarrow> obj w1 b (url_encode key True) = Some data)"
      using service(1) cfg(3) plain_encoded [of key] url unfolding gcs_service_def by metis
    then show ?thesis using res rq(6) by (auto split: option.splits)
  qed (use res in auto)
qed

lemma download_reads:
  assumes service: "gcs_service env e obj" "tokens_elsewhere env e" and net: "ce_network (ge_cloud env)" and conn: "gcs_is_connected s"
    and cfg: "gcs_endpoint (gs_config s) = e" "sc_bucket (gs_config s) = b" "plain_segment b"
    and down: "gcs_download env key s w = (s', w', r)" and stored: "obj w b (url_encode key True) = Some data"
  shows "r \<noteq> Inl File_not_found \<and> (\<forall>d. r = Inr d \<longrightarrow> d = data)"
proof -
  have url: "gcs_object_url (gs_config s) key @ ''?alt=media'' = content_url e b (url_encode key True)"
    using cfg by (simp add: gcs_object_url_def objects_url_def content_url_def)
  obtain s1 w1 q where call: "gcs_call env ''GET'' (content_url e b (url_encode key True)) [] [] s w = (s1, w1, q)"
    by (metis prod.exhaust)
  have q: "case q of Inl e \<Rightarrow> e = Internal_error | Inr x \<Rightarrow> (rs_status x = 200 \<longrightarrow> rs_body x = data) \<and> rs_status x \<noteq> 404"
    using gcs_call_objects [OF service call]
  proof (elim disjE exE conjE)
    fix rq w2 a
    assume rq: "rq_method rq = ''GET''" "rq_url rq = content_url e b (url_encode key True)" "obj w2 = obj w"
      "ce_http (ge_cloud env) rq w2 = (w1, a)" "q = (case a of None \<Rightarrow> Inl Internal_error | Some x \<Rightarrow> Inr x)"
    then have "\<forall>x. a = Some x \<longrightarrow> (rs_status x = 200 \<longrightarrow> obj w2 b (url_encode key True) = Some (rs_body x)) \<and>
        (rs_status x = 404 \<longrightarrow> obj w2 b (url_encode key True) = None)"
      using service(1) cfg(3) plain_encoded [of key] unfolding gcs_service_def by metis
    then show ?thesis using rq(3,5) stored by (auto split: option.splits)
  qed auto
  have down': "(s', w', r) = (case check_found (s1, w1, q) of
             (s, w, Inl e) \<Rightarrow> (s, w, Inl e)
           | (s, w, Inr r) \<Rightarrow> (gcs_update_download_stats (word_of_nat (length (rs_body r))) s, w, Inr (rs_body r)))"
    using down conn net call url by (simp add: gcs_download_def)
  show ?thesis
    using down' q by (cases q) (auto simp: check_found_def split: if_splits)
qed

text \<open>C37: with a service that keeps its objects, an object that one request uploaded is what a download of its key returns, even after
  another upload to another key or bucket at the same endpoint, whatever its result; a download that fails was not told that
  the object is missing. Any characters may be in the keys: they are encoded, and no two keys share an address.
\<close>

theorem objects_kept_apart:
  assumes service: "gcs_service env e obj" "tokens_elsewhere env e" "ce_network (ge_cloud env)"
    and s: "gcs_is_connected s" "gcs_endpoint (gs_config s) = e" "plain_segment (sc_bucket (gs_config s))"
    and t: "gcs_is_connected t" "gcs_endpoint (gs_config t) = e" "plain_segment (sc_bucket (gs_config t))"
    and small: "\<not> gcs_use_resumable (gs_config s) data" "\<not> gcs_use_resumable (gs_config t) data2"
    and other: "(sc_bucket (gs_config t), key2) \<noteq> (sc_bucket (gs_config s), key)"
    and up: "gcs_upload env sch key data opts s w = Some (s1, w1, Inr u)"
    and up2: "gcs_upload env sch2 key2 data2 opts2 t w1 = Some (t1, w2, r2)"
    and d: "gcs_is_connected x" "gs_config x = gs_config s" and down: "gcs_download env key x w2 = (x1, w3, r)"
  shows "r \<noteq> Inl File_not_found \<and> (\<forall>d. r = Inr d \<longrightarrow> d = data)"
proof -
  let ?b = "sc_bucket (gs_config s)" and ?n = "url_encode key True"
  have "gcs_upload_media env key data opts s w = (s1, w1, Inr u)" using up s(1) small(1) by (simp add: gcs_upload_def)
  then have "obj w1 ?b ?n = Some data" using media_upload_stores [OF service s(2) refl s(3)] by simp
  moreover have "gcs_upload_media env key2 data2 opts2 t w1 = (t1, w2, r2)" using up2 t(1) small(2) by (simp add: gcs_upload_def)
  then have "obj w2 ?b ?n = obj w1 ?b ?n"
    using media_upload_stores [OF service t(2) refl t(3)] other url_encode_inj [of key2 True key] by auto
  ultimately have stored: "obj w2 ?b ?n = Some data" by simp
  show ?thesis using download_reads [OF service d(1) _ _ _ down stored] s(2,3) d(2) by simp
qed


text \<open>A service over a table of objects, which takes the addresses apart.\<close>

definition ok_response :: "bytes \<Rightarrow> http_response" where
  "ok_response d = \<lparr>rs_status = 200, rs_get_header = (\<lambda>h. None), rs_body = d\<rparr>"

definition toy_gcs_http ::
  "http_request \<Rightarrow> (string \<Rightarrow> string \<Rightarrow> bytes option) \<Rightarrow> (string \<Rightarrow> string \<Rightarrow> bytes option) \<times> http_response option" where
  "toy_gcs_http rq w =
     (let up = ''http://h/upload/storage/v1/b/''; down = ''http://h/storage/v1/b/'';
          segment = (\<lambda>n. takeWhile (\<lambda>c. c \<noteq> CHR ''/'') (drop n (rq_url rq)))
      in if rq_method rq = ''POST'' \<and> take (length up) (rq_url rq) = up
         then let b = segment (length up); n = drop (length up + length b + length ''/o?uploadType=media&name='') (rq_url rq)
              in (w(b := (w b)(n \<mapsto> rq_body rq)), Some (ok_response []))
         else let b = segment (length down);
                  n = takeWhile (\<lambda>c. c \<noteq> CHR ''?'') (drop (length down + length b + length ''/o/'') (rq_url rq))
              in (w, Some (case w b n of Some d \<Rightarrow> ok_response d | None \<Rightarrow> (ok_response [])\<lparr>rs_status := 404\<rparr>)))"

definition toy_gcs_objects :: "(string \<Rightarrow> string \<Rightarrow> bytes option) gcs_env" where
  "toy_gcs_objects =
     \<lparr>ge_cloud =
        \<lparr>ce_network = True, ce_encryption = True, ce_http = toy_gcs_http, ce_now = (\<lambda>w. (w, 0)),
         ce_random = (\<lambda>n w. (w, replicate n 0)), ce_credentials = (\<lambda>w. None), ce_sha256 = (\<lambda>d. []), ce_hmac_sha256 = (\<lambda>k d. [])\<rparr>, ge_rsa_sign = (\<lambda>t k. None), ge_mktime = timegm\<rparr>"


lemma toy_gcs_objects_simps [simp]:
  "ce_network (ge_cloud toy_gcs_objects)" "ce_encryption (ge_cloud toy_gcs_objects)" "ce_http (ge_cloud toy_gcs_objects) = toy_gcs_http"
  "ce_now (ge_cloud toy_gcs_objects) w = (w, 0)" "ce_credentials (ge_cloud toy_gcs_objects) w = None"
  by (simp_all add: toy_gcs_objects_def)

lemma takeWhile_segment: "c \<notin> set b \<Longrightarrow> takeWhile (\<lambda>x. x \<noteq> c) (b @ c # r) = b"
  by (induction b) auto

lemma take_longer: "take (length (a @ b)) u = a @ b \<Longrightarrow> take (length a) u = a"
  by (drule arg_cong [where f = "take (length a)"]) (simp add: min_def)

lemma toy_media: "plain_segment b \<Longrightarrow> rq_method rq = ''POST'' \<Longrightarrow> rq_url rq = media_url ''http://h'' b n \<Longrightarrow>
    toy_gcs_http rq w = (w(b := (w b)(n \<mapsto> rq_body rq)), Some (ok_response []))"
  by (simp add: toy_gcs_http_def media_url_def plain_segment_def takeWhile_segment)

lemma toy_content: "plain_segment b \<Longrightarrow> plain_segment n \<Longrightarrow> rq_method rq = ''GET'' \<Longrightarrow> rq_url rq = content_url ''http://h'' b n \<Longrightarrow>
    toy_gcs_http rq w = (w, Some (case w b n of Some d \<Rightarrow> ok_response d | None \<Rightarrow> (ok_response [])\<lparr>rs_status := 404\<rparr>))"
  by (simp add: toy_gcs_http_def content_url_def plain_segment_def takeWhile_segment)

lemma toy_gcs_service: "gcs_service toy_gcs_objects ''http://h'' id"
  unfolding gcs_service_def
proof (intro conjI allI impI)
  fix rq :: http_request and w :: "string \<Rightarrow> string \<Rightarrow> bytes option"
  assume *: "take (length ''http://h'') (rq_url rq) \<noteq> ''http://h''"
  then show "id (fst (ce_http (ge_cloud toy_gcs_objects) rq w)) = id w"
    using take_longer [of "''http://h''" "''/upload/storage/v1/b/''" "rq_url rq"] by (auto simp: toy_gcs_http_def Let_def)
qed (auto simp: toy_media toy_content ok_response_def split: option.splits)

lemma toy_gcs_upload:
  "\<exists>s u. gcs_upload toy_gcs_objects [] key [d] opts toy_gcs_storage w =
     Some (s, w(''b'' := (w ''b'')(url_encode key True \<mapsto> [d])), Inr u)"
proof -
  have url: "media_upload_url toy_gcs_config key = media_url ''http://h'' ''b'' (url_encode key True)"
    by (simp add: media_upload_url_def media_url_def)
  have "gcs_call toy_gcs_objects ''POST'' (media_upload_url toy_gcs_config key) ex [d] toy_gcs_storage w =
      (toy_gcs_storage, w(''b'' := (w ''b'')(url_encode key True \<mapsto> [d])), Inr (ok_response []))" for ex
    using toy_media [of "''b''"] by (simp add: gcs_call_def get_access_token_def url plain_segment_def)
  then show ?thesis
    by (simp add: gcs_upload_def gcs_use_resumable_def gcs_upload_media_def Let_def ok_response_def)
qed

theorem objects_kept_apart_witness:
  "\<exists>s1 w1 u t1 w2 r2.
     gcs_upload toy_gcs_objects [] ''a/b'' [1] default_transfer_options toy_gcs_storage (\<lambda>b n. None) = Some (s1, w1, Inr u) \<and>
     gcs_upload toy_gcs_objects [] ''a%2Fb'' [2] default_transfer_options toy_gcs_storage w1 = Some (t1, w2, r2) \<and>
     (\<forall>x1 w3 r. gcs_download toy_gcs_objects ''a/b'' toy_gcs_storage w2 = (x1, w3, r) \<longrightarrow>
        r \<noteq> Inl File_not_found \<and> (\<forall>d. r = Inr d \<longrightarrow> d = [1]))"
proof -
  obtain s1 w1 u where up: "gcs_upload toy_gcs_objects [] ''a/b'' [1] default_transfer_options toy_gcs_storage (\<lambda>b n. None) = Some (s1, w1, Inr u)"
    using toy_gcs_upload by blast
  obtain t1 w2 r2 where up2: "gcs_upload toy_gcs_objects [] ''a%2Fb'' [2] default_transfer_options toy_gcs_storage w1 = Some (t1, w2, r2)"
    using toy_gcs_upload by blast
  have "r \<noteq> Inl File_not_found \<and> (\<forall>d. r = Inr d \<longrightarrow> d = [1])"
    if down: "gcs_download toy_gcs_objects ''a/b'' toy_gcs_storage w2 = (x1, w3, r)" for x1 w3 r
    by (rule objects_kept_apart [OF toy_gcs_service _ _ _ _ _ _ _ _ _ _ _ up up2 _ _ down])
      (simp_all add: tokens_elsewhere_def plain_segment_def gcs_use_resumable_def)
  with up up2 show ?thesis by blast
qed

section \<open>Credentials that authorise nothing\<close>

lemma no_account_no_token:
  assumes "gs_access_token s = []" "\<forall>w c json. ce_credentials (ge_cloud env) w = Some (Gcs c) \<longrightarrow>
      gc_service_account_json c = Some json \<longrightarrow> \<not> sa_valid (parse_service_account_json json)"
  shows "\<exists>w'. get_access_token env s w = (s, w', Inl Internal_error)"
  using assms by (auto simp: get_access_token_def split: if_splits prod.splits option.splits any_credentials.splits)


text \<open>Every call of the operation on \<open>s\<close> fails and is counted as an error.\<close>

definition refuses :: "(gcs_storage \<Rightarrow> 'w \<Rightarrow> gcs_storage \<times> 'w \<times> 'a result) \<Rightarrow> gcs_storage \<Rightarrow> bool" where
  "refuses f s \<longleftrightarrow> (\<forall>w. \<exists>w'. f s w = (gcs_update_error_stats s, w', Inl Internal_error))"

lemma no_token_refuses:
  assumes "\<And>w. \<exists>w'. get_access_token env s w = (s, w', Inl Internal_error)" "gcs_is_connected s" "ce_network (ge_cloud env)"
  shows "refuses (gcs_upload_media env key data opts) s" "refuses (gcs_download env key) s" "refuses (gcs_delete_object env key) s"
    "refuses (gcs_exists env key) s" "refuses (gcs_get_metadata env key) s" "refuses (gcs_list_objects env lopts) s"
    "refuses (gcs_copy_object env key key2 opts) s"
proof -
  have "\<forall>m url ex body w. \<exists>w'. gcs_call env m url ex body s w = (gcs_update_error_stats s, w', Inl Internal_error)"
    using assms(1) by (metis (mono_tags, lifting) gcs_call_def prod.case sum.case(1))
  then obtain g where "\<And>m url ex body w. gcs_call env m url ex body s w = (gcs_update_error_stats s, g m url ex body w, Inl Internal_error)"
    by metis
  then show "refuses (gcs_upload_media env key data opts) s" "refuses (gcs_download env key) s" "refuses (gcs_delete_object env key) s"
    "refuses (gcs_exists env key) s" "refuses (gcs_get_metadata env key) s" "refuses (gcs_list_objects env lopts) s"
    "refuses (gcs_copy_object env key key2 opts) s"
    using assms(2,3)
    by (simp_all add: refuses_def gcs_upload_media_def gcs_download_def gcs_delete_object_def gcs_exists_def gcs_get_metadata_def
      gcs_list_objects_def gcs_copy_object_def check_found_def Let_def)
qed

text \<open>A provider that the environment gives for a project (there is no service account file, or it cannot be read or used) is in the
  state \<open>valid\<close>, and a storage with its credentials connects; but there is no way to get a token, and each operation then fails with
  an internal error: uploads, downloads, deletions, look-ups, listings and copies.
\<close>

theorem project_provider_authorises_nothing:
  assumes p: "gcs_create_from_environment getenv io fs = Some p" "gp_auth_type p = ''environment-metadata''"
    and env: "\<And>w. ce_credentials (ge_cloud env) w = Some (Gcs (gp_credentials p))" "ce_network (ge_cloud env)"
    and s: "gcs_create cfg True = Some s"
  shows "gp_state p = Cred_valid \<and>
    (\<exists>s'. gcs_connect env now s w = (s', Inr ()) \<and> gcs_is_connected s' \<and>
       (\<forall>key key2 data opts lopts. refuses (gcs_upload_media env key data opts) s' \<and> refuses (gcs_download env key) s' \<and>
          refuses (gcs_delete_object env key) s' \<and> refuses (gcs_exists env key) s' \<and> refuses (gcs_get_metadata env key) s' \<and>
          refuses (gcs_list_objects env lopts) s' \<and> refuses (gcs_copy_object env key key2 opts) s'))"
proof -
  have "gc_service_account_json (gp_credentials p) = None" "gp_state p = Cred_valid"
    using p by (auto simp: gcs_create_from_environment_def provider_for_project_def new_gcs_credentials_def
        split: option.splits)
  moreover obtain s' where s': "gcs_connect env now s w = (s', Inr ())" "gcs_is_connected s'" "gs_access_token s' = []"
    using env(1) s by (auto simp: gcs_connect_def gcs_create_def gcs_set_state_def gcs_is_connected_def split: if_splits)
  moreover have "\<exists>w'. get_access_token env s' w = (s', w', Inl Internal_error)" for w
    by (rule no_account_no_token [OF s'(3)]) (use env(1) calculation(1) in auto)
  ultimately show ?thesis using no_token_refuses [of env s'] env(2) by blast
qed

theorem project_provider_authorises_nothing_witness:
  "\<exists>p s. gcs_create_from_environment (\<lambda>v. if v = ''GCLOUD_PROJECT'' then Some ''p'' else None) reliable Map.empty = Some p \<and>
     gcs_create toy_gcs_config True = Some s \<and> gp_state p = Cred_valid \<and>
     (let env = toy_gcs_objects\<lparr>ge_cloud := (ge_cloud toy_gcs_objects)\<lparr>ce_credentials := (\<lambda>w. Some (Gcs (gp_credentials p)))\<rparr>\<rparr>
      in \<exists>s'. gcs_connect env 5 s (\<lambda>b n. None) = (s', Inr ()) \<and> gcs_is_connected s' \<and>
           (\<forall>key key2 data opts lopts. refuses (gcs_upload_media env key data opts) s' \<and> refuses (gcs_download env key) s' \<and>
              refuses (gcs_delete_object env key) s' \<and> refuses (gcs_exists env key) s' \<and> refuses (gcs_get_metadata env key) s' \<and>
              refuses (gcs_list_objects env lopts) s' \<and> refuses (gcs_copy_object env key key2 opts) s'))"
proof -
  obtain p where p: "gcs_create_from_environment (\<lambda>v. if v = ''GCLOUD_PROJECT'' then Some ''p'' else None) reliable Map.empty = Some p"
      "gp_auth_type p = ''environment-metadata''"
    by (simp add: gcs_create_from_environment_def)
  obtain s where s: "gcs_create toy_gcs_config True = Some s" by (simp add: gcs_create_def)
  let ?env = "toy_gcs_objects\<lparr>ge_cloud := (ge_cloud toy_gcs_objects)\<lparr>ce_credentials := (\<lambda>w. Some (Gcs (gp_credentials p)))\<rparr>\<rparr>"
  have env: "ce_credentials (ge_cloud ?env) w = Some (Gcs (gp_credentials p))" "ce_network (ge_cloud ?env)" for w by simp_all
  show ?thesis using project_provider_authorises_nothing [OF p env s] p(1) s unfolding Let_def by blast
qed

end
