(* ===== verification/Azure_Http.thy ===== *)
theory Azure_Http
  imports Cloud_Http
begin

text \<open>
  What cloud/azure_blob_storage.cpp sends: addresses of containers and blobs, the SharedKey signature, block ids, and the
  connection strings it reads. The signature is computed by three copies of the same function in the source. The
  HTTP client is \<open>ce_http\<close>, or \<open>ae_default_http\<close> where the code makes a client of its own although the storage was
  given one (\<open>ae_injected\<close>). \<open>std::mktime\<close> reads a broken-down time in the time zone of the process.
\<close>

record 'w azure_env =
  ae_cloud :: "'w cloud_env"
  ae_injected :: bool
  ae_default_http :: "http_request \<Rightarrow> 'w \<Rightarrow> 'w \<times> http_response option"
  ae_mktime :: "tm \<Rightarrow> int"

section \<open>Addresses\<close>

definition get_blob_endpoint :: "azure_blob_config \<Rightarrow> string" where
  "get_blob_endpoint cfg =
     (case sc_endpoint cfg of
        Some e \<Rightarrow> e
      | None \<Rightarrow> (if sc_use_ssl cfg then ''https'' else ''http'') @ ''://'' @ az_config_account_name cfg @ ''.blob.core.windows.net'')"

definition container_url :: "azure_blob_config \<Rightarrow> string" where
  "container_url cfg = get_blob_endpoint cfg @ ''/'' @ az_container cfg"

text \<open>\<open>get_blob_url\<close> leaves the name as it is; requests encode it.\<close>

definition get_blob_url :: "azure_blob_config \<Rightarrow> string \<Rightarrow> string" where
  "get_blob_url cfg blob = container_url cfg @ ''/'' @ blob"

definition blob_request_url :: "azure_blob_config \<Rightarrow> string \<Rightarrow> string" where
  "blob_request_url cfg blob = container_url cfg @ ''/'' @ url_encode blob False"

definition blob_resource :: "azure_blob_config \<Rightarrow> string \<Rightarrow> string" where
  "blob_resource cfg blob = ''/'' @ az_container cfg @ ''/'' @ blob"

section \<open>Signatures\<close>

definition signed_header_names :: "string list" where
  "signed_header_names =
     [''Date'', ''If-Modified-Since'', ''If-Match'', ''If-None-Match'', ''If-Unmodified-Since'', ''Range'']"

definition header_line :: "headers \<Rightarrow> string \<Rightarrow> string" where
  "header_line hs name = (case map_of hs name of Some v \<Rightarrow> v | None \<Rightarrow> []) @ line_end"

definition ms_headers :: "headers \<Rightarrow> headers" where
  "ms_headers hs =
     header_puts (filter (\<lambda>(k, v). take 5 k = ''x-ms-'') (map (\<lambda>(k, v). (map to_lower k, v)) hs)) []"

definition azure_string_to_sign :: "azure_blob_config \<Rightarrow> string \<Rightarrow> string \<Rightarrow> headers \<Rightarrow> string \<Rightarrow> string" where
  "azure_string_to_sign cfg method resource hs content_length =
     method @ line_end @ header_line hs ''Content-Encoding'' @ header_line hs ''Content-Language'' @
     content_length @ line_end @ header_line hs ''Content-MD5'' @ header_line hs ''Content-Type'' @
     concat (map (header_line hs) signed_header_names) @
     concat (map (\<lambda>(k, v). k @ '':'' @ v @ line_end) (ms_headers hs)) @
     ''/'' @ az_config_account_name cfg @ resource"

text \<open>The key of the account, when the credentials hold one.\<close>

definition account_key :: "'w azure_env \<Rightarrow> 'w \<Rightarrow> string option" where
  "account_key env w =
     (case ce_credentials (ae_cloud env) w of Some (Azure c) \<Rightarrow> az_account_key c | _ \<Rightarrow> None)"

definition sign_with_key :: "'w azure_env \<Rightarrow> string \<Rightarrow> string \<Rightarrow> string" where
  "sign_with_key env key s = base64_encode (hmac_of (ae_cloud env) (base64_decode key) s)"

definition shared_key_header ::
  "'w azure_env \<Rightarrow> azure_blob_config \<Rightarrow> string \<Rightarrow> string \<Rightarrow> headers \<Rightarrow> string \<Rightarrow> 'w \<Rightarrow> string" where
  "shared_key_header env cfg method resource hs content_length w =
     (if \<not> ce_encryption (ae_cloud env) then []
      else case account_key env w of
             None \<Rightarrow> []
           | Some key \<Rightarrow>
               ''SharedKey '' @ az_config_account_name cfg @ '':'' @
               sign_with_key env key (azure_string_to_sign cfg method resource hs content_length))"

text \<open>The request as every operation builds it; \<open>extra\<close> are the headers of the operation.\<close>

definition azure_request ::
  "'w azure_env \<Rightarrow> azure_blob_config \<Rightarrow> string \<Rightarrow> string \<Rightarrow> string \<Rightarrow> (string \<times> string) list \<Rightarrow> string \<Rightarrow> bytes \<Rightarrow> 'w \<Rightarrow>
   'w \<times> http_request" where
  "azure_request env cfg method url resource extra content_length body w =
     (case ce_now (ae_cloud env) w of
        (w, t) \<Rightarrow>
          let hs = header_puts ([(''x-ms-version'', az_api_version cfg), (''x-ms-date'', get_rfc1123_time t)] @ extra) [];
              auth = shared_key_header env cfg method resource hs content_length w
          in (w, \<lparr>rq_method = method, rq_url = url,
                  rq_headers = (if auth \<noteq> [] then header_put ''Authorization'' auth hs else hs), rq_body = body\<rparr>))"

section \<open>Blocks\<close>

text \<open>\<open>std::setw(6)\<close> pads with zeros and does not cut.\<close>

definition generate_block_id :: "nat \<Rightarrow> string" where
  "generate_block_id n = base64_encode_text (replicate (6 - length (dec_digits n)) CHR ''0'' @ dec_digits n)"

definition block_list_xml :: "string list \<Rightarrow> string" where
  "block_list_xml ids =
     ''<?xml version='' @ [CHR 0x22] @ ''1.0'' @ [CHR 0x22] @ '' encoding='' @ [CHR 0x22] @ ''utf-8'' @ [CHR 0x22] @ ''?>'' @ line_end @
     ''<BlockList>'' @ line_end @ concat (map (\<lambda>i. ''  <Latest>'' @ i @ ''</Latest>'' @ line_end) ids) @ ''</BlockList>''"

section \<open>Connection strings\<close>

record azure_connection_info =
  aci_account_name :: string
  aci_account_key :: string
  aci_endpoint_suffix :: string
  aci_sas_token :: string
  aci_valid :: bool

text \<open>The settings: a name up to \<open>=\<close>, a value up to \<open>;\<close>. A rest without \<open>=\<close> is dropped.\<close>

function connection_settings :: "string \<Rightarrow> (string \<times> string) list" where
  "connection_settings s =
     (case dropWhile (\<lambda>c. c \<noteq> CHR ''='') s of
        [] \<Rightarrow> []
      | _ # r \<Rightarrow>
          (takeWhile (\<lambda>c. c \<noteq> CHR ''='') s, takeWhile (\<lambda>c. c \<noteq> CHR '';'') r) #
          connection_settings (drop 1 (dropWhile (\<lambda>c. c \<noteq> CHR '';'') r)))"
  by pat_completeness auto
termination
proof (relation "measure length", goal_cases)
  case (2 s e r)
  then show ?case
    using length_dropWhile_le [of "\<lambda>c. c \<noteq> CHR ''=''" s] length_dropWhile_le [of "\<lambda>c. c \<noteq> CHR '';''" r] by auto
qed simp

declare connection_settings.simps [simp del]

definition apply_setting :: "azure_connection_info \<Rightarrow> string \<times> string \<Rightarrow> azure_connection_info" where
  "apply_setting info kv =
     (case kv of (key, v) \<Rightarrow>
        if key = ''AccountName'' then info\<lparr>aci_account_name := v\<rparr>
        else if key = ''AccountKey'' then info\<lparr>aci_account_key := v\<rparr>
        else if key = ''EndpointSuffix'' then info\<lparr>aci_endpoint_suffix := v\<rparr>
        else if key = ''SharedAccessSignature'' then info\<lparr>aci_sas_token := v\<rparr>
        else info)"

definition no_connection_info :: azure_connection_info where
  "no_connection_info =
     \<lparr>aci_account_name = [], aci_account_key = [], aci_endpoint_suffix = [], aci_sas_token = [], aci_valid = False\<rparr>"

definition parse_connection_string :: "string \<Rightarrow> azure_connection_info" where
  "parse_connection_string s =
     (let info = foldl apply_setting no_connection_info (connection_settings s)
      in info\<lparr>aci_valid := (aci_account_name info \<noteq> [] \<and> (aci_account_key info \<noteq> [] \<or> aci_sas_token info \<noteq> [])),
              aci_endpoint_suffix := (if aci_endpoint_suffix info = [] then ''core.windows.net'' else aci_endpoint_suffix info)\<rparr>)"

section \<open>Facts\<close>

text \<open>A connection string in the usual layout.\<close>

definition settings_text :: "(string \<times> string) list \<Rightarrow> string" where
  "settings_text kvs = join_with '';'' (map (\<lambda>(k, v). k @ ''='' @ v) kvs)"

lemma split_at: "c \<notin> set a \<Longrightarrow> takeWhile (\<lambda>x. x \<noteq> c) (a @ c # b) = a" "c \<notin> set a \<Longrightarrow> dropWhile (\<lambda>x. x \<noteq> c) (a @ c # b) = c # b"
  by (induction a) auto

lemma connection_settings_text:
  "\<forall>(k, v) \<in> set kvs. CHR ''='' \<notin> set k \<and> CHR '';'' \<notin> set v \<Longrightarrow> connection_settings (settings_text kvs) = kvs"
proof (induction kvs)
  case Nil
  then show ?case by (simp add: settings_text_def connection_settings.simps)
next
  case (Cons kv kvs)
  obtain k v where kv: "kv = (k, v)" by (cases kv)
  have last: "takeWhile (\<lambda>x. x \<noteq> CHR '';'') v = v" "dropWhile (\<lambda>x. x \<noteq> CHR '';'') v = []"
    using Cons.prems kv by (auto simp: takeWhile_eq_all_conv dropWhile_eq_Nil_conv)
  have rest: "connection_settings [] = []" by (simp add: connection_settings.simps)
  show ?case
  proof (cases kvs)
    case Nil
    then show ?thesis using Cons.prems
      by (subst connection_settings.simps) (simp add: settings_text_def kv split_at last rest)
  next
    case (Cons kv2 kvs2)
    have "settings_text (kv # kvs) = k @ CHR ''='' # v @ CHR '';'' # settings_text kvs" by (simp add: settings_text_def kv Cons)
    then show ?thesis using Cons.prems Cons.IH
      by (subst connection_settings.simps) (simp add: kv split_at)
  qed
qed

text \<open>Block ids are distinct.\<close>

lemma pad_inj:
  assumes "replicate (6 - length (dec_digits m)) CHR ''0'' @ dec_digits m = replicate (6 - length (dec_digits n)) CHR ''0'' @ dec_digits n"
  shows "m = n"
proof -
  have "take_digits 10 0 (replicate k CHR ''0'' @ ds) = take_digits 10 0 ds" for k ds
    by (induction k) (simp_all add: digit_val_def hex_val_def)
  then show ?thesis using arg_cong [OF assms, of "take_digits 10 0"] take_digits_dec by metis
qed

lemma generate_block_id_inj [simp]: "generate_block_id m = generate_block_id n \<longleftrightarrow> m = n"
proof
  assume "generate_block_id m = generate_block_id n"
  then have "map of_char (replicate (6 - length (dec_digits m)) CHR ''0'' @ dec_digits m) =
      (map of_char (replicate (6 - length (dec_digits n)) CHR ''0'' @ dec_digits n) :: bytes)"
    unfolding generate_block_id_def base64_encode_text_def by (metis base64_decode_def decode_encode_loop)
  moreover have "inj (of_char :: char \<Rightarrow> u8)"
  proof (rule injI)
    fix x y :: char
    assume "(of_char x :: u8) = of_char y"
    then have "text_bytes [x] = text_bytes [y]" by (simp add: text_bytes_def of_nat_of_char)
    then show "x = y" by (metis bytes_text_bytes list.inject)
  qed
  ultimately show "m = n" by (intro pad_inj) (metis inj_map_eq_map)
qed simp

end
