(* ===== verification/Azure_Streams.thy ===== *)
theory Azure_Streams
  imports Azure_Http S3_Upload_Stream
begin

text \<open>
  The streams of cloud/azure_blob_storage.cpp. An upload stream cuts the data into blocks, names each, starts a thread that
  stages it, and commits the list of names when it is finalised; the threads run when a schedule lets them, as for the
  S3 client: each step names the pending blocks (by their place) whose requests are carried out at that point. \<open>None\<close>
  means that the schedule ended before the call returned. A download stream asks for the properties of the blob when it is
  made (\<open>None\<close>: the exception of \<open>std::stoull\<close>) and for a range of it at every read.
  The number of a block, an \<open>int\<close>, is taken not to overflow.
\<close>

section \<open>State\<close>

datatype block_future = Block_running bytes | Block_ready "unit result" | Block_taken

record azure_upload_stream =
  ab_blob_name :: string
  ab_config :: azure_blob_config
  ab_block_ids :: "string list"
  ab_current_block_number :: nat
  ab_buffer :: bytes
  ab_bytes_written :: u64
  ab_finalized :: bool
  ab_aborted :: bool
  ab_pending :: "(string \<times> block_future) list"

definition open_azure_upload_stream :: "string \<Rightarrow> azure_blob_config \<Rightarrow> azure_upload_stream" where
  "open_azure_upload_stream blob cfg =
     \<lparr>ab_blob_name = blob, ab_config = cfg, ab_block_ids = [], ab_current_block_number = 0, ab_buffer = [],
      ab_bytes_written = 0, ab_finalized = False, ab_aborted = False, ab_pending = []\<rparr>"

definition has_azure_client :: "'w azure_env \<Rightarrow> bool" where
  "has_azure_client env \<longleftrightarrow> ce_network (ae_cloud env) \<or> ae_injected env"

section \<open>Blocks\<close>

definition block_url :: "azure_blob_config \<Rightarrow> string \<Rightarrow> string \<Rightarrow> string" where
  "block_url cfg blob block_id =
     blob_request_url cfg blob @ ''?comp=block&blockid='' @ url_encode block_id True"

text \<open>\<open>std::to_string\<close> of the size is also what is signed as the length.\<close>

definition upload_block ::
  "'w azure_env \<Rightarrow> azure_blob_config \<Rightarrow> string \<Rightarrow> string \<Rightarrow> bytes \<Rightarrow> 'w \<Rightarrow> 'w \<times> unit result" where
  "upload_block env cfg blob block_id data w =
     (if \<not> ce_network (ae_cloud env) then (w, Inr ())
      else case azure_request env cfg ''PUT'' (block_url cfg blob block_id) (blob_resource cfg blob)
                  [(''Content-Length'', dec_digits (length data)), (''Content-Type'', ''application/octet-stream'')]
                  (dec_digits (length data)) data w of
             (w, rq) \<Rightarrow>
               (case ce_http (ae_cloud env) rq w of
                  (w, None) \<Rightarrow> (w, Inl Internal_error)
                | (w, Some r) \<Rightarrow> (w, if rs_status r \<noteq> 201 then Inl Internal_error else Inr ())))"

definition block_list_url :: "azure_blob_config \<Rightarrow> string \<Rightarrow> string" where
  "block_list_url cfg blob = blob_request_url cfg blob @ ''?comp=blocklist''"

definition commit_block_list ::
  "'w azure_env \<Rightarrow> azure_upload_stream \<Rightarrow> 'w \<Rightarrow> 'w \<times> upload_result result" where
  "commit_block_list env u w =
     (let cfg = ab_config u; blob = ab_blob_name u; body = block_list_xml (ab_block_ids u)
      in if \<not> has_azure_client env then (w, Inl Not_initialized)
         else case azure_request env cfg ''PUT'' (block_list_url cfg blob) (blob_resource cfg blob)
                     [(''Content-Type'', ''application/xml''), (''Content-Length'', dec_digits (length body)),
                      (''x-ms-blob-content-type'', detect_content_type blob)]
                     (dec_digits (length body)) (text_bytes body) w of
                (w, rq) \<Rightarrow>
                  (case ce_http (ae_cloud env) rq w of
                     (w, None) \<Rightarrow> (w, Inl Internal_error)
                   | (w, Some r) \<Rightarrow>
                       if rs_status r \<noteq> 201 then (w, Inl Internal_error)
                       else (w, Inr (new_upload_result blob
                               (case rs_get_header r ''ETag'' of
                                  Some e \<Rightarrow> e
                                | None \<Rightarrow> in_quotes (payload_hash_of (ae_cloud env) (text_bytes (concat (ab_block_ids u)))))
                               (ab_bytes_written u)))))"

definition run_block :: "'w azure_env \<Rightarrow> nat \<Rightarrow> azure_upload_stream \<times> 'w \<Rightarrow> azure_upload_stream \<times> 'w" where
  "run_block env i uw =
     (case uw of
        (u, w) \<Rightarrow>
          if i < length (ab_pending u)
          then (case ab_pending u ! i of
                  (b, Block_running d) \<Rightarrow>
                    (case upload_block env (ab_config u) (ab_blob_name u) b d w of
                       (w, r) \<Rightarrow> (u\<lparr>ab_pending := (ab_pending u)[i := (b, Block_ready r)]\<rparr>, w))
                | _ \<Rightarrow> (u, w))
          else (u, w))"

definition run_blocks :: "'w azure_env \<Rightarrow> nat list \<Rightarrow> azure_upload_stream \<times> 'w \<Rightarrow> azure_upload_stream \<times> 'w" where
  "run_blocks env is uw = foldl (\<lambda>uw i. run_block env i uw) uw is"

fun block_runs :: "string \<times> block_future \<Rightarrow> bool" where
  "block_runs (b, Block_running d) = True"
| "block_runs _ = False"

definition azure_slots_taken :: "azure_upload_stream \<Rightarrow> bool" where
  "azure_slots_taken u \<longleftrightarrow>
     length (filter block_runs (ab_pending u)) \<ge> mp_max_concurrent_parts (sc_multipart (ab_config u))"

fun collect_blocks :: "(string \<times> block_future) list \<Rightarrow> (string \<times> block_future) list \<times> unit result" where
  "collect_blocks [] = ([], Inr ())"
| "collect_blocks ((b, Block_taken) # ps) = collect_blocks ps"
| "collect_blocks ((b, Block_ready (Inl e)) # ps) = ((b, Block_taken) # ps, Inl e)"
| "collect_blocks ((b, Block_ready (Inr _)) # ps) = collect_blocks ps"
| "collect_blocks ((b, Block_running d) # ps) =
     (case collect_blocks ps of (ps', r) \<Rightarrow> ((b, Block_running d) # ps', r))"

definition azure_collect :: "azure_upload_stream \<Rightarrow> azure_upload_stream \<times> unit result" where
  "azure_collect u = (case collect_blocks (ab_pending u) of (ps, r) \<Rightarrow> (u\<lparr>ab_pending := ps\<rparr>, r))"

fun wait_blocks ::
  "'w azure_env \<Rightarrow> azure_upload_stream \<Rightarrow> (string \<times> block_future) list \<Rightarrow> 'w \<Rightarrow>
   (string \<times> block_future) list \<times> 'w \<times> unit result" where
  "wait_blocks env u [] w = ([], w, Inr ())"
| "wait_blocks env u ((b, f) # ps) w =
     (case (case f of
              Block_running d \<Rightarrow> upload_block env (ab_config u) (ab_blob_name u) b d w
            | Block_ready r \<Rightarrow> (w, r)
            | Block_taken \<Rightarrow> (w, Inr ())) of
        (w, Inl e) \<Rightarrow> ((b, Block_taken) # ps, w, Inl e)
      | (w, Inr _) \<Rightarrow> (case wait_blocks env u ps w of (ps', w, r) \<Rightarrow> ((b, Block_taken) # ps', w, r)))"

definition azure_wait_all :: "'w azure_env \<Rightarrow> azure_upload_stream \<Rightarrow> 'w \<Rightarrow> azure_upload_stream \<times> 'w \<times> unit result" where
  "azure_wait_all env u w =
     (case wait_blocks env u (ab_pending u) w of
        (ps, w, Inl e) \<Rightarrow> (u\<lparr>ab_pending := ps\<rparr>, w, Inl e)
      | (ps, w, Inr _) \<Rightarrow> (u\<lparr>ab_pending := []\<rparr>, w, Inr ()))"

fun azure_wait_for_slot ::
  "'w azure_env \<Rightarrow> schedule \<Rightarrow> azure_upload_stream \<Rightarrow> 'w \<Rightarrow> (azure_upload_stream \<times> 'w \<times> schedule \<times> unit result) option" where
  "azure_wait_for_slot env [] u w = (if azure_slots_taken u then None else Some (u, w, [], Inr ()))"
| "azure_wait_for_slot env (is # sch) u w =
     (if azure_slots_taken u
      then (case run_blocks env is (u, w) of
              (u, w) \<Rightarrow>
                (case azure_collect u of
                   (u, Inl e) \<Rightarrow> Some (u, w, sch, Inl e)
                 | (u, Inr _) \<Rightarrow> azure_wait_for_slot env sch u w))
      else Some (u, w, is # sch, Inr ()))"

section \<open>Writing\<close>

text \<open>The name of the block is listed before its thread is started.\<close>

definition upload_block_async :: "azure_upload_stream \<Rightarrow> azure_upload_stream" where
  "upload_block_async u =
     (let b = generate_block_id (ab_current_block_number u)
      in u\<lparr>ab_block_ids := ab_block_ids u @ [b], ab_pending := ab_pending u @ [(b, Block_running (ab_buffer u))],
           ab_current_block_number := ab_current_block_number u + 1, ab_buffer := []\<rparr>)"

definition flush_azure_block ::
  "'w azure_env \<Rightarrow> schedule \<Rightarrow> azure_upload_stream \<Rightarrow> 'w \<Rightarrow> (azure_upload_stream \<times> 'w \<times> schedule \<times> unit result) option" where
  "flush_azure_block env sch u w =
     (case sch of
        [] \<Rightarrow> None
      | is # sch \<Rightarrow>
          (case run_blocks env is (u, w) of
             (u, w) \<Rightarrow>
               (case azure_wait_for_slot env sch u w of
                  None \<Rightarrow> None
                | Some (u, w, sch, Inl e) \<Rightarrow> Some (u, w, sch, Inl e)
                | Some (u, w, sch, Inr _) \<Rightarrow>
                    (case azure_collect u of
                       (u, Inl e) \<Rightarrow> Some (u, w, sch, Inl e)
                     | (u, Inr _) \<Rightarrow> Some (upload_block_async u, w, sch, Inr ())))))"

lemma azure_wait_for_slot_schedule: "azure_wait_for_slot env sch u w = Some (u', w', sch', r) \<Longrightarrow> length sch' \<le> length sch"
  by (induction env sch u w rule: azure_wait_for_slot.induct) (auto intro: le_SucI split: if_splits prod.splits sum.splits)

lemma flush_azure_block_schedule: "flush_azure_block env sch u w = Some (u', w', sch', r) \<Longrightarrow> length sch' < length sch"
  by (auto simp: flush_azure_block_def dest!: azure_wait_for_slot_schedule split: list.splits prod.splits option.splits sum.splits)

definition block_space :: "azure_upload_stream \<Rightarrow> nat" where
  "block_space u = unat (mp_part_size (sc_multipart (ab_config u))) - length (ab_buffer u)"

definition fill_block :: "bytes \<Rightarrow> azure_upload_stream \<Rightarrow> azure_upload_stream" where
  "fill_block data u = u\<lparr>ab_buffer := ab_buffer u @ take (block_space u) data\<rparr>"

function azure_write_loop ::
  "'w azure_env \<Rightarrow> schedule \<Rightarrow> bytes \<Rightarrow> azure_upload_stream \<Rightarrow> 'w \<Rightarrow>
   (azure_upload_stream \<times> 'w \<times> schedule \<times> unit result) option" where
  "azure_write_loop env sch data u w =
     (if data = [] then Some (u, w, sch, Inr ())
      else let u' = fill_block data u; rest = drop (block_space u) data
           in if block_space u' = 0
              then (case flush_azure_block env sch u' w of
                      None \<Rightarrow> None
                    | Some (u', w, sch', Inl e) \<Rightarrow> Some (u', w, sch', Inl e)
                    | Some (u', w, sch', Inr _) \<Rightarrow> azure_write_loop env sch' rest u' w)
              else azure_write_loop env sch rest u' w)"
  by pat_completeness auto
termination
proof (relation "measures [\<lambda>(env, sch, data, u, w). length sch, \<lambda>(env, sch, data, u, w). length data]", goal_cases)
  case (3 env sch data u w u' rest)
  then show ?case by (cases "block_space u") (auto simp: block_space_def fill_block_def)
qed (auto dest: flush_azure_block_schedule)

declare azure_write_loop.simps [simp del]

definition azure_write ::
  "'w azure_env \<Rightarrow> schedule \<Rightarrow> bytes \<Rightarrow> azure_upload_stream \<Rightarrow> 'w \<Rightarrow>
   (azure_upload_stream \<times> 'w \<times> schedule \<times> nat result) option" where
  "azure_write env sch data u w =
     (if ab_finalized u \<or> ab_aborted u then Some (u, w, sch, Inl Internal_error)
      else case azure_write_loop env sch data u w of
             None \<Rightarrow> None
           | Some (u, w, sch, Inl e) \<Rightarrow> Some (u, w, sch, Inl e)
           | Some (u, w, sch, Inr _) \<Rightarrow>
               Some (u\<lparr>ab_bytes_written := ab_bytes_written u + word_of_nat (length data)\<rparr>, w, sch, Inr (length data)))"

section \<open>Closing\<close>

text \<open>\<open>is\<close> and \<open>js\<close>: the blocks that finish before and after the last one is sent.\<close>

definition upload_last_block ::
  "'w azure_env \<Rightarrow> azure_upload_stream \<Rightarrow> 'w \<Rightarrow> azure_upload_stream \<times> 'w \<times> unit result" where
  "upload_last_block env u w =
     (if ab_buffer u = [] then (u, w, Inr ())
      else let b = generate_block_id (ab_current_block_number u)
           in case upload_block env (ab_config u) (ab_blob_name u) b (ab_buffer u) w of
                (w, r) \<Rightarrow> (u\<lparr>ab_block_ids := ab_block_ids u @ [b]\<rparr>, w, r))"

definition azure_finalize ::
  "'w azure_env \<Rightarrow> nat list \<Rightarrow> nat list \<Rightarrow> azure_upload_stream \<Rightarrow> 'w \<Rightarrow> azure_upload_stream \<times> 'w \<times> upload_result result" where
  "azure_finalize env is js u w =
     (if ab_finalized u \<or> ab_aborted u then (u, w, Inl Internal_error)
      else case run_blocks env is (u, w) of
             (u, w) \<Rightarrow>
               (case upload_last_block env u w of
                  (u, w, Inl e) \<Rightarrow> (u, w, Inl e)
                | (u, w, Inr _) \<Rightarrow>
                    (case run_blocks env js (u, w) of
                       (u, w) \<Rightarrow>
                         (case azure_wait_all env u w of
                            (u, w, Inl e) \<Rightarrow> (u, w, Inl e)
                          | (u, w, Inr _) \<Rightarrow>
                              (case commit_block_list env (u\<lparr>ab_finalized := True\<rparr>) w of
                                 (w, r) \<Rightarrow> (u\<lparr>ab_finalized := True\<rparr>, w, r))))))"

definition azure_abort :: "azure_upload_stream \<Rightarrow> azure_upload_stream \<times> unit result" where
  "azure_abort u = (u\<lparr>ab_aborted := True\<rparr>, Inr ())"

section \<open>Downloading\<close>

record azure_download_stream =
  ad_blob_name :: string
  ad_config :: azure_blob_config
  ad_metadata :: cloud_object_metadata
  ad_bytes_read :: u64
  ad_total_size :: u64
  ad_initialized :: bool

definition azure_http_date :: "'w azure_env \<Rightarrow> string \<Rightarrow> int option" where
  "azure_http_date env s =
     map_option (ae_mktime env)
       (get_time ([Day_name, Literal CHR '','', Literal CHR '' '', Day_of_month, Literal CHR '' '', Month_name,
                   Literal CHR '' '', Year_number, Literal CHR '' ''] @ clock_items) zero_tm (dropWhile is_space s))"

text \<open>The properties of a blob from the headers of an answer; \<open>None\<close> if the length is not a number.\<close>

definition blob_properties :: "'w azure_env \<Rightarrow> string \<Rightarrow> http_response \<Rightarrow> cloud_object_metadata option" where
  "blob_properties env blob r =
     (case (case rs_get_header r ''Content-Length'' of None \<Rightarrow> Some 0 | Some t \<Rightarrow> stoull 10 t) of
        None \<Rightarrow> None
      | Some n \<Rightarrow>
          Some ((new_object_metadata blob)
            \<lparr>cm_size := word_of_nat n,
             cm_content_type := (case rs_get_header r ''Content-Type'' of Some t \<Rightarrow> t | None \<Rightarrow> detect_content_type blob),
             cm_etag := (case rs_get_header r ''ETag'' of Some e \<Rightarrow> e | None \<Rightarrow> []),
             cm_last_modified :=
               (case Option.bind (rs_get_header r ''Last-Modified'') (azure_http_date env) of Some t \<Rightarrow> t | None \<Rightarrow> 0)\<rparr>))"

definition new_azure_download :: "string \<Rightarrow> azure_blob_config \<Rightarrow> azure_download_stream" where
  "new_azure_download blob cfg =
     \<lparr>ad_blob_name = blob, ad_config = cfg, ad_metadata = new_object_metadata [], ad_bytes_read = 0, ad_total_size = 0,
      ad_initialized = False\<rparr>"

definition open_azure_download_stream ::
  "'w azure_env \<Rightarrow> string \<Rightarrow> azure_blob_config \<Rightarrow> 'w \<Rightarrow> (azure_download_stream \<times> 'w) option" where
  "open_azure_download_stream env blob cfg w =
     (let d = new_azure_download blob cfg
      in if \<not> ce_network (ae_cloud env)
         then Some (d\<lparr>ad_metadata := (new_object_metadata blob)\<lparr>cm_content_type := detect_content_type blob\<rparr>,
                      ad_initialized := True\<rparr>, w)
         else case azure_request env cfg ''HEAD'' (blob_request_url cfg blob) (blob_resource cfg blob) [] [] [] w of
                (w, rq) \<Rightarrow>
                  (case ae_default_http env rq w of
                     (w, None) \<Rightarrow> Some (d, w)
                   | (w, Some r) \<Rightarrow>
                       if rs_status r \<noteq> 200 then Some (d, w)
                       else map_option
                              (\<lambda>m. (d\<lparr>ad_metadata := m, ad_total_size := cm_size m, ad_initialized := True\<rparr>, w))
                              (blob_properties env blob r)))"

definition fetch_range ::
  "'w azure_env \<Rightarrow> u64 \<Rightarrow> u64 \<Rightarrow> azure_download_stream \<Rightarrow> 'w \<Rightarrow> 'w \<times> bytes result" where
  "fetch_range env start stop d w =
     (let cfg = ad_config d; blob = ad_blob_name d
      in if \<not> ce_network (ae_cloud env) then (w, Inr [])
         else case azure_request env cfg ''GET'' (blob_request_url cfg blob) (blob_resource cfg blob)
                     [(''Range'', ''bytes='' @ dec_digits (unat start) @ ''-'' @ dec_digits (unat stop))] [] [] w of
                (w, rq) \<Rightarrow>
                  (case ae_default_http env rq w of
                     (w, None) \<Rightarrow> (w, Inl Internal_error)
                   | (w, Some r) \<Rightarrow>
                       (w, if rs_status r \<noteq> 200 \<and> rs_status r \<noteq> 206 then Inl Internal_error else Inr (rs_body r))))"

text \<open>\<open>n\<close>: the size of the buffer. The end of the range wraps around when it is 0.\<close>

definition azure_read ::
  "'w azure_env \<Rightarrow> nat \<Rightarrow> azure_download_stream \<Rightarrow> 'w \<Rightarrow> azure_download_stream \<times> 'w \<times> bytes result" where
  "azure_read env n d w =
     (if \<not> ad_initialized d then (d, w, Inl Not_initialized)
      else if ad_bytes_read d \<ge> ad_total_size d then (d, w, Inr [])
      else let start = ad_bytes_read d; stop = min (start + word_of_nat n - 1) (ad_total_size d - 1)
           in case fetch_range env start stop d w of
                (w, Inl e) \<Rightarrow> (d, w, Inl e)
              | (w, Inr data) \<Rightarrow>
                  (d\<lparr>ad_bytes_read := ad_bytes_read d + word_of_nat (min (length data) n)\<rparr>, w, Inr (take n data)))"

definition azure_has_more :: "azure_download_stream \<Rightarrow> bool" where
  "azure_has_more d \<longleftrightarrow> ad_bytes_read d < ad_total_size d"

end
