(* ===== verification/Azure_Storage.thy ===== *)
theory Azure_Storage
  imports Azure_Streams File_System
begin

text \<open>
  The Azure Blob backend of cloud/azure_blob_storage.cpp: the state of \<open>azure_blob_storage::impl\<close> and its operations, each a
  function of the storage, the world of the services and, for the file operations, the file system. Uploads below the
  threshold and copies are stubs in the source that send nothing. \<open>get_metadata\<close> and \<open>list_objects\<close> parse lengths with
  \<open>std::stoull\<close>, whose exceptions nobody catches: there \<open>None\<close> is the exception. The \<open>_async\<close> operations run the same
  functions on a thread; progress callbacks are stored and never called; parent directories are not modelled, and a file
  that can be opened is read whole. \<open>as_notified\<close> is what a state callback sees.
\<close>

section \<open>State\<close>

record azure_storage =
  as_config :: azure_blob_config
  as_state :: cloud_storage_state
  as_stats :: cloud_storage_statistics
  as_connected_at :: int
  as_notified :: "cloud_storage_state list"

text \<open>\<open>azure_blob_storage::create\<close>; \<open>there\<close>: whether a credential provider is passed.\<close>

definition azure_create :: "azure_blob_config \<Rightarrow> bool \<Rightarrow> azure_storage option" where
  "azure_create cfg there =
     (if az_container cfg = [] \<or> az_config_account_name cfg = [] \<or> \<not> there then None
      else Some \<lparr>as_config = cfg, as_state = Cs_disconnected, as_stats = zero_cloud_statistics, as_connected_at = 0,
                 as_notified = []\<rparr>)"

definition azure_set_state :: "cloud_storage_state \<Rightarrow> azure_storage \<Rightarrow> azure_storage" where
  "azure_set_state new s = s\<lparr>as_state := new, as_notified := as_notified s @ [new]\<rparr>"

definition azure_is_connected :: "azure_storage \<Rightarrow> bool" where
  "azure_is_connected s \<longleftrightarrow> as_state s = Cs_connected"

definition azure_update_upload_stats :: "u64 \<Rightarrow> azure_storage \<Rightarrow> azure_storage" where
  "azure_update_upload_stats n s =
     s\<lparr>as_stats := (as_stats s)\<lparr>cst_bytes_uploaded := cst_bytes_uploaded (as_stats s) + n,
                                cst_upload_count := cst_upload_count (as_stats s) + 1\<rparr>\<rparr>"

definition azure_update_download_stats :: "u64 \<Rightarrow> azure_storage \<Rightarrow> azure_storage" where
  "azure_update_download_stats n s =
     s\<lparr>as_stats := (as_stats s)\<lparr>cst_bytes_downloaded := cst_bytes_downloaded (as_stats s) + n,
                                cst_download_count := cst_download_count (as_stats s) + 1\<rparr>\<rparr>"

definition azure_update_list_stats :: "azure_storage \<Rightarrow> azure_storage" where
  "azure_update_list_stats s = s\<lparr>as_stats := (as_stats s)\<lparr>cst_list_count := cst_list_count (as_stats s) + 1\<rparr>\<rparr>"

definition azure_update_delete_stats :: "azure_storage \<Rightarrow> azure_storage" where
  "azure_update_delete_stats s = s\<lparr>as_stats := (as_stats s)\<lparr>cst_delete_count := cst_delete_count (as_stats s) + 1\<rparr>\<rparr>"

definition azure_update_error_stats :: "azure_storage \<Rightarrow> azure_storage" where
  "azure_update_error_stats s = s\<lparr>as_stats := (as_stats s)\<lparr>cst_errors := cst_errors (as_stats s) + 1\<rparr>\<rparr>"

definition azure_connect :: "'w azure_env \<Rightarrow> int \<Rightarrow> azure_storage \<Rightarrow> 'w \<Rightarrow> azure_storage \<times> unit result" where
  "azure_connect env now s w =
     (let s = azure_set_state Cs_connecting s
      in if ce_credentials (ae_cloud env) w = None then (azure_set_state Cs_error s, Inl Internal_error)
         else (azure_set_state Cs_connected
                 (s\<lparr>as_connected_at := now, as_stats := (as_stats s)\<lparr>cst_connected_at := now\<rparr>\<rparr>), Inr ()))"

definition azure_disconnect :: "azure_storage \<Rightarrow> azure_storage \<times> unit result" where
  "azure_disconnect s = (azure_set_state Cs_disconnected s, Inr ())"

definition azure_reset_statistics :: "azure_storage \<Rightarrow> azure_storage" where
  "azure_reset_statistics s = s\<lparr>as_stats := zero_cloud_statistics\<lparr>cst_connected_at := as_connected_at s\<rparr>\<rparr>"

section \<open>Uploads\<close>

definition use_block_blob :: "azure_blob_config \<Rightarrow> bytes \<Rightarrow> bool" where
  "use_block_blob cfg data \<longleftrightarrow>
     mp_enabled (sc_multipart cfg) \<and> length data \<ge> unat (mp_threshold (sc_multipart cfg))"

definition azure_upload_single :: "'w azure_env \<Rightarrow> string \<Rightarrow> bytes \<Rightarrow> azure_storage \<Rightarrow> azure_storage \<times> upload_result" where
  "azure_upload_single env key data s =
     (azure_update_upload_stats (word_of_nat (length data)) s,
      new_upload_result key (in_quotes (payload_hash_of (ae_cloud env) data)) (word_of_nat (length data)))"

definition azure_upload_blocks ::
  "'w azure_env \<Rightarrow> schedule \<Rightarrow> nat list \<Rightarrow> nat list \<Rightarrow> string \<Rightarrow> bytes \<Rightarrow> azure_storage \<Rightarrow> 'w \<Rightarrow>
   (azure_storage \<times> 'w \<times> upload_result result) option" where
  "azure_upload_blocks env sch is js key data s w =
     (case azure_write env sch data (open_azure_upload_stream key (as_config s)) w of
        None \<Rightarrow> None
      | Some (u, w, _, Inl e) \<Rightarrow> Some (azure_update_error_stats s, w, Inl e)
      | Some (u, w, _, Inr _) \<Rightarrow>
          (case azure_finalize env is js u w of
             (u, w, Inl e) \<Rightarrow> Some (azure_update_error_stats s, w, Inl e)
           | (u, w, Inr r) \<Rightarrow> Some (azure_update_upload_stats (word_of_nat (length data)) s, w, Inr r)))"

text \<open>The options of the transfer are not used.\<close>

definition azure_upload ::
  "'w azure_env \<Rightarrow> schedule \<Rightarrow> nat list \<Rightarrow> nat list \<Rightarrow> string \<Rightarrow> bytes \<Rightarrow> azure_storage \<Rightarrow> 'w \<Rightarrow>
   (azure_storage \<times> 'w \<times> upload_result result) option" where
  "azure_upload env sch is js key data s w =
     (if \<not> azure_is_connected s then Some (s, w, Inl Not_initialized)
      else if use_block_blob (as_config s) data then azure_upload_blocks env sch is js key data s w
      else case azure_upload_single env key data s of (s, r) \<Rightarrow> Some (s, w, Inr r))"

definition azure_upload_file ::
  "'w azure_env \<Rightarrow> io_env \<Rightarrow> filesystem \<Rightarrow> schedule \<Rightarrow> nat list \<Rightarrow> nat list \<Rightarrow> path \<Rightarrow> string \<Rightarrow> azure_storage \<Rightarrow> 'w \<Rightarrow>
   (azure_storage \<times> 'w \<times> upload_result result) option" where
  "azure_upload_file env io fs sch is js local_path key s w =
     (if \<not> azure_is_connected s then Some (s, w, Inl Not_initialized)
      else if \<not> fs_exists fs local_path then Some (s, w, Inl File_not_found)
      else case fs_read io fs local_path of
             None \<Rightarrow> Some (s, w, Inl File_access_denied)
           | Some data \<Rightarrow> azure_upload env sch is js key data s w)"

section \<open>Requests on one blob\<close>

text \<open>A signed request without a body; a failed one counts as an error.\<close>

definition azure_call ::
  "'w azure_env \<Rightarrow> string \<Rightarrow> string \<Rightarrow> string \<Rightarrow> azure_storage \<Rightarrow> 'w \<Rightarrow> azure_storage \<times> 'w \<times> http_response result" where
  "azure_call env method url resource s w =
     (case azure_request env (as_config s) method url resource [] [] [] w of
        (w, rq) \<Rightarrow>
          (case ce_http (ae_cloud env) rq w of
             (w, None) \<Rightarrow> (azure_update_error_stats s, w, Inl Internal_error)
           | (w, Some r) \<Rightarrow> (s, w, Inr r)))"

definition azure_blob_call ::
  "'w azure_env \<Rightarrow> string \<Rightarrow> string \<Rightarrow> azure_storage \<Rightarrow> 'w \<Rightarrow> azure_storage \<times> 'w \<times> http_response result" where
  "azure_blob_call env method key s w =
     azure_call env method (blob_request_url (as_config s) key) (blob_resource (as_config s) key) s w"

definition azure_download :: "'w azure_env \<Rightarrow> string \<Rightarrow> azure_storage \<Rightarrow> 'w \<Rightarrow> azure_storage \<times> 'w \<times> bytes result" where
  "azure_download env key s w =
     (if \<not> azure_is_connected s then (s, w, Inl Not_initialized)
      else if \<not> ce_network (ae_cloud env) then (azure_update_download_stats 0 s, w, Inr [])
      else case azure_blob_call env ''GET'' key s w of
             (s, w, Inl e) \<Rightarrow> (s, w, Inl e)
           | (s, w, Inr r) \<Rightarrow>
               if rs_status r = 404 then (s, w, Inl File_not_found)
               else if rs_status r \<noteq> 200 then (azure_update_error_stats s, w, Inl Internal_error)
               else (azure_update_download_stats (word_of_nat (length (rs_body r))) s, w, Inr (rs_body r)))"

definition azure_download_file ::
  "'w azure_env \<Rightarrow> io_env \<Rightarrow> string \<Rightarrow> path \<Rightarrow> azure_storage \<Rightarrow> 'w \<Rightarrow> filesystem \<Rightarrow>
   azure_storage \<times> 'w \<times> filesystem \<times> download_result result" where
  "azure_download_file env io key local_path s w fs =
     (if \<not> azure_is_connected s then (s, w, fs, Inl Not_initialized)
      else case azure_download env key s w of
             (s, w, Inl e) \<Rightarrow> (s, w, fs, Inl e)
           | (s, w, Inr data) \<Rightarrow>
               if open_write_fails io local_path then (s, w, fs, Inl File_access_denied)
               else if write_fails io local_path then (s, w, fs(local_path \<mapsto> []), Inl File_write_error)
               else (s, w, fs(local_path \<mapsto> data),
                     Inr \<lparr>dr_key = key, dr_bytes_downloaded = word_of_nat (length data),
                          dr_metadata = (new_object_metadata key)\<lparr>cm_size := word_of_nat (length data)\<rparr>\<rparr>))"

definition azure_delete_object :: "'w azure_env \<Rightarrow> string \<Rightarrow> azure_storage \<Rightarrow> 'w \<Rightarrow> azure_storage \<times> 'w \<times> delete_result result" where
  "azure_delete_object env key s w =
     (if \<not> azure_is_connected s then (s, w, Inl Not_initialized)
      else if \<not> ce_network (ae_cloud env) then (azure_update_delete_stats s, w, Inr (new_delete_result key))
      else case azure_blob_call env ''DELETE'' key s w of
             (s, w, Inl e) \<Rightarrow> (s, w, Inl e)
           | (s, w, Inr r) \<Rightarrow>
               if rs_status r \<noteq> 202 \<and> rs_status r \<noteq> 404 then (azure_update_error_stats s, w, Inl Internal_error)
               else (azure_update_delete_stats s, w, Inr (new_delete_result key)))"

fun azure_delete_each :: "'w azure_env \<Rightarrow> string list \<Rightarrow> azure_storage \<Rightarrow> 'w \<Rightarrow> azure_storage \<times> 'w \<times> delete_result list" where
  "azure_delete_each env [] s w = (s, w, [])"
| "azure_delete_each env (key # keys) s w =
     (case azure_delete_object env key s w of
        (s, w, r) \<Rightarrow>
          (case azure_delete_each env keys s w of
             (s, w, rs) \<Rightarrow> (s, w, case r of Inl _ \<Rightarrow> rs | Inr d \<Rightarrow> d # rs)))"

definition azure_delete_objects ::
  "'w azure_env \<Rightarrow> string list \<Rightarrow> azure_storage \<Rightarrow> 'w \<Rightarrow> azure_storage \<times> 'w \<times> delete_result list result" where
  "azure_delete_objects env keys s w =
     (if \<not> azure_is_connected s then (s, w, Inl Not_initialized)
      else case azure_delete_each env keys s w of (s, w, rs) \<Rightarrow> (s, w, Inr rs))"

definition azure_exists :: "'w azure_env \<Rightarrow> string \<Rightarrow> azure_storage \<Rightarrow> 'w \<Rightarrow> azure_storage \<times> 'w \<times> bool result" where
  "azure_exists env key s w =
     (if \<not> azure_is_connected s then (s, w, Inl Not_initialized)
      else if \<not> ce_network (ae_cloud env) then (s, w, Inr False)
      else case azure_blob_call env ''HEAD'' key s w of
             (s, w, Inl e) \<Rightarrow> (s, w, Inl e)
           | (s, w, Inr r) \<Rightarrow> (s, w, Inr (rs_status r = 200)))"

definition azure_get_metadata ::
  "'w azure_env \<Rightarrow> string \<Rightarrow> azure_storage \<Rightarrow> 'w \<Rightarrow> (azure_storage \<times> 'w \<times> cloud_object_metadata result) option" where
  "azure_get_metadata env key s w =
     (if \<not> azure_is_connected s then Some (s, w, Inl Not_initialized)
      else if \<not> ce_network (ae_cloud env)
      then Some (s, w, Inr ((new_object_metadata key)\<lparr>cm_content_type := detect_content_type key\<rparr>))
      else case azure_blob_call env ''HEAD'' key s w of
             (s, w, Inl e) \<Rightarrow> Some (s, w, Inl e)
           | (s, w, Inr r) \<Rightarrow>
               if rs_status r = 404 then Some (s, w, Inl File_not_found)
               else if rs_status r \<noteq> 200 then Some (azure_update_error_stats s, w, Inl Internal_error)
               else map_option (\<lambda>m. (s, w, Inr m)) (blob_properties env key r))"

section \<open>Listing\<close>

text \<open>\<open>&name=value\<close> for a value that is there and not empty.\<close>

definition list_param :: "string \<Rightarrow> string option \<Rightarrow> string" where
  "list_param name v =
     (case v of Some x \<Rightarrow> if x \<noteq> [] then ''&'' @ name @ ''='' @ url_encode x True else [] | None \<Rightarrow> [])"

definition azure_list_url :: "azure_blob_config \<Rightarrow> list_objects_options \<Rightarrow> string" where
  "azure_list_url cfg opts =
     container_url cfg @ ''?restype=container&comp=list'' @ list_param ''prefix'' (lq_prefix opts) @
     (if lq_max_keys opts > 0 then ''&maxresults='' @ dec_digits (lq_max_keys opts) else []) @
     list_param ''marker'' (lq_token opts) @ list_param ''delimiter'' (lq_delimiter opts)"

lemma find_sub_shorter: "find_sub p s = Some t \<Longrightarrow> length t \<le> length s"
  by (induction p s rule: find_sub.induct) (auto split: if_splits)

text \<open>The blocks \<open><tag> ... </tag>\<close>; each search starts behind the last closing tag.\<close>

function element_blocks :: "string \<Rightarrow> string \<Rightarrow> string list" where
  "element_blocks tag xml =
     (case find_sub (''<'' @ tag @ ''>'') xml of
        None \<Rightarrow> []
      | Some r \<Rightarrow>
          (case find_sub (''</'' @ tag @ ''>'') r of
             None \<Rightarrow> []
           | Some t \<Rightarrow>
               take (length r - length t + length (''</'' @ tag @ ''>'')) r #
               element_blocks tag (drop (length (''</'' @ tag @ ''>'')) t)))"
  by pat_completeness auto
termination
proof (relation "measure (\<lambda>(tag, xml). length xml)", goal_cases)
  case (2 tag xml r t)
  from find_sub_shorter [OF 2(1)] find_sub_shorter [OF 2(2)] have "length t \<le> length xml" by simp
  moreover have "t \<noteq> []" using 2(2) by (induction "''</'' @ tag @ ''>''" r rule: find_sub.induct) (auto split: if_splits)
  ultimately show ?case by (cases t) auto
qed simp

declare element_blocks.simps [simp del]

definition blob_of_block :: "'w azure_env \<Rightarrow> string \<Rightarrow> cloud_object_metadata option" where
  "blob_of_block env xml =
     (let text = (\<lambda>tag. case extract_xml_element xml tag of Some v \<Rightarrow> v | None \<Rightarrow> [])
      in case (case extract_xml_element xml ''Content-Length'' of None \<Rightarrow> Some 0 | Some t \<Rightarrow> stoull 10 t) of
           None \<Rightarrow> None
         | Some n \<Rightarrow>
             Some ((new_object_metadata (text ''Name''))
               \<lparr>cm_size := word_of_nat n, cm_content_type := text ''Content-Type'', cm_etag := text ''Etag'',
                cm_last_modified :=
                  (case Option.bind (extract_xml_element xml ''Last-Modified'') (azure_http_date env) of Some t \<Rightarrow> t | None \<Rightarrow> 0)\<rparr>))"

definition parse_blob_list :: "'w azure_env \<Rightarrow> string \<Rightarrow> list_objects_result option" where
  "parse_blob_list env xml =
     (case those (map (blob_of_block env) (element_blocks ''Blob'' xml)) of
        None \<Rightarrow> None
      | Some objs \<Rightarrow>
          let marker = (case extract_xml_element xml ''NextMarker'' of Some m \<Rightarrow> if m \<noteq> [] then Some m else None | None \<Rightarrow> None)
          in Some \<lparr>lr_objects = objs,
                   lr_common_prefixes = List.map_filter (\<lambda>b. extract_xml_element b ''Name'') (element_blocks ''BlobPrefix'' xml),
                   lr_is_truncated = (marker \<noteq> None), lr_token = marker, lr_total_count = None\<rparr>)"

definition azure_list_objects ::
  "'w azure_env \<Rightarrow> list_objects_options \<Rightarrow> azure_storage \<Rightarrow> 'w \<Rightarrow> (azure_storage \<times> 'w \<times> list_objects_result result) option" where
  "azure_list_objects env opts s w =
     (if \<not> azure_is_connected s then Some (s, w, Inl Not_initialized)
      else if \<not> ce_network (ae_cloud env)
      then Some (azure_update_list_stats s, w, Inr \<lparr>lr_objects = [], lr_common_prefixes = [], lr_is_truncated = False,
                                                    lr_token = None, lr_total_count = None\<rparr>)
      else case azure_call env ''GET'' (azure_list_url (as_config s) opts) (''/'' @ az_container (as_config s)) s w of
             (s, w, Inl e) \<Rightarrow> Some (s, w, Inl e)
           | (s, w, Inr r) \<Rightarrow>
               if rs_status r \<noteq> 200 then Some (azure_update_error_stats s, w, Inl Internal_error)
               else map_option (\<lambda>l. (azure_update_list_stats s, w, Inr l)) (parse_blob_list env (get_body_string r)))"

section \<open>Copies, streams and tiers\<close>

definition azure_copy_object :: "string \<Rightarrow> string \<Rightarrow> azure_storage \<Rightarrow> cloud_object_metadata result" where
  "azure_copy_object source_key dest_key s =
     (if \<not> azure_is_connected s then Inl Not_initialized else Inr (new_object_metadata dest_key))"

definition azure_create_upload_stream :: "string \<Rightarrow> azure_storage \<Rightarrow> azure_upload_stream option" where
  "azure_create_upload_stream key s =
     (if azure_is_connected s then Some (open_azure_upload_stream key (as_config s)) else None)"

text \<open>The outer \<open>None\<close> is the exception of the constructor.\<close>

definition azure_create_download_stream ::
  "'w azure_env \<Rightarrow> string \<Rightarrow> azure_storage \<Rightarrow> 'w \<Rightarrow> (azure_download_stream option \<times> 'w) option" where
  "azure_create_download_stream env key s w =
     (if \<not> azure_is_connected s then Some (None, w)
      else map_option (\<lambda>(d, w). (Some d, w)) (open_azure_download_stream env key (as_config s) w))"

definition set_access_tier :: "string \<Rightarrow> string \<Rightarrow> azure_storage \<Rightarrow> unit result" where
  "set_access_tier key tier s = (if azure_is_connected s then Inr () else Inl Not_initialized)"

definition get_access_tier :: "string \<Rightarrow> azure_storage \<Rightarrow> string result" where
  "get_access_tier key s = (if azure_is_connected s then Inr ''Hot'' else Inl Not_initialized)"

section \<open>Signed addresses\<close>

text \<open>The text that is signed: \<open>kind\<close> is \<open>c\<close> for a container and \<open>b\<close> for a blob.\<close>

definition sas_string_to_sign :: "azure_blob_config \<Rightarrow> string \<Rightarrow> string \<Rightarrow> string \<Rightarrow> string \<Rightarrow> string \<Rightarrow> string" where
  "sas_string_to_sign cfg permissions start expiry resource kind =
     permissions @ line_end @ start @ line_end @ expiry @ line_end @ resource @ line_end @ line_end @ line_end @
     ''https'' @ line_end @ az_api_version cfg @ line_end @ kind @ line_end @ concat (replicate 5 line_end)"

definition sas_query :: "string \<Rightarrow> string \<Rightarrow> string \<Rightarrow> string \<Rightarrow> string \<Rightarrow> string \<Rightarrow> string" where
  "sas_query version scope permissions start expiry sig =
     ''sv='' @ version @ scope @ ''&sp='' @ permissions @ ''&st='' @ url_encode start True @ ''&se='' @ url_encode expiry True @
     ''&spr=https&sig='' @ url_encode sig True"

definition generate_sas ::
  "'w azure_env \<Rightarrow> string \<Rightarrow> string \<Rightarrow> string \<Rightarrow> string \<Rightarrow> string \<Rightarrow> presigned_url_options \<Rightarrow> azure_storage \<Rightarrow> 'w \<Rightarrow>
   'w \<times> string result" where
  "generate_sas env permissions resource kind scope url opts s w =
     (if \<not> ce_encryption (ae_cloud env) then (w, Inl Internal_error)
      else case account_key env w of
             None \<Rightarrow> (w, Inl Internal_error)
           | Some key \<Rightarrow>
               (case ce_now (ae_cloud env) w of
                  (w, t1) \<Rightarrow>
                    (case ce_now (ae_cloud env) w of
                       (w, t2) \<Rightarrow>
                         let start = get_iso8601_time t1; expiry = get_future_iso8601_time t2 (pu_expiration opts);
                             sig = sign_with_key env key
                                     (sas_string_to_sign (as_config s) permissions start expiry resource kind)
                         in (w, Inr (url @ ''?'' @ sas_query (az_api_version (as_config s)) scope permissions start expiry sig)))))"

definition generate_container_sas :: "'w azure_env \<Rightarrow> presigned_url_options \<Rightarrow> azure_storage \<Rightarrow> 'w \<Rightarrow> 'w \<times> string result" where
  "generate_container_sas env opts s w =
     (let cfg = as_config s
      in generate_sas env (if pu_method opts = ''PUT'' then ''racwdl'' else ''rl'')
           (''/blob/'' @ az_config_account_name cfg @ ''/'' @ az_container cfg) ''c'' ''&ss=b&srt=co'' (container_url cfg) opts s w)"

definition generate_blob_sas :: "'w azure_env \<Rightarrow> string \<Rightarrow> presigned_url_options \<Rightarrow> azure_storage \<Rightarrow> 'w \<Rightarrow> 'w \<times> string result" where
  "generate_blob_sas env key opts s w =
     (let cfg = as_config s
      in generate_sas env (if pu_method opts = ''PUT'' then ''racwd'' else ''r'')
           (''/blob/'' @ az_config_account_name cfg @ blob_resource cfg key) ''b'' ''&sr=b'' (get_blob_url cfg key) opts s w)"

end
