(* ===== verification/Azure_Credentials.thy ===== *)
theory Azure_Credentials
  imports Azure_Http S3_Credentials
begin

text \<open>
  The credential provider of cloud/azure_blob_storage.cpp: account keys, connection strings, tokens of shared access
  signatures and client secrets, from the program or from environment variables. The mutex guards single assignments and is left
  out, as is the state callback; auto refresh only stores its settings.
\<close>

record azure_provider =
  ap_type :: credential_type
  ap_credentials :: azure_credentials
  ap_state :: credential_state
  ap_auth_type :: string
  ap_auto_refresh_enabled :: bool
  ap_auto_refresh_interval :: int

text \<open>The constructors, and what the factories then set.\<close>

definition azure_provider_of :: "credential_type \<Rightarrow> string \<Rightarrow> azure_credentials \<Rightarrow> azure_provider" where
  "azure_provider_of t auth_type c =
     \<lparr>ap_type = t, ap_credentials = c, ap_state = Cred_valid, ap_auth_type = auth_type, ap_auto_refresh_enabled = False,
      ap_auto_refresh_interval = 60\<rparr>"

definition create_azure_provider :: "azure_credentials \<Rightarrow> azure_provider option" where
  "create_azure_provider c =
     (if az_account_name c = [] \<or>
         az_account_key c = None \<and> az_connection_string c = None \<and> az_sas_token c = None \<and> az_client_id c = None
      then None else Some (azure_provider_of Static_credentials ''account-key'' c))"

definition non_empty :: "string \<Rightarrow> string option" where
  "non_empty s = (if s = [] then None else Some s)"

definition create_from_connection_string :: "string \<Rightarrow> azure_provider option" where
  "create_from_connection_string s =
     (let info = parse_connection_string s
      in if \<not> aci_valid info then None
         else Some (azure_provider_of Static_credentials ''connection-string''
           (new_azure_credentials
              \<lparr>az_account_name := aci_account_name info, az_account_key := non_empty (aci_account_key info),
               az_sas_token := non_empty (aci_sas_token info), az_connection_string := Some s\<rparr>)))"

definition create_from_sas_token :: "string \<Rightarrow> string \<Rightarrow> azure_provider" where
  "create_from_sas_token account_name sas_token =
     azure_provider_of Static_credentials ''sas-token''
       (new_azure_credentials\<lparr>az_account_name := account_name, az_sas_token := Some sas_token\<rparr>)"

definition create_from_client_credentials :: "string \<Rightarrow> string \<Rightarrow> string \<Rightarrow> string \<Rightarrow> azure_provider" where
  "create_from_client_credentials tenant_id client_id client_secret account_name =
     azure_provider_of Static_credentials ''client-credentials''
       (new_azure_credentials
          \<lparr>az_account_name := account_name, az_tenant_id := Some tenant_id, az_client_id := Some client_id,
           az_client_secret := Some client_secret\<rparr>)"

definition azure_create_from_environment :: "getenv \<Rightarrow> azure_provider option" where
  "azure_create_from_environment getenv =
     (case getenv ''AZURE_STORAGE_CONNECTION_STRING'' of
        Some s \<Rightarrow> create_from_connection_string s
      | None \<Rightarrow>
          (case (getenv ''AZURE_STORAGE_ACCOUNT'', getenv ''AZURE_STORAGE_KEY'', getenv ''AZURE_STORAGE_SAS_TOKEN'') of
             (Some account, Some key, _) \<Rightarrow>
               Some (azure_provider_of Environment ''environment''
                 (new_azure_credentials\<lparr>az_account_name := account, az_account_key := Some key\<rparr>))
           | (Some account, None, Some sas) \<Rightarrow> Some (create_from_sas_token account sas)
           | _ \<Rightarrow> None))"

definition azure_create_default :: "getenv \<Rightarrow> string \<Rightarrow> azure_provider option" where
  "azure_create_default getenv account_name = azure_create_from_environment getenv"

section \<open>Refreshing\<close>

definition azure_refresh :: "getenv \<Rightarrow> azure_provider \<Rightarrow> azure_provider \<times> bool" where
  "azure_refresh getenv p =
     (if ap_type p = Static_credentials then (p, True)
      else if ap_type p = Environment
      then (case azure_create_from_environment getenv of
              Some q \<Rightarrow> (p\<lparr>ap_credentials := ap_credentials q, ap_state := Cred_valid\<rparr>, True)
            | None \<Rightarrow> (p, False))
      else (p, False))"

definition azure_needs_refresh :: "int \<Rightarrow> int \<Rightarrow> azure_provider \<Rightarrow> bool" where
  "azure_needs_refresh now buffer p \<longleftrightarrow>
     (case time_until_expiration now (ap_credentials p) of Some t \<Rightarrow> t \<le> buffer | None \<Rightarrow> False)"

definition azure_set_auto_refresh :: "bool \<Rightarrow> int \<Rightarrow> azure_provider \<Rightarrow> azure_provider" where
  "azure_set_auto_refresh enable check_interval p =
     p\<lparr>ap_auto_refresh_enabled := enable, ap_auto_refresh_interval := check_interval\<rparr>"

section \<open>Connection strings\<close>

lemma foldl_other_settings:
  "\<forall>(k, v) \<in> set kvs. k \<notin> {''AccountName'', ''AccountKey'', ''EndpointSuffix'', ''SharedAccessSignature''} \<Longrightarrow>
   foldl apply_setting info kvs = info"
  by (induction kvs arbitrary: info) (auto simp: apply_setting_def)

text \<open>C39: a connection string, with its settings among others in the usual order, gives a provider with the account and the key it
  names, exactly: a key may hold \<open>=\<close> (as Base64 does), but no value may hold a semicolon.
\<close>

theorem connection_string_roundtrip:
  assumes "\<forall>(k, v) \<in> set others. CHR ''='' \<notin> set k \<and> CHR '';'' \<notin> set v \<and>
      k \<notin> {''AccountName'', ''AccountKey'', ''EndpointSuffix'', ''SharedAccessSignature''}"
    and account: "account \<noteq> []" "CHR '';'' \<notin> set account" and key: "key \<noteq> []" "CHR '';'' \<notin> set key" and suffix: "CHR '';'' \<notin> set suffix"
    and s: "s = settings_text (others @ [(''AccountName'', account), (''AccountKey'', key), (''EndpointSuffix'', suffix)])"
  shows "create_from_connection_string s =
    Some (azure_provider_of Static_credentials ''connection-string''
      (new_azure_credentials\<lparr>az_account_name := account, az_account_key := Some key, az_connection_string := Some s\<rparr>))"
proof -
  have "connection_settings s = others @ [(''AccountName'', account), (''AccountKey'', key), (''EndpointSuffix'', suffix)]"
    unfolding s by (rule connection_settings_text) (use assms in auto)
  moreover have "foldl apply_setting no_connection_info others = no_connection_info"
    by (rule foldl_other_settings) (use assms(1) in auto)
  ultimately have info: "parse_connection_string s =
      \<lparr>aci_account_name = account, aci_account_key = key,
       aci_endpoint_suffix = (if suffix = [] then ''core.windows.net'' else suffix), aci_sas_token = [], aci_valid = True\<rparr>"
    using account key by (simp add: parse_connection_string_def apply_setting_def no_connection_info_def Let_def)
  show ?thesis using key by (simp add: create_from_connection_string_def info non_empty_def new_azure_credentials_def)
qed

theorem connection_string_roundtrip_witness:
  "create_from_connection_string (settings_text [(''DefaultEndpointsProtocol'', ''https''), (''AccountName'', ''a''), (''AccountKey'', ''eA==''),
      (''EndpointSuffix'', ''core.windows.net'')]) =
    Some (azure_provider_of Static_credentials ''connection-string''
      (new_azure_credentials\<lparr>az_account_name := ''a'', az_account_key := Some ''eA=='',
         az_connection_string := Some (settings_text [(''DefaultEndpointsProtocol'', ''https''), (''AccountName'', ''a''),
            (''AccountKey'', ''eA==''), (''EndpointSuffix'', ''core.windows.net'')])\<rparr>))"
  by (rule connection_string_roundtrip [where others = "[(''DefaultEndpointsProtocol'', ''https'')]" and suffix = "''core.windows.net''"])
    simp_all

end
