(* ===== verification/Azure_Facts.thy ===== *)
theory Azure_Facts
  imports Azure_Storage Azure_Credentials
begin

text \<open>
  What the Azure Blob backend guarantees with a service that keeps blocks and blobs, and what it does not: an upload in
  blocks stores the data, whatever order its threads finish in; small uploads send nothing; a
  finalisation that is tried again lists its last block twice; ranges that a service ignores are read wrong.
\<close>

section \<open>A service that keeps blocks and blobs\<close>

text \<open>
  \<open>obj\<close> is the blob at an address, \<open>staged\<close> the blocks that wait there to be committed. Reading the clock changes nothing.
  Staging a block leaves the blobs and the other blocks alone and has stored the block when it reports status 201; committing a list
  of staged blocks makes the blob of them; a read changes nothing, returns the blob with status 200, and reports 404
  only for a blob that is not there.
\<close>

definition clock_keeps :: "'w azure_env \<Rightarrow> ('w \<Rightarrow> 'a) \<Rightarrow> bool" where
  "clock_keeps env f \<longleftrightarrow> (\<forall>w. f (fst (ce_now (ae_cloud env) w)) = f w)"

definition staging_service ::
  "'w azure_env \<Rightarrow> ('w \<Rightarrow> string \<Rightarrow> bytes option) \<Rightarrow> ('w \<Rightarrow> string \<Rightarrow> string \<Rightarrow> bytes option) \<Rightarrow> bool" where
  "staging_service env obj staged \<longleftrightarrow>
     (\<forall>rq w w' r u n. rq_method rq = ''PUT'' \<and> CHR ''?'' \<notin> set u \<and>
        rq_url rq = u @ ''?comp=block&blockid='' @ url_encode (generate_block_id n) True \<and>
        ce_http (ae_cloud env) rq w = (w', r) \<longrightarrow>
          obj w' = obj w \<and>
          (\<forall>v b. (v, b) \<noteq> (u, generate_block_id n) \<longrightarrow> staged w' v b = staged w v b) \<and>
          staged w' u (generate_block_id n) \<in> {staged w u (generate_block_id n), Some (rq_body rq)} \<and>
          (\<forall>a. r = Some a \<and> rs_status a = 201 \<longrightarrow> staged w' u (generate_block_id n) = Some (rq_body rq)))"

definition commit_service ::
  "'w azure_env \<Rightarrow> ('w \<Rightarrow> string \<Rightarrow> bytes option) \<Rightarrow> ('w \<Rightarrow> string \<Rightarrow> string \<Rightarrow> bytes option) \<Rightarrow> bool" where
  "commit_service env obj staged \<longleftrightarrow>
     (\<forall>rq w w' a u ns ds. rq_method rq = ''PUT'' \<and> CHR ''?'' \<notin> set u \<and> rq_url rq = u @ ''?comp=blocklist'' \<and>
        rq_body rq = text_bytes (block_list_xml (map generate_block_id ns)) \<and>
        ce_http (ae_cloud env) rq w = (w', Some a) \<and> rs_status a = 201 \<and>
        map (\<lambda>n. staged w u (generate_block_id n)) ns = map Some ds \<longrightarrow>
          obj w' u = Some (concat ds))"

definition reading_service :: "'w azure_env \<Rightarrow> ('w \<Rightarrow> string \<Rightarrow> bytes option) \<Rightarrow> bool" where
  "reading_service env obj \<longleftrightarrow>
     (\<forall>rq w w' r u. rq_method rq = ''GET'' \<and> CHR ''?'' \<notin> set u \<and> rq_url rq = u \<and> ce_http (ae_cloud env) rq w = (w', r) \<longrightarrow>
        obj w' = obj w \<and>
        (\<forall>a. r = Some a \<longrightarrow> (rs_status a = 200 \<longrightarrow> obj w u = Some (rs_body a)) \<and> (rs_status a = 404 \<longrightarrow> obj w u = None)))"

definition blob_service ::
  "'w azure_env \<Rightarrow> ('w \<Rightarrow> string \<Rightarrow> bytes option) \<Rightarrow> ('w \<Rightarrow> string \<Rightarrow> string \<Rightarrow> bytes option) \<Rightarrow> bool" where
  "blob_service env obj staged \<longleftrightarrow>
     clock_keeps env obj \<and> clock_keeps env staged \<and> staging_service env obj staged \<and> commit_service env obj staged \<and>
     reading_service env obj"

section \<open>Requests\<close>

lemma azure_request_facts:
  assumes "azure_request env cfg method url resource extra len body w = (w', rq)"
  shows "rq_method rq = method" "rq_url rq = url" "rq_body rq = body" "clock_keeps env f \<Longrightarrow> f w' = f w"
  using assms by (auto simp: azure_request_def clock_keeps_def Let_def split: prod.splits) (metis fst_conv)

lemma url_encode_no_question: "CHR ''?'' \<notin> set (url_encode k b)"
proof -
  have hex: "upper_hex_digit m \<noteq> CHR ''?''" if "m < 16" for m using hex_val_upper [OF that] by (auto simp: hex_val_def)
  have "of_char c div 16 < (16 :: nat)" for c :: char by (rule less_mult_imp_div_less) simp
  then have "CHR ''?'' \<notin> set (url_encode_char b c)" for c
    using hex [of "of_char c div 16"] hex [of "of_char c mod 16"] by (auto simp: url_encode_char_def is_alnum_def Let_def)
  then show ?thesis by (auto simp: url_encode_def)
qed

definition plain_container :: "azure_blob_config \<Rightarrow> bool" where
  "plain_container cfg \<longleftrightarrow> CHR ''?'' \<notin> set (container_url cfg)"

lemma plain_blob_url: "plain_container cfg \<Longrightarrow> CHR ''?'' \<notin> set (blob_request_url cfg blob)"
  using url_encode_no_question by (simp add: plain_container_def blob_request_url_def)

lemma upload_block_stages:
  assumes service: "blob_service env obj staged" and cfg: "plain_container cfg" and net: "ce_network (ae_cloud env)"
    and up: "upload_block env cfg blob (generate_block_id n) d w = (w', r)"
  shows "(\<forall>v b. (v, b) \<noteq> (blob_request_url cfg blob, generate_block_id n) \<longrightarrow> staged w' v b = staged w v b) \<and>
    staged w' (blob_request_url cfg blob) (generate_block_id n) \<in>
      {staged w (blob_request_url cfg blob) (generate_block_id n), Some d} \<and>
    (r = Inr () \<longrightarrow> staged w' (blob_request_url cfg blob) (generate_block_id n) = Some d)"
proof -
  obtain w1 rq where rq: "azure_request env cfg ''PUT'' (block_url cfg blob (generate_block_id n)) (blob_resource cfg blob)
      [(''Content-Length'', dec_digits (length d)), (''Content-Type'', ''application/octet-stream'')] (dec_digits (length d)) d w = (w1, rq)"
    by (rule prod.exhaust)
  obtain w2 a where http: "ce_http (ae_cloud env) rq w1 = (w2, a)" by (rule prod.exhaust)
  have res: "w' = w2" "r = Inr () \<Longrightarrow> \<exists>x. a = Some x \<and> rs_status x = 201"
    using up net rq http by (auto simp: upload_block_def split: option.splits if_splits)
  have clock: "staged w1 = staged w" using azure_request_facts(4) [OF rq, of staged] service by (simp add: blob_service_def)
  show ?thesis
    using service azure_request_facts(1-3) [OF rq] plain_blob_url [OF cfg, of blob] http res
    unfolding blob_service_def staging_service_def block_url_def clock [symmetric] by blast
qed

section \<open>The blocks of a stream\<close>

text \<open>
  \<open>ds\<close> are the data of the blocks that were started. Each is staged, or its thread is still pending or has failed; what is
  pending is the right data under the right name.
\<close>

definition tracked_blocks :: "(string \<Rightarrow> bytes option) \<Rightarrow> bytes list \<Rightarrow> (string \<times> block_future) list \<Rightarrow> bool" where
  "tracked_blocks st ds ps \<longleftrightarrow>
     (\<forall>(b, f) \<in> set ps. \<exists>i < length ds. b = generate_block_id i \<and>
        (case f of Block_running d \<Rightarrow> d = ds ! i | Block_ready r \<Rightarrow> True | Block_taken \<Rightarrow> False)) \<and>
     (\<forall>i < length ds. st (generate_block_id i) = Some (ds ! i) \<or>
        (\<exists>d. (generate_block_id i, Block_running d) \<in> set ps) \<or> (\<exists>e. (generate_block_id i, Block_ready (Inl e)) \<in> set ps))"

definition block_inv ::
  "('w \<Rightarrow> string \<Rightarrow> string \<Rightarrow> bytes option) \<Rightarrow> azure_blob_config \<Rightarrow> string \<Rightarrow> bytes \<Rightarrow> azure_upload_stream \<Rightarrow> 'w \<Rightarrow> bool" where
  "block_inv staged cfg blob written u w \<longleftrightarrow>
     ab_config u = cfg \<and> ab_blob_name u = blob \<and>
     (\<exists>ds. tracked_blocks (staged w (blob_request_url cfg blob)) ds (ab_pending u) \<and>
        ab_block_ids u = map generate_block_id [0..<length ds] \<and> ab_current_block_number u = length ds \<and>
        concat ds @ ab_buffer u = written)"

lemma tracked_ready:
  assumes "tracked_blocks st ds ps" "k < length ps" "ps ! k = (generate_block_id i, Block_running d)" "i < length ds"
    and st: "\<forall>b. b \<noteq> generate_block_id i \<longrightarrow> st' b = st b" "st' (generate_block_id i) \<in> {st (generate_block_id i), Some (ds ! i)}"
      "r = Inr () \<longrightarrow> st' (generate_block_id i) = Some (ds ! i)"
  shows "tracked_blocks st' ds (ps[k := (generate_block_id i, Block_ready r)])"
  unfolding tracked_blocks_def
proof (intro conjI ballI allI impI)
  fix p
  assume "p \<in> set (ps[k := (generate_block_id i, Block_ready r)])"
  then have "p = (generate_block_id i, Block_ready r) \<or> p \<in> set ps" by (auto dest: set_update_subset_insert [THEN subsetD])
  then show "case p of (b, f) \<Rightarrow> \<exists>i < length ds. b = generate_block_id i \<and>
      (case f of Block_running d \<Rightarrow> d = ds ! i | Block_ready r \<Rightarrow> True | Block_taken \<Rightarrow> False)"
    using assms(1,4) by (auto simp: tracked_blocks_def)
next
  fix j
  assume j: "j < length ds"
  show "st' (generate_block_id j) = Some (ds ! j) \<or>
      (\<exists>d. (generate_block_id j, Block_running d) \<in> set (ps[k := (generate_block_id i, Block_ready r)])) \<or>
      (\<exists>e. (generate_block_id j, Block_ready (Inl e)) \<in> set (ps[k := (generate_block_id i, Block_ready r)]))"
  proof (cases "j = i")
    case True
    then show ?thesis using st(3) assms(2) by (cases r) (auto intro!: set_update_memI)
  next
    case False
    have keep: "q \<in> set ps \<Longrightarrow> fst q \<noteq> generate_block_id i \<Longrightarrow> q \<in> set (ps[k := (generate_block_id i, Block_ready r)])" for q
      using assms(2,3) by (metis fst_conv in_set_conv_nth length_list_update nth_list_update_neq)
    have st': "st' (generate_block_id j) = st (generate_block_id j)" using st(1) False by simp
    have "st (generate_block_id j) = Some (ds ! j) \<or>
        (\<exists>d. (generate_block_id j, Block_running d) \<in> set ps) \<or> (\<exists>e. (generate_block_id j, Block_ready (Inl e)) \<in> set ps)"
      using assms(1) j unfolding tracked_blocks_def by blast
    then show ?thesis using keep False unfolding st' by fastforce
  qed
qed

lemma run_block_tracked:
  assumes service: "blob_service env obj staged" "plain_container cfg" "ce_network (ae_cloud env)"
    and u: "ab_config u = cfg" "ab_blob_name u = blob" and ds: "tracked_blocks (staged w (blob_request_url cfg blob)) ds (ab_pending u)"
    and run: "run_block env k (u, w) = (u', w')"
  shows "\<exists>ps. tracked_blocks (staged w' (blob_request_url cfg blob)) ds ps \<and> u' = u\<lparr>ab_pending := ps\<rparr>"
proof (cases "k < length (ab_pending u) \<and> block_runs (ab_pending u ! k)")
  case True
  then obtain b d where bd: "ab_pending u ! k = (b, Block_running d)" by (auto elim: block_runs.elims)
  have "(b, Block_running d) \<in> set (ab_pending u)" using bd True by (metis nth_mem)
  then obtain i where i: "i < length ds" "b = generate_block_id i" "d = ds ! i"
    using ds unfolding tracked_blocks_def by fastforce
  obtain r where up: "upload_block env cfg blob (generate_block_id i) d w = (w', r)"
      "u' = u\<lparr>ab_pending := (ab_pending u)[k := (b, Block_ready r)]\<rparr>"
    using run True bd u i(2) by (auto simp: run_block_def split: prod.splits)
  have "tracked_blocks (staged w' (blob_request_url cfg blob)) ds ((ab_pending u)[k := (generate_block_id i, Block_ready r)])"
    using tracked_ready [OF ds _ _ i(1)] upload_block_stages [OF service up(1)] True bd i by simp
  then show ?thesis using i(2) up(2) by blast
next
  case False
  then have "u' = u \<and> w' = w" using run by (auto simp: run_block_def split: if_splits prod.splits block_future.splits)
  then show ?thesis using ds by (intro exI [of _ "ab_pending u"]) simp
qed

lemma run_blocks_tracked:
  assumes service: "blob_service env obj staged" "plain_container cfg" "ce_network (ae_cloud env)"
    and "ab_config u = cfg" "ab_blob_name u = blob" "tracked_blocks (staged w (blob_request_url cfg blob)) ds (ab_pending u)"
    and "run_blocks env ks (u, w) = (u', w')"
  shows "\<exists>ps. tracked_blocks (staged w' (blob_request_url cfg blob)) ds ps \<and> u' = u\<lparr>ab_pending := ps\<rparr>"
  using assms(4-)
proof (induction ks arbitrary: u w)
  case (Cons k ks)
  obtain u1 w1 where run: "run_block env k (u, w) = (u1, w1)" by (rule prod.exhaust)
  obtain ps where ps: "tracked_blocks (staged w1 (blob_request_url cfg blob)) ds ps" "u1 = u\<lparr>ab_pending := ps\<rparr>"
    using run_block_tracked [OF service Cons.prems(1-3) run] by blast
  have "run_blocks env ks (u1, w1) = (u', w')" using Cons.prems(4) run by (simp add: run_blocks_def)
  with Cons.IH [of u1 w1] Cons.prems(1,2) ps show ?case by auto
next
  case Nil
  then show ?case by (intro exI [of _ "ab_pending u"]) (simp add: run_blocks_def)
qed

lemma run_blocks_inv:
  assumes service: "blob_service env obj staged" "plain_container cfg" "ce_network (ae_cloud env)"
    and "block_inv staged cfg blob written u w" and run: "run_blocks env ks (u, w) = (u', w')"
  shows "block_inv staged cfg blob written u' w'"
proof -
  obtain ds where ds: "tracked_blocks (staged w (blob_request_url cfg blob)) ds (ab_pending u)" "ab_config u = cfg" "ab_blob_name u = blob"
      "ab_block_ids u = map generate_block_id [0..<length ds]" "ab_current_block_number u = length ds" "concat ds @ ab_buffer u = written"
    using assms(4) by (auto simp: block_inv_def)
  obtain ps where "tracked_blocks (staged w' (blob_request_url cfg blob)) ds ps" "u' = u\<lparr>ab_pending := ps\<rparr>"
    using run_blocks_tracked [OF service ds(2,3,1) run] by blast
  then show ?thesis using ds by (auto simp: block_inv_def)
qed

lemma collect_blocks_keeps:
  assumes "collect_blocks ps = (ps', Inr x)"
  shows "set ps' \<subseteq> set ps \<and> (\<forall>b d. (b, Block_running d) \<in> set ps \<longrightarrow> (b, Block_running d) \<in> set ps') \<and>
    (\<forall>b e. (b, Block_ready (Inl e)) \<notin> set ps)"
  using assms
proof (induction ps arbitrary: ps' rule: collect_blocks.induct)
  case (5 b d ps)
  obtain qs r where "collect_blocks ps = (qs, r)" by (rule prod.exhaust)
  with 5 show ?case by auto
qed auto

lemma tracked_collect:
  assumes "tracked_blocks st ds ps" "collect_blocks ps = (ps', Inr x)"
  shows "tracked_blocks st ds ps'"
proof -
  note k = collect_blocks_keeps [OF assms(2)]
  show ?thesis using assms(1) k unfolding tracked_blocks_def by (meson subsetD)
qed

lemma azure_collect_inv:
  assumes "block_inv staged cfg blob written u w" "azure_collect u = (u', Inr x)"
  shows "block_inv staged cfg blob written u' w"
  using assms tracked_collect by (fastforce simp: block_inv_def azure_collect_def split: prod.splits)

lemma slot_inv:
  assumes service: "blob_service env obj staged" "plain_container cfg" "ce_network (ae_cloud env)"
    and "block_inv staged cfg blob written u w" "azure_wait_for_slot env sch u w = Some (u', w', sch', Inr x)"
  shows "block_inv staged cfg blob written u' w'"
  using assms(4,5)
proof (induction sch arbitrary: u w)
  case (Cons ks sch)
  obtain u1 w1 where run: "run_blocks env ks (u, w) = (u1, w1)" by (rule prod.exhaust)
  obtain u2 q where coll: "azure_collect u1 = (u2, q)" by (rule prod.exhaust)
  show ?case
  proof (cases "azure_slots_taken u")
    case True
    with Cons.prems(2) run coll obtain y where "q = Inr y" "azure_wait_for_slot env sch u2 w1 = Some (u', w', sch', Inr x)"
      by (cases q) auto
    then show ?thesis
      using Cons.IH azure_collect_inv [OF run_blocks_inv [OF service Cons.prems(1) run], of u2 y] coll by blast
  qed (use Cons.prems in auto)
qed (auto split: if_splits)

lemma async_inv: "block_inv staged cfg blob written u w \<Longrightarrow> block_inv staged cfg blob written (upload_block_async u) w"
proof -
  assume "block_inv staged cfg blob written u w"
  then obtain ds where ds: "tracked_blocks (staged w (blob_request_url cfg blob)) ds (ab_pending u)" "ab_config u = cfg" "ab_blob_name u = blob"
      "ab_block_ids u = map generate_block_id [0..<length ds]" "ab_current_block_number u = length ds" "concat ds @ ab_buffer u = written"
    by (auto simp: block_inv_def)
  have "tracked_blocks (staged w (blob_request_url cfg blob)) (ds @ [ab_buffer u])
      (ab_pending u @ [(generate_block_id (length ds), Block_running (ab_buffer u))])"
    using ds(1) unfolding tracked_blocks_def
    by (fastforce simp: nth_append less_Suc_eq split: block_future.splits)
  then show ?thesis
    using ds by (auto simp: block_inv_def upload_block_async_def Let_def intro!: exI [of _ "ds @ [ab_buffer u]"])
qed

lemma flush_inv:
  assumes service: "blob_service env obj staged" "plain_container cfg" "ce_network (ae_cloud env)"
    and inv: "block_inv staged cfg blob written u w" and flush: "flush_azure_block env sch u w = Some (u', w', sch', Inr x)"
  shows "block_inv staged cfg blob written u' w'"
proof -
  obtain ks sch1 where sch: "sch = ks # sch1" using flush by (cases sch) (auto simp: flush_azure_block_def)
  obtain u1 w1 where run: "run_blocks env ks (u, w) = (u1, w1)" by (rule prod.exhaust)
  obtain u2 w2 sch2 y where slot: "azure_wait_for_slot env sch1 u1 w1 = Some (u2, w2, sch2, Inr y)"
    using flush sch run by (auto simp: flush_azure_block_def split: option.splits sum.splits)
  obtain u3 q where coll: "azure_collect u2 = (u3, q)" by (rule prod.exhaust)
  have q: "\<exists>z. q = Inr z \<and> u' = upload_block_async u3 \<and> w' = w2"
    using flush sch run slot coll by (cases q) (auto simp: flush_azure_block_def)
  then show ?thesis
    using async_inv [OF azure_collect_inv [OF slot_inv [OF service run_blocks_inv [OF service inv run] slot]]] coll by blast
qed


lemma fill_inv:
  assumes "block_inv staged cfg blob written u w"
  shows "block_inv staged cfg blob (written @ take (block_space u) data) (fill_block data u) w"
  using assms by (auto simp: block_inv_def fill_block_def)

lemma write_loop_inv:
  assumes "blob_service env obj staged" "plain_container cfg" "ce_network (ae_cloud env)"
    and "block_inv staged cfg blob written u w" "azure_write_loop env sch data u w = Some (u', w', sch', Inr x)"
  shows "block_inv staged cfg blob (written @ data) u' w'"
  using assms
proof (induction env sch data u w arbitrary: written rule: azure_write_loop.induct)
  case (1 env sch data u w)
  note service = "1.prems"(1-3) and inv = fill_inv [OF "1.prems"(4), of data]
  consider "data = []" | "data \<noteq> []" "block_space (fill_block data u) \<noteq> 0" | "data \<noteq> []" "block_space (fill_block data u) = 0" by auto
  then show ?case
  proof cases
    case 1
    then show ?thesis using "1.prems" by (simp add: azure_write_loop.simps)
  next
    case 2
    then have "azure_write_loop env sch (drop (block_space u) data) (fill_block data u) w = Some (u', w', sch', Inr x)"
      using "1.prems"(5) by (subst (asm) azure_write_loop.simps) (simp add: Let_def)
    then show ?thesis using "1.IH"(2) [OF 2(1) refl refl 2(2) service inv] by simp
  next
    case 3
    then obtain u1 w1 sch1 y where flush: "flush_azure_block env sch (fill_block data u) w = Some (u1, w1, sch1, Inr y)"
        and rest: "azure_write_loop env sch1 (drop (block_space u) data) u1 w1 = Some (u', w', sch', Inr x)"
      using "1.prems"(5) by (subst (asm) azure_write_loop.simps) (auto simp: Let_def split: option.splits sum.splits)
    show ?thesis
      using "1.IH"(1) [OF 3(1) refl refl 3(2) flush refl refl refl refl service flush_inv [OF service inv flush] rest] by simp
  qed
qed

lemma tracked_tail:
  assumes "tracked_blocks st ds ((generate_block_id i, f) # ps)" "st' (generate_block_id i) = Some (ds ! i)"
    "\<forall>b. b \<noteq> generate_block_id i \<longrightarrow> st' b = st b"
  shows "tracked_blocks st' ds ps"
  unfolding tracked_blocks_def
proof (intro conjI allI impI)
  show "\<forall>(b, f) \<in> set ps. \<exists>i < length ds. b = generate_block_id i \<and>
      (case f of Block_running d \<Rightarrow> d = ds ! i | Block_ready r \<Rightarrow> True | Block_taken \<Rightarrow> False)"
    using assms(1) by (simp add: tracked_blocks_def)
  fix j
  assume "j < length ds"
  then show "st' (generate_block_id j) = Some (ds ! j) \<or> (\<exists>d. (generate_block_id j, Block_running d) \<in> set ps) \<or>
      (\<exists>e. (generate_block_id j, Block_ready (Inl e)) \<in> set ps)"
    using assms unfolding tracked_blocks_def by (cases "j = i") auto
qed

text \<open>Once every thread is waited for and none has failed, all blocks are staged.\<close>

lemma wait_blocks_stage:
  assumes service: "blob_service env obj staged" "plain_container cfg" "ce_network (ae_cloud env)"
    and u: "ab_config u = cfg" "ab_blob_name u = blob"
    and "tracked_blocks (staged w (blob_request_url cfg blob)) ds ps" "wait_blocks env u ps w = (ps', w', Inr x)"
  shows "\<forall>i < length ds. staged w' (blob_request_url cfg blob) (generate_block_id i) = Some (ds ! i)"
  using assms(6,7)
proof (induction ps arbitrary: w ps')
  case Nil
  then show ?case by (auto simp: tracked_blocks_def)
next
  case (Cons p ps)
  let ?U = "blob_request_url cfg blob"
  obtain b f where p: "p = (b, f)" by (cases p)
  obtain i where i: "i < length ds" "b = generate_block_id i" "case f of Block_running d \<Rightarrow> d = ds ! i | Block_ready r \<Rightarrow> True | Block_taken \<Rightarrow> False"
    using Cons.prems(1) p unfolding tracked_blocks_def by fastforce
  obtain w1 ps1 where step: "wait_blocks env u ps w1 = (ps1, w', Inr x)" "tracked_blocks (staged w1 ?U) ds ps"
  proof (cases f)
    case (Block_running d)
    obtain w1 r where up: "upload_block env cfg blob (generate_block_id i) (ds ! i) w = (w1, r)" by (rule prod.exhaust)
    then obtain y ps1 where y: "r = Inr y" "wait_blocks env u ps w1 = (ps1, w', Inr x)"
      using Cons.prems(2) p i Block_running u by (cases r) (auto split: prod.splits)
    have "staged w1 ?U (generate_block_id i) = Some (ds ! i)" "\<forall>b. b \<noteq> generate_block_id i \<longrightarrow> staged w1 ?U b = staged w ?U b"
      using upload_block_stages [OF service up] y(1) by auto
    then have "tracked_blocks (staged w1 ?U) ds ps" using tracked_tail [of "staged w ?U" ds i f ps] Cons.prems(1) p i(2) by simp
    then show ?thesis using that y(2) by blast
  next
    case (Block_ready r)
    then have "r = Inr ()" using Cons.prems(2) p by (cases r) auto
    then have "tracked_blocks (staged w ?U) ds ps" using Cons.prems(1) p Block_ready by (auto simp: tracked_blocks_def)
    moreover obtain ps1 where "wait_blocks env u ps w = (ps1, w', Inr x)"
      using Cons.prems(2) p Block_ready \<open>r = Inr ()\<close> by (auto split: prod.splits)
    ultimately show ?thesis using that by blast
  qed (use i in simp)
  show ?case by (rule Cons.IH [OF step(2,1)])
qed


lemma commit_makes_blob:
  assumes service: "blob_service env obj staged" "plain_container cfg" "ce_network (ae_cloud env)"
    and u: "ab_config u = cfg" "ab_blob_name u = blob" "ab_block_ids u = map generate_block_id ns"
    and staged: "map (\<lambda>n. staged w (blob_request_url cfg blob) (generate_block_id n)) ns = map Some ds"
    and commit: "commit_block_list env u w = (w', Inr r)"
  shows "obj w' (blob_request_url cfg blob) = Some (concat ds)"
proof -
  let ?body = "block_list_xml (ab_block_ids u)" and ?U = "blob_request_url cfg blob"
  let ?extra = "[(''Content-Type'', ''application/xml''), (''Content-Length'', dec_digits (length ?body)),
      (''x-ms-blob-content-type'', detect_content_type blob)]"
  obtain w1 rq where rq: "azure_request env cfg ''PUT'' (block_list_url cfg blob) (blob_resource cfg blob) ?extra
      (dec_digits (length ?body)) (text_bytes ?body) w = (w1, rq)"
    by (rule prod.exhaust)
  obtain w2 a where http: "ce_http (ae_cloud env) rq w1 = (w2, a)" by (rule prod.exhaust)
  obtain x where a: "w' = w2" "a = Some x" "rs_status x = 201"
    using commit rq http u(1,2) service(3)
    by (auto simp: commit_block_list_def has_azure_client_def Let_def split: option.splits if_splits)
  have "staged w1 = staged w" using azure_request_facts(4) [OF rq, of staged] service(1) by (simp add: blob_service_def)
  then have "map (\<lambda>n. staged w1 ?U (generate_block_id n)) ns = map Some ds" using staged by simp
  moreover have "rq_body rq = text_bytes (block_list_xml (map generate_block_id ns))"
    using azure_request_facts(3) [OF rq] u(3) by simp
  ultimately show ?thesis
    using service(1) azure_request_facts(1,2) [OF rq] plain_blob_url [OF service(2), of blob] http a
    unfolding blob_service_def commit_service_def block_list_url_def by blast
qed

lemma last_block_listed:
  assumes service: "blob_service env obj staged" "plain_container cfg" "ce_network (ae_cloud env)"
    and "block_inv staged cfg blob written u w" and last: "upload_last_block env u w = (u', w', Inr x)"
  shows "ab_config u' = cfg \<and> ab_blob_name u' = blob \<and>
    (\<exists>ds. tracked_blocks (staged w' (blob_request_url cfg blob)) ds (ab_pending u') \<and>
       ab_block_ids u' = map generate_block_id [0..<length ds] \<and> concat ds = written)"
proof -
  let ?U = "blob_request_url cfg blob"
  obtain ds where ds: "tracked_blocks (staged w ?U) ds (ab_pending u)" "ab_config u = cfg" "ab_blob_name u = blob"
      "ab_block_ids u = map generate_block_id [0..<length ds]" "ab_current_block_number u = length ds" "concat ds @ ab_buffer u = written"
    using assms(4) by (auto simp: block_inv_def)
  show ?thesis
  proof (cases "ab_buffer u = []")
    case True
    then show ?thesis using last ds by (auto simp: upload_last_block_def)
  next
    case False
    obtain r where up: "upload_block env cfg blob (generate_block_id (length ds)) (ab_buffer u) w = (w', r)"
        "u' = u\<lparr>ab_block_ids := ab_block_ids u @ [generate_block_id (length ds)]\<rparr>" "r = Inr x"
      using last False ds(2,3,5) by (auto simp: upload_last_block_def Let_def split: prod.splits)
    have st: "staged w' ?U (generate_block_id (length ds)) = Some (ab_buffer u)"
        "\<forall>b. b \<noteq> generate_block_id (length ds) \<longrightarrow> staged w' ?U b = staged w ?U b"
      using upload_block_stages [OF service up(1)] up(3) by auto
    have "tracked_blocks (staged w' ?U) (ds @ [ab_buffer u]) (ab_pending u)"
      using ds(1) st unfolding tracked_blocks_def by (fastforce simp: nth_append less_Suc_eq split: block_future.splits)
    then show ?thesis using ds up(2) by (auto intro!: exI [of _ "ds @ [ab_buffer u]"])
  qed
qed

lemma finalize_makes_blob:
  assumes service: "blob_service env obj staged" "plain_container cfg" "ce_network (ae_cloud env)"
    and inv: "block_inv staged cfg blob written u w" and fin: "azure_finalize env is js u w = (u', w', Inr r)"
  shows "obj w' (blob_request_url cfg blob) = Some written"
proof -
  obtain u1 w1 where run: "run_blocks env is (u, w) = (u1, w1)" by (rule prod.exhaust)
  obtain u2 w2 q where last: "upload_last_block env u1 w1 = (u2, w2, q)" by (metis prod.exhaust)
  obtain x where q: "q = Inr x" using fin run last by (cases q) (auto simp: azure_finalize_def split: if_splits)
  obtain u3 w3 where run2: "run_blocks env js (u2, w2) = (u3, w3)" by (rule prod.exhaust)
  obtain ps w4 z where wait: "wait_blocks env u3 (ab_pending u3) w3 = (ps, w4, z)" by (metis prod.exhaust)
  obtain y where z: "z = Inr y"
    using fin run last q run2 wait by (cases z) (auto simp: azure_finalize_def azure_wait_all_def split: if_splits)
  have commit: "commit_block_list env (u3\<lparr>ab_pending := [], ab_finalized := True\<rparr>) w4 = (w', Inr r)"
    using fin run last q run2 wait z by (auto simp: azure_finalize_def azure_wait_all_def split: if_splits prod.splits)
  obtain ds where ds: "ab_config u2 = cfg" "ab_blob_name u2 = blob" "tracked_blocks (staged w2 (blob_request_url cfg blob)) ds (ab_pending u2)"
      "ab_block_ids u2 = map generate_block_id [0..<length ds]" "concat ds = written"
    using last_block_listed [OF service run_blocks_inv [OF service inv run]] last q by blast
  obtain qs where u3: "tracked_blocks (staged w3 (blob_request_url cfg blob)) ds qs" "u3 = u2\<lparr>ab_pending := qs\<rparr>"
    using run_blocks_tracked [OF service ds(1-3) run2] by blast
  then have frame: "ab_config u3 = cfg" "ab_blob_name u3 = blob" "ab_pending u3 = qs" "ab_block_ids u3 = map generate_block_id [0..<length ds]"
    using ds by simp_all
  have "\<forall>i < length ds. staged w4 (blob_request_url cfg blob) (generate_block_id i) = Some (ds ! i)"
    using wait_blocks_stage [OF service frame(1,2) u3(1)] wait z frame(3) by simp
  then have "map (\<lambda>n. staged w4 (blob_request_url cfg blob) (generate_block_id n)) [0..<length ds] = map Some ds"
    by (auto intro: nth_equalityI)
  then show ?thesis using commit_makes_blob [OF service _ _ _ _ commit] frame ds(5) by simp
qed

text \<open>C36: with a service that keeps blocks and blobs, an upload in blocks that reports success has stored exactly the data, for every
  schedule of its threads and whatever the sizes of the data and the blocks; a download of the blob returns the data, and
  no failing download was told that the blob is missing.
\<close>

theorem block_upload_is_downloaded:
  assumes service: "blob_service env obj staged" "ce_network (ae_cloud env)" and s: "plain_container (as_config s)"
    and blocks: "use_block_blob (as_config s) data"
    and up: "azure_upload env sch is js key data s w = Some (s1, w1, Inr r)"
    and t: "azure_is_connected t" "as_config t = as_config s" and down: "azure_download env key t w1 = (t2, w2, q)"
  shows "obj w1 (blob_request_url (as_config s) key) = Some data \<and> q \<noteq> Inl File_not_found \<and> (\<forall>d. q = Inr d \<longrightarrow> d = data)"
proof -
  let ?cfg = "as_config s" and ?U = "blob_request_url (as_config s) key"
  obtain u v sch' n where wr: "azure_write env sch data (open_azure_upload_stream key ?cfg) w = Some (u, v, sch', Inr n)"
      and fin: "\<exists>u'. azure_finalize env is js u v = (u', w1, Inr r)"
    using up blocks by (auto simp: azure_upload_def azure_upload_blocks_def split: if_splits option.splits sum.splits prod.splits)
  have inv: "block_inv staged ?cfg key [] (open_azure_upload_stream key ?cfg) w"
    by (auto simp: block_inv_def open_azure_upload_stream_def tracked_blocks_def)
  obtain u0 where u0: "azure_write_loop env sch data (open_azure_upload_stream key ?cfg) w = Some (u0, v, sch', Inr ())"
      "u = u0\<lparr>ab_bytes_written := ab_bytes_written u0 + word_of_nat (length data)\<rparr>"
    using wr by (auto simp: azure_write_def open_azure_upload_stream_def split: option.splits sum.splits)
  have "block_inv staged ?cfg key data u v"
    using write_loop_inv [OF service(1) s service(2) inv u0(1)] unfolding u0(2) by (simp add: block_inv_def)
  then have stored: "obj w1 ?U = Some data" using finalize_makes_blob [OF service(1) s service(2)] fin by blast
  obtain w3 rq where rq: "azure_request env ?cfg ''GET'' ?U (blob_resource ?cfg key) [] [] [] w1 = (w3, rq)" by (rule prod.exhaust)
  obtain w4 a where http: "ce_http (ae_cloud env) rq w3 = (w4, a)" by (rule prod.exhaust)
  have "obj w3 = obj w1" using azure_request_facts(4) [OF rq, of obj] service(1) by (simp add: blob_service_def)
  moreover have "\<forall>x. a = Some x \<longrightarrow> (rs_status x = 200 \<longrightarrow> obj w3 ?U = Some (rs_body x)) \<and> (rs_status x = 404 \<longrightarrow> obj w3 ?U = None)"
    using service(1) azure_request_facts(1,2) [OF rq] plain_blob_url [OF s] http unfolding blob_service_def reading_service_def by blast
  ultimately have "q \<noteq> Inl File_not_found \<and> (\<forall>d. q = Inr d \<longrightarrow> d = data)"
    using down t rq http stored service(2)
    by (auto simp: azure_download_def azure_blob_call_def azure_call_def split: option.splits if_splits)
  with stored show ?thesis by simp
qed


text \<open>A service over two tables, which takes the addresses and the lists apart.\<close>

fun listed_ids :: "string \<Rightarrow> string list" where
  "listed_ids [] = []"
| "listed_ids (c # cs) =
     (if take 8 (c # cs) = ''<Latest>'' then takeWhile (\<lambda>c. c \<noteq> CHR ''<'') (drop 7 cs) # listed_ids cs else listed_ids cs)"

lemma listed_ids_skip: "CHR ''<'' \<notin> set i \<Longrightarrow> listed_ids (i @ r) = listed_ids r"
  by (induction i) auto

lemma block_id_plain: "CHR ''<'' \<notin> set (generate_block_id n)"
  using set_base64_encode by (fastforce simp: generate_block_id_def base64_encode_text_def base64_chars_def)

lemma listed_ids_xml: "listed_ids (block_list_xml (map generate_block_id ns)) = map generate_block_id ns"
proof -
  have item: "listed_ids (''  <Latest>'' @ i @ ''</Latest>'' @ line_end @ r) = i # listed_ids r" if "CHR ''<'' \<notin> set i" for i r
  proof -
    have "takeWhile (\<lambda>c. c \<noteq> CHR ''<'') (i @ CHR ''<'' # q) = i" for q using that by (induction i) auto
    then show ?thesis using listed_ids_skip [OF that, of "''</Latest>'' @ line_end @ r"] by (simp add: line_end_def)
  qed
  have "listed_ids (concat (map (\<lambda>i. ''  <Latest>'' @ i @ ''</Latest>'' @ line_end) (map generate_block_id ns)) @ ''</BlockList>'') =
      map generate_block_id ns"
  proof (induction ns)
    case (Cons n ns)
    then show ?case using item [OF block_id_plain, of n] by simp
  qed simp
  then show ?thesis by (simp add: block_list_xml_def line_end_def)
qed

type_synonym toy_blobs = "(string \<Rightarrow> bytes option) \<times> (string \<Rightarrow> string \<Rightarrow> bytes option)"

definition status_response :: "int \<Rightarrow> bytes \<Rightarrow> http_response" where
  "status_response n d = \<lparr>rs_status = n, rs_get_header = (\<lambda>h. None), rs_body = d\<rparr>"

definition toy_azure_http :: "http_request \<Rightarrow> toy_blobs \<Rightarrow> toy_blobs \<times> http_response option" where
  "toy_azure_http rq w =
     (let u = takeWhile (\<lambda>c. c \<noteq> CHR ''?'') (rq_url rq); q = drop (length u) (rq_url rq); stage = ''?comp=block&blockid=''
      in if rq_method rq = ''PUT'' \<and> take (length stage) q = stage
         then ((fst w, (snd w)(u := (snd w u)(drop (length stage) q \<mapsto> rq_body rq))), Some (status_response 201 []))
         else if rq_method rq = ''PUT'' \<and> q = ''?comp=blocklist''
         then (case those (map (\<lambda>i. snd w u (url_encode i True)) (listed_ids (bytes_text (rq_body rq)))) of
                 Some ds \<Rightarrow> ((fst w)(u \<mapsto> concat ds), snd w)
               | None \<Rightarrow> w, Some (status_response 201 []))
         else (w, Some (case fst w u of Some d \<Rightarrow> status_response 200 d | None \<Rightarrow> status_response 404 [])))"

text \<open>A flag says that the next request gets no answer.\<close>

definition flaky_http :: "http_request \<Rightarrow> bool \<times> toy_blobs \<Rightarrow> (bool \<times> toy_blobs) \<times> http_response option" where
  "flaky_http rq w =
     (if fst w then ((False, snd w), None) else case toy_azure_http rq (snd w) of (b, r) \<Rightarrow> ((False, b), r))"

definition toy_azure :: "(bool \<times> toy_blobs) azure_env" where
  "toy_azure =
     \<lparr>ae_cloud =
        \<lparr>ce_network = True, ce_encryption = False, ce_http = flaky_http, ce_now = (\<lambda>w. (w, 0)),
         ce_random = (\<lambda>n w. (w, replicate n 0)), ce_credentials = (\<lambda>w. None), ce_sha256 = (\<lambda>d. []), ce_hmac_sha256 = (\<lambda>k d. [])\<rparr>,
      ae_injected = False, ae_default_http = flaky_http, ae_mktime = timegm\<rparr>"

lemma toy_azure_simps [simp]:
  "ce_network (ae_cloud toy_azure)" "\<not> ce_encryption (ae_cloud toy_azure)" "ce_http (ae_cloud toy_azure) = flaky_http"
  "ce_now (ae_cloud toy_azure) w = (w, 0)"
  by (simp_all add: toy_azure_def)

lemma take_url: "CHR ''?'' \<notin> set u \<Longrightarrow> takeWhile (\<lambda>c. c \<noteq> CHR ''?'') (u @ CHR ''?'' # r) = u"
  "CHR ''?'' \<notin> set u \<Longrightarrow> takeWhile (\<lambda>c. c \<noteq> CHR ''?'') u = u"
  by (induction u) auto

lemma toy_stage:
  "CHR ''?'' \<notin> set u \<Longrightarrow> rq_method rq = ''PUT'' \<Longrightarrow> rq_url rq = u @ ''?comp=block&blockid='' @ x \<Longrightarrow>
   toy_azure_http rq w = ((fst w, (snd w)(u := (snd w u)(x \<mapsto> rq_body rq))), Some (status_response 201 []))"
  by (simp add: toy_azure_http_def take_url)

lemma toy_commit:
  "CHR ''?'' \<notin> set u \<Longrightarrow> rq_method rq = ''PUT'' \<Longrightarrow> rq_url rq = u @ ''?comp=blocklist'' \<Longrightarrow>
   toy_azure_http rq w =
     (case those (map (\<lambda>i. snd w u (url_encode i True)) (listed_ids (bytes_text (rq_body rq)))) of
        Some ds \<Rightarrow> ((fst w)(u \<mapsto> concat ds), snd w)
      | None \<Rightarrow> w, Some (status_response 201 []))"
  by (simp add: toy_azure_http_def take_url)

lemma toy_blob_read:
  "CHR ''?'' \<notin> set u \<Longrightarrow> rq_method rq \<noteq> ''PUT'' \<Longrightarrow> rq_url rq = u \<Longrightarrow>
   toy_azure_http rq w = (w, Some (case fst w u of Some d \<Rightarrow> status_response 200 d | None \<Rightarrow> status_response 404 []))"
  by (simp add: toy_azure_http_def take_url)

definition toy_staged :: "bool \<times> toy_blobs \<Rightarrow> string \<Rightarrow> string \<Rightarrow> bytes option" where
  "toy_staged w u b = snd (snd w) u (url_encode b True)"

lemma those_map_Some: "map f xs = map Some ys \<Longrightarrow> those (map f xs) = Some ys"
  by (induction xs arbitrary: ys) auto

lemma toy_blob_service: "blob_service toy_azure (fst \<circ> snd) toy_staged"
  unfolding blob_service_def
proof (intro conjI)
  have "x = generate_block_id n" if "url_encode x True = url_encode (generate_block_id n) True" for x n
    using that url_decode_encode by (metis option.inject)
  then show "staging_service toy_azure (fst \<circ> snd) toy_staged"
    unfolding staging_service_def by (auto simp: flaky_http_def toy_stage toy_staged_def split: if_splits)
  show "commit_service toy_azure (fst \<circ> snd) toy_staged"
    unfolding commit_service_def
    by (auto simp: flaky_http_def toy_commit listed_ids_xml toy_staged_def comp_def split: if_splits dest!: those_map_Some)
  show "reading_service toy_azure (fst \<circ> snd)"
    unfolding reading_service_def by (auto simp: flaky_http_def toy_blob_read status_response_def split: option.splits if_splits)
qed (simp_all add: clock_keeps_def)

definition toy_azure_config :: azure_blob_config where
  "toy_azure_config = default_azure_blob_config\<lparr>az_container := ''c'', az_config_account_name := ''a'', sc_endpoint := Some ''http://h'',
     sc_multipart := default_multipart_config\<lparr>mp_threshold := 2, mp_part_size := 4\<rparr>\<rparr>"

definition toy_azure_storage :: azure_storage where
  "toy_azure_storage =
     \<lparr>as_config = toy_azure_config, as_state = Cs_connected, as_stats = zero_cloud_statistics, as_connected_at = 0, as_notified = []\<rparr>"

lemma toy_azure_config_simps [simp]:
  "plain_container toy_azure_config" "mp_part_size (sc_multipart toy_azure_config) = 4" "mp_enabled (sc_multipart toy_azure_config)"
  "mp_threshold (sc_multipart toy_azure_config) = 2" "as_config toy_azure_storage = toy_azure_config" "azure_is_connected toy_azure_storage"
  by (simp_all add: toy_azure_config_def toy_azure_storage_def azure_is_connected_def plain_container_def container_url_def
      get_blob_endpoint_def default_multipart_config_def)

text \<open>Data that fit into one block are only put into the buffer.\<close>

lemma small_write:
  assumes "length data < unat (mp_part_size (sc_multipart cfg))"
  shows "azure_write env sch data (open_azure_upload_stream key cfg) w =
    Some ((open_azure_upload_stream key cfg)\<lparr>ab_buffer := data, ab_bytes_written := word_of_nat (length data)\<rparr>, w, sch, Inr (length data))"
proof -
  let ?u = "open_azure_upload_stream key cfg"
  have fill: "fill_block data ?u = ?u\<lparr>ab_buffer := data\<rparr>" "block_space (?u\<lparr>ab_buffer := data\<rparr>) \<noteq> 0" "drop (block_space ?u) data = []"
    using assms by (auto simp: fill_block_def block_space_def open_azure_upload_stream_def)
  have "azure_write_loop env sch data ?u w = Some (?u\<lparr>ab_buffer := data\<rparr>, w, sch, Inr ())"
  proof (cases "data = []")
    case True
    then show ?thesis by (simp add: azure_write_loop.simps open_azure_upload_stream_def)
  next
    case False
    then show ?thesis using fill
      by (subst azure_write_loop.simps) (simp add: Let_def azure_write_loop.simps [of _ _ "[]"])
  qed
  then show ?thesis by (simp add: azure_write_def open_azure_upload_stream_def)
qed

lemma run_no_blocks: "ab_pending u = [] \<Longrightarrow> run_blocks env ks (u, w) = (u, w)"
  by (induction ks) (simp_all add: run_blocks_def run_block_def)

lemma finalize_one_block:
  assumes "ab_pending u = []" "\<not> ab_finalized u" "\<not> ab_aborted u" "ab_buffer u \<noteq> []"
    and up: "upload_block env (ab_config u) (ab_blob_name u) (generate_block_id (ab_current_block_number u)) (ab_buffer u) w = (w1, q)"
  defines "u1 \<equiv> u\<lparr>ab_block_ids := ab_block_ids u @ [generate_block_id (ab_current_block_number u)]\<rparr>"
  shows "azure_finalize env is js u w =
    (case q of
       Inl e \<Rightarrow> (u1, w1, Inl e)
     | Inr _ \<Rightarrow> (case commit_block_list env (u1\<lparr>ab_pending := [], ab_finalized := True\<rparr>) w1 of
                  (w2, r) \<Rightarrow> (u1\<lparr>ab_pending := [], ab_finalized := True\<rparr>, w2, r)))"
  using assms by (cases q) (simp_all add: azure_finalize_def run_no_blocks upload_last_block_def azure_wait_all_def Let_def)

text \<open>What the service answers to the requests of an upload.\<close>

lemma toy_upload_block:
  "upload_block toy_azure toy_azure_config key (generate_block_id n) d (down, t) =
     (if down then ((False, t), Inl Internal_error)
      else ((False, fst t, (snd t)(blob_request_url toy_azure_config key :=
               (snd t (blob_request_url toy_azure_config key))(url_encode (generate_block_id n) True \<mapsto> d))), Inr ()))"
  using toy_stage [OF plain_blob_url [OF toy_azure_config_simps(1)]]
  by (simp add: upload_block_def azure_request_def block_url_def flaky_http_def status_response_def Let_def)

lemma toy_commit_answers:
  assumes "ab_config u = toy_azure_config"
  shows "\<exists>w r. commit_block_list toy_azure u (False, t) = (w, Inr r)"
  using toy_commit [OF plain_blob_url [OF toy_azure_config_simps(1)]] assms
  by (simp add: commit_block_list_def has_azure_client_def azure_request_def block_list_url_def flaky_http_def status_response_def Let_def ex_bool_eq)

text \<open>A finalisation whose last block could not be sent can be tried again, and then lists that block twice: with a service that keeps
  blocks and blobs, an upload of data that fit into one block stores the data twice and reports its true length.
\<close>

theorem retried_finalize_repeats_block:
  assumes service: "blob_service env obj staged" "plain_container cfg" "ce_network (ae_cloud env)"
    and data: "data \<noteq> []" "length data < unat (mp_part_size (sc_multipart cfg))"
    and wr: "azure_write env sch data (open_azure_upload_stream key cfg) w = Some (u, v, sch', Inr n)"
    and fails: "azure_finalize env is js u v = (u1, v1, Inl e)"
    and again: "azure_finalize env is2 js2 u1 v1 = (u2, v2, Inr r)"
  shows "obj v2 (blob_request_url cfg key) = Some (data @ data) \<and> ur_bytes_uploaded r = word_of_nat (length data)"
proof -
  have u: "ab_config u = cfg" "ab_blob_name u = key" "ab_buffer u = data" "ab_pending u = []" "ab_block_ids u = []"
      "ab_current_block_number u = 0" "\<not> ab_finalized u" "\<not> ab_aborted u" "ab_bytes_written u = word_of_nat (length data)"
    using wr small_write [OF data(2), of env sch key w] by (auto simp: open_azure_upload_stream_def)
  obtain v0 q where up: "upload_block env cfg key (generate_block_id 0) data v = (v0, q)" by (rule prod.exhaust)
  have "\<not> ab_finalized u1" using again by (auto simp: azure_finalize_def split: if_splits)
  then have u1: "u1 = u\<lparr>ab_block_ids := [generate_block_id 0]\<rparr>"
    using finalize_one_block [of u env v v0 q "is" js] up u data(1) fails by (cases q) (auto split: prod.splits)
  obtain v3 q3 where up3: "upload_block env cfg key (generate_block_id 0) data v1 = (v3, q3)" by (rule prod.exhaust)
  let ?u3 = "u\<lparr>ab_block_ids := [generate_block_id 0, generate_block_id 0], ab_pending := [], ab_finalized := True\<rparr>"
  have commit: "q3 = Inr ()" "commit_block_list env ?u3 v3 = (v2, Inr r)"
    using finalize_one_block [of u1 env v1 v3 q3 is2 js2] up3 u u1 data(1) again by (cases q3; auto split: prod.splits)+
  have "staged v3 (blob_request_url cfg key) (generate_block_id 0) = Some data"
    using upload_block_stages [OF service up3] commit(1) by blast
  then have "obj v2 (blob_request_url cfg key) = Some (concat [data, data])"
    using commit_makes_blob [OF service _ _ _ _ commit(2), of key "[0, 0]" "[data, data]"] u by simp
  moreover have "ur_bytes_uploaded r = ab_bytes_written ?u3"
    using commit(2) by (auto simp: commit_block_list_def new_upload_result_def Let_def split: if_splits prod.splits option.splits)
  ultimately show ?thesis using u(9) by simp
qed

theorem block_upload_is_downloaded_witness:
  "\<exists>s1 w1 r. azure_upload toy_azure [] [] [] ''k'' [1, 2, 3] toy_azure_storage (False, Map.empty, \<lambda>u. Map.empty) = Some (s1, w1, Inr r) \<and>
     fst (snd w1) (blob_request_url toy_azure_config ''k'') = Some [1, 2, 3] \<and>
     (\<forall>d. snd (snd (azure_download toy_azure ''k'' toy_azure_storage w1)) = Inr d \<longrightarrow> d = [1, 2, 3])"
proof -
  let ?w = "(False, Map.empty, \<lambda>u. Map.empty) :: bool \<times> toy_blobs"
  let ?u = "(open_azure_upload_stream ''k'' toy_azure_config)\<lparr>ab_buffer := [1, 2, 3], ab_bytes_written := 3\<rparr>"
  have wr: "azure_write toy_azure [] [1, 2, 3] (open_azure_upload_stream ''k'' toy_azure_config) ?w = Some (?u, ?w, [], Inr 3)"
    using small_write [of "[1, 2, 3]" toy_azure_config toy_azure "[]" "''k''" ?w] by simp
  have u: "ab_pending ?u = []" "\<not> ab_finalized ?u" "\<not> ab_aborted ?u" "ab_buffer ?u \<noteq> []" "ab_config ?u = toy_azure_config"
      "ab_blob_name ?u = ''k''" "ab_current_block_number ?u = 0" "ab_block_ids ?u = []" "ab_buffer ?u = [1, 2, 3]"
    by (simp_all add: open_azure_upload_stream_def)
  obtain v where up: "upload_block toy_azure (ab_config ?u) (ab_blob_name ?u) (generate_block_id (ab_current_block_number ?u)) (ab_buffer ?u) ?w =
      ((False, v), Inr ())"
    unfolding u using toy_upload_block [of "''k''" 0 "[1, 2, 3]" False] by simp
  obtain u2 w1 r where fin: "azure_finalize toy_azure [] [] ?u ?w = (u2, w1, Inr r)"
    using finalize_one_block [OF u(1-4) up, of "[]" "[]"] toy_commit_answers [of "?u\<lparr>ab_block_ids := ab_block_ids ?u @ [generate_block_id 0],
      ab_pending := [], ab_finalized := True\<rparr>" v] u(5,7) by (auto simp: Let_def)
  have blocks: "use_block_blob (as_config toy_azure_storage) [1, 2, 3]" by (simp add: use_block_blob_def)
  have up: "azure_upload toy_azure [] [] [] ''k'' [1, 2, 3] toy_azure_storage ?w =
      Some (azure_update_upload_stats 3 toy_azure_storage, w1, Inr r)"
    using wr fin blocks by (simp add: azure_upload_def azure_upload_blocks_def)
  obtain t2 w2 q where down: "azure_download toy_azure ''k'' toy_azure_storage w1 = (t2, w2, q)" by (metis prod.exhaust)
  show ?thesis
    using block_upload_is_downloaded [OF toy_blob_service toy_azure_simps(1) _ blocks up _ _ down] up down by auto
qed

theorem retried_finalize_repeats_block_witness:
  "\<exists>u1 v1 u2 v2 r.
     azure_finalize toy_azure [] [] ((open_azure_upload_stream ''k'' toy_azure_config)\<lparr>ab_buffer := [7, 8], ab_bytes_written := 2\<rparr>)
       (True, Map.empty, \<lambda>u. Map.empty) = (u1, v1, Inl Internal_error) \<and>
     azure_finalize toy_azure [] [] u1 v1 = (u2, v2, Inr r) \<and>
     fst (snd v2) (blob_request_url toy_azure_config ''k'') = Some [7, 8, 7, 8] \<and> ur_bytes_uploaded r = 2"
proof -
  let ?u = "(open_azure_upload_stream ''k'' toy_azure_config)\<lparr>ab_buffer := [7, 8], ab_bytes_written := 2\<rparr>"
  let ?w = "(True, Map.empty, \<lambda>u. Map.empty) :: bool \<times> toy_blobs"
  have wr: "azure_write toy_azure [] [7, 8] (open_azure_upload_stream ''k'' toy_azure_config) ?w = Some (?u, ?w, [], Inr 2)"
    using small_write [of "[7, 8]" toy_azure_config toy_azure "[]" "''k''" ?w] by simp
  let ?u1 = "?u\<lparr>ab_block_ids := [generate_block_id 0]\<rparr>"
  have u: "ab_pending ?u = []" "\<not> ab_finalized ?u" "\<not> ab_aborted ?u" "ab_buffer ?u \<noteq> []" "ab_config ?u = toy_azure_config"
      "ab_blob_name ?u = ''k''" "ab_current_block_number ?u = 0" "ab_block_ids ?u = []" "ab_buffer ?u = [7, 8]"
    by (simp_all add: open_azure_upload_stream_def)
  have up: "upload_block toy_azure (ab_config ?u) (ab_blob_name ?u) (generate_block_id (ab_current_block_number ?u)) (ab_buffer ?u) ?w =
      ((False, Map.empty, \<lambda>u. Map.empty), Inl Internal_error)"
    unfolding u using toy_upload_block [of "''k''" 0 "[7, 8]" True] by simp
  have fails: "azure_finalize toy_azure [] [] ?u ?w = (?u1, (False, Map.empty, \<lambda>u. Map.empty), Inl Internal_error)"
    using finalize_one_block [OF u(1-4) up, of "[]" "[]"] u(7,8) by simp
  obtain v where up1: "upload_block toy_azure (ab_config ?u1) (ab_blob_name ?u1) (generate_block_id (ab_current_block_number ?u1)) (ab_buffer ?u1)
      (False, Map.empty, \<lambda>u. Map.empty) = ((False, v), Inr ())"
    using u toy_upload_block [of "''k''" 0 "[7, 8]" False] by simp
  have u1: "ab_pending ?u1 = []" "\<not> ab_finalized ?u1" "\<not> ab_aborted ?u1" "ab_buffer ?u1 \<noteq> []" "ab_config ?u1 = toy_azure_config"
    using u by simp_all
  obtain u2 v2 r where "azure_finalize toy_azure [] [] ?u1 (False, Map.empty, \<lambda>u. Map.empty) = (u2, v2, Inr r)"
    using finalize_one_block [OF u1(1-4) up1, of "[]" "[]"] toy_commit_answers [of "?u1\<lparr>ab_block_ids := ab_block_ids ?u1 @ [generate_block_id 0],
      ab_pending := [], ab_finalized := True\<rparr>" v] u1(5) u(7) by (auto simp: Let_def)
  then show ?thesis
    using fails retried_finalize_repeats_block [OF toy_blob_service toy_azure_config_simps(1) toy_azure_simps(1) _ _ wr fails, of "[]" "[]" u2 v2 r]
    by (cases v2) auto
qed

end
