(* ===== verification/Spec2Isabelle.thy ===== *)
theory Spec2Isabelle
  imports Chunk_Assembler Resume_Handler Quota_Manager Session_Resumption Connection_Migration Storage_Policy
    Statistics_Collector Client_Batch Cloud_Utils Key_Manager Server_Pipeline File_Transfer_Server S3_Storage S3_Credentials
    Gcs_Facts Azure_Facts
begin

text \<open>
  The file transfer system: splitting files into verified chunks and putting them together again, resumable
  transfers, a client and a server with its pipeline, storage and quotas, encryption and compression, the transport's
  session resumption and connection migration, and the cloud storage clients. All paths below are under \<open>src/\<close>
  (sources) or \<open>include/kcenon/file_transfer/\<close> (headers) of the repository.

  \<^bold>\<open>How the program works, and which theory models which part.\<close>
  A definition bears the name of the function or structure that it translates wherever HOL allows it; a structure
  is a record with the source's fields (with a prefix), an enumeration a datatype, a machine integer a word
  of its width, \<open>result<T>\<close> the sum \<open>error_code + 'a\<close>. Each operation is a function from its object (and the file system,
  clock or other service that it uses) to the new object and its result.

  \<^item> Prelude: integers, hexadecimal and decimal text, \<open>std::stoull\<close> and its kin, byte order, searching in text,
    association lists for the hash maps. Error_Codes: core/types.h, core/error_codes.h. File_System: paths, files as a
    map from paths to contents, and the faults that the environment may show.
  \<^item> Transfer_Id, Checksum, Chunk_Types: core/chunk_types.h, core/transfer_id.cpp, core/checksum.cpp, the data that
    everything else carries. Protocol_Types: the messages of core/protocol_types.h and core/transfer_types.h.
  \<^item> Chunk_Splitter (core/chunk_splitter.cpp) reads a file as numbered chunks with their checksums; Chunk_Assembler
    (core/chunk_assembler.cpp) takes them in any order into a temporary file and delivers it when the announced
    hash agrees. Their composition is \<open>transfer_file\<close> below.
  \<^item> Quoted_Text, Resume_Json and Resume_Handler (core/resume_handler.cpp): text in quotes (also used for the
    JSON of cloud/), the state of an interrupted transfer, its text, and the cache of states over one file for each.
  \<^item> Bandwidth_Limiter (a token bucket), Statistics_Collector (rates over a window), Compression_Engine (LZ4 as a
    parameter): the rest of core/.
  \<^item> Client_Types, File_Transfer_Client, Client_Batch (client/): connection, uploads, downloads, their control and
    waiting, and batches of them.
  \<^item> File_Transfer_Server (server/file_transfer_server.cpp) admits uploads by Quota_Manager (server/quota_manager.cpp);
    Server_Pipeline (server/server_pipeline.cpp, server/pipeline_jobs.cpp) runs the stages of uploaded and requested
    chunks as jobs of a thread pool, any of which may run next.
  \<^item> Storage_Backend, Cloud_Backend, Storage_Manager, Storage_Policy (server/storage_manager.cpp,
    server/storage_policy.cpp): objects in a local directory or behind the cloud interface, the manager that uses a
    primary and a secondary backend, and the rules that move and delete objects on top of it.
  \<^item> Encryption_Types, Aes_Gcm_Engine, Key_Manager (encryption/): configurations, the engine with its streams, and key
    derivation, storage, rotation and usage.
  \<^item> Session_Store, File_Session_Store, Session_Resumption (transport/session_resumption.cpp): session tickets for
    0-RTT; Connection_Migration (transport/connection_migration.cpp): probing network paths and moving to one.
  \<^item> Cloud_Utils, Cloud_Time, Cloud_Types (cloud/cloud_utils.cpp and the headers of cloud/): encodings, calendar,
    configuration; Cloud_Http: requests and signatures; S3_Upload_Stream, S3_Stream_Facts, S3_Storage,
    S3_Credentials (cloud/s3_storage.cpp);
    Gcs_Json, Gcs_Upload_Stream, Gcs_Storage, Gcs_Credentials, Gcs_Facts (cloud/gcs_storage.cpp); Azure_Http, Azure_Streams,
    Azure_Storage, Azure_Credentials, Azure_Facts (cloud/azure_blob_storage.cpp).

  \<^bold>\<open>Interfaces.\<close> Three contracts are locales with their clients' lemmas: \<open>backend_laws\<close> (Storage_Backend) is what the
  storage manager asks of a backend, interpreted on the local backend; \<open>session_store_laws\<close> (Session_Store) is what the
  resumption manager asks of a ticket store, interpreted on the memory store, on the file store and on the choice between
  them; \<open>key_storage_laws\<close> (Key_Manager) is what the key manager asks of a key storage, interpreted on the one in memory.

  \<^bold>\<open>What the lemmas show.\<close>
  \<^item> Transfers: the chunks of a file are exactly its pieces, they reassemble to the file in every order of delivery, a
    damaged chunk or a wrong hash is refused, a session is complete exactly when no chunk is missing.
  \<^item> Formats: what is printed is read back (transfer states, tickets, Base64, HTTP dates, credentials, service accounts, connection strings),
    each with the condition on the contents that the format needs.
  \<^item> Equivalences: the table-driven CRC with the bitwise one, the two SHA-256 implementations with each other, the
    streaming cipher with the one-shot call; the local storage backend refines a map from keys to contents.
  \<^item> Bounds and safety: bytes that the limiter grants in a time, cleaning up no more than the policy allows, rejected
    tickets, legal holds, distinct IVs, what an upload stream announces to the service, the accounting of migrations.
  \<^item> Termination: every loop is structural, has a measure, or has a bound in its statement; where a loop waits for
    others, the theorem names the schedule under which it returns, or states that it never does.

  \<^bold>\<open>Bounds and fuel.\<close> A file of \<open>n\<close> chunks is drained in \<open>Suc n\<close> steps of the iterator. A wait of the limiter
  is a list of rounds; two suffice when nobody else draws tokens. A migration is given the depth of nested fallbacks;
  depth 2 suffices when interfaces do not change. A job of the pipeline leads to at most 4 steps, itself and those it
  submits. The threads of an upload stream run when a schedule lets them: one that lets all pending parts run in
  each of its steps, with a step for each pending part and two for each part that the write fills, is enough for a write to return. In each case \<open>None\<close> is
  the value of a run whose bound was too small, and the theorems state the bound that is enough.

  \<^bold>\<open>Parameters.\<close> What is not in the repository is an argument: OpenSSL (ciphers, digests, key derivation, RSA signatures), LZ4, the HTTP client,
  the messaging library, the thread pool, the random device, clocks, and the operating system's list of network
  interfaces. Hypotheses on them say what their documentation says (a decryption undoes the encryption with the same key,
  a service returns what was stored), and each theorem with such a hypothesis has a witness that instantiates it.
  \<open>double\<close> is exact arithmetic throughout; error messages and log output are left out.

  \<^bold>\<open>Not modelled.\<close> core/logging.h and the adapters only pass text and counters to other libraries; transport/tcp_transport.cpp and
  transport/quic_transport.cpp are calls of sockets and of a QUIC library whose results are all there is to their
  behaviour; cloud/cloud_http_client.cpp forwards to the HTTP library; cloud/cloud_error.h is a table that no
  operation uses; config/feature_flags.h is switches of the preprocessor. Locks are left out where each operation takes
  its lock for one short read or update; operations that overlap on one object are modelled in the pipeline, in the upload streams
  and nowhere else.
\<close>

text \<open>
  A transfer as the parts compose: the sender reads the metadata and the chunks of a file, the
  receiver opens a session with that metadata, takes the chunks in the order the network
  delivers them (\<open>order\<close>) and finalises with the announced hash. \<open>None\<close> if the sender fails.
\<close>

definition transfer_file ::
  "io_env \<Rightarrow> filesystem \<Rightarrow> chunk_config \<Rightarrow> path \<Rightarrow> transfer_id \<Rightarrow> (chunk list \<Rightarrow> chunk list) \<Rightarrow>
   io_env \<Rightarrow> nat list \<Rightarrow> assembler \<times> filesystem \<Rightarrow> ((assembler \<times> filesystem) \<times> path result) option" where
  "transfer_file io_s fs_s cfg p i order io_r rnd s =
     (case (calculate_metadata io_s fs_s cfg p, split_file io_s fs_s cfg p i) of
        (Some (Inr md), Some (Inr it)) \<Rightarrow>
          (case drain (Suc (unat (it_total_chunks it))) it of
             (cl, None) \<Rightarrow>
               (case start_session io_r rnd i (m_filename md) (m_file_size md) (m_total_chunks md) s of
                  (s1, Inl e) \<Rightarrow> Some (s1, Inl e)
                | (s1, Inr _) \<Rightarrow>
                    (case deliver io_r (order cl) s1 of
                       (s2, rs) \<Rightarrow>
                         if list_all (\<lambda>r. \<not> isl r) rs
                         then Some (finalize io_r i (m_sha256_hash md) s2)
                         else Some (s2, Inl Missing_chunks)))
           | (cl, Some e) \<Rightarrow> None)
      | _ \<Rightarrow> None)"

lemma reorder_indices:
  assumes cs: "0 < cs" and len: "length content < 2 ^ 63" and set: "set dl = set (all_chunks cs i content)"
  shows "\<exists>ks. dl = map (nth_chunk cs i content) ks \<and> set ks = {..<num_chunks cs (length content)}"
proof -
  let ?f = "nth_chunk cs i content" and ?g = "\<lambda>c. unat (chunk_index (header c))"
  have g: "unat (word_of_nat k :: u64) = k" if "k < num_chunks cs (length content)" for k
    using that num_chunks_less_2_64 [OF cs len] by (simp add: unat_u64_of_nat)
  have dl: "set dl = ?f ` {..<num_chunks cs (length content)}"
    using set by (auto simp: all_chunks_def lessThan_atLeast0)
  have "map ?f (map ?g dl) = dl"
    unfolding map_map using dl by (intro map_idI) (auto simp: g)
  moreover have "set (map ?g dl) = {..<num_chunks cs (length content)}"
    using dl g by (simp add: image_image)
  ultimately show ?thesis by metis
qed


text \<open>C1: a file that was split, sent in any order and with any repetitions, collected by the
  assembler and finalised against the hash of the sender's metadata is at its final path with
  exactly the bytes of the source file; the temporary file and the session are gone.\<close>

theorem transfer_delivers_file:
  assumes "validate_config cfg = Inr ()" and "fs_s p = Some content" and "length content < 2 ^ 63"
    and "\<not> stat_fails io_s p" and "\<not> open_read_fails io_s p"
    and order: "\<And>cl. set (order cl) = set cl"
    and new: "al_find (contexts a) i = None"
    and tmp: "tmp = path_append (output_dir a) (generate_temp_filename rnd)"
    and final: "final = path_append (output_dir a) (path_filename p)" and neq: "tmp \<noteq> final"
    and io: "\<not> open_write_fails io_r tmp" "\<not> write_fails io_r tmp" "\<not> open_read_fails io_r tmp"
      "\<not> rename_fails io_r tmp final"
  shows "\<exists>a' fs'. transfer_file io_s fs_s cfg p i order io_r rnd (a, fs) = Some ((a', fs'), Inr final) \<and>
           fs' final = Some content \<and> fs' tmp = None \<and> \<not> has_session i a'"
proof -
  define cs where "cs = unat (chunk_size cfg)"
  have cs: "0 < cs"
    using assms(1) by (auto simp: cs_def validate_config_ok word_le_nat_alt)
  obtain it where it: "split_file io_s fs_s cfg p i = Some (Inr it)" "it_at cfg i content 0 it"
    using split_file_at [of cfg fs_s p content io_s i] assms by auto
  have n: "unat (it_total_chunks it) = num_chunks cs (length content)"
    using it(2) num_chunks_less_2_64 [OF cs assms(3)] by (simp add: it_at_def cs_def unat_u64_of_nat)
  have cl: "drain (Suc (unat (it_total_chunks it))) it = (all_chunks cs i content, None)"
    using drain_at [OF assms(1,3) it(2), of "Suc (unat (it_total_chunks it))"] n
    by (simp add: all_chunks_def cs_def)
  obtain ks where ks: "order (all_chunks cs i content) = map (nth_chunk cs i content) ks"
    "set ks = {..<num_chunks cs (length content)}"
    using reorder_indices [OF cs assms(3) order] by blast
  obtain s1 r1 where s1: "start_session io_r rnd i (path_filename p) (word_of_nat (length content))
      (word_of_nat (num_chunks cs (length content))) (a, fs) = (s1, r1)" by fastforce
  obtain s2 rs where s2: "deliver io_r (map (nth_chunk cs i content) ks) s1 = (s2, rs)" by fastforce
  obtain s3 r3 where s3: "finalize io_r i (sha256 content) s2 = (s3, r3)" by fastforce
  note fin = transfer_complete [OF cs assms(3) new tmp final neq io ks(2) _ s1 s2 s3]
  then have "transfer_file io_s fs_s cfg p i order io_r rnd (a, fs) = Some (s3, Inr final)"
    using it(1) cl ks(1) s1 s2 s3 calculate_metadata_at [of cfg fs_s p content io_s] assms(1-5)
    by (simp add: transfer_file_def flip: cs_def) (simp add: list_all_iff)
  then show ?thesis
    using fin by (cases s3) simp
qed

theorem transfer_delivers_file_witness:
  "\<exists>a' fs'. transfer_file reliable [''/in/f'' \<mapsto> [1, 2, 3]] default_chunk_config ''/in/f'' null_id
       (\<lambda>cl. rev cl @ cl) reliable [1, 2] (new_assembler ''/out'', [''/out/f'' \<mapsto> [9]]) =
     Some ((a', fs'), Inr ''/out/f'') \<and>
     fs' ''/out/f'' = Some [1, 2, 3] \<and> fs' (path_append ''/out'' (generate_temp_filename [1, 2])) = None \<and> \<not> has_session null_id a'"
  by (rule transfer_delivers_file)
     (auto simp: validate_config_ok default_chunk_config_def default_chunk_size_def
       new_assembler_def path_append_def generate_temp_filename_def path_filename_def hex_digit_def)

end
